(* ===== verification/Prelude.thy ===== *)
theory Prelude
  imports Main "HOL-Library.Sublist"
begin

text \<open>
  Shared vocabulary of the development: the type synonyms of the model, the Python string
  operations the code uses, keyed tables as lists of rows with the operations a relational
  store gives them, and the generic lemmas and fact collections that the component theories
  share.

  Strings are \<^typ>\<open>string\<close> (lists of 8-bit characters, read as code points below 256). The case
  mapping of \<open>str.lower\<close> and \<open>str.upper\<close> is the ASCII one. A point in time is a number of
  microseconds, the resolution of Python's \<open>datetime\<close>.
\<close>

section \<open>Types and collections\<close>

type_synonym time = int

named_theorems db_simps "how the operations of the store act on its tables"
named_theorems db_intro "preservation of the store invariants"
named_theorems handler_defs "definitions of the request handlers and their guards"

definition seconds :: "int \<Rightarrow> time" where
  "seconds n = n * 1000000"

lemma seconds_mono [simp]: "seconds m \<le> seconds n \<longleftrightarrow> m \<le> n"
  by (simp add: seconds_def)

lemma seconds_0 [simp]: "seconds 0 = 0"
  by (simp add: seconds_def)

text \<open>An \<open>HTTPException(status_code, detail)\<close>, the error value of every handler.\<close>

datatype http_error = HTTPException nat string

primrec status_code :: "http_error \<Rightarrow> nat" where
  "status_code (HTTPException c d) = c"

text \<open>A predicate on the value of a chain of \<open>if\<close>s, branch by branch.\<close>

lemma if_both: "P a \<Longrightarrow> P b \<Longrightarrow> P (if c then a else b)"
  by simp

section \<open>Python strings\<close>

definition code_point :: "char \<Rightarrow> nat" where
  "code_point c = of_char c"

text \<open>The white space of \<open>str.strip()\<close> below code point 256.\<close>

definition is_space :: "char \<Rightarrow> bool" where
  "is_space c \<longleftrightarrow> (let n = code_point c in
     (9 \<le> n \<and> n \<le> 13) \<or> (28 \<le> n \<and> n \<le> 32) \<or> n = 133 \<or> n = 160)"

definition strip_by :: "(char \<Rightarrow> bool) \<Rightarrow> string \<Rightarrow> string" where
  "strip_by P s = rev (dropWhile P (rev (dropWhile P s)))"

definition strip :: "string \<Rightarrow> string" where
  "strip s = strip_by is_space s"

definition lower_char :: "char \<Rightarrow> char" where
  "lower_char c = (let n = code_point c in if 65 \<le> n \<and> n \<le> 90 then char_of (n + 32) else c)"

definition upper_char :: "char \<Rightarrow> char" where
  "upper_char c = (let n = code_point c in if 97 \<le> n \<and> n \<le> 122 then char_of (n - 32) else c)"

definition lower :: "string \<Rightarrow> string" where
  "lower s = map lower_char s"

definition upper :: "string \<Rightarrow> string" where
  "upper s = map upper_char s"

definition startswith :: "string \<Rightarrow> string \<Rightarrow> bool" where
  "startswith s p \<longleftrightarrow> take (length p) s = p"

definition endswith :: "string \<Rightarrow> string \<Rightarrow> bool" where
  "endswith s p \<longleftrightarrow> startswith (rev s) (rev p)"

definition is_digit :: "char \<Rightarrow> bool" where
  "is_digit c \<longleftrightarrow> (let n = code_point c in 48 \<le> n \<and> n \<le> 57)"

definition is_alnum :: "char \<Rightarrow> bool" where
  "is_alnum c \<longleftrightarrow> (let n = code_point c in
     (48 \<le> n \<and> n \<le> 57) \<or> (65 \<le> n \<and> n \<le> 90) \<or> (97 \<le> n \<and> n \<le> 122))"

text \<open>\<open>s.split(sep)\<close> and \<open>s.split(sep, n)\<close> for a one-character separator.\<close>

fun split_char :: "char \<Rightarrow> string \<Rightarrow> string list" where
  "split_char x [] = [[]]"
| "split_char x (c # cs) =
     (if c = x then [] # split_char x cs
      else case split_char x cs of [] \<Rightarrow> [[c]] | w # ws \<Rightarrow> (c # w) # ws)"

fun split_max :: "nat \<Rightarrow> char \<Rightarrow> string \<Rightarrow> string list" where
  "split_max n x [] = [[]]"
| "split_max 0 x (c # cs) = [c # cs]"
| "split_max (Suc n) x (c # cs) =
     (if c = x then [] # split_max n x cs
      else case split_max (Suc n) x cs of [] \<Rightarrow> [[c]] | w # ws \<Rightarrow> (c # w) # ws)"

definition join :: "string \<Rightarrow> string list \<Rightarrow> string" where
  "join sep ws = (case ws of [] \<Rightarrow> [] | w # ws' \<Rightarrow> w @ concat (map (\<lambda>v. sep @ v) ws'))" 

text \<open>Decimal numerals: \<open>str(n)\<close> for an integer.\<close>

definition digit_char :: "nat \<Rightarrow> char" where
  "digit_char d = char_of (48 + d)"

fun str_of_nat :: "nat \<Rightarrow> string" where
  "str_of_nat n = (if n < 10 then [digit_char n] else str_of_nat (n div 10) @ [digit_char (n mod 10)])"

declare str_of_nat.simps [simp del]

definition str_of_int :: "int \<Rightarrow> string" where
  "str_of_int i = (if i < 0 then CHR ''-'' # str_of_nat (nat (- i)) else str_of_nat (nat i))"

definition nat_of_digits :: "string \<Rightarrow> nat" where
  "nat_of_digits s = foldl (\<lambda>a c. 10 * a + (code_point c - 48)) 0 s"

text \<open>Digits with single underscores between them, as \<open>int()\<close> reads them.\<close>

fun underscored :: "(char \<Rightarrow> bool) \<Rightarrow> string \<Rightarrow> bool" where
  "underscored P [] = False"
| "underscored P [c] = P c"
| "underscored P (c # d # s) = (P c \<and> (if d = CHR ''_'' then underscored P s else underscored P (d # s)))"

text \<open>\<open>s.replace(p, "")\<close>.\<close>

function remove_sub :: "string \<Rightarrow> string \<Rightarrow> string" where
  "remove_sub p [] = []"
| "remove_sub p (c # s) =
     (if p \<noteq> [] \<and> startswith (c # s) p then remove_sub p (drop (length p) (c # s))
      else c # remove_sub p s)"
  by pat_completeness auto
termination
  by (relation "measure (\<lambda>(p, s). length s)") (auto simp: Suc_diff_le)

section \<open>Lemmas on strings\<close>

lemma split_char_not_Nil [simp]: "split_char x s \<noteq> []"
  by (induction s) (auto split: list.splits)

lemma split_char_free: "x \<notin> set s \<Longrightarrow> split_char x s = [s]"
  by (induction s) auto

lemma split_char_append:
  "x \<notin> set s \<Longrightarrow> split_char x (s @ x # t) = s # split_char x t"
  by (induction s) auto

lemma split_max_not_Nil [simp]: "split_max n x s \<noteq> []"
  by (induction n x s rule: split_max.induct) (auto split: list.splits)

lemma split_max_free: "x \<notin> set s \<Longrightarrow> split_max n x s = [s]"
  by (induction n x s rule: split_max.induct) auto

lemma split_max_0 [simp]: "split_max 0 x s = [s]"
  by (cases s) auto

lemma split_max_append:
  "x \<notin> set s \<Longrightarrow> split_max (Suc n) x (s @ x # t) = s # split_max n x t"
  by (induction s) auto

lemma startswith_append [simp]: "startswith (p @ s) p"
  by (simp add: startswith_def)

lemma startswith_iff: "startswith s p \<longleftrightarrow> (\<exists>t. s = p @ t)"
  by (metis append_take_drop_id startswith_append startswith_def)

lemma underscored_all: "s \<noteq> [] \<Longrightarrow> list_all P s \<Longrightarrow> CHR ''_'' \<notin> set s \<Longrightarrow> underscored P s"
  by (induction P s rule: underscored.induct) auto

lemma remove_sub_free: "c \<in> set p \<Longrightarrow> c \<notin> set s \<Longrightarrow> remove_sub p s = s"
proof (induction s)
  case (Cons d s)
  have "\<not> startswith (d # s) p"
  proof
    assume "startswith (d # s) p"
    then have "set p \<subseteq> set (d # s)" by (metis startswith_def set_take_subset)
    with Cons.prems show False by blast
  qed
  with Cons show ?case by simp
qed simp

lemma remove_sub_char: "remove_sub [c] s = filter (\<lambda>d. d \<noteq> c) s"
  by (induction s) (auto simp: startswith_def)

lemma strip_Nil [simp]: "strip [] = []"
  by (simp add: strip_def strip_by_def)

lemma strip_by_free:
  assumes "s \<noteq> []" "\<not> P (hd s)" "\<not> P (last s)"
  shows "strip_by P s = s"
proof -
  have "dropWhile P s = s" "dropWhile P (rev s) = rev s"
    using assms by (simp_all add: dropWhile_eq_self_iff hd_rev)
  then show ?thesis by (simp add: strip_by_def)
qed

lemma set_strip_by: "set (strip_by P s) \<subseteq> set s"
proof -
  have "set (dropWhile P t) \<subseteq> set t" for t :: string
    by (meson set_dropWhileD subsetI)
  from this [of "rev (dropWhile P s)"] this [of s] show ?thesis
    by (simp add: strip_by_def subset_trans)
qed

lemma strip_by_ends:
  assumes "strip_by P s \<noteq> []"
  shows "\<not> P (hd (strip_by P s))" "\<not> P (last (strip_by P s))"
proof -
  let ?t = "dropWhile P s" and ?u = "dropWhile P (rev (dropWhile P s))"
  have u: "?u \<noteq> []" using assms by (simp add: strip_by_def)
  have t: "?t \<noteq> []"
  proof
    assume "?t = []"
    with u show False by (simp only: rev.simps dropWhile.simps)
  qed
  have "rev ?t = takeWhile P (rev ?t) @ ?u" by simp
  then have "last (rev ?t) = last ?u" using u by (metis last_append)
  then have "hd (strip_by P s) = hd ?t" using t by (simp add: strip_by_def hd_rev last_rev)
  then show "\<not> P (hd (strip_by P s))" using t by (simp add: hd_dropWhile)
  show "\<not> P (last (strip_by P s))" using u by (simp add: strip_by_def last_rev hd_dropWhile)
qed

lemma strip_by_idem [simp]: "strip_by P (strip_by P s) = strip_by P s"
proof (cases "strip_by P s = []")
  case True
  then show ?thesis by (simp only: True) (simp add: strip_by_def)
next
  case False
  show ?thesis by (rule strip_by_free [OF False strip_by_ends [OF False]])
qed

lemma strip_idem [simp]: "strip (strip s) = strip s"
  by (simp add: strip_def)

lemma lower_Nil [simp]: "lower [] = []"
  by (simp add: lower_def)

lemma lower_append [simp]: "lower (s @ t) = lower s @ lower t"
  by (simp add: lower_def)

lemma length_lower [simp]: "length (lower s) = length s"
  by (simp add: lower_def)

lemma length_upper [simp]: "length (upper s) = length s"
  by (simp add: upper_def)

lemma code_point_char_of [simp]: "n < 256 \<Longrightarrow> code_point (char_of n) = n"
  by (simp add: code_point_def)

lemma lower_char_idem [simp]: "lower_char (lower_char c) = lower_char c"
  by (auto simp: lower_char_def Let_def)

lemma lower_idem [simp]: "lower (lower s) = lower s"
  by (simp add: lower_def)

lemma upper_char_idem [simp]: "upper_char (upper_char c) = upper_char c"
  by (auto simp: upper_char_def Let_def)

lemma upper_idem [simp]: "upper (upper s) = upper s"
  by (simp add: upper_def)

text \<open>Decimal numerals read back to the number that was printed.\<close>

lemma digit_char_digit [simp]: "d < 10 \<Longrightarrow> is_digit (digit_char d)"
  by (simp add: is_digit_def digit_char_def)

lemma digit_char_literals [simp]:
  "digit_char 0 = CHR ''0''" "digit_char 1 = CHR ''1''" "digit_char (Suc 0) = CHR ''1''"
  "digit_char 2 = CHR ''2''" "digit_char 3 = CHR ''3''" "digit_char 4 = CHR ''4''"
  "digit_char 5 = CHR ''5''" "digit_char 6 = CHR ''6''" "digit_char 7 = CHR ''7''"
  "digit_char 8 = CHR ''8''" "digit_char 9 = CHR ''9''"
  by code_simp+

lemma nat_of_digits_snoc: "nat_of_digits (s @ [c]) = 10 * nat_of_digits s + (code_point c - 48)"
  by (simp add: nat_of_digits_def)

lemma str_of_nat_digits: "list_all is_digit (str_of_nat n) \<and> str_of_nat n \<noteq> []"
proof (induction n rule: str_of_nat.induct)
  case (1 n)
  then show ?case by (cases "n < 10") (auto simp: str_of_nat.simps [of n])
qed

lemma nat_of_str_of_nat: "nat_of_digits (str_of_nat n) = n"
proof (induction n rule: str_of_nat.induct)
  case (1 n)
  show ?case
  proof (cases "n < 10")
    case True
    then show ?thesis by (simp add: str_of_nat.simps nat_of_digits_def digit_char_def)
  next
    case False
    then have "nat_of_digits (str_of_nat n) = 10 * (n div 10) + n mod 10"
      using 1 by (simp add: str_of_nat.simps [of n] nat_of_digits_snoc digit_char_def)
    then show ?thesis by simp
  qed
qed

section \<open>Sorting\<close>

lemma insort_key_map: "insort_key k (f x) (map f xs) = map f (insort_key (\<lambda>x. k (f x)) x xs)"
  by (induction xs) auto

lemma sort_key_map: "sort_key k (map f xs) = map f (sort_key (\<lambda>x. k (f x)) xs)"
  by (induction xs) (simp_all add: insort_key_map)

text \<open>The first element that satisfies a predicate.\<close>

lemma find_SomeD: "find P xs = Some x \<Longrightarrow> x \<in> set xs \<and> P x"
  by (auto simp: find_Some_iff)

section \<open>Keyed tables\<close>

text \<open>
  A table is the list of its rows, in insertion order. \<open>select\<close> is a filtered read, \<open>fetch\<close> a
  read by key, \<open>update_where\<close> and \<open>delete_where\<close> are the bulk statements with a condition.
\<close>

definition fetch :: "('r \<Rightarrow> 'k) \<Rightarrow> 'k \<Rightarrow> 'r list \<Rightarrow> 'r option" where
  "fetch key k rs = find (\<lambda>r. key r = k) rs"

definition update_where :: "('r \<Rightarrow> bool) \<Rightarrow> ('r \<Rightarrow> 'r) \<Rightarrow> 'r list \<Rightarrow> 'r list" where
  "update_where P f rs = map (\<lambda>r. if P r then f r else r) rs"

definition delete_where :: "('r \<Rightarrow> bool) \<Rightarrow> 'r list \<Rightarrow> 'r list" where
  "delete_where P rs = filter (\<lambda>r. \<not> P r) rs"

definition count_where :: "('r \<Rightarrow> bool) \<Rightarrow> 'r list \<Rightarrow> int" where
  "count_where P rs = int (length (filter P rs))"

lemma set_update_where: "set (update_where P f rs) = (\<lambda>r. if P r then f r else r) ` set rs"
  by (simp add: update_where_def)

lemma in_update_whereE:
  assumes "r \<in> set (update_where P f rs)"
  obtains r0 where "r0 \<in> set rs" "r = (if P r0 then f r0 else r0)"
  using assms by (auto simp: update_where_def)

lemma set_delete_where [simp]: "set (delete_where P rs) = {r \<in> set rs. \<not> P r}"
  by (auto simp: delete_where_def)

lemma length_update_where [simp]: "length (update_where P f rs) = length rs"
  by (simp add: update_where_def)

lemma map_update_where:
  "(\<And>r. r \<in> set rs \<Longrightarrow> P r \<Longrightarrow> key (f r) = key r) \<Longrightarrow> map key (update_where P f rs) = map key rs"
  by (simp add: update_where_def)

lemma image_update_where:
  assumes "\<And>r. key (f r) = key r"
  shows "key ` set (update_where P f rs) = key ` set rs"
proof -
  have "map key (update_where P f rs) = map key rs" by (rule map_update_where) (rule assms)
  then show ?thesis by (metis set_map)
qed

lemma ball_update_where:
  "(\<And>r. Q (f r) = Q r) \<Longrightarrow> (\<forall>r\<in>set (update_where P f rs). Q r) \<longleftrightarrow> (\<forall>r\<in>set rs. Q r)"
  by (simp only: set_update_where ball_simps if_distrib [of Q] if_cancel)

lemma distinct_delete_where [intro]:
  "distinct (map key rs) \<Longrightarrow> distinct (map key (delete_where P rs))"
  by (simp add: delete_where_def distinct_map_filter)

lemma count_delete_where: "int (length (delete_where P rs)) = int (length rs) - count_where P rs"
proof -
  have "length (filter P rs) + length (filter (\<lambda>r. \<not> P r) rs) = length rs"
    by (rule sum_length_filter_compl)
  then show ?thesis by (simp add: delete_where_def count_where_def)
qed

lemma fetch_Some_iff:
  "distinct (map key rs) \<Longrightarrow> fetch key k rs = Some r \<longleftrightarrow> r \<in> set rs \<and> key r = k"
  by (induction rs) (auto simp: fetch_def)

lemma fetch_SomeD: "fetch key k rs = Some r \<Longrightarrow> r \<in> set rs \<and> key r = k"
  by (auto simp: fetch_def find_Some_iff)

lemma fetch_None_iff: "fetch key k rs = None \<longleftrightarrow> k \<notin> key ` set rs"
  by (auto simp: fetch_def find_None_iff)

lemma fetch_snoc:
  "fetch key k (rs @ [r]) = (case fetch key k rs of Some x \<Rightarrow> Some x
                             | None \<Rightarrow> if key r = k then Some r else None)"
  by (induction rs) (auto simp: fetch_def)

lemma fetch_delete_where:
  assumes "distinct (map key rs)"
  shows "fetch key k (delete_where P rs) = (case fetch key k rs of None \<Rightarrow> None
      | Some r \<Rightarrow> if P r then None else Some r)"
proof (cases "fetch key k rs")
  case None
  then have "fetch key k (delete_where P rs) = None" by (auto simp: fetch_None_iff)
  with None show ?thesis by simp
next
  case (Some r)
  with assms have r: "r \<in> set rs" "key r = k" by (simp_all add: fetch_Some_iff)
  have u: "x = r" if "x \<in> set rs" "key x = k" for x
    using assms r that by (metis distinct_map inj_on_def)
  show ?thesis
  proof (cases "P r")
    case True
    with u have "fetch key k (delete_where P rs) = None" by (auto simp: fetch_None_iff)
    with Some True show ?thesis by simp
  next
    case False
    with r have "fetch key k (delete_where P rs) = Some r"
      by (simp add: fetch_Some_iff assms distinct_delete_where)
    with Some False show ?thesis by simp
  qed
qed

lemma fetch_update_where:
  "(\<And>r. P r \<Longrightarrow> key (f r) = key r) \<Longrightarrow>
   fetch key k (update_where P f rs) = map_option (\<lambda>r. if P r then f r else r) (fetch key k rs)"
  by (induction rs) (auto simp: fetch_def update_where_def)

text \<open>A key picks at most one row out of a table.\<close>

lemma filter_key:
  "distinct (map key rs) \<Longrightarrow>
   filter (\<lambda>r. key r = k) rs = (case fetch key k rs of None \<Rightarrow> [] | Some r \<Rightarrow> [r])"
proof (induction rs)
  case (Cons r rs)
  show ?case
  proof (cases "key r = k")
    case True
    with Cons.prems have "filter (\<lambda>r. key r = k) rs = []" by (auto simp: filter_empty_conv) (metis image_eqI)
    with True show ?thesis by (simp add: fetch_def)
  next
    case False
    with Cons show ?thesis by (simp add: fetch_def)
  qed
qed (simp add: fetch_def)

lemma fetch_the: "k \<in> key ` set rs \<Longrightarrow> fetch key k rs = Some (the (fetch key k rs))"
  by (metis fetch_None_iff option.collapse)

lemma count_where_0: "count_where P rs = 0 \<longleftrightarrow> (\<forall>r\<in>set rs. \<not> P r)"
  by (simp add: count_where_def filter_empty_conv)

lemma count_where_nonneg [simp]: "0 \<le> count_where P rs"
  by (simp add: count_where_def)

lemma count_where_snoc [simp]: "count_where P (rs @ [r]) = count_where P rs + (if P r then 1 else 0)"
  by (simp add: count_where_def)

lemma count_key:
  assumes "distinct (map key rs)"
  shows "count_where (\<lambda>r. key r = k \<and> P r) rs =
     (case fetch key k rs of None \<Rightarrow> 0 | Some r \<Rightarrow> if P r then 1 else 0)"
proof -
  have "filter (\<lambda>r. key r = k \<and> P r) rs = filter P (filter (\<lambda>r. key r = k) rs)"
    by (simp add: conj_commute)
  then show ?thesis
    by (simp add: count_where_def filter_key [OF assms] split: option.splits)
qed

end
