(* ===== verification/Json.thy ===== *)
theory Json
  imports Prelude
begin

text \<open>
  The JSON values that packets carry in \<open>headers\<close>, \<open>data\<close> and \<open>meta\<close>, with Python's view of
  them: truth value, equality (dictionaries compare without regard to order, \<open>True == 1\<close>) and
  the compact rendering of \<open>json.dumps(..., separators=(",", ":"), ensure_ascii=False)\<close> that
  \<open>payload_size_bytes\<close> measures. Numbers are the integers; JSON numbers with a fraction are
  outside the model.
\<close>

datatype json = JNull | JBool bool | JInt int | JStr string | JList "json list"
  | JObj "(string \<times> json) list"

type_synonym dict = "(string \<times> json) list"

section \<open>Well-formed values and Python equality\<close>

text \<open>The keys of a dictionary are distinct, at every depth.\<close>

fun wf_json :: "json \<Rightarrow> bool" where
  "wf_json (JList xs) = list_all wf_json xs"
| "wf_json (JObj kvs) = (distinct (map fst kvs) \<and> list_all (\<lambda>kv. wf_json (snd kv)) kvs)"
| "wf_json _ = True"

definition wf_dict :: "dict \<Rightarrow> bool" where
  "wf_dict d = wf_json (JObj d)"

text \<open>Python numbers its booleans: \<open>True == 1\<close> and \<open>False == 0\<close>.\<close>

fun as_number :: "json \<Rightarrow> int option" where
  "as_number (JBool b) = Some (if b then 1 else 0)"
| "as_number (JInt i) = Some i"
| "as_number _ = None"

fun py_eq :: "json \<Rightarrow> json \<Rightarrow> bool" where
  "py_eq JNull b = (b = JNull)"
| "py_eq (JStr s) b = (b = JStr s)"
| "py_eq (JList xs) b = (case b of JList ys \<Rightarrow> list_all2 py_eq xs ys | _ \<Rightarrow> False)"
| "py_eq (JObj kvs) b = (case b of
     JObj lws \<Rightarrow> length kvs = length lws \<and>
       list_all (\<lambda>kv. case map_of lws (fst kv) of None \<Rightarrow> False | Some w \<Rightarrow> py_eq (snd kv) w) kvs
   | _ \<Rightarrow> False)"
| "py_eq a b = (as_number a = as_number b)"

definition dict_eq :: "dict \<Rightarrow> dict \<Rightarrow> bool" where
  "dict_eq d e = py_eq (JObj d) (JObj e)"

lemma py_eq_refl [simp]: "wf_json a \<Longrightarrow> py_eq a a"
proof (induction a rule: wf_json.induct)
  case (1 xs)
  then show ?case by (simp add: list_all2_same list_all_iff)
next
  case (2 kvs)
  have "map_of kvs (fst kv) = Some (snd kv)" if "kv \<in> set kvs" for kv
    using that 2(2) by (simp add: map_of_eq_Some_iff)
  with 2 show ?case by (auto simp: list_all_iff)
qed simp_all

lemma dict_eq_refl [simp]: "wf_dict d \<Longrightarrow> dict_eq d d"
  by (simp only: dict_eq_def wf_dict_def py_eq_refl)

text \<open>Equality of dictionaries ignores the order of the entries.\<close>

lemma dict_eq_perm:
  assumes "wf_dict d" "set e = set d" "distinct (map fst e)"
  shows "dict_eq d e"
proof -
  have "distinct d" "distinct e" using assms by (auto simp: wf_dict_def distinct_map)
  then have "length d = length e" using assms(2) by (metis distinct_card)
  moreover have "map_of e (fst kv) = Some (snd kv)" if "kv \<in> set d" for kv
    using that assms(2,3) by (simp add: map_of_eq_Some_iff)
  ultimately show ?thesis
    using assms(1) by (auto simp: dict_eq_def wf_dict_def list_all_iff)
qed

section \<open>Rendering\<close>

definition hex_digit :: "nat \<Rightarrow> char" where
  "hex_digit d = (if d < 10 then char_of (48 + d) else char_of (87 + d))"

text \<open>The escapes of \<open>json.encoder.ESCAPE_DCT\<close>; other control characters become \<open>\u00XX\<close>.\<close>

definition escape_char :: "char \<Rightarrow> string" where
  "escape_char c = (let n = code_point c; bs = char_of (92::nat) in
     if n = 34 then [bs, c]
     else if n = 92 then [bs, c]
     else if n = 10 then [bs, CHR ''n'']
     else if n = 13 then [bs, CHR ''r'']
     else if n = 9 then [bs, CHR ''t'']
     else if n = 12 then [bs, CHR ''f'']
     else if n = 8 then [bs, CHR ''b'']
     else if n < 32 then bs # ''u00'' @ [hex_digit (n div 16), hex_digit (n mod 16)]
     else [c])"

definition dumps_str :: "string \<Rightarrow> string" where
  "dumps_str s = (let q = char_of (34::nat) in q # concat (map escape_char s) @ [q])"

fun dumps :: "json \<Rightarrow> string" where
  "dumps JNull = ''null''"
| "dumps (JBool b) = (if b then ''true'' else ''false'')"
| "dumps (JInt i) = str_of_int i"
| "dumps (JStr s) = dumps_str s"
| "dumps (JList xs) = ''['' @ join '','' (map dumps xs) @ '']''"
| "dumps (JObj kvs) =
     ''{'' @ join '','' (map (\<lambda>kv. dumps_str (fst kv) @ '':'' @ dumps (snd kv)) kvs) @ ''}''"

text \<open>\<open>len(s.encode("utf-8"))\<close> for code points below 256.\<close>

definition utf8_length :: "string \<Rightarrow> nat" where
  "utf8_length s = sum_list (map (\<lambda>c. if code_point c < 128 then 1 else 2) s)"

lemma utf8_length_append [simp]: "utf8_length (s @ t) = utf8_length s + utf8_length t"
  by (simp add: utf8_length_def)

lemma utf8_length_ge: "length s \<le> utf8_length s"
  by (induction s) (auto simp: utf8_length_def)

end
