(* ===== verification/Models.thy ===== *)
theory Models
  imports Json
begin

text \<open>
  The store of the server (\<open>app/models.py\<close> and the two admin tables created by
  \<open>app/admin_services.py\<close>): one record per row class with the columns in the source's order,
  and the record \<open>db\<close> of all tables. The store is SQLite with \<open>PRAGMA foreign_keys=ON\<close>: an
  insert that breaks a primary key, a unique constraint or a foreign key is an
  \<open>IntegrityError\<close> (\<^term>\<open>None\<close>), and a deleted row takes the rows with an
  \<open>ON DELETE CASCADE\<close> key to it along. \<open>db_ok\<close> is what these constraints say of a whole store.
\<close>

section \<open>Rows\<close>

record node =
  n_node_id :: string
  n_key_id :: string
  n_api_key_hash :: string
  n_node_name :: "string option"
  n_created_at :: time
  n_status :: string

record endpoint =
  e_endpoint_id :: string
  e_node_id :: string
  e_endpoint_name :: "string option"
  e_kind :: "string option"
  e_meta :: "dict option"
  e_created_at :: time
  e_status :: string

record link =
  l_link_id :: string
  l_endpoint_a_id :: string
  l_endpoint_b_id :: string
  l_mode :: string
  l_created_at :: time
  l_status :: string

record directed_route =
  r_route_id :: string
  r_from_endpoint_id :: string
  r_to_endpoint_id :: string
  r_created_at :: time
  r_status :: string
  r_created_by_link_id :: "string option"

record link_code =
  c_link_code_id :: string
  c_code :: string
  c_source_endpoint_id :: string
  c_requested_mode :: string
  c_created_at :: time
  c_expires_at :: time
  c_status :: string

record packet =
  p_packet_id :: string
  p_version :: int
  p_sender_node_id :: string
  p_from_endpoint_id :: string
  p_to_endpoint_id :: string
  p_headers :: dict
  p_body :: "string option"
  p_data :: dict
  p_meta :: dict
  p_created_at :: time
  p_expires_at :: "time option"
  p_payload_bytes :: int

record delivery =
  d_delivery_id :: string
  d_packet_id :: string
  d_destination_node_id :: string
  d_destination_endpoint_id :: string
  d_queued_at :: time
  d_state :: string
  d_last_attempt_at :: "time option"

record send_event =
  s_event_id :: string
  s_node_id :: string
  s_created_at :: time

record runtime_settings =
  rs_max_storage_bytes :: int
  rs_max_packet_bytes :: int
  rs_max_queued_packets_per_endpoint :: int
  rs_max_queued_bytes_per_endpoint :: int
  rs_max_queued_bytes_per_node :: int
  rs_max_total_queued_packets :: int
  rs_max_total_queued_bytes :: int
  rs_max_inbox_batch :: int
  rs_long_poll_max_seconds :: int
  rs_send_window_seconds :: int
  rs_max_sends_per_window :: int
  rs_default_ip_policy :: string
  rs_updated_at :: time

record ip_rule =
  ip_ip :: string
  ip_action :: string
  ip_reason :: "string option"
  ip_created_at :: time

record db =
  nodes :: "node list"
  endpoints :: "endpoint list"
  links :: "link list"
  directed_routes :: "directed_route list"
  link_codes :: "link_code list"
  packets :: "packet list"
  deliveries :: "delivery list"
  send_events :: "send_event list"
  settings_row :: "runtime_settings option"
  ip_access_rules :: "ip_rule list"

definition empty_db :: db where
  "empty_db = \<lparr>nodes = [], endpoints = [], links = [], directed_routes = [], link_codes = [],
     packets = [], deliveries = [], send_events = [], settings_row = None, ip_access_rules = []\<rparr>"

section \<open>Reads by key\<close>

definition get_node :: "db \<Rightarrow> string \<Rightarrow> node option" where
  "get_node s k = fetch n_node_id k (nodes s)"

definition get_endpoint :: "db \<Rightarrow> string \<Rightarrow> endpoint option" where
  "get_endpoint s k = fetch e_endpoint_id k (endpoints s)"

definition get_link :: "db \<Rightarrow> string \<Rightarrow> link option" where
  "get_link s k = fetch l_link_id k (links s)"

definition get_packet :: "db \<Rightarrow> string \<Rightarrow> packet option" where
  "get_packet s k = fetch p_packet_id k (packets s)"

abbreviation node_ids :: "db \<Rightarrow> string set" where
  "node_ids s \<equiv> n_node_id ` set (nodes s)"

abbreviation endpoint_ids :: "db \<Rightarrow> string set" where
  "endpoint_ids s \<equiv> e_endpoint_id ` set (endpoints s)"

abbreviation link_ids :: "db \<Rightarrow> string set" where
  "link_ids s \<equiv> l_link_id ` set (links s)"

abbreviation packet_ids :: "db \<Rightarrow> string set" where
  "packet_ids s \<equiv> p_packet_id ` set (packets s)"

section \<open>Inserts under the constraints\<close>

definition insert_node :: "node \<Rightarrow> db \<Rightarrow> db option" where
  "insert_node n s =
     (if n_node_id n \<in> node_ids s \<or> n_key_id n \<in> n_key_id ` set (nodes s) then None
      else Some (s\<lparr>nodes := nodes s @ [n]\<rparr>))"

definition insert_endpoint :: "endpoint \<Rightarrow> db \<Rightarrow> db option" where
  "insert_endpoint e s =
     (if e_endpoint_id e \<in> endpoint_ids s \<or> e_node_id e \<notin> node_ids s then None
      else Some (s\<lparr>endpoints := endpoints s @ [e]\<rparr>))"

definition insert_link :: "link \<Rightarrow> db \<Rightarrow> db option" where
  "insert_link l s =
     (if l_link_id l \<in> link_ids s \<or> l_endpoint_a_id l \<notin> endpoint_ids s
         \<or> l_endpoint_b_id l \<notin> endpoint_ids s then None
      else Some (s\<lparr>links := links s @ [l]\<rparr>))"

definition insert_route :: "directed_route \<Rightarrow> db \<Rightarrow> db option" where
  "insert_route r s =
     (if r_route_id r \<in> r_route_id ` set (directed_routes s) \<or> r_from_endpoint_id r \<notin> endpoint_ids s
         \<or> r_to_endpoint_id r \<notin> endpoint_ids s
         \<or> (\<exists>l. r_created_by_link_id r = Some l \<and> l \<notin> link_ids s) then None
      else Some (s\<lparr>directed_routes := directed_routes s @ [r]\<rparr>))"

definition insert_link_code :: "link_code \<Rightarrow> db \<Rightarrow> db option" where
  "insert_link_code c s =
     (if c_link_code_id c \<in> c_link_code_id ` set (link_codes s) \<or> c_code c \<in> c_code ` set (link_codes s)
         \<or> c_source_endpoint_id c \<notin> endpoint_ids s then None
      else Some (s\<lparr>link_codes := link_codes s @ [c]\<rparr>))"

definition insert_packet :: "packet \<Rightarrow> db \<Rightarrow> db option" where
  "insert_packet p s =
     (if p_packet_id p \<in> packet_ids s \<or> p_sender_node_id p \<notin> node_ids s
         \<or> p_from_endpoint_id p \<notin> endpoint_ids s \<or> p_to_endpoint_id p \<notin> endpoint_ids s then None
      else Some (s\<lparr>packets := packets s @ [p]\<rparr>))"

definition insert_delivery :: "delivery \<Rightarrow> db \<Rightarrow> db option" where
  "insert_delivery d s =
     (if d_delivery_id d \<in> d_delivery_id ` set (deliveries s) \<or> d_packet_id d \<in> d_packet_id ` set (deliveries s)
         \<or> d_packet_id d \<notin> packet_ids s \<or> d_destination_node_id d \<notin> node_ids s
         \<or> d_destination_endpoint_id d \<notin> endpoint_ids s then None
      else Some (s\<lparr>deliveries := deliveries s @ [d]\<rparr>))"

definition insert_send_event :: "send_event \<Rightarrow> db \<Rightarrow> db option" where
  "insert_send_event v s =
     (if s_event_id v \<in> s_event_id ` set (send_events s) \<or> s_node_id v \<notin> node_ids s then None
      else Some (s\<lparr>send_events := send_events s @ [v]\<rparr>))"

section \<open>Deletes with their cascades\<close>

definition delete_deliveries :: "(delivery \<Rightarrow> bool) \<Rightarrow> db \<Rightarrow> db" where
  "delete_deliveries P s = s\<lparr>deliveries := delete_where P (deliveries s)\<rparr>"

definition delete_packets :: "(packet \<Rightarrow> bool) \<Rightarrow> db \<Rightarrow> db" where
  "delete_packets P s =
     (let gone = p_packet_id ` set (filter P (packets s)) in
      delete_deliveries (\<lambda>d. d_packet_id d \<in> gone) (s\<lparr>packets := delete_where P (packets s)\<rparr>))"

text \<open>\<open>directed_routes.created_by_link_id\<close> is \<open>ON DELETE SET NULL\<close>.\<close>

definition delete_links :: "(link \<Rightarrow> bool) \<Rightarrow> db \<Rightarrow> db" where
  "delete_links P s =
     (let gone = l_link_id ` set (filter P (links s)) in
      s\<lparr>links := delete_where P (links s),
        directed_routes := update_where (\<lambda>r. \<exists>l\<in>gone. r_created_by_link_id r = Some l)
          (\<lambda>r. r\<lparr>r_created_by_link_id := None\<rparr>) (directed_routes s)\<rparr>)"

definition delete_routes :: "(directed_route \<Rightarrow> bool) \<Rightarrow> db \<Rightarrow> db" where
  "delete_routes P s = s\<lparr>directed_routes := delete_where P (directed_routes s)\<rparr>"

definition delete_link_codes :: "(link_code \<Rightarrow> bool) \<Rightarrow> db \<Rightarrow> db" where
  "delete_link_codes P s = s\<lparr>link_codes := delete_where P (link_codes s)\<rparr>"

definition delete_send_events :: "(send_event \<Rightarrow> bool) \<Rightarrow> db \<Rightarrow> db" where
  "delete_send_events P s = s\<lparr>send_events := delete_where P (send_events s)\<rparr>"

text \<open>Everything that refers to an endpoint in \<^term>\<open>gone\<close>, then the endpoints themselves.\<close>

definition detach_endpoints :: "string set \<Rightarrow> db \<Rightarrow> db" where
  "detach_endpoints gone s =
     delete_deliveries (\<lambda>d. d_destination_endpoint_id d \<in> gone)
    (delete_packets (\<lambda>p. p_from_endpoint_id p \<in> gone \<or> p_to_endpoint_id p \<in> gone)
    (delete_link_codes (\<lambda>c. c_source_endpoint_id c \<in> gone)
    (delete_routes (\<lambda>r. r_from_endpoint_id r \<in> gone \<or> r_to_endpoint_id r \<in> gone)
    (delete_links (\<lambda>l. l_endpoint_a_id l \<in> gone \<or> l_endpoint_b_id l \<in> gone) s))))"

definition delete_endpoints :: "(endpoint \<Rightarrow> bool) \<Rightarrow> db \<Rightarrow> db" where
  "delete_endpoints P s =
     (detach_endpoints (e_endpoint_id ` set (filter P (endpoints s))) s)
       \<lparr>endpoints := delete_where P (endpoints s)\<rparr>"

definition detach_nodes :: "string set \<Rightarrow> db \<Rightarrow> db" where
  "detach_nodes gone s =
     delete_send_events (\<lambda>v. s_node_id v \<in> gone)
    (delete_deliveries (\<lambda>d. d_destination_node_id d \<in> gone)
    (delete_packets (\<lambda>p. p_sender_node_id p \<in> gone)
    (delete_endpoints (\<lambda>e. e_node_id e \<in> gone) s)))"

definition delete_nodes :: "(node \<Rightarrow> bool) \<Rightarrow> db \<Rightarrow> db" where
  "delete_nodes P s =
     (detach_nodes (n_node_id ` set (filter P (nodes s))) s)\<lparr>nodes := delete_where P (nodes s)\<rparr>"

section \<open>The store invariant\<close>

definition keys_ok :: "db \<Rightarrow> bool" where
  "keys_ok s \<longleftrightarrow> distinct (map n_node_id (nodes s)) \<and> distinct (map n_key_id (nodes s))
     \<and> distinct (map e_endpoint_id (endpoints s)) \<and> distinct (map l_link_id (links s))
     \<and> distinct (map r_route_id (directed_routes s))
     \<and> distinct (map c_link_code_id (link_codes s)) \<and> distinct (map c_code (link_codes s))
     \<and> distinct (map p_packet_id (packets s))
     \<and> distinct (map d_delivery_id (deliveries s)) \<and> distinct (map d_packet_id (deliveries s))
     \<and> distinct (map s_event_id (send_events s))"

definition refs_ok :: "db \<Rightarrow> bool" where
  "refs_ok s \<longleftrightarrow> (\<forall>e\<in>set (endpoints s). e_node_id e \<in> node_ids s)
     \<and> (\<forall>l\<in>set (links s). l_endpoint_a_id l \<in> endpoint_ids s \<and> l_endpoint_b_id l \<in> endpoint_ids s)
     \<and> (\<forall>r\<in>set (directed_routes s). r_from_endpoint_id r \<in> endpoint_ids s
          \<and> r_to_endpoint_id r \<in> endpoint_ids s
          \<and> (\<forall>l. r_created_by_link_id r = Some l \<longrightarrow> l \<in> link_ids s))
     \<and> (\<forall>c\<in>set (link_codes s). c_source_endpoint_id c \<in> endpoint_ids s)
     \<and> (\<forall>p\<in>set (packets s). p_sender_node_id p \<in> node_ids s
          \<and> p_from_endpoint_id p \<in> endpoint_ids s \<and> p_to_endpoint_id p \<in> endpoint_ids s)
     \<and> (\<forall>d\<in>set (deliveries s). d_packet_id d \<in> packet_ids s
          \<and> d_destination_node_id d \<in> node_ids s \<and> d_destination_endpoint_id d \<in> endpoint_ids s)
     \<and> (\<forall>v\<in>set (send_events s). s_node_id v \<in> node_ids s)"

definition db_ok :: "db \<Rightarrow> bool" where
  "db_ok s \<longleftrightarrow> keys_ok s \<and> refs_ok s"

lemmas insert_defs = insert_node_def insert_endpoint_def insert_link_def insert_route_def
  insert_link_code_def insert_packet_def insert_delivery_def insert_send_event_def

subsection \<open>What a delete leaves alone\<close>

lemma delete_deliveries_frame [simp]:
  "nodes (delete_deliveries P s) = nodes s"
  "endpoints (delete_deliveries P s) = endpoints s"
  "links (delete_deliveries P s) = links s"
  "directed_routes (delete_deliveries P s) = directed_routes s"
  "link_codes (delete_deliveries P s) = link_codes s"
  "packets (delete_deliveries P s) = packets s"
  "send_events (delete_deliveries P s) = send_events s"
  "settings_row (delete_deliveries P s) = settings_row s"
  "ip_access_rules (delete_deliveries P s) = ip_access_rules s"
  by (simp_all add: delete_deliveries_def Let_def)

lemma delete_packets_frame [simp]:
  "nodes (delete_packets P s) = nodes s"
  "endpoints (delete_packets P s) = endpoints s"
  "links (delete_packets P s) = links s"
  "directed_routes (delete_packets P s) = directed_routes s"
  "link_codes (delete_packets P s) = link_codes s"
  "send_events (delete_packets P s) = send_events s"
  "settings_row (delete_packets P s) = settings_row s"
  "ip_access_rules (delete_packets P s) = ip_access_rules s"
  by (simp_all add: delete_packets_def Let_def)

lemma delete_links_frame [simp]:
  "nodes (delete_links P s) = nodes s"
  "endpoints (delete_links P s) = endpoints s"
  "link_codes (delete_links P s) = link_codes s"
  "packets (delete_links P s) = packets s"
  "deliveries (delete_links P s) = deliveries s"
  "send_events (delete_links P s) = send_events s"
  "settings_row (delete_links P s) = settings_row s"
  "ip_access_rules (delete_links P s) = ip_access_rules s"
  by (simp_all add: delete_links_def Let_def)

lemma delete_routes_frame [simp]:
  "nodes (delete_routes P s) = nodes s"
  "endpoints (delete_routes P s) = endpoints s"
  "links (delete_routes P s) = links s"
  "link_codes (delete_routes P s) = link_codes s"
  "packets (delete_routes P s) = packets s"
  "deliveries (delete_routes P s) = deliveries s"
  "send_events (delete_routes P s) = send_events s"
  "settings_row (delete_routes P s) = settings_row s"
  "ip_access_rules (delete_routes P s) = ip_access_rules s"
  by (simp_all add: delete_routes_def Let_def)

lemma delete_link_codes_frame [simp]:
  "nodes (delete_link_codes P s) = nodes s"
  "endpoints (delete_link_codes P s) = endpoints s"
  "links (delete_link_codes P s) = links s"
  "directed_routes (delete_link_codes P s) = directed_routes s"
  "packets (delete_link_codes P s) = packets s"
  "deliveries (delete_link_codes P s) = deliveries s"
  "send_events (delete_link_codes P s) = send_events s"
  "settings_row (delete_link_codes P s) = settings_row s"
  "ip_access_rules (delete_link_codes P s) = ip_access_rules s"
  by (simp_all add: delete_link_codes_def Let_def)

lemma delete_send_events_frame [simp]:
  "nodes (delete_send_events P s) = nodes s"
  "endpoints (delete_send_events P s) = endpoints s"
  "links (delete_send_events P s) = links s"
  "directed_routes (delete_send_events P s) = directed_routes s"
  "link_codes (delete_send_events P s) = link_codes s"
  "packets (delete_send_events P s) = packets s"
  "deliveries (delete_send_events P s) = deliveries s"
  "settings_row (delete_send_events P s) = settings_row s"
  "ip_access_rules (delete_send_events P s) = ip_access_rules s"
  by (simp_all add: delete_send_events_def Let_def)

lemma detach_endpoints_frame [simp]:
  "nodes (detach_endpoints gone s) = nodes s"
  "endpoints (detach_endpoints gone s) = endpoints s"
  "send_events (detach_endpoints gone s) = send_events s"
  "settings_row (detach_endpoints gone s) = settings_row s"
  "ip_access_rules (detach_endpoints gone s) = ip_access_rules s"
  by (simp_all add: detach_endpoints_def)

lemma delete_endpoints_frame [simp]:
  "nodes (delete_endpoints P s) = nodes s"
  "send_events (delete_endpoints P s) = send_events s"
  "settings_row (delete_endpoints P s) = settings_row s"
  "ip_access_rules (delete_endpoints P s) = ip_access_rules s"
  by (simp_all add: delete_endpoints_def)

lemma detach_nodes_frame [simp]:
  "nodes (detach_nodes gone s) = nodes s"
  "settings_row (detach_nodes gone s) = settings_row s"
  "ip_access_rules (detach_nodes gone s) = ip_access_rules s"
  by (simp_all add: detach_nodes_def)

lemma delete_nodes_frame [simp]:
  "settings_row (delete_nodes P s) = settings_row s"
  "ip_access_rules (delete_nodes P s) = ip_access_rules s"
  by (simp_all add: delete_nodes_def)

text \<open>What a delete does to the tables it touches.\<close>

lemma delete_targets [simp]:
  "deliveries (delete_deliveries P s) = delete_where P (deliveries s)"
  "packets (delete_packets Q s) = delete_where Q (packets s)"
  "deliveries (delete_packets Q s) =
     delete_where (\<lambda>d. d_packet_id d \<in> p_packet_id ` set (filter Q (packets s))) (deliveries s)"
  "links (delete_links R s) = delete_where R (links s)"
  "directed_routes (delete_routes T s) = delete_where T (directed_routes s)"
  "link_codes (delete_link_codes U s) = delete_where U (link_codes s)"
  "send_events (delete_send_events V s) = delete_where V (send_events s)"
  "endpoints (delete_endpoints W s) = delete_where W (endpoints s)"
  "nodes (delete_nodes X s) = delete_where X (nodes s)"
  by (simp_all add: delete_deliveries_def delete_packets_def delete_links_def delete_routes_def
      delete_link_codes_def delete_send_events_def delete_endpoints_def delete_nodes_def Let_def)

lemma db_ok_empty [db_intro]: "db_ok empty_db"
  by (simp add: db_ok_def keys_ok_def refs_ok_def empty_db_def)

subsection \<open>Inserts keep it\<close>

lemma insert_node_ok: "db_ok s \<Longrightarrow> insert_node n s = Some t \<Longrightarrow> db_ok t"
  by (clarsimp simp: insert_node_def db_ok_def keys_ok_def refs_ok_def split: if_splits)

lemma insert_endpoint_ok: "db_ok s \<Longrightarrow> insert_endpoint e s = Some t \<Longrightarrow> db_ok t"
  by (clarsimp simp: insert_endpoint_def db_ok_def keys_ok_def refs_ok_def split: if_splits)

lemma insert_link_ok: "db_ok s \<Longrightarrow> insert_link l s = Some t \<Longrightarrow> db_ok t"
  by (clarsimp simp: insert_link_def db_ok_def keys_ok_def refs_ok_def split: if_splits)

lemma insert_route_ok: "db_ok s \<Longrightarrow> insert_route r s = Some t \<Longrightarrow> db_ok t"
  by (clarsimp simp: insert_route_def db_ok_def keys_ok_def refs_ok_def split: if_splits)

lemma insert_link_code_ok: "db_ok s \<Longrightarrow> insert_link_code c s = Some t \<Longrightarrow> db_ok t"
  by (clarsimp simp: insert_link_code_def db_ok_def keys_ok_def refs_ok_def split: if_splits)

lemma insert_packet_ok: "db_ok s \<Longrightarrow> insert_packet p s = Some t \<Longrightarrow> db_ok t"
  by (clarsimp simp: insert_packet_def db_ok_def keys_ok_def refs_ok_def split: if_splits)

lemma insert_delivery_ok: "db_ok s \<Longrightarrow> insert_delivery d s = Some t \<Longrightarrow> db_ok t"
  by (clarsimp simp: insert_delivery_def db_ok_def keys_ok_def refs_ok_def split: if_splits)

lemma insert_send_event_ok: "db_ok s \<Longrightarrow> insert_send_event v s = Some t \<Longrightarrow> db_ok t"
  by (clarsimp simp: insert_send_event_def db_ok_def keys_ok_def refs_ok_def split: if_splits)

lemmas insert_oks = insert_node_ok insert_endpoint_ok insert_link_ok insert_route_ok
  insert_link_code_ok insert_packet_ok insert_delivery_ok insert_send_event_ok

subsection \<open>Deletes keep it\<close>

text \<open>A key that is referred to and is not deleted is still there.\<close>

lemma key_survives:
  "k \<in> key ` A \<Longrightarrow> k \<notin> key ` {x \<in> A. P x} \<Longrightarrow> k \<in> key ` {x \<in> A. \<not> P x}"
  by auto

lemma db_okI [intro]: "keys_ok s \<Longrightarrow> refs_ok s \<Longrightarrow> db_ok s"
  by (simp add: db_ok_def)

lemma delete_deliveries_ok [db_intro]: "db_ok s \<Longrightarrow> db_ok (delete_deliveries P s)"
  by (auto simp: db_ok_def keys_ok_def refs_ok_def distinct_delete_where)

lemma delete_routes_ok [db_intro]: "db_ok s \<Longrightarrow> db_ok (delete_routes P s)"
  by (auto simp: db_ok_def keys_ok_def refs_ok_def distinct_delete_where)

lemma delete_link_codes_ok [db_intro]: "db_ok s \<Longrightarrow> db_ok (delete_link_codes P s)"
  by (auto simp: db_ok_def keys_ok_def refs_ok_def distinct_delete_where)

lemma delete_send_events_ok [db_intro]: "db_ok s \<Longrightarrow> db_ok (delete_send_events P s)"
  by (auto simp: db_ok_def keys_ok_def refs_ok_def distinct_delete_where)

lemma delete_packets_ok [db_intro]:
  assumes "db_ok s"
  shows "db_ok (delete_packets P s)"
proof
  show "keys_ok (delete_packets P s)"
    using assms by (simp add: db_ok_def keys_ok_def distinct_delete_where)
  have "d_packet_id d \<in> packet_ids (delete_packets P s)"
    if "d \<in> set (deliveries (delete_packets P s))" for d
  proof -
    from that assms have "d_packet_id d \<in> packet_ids s"
      and "d_packet_id d \<notin> p_packet_id ` {p \<in> set (packets s). P p}"
      by (simp_all add: db_ok_def refs_ok_def)
    then show ?thesis by (simp add: key_survives)
  qed
  then show "refs_ok (delete_packets P s)"
    using assms by (simp add: db_ok_def refs_ok_def)
qed

lemma delete_links_ok [db_intro]:
  assumes "db_ok s"
  shows "db_ok (delete_links P s)"
proof
  have "map r_route_id (directed_routes (delete_links P s)) = map r_route_id (directed_routes s)"
    by (simp add: delete_links_def Let_def map_update_where)
  then show "keys_ok (delete_links P s)"
    using assms by (simp add: db_ok_def keys_ok_def distinct_delete_where)
  have "r_from_endpoint_id r \<in> endpoint_ids s \<and> r_to_endpoint_id r \<in> endpoint_ids s
      \<and> (\<forall>l. r_created_by_link_id r = Some l \<longrightarrow> l \<in> link_ids (delete_links P s))"
    if "r \<in> set (directed_routes (delete_links P s))" for r
  proof -
    let ?gone = "l_link_id ` set (filter P (links s))"
    from that obtain r0 where r0: "r0 \<in> set (directed_routes s)"
      and r: "r = (if \<exists>l\<in>?gone. r_created_by_link_id r0 = Some l
                   then r0\<lparr>r_created_by_link_id := None\<rparr> else r0)"
      unfolding delete_links_def Let_def by (simp del: set_filter) (erule in_update_whereE)
    from r0 assms have "r_from_endpoint_id r0 \<in> endpoint_ids s" "r_to_endpoint_id r0 \<in> endpoint_ids s"
      "\<And>l. r_created_by_link_id r0 = Some l \<Longrightarrow> l \<in> link_ids s"
      by (auto simp: db_ok_def refs_ok_def)
    then show ?thesis unfolding r by (auto intro!: key_survives)
  qed
  then show "refs_ok (delete_links P s)"
    using assms by (simp add: db_ok_def refs_ok_def)
qed

text \<open>
  The two cascades that remove the target of several foreign keys: first every reference goes,
  then the row itself, so the rows that stay refer to rows that stay.
\<close>

lemma drop_endpoints_ok:
  assumes ok: "db_ok s"
    and links: "\<forall>l\<in>set (links s). l_endpoint_a_id l \<notin> gone \<and> l_endpoint_b_id l \<notin> gone"
    and routes: "\<forall>r\<in>set (directed_routes s). r_from_endpoint_id r \<notin> gone \<and> r_to_endpoint_id r \<notin> gone"
    and codes: "\<forall>c\<in>set (link_codes s). c_source_endpoint_id c \<notin> gone"
    and packets: "\<forall>p\<in>set (packets s). p_from_endpoint_id p \<notin> gone \<and> p_to_endpoint_id p \<notin> gone"
    and deliveries: "\<forall>d\<in>set (deliveries s). d_destination_endpoint_id d \<notin> gone"
    and gone: "gone = e_endpoint_id ` set (filter P (endpoints s))"
  shows "db_ok (s\<lparr>endpoints := delete_where P (endpoints s)\<rparr>)" (is "db_ok ?t")
proof
  show "keys_ok ?t" using ok by (simp add: db_ok_def keys_ok_def distinct_delete_where)
  have stay: "k \<in> endpoint_ids ?t" if "k \<in> endpoint_ids s" "k \<notin> gone" for k
    using key_survives [of k e_endpoint_id "set (endpoints s)" P] that by (simp add: gone)
  have r: "refs_ok s" using ok by (simp add: db_ok_def)
  show "refs_ok ?t"
    unfolding refs_ok_def
  proof (intro conjI)
    show "\<forall>e\<in>set (endpoints ?t). e_node_id e \<in> node_ids ?t" using r by (simp add: refs_ok_def)
    show "\<forall>l\<in>set (links ?t). l_endpoint_a_id l \<in> endpoint_ids ?t \<and> l_endpoint_b_id l \<in> endpoint_ids ?t"
      using r links stay by (simp add: refs_ok_def)
    show "\<forall>r\<in>set (directed_routes ?t). r_from_endpoint_id r \<in> endpoint_ids ?t
        \<and> r_to_endpoint_id r \<in> endpoint_ids ?t
        \<and> (\<forall>l. r_created_by_link_id r = Some l \<longrightarrow> l \<in> link_ids ?t)"
      using r routes stay by (simp add: refs_ok_def)
    show "\<forall>c\<in>set (link_codes ?t). c_source_endpoint_id c \<in> endpoint_ids ?t"
      using r codes stay by (simp add: refs_ok_def)
    show "\<forall>p\<in>set (packets ?t). p_sender_node_id p \<in> node_ids ?t
        \<and> p_from_endpoint_id p \<in> endpoint_ids ?t \<and> p_to_endpoint_id p \<in> endpoint_ids ?t"
      using r packets stay by (simp add: refs_ok_def)
    show "\<forall>d\<in>set (deliveries ?t). d_packet_id d \<in> packet_ids ?t
        \<and> d_destination_node_id d \<in> node_ids ?t \<and> d_destination_endpoint_id d \<in> endpoint_ids ?t"
      using r deliveries stay by (simp add: refs_ok_def)
    show "\<forall>v\<in>set (send_events ?t). s_node_id v \<in> node_ids ?t" using r by (simp add: refs_ok_def)
  qed
qed

lemma detach_endpoints_ok [db_intro]: "db_ok s \<Longrightarrow> db_ok (detach_endpoints gone s)"
  unfolding detach_endpoints_def by (intro db_intro)

lemma detach_endpoints_clean:
  "\<forall>l\<in>set (links (detach_endpoints gone s)). l_endpoint_a_id l \<notin> gone \<and> l_endpoint_b_id l \<notin> gone"
  "\<forall>r\<in>set (directed_routes (detach_endpoints gone s)).
     r_from_endpoint_id r \<notin> gone \<and> r_to_endpoint_id r \<notin> gone"
  "\<forall>c\<in>set (link_codes (detach_endpoints gone s)). c_source_endpoint_id c \<notin> gone"
  "\<forall>p\<in>set (packets (detach_endpoints gone s)). p_from_endpoint_id p \<notin> gone \<and> p_to_endpoint_id p \<notin> gone"
  "\<forall>d\<in>set (deliveries (detach_endpoints gone s)). d_destination_endpoint_id d \<notin> gone"
  by (auto simp: detach_endpoints_def)

lemma delete_endpoints_ok [db_intro]:
  assumes "db_ok s"
  shows "db_ok (delete_endpoints P s)"
proof -
  let ?u = "detach_endpoints (e_endpoint_id ` set (filter P (endpoints s))) s"
  have "db_ok (?u\<lparr>endpoints := delete_where P (endpoints ?u)\<rparr>)"
    by (rule drop_endpoints_ok [OF detach_endpoints_ok [OF assms] detach_endpoints_clean]) simp
  then show ?thesis by (simp add: delete_endpoints_def)
qed

lemma drop_nodes_ok:
  assumes ok: "db_ok s"
    and endpoints: "\<forall>e\<in>set (endpoints s). e_node_id e \<notin> gone"
    and packets: "\<forall>p\<in>set (packets s). p_sender_node_id p \<notin> gone"
    and deliveries: "\<forall>d\<in>set (deliveries s). d_destination_node_id d \<notin> gone"
    and events: "\<forall>v\<in>set (send_events s). s_node_id v \<notin> gone"
    and gone: "gone = n_node_id ` set (filter P (nodes s))"
  shows "db_ok (s\<lparr>nodes := delete_where P (nodes s)\<rparr>)" (is "db_ok ?t")
proof
  show "keys_ok ?t" using ok by (simp add: db_ok_def keys_ok_def distinct_delete_where)
  have stay: "k \<in> node_ids ?t" if "k \<in> node_ids s" "k \<notin> gone" for k
    using key_survives [of k n_node_id "set (nodes s)" P] that by (simp add: gone)
  have r: "refs_ok s" using ok by (simp add: db_ok_def)
  show "refs_ok ?t"
    unfolding refs_ok_def
  proof (intro conjI)
    show "\<forall>e\<in>set (endpoints ?t). e_node_id e \<in> node_ids ?t"
      using r endpoints stay by (simp add: refs_ok_def)
    show "\<forall>p\<in>set (packets ?t). p_sender_node_id p \<in> node_ids ?t
        \<and> p_from_endpoint_id p \<in> endpoint_ids ?t \<and> p_to_endpoint_id p \<in> endpoint_ids ?t"
      using r packets stay by (simp add: refs_ok_def)
    show "\<forall>d\<in>set (deliveries ?t). d_packet_id d \<in> packet_ids ?t
        \<and> d_destination_node_id d \<in> node_ids ?t \<and> d_destination_endpoint_id d \<in> endpoint_ids ?t"
      using r deliveries stay by (simp add: refs_ok_def)
    show "\<forall>v\<in>set (send_events ?t). s_node_id v \<in> node_ids ?t"
      using r events stay by (simp add: refs_ok_def)
  qed (use r in \<open>simp_all add: refs_ok_def\<close>)
qed

lemma detach_nodes_ok [db_intro]: "db_ok s \<Longrightarrow> db_ok (detach_nodes gone s)"
  unfolding detach_nodes_def by (intro db_intro)

lemma detach_nodes_clean:
  "\<forall>e\<in>set (endpoints (detach_nodes gone s)). e_node_id e \<notin> gone"
  "\<forall>p\<in>set (packets (detach_nodes gone s)). p_sender_node_id p \<notin> gone"
  "\<forall>d\<in>set (deliveries (detach_nodes gone s)). d_destination_node_id d \<notin> gone"
  "\<forall>v\<in>set (send_events (detach_nodes gone s)). s_node_id v \<notin> gone"
  by (auto simp: detach_nodes_def)

lemma delete_nodes_ok [db_intro]:
  assumes "db_ok s"
  shows "db_ok (delete_nodes P s)"
proof -
  let ?u = "detach_nodes (n_node_id ` set (filter P (nodes s))) s"
  have "db_ok (?u\<lparr>nodes := delete_where P (nodes ?u)\<rparr>)"
    by (rule drop_nodes_ok [OF detach_nodes_ok [OF assms] detach_nodes_clean]) simp
  then show ?thesis by (simp add: delete_nodes_def)
qed

subsection \<open>Updates that keep the keys keep it\<close>

lemma update_nodes_ok:
  assumes "db_ok s"
    and keep: "\<And>n. n_node_id (f n) = n_node_id n" "\<And>n. n_key_id (f n) = n_key_id n"
  shows "db_ok (s\<lparr>nodes := update_where P f (nodes s)\<rparr>)"
  using assms(1) by (simp add: db_ok_def keys_ok_def refs_ok_def map_update_where
      image_update_where [of n_node_id f, OF keep(1)] keep)

lemma update_links_ok:
  assumes "db_ok s"
    and keep: "\<And>l. l_link_id (f l) = l_link_id l" "\<And>l. l_endpoint_a_id (f l) = l_endpoint_a_id l"
      "\<And>l. l_endpoint_b_id (f l) = l_endpoint_b_id l"
  shows "db_ok (s\<lparr>links := update_where P f (links s)\<rparr>)"
proof
  show "keys_ok (s\<lparr>links := update_where P f (links s)\<rparr>)"
    using assms by (simp add: db_ok_def keys_ok_def map_update_where)
  show "refs_ok (s\<lparr>links := update_where P f (links s)\<rparr>)"
    using assms(1) by (simp add: db_ok_def refs_ok_def image_update_where [of l_link_id f, OF keep(1)]
      ball_update_where keep)
qed

lemma update_routes_ok:
  assumes "db_ok s"
    and keep: "\<And>r. r_route_id (f r) = r_route_id r" "\<And>r. r_from_endpoint_id (f r) = r_from_endpoint_id r"
      "\<And>r. r_to_endpoint_id (f r) = r_to_endpoint_id r"
      "\<And>r. r_created_by_link_id (f r) = r_created_by_link_id r"
  shows "db_ok (s\<lparr>directed_routes := update_where P f (directed_routes s)\<rparr>)"
proof
  show "keys_ok (s\<lparr>directed_routes := update_where P f (directed_routes s)\<rparr>)"
    using assms by (simp add: db_ok_def keys_ok_def map_update_where)
  show "refs_ok (s\<lparr>directed_routes := update_where P f (directed_routes s)\<rparr>)"
    using assms(1) by (simp add: db_ok_def refs_ok_def ball_update_where keep)
qed

lemma update_codes_ok:
  assumes "db_ok s"
    and keep: "\<And>c. c_link_code_id (f c) = c_link_code_id c" "\<And>c. c_code (f c) = c_code c"
      "\<And>c. c_source_endpoint_id (f c) = c_source_endpoint_id c"
  shows "db_ok (s\<lparr>link_codes := update_where P f (link_codes s)\<rparr>)"
proof
  show "keys_ok (s\<lparr>link_codes := update_where P f (link_codes s)\<rparr>)"
    using assms by (simp add: db_ok_def keys_ok_def map_update_where)
  show "refs_ok (s\<lparr>link_codes := update_where P f (link_codes s)\<rparr>)"
    using assms(1) by (simp add: db_ok_def refs_ok_def ball_update_where keep)
qed

lemmas update_oks = update_nodes_ok update_links_ok update_routes_ok update_codes_ok

end
