(* ===== verification/Config.thy ===== *)
theory Config
  imports Json
begin

text \<open>
  The server configuration (\<open>app/config.py\<close>): one record per dataclass with its defaults, the
  overlay of a parsed TOML document on them and the validation of the observability modes. A
  TOML table is a dictionary; \<^term>\<open>None\<close> as the result of an overlay is a value of another type
  than the field's, which is outside the model.
\<close>

record server_config =
  sv_host :: string
  sv_port :: int
  sv_app_name :: string
  sv_api_key_header :: string

record storage_config =
  st_db_path :: string
  st_sqlite_wal :: bool
  st_sqlite_busy_timeout_ms :: int

record retention_config =
  rt_default_packet_ttl_seconds :: int
  rt_no_expiry :: bool
  rt_link_code_ttl_seconds :: int

record limits_config =
  lm_max_storage_bytes :: int
  lm_max_packet_bytes :: int
  lm_max_queued_packets_per_endpoint :: int
  lm_max_queued_bytes_per_endpoint :: int
  lm_max_queued_bytes_per_node :: int
  lm_max_total_queued_packets :: int
  lm_max_total_queued_bytes :: int
  lm_max_inbox_batch :: int
  lm_long_poll_max_seconds :: int

record rate_limit_config =
  rl_send_window_seconds :: int
  rl_max_sends_per_window :: int

record network_config =
  nw_trusted_proxies :: "string list"
  nw_trusted_forwarded_headers :: "string list"
  nw_ip_access_mode :: string

record maintenance_config =
  mt_cleanup_interval_seconds :: int

record observability_config =
  ob_health_mode :: string
  ob_stats_mode :: string

record blacklist_config =
  bl_client_ips :: "string list"
  bl_node_ids :: "string list"

record app_config =
  cf_server :: server_config
  cf_storage :: storage_config
  cf_retention :: retention_config
  cf_limits :: limits_config
  cf_rate_limit :: rate_limit_config
  cf_network :: network_config
  cf_maintenance :: maintenance_config
  cf_observability :: observability_config
  cf_blacklist :: blacklist_config

section \<open>Defaults\<close>

definition default_server :: server_config where
  "default_server = \<lparr>sv_host = ''0.0.0.0'', sv_port = 8080, sv_app_name = ''ARQS Server'',
     sv_api_key_header = ''X-ARQS-API-Key''\<rparr>"

definition default_storage :: storage_config where
  "default_storage = \<lparr>st_db_path = ''/data/arqs.db'', st_sqlite_wal = True,
     st_sqlite_busy_timeout_ms = 5000\<rparr>"

definition default_retention :: retention_config where
  "default_retention = \<lparr>rt_default_packet_ttl_seconds = 30 * 24 * 60 * 60, rt_no_expiry = False,
     rt_link_code_ttl_seconds = 10 * 60\<rparr>"

definition default_limits :: limits_config where
  "default_limits = \<lparr>lm_max_storage_bytes = 40 * 1024 * 1024 * 1024, lm_max_packet_bytes = 256 * 1024,
     lm_max_queued_packets_per_endpoint = 10000,
     lm_max_queued_bytes_per_endpoint = 1 * 1024 * 1024 * 1024,
     lm_max_queued_bytes_per_node = 5 * 1024 * 1024 * 1024, lm_max_total_queued_packets = 100000,
     lm_max_total_queued_bytes = 40 * 1024 * 1024 * 1024, lm_max_inbox_batch = 200,
     lm_long_poll_max_seconds = 30\<rparr>"

definition default_rate_limit :: rate_limit_config where
  "default_rate_limit = \<lparr>rl_send_window_seconds = 60, rl_max_sends_per_window = 600\<rparr>"

definition default_network :: network_config where
  "default_network = \<lparr>nw_trusted_proxies = [],
     nw_trusted_forwarded_headers = [''x-forwarded-for'', ''x-real-ip''],
     nw_ip_access_mode = ''dynamic''\<rparr>"

definition default_maintenance :: maintenance_config where
  "default_maintenance = \<lparr>mt_cleanup_interval_seconds = 60\<rparr>"

definition default_observability :: observability_config where
  "default_observability = \<lparr>ob_health_mode = ''public'', ob_stats_mode = ''public''\<rparr>"

definition default_blacklist :: blacklist_config where
  "default_blacklist = \<lparr>bl_client_ips = [], bl_node_ids = []\<rparr>"

definition default_config :: app_config where
  "default_config = \<lparr>cf_server = default_server, cf_storage = default_storage,
     cf_retention = default_retention, cf_limits = default_limits,
     cf_rate_limit = default_rate_limit, cf_network = default_network,
     cf_maintenance = default_maintenance, cf_observability = default_observability,
     cf_blacklist = default_blacklist\<rparr>"

section \<open>Overlay of a TOML document\<close>

fun as_str :: "json \<Rightarrow> string option" where
  "as_str (JStr s) = Some s"
| "as_str _ = None"

fun as_int :: "json \<Rightarrow> int option" where
  "as_int (JInt i) = Some i"
| "as_int _ = None"

fun as_bool :: "json \<Rightarrow> bool option" where
  "as_bool (JBool b) = Some b"
| "as_bool _ = None"

fun as_strs :: "json \<Rightarrow> string list option" where
  "as_strs (JList xs) = those (map as_str xs)"
| "as_strs _ = None"

text \<open>\<open>hasattr\<close>/\<open>setattr\<close> on each dataclass: a key that is no field leaves the instance as it is.\<close>

definition set_server :: "string \<Rightarrow> json \<Rightarrow> server_config \<Rightarrow> server_config option" where
  "set_server k v c =
     (if k = ''host'' then map_option (\<lambda>x. c\<lparr>sv_host := x\<rparr>) (as_str v)
      else if k = ''port'' then map_option (\<lambda>x. c\<lparr>sv_port := x\<rparr>) (as_int v)
      else if k = ''app_name'' then map_option (\<lambda>x. c\<lparr>sv_app_name := x\<rparr>) (as_str v)
      else if k = ''api_key_header'' then map_option (\<lambda>x. c\<lparr>sv_api_key_header := x\<rparr>) (as_str v)
      else Some c)"

definition set_storage :: "string \<Rightarrow> json \<Rightarrow> storage_config \<Rightarrow> storage_config option" where
  "set_storage k v c =
     (if k = ''db_path'' then map_option (\<lambda>x. c\<lparr>st_db_path := x\<rparr>) (as_str v)
      else if k = ''sqlite_wal'' then map_option (\<lambda>x. c\<lparr>st_sqlite_wal := x\<rparr>) (as_bool v)
      else if k = ''sqlite_busy_timeout_ms''
        then map_option (\<lambda>x. c\<lparr>st_sqlite_busy_timeout_ms := x\<rparr>) (as_int v)
      else Some c)"

definition set_retention :: "string \<Rightarrow> json \<Rightarrow> retention_config \<Rightarrow> retention_config option" where
  "set_retention k v c =
     (if k = ''default_packet_ttl_seconds''
        then map_option (\<lambda>x. c\<lparr>rt_default_packet_ttl_seconds := x\<rparr>) (as_int v)
      else if k = ''no_expiry'' then map_option (\<lambda>x. c\<lparr>rt_no_expiry := x\<rparr>) (as_bool v)
      else if k = ''link_code_ttl_seconds''
        then map_option (\<lambda>x. c\<lparr>rt_link_code_ttl_seconds := x\<rparr>) (as_int v)
      else Some c)"

definition set_limits :: "string \<Rightarrow> json \<Rightarrow> limits_config \<Rightarrow> limits_config option" where
  "set_limits k v c =
     (if k = ''max_storage_bytes'' then map_option (\<lambda>x. c\<lparr>lm_max_storage_bytes := x\<rparr>) (as_int v)
      else if k = ''max_packet_bytes'' then map_option (\<lambda>x. c\<lparr>lm_max_packet_bytes := x\<rparr>) (as_int v)
      else if k = ''max_queued_packets_per_endpoint''
        then map_option (\<lambda>x. c\<lparr>lm_max_queued_packets_per_endpoint := x\<rparr>) (as_int v)
      else if k = ''max_queued_bytes_per_endpoint''
        then map_option (\<lambda>x. c\<lparr>lm_max_queued_bytes_per_endpoint := x\<rparr>) (as_int v)
      else if k = ''max_queued_bytes_per_node''
        then map_option (\<lambda>x. c\<lparr>lm_max_queued_bytes_per_node := x\<rparr>) (as_int v)
      else if k = ''max_total_queued_packets''
        then map_option (\<lambda>x. c\<lparr>lm_max_total_queued_packets := x\<rparr>) (as_int v)
      else if k = ''max_total_queued_bytes''
        then map_option (\<lambda>x. c\<lparr>lm_max_total_queued_bytes := x\<rparr>) (as_int v)
      else if k = ''max_inbox_batch'' then map_option (\<lambda>x. c\<lparr>lm_max_inbox_batch := x\<rparr>) (as_int v)
      else if k = ''long_poll_max_seconds''
        then map_option (\<lambda>x. c\<lparr>lm_long_poll_max_seconds := x\<rparr>) (as_int v)
      else Some c)"

definition set_rate_limit :: "string \<Rightarrow> json \<Rightarrow> rate_limit_config \<Rightarrow> rate_limit_config option" where
  "set_rate_limit k v c =
     (if k = ''send_window_seconds'' then map_option (\<lambda>x. c\<lparr>rl_send_window_seconds := x\<rparr>) (as_int v)
      else if k = ''max_sends_per_window''
        then map_option (\<lambda>x. c\<lparr>rl_max_sends_per_window := x\<rparr>) (as_int v)
      else Some c)"

definition set_network :: "string \<Rightarrow> json \<Rightarrow> network_config \<Rightarrow> network_config option" where
  "set_network k v c =
     (if k = ''trusted_proxies'' then map_option (\<lambda>x. c\<lparr>nw_trusted_proxies := x\<rparr>) (as_strs v)
      else if k = ''trusted_forwarded_headers''
        then map_option (\<lambda>x. c\<lparr>nw_trusted_forwarded_headers := x\<rparr>) (as_strs v)
      else if k = ''ip_access_mode'' then map_option (\<lambda>x. c\<lparr>nw_ip_access_mode := x\<rparr>) (as_str v)
      else Some c)"

definition set_maintenance :: "string \<Rightarrow> json \<Rightarrow> maintenance_config \<Rightarrow> maintenance_config option" where
  "set_maintenance k v c =
     (if k = ''cleanup_interval_seconds''
        then map_option (\<lambda>x. c\<lparr>mt_cleanup_interval_seconds := x\<rparr>) (as_int v)
      else Some c)"

definition set_observability :: "string \<Rightarrow> json \<Rightarrow> observability_config \<Rightarrow> observability_config option" where
  "set_observability k v c =
     (if k = ''health_mode'' then map_option (\<lambda>x. c\<lparr>ob_health_mode := x\<rparr>) (as_str v)
      else if k = ''stats_mode'' then map_option (\<lambda>x. c\<lparr>ob_stats_mode := x\<rparr>) (as_str v)
      else Some c)"

definition set_blacklist :: "string \<Rightarrow> json \<Rightarrow> blacklist_config \<Rightarrow> blacklist_config option" where
  "set_blacklist k v c =
     (if k = ''client_ips'' then map_option (\<lambda>x. c\<lparr>bl_client_ips := x\<rparr>) (as_strs v)
      else if k = ''node_ids'' then map_option (\<lambda>x. c\<lparr>bl_node_ids := x\<rparr>) (as_strs v)
      else Some c)"

fun overlay_dataclass :: "(string \<Rightarrow> json \<Rightarrow> 'c \<Rightarrow> 'c option) \<Rightarrow> dict \<Rightarrow> 'c \<Rightarrow> 'c option" where
  "overlay_dataclass put [] c = Some c"
| "overlay_dataclass put ((k, v) # kvs) c =
     (case put k v c of None \<Rightarrow> None | Some c' \<Rightarrow> overlay_dataclass put kvs c')"

text \<open>\<open>isinstance(raw.get(name), dict)\<close>: a section that is missing or no table is skipped.\<close>

definition overlay_section ::
  "(string \<Rightarrow> json \<Rightarrow> 'c \<Rightarrow> 'c option) \<Rightarrow> dict \<Rightarrow> string \<Rightarrow> 'c \<Rightarrow> 'c option" where
  "overlay_section put raw name c =
     (case map_of raw name of Some (JObj kvs) \<Rightarrow> overlay_dataclass put kvs c | _ \<Rightarrow> Some c)"

definition observability_modes :: "string list" where
  "observability_modes = [''public'', ''node_api_key'', ''off'']"

text \<open>The \<open>ValueError\<close> of the source names the first field with an unsupported mode.\<close>

definition validate_observability_config :: "observability_config \<Rightarrow> string + unit" where
  "validate_observability_config c =
     (if ob_health_mode c \<notin> set observability_modes then Inl ''health_mode''
      else if ob_stats_mode c \<notin> set observability_modes then Inl ''stats_mode''
      else Inr ())"

definition overlay_config :: "dict \<Rightarrow> app_config \<Rightarrow> app_config option" where
  "overlay_config raw c =
     (case overlay_section set_server raw ''server'' (cf_server c) of None \<Rightarrow> None | Some sv \<Rightarrow>
      case overlay_section set_storage raw ''storage'' (cf_storage c) of None \<Rightarrow> None | Some st \<Rightarrow>
      case overlay_section set_retention raw ''retention'' (cf_retention c) of None \<Rightarrow> None | Some rt \<Rightarrow>
      case overlay_section set_limits raw ''limits'' (cf_limits c) of None \<Rightarrow> None | Some lm \<Rightarrow>
      case overlay_section set_rate_limit raw ''rate_limit'' (cf_rate_limit c) of None \<Rightarrow> None | Some rl \<Rightarrow>
      case overlay_section set_network raw ''network'' (cf_network c) of None \<Rightarrow> None | Some nw \<Rightarrow>
      case overlay_section set_maintenance raw ''maintenance'' (cf_maintenance c) of None \<Rightarrow> None | Some mt \<Rightarrow>
      case overlay_section set_observability raw ''observability'' (cf_observability c) of None \<Rightarrow> None | Some ob \<Rightarrow>
      case overlay_section set_blacklist raw ''blacklist'' (cf_blacklist c) of None \<Rightarrow> None | Some bl \<Rightarrow>
        Some \<lparr>cf_server = sv, cf_storage = st, cf_retention = rt, cf_limits = lm, cf_rate_limit = rl,
          cf_network = nw, cf_maintenance = mt, cf_observability = ob, cf_blacklist = bl\<rparr>)"

text \<open>The file's content, \<^term>\<open>None\<close> when there is no file.\<close>

definition load_config :: "dict option \<Rightarrow> (string + app_config) option" where
  "load_config file =
     (case (case file of None \<Rightarrow> Some default_config | Some raw \<Rightarrow> overlay_config raw default_config) of
        None \<Rightarrow> None
      | Some c \<Rightarrow> Some (case validate_observability_config (cf_observability c) of
                          Inl e \<Rightarrow> Inl e | Inr _ \<Rightarrow> Inr c))"

section \<open>Lemmas\<close>

lemma load_config_default: "load_config None = Some (Inr default_config)"
  by (simp add: load_config_def default_config_def validate_observability_config_def
      default_observability_def observability_modes_def)

lemma load_config_modes:
  "load_config file = Some (Inr c) \<Longrightarrow>
   ob_health_mode (cf_observability c) \<in> set observability_modes
   \<and> ob_stats_mode (cf_observability c) \<in> set observability_modes"
  by (auto simp: load_config_def validate_observability_config_def
      split: option.splits sum.splits if_splits)

text \<open>A section that the document does not mention keeps its defaults.\<close>

lemma overlay_section_absent [simp]:
  "map_of raw name = None \<Longrightarrow> overlay_section put raw name c = Some c"
  by (simp add: overlay_section_def)

end
