(* ===== verification/IpAddr.thy ===== *)
theory IpAddr
  imports Prelude
begin

text \<open>
  The part of the standard library's \<open>ipaddress\<close> module that the server relies on: parsing of
  IPv4 and IPv6 addresses, their canonical text, and membership in a network given as
  \<open>address/prefix\<close> (\<open>strict=False\<close>). On top of it stand the two copies of the normalisation
  that the server uses as the key of its access rules
  (\<open>_try_normalize_ip\<close> in \<open>admin_services.py\<close>, \<open>_normalize_ip\<close> in \<open>runtime_access_cache.py\<close>).
\<close>

datatype ipaddr = V4 nat | V6 nat "string option"

section \<open>IPv4\<close>

definition parse_octet :: "string \<Rightarrow> nat option" where
  "parse_octet s =
     (if s = [] \<or> \<not> list_all is_digit s \<or> length s > 3 \<or> (s \<noteq> ''0'' \<and> hd s = CHR ''0'') then None
      else if nat_of_digits s > 255 then None else Some (nat_of_digits s))"

definition v4_of_octets :: "nat list \<Rightarrow> nat" where
  "v4_of_octets os = foldl (\<lambda>a d. 256 * a + d) 0 os"

definition parse_v4 :: "string \<Rightarrow> nat option" where
  "parse_v4 s =
     (let ws = split_char (CHR ''.'') s in
      if length ws \<noteq> 4 then None else map_option v4_of_octets (those (map parse_octet ws)))"

definition show_v4 :: "nat \<Rightarrow> string" where
  "show_v4 n = join ''.'' (map str_of_nat
     [n div 16777216 mod 256, n div 65536 mod 256, n div 256 mod 256, n mod 256])"

section \<open>IPv6\<close>

definition hex_value :: "char \<Rightarrow> nat option" where
  "hex_value c = (let n = code_point c in
     if 48 \<le> n \<and> n \<le> 57 then Some (n - 48)
     else if 97 \<le> n \<and> n \<le> 102 then Some (n - 87)
     else if 65 \<le> n \<and> n \<le> 70 then Some (n - 55) else None)"

definition parse_hextet :: "string \<Rightarrow> nat option" where
  "parse_hextet s =
     (if s = [] \<or> length s > 4 then None
      else map_option (foldl (\<lambda>a d. 16 * a + d) 0) (those (map hex_value s)))"

definition lower_hex :: "nat \<Rightarrow> char" where
  "lower_hex d = (if d < 10 then char_of (48 + d) else char_of (87 + d))"

fun show_hex :: "nat \<Rightarrow> string" where
  "show_hex n = (if n < 16 then [lower_hex n] else show_hex (n div 16) @ [lower_hex (n mod 16)])"

declare show_hex.simps [simp del]

text \<open>The positions of the empty parts strictly inside the list: at most one may occur.\<close>

definition inner_gaps :: "string list \<Rightarrow> nat list" where
  "inner_gaps ws = filter (\<lambda>i. ws ! i = []) [1..<length ws - 1]"

definition v6_of_hextets :: "nat list \<Rightarrow> nat" where
  "v6_of_hextets hs = foldl (\<lambda>a h. 65536 * a + h) 0 hs"

text \<open>An IPv4 tail (\<open>::ffff:1.2.3.4\<close>) becomes two hextets first.\<close>

definition expand_v4_tail :: "string list \<Rightarrow> string list option" where
  "expand_v4_tail ws =
     (if CHR ''.'' \<in> set (last ws) then
        map_option (\<lambda>n. butlast ws @ [show_hex (n div 65536 mod 65536), show_hex (n mod 65536)])
          (parse_v4 (last ws))
      else Some ws)"

definition v6_parts :: "string list \<Rightarrow> nat option" where
  "v6_parts ws =
     (case inner_gaps ws of
        [] \<Rightarrow> if length ws \<noteq> 8 then None
              else map_option v6_of_hextets (those (map parse_hextet ws))
      | [i] \<Rightarrow>
          let hi = (if hd ws = [] then i - 1 else i);
              lo = (if last ws = [] then length ws - i - 2 else length ws - i - 1)
          in if (hd ws = [] \<and> hi \<noteq> 0) \<or> (last ws = [] \<and> lo \<noteq> 0) \<or> hi + lo > 7 then None
             else (case (those (map parse_hextet (take hi ws)),
                         those (map parse_hextet (drop (length ws - lo) ws))) of
                     (Some a, Some b) \<Rightarrow>
                       Some (v6_of_hextets (a @ replicate (8 - (hi + lo)) 0 @ b))
                   | _ \<Rightarrow> None)
      | _ \<Rightarrow> None)"

definition parse_v6_int :: "string \<Rightarrow> nat option" where
  "parse_v6_int s =
     (if s = [] then None
      else let ws = split_char (CHR '':'') s in
        if length ws < 3 then None
        else case expand_v4_tail ws of None \<Rightarrow> None
           | Some us \<Rightarrow> if length us > 9 then None else v6_parts us)"

text \<open>\<open>addr%scope\<close>: the scope must be non-empty and hold no further percent sign.\<close>

definition parse_v6 :: "string \<Rightarrow> ipaddr option" where
  "parse_v6 s =
     (case split_max 1 (CHR ''%'') s of
        [a, sc] \<Rightarrow> if sc = [] \<or> CHR ''%'' \<in> set sc then None
                  else map_option (\<lambda>n. V6 n (Some sc)) (parse_v6_int a)
      | _ \<Rightarrow> map_option (\<lambda>n. V6 n None) (parse_v6_int s))"

text \<open>The first longest run of zero hextets, as \<open>(start, length)\<close>.\<close>

fun best_run :: "nat list \<Rightarrow> nat \<Rightarrow> nat \<Rightarrow> nat \<times> nat \<Rightarrow> nat \<times> nat" where
  "best_run [] i run best = best"
| "best_run (h # hs) i run best =
     (if h = 0 then best_run hs (Suc i) (Suc run)
        (if Suc run > snd best then (i - run, Suc run) else best)
      else best_run hs (Suc i) 0 best)"

definition compress_hextets :: "nat list \<Rightarrow> string list" where
  "compress_hextets hs =
     (case best_run hs 0 0 (0, 0) of (start, len) \<Rightarrow>
        let ws = map show_hex hs in
        if len > 1 then
          (if start = 0 then [[]] else []) @ take start ws @ [[]] @ drop (start + len) ws
          @ (if start + len = length hs then [[]] else [])
        else ws)"

definition hextets :: "nat \<Rightarrow> nat list" where
  "hextets n = map (\<lambda>i. n div 65536 ^ (7 - i) mod 65536) [0..<8]"

definition show_v6 :: "nat \<Rightarrow> string option \<Rightarrow> string" where
  "show_v6 n sc = join '':'' (compress_hextets (hextets n))
     @ (case sc of None \<Rightarrow> [] | Some s \<Rightarrow> CHR ''%'' # s)"

section \<open>Addresses and networks\<close>

text \<open>\<open>ipaddress.ip_address(s)\<close>; \<^term>\<open>None\<close> is the \<open>ValueError\<close>.\<close>

definition ip_address :: "string \<Rightarrow> ipaddr option" where
  "ip_address s =
     (if CHR ''/'' \<in> set s then None
      else case parse_v4 s of Some n \<Rightarrow> Some (V4 n) | None \<Rightarrow> parse_v6 s)"

fun show_ip :: "ipaddr \<Rightarrow> string" where
  "show_ip (V4 n) = show_v4 n"
| "show_ip (V6 n sc) = show_v6 n sc"

datatype ipnet = Net4 nat nat | Net6 nat nat

definition parse_prefix :: "nat \<Rightarrow> string \<Rightarrow> nat option" where
  "parse_prefix m s =
     (if s = [] \<or> \<not> list_all is_digit s \<or> nat_of_digits s > m then None else Some (nat_of_digits s))"

text \<open>A dotted netmask or host mask as a prefix length.\<close>

definition prefix_of_mask :: "nat \<Rightarrow> nat option" where
  "prefix_of_mask n = find (\<lambda>p. n = 2 ^ 32 - 2 ^ (32 - p)) [0..<33]"

definition parse_netmask :: "string \<Rightarrow> nat option" where
  "parse_netmask s =
     (case parse_prefix 32 s of Some p \<Rightarrow> Some p
      | None \<Rightarrow> (case parse_v4 s of None \<Rightarrow> None
         | Some n \<Rightarrow> (case prefix_of_mask n of Some p \<Rightarrow> Some p
                     | None \<Rightarrow> prefix_of_mask (2 ^ 32 - 1 - n))))"

definition ip_network :: "string \<Rightarrow> ipnet option" where
  "ip_network s =
     (case split_char (CHR ''/'') s of
        [a, m] \<Rightarrow> (case (parse_v4 a, parse_netmask m) of
            (Some n, Some p) \<Rightarrow> Some (Net4 n p)
          | _ \<Rightarrow> (case (parse_v6 a, parse_prefix 128 m) of
                (Some (V6 n _), Some p) \<Rightarrow> Some (Net6 n p)
              | _ \<Rightarrow> None))
      | [a] \<Rightarrow> (case ip_address a of None \<Rightarrow> None
               | Some (V4 n) \<Rightarrow> Some (Net4 n 32) | Some (V6 n _) \<Rightarrow> Some (Net6 n 128))
      | _ \<Rightarrow> None)"

fun in_network :: "ipaddr \<Rightarrow> ipnet \<Rightarrow> bool" where
  "in_network (V4 n) (Net4 m p) = (n div 2 ^ (32 - p) = m div 2 ^ (32 - p))"
| "in_network (V6 n _) (Net6 m p) = (n div 2 ^ (128 - p) = m div 2 ^ (128 - p))"
| "in_network _ _ = False"

section \<open>The key of the access rules\<close>

definition try_normalize_ip :: "string \<Rightarrow> string option" where
  "try_normalize_ip ip =
     (let raw = strip ip in if raw = [] then None else map_option show_ip (ip_address raw))"

section \<open>Lemmas\<close>

lemma those_map_Some: "(\<And>x. x \<in> set xs \<Longrightarrow> f x = Some (g x)) \<Longrightarrow> those (map f xs) = Some (map g xs)"
  by (induction xs) auto

lemma str_of_nat_no_dot: "CHR ''.'' \<notin> set (str_of_nat n)"
  using str_of_nat_digits [of n] by (auto simp: list_all_iff is_digit_def code_point_def)

lemma hd_str_of_nat_0: "hd (str_of_nat n) = CHR ''0'' \<Longrightarrow> n = 0"
proof (induction n rule: str_of_nat.induct)
  case (1 n)
  show ?case
  proof (cases "n < 10")
    case True
    with 1 have "code_point (digit_char n) = 48"
      by (simp add: str_of_nat.simps [of n] code_point_def)
    with True show ?thesis by (simp add: digit_char_def)
  next
    case False
    then have "hd (str_of_nat n) = hd (str_of_nat (n div 10))"
      using str_of_nat_digits [of "n div 10"] by (simp add: str_of_nat.simps [of n])
    with 1 False show ?thesis by simp
  qed
qed

lemma length_str_of_nat: "n < 1000 \<Longrightarrow> length (str_of_nat n) \<le> 3"
  by (simp add: str_of_nat.simps [of n] str_of_nat.simps [of "n div 10"] str_of_nat.simps [of "n div 10 div 10"])

lemma parse_octet_str: "n < 256 \<Longrightarrow> parse_octet (str_of_nat n) = Some n"
proof -
  assume n: "n < 256"
  have "str_of_nat n = ''0'' \<or> hd (str_of_nat n) \<noteq> CHR ''0''"
  proof (cases "n = 0")
    case True
    then show ?thesis by (simp add: str_of_nat.simps digit_char_def)
  next
    case False
    then show ?thesis using hd_str_of_nat_0 by blast
  qed
  then show ?thesis
    using n str_of_nat_digits [of n] length_str_of_nat [of n]
    by (auto simp: parse_octet_def nat_of_str_of_nat)
qed

text \<open>The canonical text of an IPv4 address reads back to the address.\<close>

lemma parse_show_v4:
  assumes "n < 2 ^ 32"
  shows "parse_v4 (show_v4 n) = Some n"
proof -
  let ?os = "[n div 16777216 mod 256, n div 65536 mod 256, n div 256 mod 256, n mod 256]"
  have split: "split_char (CHR ''.'') (show_v4 n) = map str_of_nat ?os"
    by (simp add: show_v4_def join_def split_char_append split_char_free str_of_nat_no_dot)
  have "those (map parse_octet (map str_of_nat ?os)) = Some ?os"
    by (simp add: parse_octet_str)
  moreover have "v4_of_octets ?os = n"
  proof -
    let ?x = "n div 256" let ?y = "?x div 256" let ?z = "?y div 256"
    have d: "n div 65536 = ?y" "n div 16777216 = ?z"
      by (simp_all add: div_mult2_eq [symmetric])
    have "?z < 256" using assms by (simp add: div_mult2_eq [symmetric] less_mult_imp_div_less)
    then have "v4_of_octets ?os = 256 * (256 * (256 * ?z + ?y mod 256) + ?x mod 256) + n mod 256"
      unfolding d v4_of_octets_def by simp
    then show ?thesis by (simp only: mult_div_mod_eq)
  qed
  ultimately show ?thesis by (simp add: parse_v4_def split Let_def)
qed

end
