(* ===== verification/Settings.thy ===== *)
theory Settings
  imports Models Config IpAddr "HOL-Library.Char_ord" "HOL-Library.List_Lexorder"
begin

text \<open>
  The runtime settings and the IP access rules of \<open>app/admin_services.py\<close>: the single row of
  \<open>runtime_settings\<close> with its defaults and validated updates, the rule table keyed by the
  canonical address, and the access decision.

  An operation runs inside a session: it returns \<open>Inl e\<close> when it raises (the session is rolled
  back by \<open>session_scope\<close>) or \<open>Inr (x, s)\<close> with the session's state. The environment
  \<open>admin_env\<close> holds the configuration, the process flag \<open>_ADMIN_TABLES_READY\<close> and the legacy table
  \<open>blocked_ips\<close> if there is one. The columns of \<open>runtime_settings\<close> are those of the current schema;
  the \<open>ALTER TABLE\<close> migration of an older one is not modelled.
\<close>

datatype admin_error = AdminValidationError string | AdminNotFoundError string | AdminConflictError string

type_synonym 'a adm = "admin_error + 'a \<times> db"

record admin_env =
  ae_cfg :: app_config
  ae_ready :: bool
  ae_legacy :: "(string \<times> string option \<times> time) list option"

text \<open>\<open>session_scope()\<close>: commit on return, roll back on an exception.\<close>

definition session_scope :: "(db \<Rightarrow> 'e + 'a \<times> db) \<Rightarrow> db \<Rightarrow> db \<times> ('e + 'a)" where
  "session_scope f s = (case f s of Inl e \<Rightarrow> (s, Inl e) | Inr (x, t) \<Rightarrow> (t, Inr x))"

section \<open>Values of the admin interface\<close>

text \<open>
  \<open>int(value)\<close>: integers, booleans and numerals with optional sign, surrounding white space and
  single underscores between digits; \<^term>\<open>None\<close> is the \<open>TypeError\<close> or \<open>ValueError\<close>.
\<close>

definition parse_digits :: "string \<Rightarrow> int option" where
  "parse_digits s =
     (if underscored is_digit s
      then Some (int (nat_of_digits (filter is_digit s))) else None)"

definition parse_py_int :: "string \<Rightarrow> int option" where
  "parse_py_int s =
     (case strip s of [] \<Rightarrow> None
      | c # cs \<Rightarrow> if c = CHR ''-'' then map_option uminus (parse_digits cs)
                 else if c = CHR ''+'' then parse_digits cs else parse_digits (c # cs))"

fun py_int :: "json \<Rightarrow> int option" where
  "py_int (JInt i) = Some i"
| "py_int (JBool b) = Some (if b then 1 else 0)"
| "py_int (JStr s) = parse_py_int s"
| "py_int _ = None"

text \<open>\<open>str(value)\<close> of a scalar; the text of a container is never one of the accepted words.\<close>

fun py_str :: "json \<Rightarrow> string option" where
  "py_str (JStr s) = Some s"
| "py_str (JInt i) = Some (str_of_int i)"
| "py_str (JBool b) = Some (if b then ''True'' else ''False'')"
| "py_str JNull = Some ''None''"
| "py_str _ = None"

definition validate_positive_int :: "string \<Rightarrow> json \<Rightarrow> admin_error + int" where
  "validate_positive_int name v =
     (case py_int v of
        None \<Rightarrow> Inl (AdminValidationError (name @ '' must be an integer''))
      | Some i \<Rightarrow> if i \<le> 0 then Inl (AdminValidationError (name @ '' must be > 0'')) else Inr i)"

definition ip_policy_values :: "string list" where
  "ip_policy_values = [''allow'', ''deny'']"

text \<open>The shared shape of the word validations: strip, lower, look the word up.\<close>

definition validate_word :: "string list \<Rightarrow> string \<Rightarrow> json \<Rightarrow> admin_error + string" where
  "validate_word allowed name v =
     (case map_option (\<lambda>s. lower (strip s)) (py_str v) of
        Some w \<Rightarrow> if w \<in> set allowed then Inr w
                 else Inl (AdminValidationError (name @ '' must be one of: '' @ join '', '' (sort allowed)))
      | None \<Rightarrow> Inl (AdminValidationError (name @ '' must be one of: '' @ join '', '' (sort allowed))))"

definition validate_ip_policy :: "string \<Rightarrow> json \<Rightarrow> admin_error + string" where
  "validate_ip_policy name v = validate_word ip_policy_values name v"

definition ip_access_mode_values :: "string list" where
  "ip_access_mode_values = [''off'', ''config'', ''dynamic'']"

definition ip_access_mode :: "app_config \<Rightarrow> admin_error + string" where
  "ip_access_mode cfg =
     validate_word ip_access_mode_values ''ip_access_mode'' (JStr (nw_ip_access_mode (cf_network cfg)))"

definition coerce_status_filter :: "string option \<Rightarrow> string list \<Rightarrow> string \<Rightarrow> admin_error + string option" where
  "coerce_status_filter value allowed name =
     (case value of None \<Rightarrow> Inr None
      | Some v \<Rightarrow> (case validate_word allowed name (JStr v) of Inl e \<Rightarrow> Inl e | Inr w \<Rightarrow> Inr (Some w)))"

definition normalize_ip :: "string \<Rightarrow> admin_error + string" where
  "normalize_ip ip =
     (let raw = strip ip in
      if raw = [] then Inl (AdminValidationError ''ip is required'')
      else case ip_address raw of None \<Rightarrow> Inl (AdminValidationError (''invalid IP address: '' @ raw))
         | Some a \<Rightarrow> Inr (show_ip a))"

section \<open>The settings row\<close>

definition runtime_settings_defaults :: "app_config \<Rightarrow> time \<Rightarrow> runtime_settings" where
  "runtime_settings_defaults cfg now =
     \<lparr>rs_max_storage_bytes = lm_max_storage_bytes (cf_limits cfg),
      rs_max_packet_bytes = lm_max_packet_bytes (cf_limits cfg),
      rs_max_queued_packets_per_endpoint = lm_max_queued_packets_per_endpoint (cf_limits cfg),
      rs_max_queued_bytes_per_endpoint = lm_max_queued_bytes_per_endpoint (cf_limits cfg),
      rs_max_queued_bytes_per_node = lm_max_queued_bytes_per_node (cf_limits cfg),
      rs_max_total_queued_packets = lm_max_total_queued_packets (cf_limits cfg),
      rs_max_total_queued_bytes = lm_max_total_queued_bytes (cf_limits cfg),
      rs_max_inbox_batch = lm_max_inbox_batch (cf_limits cfg),
      rs_long_poll_max_seconds = lm_long_poll_max_seconds (cf_limits cfg),
      rs_send_window_seconds = rl_send_window_seconds (cf_rate_limit cfg),
      rs_max_sends_per_window = rl_max_sends_per_window (cf_rate_limit cfg),
      rs_default_ip_policy = ''allow'',
      rs_updated_at = now\<rparr>"

text \<open>\<open>INSERT OR IGNORE INTO runtime_settings\<close> and the migration of the legacy table \<open>blocked_ips\<close>.\<close>

definition insert_default_settings :: "app_config \<Rightarrow> time \<Rightarrow> db \<Rightarrow> db" where
  "insert_default_settings cfg now s =
     (case settings_row s of Some _ \<Rightarrow> s
      | None \<Rightarrow> s\<lparr>settings_row := Some (runtime_settings_defaults cfg now)\<rparr>)"

text \<open>\<open>ORDER BY created_at ASC, ip ASC\<close>: two stable sorts, the minor key first.\<close>

definition legacy_order :: "(string \<times> string option \<times> time) list \<Rightarrow> (string \<times> string option \<times> time) list" where
  "legacy_order rows = sort_key (\<lambda>(ip, reason, t). t) (sort_key fst rows)"

fun migrate_blocked_ips :: "(string \<times> string option \<times> time) list \<Rightarrow> ip_rule list \<Rightarrow> ip_rule list" where
  "migrate_blocked_ips [] rules = rules"
| "migrate_blocked_ips ((ip, reason, t) # rows) rules =
     (case try_normalize_ip ip of
        None \<Rightarrow> migrate_blocked_ips rows rules
      | Some a \<Rightarrow>
          if a \<in> ip_ip ` set rules then migrate_blocked_ips rows rules
          else migrate_blocked_ips rows
            (rules @ [\<lparr>ip_ip = a, ip_action = ''deny'', ip_reason = reason, ip_created_at = t\<rparr>]))"

definition ensure_admin_tables :: "admin_env \<Rightarrow> time \<Rightarrow> bool \<Rightarrow> db \<Rightarrow> db" where
  "ensure_admin_tables env now force s =
     (if ae_ready env \<and> \<not> force then s
      else let t = insert_default_settings (ae_cfg env) now s in
        case ae_legacy env of None \<Rightarrow> t
        | Some rows \<Rightarrow> t\<lparr>ip_access_rules := migrate_blocked_ips (legacy_order rows) (ip_access_rules t)\<rparr>)"

definition get_runtime_settings_row :: "db \<Rightarrow> admin_error + runtime_settings" where
  "get_runtime_settings_row s =
     (case settings_row s of None \<Rightarrow> Inl (AdminConflictError ''runtime_settings row is missing'')
      | Some r \<Rightarrow> Inr r)"

definition get_runtime_settings_row_safe :: "admin_env \<Rightarrow> time \<Rightarrow> db \<Rightarrow> runtime_settings adm" where
  "get_runtime_settings_row_safe env now s =
     (let s1 = ensure_admin_tables env now False s in
      case get_runtime_settings_row s1 of
        Inr r \<Rightarrow> Inr (r, s1)
      | Inl _ \<Rightarrow>
          (let s2 = ensure_admin_tables env now True s1 in
           case get_runtime_settings_row s2 of Inr r \<Rightarrow> Inr (r, s2) | Inl e \<Rightarrow> Inl e))"

definition get_runtime_settings :: "admin_env \<Rightarrow> time \<Rightarrow> db \<Rightarrow> runtime_settings adm" where
  "get_runtime_settings env now s = get_runtime_settings_row_safe env now s"

section \<open>Updates of the settings\<close>

definition runtime_setting_int_fields :: "string list" where
  "runtime_setting_int_fields =
     [''max_storage_bytes'', ''max_packet_bytes'', ''max_queued_packets_per_endpoint'',
      ''max_queued_bytes_per_endpoint'', ''max_queued_bytes_per_node'', ''max_total_queued_packets'',
      ''max_total_queued_bytes'', ''max_inbox_batch'', ''long_poll_max_seconds'',
      ''send_window_seconds'', ''max_sends_per_window'']"

datatype setting_value = IntSetting string int | PolicySetting string

definition put_int_setting :: "string \<Rightarrow> int \<Rightarrow> runtime_settings \<Rightarrow> runtime_settings" where
  "put_int_setting k i r =
     (if k = ''max_storage_bytes'' then r\<lparr>rs_max_storage_bytes := i\<rparr>
      else if k = ''max_packet_bytes'' then r\<lparr>rs_max_packet_bytes := i\<rparr>
      else if k = ''max_queued_packets_per_endpoint'' then r\<lparr>rs_max_queued_packets_per_endpoint := i\<rparr>
      else if k = ''max_queued_bytes_per_endpoint'' then r\<lparr>rs_max_queued_bytes_per_endpoint := i\<rparr>
      else if k = ''max_queued_bytes_per_node'' then r\<lparr>rs_max_queued_bytes_per_node := i\<rparr>
      else if k = ''max_total_queued_packets'' then r\<lparr>rs_max_total_queued_packets := i\<rparr>
      else if k = ''max_total_queued_bytes'' then r\<lparr>rs_max_total_queued_bytes := i\<rparr>
      else if k = ''max_inbox_batch'' then r\<lparr>rs_max_inbox_batch := i\<rparr>
      else if k = ''long_poll_max_seconds'' then r\<lparr>rs_long_poll_max_seconds := i\<rparr>
      else if k = ''send_window_seconds'' then r\<lparr>rs_send_window_seconds := i\<rparr>
      else if k = ''max_sends_per_window'' then r\<lparr>rs_max_sends_per_window := i\<rparr>
      else r)"

fun put_setting :: "setting_value \<Rightarrow> runtime_settings \<Rightarrow> runtime_settings" where
  "put_setting (IntSetting k i) r = put_int_setting k i r"
| "put_setting (PolicySetting p) r = r\<lparr>rs_default_ip_policy := p\<rparr>"

text \<open>The loop over the keyword arguments: \<open>None\<close> values are skipped, the first bad one raises.\<close>

fun filter_updates :: "(string \<times> json) list \<Rightarrow> admin_error + setting_value list" where
  "filter_updates [] = Inr []"
| "filter_updates ((k, v) # kvs) =
     (if v = JNull then filter_updates kvs
      else if k \<in> set runtime_setting_int_fields then
        (case validate_positive_int k v of Inl e \<Rightarrow> Inl e
         | Inr i \<Rightarrow> (case filter_updates kvs of Inl e \<Rightarrow> Inl e | Inr us \<Rightarrow> Inr (IntSetting k i # us)))
      else if k = ''default_ip_policy'' then
        (case validate_ip_policy ''default_ip_policy'' v of Inl e \<Rightarrow> Inl e
         | Inr p \<Rightarrow> (case filter_updates kvs of Inl e \<Rightarrow> Inl e | Inr us \<Rightarrow> Inr (PolicySetting p # us)))
      else Inl (AdminValidationError (''unsupported runtime setting: '' @ k)))"

definition count_ip_rules :: "db \<Rightarrow> string \<Rightarrow> int" where
  "count_ip_rules s action = count_where (\<lambda>r. ip_action r = action) (ip_access_rules s)"

definition update_runtime_settings ::
  "admin_env \<Rightarrow> time \<Rightarrow> (string \<times> json) list \<Rightarrow> db \<Rightarrow> runtime_settings adm" where
  "update_runtime_settings env now updates s0 =
     (let s = ensure_admin_tables env now False s0 in
      case filter_updates updates of Inl e \<Rightarrow> Inl e
      | Inr filtered \<Rightarrow>
          if filtered = [] then Inl (AdminValidationError ''no runtime setting fields were provided'')
          else if PolicySetting ''deny'' \<in> set filtered \<and> count_ip_rules s ''allow'' = 0 then
            Inl (AdminConflictError
              ''cannot set default_ip_policy=deny without at least one explicit allow rule'')
          else get_runtime_settings_row_safe env now
            (s\<lparr>settings_row := map_option (\<lambda>r. (fold put_setting filtered r)\<lparr>rs_updated_at := now\<rparr>)
                (settings_row s)\<rparr>))"

definition get_ip_policy :: "admin_env \<Rightarrow> time \<Rightarrow> db \<Rightarrow> (string \<times> time) adm" where
  "get_ip_policy env now s =
     (case get_runtime_settings env now s of Inl e \<Rightarrow> Inl e
      | Inr (r, t) \<Rightarrow> Inr ((rs_default_ip_policy r, rs_updated_at r), t))"

definition set_ip_policy :: "admin_env \<Rightarrow> time \<Rightarrow> string \<Rightarrow> db \<Rightarrow> (string \<times> time) adm" where
  "set_ip_policy env now policy s =
     (case update_runtime_settings env now [(''default_ip_policy'', JStr policy)] s of Inl e \<Rightarrow> Inl e
      | Inr (r, t) \<Rightarrow> Inr ((rs_default_ip_policy r, rs_updated_at r), t))"

section \<open>The IP rules\<close>

text \<open>\<open>ORDER BY created_at DESC, ip ASC\<close>.\<close>

definition list_ip_rules :: "admin_env \<Rightarrow> time \<Rightarrow> string option \<Rightarrow> db \<Rightarrow> ip_rule list adm" where
  "list_ip_rules env now action s0 =
     (let s = ensure_admin_tables env now False s0 in
      case (case action of None \<Rightarrow> Inr None
            | Some a \<Rightarrow> (case validate_ip_policy ''action'' (JStr a) of Inl e \<Rightarrow> Inl e | Inr w \<Rightarrow> Inr (Some w))) of
        Inl e \<Rightarrow> Inl e
      | Inr w \<Rightarrow>
          Inr (sort_key (\<lambda>r. - ip_created_at r) (sort_key ip_ip
                (filter (\<lambda>r. case w of None \<Rightarrow> True | Some a \<Rightarrow> ip_action r = a) (ip_access_rules s))), s))"

definition clean_reason :: "string option \<Rightarrow> string option" where
  "clean_reason reason =
     (case reason of None \<Rightarrow> None | Some r \<Rightarrow> if strip r = [] then None else Some (strip r))"

text \<open>\<open>INSERT ... ON CONFLICT(ip) DO UPDATE\<close>.\<close>

definition upsert_rule :: "ip_rule \<Rightarrow> ip_rule list \<Rightarrow> ip_rule list" where
  "upsert_rule r rules =
     (if ip_ip r \<in> ip_ip ` set rules then update_where (\<lambda>x. ip_ip x = ip_ip r) (\<lambda>_. r) rules
      else rules @ [r])"

definition set_ip_rule ::
  "admin_env \<Rightarrow> time \<Rightarrow> string \<Rightarrow> string \<Rightarrow> string option \<Rightarrow> db \<Rightarrow> ip_rule adm" where
  "set_ip_rule env now ip action reason s0 =
     (let s = ensure_admin_tables env now False s0 in
      case normalize_ip ip of Inl e \<Rightarrow> Inl e
      | Inr a \<Rightarrow>
          (case validate_ip_policy ''action'' (JStr action) of Inl e \<Rightarrow> Inl e
           | Inr w \<Rightarrow>
               let r = \<lparr>ip_ip = a, ip_action = w, ip_reason = clean_reason reason, ip_created_at = now\<rparr>
               in Inr (r, s\<lparr>ip_access_rules := upsert_rule r (ip_access_rules s)\<rparr>)))"

definition allow_ip :: "admin_env \<Rightarrow> time \<Rightarrow> string \<Rightarrow> string option \<Rightarrow> db \<Rightarrow> ip_rule adm" where
  "allow_ip env now ip reason s = set_ip_rule env now ip ''allow'' reason s"

definition deny_ip :: "admin_env \<Rightarrow> time \<Rightarrow> string \<Rightarrow> string option \<Rightarrow> db \<Rightarrow> ip_rule adm" where
  "deny_ip env now ip reason s = set_ip_rule env now ip ''deny'' reason s"

definition block_ip :: "admin_env \<Rightarrow> time \<Rightarrow> string \<Rightarrow> string option \<Rightarrow> db \<Rightarrow> ip_rule adm" where
  "block_ip env now ip reason s = set_ip_rule env now ip ''deny'' reason s"

definition remove_ip_rule :: "admin_env \<Rightarrow> time \<Rightarrow> string \<Rightarrow> db \<Rightarrow> string adm" where
  "remove_ip_rule env now ip s0 =
     (let s = ensure_admin_tables env now False s0 in
      case normalize_ip ip of Inl e \<Rightarrow> Inl e
      | Inr a \<Rightarrow>
          if a \<notin> ip_ip ` set (ip_access_rules s) then Inl (AdminNotFoundError (''IP rule not found: '' @ a))
          else Inr (a, s\<lparr>ip_access_rules := delete_where (\<lambda>r. ip_ip r = a) (ip_access_rules s)\<rparr>))"

definition pardon_ip :: "admin_env \<Rightarrow> time \<Rightarrow> string \<Rightarrow> db \<Rightarrow> string adm" where
  "pardon_ip env now ip s = remove_ip_rule env now ip s"

definition list_blocked_ips :: "admin_env \<Rightarrow> time \<Rightarrow> db \<Rightarrow> ip_rule list adm" where
  "list_blocked_ips env now s = list_ip_rules env now (Some ''deny'') s"

section \<open>The access decision\<close>

definition static_config_ip_denied :: "app_config \<Rightarrow> string option \<Rightarrow> bool" where
  "static_config_ip_denied cfg a =
     (case a of None \<Rightarrow> False
      | Some w \<Rightarrow> list_ex (\<lambda>c. try_normalize_ip c = Some w) (bl_client_ips (cf_blacklist cfg)))"

definition find_rule :: "db \<Rightarrow> string \<Rightarrow> ip_rule option" where
  "find_rule s a = fetch ip_ip a (ip_access_rules s)"

definition is_ip_allowed :: "admin_env \<Rightarrow> time \<Rightarrow> string \<Rightarrow> db \<Rightarrow> bool adm" where
  "is_ip_allowed env now ip s =
     (case ip_access_mode (ae_cfg env) of Inl e \<Rightarrow> Inl e
      | Inr mode \<Rightarrow>
          if mode = ''off'' then Inr (True, s)
          else let a = try_normalize_ip ip in
          if mode = ''config'' then Inr (\<not> static_config_ip_denied (ae_cfg env) a, s)
          else case get_runtime_settings env now s of Inl e \<Rightarrow> Inl e
          | Inr (settings, t) \<Rightarrow>
              (case (case a of None \<Rightarrow> None | Some w \<Rightarrow> find_rule t w) of
                 Some r \<Rightarrow> Inr (ip_action r = ''allow'', t)
               | None \<Rightarrow>
                   if static_config_ip_denied (ae_cfg env) a then Inr (False, t)
                   else Inr (rs_default_ip_policy settings = ''allow'', t)))"

definition is_ip_blocked :: "admin_env \<Rightarrow> time \<Rightarrow> string \<Rightarrow> db \<Rightarrow> bool adm" where
  "is_ip_blocked env now ip s =
     (case ip_access_mode (ae_cfg env) of Inl e \<Rightarrow> Inl e
      | Inr mode \<Rightarrow>
          if mode = ''off'' then Inr (False, s)
          else (case try_normalize_ip ip of
              None \<Rightarrow> Inr (static_config_ip_denied (ae_cfg env) None, s)
            | Some a \<Rightarrow>
                if mode = ''config'' then Inr (static_config_ip_denied (ae_cfg env) (Some a), s)
                else let t = ensure_admin_tables env now False s in
                  (case find_rule t a of
                     Some r \<Rightarrow> Inr (ip_action r = ''deny'', t)
                   | None \<Rightarrow> Inr (static_config_ip_denied (ae_cfg env) (Some a), t))))"

section \<open>Lemmas\<close>

lemma settings_row_insert_default [simp]:
  "settings_row (insert_default_settings cfg now s) =
     Some (case settings_row s of Some r \<Rightarrow> r | None \<Rightarrow> runtime_settings_defaults cfg now)"
  by (simp add: insert_default_settings_def split: option.splits)

lemma settings_row_ensure_force [simp]:
  "settings_row (ensure_admin_tables env now True s) =
     Some (case settings_row s of Some r \<Rightarrow> r | None \<Rightarrow> runtime_settings_defaults (ae_cfg env) now)"
  by (simp add: ensure_admin_tables_def Let_def split: option.splits)

lemma ensure_ready [simp]: "ae_ready env \<Longrightarrow> ensure_admin_tables env now False s = s"
  by (simp add: ensure_admin_tables_def)

text \<open>The settings are always found: a missing row is recreated from the configuration.\<close>

lemma get_runtime_settings_row [simp]:
  "ae_ready env \<Longrightarrow> settings_row s = Some r \<Longrightarrow> get_runtime_settings env now s = Inr (r, s)"
  by (simp add: get_runtime_settings_def get_runtime_settings_row_safe_def get_runtime_settings_row_def)

lemma get_runtime_settings_total:
  "\<exists>r t. get_runtime_settings env now s = Inr (r, t) \<and> settings_row t = Some r"
  by (auto simp: get_runtime_settings_def get_runtime_settings_row_safe_def get_runtime_settings_row_def
      Let_def split: option.splits sum.splits)

text \<open>What the tables of the request side see of the settings: nothing changes.\<close>

definition same_requests :: "db \<Rightarrow> db \<Rightarrow> bool" where
  "same_requests s t \<longleftrightarrow> nodes t = nodes s \<and> endpoints t = endpoints s \<and> links t = links s
     \<and> directed_routes t = directed_routes s \<and> link_codes t = link_codes s \<and> packets t = packets s
     \<and> deliveries t = deliveries s \<and> send_events t = send_events s"

lemma same_requests_refl [simp]: "same_requests s s"
  by (simp add: same_requests_def)

lemma same_requests_trans: "same_requests s t \<Longrightarrow> same_requests t u \<Longrightarrow> same_requests s u"
  by (simp add: same_requests_def)

lemma same_requests_db_ok: "same_requests s t \<Longrightarrow> db_ok t = db_ok s"
  by (simp add: same_requests_def db_ok_def keys_ok_def refs_ok_def)

lemma ensure_same_requests [simp]: "same_requests s (ensure_admin_tables env now force s)"
  by (simp add: same_requests_def ensure_admin_tables_def insert_default_settings_def Let_def
      split: option.splits)

lemma get_runtime_settings_same_requests:
  "get_runtime_settings env now s = Inr (r, t) \<Longrightarrow> same_requests s t"
  by (auto simp: get_runtime_settings_def get_runtime_settings_row_safe_def Let_def
      intro: same_requests_trans [OF ensure_same_requests ensure_same_requests] split: sum.splits)

text \<open>Validation.\<close>

lemma validate_positive_int_Inr: "validate_positive_int k v = Inr i \<Longrightarrow> 0 < i"
  by (auto simp: validate_positive_int_def split: option.splits if_splits)

lemma validate_word_Inr: "validate_word allowed k v = Inr w \<Longrightarrow> w \<in> set allowed"
  by (auto simp: validate_word_def split: option.splits if_splits)

fun setting_valid :: "setting_value \<Rightarrow> bool" where
  "setting_valid (IntSetting k i) = (0 < i)"
| "setting_valid (PolicySetting p) = (p \<in> set ip_policy_values)"

lemma filter_updates_valid: "filter_updates kvs = Inr us \<Longrightarrow> list_all setting_valid us"
  by (induction kvs arbitrary: us rule: filter_updates.induct)
    (auto split: if_splits sum.splits
      simp: validate_ip_policy_def dest: validate_positive_int_Inr validate_word_Inr)

definition settings_valid :: "runtime_settings \<Rightarrow> bool" where
  "settings_valid r \<longleftrightarrow> 0 < rs_max_storage_bytes r \<and> 0 < rs_max_packet_bytes r
     \<and> 0 < rs_max_queued_packets_per_endpoint r \<and> 0 < rs_max_queued_bytes_per_endpoint r
     \<and> 0 < rs_max_queued_bytes_per_node r \<and> 0 < rs_max_total_queued_packets r
     \<and> 0 < rs_max_total_queued_bytes r \<and> 0 < rs_max_inbox_batch r \<and> 0 < rs_long_poll_max_seconds r
     \<and> 0 < rs_send_window_seconds r \<and> 0 < rs_max_sends_per_window r
     \<and> rs_default_ip_policy r \<in> set ip_policy_values"

lemma settings_valid_updates:
  assumes "settings_valid r" "0 < i"
  shows "settings_valid (r\<lparr>rs_max_storage_bytes := i\<rparr>)"
    "settings_valid (r\<lparr>rs_max_packet_bytes := i\<rparr>)"
    "settings_valid (r\<lparr>rs_max_queued_packets_per_endpoint := i\<rparr>)"
    "settings_valid (r\<lparr>rs_max_queued_bytes_per_endpoint := i\<rparr>)"
    "settings_valid (r\<lparr>rs_max_queued_bytes_per_node := i\<rparr>)"
    "settings_valid (r\<lparr>rs_max_total_queued_packets := i\<rparr>)"
    "settings_valid (r\<lparr>rs_max_total_queued_bytes := i\<rparr>)"
    "settings_valid (r\<lparr>rs_max_inbox_batch := i\<rparr>)"
    "settings_valid (r\<lparr>rs_long_poll_max_seconds := i\<rparr>)"
    "settings_valid (r\<lparr>rs_send_window_seconds := i\<rparr>)"
    "settings_valid (r\<lparr>rs_max_sends_per_window := i\<rparr>)"
  using assms by (simp_all add: settings_valid_def)

lemma put_int_setting_valid: "0 < i \<Longrightarrow> settings_valid r \<Longrightarrow> settings_valid (put_int_setting k i r)"
  unfolding put_int_setting_def
  by (intro if_both [where P = settings_valid] settings_valid_updates)

lemma put_setting_valid: "setting_valid u \<Longrightarrow> settings_valid r \<Longrightarrow> settings_valid (put_setting u r)"
  by (cases u) (simp_all add: put_int_setting_valid, simp add: settings_valid_def)

lemma fold_put_setting_valid:
  "list_all setting_valid us \<Longrightarrow> settings_valid r \<Longrightarrow> settings_valid (fold put_setting us r)"
  by (induction us arbitrary: r) (auto intro: put_setting_valid)

lemma normalize_ip_Inr: "normalize_ip ip = Inr a \<Longrightarrow> try_normalize_ip ip = Some a"
  by (auto simp: normalize_ip_def try_normalize_ip_def Let_def split: if_splits option.splits)

lemma fetch_upsert_rule:
  "fetch ip_ip a (upsert_rule r rules) = (if a = ip_ip r then Some r else fetch ip_ip a rules)"
proof (cases "ip_ip r \<in> ip_ip ` set rules")
  case False
  then have "fetch ip_ip (ip_ip r) rules = None" by (simp add: fetch_None_iff)
  with False show ?thesis by (auto simp: upsert_rule_def fetch_snoc split: option.splits)
next
  case True
  then have upd: "fetch ip_ip a (upsert_rule r rules) =
      map_option (\<lambda>x. if ip_ip x = ip_ip r then r else x) (fetch ip_ip a rules)"
    by (simp add: upsert_rule_def fetch_update_where)
  show ?thesis
  proof (cases "fetch ip_ip a rules")
    case None
    with True have "a \<noteq> ip_ip r" by (auto simp: fetch_None_iff)
    with None upd show ?thesis by simp
  next
    case (Some x)
    then have "ip_ip x = a" by (blast dest: fetch_SomeD)
    with Some upd show ?thesis by auto
  qed
qed

lemma ip_access_mode_Inr: "ip_access_mode cfg = Inr m \<Longrightarrow> m \<in> set ip_access_mode_values"
  unfolding ip_access_mode_def by (rule validate_word_Inr)

end
