(* ===== verification/Services.thy ===== *)
theory Services
  imports Settings
begin

text \<open>
  The service layer (\<open>app/services.py\<close>): ownership and activity checks, expiry, the clean-up,
  the send rate limit and the queue limits, routes and links. A check that raises is a sum
  \<open>http_error + 'a\<close>; a check that also writes to the session returns the session's state. Each
  \<open>utcnow()\<close> is an argument \<open>now\<close> of the operation that reads the clock.
\<close>

section \<open>Checks\<close>

definition ensure_node_owns_endpoint :: "db \<Rightarrow> string \<Rightarrow> string \<Rightarrow> http_error + endpoint" where
  "ensure_node_owns_endpoint s node_id endpoint_id =
     (case get_endpoint s endpoint_id of
        None \<Rightarrow> Inl (HTTPException 404 ''endpoint not found'')
      | Some e \<Rightarrow>
          if e_node_id e \<noteq> node_id then Inl (HTTPException 403 ''endpoint not owned by node'')
          else if e_status e \<noteq> ''active'' then Inl (HTTPException 403 ''endpoint not active'')
          else Inr e)"

definition ensure_node_active :: "string \<Rightarrow> http_error + unit" where
  "ensure_node_active status =
     (if status \<noteq> ''active'' then Inl (HTTPException 403 (''node '' @ status)) else Inr ())"

section \<open>Expiry\<close>

definition packet_active :: "time \<Rightarrow> packet \<Rightarrow> bool" where
  "packet_active now p = (case p_expires_at p of None \<Rightarrow> True | Some t \<Rightarrow> t > now)"

definition is_packet_expired :: "time \<Rightarrow> packet \<Rightarrow> bool" where
  "is_packet_expired now p = (case p_expires_at p of None \<Rightarrow> False | Some t \<Rightarrow> t \<le> now)"

definition link_code_active :: "time \<Rightarrow> link_code \<Rightarrow> bool" where
  "link_code_active now c \<longleftrightarrow> c_status c = ''active'' \<and> c_expires_at c > now"

definition effective_link_code_status :: "time \<Rightarrow> link_code \<Rightarrow> string" where
  "effective_link_code_status now c =
     (if c_status c = ''active'' \<and> c_expires_at c \<le> now then ''expired'' else c_status c)"

definition packet_expiry :: "time \<Rightarrow> app_config \<Rightarrow> int option \<Rightarrow> time option" where
  "packet_expiry now cfg ttl_seconds =
     (if rt_no_expiry (cf_retention cfg) \<and> ttl_seconds = None then None
      else let ttl = (case ttl_seconds of Some t \<Rightarrow> t
                      | None \<Rightarrow> rt_default_packet_ttl_seconds (cf_retention cfg))
           in Some (now + seconds ttl))"

text \<open>\<open>datetime.max\<close>; a sum past it is an \<open>OverflowError\<close>, which no handler catches.\<close>

definition last_datetime :: time where
  "last_datetime = 253402300799999999"

definition packet_expiry_overflows :: "time \<Rightarrow> app_config \<Rightarrow> int option \<Rightarrow> bool" where
  "packet_expiry_overflows now cfg ttl_seconds =
     (case packet_expiry now cfg ttl_seconds of None \<Rightarrow> False | Some t \<Rightarrow> t > last_datetime)"

section \<open>Size of a payload and of the store\<close>

definition payload_envelope :: "dict \<Rightarrow> string option \<Rightarrow> dict \<Rightarrow> dict \<Rightarrow> json" where
  "payload_envelope headers body data meta =
     JObj [(''headers'', JObj headers),
           (''body'', case body of None \<Rightarrow> JNull | Some b \<Rightarrow> JStr b),
           (''data'', JObj data), (''meta'', JObj meta)]"

definition payload_size_bytes :: "dict \<Rightarrow> string option \<Rightarrow> dict \<Rightarrow> dict \<Rightarrow> int" where
  "payload_size_bytes headers body data meta =
     int (utf8_length (dumps (payload_envelope headers body data meta)))"

text \<open>The sizes of the database file and its side files; a file that is not there counts nothing.\<close>

type_synonym file_sizes = "string \<Rightarrow> int option"

definition storage_candidates :: "string \<Rightarrow> string list" where
  "storage_candidates db_path = [db_path, db_path @ ''-wal'', db_path @ ''-shm'', db_path @ ''-journal'']"

definition current_storage_usage_bytes :: "file_sizes \<Rightarrow> app_config \<Rightarrow> int" where
  "current_storage_usage_bytes stat cfg =
     sum_list (map (\<lambda>f. case stat f of None \<Rightarrow> 0 | Some n \<Rightarrow> n)
       (storage_candidates (st_db_path (cf_storage cfg))))"

section \<open>Clean-up\<close>

record cleanup_result =
  cr_expired_link_codes :: int
  cr_expired_packets :: int
  cr_pruned_send_events :: int

definition expire_codes :: "time \<Rightarrow> db \<Rightarrow> db" where
  "expire_codes now s =
     s\<lparr>link_codes := update_where (\<lambda>c. c_status c = ''active'' \<and> c_expires_at c \<le> now)
        (\<lambda>c. c\<lparr>c_status := ''expired''\<rparr>) (link_codes s)\<rparr>"

definition cleanup_expired :: "admin_env \<Rightarrow> time \<Rightarrow> db \<Rightarrow> cleanup_result adm" where
  "cleanup_expired env now s0 =
     (case get_runtime_settings env now s0 of Inl e \<Rightarrow> Inl e
      | Inr (rt, s) \<Rightarrow>
          let expired_codes =
                count_where (\<lambda>c. c_status c = ''active'' \<and> c_expires_at c \<le> now) (link_codes s);
              s1 = expire_codes now s;
              expired_packets = count_where (is_packet_expired now) (packets s1);
              s2 = delete_packets (is_packet_expired now) s1;
              window_floor = now - seconds (rs_send_window_seconds rt * 2);
              old_events = count_where (\<lambda>v. s_created_at v < window_floor) (send_events s2);
              s3 = delete_send_events (\<lambda>v. s_created_at v < window_floor) s2
          in Inr (\<lparr>cr_expired_link_codes = expired_codes, cr_expired_packets = expired_packets,
                   cr_pruned_send_events = old_events\<rparr>, s3))"

section \<open>Limits\<close>

text \<open>
  The service functions run in the session of a request: an exception of the settings lookup,
  which cannot happen once the tables exist, would be an internal error.
\<close>

definition settings_or_500 :: "admin_env \<Rightarrow> time \<Rightarrow> db \<Rightarrow> http_error + runtime_settings \<times> db" where
  "settings_or_500 env now s =
     (case get_runtime_settings env now s of
        Inl _ \<Rightarrow> Inl (HTTPException 500 ''Internal Server Error'') | Inr r \<Rightarrow> Inr r)"

definition sends_since :: "db \<Rightarrow> string \<Rightarrow> time \<Rightarrow> int" where
  "sends_since s node_id t0 = count_where (\<lambda>v. s_node_id v = node_id \<and> s_created_at v \<ge> t0) (send_events s)"

text \<open>
  \<open>db.add(SendEvent(...))\<close> is pending until the next flush of the session, so the event is
  returned beside the state; the handler inserts it with the packet.
\<close>

definition enforce_send_rate_limit ::
  "admin_env \<Rightarrow> time \<Rightarrow> string \<Rightarrow> string \<Rightarrow> db \<Rightarrow> http_error + send_event \<times> db" where
  "enforce_send_rate_limit env now event_id node_id s0 =
     (case settings_or_500 env now s0 of Inl e \<Rightarrow> Inl e
      | Inr (rt, s) \<Rightarrow>
          let t0 = now - seconds (rs_send_window_seconds rt) in
          if sends_since s node_id t0 \<ge> rs_max_sends_per_window rt then
            Inl (HTTPException 429 ''send rate limit exceeded'')
          else Inr (\<lparr>s_event_id = event_id, s_node_id = node_id, s_created_at = now\<rparr>, s))"

text \<open>\<open>Delivery JOIN Packet\<close>: the rows with their packets, in the order of the deliveries.\<close>

definition joined :: "db \<Rightarrow> (delivery \<times> packet) list" where
  "joined s = concat (map (\<lambda>d. map (\<lambda>p. (d, p)) (filter (\<lambda>p. p_packet_id p = d_packet_id d) (packets s)))
     (deliveries s))"

definition active_joined :: "time \<Rightarrow> db \<Rightarrow> (delivery \<times> packet) list" where
  "active_joined now s = filter (\<lambda>(d, p). packet_active now p) (joined s)"

definition queue_packets :: "(delivery \<Rightarrow> bool) \<Rightarrow> time \<Rightarrow> db \<Rightarrow> int" where
  "queue_packets P now s = int (length (filter (\<lambda>(d, p). P d) (active_joined now s)))"

definition queue_bytes :: "(delivery \<Rightarrow> bool) \<Rightarrow> time \<Rightarrow> db \<Rightarrow> int" where
  "queue_bytes P now s =
     sum_list (map (\<lambda>(d, p). p_payload_bytes p) (filter (\<lambda>(d, p). P d) (active_joined now s)))"

definition enforce_queue_limits ::
  "admin_env \<Rightarrow> file_sizes \<Rightarrow> time \<Rightarrow> string \<Rightarrow> string \<Rightarrow> int \<Rightarrow> db \<Rightarrow> http_error + db" where
  "enforce_queue_limits env stat now dest_endpoint_id dest_node_id packet_bytes s0 =
     (case settings_or_500 env now s0 of Inl e \<Rightarrow> Inl e
      | Inr (rt, s) \<Rightarrow>
          let to_endpoint = (\<lambda>d. d_destination_endpoint_id d = dest_endpoint_id);
              to_node = (\<lambda>d. d_destination_node_id d = dest_node_id);
              storage_bytes = current_storage_usage_bytes stat (ae_cfg env);
              max_storage_bytes = rs_max_storage_bytes rt in
          if queue_packets to_endpoint now s \<ge> rs_max_queued_packets_per_endpoint rt then
            Inl (HTTPException 409 ''destination endpoint queue packet cap reached'')
          else if queue_bytes to_endpoint now s + packet_bytes > rs_max_queued_bytes_per_endpoint rt then
            Inl (HTTPException 409 ''destination endpoint queue byte cap reached'')
          else if queue_bytes to_node now s + packet_bytes > rs_max_queued_bytes_per_node rt then
            Inl (HTTPException 409 ''destination node queue byte cap reached'')
          else if queue_packets (\<lambda>_. True) now s \<ge> rs_max_total_queued_packets rt then
            Inl (HTTPException 409 ''global queue packet cap reached'')
          else if queue_bytes (\<lambda>_. True) now s + packet_bytes > rs_max_total_queued_bytes rt then
            Inl (HTTPException 409 ''global queue byte cap reached'')
          else if storage_bytes \<ge> max_storage_bytes \<or> storage_bytes + packet_bytes > max_storage_bytes then
            Inl (HTTPException 409 ''storage cap reached'')
          else Inr s)"

section \<open>Routes and links\<close>

definition active_route_exists :: "db \<Rightarrow> string \<Rightarrow> string \<Rightarrow> bool" where
  "active_route_exists s from_endpoint_id to_endpoint_id =
     list_ex (\<lambda>r. r_from_endpoint_id r = from_endpoint_id \<and> r_to_endpoint_id r = to_endpoint_id
                  \<and> r_status r = ''active'') (directed_routes s)"

definition resolve_redeem_routes :: "string \<Rightarrow> string \<Rightarrow> string \<Rightarrow> http_error + (string \<times> string) list" where
  "resolve_redeem_routes source_endpoint_id destination_endpoint_id mode =
     (if mode = ''bidirectional'' then
        Inr [(source_endpoint_id, destination_endpoint_id), (destination_endpoint_id, source_endpoint_id)]
      else if mode = ''a_to_b'' then Inr [(source_endpoint_id, destination_endpoint_id)]
      else if mode = ''b_to_a'' then Inr [(destination_endpoint_id, source_endpoint_id)]
      else Inl (HTTPException 400 ''invalid link mode''))"

definition exact_active_link_exists :: "db \<Rightarrow> string \<Rightarrow> string \<Rightarrow> string \<Rightarrow> bool" where
  "exact_active_link_exists s source_endpoint_id destination_endpoint_id mode =
     (if mode = ''bidirectional'' then
        list_ex (\<lambda>l. l_status l = ''active'' \<and> l_mode l = ''bidirectional''
          \<and> ((l_endpoint_a_id l = source_endpoint_id \<and> l_endpoint_b_id l = destination_endpoint_id)
             \<or> (l_endpoint_a_id l = destination_endpoint_id \<and> l_endpoint_b_id l = source_endpoint_id)))
          (links s)
      else
        list_ex (\<lambda>l. l_status l = ''active'' \<and> l_mode l = mode
          \<and> l_endpoint_a_id l = source_endpoint_id \<and> l_endpoint_b_id l = destination_endpoint_id)
          (links s))"

text \<open>
  Equality with a stored packet: the dictionaries compare as Python dictionaries, the rest as
  values.
\<close>

definition packet_matches ::
  "packet \<Rightarrow> string \<Rightarrow> string \<Rightarrow> string \<Rightarrow> dict \<Rightarrow> string option \<Rightarrow> dict \<Rightarrow> dict \<Rightarrow> int \<Rightarrow> bool" where
  "packet_matches existing sender_node_id from_endpoint_id to_endpoint_id headers body data meta version \<longleftrightarrow>
     p_sender_node_id existing = sender_node_id
     \<and> p_from_endpoint_id existing = from_endpoint_id
     \<and> p_to_endpoint_id existing = to_endpoint_id
     \<and> dict_eq (p_headers existing) headers
     \<and> p_body existing = body
     \<and> dict_eq (p_data existing) data
     \<and> dict_eq (p_meta existing) meta
     \<and> p_version existing = version"

section \<open>Lemmas\<close>

lemma packet_active_iff: "packet_active now p \<longleftrightarrow> \<not> is_packet_expired now p"
  by (auto simp: packet_active_def is_packet_expired_def split: option.splits)

lemma expired_mono: "is_packet_expired now p \<Longrightarrow> now \<le> now' \<Longrightarrow> is_packet_expired now' p"
  by (auto simp: is_packet_expired_def split: option.splits)

text \<open>Every delivery of a well-formed store joins with exactly its packet.\<close>

definition packet_of :: "db \<Rightarrow> delivery \<Rightarrow> packet" where
  "packet_of s d = the (get_packet s (d_packet_id d))"

lemma db_okD:
  assumes "db_ok s"
  shows "distinct (map p_packet_id (packets s))" "distinct (map d_packet_id (deliveries s))"
    "distinct (map d_delivery_id (deliveries s))" "distinct (map n_node_id (nodes s))"
    "distinct (map n_key_id (nodes s))" "distinct (map e_endpoint_id (endpoints s))"
    "distinct (map l_link_id (links s))" "distinct (map c_code (link_codes s))"
    "distinct (map c_link_code_id (link_codes s))"
    "\<And>d. d \<in> set (deliveries s) \<Longrightarrow> d_packet_id d \<in> packet_ids s"
  using assms by (auto simp: db_ok_def keys_ok_def refs_ok_def)

lemma get_packet_of: "db_ok s \<Longrightarrow> d \<in> set (deliveries s) \<Longrightarrow> get_packet s (d_packet_id d) = Some (packet_of s d)"
  unfolding get_packet_def packet_of_def by (intro fetch_the) (blast dest: db_okD)

lemma packet_of:
  assumes "db_ok s" "d \<in> set (deliveries s)"
  shows "packet_of s d \<in> set (packets s)" "p_packet_id (packet_of s d) = d_packet_id d"
  using get_packet_of [OF assms] unfolding get_packet_def by (blast dest: fetch_SomeD)+

lemma joined_db_ok:
  assumes "db_ok s"
  shows "joined s = map (\<lambda>d. (d, packet_of s d)) (deliveries s)"
proof -
  have "map (\<lambda>p. (d, p)) (filter (\<lambda>p. p_packet_id p = d_packet_id d) (packets s)) = [(d, packet_of s d)]"
    if "d \<in> set (deliveries s)" for d
    using get_packet_of [OF assms that] db_okD(1) [OF assms] by (simp add: filter_key get_packet_def)
  then have "map (\<lambda>d. map (\<lambda>p. (d, p)) (filter (\<lambda>p. p_packet_id p = d_packet_id d) (packets s)))
      (deliveries s) = map (\<lambda>d. [(d, packet_of s d)]) (deliveries s)" by simp
  then have "joined s = concat (map (\<lambda>d. [(d, packet_of s d)]) (deliveries s))"
    unfolding joined_def by (simp cong: map_cong)
  then show ?thesis by simp
qed

lemma set_joined:
  "(d, p) \<in> set (joined s) \<longleftrightarrow> d \<in> set (deliveries s) \<and> p \<in> set (packets s) \<and> p_packet_id p = d_packet_id d"
  by (auto simp: joined_def)

lemma set_active_joined:
  "(d, p) \<in> set (active_joined now s) \<longleftrightarrow>
     d \<in> set (deliveries s) \<and> p \<in> set (packets s) \<and> p_packet_id p = d_packet_id d \<and> packet_active now p"
  by (auto simp: active_joined_def set_joined)

text \<open>How the joined view follows the operations.\<close>

lemma joined_delete_deliveries:
  "joined (delete_deliveries P s) = filter (\<lambda>(d, p). \<not> P d) (joined s)"
proof -
  have "concat (map (\<lambda>d. map (\<lambda>p. (d, p)) (F d)) (delete_where P ds)) =
      filter (\<lambda>(d, p). \<not> P d) (concat (map (\<lambda>d. map (\<lambda>p. (d, p)) (F d)) ds))"
    for F :: "delivery \<Rightarrow> packet list" and ds
    by (induction ds) (auto simp: delete_where_def filter_empty_conv filter_id_conv)
  then show ?thesis by (simp add: joined_def)
qed

lemma joined_delete_packets:
  assumes "db_ok s"
  shows "joined (delete_packets P s) = filter (\<lambda>(d, p). \<not> P p) (joined s)"
proof -
  let ?t = "delete_packets P s"
  have t: "db_ok ?t" using assms by (rule delete_packets_ok)
  have gone: "d_packet_id d \<in> p_packet_id ` set (filter P (packets s)) \<longleftrightarrow> P (packet_of s d)"
    if "d \<in> set (deliveries s)" for d
  proof
    assume "d_packet_id d \<in> p_packet_id ` set (filter P (packets s))"
    then obtain p where "p \<in> set (packets s)" "P p" "p_packet_id p = d_packet_id d" by auto
    moreover from this have "packet_of s d = p"
      using db_okD(1) [OF assms] by (simp add: packet_of_def get_packet_def fetch_Some_iff [THEN iffD2])
    ultimately show "P (packet_of s d)" by simp
  qed (use packet_of [OF assms that] in force)
  have same: "packet_of ?t d = packet_of s d" if "d \<in> set (deliveries s)" "\<not> P (packet_of s d)" for d
  proof -
    have "get_packet ?t (d_packet_id d) = Some (packet_of s d)"
      using get_packet_of [OF assms that(1)] db_okD(1) [OF assms] that(2)
      unfolding get_packet_def by (simp add: fetch_delete_where)
    then show ?thesis by (simp add: packet_of_def)
  qed
  have "filter (\<lambda>d. d_packet_id d \<notin> p_packet_id ` set (filter P (packets s))) (deliveries s) =
      filter (\<lambda>d. \<not> P (packet_of s d)) (deliveries s)"
    by (rule filter_cong) (simp_all add: gone del: set_filter)
  then have "joined ?t = map (\<lambda>d. (d, packet_of ?t d)) (filter (\<lambda>d. \<not> P (packet_of s d)) (deliveries s))"
    by (simp add: joined_db_ok [OF t] delete_where_def del: set_filter)
  also have "\<dots> = map (\<lambda>d. (d, packet_of s d)) (filter (\<lambda>d. \<not> P (packet_of s d)) (deliveries s))"
    by (rule map_cong) (simp_all add: same)
  also have "\<dots> = filter (\<lambda>(d, p). \<not> P p) (joined s)"
    by (simp add: joined_db_ok [OF assms] filter_map o_def)
  finally show ?thesis .
qed

lemma joined_cong: "deliveries t = deliveries s \<Longrightarrow> packets t = packets s \<Longrightarrow> joined t = joined s"
  by (simp add: joined_def)

lemma active_joined_cong:
  "deliveries t = deliveries s \<Longrightarrow> packets t = packets s \<Longrightarrow> active_joined now t = active_joined now s"
  by (simp add: active_joined_def joined_def)

lemma expire_codes_frame [simp]:
  "nodes (expire_codes now s) = nodes s" "endpoints (expire_codes now s) = endpoints s"
  "links (expire_codes now s) = links s" "directed_routes (expire_codes now s) = directed_routes s"
  "packets (expire_codes now s) = packets s" "deliveries (expire_codes now s) = deliveries s"
  "send_events (expire_codes now s) = send_events s"
  "settings_row (expire_codes now s) = settings_row s"
  "ip_access_rules (expire_codes now s) = ip_access_rules s"
  by (simp_all add: expire_codes_def)

lemma expire_codes_ok [db_intro]: "db_ok s \<Longrightarrow> db_ok (expire_codes now s)"
  unfolding expire_codes_def by (rule update_codes_ok) simp_all

lemma cleanup_expired_ok: "cleanup_expired env now s = Inr (r, t) \<Longrightarrow> db_ok s \<Longrightarrow> db_ok t"
  by (auto simp: cleanup_expired_def Let_def same_requests_db_ok
      dest!: get_runtime_settings_same_requests split: sum.splits intro!: db_intro)

text \<open>What expires at \<open>now\<close> is invisible from then on, so its removal is too.\<close>

lemma active_joined_cleanup:
  assumes "db_ok s" "now \<le> now'"
  shows "active_joined now' (delete_packets (is_packet_expired now) s) = active_joined now' s"
proof -
  have "filter (\<lambda>(d, p). packet_active now' p) (filter (\<lambda>(d, p). \<not> is_packet_expired now p) (joined s)) =
      filter (\<lambda>(d, p). packet_active now' p) (joined s)"
    using assms(2) by (auto simp: packet_active_iff intro!: filter_cong dest: expired_mono)
  then show ?thesis by (simp add: active_joined_def joined_delete_packets [OF assms(1)])
qed

end
