(* ===== verification/Base64.thy ===== *)
theory Base64
  imports Prelude
begin

text \<open>
  The standard library's Base64 codec, as \<open>base64.b64encode\<close> and \<open>base64.b64decode\<close> of CPython
  3.12 behave: a byte string is a list of characters. The decoder is the state machine of
  \<open>binascii.a2b_base64\<close> with its two modes, the lenient one that skips foreign characters (stored
  key hashes) and the strict one of \<open>validate=True\<close> (packet bodies).
\<close>

section \<open>Encoding\<close>

definition b64_char :: "nat \<Rightarrow> char" where
  "b64_char d =
     (if d < 26 then char_of (65 + d) else if d < 52 then char_of (71 + d)
      else if d < 62 then char_of (d - 4) else if d = 62 then CHR ''+'' else CHR ''/'')"

fun b64encode :: "string \<Rightarrow> string" where
  "b64encode [] = []"
| "b64encode [a] =
     (let x = code_point a in
      [b64_char (x div 4), b64_char (x mod 4 * 16), CHR ''='', CHR ''=''])"
| "b64encode [a, b] =
     (let x = code_point a; y = code_point b in
      [b64_char (x div 4), b64_char (x mod 4 * 16 + y div 16), b64_char (y mod 16 * 4), CHR ''=''])"
| "b64encode (a # b # c # s) =
     (let x = code_point a; y = code_point b; z = code_point c in
      [b64_char (x div 4), b64_char (x mod 4 * 16 + y div 16),
       b64_char (y mod 16 * 4 + z div 64), b64_char (z mod 64)] @ b64encode s)"

section \<open>Decoding\<close>

definition b64_value :: "char \<Rightarrow> nat option" where
  "b64_value c = (let n = code_point c in
     if 65 \<le> n \<and> n \<le> 90 then Some (n - 65)
     else if 97 \<le> n \<and> n \<le> 122 then Some (n - 71)
     else if 48 \<le> n \<and> n \<le> 57 then Some (n + 4)
     else if n = 43 then Some 62 else if n = 47 then Some 63 else None)"

text \<open>
  \<open>b64_scan strict padding quad left pads s\<close>: position in the current quad, the bits left over
  from its last character, the pad characters seen in it. \<^term>\<open>None\<close> is \<open>binascii.Error\<close>.
\<close>

fun b64_scan :: "bool \<Rightarrow> bool \<Rightarrow> nat \<Rightarrow> nat \<Rightarrow> nat \<Rightarrow> string \<Rightarrow> string option" where
  "b64_scan strict padding quad left pads [] = (if quad = 0 then Some [] else None)"
| "b64_scan strict padding quad left pads (c # s) =
     (if c = CHR ''='' then
        (if quad \<ge> 2 \<and> quad + Suc pads \<ge> 4 then (if strict \<and> s \<noteq> [] then None else Some [])
         else b64_scan strict True quad left (if quad \<ge> 2 then Suc pads else pads) s)
      else case b64_value c of
          None \<Rightarrow> if strict then None else b64_scan strict padding quad left pads s
        | Some v \<Rightarrow>
            if strict \<and> padding then None
            else if quad = 0 then b64_scan strict padding 1 v 0 s
            else if quad = 1 then
              map_option ((#) (char_of (left * 4 + v div 16))) (b64_scan strict padding 2 (v mod 16) 0 s)
            else if quad = 2 then
              map_option ((#) (char_of (left * 16 + v div 4))) (b64_scan strict padding 3 (v mod 4) 0 s)
            else map_option ((#) (char_of (left * 64 + v))) (b64_scan strict padding 0 0 0 s))"

definition b64decode :: "bool \<Rightarrow> string \<Rightarrow> string option" where
  "b64decode strict s =
     (if list_ex (\<lambda>c. code_point c \<ge> 128) s then None
      else if strict \<and> s \<noteq> [] \<and> hd s = CHR ''='' then None
      else b64_scan strict False 0 0 0 s)"

section \<open>Round trip\<close>

lemma code_point_less [simp]: "code_point c < 256"
  by (simp add: code_point_def)

lemma char_of_code_point [simp]: "char_of (code_point c) = c"
  by (simp add: code_point_def)

lemma b64_char_code:
  "d < 64 \<Longrightarrow> code_point (b64_char d) =
     (if d < 26 then 65 + d else if d < 52 then 71 + d else if d < 62 then d - 4
      else if d = 62 then 43 else 47)"
  by (simp add: b64_char_def) (simp add: code_point_def)

lemma b64_char:
  assumes "d < 64"
  shows "b64_value (b64_char d) = Some d" "b64_char d \<noteq> CHR ''=''" "code_point (b64_char d) < 128"
    "b64_char d \<noteq> CHR ''$''"
proof -
  note code = b64_char_code [OF assms]
  show "b64_value (b64_char d) = Some d" using assms
    by (simp add: b64_value_def Let_def code) arith
  show "code_point (b64_char d) < 128" using assms by (simp add: code) arith
  have "code_point (b64_char d) \<noteq> 61" "code_point (b64_char d) \<noteq> 36"
    using assms by (simp_all add: code) arith+
  then show "b64_char d \<noteq> CHR ''=''" "b64_char d \<noteq> CHR ''$''" by (auto simp: code_point_def)
qed

declare b64_scan.simps(2) [simp del]

lemma b64_step:
  assumes "v < 64"
  shows
    "b64_scan st False 0 l p (b64_char v # s) = b64_scan st False 1 v 0 s"
    "b64_scan st False (Suc 0) l p (b64_char v # s) =
       map_option ((#) (char_of (l * 4 + v div 16))) (b64_scan st False 2 (v mod 16) 0 s)"
    "b64_scan st False 2 l p (b64_char v # s) =
       map_option ((#) (char_of (l * 16 + v div 4))) (b64_scan st False 3 (v mod 4) 0 s)"
    "b64_scan st False 3 l p (b64_char v # s) =
       map_option ((#) (char_of (l * 64 + v))) (b64_scan st False 0 0 0 s)"
  using b64_char [OF assms] by (simp_all add: b64_scan.simps(2))

lemma b64_pad:
  "b64_scan st pd 2 l 0 ''=='' = Some []"
  "b64_scan st pd 3 l 0 ''='' = Some []"
  by (simp_all add: b64_scan.simps(2))

text \<open>The characters of a group of three bytes, in arithmetic.\<close>

lemma sextet_join:
  fixes h l m k :: nat
  assumes "l < k"
  shows "(h * k + l) div k = h" "(h * k + l) mod k = l"
  using assms by simp_all

lemma sextets:
  fixes x y z :: nat
  assumes "x < 256" "y < 256" "z < 256"
  shows "x div 4 < 64" "x mod 4 * 16 + y div 16 < 64" "y mod 16 * 4 + z div 64 < 64"
    "x mod 4 * 16 < 64" "y mod 16 * 4 < 64"
    "x div 4 * 4 + (x mod 4 * 16 + y div 16) div 16 = x"
    "(x mod 4 * 16 + y div 16) mod 16 * 16 + (y mod 16 * 4 + z div 64) div 4 = y"
    "(y mod 16 * 4 + z div 64) mod 4 * 64 + z mod 64 = z"
    "x div 4 * 4 + (x mod 4 * 16) div 16 = x"
    "(x mod 4 * 16 + y div 16) mod 16 * 16 + (y mod 16 * 4) div 4 = y"
proof -
  have b: "x mod 4 < 4" "y div 16 < 16" "y mod 16 < 16" "z div 64 < 4"
    using assms by (simp_all add: less_mult_imp_div_less)
  show "x div 4 < 64" using assms by (simp add: less_mult_imp_div_less)
  show "x mod 4 * 16 + y div 16 < 64" "y mod 16 * 4 + z div 64 < 64"
    "x mod 4 * 16 < 64" "y mod 16 * 4 < 64" using b by linarith+
  note j = sextet_join [OF b(2), of "x mod 4"] sextet_join [OF b(4), of "y mod 16"]
  show "x div 4 * 4 + (x mod 4 * 16 + y div 16) div 16 = x" by (simp only: j div_mult_mod_eq)
  show "(x mod 4 * 16 + y div 16) mod 16 * 16 + (y mod 16 * 4 + z div 64) div 4 = y"
    by (simp only: j div_mult_mod_eq)
  show "(y mod 16 * 4 + z div 64) mod 4 * 64 + z mod 64 = z" by (simp only: j div_mult_mod_eq)
  show "x div 4 * 4 + (x mod 4 * 16) div 16 = x" by simp
  show "(x mod 4 * 16 + y div 16) mod 16 * 16 + (y mod 16 * 4) div 4 = y"
    by (simp only: j) simp
qed

lemmas sextets1 = sextets [of "code_point a" 0 0 for a, simplified]
lemmas sextets2 = sextets [of "code_point a" "code_point b" 0 for a b, simplified]
lemmas sextets3 = sextets [of "code_point a" "code_point b" "code_point c" for a b c, simplified]

lemma b64_scan_encode: "b64_scan st False 0 0 0 (b64encode s) = Some s"
proof (induction s rule: b64encode.induct)
  case (2 a)
  then show ?case by (simp add: Let_def b64_step b64_pad sextets1)
next
  case (3 a b)
  then show ?case by (simp add: Let_def b64_step b64_pad sextets2)
next
  case (4 a b c s)
  then show ?case by (simp add: Let_def b64_step sextets3)
qed simp

lemma b64_char_in: "d < 64 \<Longrightarrow> b64_char d \<in> b64_char ` {..<64}"
  by simp

lemma set_b64encode: "set (b64encode s) \<subseteq> insert (CHR ''='') (b64_char ` {..<64})"
proof (induction s rule: b64encode.induct)
  case (2 a)
  have "x div 4 < 64" "x mod 4 * 16 < 64" if "x < 256" for x :: nat
    using sextets [of x 0 0] that by simp_all
  then show ?case by (simp add: Let_def b64_char_in)
next
  case (3 a b)
  show ?case
    using sextets [of "code_point a" "code_point b" 0]
    by (simp only: b64encode.simps Let_def list.set insert_subset) (simp add: b64_char_in del: image_eqI)
next
  case (4 a b c s)
  show ?case
    using sextets [of "code_point a" "code_point b" "code_point c"] 4
    by (simp add: Let_def b64_char_in del: image_eqI)
qed simp

lemma hd_b64encode: "s \<noteq> [] \<Longrightarrow> hd (b64encode s) \<noteq> CHR ''=''"
  by (cases s rule: b64encode.cases) (simp_all add: Let_def b64_char sextets1)

lemma b64decode_encode: "b64decode st (b64encode s) = Some s"
proof -
  have "code_point c < 128" if "c \<in> set (b64encode s)" for c
    using set_b64encode [of s] that b64_char(3) by (auto simp: code_point_def)
  then have "\<not> list_ex (\<lambda>c. code_point c \<ge> 128) (b64encode s)"
    by (metis list_ex_iff not_le)
  moreover have "\<not> (b64encode s \<noteq> [] \<and> hd (b64encode s) = CHR ''='')"
    using hd_b64encode [of s] by (cases "s = []") auto
  ultimately show ?thesis by (auto simp: b64decode_def b64_scan_encode)
qed

lemma b64encode_no_dollar: "CHR ''$'' \<notin> set (b64encode s)"
  using set_b64encode [of s] b64_char(4) by force

end
