(* ===== verification/Uuid.thy ===== *)
theory Uuid
  imports IpAddr
begin

text \<open>
  The standard library's \<open>uuid.UUID(text)\<close> and \<open>str(UUID)\<close>: the text may carry \<open>urn:\<close> and
  \<open>uuid:\<close> prefixes, braces and hyphens; what is left must be 32 characters that \<open>int(text, 16)\<close>
  accepts. \<open>parse_uuid\<close> is the canonical text of the value, \<^term>\<open>None\<close> the \<open>ValueError\<close>.
\<close>

definition is_hex :: "char \<Rightarrow> bool" where
  "is_hex c \<longleftrightarrow> hex_value c \<noteq> None"

definition hex_of_digits :: "string \<Rightarrow> nat" where
  "hex_of_digits s = foldl (\<lambda>a c. 16 * a + (case hex_value c of None \<Rightarrow> 0 | Some d \<Rightarrow> d)) 0 s"

definition parse_hex_digits :: "string \<Rightarrow> nat option" where
  "parse_hex_digits s =
     (if underscored is_hex s then Some (hex_of_digits (filter is_hex s)) else None)"

text \<open>\<open>int(s, 16)\<close> for a text without a minus sign: sign, \<open>0x\<close> prefix and one underscore after it.\<close>

definition drop_hex_prefix :: "string \<Rightarrow> string" where
  "drop_hex_prefix s =
     (case s of z # x # t \<Rightarrow>
        if z = CHR ''0'' \<and> (x = CHR ''x'' \<or> x = CHR ''X'')
        then (case t of u # v \<Rightarrow> if u = CHR ''_'' then v else t | [] \<Rightarrow> t) else s
      | _ \<Rightarrow> s)"

definition int_base16 :: "string \<Rightarrow> nat option" where
  "int_base16 s =
     (case strip s of [] \<Rightarrow> None
      | c # t \<Rightarrow> parse_hex_digits (drop_hex_prefix (if c = CHR ''+'' then t else c # t)))"

definition uuid_value :: "string \<Rightarrow> nat option" where
  "uuid_value text =
     (let hex = remove_sub ''uuid:'' (remove_sub ''urn:'' text);
          hex = remove_sub ''-'' (strip_by (\<lambda>c. c = CHR ''{'' \<or> c = CHR ''}'') hex)
      in if length hex \<noteq> 32 then None else int_base16 hex)"

fun hex_padded :: "nat \<Rightarrow> nat \<Rightarrow> string" where
  "hex_padded 0 n = []"
| "hex_padded (Suc k) n = hex_padded k (n div 16) @ [lower_hex (n mod 16)]"

definition uuid_text :: "nat \<Rightarrow> string" where
  "uuid_text n =
     (let h = hex_padded 32 n in
      take 8 h @ ''-'' @ take 4 (drop 8 h) @ ''-'' @ take 4 (drop 12 h) @ ''-''
      @ take 4 (drop 16 h) @ ''-'' @ drop 20 h)"

definition parse_uuid :: "string \<Rightarrow> string option" where
  "parse_uuid text = map_option uuid_text (uuid_value text)"

section \<open>Canonical texts\<close>

lemma length_hex_padded [simp]: "length (hex_padded k n) = k"
  by (induction k arbitrary: n) auto

lemma lower_hex_value: "d < 16 \<Longrightarrow> hex_value (lower_hex d) = Some d"
  by (auto simp: lower_hex_def hex_value_def Let_def)

lemma hex_padded_is_hex: "list_all is_hex (hex_padded k n)"
  by (induction k arbitrary: n) (auto simp: is_hex_def lower_hex_value)

lemma hex_of_digits_snoc:
  "hex_of_digits (s @ [c]) = 16 * hex_of_digits s + (case hex_value c of None \<Rightarrow> 0 | Some d \<Rightarrow> d)"
  by (simp add: hex_of_digits_def)

lemma hex_of_hex_padded: "hex_of_digits (hex_padded k n) = n mod 16 ^ k"
proof (induction k arbitrary: n)
  case 0
  then show ?case by (simp add: hex_of_digits_def)
next
  case (Suc k)
  have "hex_of_digits (hex_padded (Suc k) n) = 16 * (n div 16 mod 16 ^ k) + n mod 16"
    by (simp add: hex_of_digits_snoc Suc lower_hex_value)
  also have "\<dots> = n mod (16 * 16 ^ k)" by (simp add: mod_mult2_eq)
  finally show ?case by simp
qed

lemma not_is_hex:
  "\<not> is_hex CHR '':''" "\<not> is_hex CHR ''-''" "\<not> is_hex CHR ''_''" "\<not> is_hex CHR ''{''" "\<not> is_hex CHR ''}''"
  "\<not> is_hex CHR ''x''" "\<not> is_hex CHR ''X''" "\<not> is_hex CHR ''+''" "\<not> is_hex CHR ''$''" "\<not> is_hex CHR '' ''"
  by (simp_all add: is_hex_def hex_value_def code_point_def Let_def)

lemma is_hex_not_space: "is_hex c \<Longrightarrow> \<not> is_space c"
  by (auto simp: is_hex_def hex_value_def is_space_def Let_def split: if_splits)

text \<open>Plain hexadecimal text reads as its value.\<close>

lemma int_base16_plain:
  assumes "list_all is_hex s" "s \<noteq> []"
  shows "int_base16 s = Some (hex_of_digits s)"
proof -
  have mem: "c \<in> set s \<Longrightarrow> is_hex c" for c using assms(1) by (simp add: list_all_iff)
  have st: "strip s = s"
    unfolding strip_def using assms mem is_hex_not_space
    by (intro strip_by_free) (simp_all add: hd_in_set last_in_set)
  obtain c t where s: "s = c # t" using assms(2) by (cases s) auto
  have "c \<noteq> CHR ''+''" using mem [of c] not_is_hex s by auto
  moreover have "drop_hex_prefix s = s"
    using mem not_is_hex by (auto simp: drop_hex_prefix_def split: list.splits)
  moreover have "underscored is_hex s"
    using assms mem not_is_hex by (intro underscored_all) auto
  moreover have "filter is_hex s = s" using mem by (simp add: filter_id_conv)
  moreover have "int_base16 s = parse_hex_digits (drop_hex_prefix (if c = CHR ''+'' then t else c # t))"
    unfolding int_base16_def st by (simp add: s)
  ultimately show ?thesis by (simp add: parse_hex_digits_def s)
qed

lemma set_uuid_text: "c \<in> set (uuid_text n) \<Longrightarrow> is_hex c \<or> c = CHR ''-''"
proof -
  have mem: "c \<in> set (hex_padded 32 n) \<Longrightarrow> is_hex c" for c
    using hex_padded_is_hex [of 32 n] by (simp only: list_all_iff)
  assume "c \<in> set (uuid_text n)"
  then show ?thesis
    unfolding uuid_text_def Let_def
    by (auto dest!: in_set_takeD in_set_dropD mem simp del: hex_padded.simps)
qed

lemma uuid_text_chars:
  "CHR ''_'' \<notin> set (uuid_text n)" "CHR '':'' \<notin> set (uuid_text n)" "CHR ''$'' \<notin> set (uuid_text n)"
  "CHR ''{'' \<notin> set (uuid_text n)" "CHR ''}'' \<notin> set (uuid_text n)"
  using set_uuid_text [of _ n] not_is_hex by auto

lemma uuid_text_not_Nil [simp]: "uuid_text n \<noteq> []"
  by (simp add: uuid_text_def Let_def)

lemma take_drop_glue: "take a (drop b h) @ drop (b + a) h = drop b h"
  by (metis append_take_drop_id drop_drop add.commute)

lemma filter_uuid_text: "filter (\<lambda>d. d \<noteq> CHR ''-'') (uuid_text n) = hex_padded 32 n"
proof -
  let ?h = "hex_padded 32 n"
  have keep: "filter (\<lambda>d. d \<noteq> CHR ''-'') t = t" if "set t \<subseteq> set ?h" for t
  proof -
    have "\<forall>c\<in>set t. is_hex c" using that hex_padded_is_hex [of 32 n] by (simp only: list_all_iff) blast
    then show ?thesis using not_is_hex by (auto simp: filter_id_conv)
  qed
  have "filter (\<lambda>d. d \<noteq> CHR ''-'') (uuid_text n) =
      take 8 ?h @ take 4 (drop 8 ?h) @ take 4 (drop 12 ?h) @ take 4 (drop 16 ?h) @ drop 20 ?h"
    unfolding uuid_text_def Let_def
    by (simp del: hex_padded.simps add: keep set_take_subset set_drop_subset
        subset_trans [OF set_take_subset set_drop_subset])
  also have "\<dots> = ?h"
    using take_drop_glue [of 4 16 ?h] take_drop_glue [of 4 12 ?h] take_drop_glue [of 4 8 ?h]
    by (simp del: hex_padded.simps)
  finally show ?thesis .
qed

lemma uuid_value_text:
  assumes "n < 2 ^ 128"
  shows "uuid_value (uuid_text n) = Some n"
proof -
  let ?b = "\<lambda>c. c = CHR ''{'' \<or> c = CHR ''}''"
  have "hd (uuid_text n) \<in> set (uuid_text n)" "last (uuid_text n) \<in> set (uuid_text n)"
    by simp_all
  then have "strip_by ?b (uuid_text n) = uuid_text n"
    using uuid_text_chars(4,5) [of n] by (intro strip_by_free) (simp, metis, metis)
  moreover have "remove_sub ''urn:'' (uuid_text n) = uuid_text n"
    "remove_sub ''uuid:'' (uuid_text n) = uuid_text n"
    by (rule remove_sub_free [where c = "CHR '':''"], simp, rule uuid_text_chars)+
  moreover have "int_base16 (hex_padded 32 n) = Some (hex_of_digits (hex_padded 32 n))"
    by (rule int_base16_plain [OF hex_padded_is_hex])
      (metis length_hex_padded list.size(3) zero_neq_numeral)
  moreover have "n mod 16 ^ 32 = n" using assms by simp
  ultimately show ?thesis
    by (simp add: uuid_value_def remove_sub_char filter_uuid_text hex_of_hex_padded
        del: hex_padded.simps)
qed

text \<open>What \<open>parse_uuid\<close> returns is canonical: it parses to itself.\<close>

lemma hex_of_digits_less: "hex_of_digits s < 16 ^ length s"
proof (induction s rule: rev_induct)
  case Nil
  then show ?case by (simp add: hex_of_digits_def)
next
  case (snoc c s)
  have "(case hex_value c of None \<Rightarrow> 0 | Some d \<Rightarrow> d) < 16"
    by (auto simp: hex_value_def Let_def)
  then show ?case using snoc by (simp add: hex_of_digits_snoc)
qed

lemma length_strip: "length (strip s) \<le> length s"
proof -
  have "length (strip s) \<le> length (dropWhile is_space s)"
    unfolding strip_def strip_by_def by (metis length_dropWhile_le length_rev)
  then show ?thesis by (meson le_trans length_dropWhile_le)
qed

lemma int_base16_less: "int_base16 s = Some n \<Longrightarrow> n < 16 ^ length s"
proof -
  assume *: "int_base16 s = Some n"
  have dp: "length (drop_hex_prefix t) \<le> length t" for t
    by (auto simp: drop_hex_prefix_def split: list.splits)
  obtain c t where st: "strip s = c # t" using * by (auto simp: int_base16_def split: list.splits)
  define v where "v = drop_hex_prefix (if c = CHR ''+'' then t else c # t)"
  have "length v \<le> Suc (length t)" unfolding v_def using dp [of t] dp [of "c # t"] by auto
  also have "\<dots> \<le> length s" using length_strip [of s] st by simp
  finally have "length (filter is_hex v) \<le> length s" by (meson le_trans length_filter_le)
  moreover have "n = hex_of_digits (filter is_hex v)"
    using * st by (simp add: int_base16_def v_def parse_hex_digits_def split: if_splits)
  ultimately show ?thesis
    using hex_of_digits_less [of "filter is_hex v"]
    by (metis less_le_trans one_le_numeral power_increasing)
qed

lemma uuid_value_less: "uuid_value s = Some n \<Longrightarrow> n < 2 ^ 128"
  by (auto simp: uuid_value_def Let_def dest!: int_base16_less split: if_splits)

lemma parse_uuid_idem: "parse_uuid s = Some u \<Longrightarrow> parse_uuid u = Some u"
  by (auto simp: parse_uuid_def uuid_value_text dest: uuid_value_less)

definition canonical_uuid :: "string \<Rightarrow> bool" where
  "canonical_uuid u \<longleftrightarrow> parse_uuid u = Some u"

lemma canonical_uuid_chars:
  assumes "canonical_uuid u"
  shows "u \<noteq> []" "CHR ''_'' \<notin> set u"
  using assms uuid_text_chars(1) by (auto simp: canonical_uuid_def parse_uuid_def)

end
