(* ===== verification/Auth.thy ===== *)
theory Auth
  imports Services Base64 Uuid
begin

text \<open>
  API keys and the authentication of requests (\<open>app/auth.py\<close>). The key of a node is
  \<open>arqs_<key id>_<secret>\<close>; the store holds \<open>scheme$iterations$salt$digest\<close> only. The derivation
  PBKDF2-HMAC-SHA256 of \<open>hashlib\<close> is the parameter \<open>pbkdf2 password salt iterations\<close>; byte
  strings are lists of characters. A request is seen through the address of its peer and its
  headers, whose names compare without regard to case.
\<close>

type_synonym kdf = "string \<Rightarrow> string \<Rightarrow> int \<Rightarrow> string"

definition PBKDF2_ITERATIONS :: int where
  "PBKDF2_ITERATIONS = 390000"

section \<open>Keys\<close>

definition generate_api_key :: "string \<Rightarrow> string \<Rightarrow> string \<times> string" where
  "generate_api_key key_id secret = (key_id, ''arqs_'' @ key_id @ ''_'' @ secret)"

definition extract_key_id :: "string \<Rightarrow> string option" where
  "extract_key_id api_key =
     (let value = strip api_key in
      if \<not> startswith value ''arqs_'' then None
      else case split_max 2 (CHR ''_'') value of
          [_, key_id, secret] \<Rightarrow>
            if key_id = [] \<or> secret = [] then None
            else if parse_uuid key_id = None then None else Some key_id
        | _ \<Rightarrow> None)"

definition hash_api_key :: "kdf \<Rightarrow> string \<Rightarrow> string \<Rightarrow> string" where
  "hash_api_key pbkdf2 salt api_key =
     join ''$'' [''pbkdf2_sha256'', str_of_int PBKDF2_ITERATIONS, b64encode salt,
                b64encode (pbkdf2 api_key salt PBKDF2_ITERATIONS)]"

text \<open>
  A stored value that does not parse verifies as false; \<open>pbkdf2_hmac\<close> itself raises for a count
  below one, outside the \<open>try\<close> of the source.
\<close>

definition verify_api_key :: "kdf \<Rightarrow> string \<Rightarrow> string \<Rightarrow> http_error + bool" where
  "verify_api_key pbkdf2 api_key stored =
     (case split_max 3 (CHR ''$'') stored of
        [scheme, iterations_str, salt_b64, digest_b64] \<Rightarrow>
          if scheme \<noteq> ''pbkdf2_sha256'' then Inr False
          else (case (parse_py_int iterations_str, b64decode False salt_b64, b64decode False digest_b64) of
              (Some iterations, Some salt, Some expected) \<Rightarrow>
                if iterations < 1 then Inl (HTTPException 500 ''Internal Server Error'')
                else Inr (pbkdf2 api_key salt iterations = expected)
            | _ \<Rightarrow> Inr False)
      | _ \<Rightarrow> Inr False)"

section \<open>Requests\<close>

record request =
  rq_client_host :: "string option"
  rq_headers :: "(string \<times> string) list"

definition header :: "request \<Rightarrow> string \<Rightarrow> string option" where
  "header rq name = map_of (map (\<lambda>(k, v). (lower k, v)) (rq_headers rq)) (lower name)"

text \<open>A candidate that does not parse is skipped.\<close>

definition trusts :: "ipaddr \<Rightarrow> string \<Rightarrow> bool" where
  "trusts addr candidate =
     (if CHR ''/'' \<in> set candidate
      then (case ip_network candidate of None \<Rightarrow> False | Some n \<Rightarrow> in_network addr n)
      else (case ip_address candidate of None \<Rightarrow> False | Some a \<Rightarrow> addr = a))"

fun forwarded_ip :: "request \<Rightarrow> string list \<Rightarrow> string option" where
  "forwarded_ip rq [] = None"
| "forwarded_ip rq (name # names) =
     (case header rq name of
        None \<Rightarrow> forwarded_ip rq names
      | Some raw \<Rightarrow>
          if raw = [] then forwarded_ip rq names
          else if lower name = ''x-forwarded-for'' then Some (strip (hd (split_max 1 (CHR '','') raw)))
          else Some (strip raw))"

definition get_client_ip :: "app_config \<Rightarrow> request \<Rightarrow> string" where
  "get_client_ip cfg rq =
     (let direct_ip = (case rq_client_host rq of None \<Rightarrow> ''unknown'' | Some h \<Rightarrow> h) in
      case ip_address direct_ip of
        None \<Rightarrow> direct_ip
      | Some addr \<Rightarrow>
          if \<not> list_ex (trusts addr) (nw_trusted_proxies (cf_network cfg)) then direct_ip
          else (case forwarded_ip rq (nw_trusted_forwarded_headers (cf_network cfg)) of
                  Some ip \<Rightarrow> ip | None \<Rightarrow> direct_ip))"

section \<open>Authentication\<close>

definition extract_api_key :: "string option \<Rightarrow> string option \<Rightarrow> http_error + string" where
  "extract_api_key x_arqs_api_key authorization =
     (case x_arqs_api_key of
        Some (c # cs) \<Rightarrow> Inr (strip (c # cs))
      | _ \<Rightarrow> (case authorization of
          Some a \<Rightarrow> if startswith (lower a) ''bearer '' then Inr (strip (drop 7 a))
                   else Inl (HTTPException 401 ''missing api key'')
        | None \<Rightarrow> Inl (HTTPException 401 ''missing api key'')))"

definition authenticate_node :: "kdf \<Rightarrow> app_config \<Rightarrow> db \<Rightarrow> string \<Rightarrow> http_error + node" where
  "authenticate_node pbkdf2 cfg s api_key =
     (case extract_key_id api_key of
        None \<Rightarrow> Inl (HTTPException 401 ''invalid api key'')
      | Some key_id \<Rightarrow>
          (case fetch n_key_id key_id (nodes s) of
             None \<Rightarrow> Inl (HTTPException 401 ''invalid api key'')
           | Some n \<Rightarrow>
               (case verify_api_key pbkdf2 api_key (n_api_key_hash n) of
                  Inl e \<Rightarrow> Inl e
                | Inr ok \<Rightarrow>
                    if \<not> ok then Inl (HTTPException 401 ''invalid api key'')
                    else if n_status n = ''disabled'' then Inl (HTTPException 403 ''node disabled'')
                    else if n_status n = ''revoked'' then Inl (HTTPException 403 ''node revoked'')
                    else if n_node_id n \<in> set (bl_node_ids (cf_blacklist cfg)) then
                      Inl (HTTPException 403 ''node blacklisted'')
                    else Inr n)))"

definition require_node :: "kdf \<Rightarrow> app_config \<Rightarrow> db \<Rightarrow> string option \<Rightarrow> string option \<Rightarrow> http_error + node" where
  "require_node pbkdf2 cfg s x_arqs_api_key authorization =
     (case extract_api_key x_arqs_api_key authorization of Inl e \<Rightarrow> Inl e
      | Inr api_key \<Rightarrow> authenticate_node pbkdf2 cfg s api_key)"

record node_context =
  nc_node_id :: string
  nc_status :: string

definition require_node_context ::
  "kdf \<Rightarrow> app_config \<Rightarrow> db \<Rightarrow> string option \<Rightarrow> string option \<Rightarrow> http_error + node_context" where
  "require_node_context pbkdf2 cfg s x_arqs_api_key authorization =
     (case extract_api_key x_arqs_api_key authorization of Inl e \<Rightarrow> Inl e
      | Inr api_key \<Rightarrow> (case authenticate_node pbkdf2 cfg s api_key of Inl e \<Rightarrow> Inl e
          | Inr n \<Rightarrow> Inr \<lparr>nc_node_id = n_node_id n, nc_status = n_status n\<rparr>))"

section \<open>Lemmas\<close>

lemma str_of_iterations: "str_of_int PBKDF2_ITERATIONS = ''390000''"
  by (simp add: PBKDF2_ITERATIONS_def str_of_int_def str_of_nat.simps)

lemma parse_iterations: "parse_py_int ''390000'' = Some PBKDF2_ITERATIONS"
  by (simp add: parse_py_int_def strip_def strip_by_def is_space_def code_point_def parse_digits_def
      is_digit_def nat_of_digits_def PBKDF2_ITERATIONS_def Let_def)

text \<open>The stored form splits back into its four parts.\<close>

lemma split_hash_api_key:
  "split_max 3 (CHR ''$'') (hash_api_key pbkdf2 salt k) =
     [''pbkdf2_sha256'', ''390000'', b64encode salt, b64encode (pbkdf2 k salt PBKDF2_ITERATIONS)]"
proof -
  let ?d = "b64encode (pbkdf2 k salt PBKDF2_ITERATIONS)"
  have three: "(3::nat) = Suc (Suc (Suc 0))" by simp
  have "hash_api_key pbkdf2 salt k = ''pbkdf2_sha256'' @ CHR ''$'' # ''390000'' @ CHR ''$'' # b64encode salt @ CHR ''$'' # ?d"
    by (simp add: hash_api_key_def join_def str_of_iterations)
  moreover have "CHR ''$'' \<notin> set ''pbkdf2_sha256''" "CHR ''$'' \<notin> set ''390000''" by simp_all
  ultimately show ?thesis
    unfolding three by (simp only: split_max_append b64encode_no_dollar not_False_eq_True split_max_0)
qed

lemma verify_hash_api_key:
  "verify_api_key pbkdf2 k' (hash_api_key pbkdf2 salt k) =
     Inr (pbkdf2 k' salt PBKDF2_ITERATIONS = pbkdf2 k salt PBKDF2_ITERATIONS)"
  unfolding verify_api_key_def split_hash_api_key
  by (simp add: parse_iterations b64decode_encode) (simp add: PBKDF2_ITERATIONS_def)

lemma extract_generated_key:
  assumes "canonical_uuid key_id" "secret \<noteq> []" "\<not> is_space (last secret)"
  shows "extract_key_id (snd (generate_api_key key_id secret)) = Some key_id"
proof -
  let ?k = "''arqs_'' @ key_id @ ''_'' @ secret"
  have st: "strip ?k = ?k"
    unfolding strip_def using assms
    by (intro strip_by_free) (simp_all add: is_space_def code_point_def)
  have two: "(2::nat) = Suc (Suc 0)" by simp
  have "split_max 2 (CHR ''_'') (''arqs'' @ CHR ''_'' # key_id @ CHR ''_'' # secret) = [''arqs'', key_id, secret]"
    unfolding two using canonical_uuid_chars(2) [OF assms(1)]
    by (subst split_max_append) (simp_all add: split_max_append)
  then show ?thesis
    using assms canonical_uuid_chars [OF assms(1)]
    by (simp add: extract_key_id_def generate_api_key_def st [simplified] Let_def canonical_uuid_def
        startswith_def)
qed

end
