(* ===== verification/Schemas.thy ===== *)
theory Schemas
  imports Auth
begin

text \<open>
  Request and response bodies (\<open>app/schemas.py\<close>) and the validators written in the source. The
  type checks that pydantic makes from the annotations (UUIDs, lengths, literals) are the types
  and the canonical texts of the fields: an identifier in a request is the canonical text of a
  UUID.
\<close>

record register_response =
  rr_node_id :: string
  rr_api_key :: string
  rr_default_endpoint_id :: string

record rotate_key_response =
  rk_node_id :: string
  rk_api_key :: string

record delete_identity_response =
  di_deleted :: bool
  di_node_id :: string
  di_endpoints_deleted :: int
  di_links_deleted :: int
  di_routes_deleted :: int
  di_link_codes_deleted :: int
  di_packets_deleted :: int
  di_deliveries_deleted :: int
  di_send_events_deleted :: int

record endpoint_create_request =
  ec_endpoint_name :: "string option"
  ec_kind :: "string option"
  ec_meta :: "dict option"

record link_code_request =
  lc_source_endpoint_id :: string
  lc_requested_mode :: string

record link_redeem_request =
  lr_code :: string
  lr_destination_endpoint_id :: string

definition link_modes :: "string list" where
  "link_modes = [''bidirectional'', ''a_to_b'', ''b_to_a'']"

definition ack_statuses :: "string list" where
  "ack_statuses = [''received'', ''handled'', ''rejected'', ''failed'', ''invalid'', ''unsupported'']"

text \<open>The field bounds (\<open>min_length=6, max_length=6\<close>) are checked before the validator runs.\<close>

definition normalize_code :: "string \<Rightarrow> string option" where
  "normalize_code raw =
     (if length raw \<noteq> 6 then None
      else let v = upper (strip raw) in if v \<noteq> [] \<and> list_all is_alnum v then Some v else None)"

record packet_send_request =
  ps_version :: int
  ps_packet_id :: string
  ps_from_endpoint_id :: string
  ps_to_endpoint_id :: string
  ps_headers :: dict
  ps_body :: "string option"
  ps_data :: dict
  ps_meta :: dict
  ps_ttl_seconds :: "int option"

definition falsy_body :: "string option \<Rightarrow> bool" where
  "falsy_body b \<longleftrightarrow> b = None \<or> b = Some []"

text \<open>\<open>ttl_seconds: Field(ge=1)\<close>, then \<open>validate_payload\<close>.\<close>

definition validate_payload :: "packet_send_request \<Rightarrow> http_error + packet_send_request" where
  "validate_payload r =
     (if (case ps_ttl_seconds r of None \<Rightarrow> False | Some t \<Rightarrow> t < 1) then Inl (HTTPException 422 ''ttl_seconds'')
      else if ps_version r \<noteq> 1 then Inl (HTTPException 422 ''version must be 1'')
      else if falsy_body (ps_body r) \<and> ps_data r = [] then
        Inl (HTTPException 422 ''at least one of body or non-empty data must be present'')
      else Inr r)"

record packet_send_response =
  pr_result :: string
  pr_packet_id :: string
  pr_delivery_id :: "string option"
  pr_expires_at :: "time option"

record delivery_packet_out =
  dp_packet_id :: string
  dp_version :: int
  dp_from_endpoint_id :: string
  dp_to_endpoint_id :: string
  dp_headers :: dict
  dp_body :: "string option"
  dp_data :: dict
  dp_meta :: dict
  dp_created_at :: time
  dp_expires_at :: "time option"

record delivery_out =
  do_delivery_id :: string
  do_destination_endpoint_id :: string
  do_queued_at :: time
  do_state :: string
  do_last_attempt_at :: "time option"
  do_packet :: delivery_packet_out

record packet_ack_request =
  ak_delivery_id :: "string option"
  ak_packet_id :: "string option"
  ak_status :: string

definition validate_reference :: "packet_ack_request \<Rightarrow> http_error + packet_ack_request" where
  "validate_reference r =
     (if ak_delivery_id r = None \<and> ak_packet_id r = None then
        Inl (HTTPException 422 ''delivery_id or packet_id is required'')
      else Inr r)"

record packet_ack_response =
  ar_acked :: bool
  ar_packet_id :: string
  ar_status :: string

record health_response =
  hr_status :: string
  hr_time :: time

record stats_response =
  sr_nodes_total :: int
  sr_endpoints_total :: int
  sr_active_links_total :: int
  sr_queued_packets_total :: int
  sr_queued_bytes_total :: int
  sr_link_codes_active_total :: int
  sr_time :: time

text \<open>A normalised link code is in normal form, and the validator is stable on it.\<close>

lemma is_alnum_upper [simp]: "is_alnum (upper_char c) = is_alnum c"
  by (auto simp: is_alnum_def upper_char_def Let_def)

lemma is_alnum_not_space: "is_alnum c \<Longrightarrow> \<not> is_space c"
  by (auto simp: is_alnum_def is_space_def Let_def)

lemma normalize_code_Some:
  assumes "normalize_code raw = Some v"
  shows "list_all is_alnum v" "upper v = v" "strip v = v" "v \<noteq> []"
proof -
  from assms have v: "v = upper (strip raw)" "v \<noteq> []" "list_all is_alnum v"
    by (auto simp: normalize_code_def Let_def split: if_splits)
  then show "list_all is_alnum v" "upper v = v" "v \<noteq> []" by simp_all
  have "\<not> is_space (hd v)" "\<not> is_space (last v)"
    using v(2,3) is_alnum_not_space by (simp_all add: list_all_iff)
  then show "strip v = v" using v(2) by (simp add: strip_def strip_by_free)
qed

end
