(* ===== verification/AccessCache.thy ===== *)
theory AccessCache
  imports Settings
begin

text \<open>
  The cache of the runtime settings and access rules that every worker process keeps
  (\<open>app/runtime_access_cache.py\<close>): the snapshot, the decision on it, and the watcher that
  reloads it when the token of the marker file changes. A commit of a session that called
  \<open>mark_runtime_access_dirty\<close> writes a new token (\<open>after_commit\<close> in \<open>app/db.py\<close>). The token is
  a number here, the \<open>time_ns()\<close> that the file holds; \<^term>\<open>None\<close> is the missing file.
\<close>

section \<open>The snapshot\<close>

record access_snapshot =
  as_runtime_settings :: runtime_settings
  as_ip_access_mode :: string
  as_default_ip_policy :: string
  as_allowed_ips :: "string set"
  as_denied_ips :: "string set"
  as_loaded_at :: time

text \<open>\<open>str(cfg.network.ip_access_mode).strip().lower()\<close>, here without a validation.\<close>

definition raw_access_mode :: "app_config \<Rightarrow> string" where
  "raw_access_mode cfg = lower (strip (nw_ip_access_mode (cf_network cfg)))"

text \<open>One row of the rule table: the last row of an address decides.\<close>

definition add_rule :: "ip_rule \<Rightarrow> string set \<times> string set \<Rightarrow> string set \<times> string set" where
  "add_rule r sets =
     (case try_normalize_ip (ip_ip r) of
        None \<Rightarrow> sets
      | Some a \<Rightarrow>
          if lower (strip (ip_action r)) = ''allow''
          then (insert a (fst sets), snd sets - {a})
          else (fst sets - {a}, insert a (snd sets)))"

definition load_snapshot_from_db :: "app_config \<Rightarrow> time \<Rightarrow> db \<Rightarrow> access_snapshot" where
  "load_snapshot_from_db cfg now s =
     (let settings = (case settings_row s of Some r \<Rightarrow> r | None \<Rightarrow> runtime_settings_defaults cfg now);
          mode = raw_access_mode cfg;
          sets = (if mode = ''dynamic'' then fold add_rule (sort_key ip_ip (ip_access_rules s)) ({}, {})
                  else ({}, {}))
      in \<lparr>as_runtime_settings = settings, as_ip_access_mode = mode,
          as_default_ip_policy = lower (strip (rs_default_ip_policy settings)),
          as_allowed_ips = fst sets, as_denied_ips = snd sets, as_loaded_at = now\<rparr>)"

section \<open>Reads of the cache\<close>

definition get_runtime_settings_cached ::
  "app_config \<Rightarrow> time \<Rightarrow> access_snapshot option \<Rightarrow> runtime_settings" where
  "get_runtime_settings_cached cfg now snapshot =
     (case snapshot of None \<Rightarrow> runtime_settings_defaults cfg now | Some sn \<Rightarrow> as_runtime_settings sn)"

definition get_inbox_limits_cached :: "app_config \<Rightarrow> time \<Rightarrow> access_snapshot option \<Rightarrow> int \<times> int" where
  "get_inbox_limits_cached cfg now snapshot =
     (let settings = get_runtime_settings_cached cfg now snapshot
      in (rs_long_poll_max_seconds settings, rs_max_inbox_batch settings))"

definition is_ip_allowed_cached :: "app_config \<Rightarrow> access_snapshot option \<Rightarrow> string \<Rightarrow> bool" where
  "is_ip_allowed_cached cfg snapshot ip =
     (let a = try_normalize_ip ip in
      case snapshot of
        None \<Rightarrow>
          if raw_access_mode cfg = ''off'' then True else \<not> static_config_ip_denied cfg a
      | Some sn \<Rightarrow>
          if as_ip_access_mode sn = ''off'' then True
          else if as_ip_access_mode sn = ''config'' then \<not> static_config_ip_denied cfg a
          else if (case a of None \<Rightarrow> False | Some w \<Rightarrow> w \<in> as_allowed_ips sn) then True
          else if (case a of None \<Rightarrow> False | Some w \<Rightarrow> w \<in> as_denied_ips sn) then False
          else if static_config_ip_denied cfg a then False
          else as_default_ip_policy sn = ''allow'')"

section \<open>The watcher\<close>

text \<open>
  The state of a process and of what it shares with the admin tool: the store, the marker file,
  the cached snapshot with the token it was stored under, and where the watcher is in its loop.
  A step of the watcher is one access to something shared.
\<close>

datatype watcher =
    Idle
  | Checked "nat option"
  | Loaded access_snapshot

record cache_system =
  cs_db :: db
  cs_marker :: "nat option"
  cs_dirty :: nat
  cs_snapshot :: access_snapshot
  cs_token :: "nat option"
  cs_watcher :: watcher

text \<open>\<open>_watcher_loop\<close>: read the token, compare it, load the snapshot, read the token again and store.\<close>

definition watcher_turn :: "app_config \<Rightarrow> time \<Rightarrow> cache_system \<Rightarrow> cache_system" where
  "watcher_turn cfg now c =
     (case cs_watcher c of
        Idle \<Rightarrow> c\<lparr>cs_watcher := Checked (cs_marker c)\<rparr>
      | Checked token \<Rightarrow>
          if token = cs_token c then c\<lparr>cs_watcher := Idle\<rparr>
          else c\<lparr>cs_watcher := Loaded (load_snapshot_from_db cfg now (cs_db c))\<rparr>
      | Loaded sn \<Rightarrow> c\<lparr>cs_snapshot := sn, cs_token := cs_marker c, cs_watcher := Idle\<rparr>)"

text \<open>
  The admin tool: a commit of a session marked dirty changes the store; its \<open>after_commit\<close> hook
  then writes a token that was not there before. \<open>cs_dirty\<close> counts the commits whose hook has not
  run yet.
\<close>

inductive cache_step :: "app_config \<Rightarrow> cache_system \<Rightarrow> cache_system \<Rightarrow> bool" for cfg where
  admin_commit: "cache_step cfg c (c\<lparr>cs_db := s, cs_dirty := Suc (cs_dirty c)\<rparr>)"
| admin_touch: "cs_dirty c = Suc n \<Longrightarrow> Some token \<noteq> cs_marker c \<Longrightarrow> Some token \<noteq> cs_token c \<Longrightarrow>
    cs_watcher c \<noteq> Checked (Some token) \<Longrightarrow>
    cache_step cfg c (c\<lparr>cs_marker := Some token, cs_dirty := n\<rparr>)"
| watch: "cache_step cfg c (watcher_turn cfg now c)"

text \<open>The same system when no dirty commit falls between the load and the store of the watcher.\<close>

inductive quiet_step :: "app_config \<Rightarrow> cache_system \<Rightarrow> cache_system \<Rightarrow> bool" for cfg where
  quiet_commit: "(\<forall>sn. cs_watcher c \<noteq> Loaded sn) \<Longrightarrow>
    quiet_step cfg c (c\<lparr>cs_db := s, cs_dirty := Suc (cs_dirty c)\<rparr>)"
| quiet_touch: "cs_dirty c = Suc n \<Longrightarrow> Some token \<noteq> cs_marker c \<Longrightarrow> Some token \<noteq> cs_token c \<Longrightarrow>
    cs_watcher c \<noteq> Checked (Some token) \<Longrightarrow>
    quiet_step cfg c (c\<lparr>cs_marker := Some token, cs_dirty := n\<rparr>)"
| quiet_watch: "quiet_step cfg c (watcher_turn cfg now c)"

text \<open>\<open>initialize_runtime_access_cache\<close>: load, make the marker if it is missing, store.\<close>

definition initial_cache :: "app_config \<Rightarrow> time \<Rightarrow> nat \<Rightarrow> nat option \<Rightarrow> db \<Rightarrow> cache_system" where
  "initial_cache cfg now token marker s =
     (let m = (case marker of None \<Rightarrow> Some token | Some t \<Rightarrow> Some t) in
      \<lparr>cs_db = s, cs_marker = m, cs_dirty = 0, cs_snapshot = load_snapshot_from_db cfg now s,
       cs_token = m, cs_watcher = Idle\<rparr>)"

definition fresh :: "app_config \<Rightarrow> cache_system \<Rightarrow> bool" where
  "fresh cfg c \<longleftrightarrow> (\<exists>now. cs_snapshot c = load_snapshot_from_db cfg now (cs_db c))"

definition quiescent :: "cache_system \<Rightarrow> bool" where
  "quiescent c \<longleftrightarrow> cs_dirty c = 0 \<and> cs_token c = cs_marker c \<and> cs_watcher c = Idle"

section \<open>The cached decision is the decision on the store\<close>

text \<open>What the admin operations keep of the rule table: canonical addresses, each with one action.\<close>

definition rules_ok :: "db \<Rightarrow> bool" where
  "rules_ok s \<longleftrightarrow> distinct (map ip_ip (ip_access_rules s))
     \<and> (\<forall>r\<in>set (ip_access_rules s). try_normalize_ip (ip_ip r) = Some (ip_ip r)
          \<and> ip_action r \<in> set ip_policy_values)"

lemma lower_strip_policy: "w \<in> set ip_policy_values \<Longrightarrow> lower (strip w) = w"
  by (auto simp: ip_policy_values_def strip_def strip_by_def is_space_def lower_def lower_char_def
      code_point_def)

lemma fold_add_rule:
  assumes "distinct (map ip_ip rs)"
    and "\<forall>r\<in>set rs. try_normalize_ip (ip_ip r) = Some (ip_ip r) \<and> ip_action r \<in> set ip_policy_values"
  shows "(a \<in> fst (fold add_rule rs (A, D)) \<longleftrightarrow>
        (case fetch ip_ip a rs of None \<Rightarrow> a \<in> A | Some r \<Rightarrow> ip_action r = ''allow'')) \<and>
      (a \<in> snd (fold add_rule rs (A, D)) \<longleftrightarrow>
        (case fetch ip_ip a rs of None \<Rightarrow> a \<in> D | Some r \<Rightarrow> ip_action r \<noteq> ''allow''))"
  using assms
proof (induction rs arbitrary: A D)
  case (Cons r rs)
  have r: "try_normalize_ip (ip_ip r) = Some (ip_ip r)" "lower (strip (ip_action r)) = ip_action r"
    using Cons.prems by (auto simp: lower_strip_policy)
  have gone: "fetch ip_ip (ip_ip r) rs = None"
    using Cons.prems by (auto simp: fetch_None_iff)
  have step: "fetch ip_ip a (r # rs) = (if ip_ip r = a then Some r else fetch ip_ip a rs)"
    by (simp add: fetch_def)
  have ih: "(a \<in> fst (fold add_rule rs (A', D')) \<longleftrightarrow>
        (case fetch ip_ip a rs of None \<Rightarrow> a \<in> A' | Some r \<Rightarrow> ip_action r = ''allow'')) \<and>
      (a \<in> snd (fold add_rule rs (A', D')) \<longleftrightarrow>
        (case fetch ip_ip a rs of None \<Rightarrow> a \<in> D' | Some r \<Rightarrow> ip_action r \<noteq> ''allow''))" for A' D'
    using Cons by simp
  have add: "add_rule r (A, D) = (if ip_action r = ''allow'' then (insert (ip_ip r) A, D - {ip_ip r})
      else (A - {ip_ip r}, insert (ip_ip r) D))"
    by (simp add: add_rule_def r)
  show ?case
    by (cases "ip_ip r = a"; cases "ip_action r = ''allow''")
      (use gone in \<open>auto simp: add step ih split: option.splits\<close>)
qed (simp add: fetch_def)

lemma fetch_set_cong:
  assumes "distinct (map key rs)" "distinct (map key rs')" "set rs = set rs'"
  shows "fetch key k rs = fetch key k rs'"
proof (cases "fetch key k rs")
  case None
  with assms show ?thesis by (metis fetch_None_iff)
next
  case (Some r)
  with assms have "fetch key k rs' = Some r" by (simp add: fetch_Some_iff)
  with Some show ?thesis by simp
qed

lemma fetch_sort_key:
  assumes "distinct (map key rs)"
  shows "fetch key a (sort_key f rs) = fetch key a rs"
proof (rule fetch_set_cong [OF _ assms])
  have "distinct (map key (sort_key f rs)) \<longleftrightarrow> distinct (map key rs)"
    by (simp add: distinct_map)
  with assms show "distinct (map key (sort_key f rs))" by simp
qed simp

text \<open>The snapshot of a store decides as \<open>is_ip_allowed\<close> does on the store.\<close>

lemma raw_access_mode_Inr: "ip_access_mode cfg = Inr m \<Longrightarrow> raw_access_mode cfg = m"
  by (auto simp: ip_access_mode_def validate_word_def raw_access_mode_def split: if_splits)

lemma snapshot_sets:
  assumes "rules_ok s" "raw_access_mode cfg = ''dynamic''"
  shows "a \<in> as_allowed_ips (load_snapshot_from_db cfg now s) \<longleftrightarrow>
      (\<exists>r. find_rule s a = Some r \<and> ip_action r = ''allow'')"
    and "a \<in> as_denied_ips (load_snapshot_from_db cfg now s) \<longleftrightarrow>
      (\<exists>r. find_rule s a = Some r \<and> ip_action r \<noteq> ''allow'')"
proof -
  let ?rs = "sort_key ip_ip (ip_access_rules s)"
  have d: "distinct (map ip_ip ?rs)" using assms by (simp add: rules_ok_def distinct_map)
  have f: "fetch ip_ip a ?rs = find_rule s a"
    using assms by (simp add: rules_ok_def find_rule_def fetch_sort_key)
  have ok: "\<forall>r\<in>set ?rs. try_normalize_ip (ip_ip r) = Some (ip_ip r) \<and> ip_action r \<in> set ip_policy_values"
    using assms by (simp add: rules_ok_def)
  note sets = fold_add_rule [OF d ok, of a "{}" "{}"]
  show "a \<in> as_allowed_ips (load_snapshot_from_db cfg now s) \<longleftrightarrow>
      (\<exists>r. find_rule s a = Some r \<and> ip_action r = ''allow'')"
    using sets assms(2) by (simp add: load_snapshot_from_db_def Let_def f split: option.splits)
  show "a \<in> as_denied_ips (load_snapshot_from_db cfg now s) \<longleftrightarrow>
      (\<exists>r. find_rule s a = Some r \<and> ip_action r \<noteq> ''allow'')"
    using sets assms(2) by (simp add: load_snapshot_from_db_def Let_def f split: option.splits)
qed

lemma snapshot_decides:
  assumes "ae_ready env" "settings_row s = Some r" "rules_ok s" "settings_valid r"
    and "ip_access_mode (ae_cfg env) = Inr m"
  shows "is_ip_allowed env now ip s =
     Inr (is_ip_allowed_cached (ae_cfg env) (Some (load_snapshot_from_db (ae_cfg env) t s)) ip, s)"
proof -
  note raw = raw_access_mode_Inr [OF assms(5)]
  have m: "m = ''off'' \<or> m = ''config'' \<or> m = ''dynamic''"
    using ip_access_mode_Inr [OF assms(5)] by (simp add: ip_access_mode_values_def)
  have sn: "as_ip_access_mode (load_snapshot_from_db (ae_cfg env) t s) = m"
    "as_default_ip_policy (load_snapshot_from_db (ae_cfg env) t s) = rs_default_ip_policy r"
    using assms by (simp_all add: load_snapshot_from_db_def raw Let_def lower_strip_policy settings_valid_def)
  show ?thesis
  proof (cases "m = ''dynamic''")
    case False
    with m sn raw assms show ?thesis
      by (auto simp: is_ip_allowed_def is_ip_allowed_cached_def Let_def)
  next
    case True
    note sets = snapshot_sets [OF assms(3) raw [unfolded True], where now = t]
    show ?thesis
    proof (cases "try_normalize_ip ip")
      case None
      then show ?thesis using True sn assms
        by (simp add: is_ip_allowed_def is_ip_allowed_cached_def Let_def)
    next
      case (Some a)
      then show ?thesis using True sn assms
        by (cases "find_rule s a") (simp_all add: is_ip_allowed_def is_ip_allowed_cached_def Let_def sets)
    qed
  qed
qed

section \<open>When the cache is fresh\<close>

text \<open>
  Without a commit inside a reload, the snapshot of a quiescent process is the store's: a token
  that matches the marker was read after the last commit's hook.
\<close>

definition cache_inv :: "app_config \<Rightarrow> cache_system \<Rightarrow> bool" where
  "cache_inv cfg c \<longleftrightarrow> (cs_dirty c = 0 \<and> cs_token c = cs_marker c \<longrightarrow> fresh cfg c)
     \<and> (\<forall>sn. cs_watcher c = Loaded sn \<longrightarrow> (\<exists>now. sn = load_snapshot_from_db cfg now (cs_db c)))"

lemma initial_cache_inv: "cache_inv cfg (initial_cache cfg now token marker s)"
  by (auto simp: cache_inv_def initial_cache_def fresh_def Let_def)

lemma quiet_step_inv: "quiet_step cfg c c' \<Longrightarrow> cache_inv cfg c \<Longrightarrow> cache_inv cfg c'"
  by (induction rule: quiet_step.induct)
    (auto simp: cache_inv_def fresh_def watcher_turn_def split: watcher.splits)

lemma quiet_steps_inv: "(quiet_step cfg)\<^sup>*\<^sup>* c c' \<Longrightarrow> cache_inv cfg c \<Longrightarrow> cache_inv cfg c'"
  by (induction rule: rtranclp_induct) (auto intro: quiet_step_inv)

text \<open>Turns of the watcher at the times \<open>ts\<close>.\<close>

definition watcher_turns :: "app_config \<Rightarrow> time list \<Rightarrow> cache_system \<Rightarrow> cache_system" where
  "watcher_turns cfg ts c = fold (watcher_turn cfg) ts c"

text \<open>A started server with the default configuration, for concrete instances.\<close>

definition default_env :: admin_env where
  "default_env = \<lparr>ae_cfg = default_config, ae_ready = True, ae_legacy = None\<rparr>"

definition default_db :: db where
  "default_db = empty_db\<lparr>settings_row := Some (runtime_settings_defaults default_config 0)\<rparr>"

definition deny_db :: db where
  "deny_db = default_db\<lparr>ip_access_rules :=
     [\<lparr>ip_ip = ''10.0.0.1'', ip_action = ''deny'', ip_reason = None, ip_created_at = 5\<rparr>]\<rparr>"

lemma default_env_simps [simp]:
  "ae_ready default_env" "ae_cfg default_env = default_config"
  by (simp_all add: default_env_def)

lemma default_db_simps [simp]:
  "settings_row default_db = Some (runtime_settings_defaults default_config 0)"
  "settings_row deny_db = Some (runtime_settings_defaults default_config 0)"
  "ip_access_rules default_db = []"
  by (simp_all add: default_db_def deny_db_def empty_db_def)

lemma default_settings_valid [simp]: "settings_valid (runtime_settings_defaults default_config 0)"
  by (simp add: settings_valid_def runtime_settings_defaults_def default_config_def default_limits_def
      default_rate_limit_def ip_policy_values_def)

lemma normalize_example [simp]: "try_normalize_ip ''10.0.0.1'' = Some ''10.0.0.1''"
proof -
  have "parse_v4 ''10.0.0.1'' = Some 167772161"
    by (simp add: parse_v4_def parse_octet_def is_digit_def code_point_def nat_of_digits_def
        v4_of_octets_def Let_def)
  moreover have "strip ''10.0.0.1'' = ''10.0.0.1''"
    by (simp add: strip_def strip_by_def is_space_def code_point_def)
  moreover have "show_v4 167772161 = ''10.0.0.1''"
    by (simp add: show_v4_def join_def str_of_nat.simps)
  ultimately show ?thesis by (simp add: try_normalize_ip_def ip_address_def Let_def)
qed

lemma default_config_fields [simp]:
  "nw_ip_access_mode (cf_network default_config) = ''dynamic''"
  "bl_client_ips (cf_blacklist default_config) = []"
  "rs_default_ip_policy (runtime_settings_defaults cfg now) = ''allow''"
  by (simp_all add: default_config_def default_network_def default_blacklist_def
      runtime_settings_defaults_def)

lemma default_access_mode [simp]: "ip_access_mode default_config = Inr ''dynamic''"
proof -
  have "lower (strip ''dynamic'') = ''dynamic''"
    by (simp add: strip_def strip_by_def is_space_def lower_def lower_char_def code_point_def)
  then show ?thesis
    by (simp add: ip_access_mode_def validate_word_def ip_access_mode_values_def)
qed

lemma deny_db_rules_ok [simp]: "rules_ok deny_db" "rules_ok default_db"
  by (simp_all add: rules_ok_def deny_db_def default_db_def empty_db_def ip_policy_values_def)

lemma deny_db_denies [simp]: "is_ip_allowed default_env now ''10.0.0.1'' deny_db = Inr (False, deny_db)"
  by (simp add: is_ip_allowed_def find_rule_def fetch_def Let_def) (simp add: deny_db_def)

lemma default_db_allows [simp]:
  "is_ip_allowed_cached default_config (Some (load_snapshot_from_db default_config now default_db)) ''10.0.0.1''"
  using snapshot_decides [of default_env default_db "runtime_settings_defaults default_config 0"
      "''dynamic''" 0 "''10.0.0.1''" now]
  by (simp add: is_ip_allowed_def find_rule_def fetch_def static_config_ip_denied_def Let_def)

section \<open>Properties\<close>

text \<open>
  C13: On a process whose snapshot was loaded from the current store, the middleware's cached
  decision for an address is the decision that \<open>admin_services.is_ip_allowed\<close> takes on the store.
\<close>

theorem cached_decision_agrees:
  assumes "ae_ready env" "settings_row s = Some r" "settings_valid r" "rules_ok s"
    and "ip_access_mode (ae_cfg env) = Inr m"
  shows "is_ip_allowed env now ip s =
     Inr (is_ip_allowed_cached (ae_cfg env) (Some (load_snapshot_from_db (ae_cfg env) t s)) ip, s)"
  by (rule snapshot_decides [OF assms(1,2,4,3,5)])

theorem cached_decision_agrees_witness:
  "\<not> is_ip_allowed_cached default_config (Some (load_snapshot_from_db default_config 7 deny_db)) ''10.0.0.1''"
  using cached_decision_agrees [of default_env deny_db "runtime_settings_defaults default_config 0"
      "''dynamic''" 0 "''10.0.0.1''" 7]
  by simp

text \<open>
  If no settings commit falls inside a reload of the watcher, then in every reachable state in
  which the watcher rests, every commit hook has run and the stored token is the marker's, the
  cached decision for every address is the decision on the current store.
\<close>

theorem quiescent_cache_decides:
  assumes "(quiet_step (ae_cfg env))\<^sup>*\<^sup>* (initial_cache (ae_cfg env) t0 token marker s0) c"
    and "quiescent c" "ae_ready env" "settings_row (cs_db c) = Some r" "settings_valid r"
    and "rules_ok (cs_db c)" "ip_access_mode (ae_cfg env) = Inr m"
  shows "is_ip_allowed env now ip (cs_db c) =
     Inr (is_ip_allowed_cached (ae_cfg env) (Some (cs_snapshot c)) ip, cs_db c)"
proof -
  have "cache_inv (ae_cfg env) c" using assms(1) initial_cache_inv by (rule quiet_steps_inv)
  with assms(2) obtain t where "cs_snapshot c = load_snapshot_from_db (ae_cfg env) t (cs_db c)"
    by (auto simp: cache_inv_def quiescent_def fresh_def)
  then show ?thesis using snapshot_decides [OF assms(3,4,6,5,7)] by simp
qed

definition committed_cache :: cache_system where
  "committed_cache = (let c0 = initial_cache default_config 0 1 None default_db;
     c1 = c0\<lparr>cs_db := deny_db, cs_dirty := 1\<rparr>; c2 = c1\<lparr>cs_marker := Some 2, cs_dirty := 0\<rparr>
     in c2)"

lemma committed_steps:
  "(quiet_step default_config)\<^sup>*\<^sup>* (initial_cache default_config 0 1 None default_db) committed_cache"
  proof -
  let ?i = "initial_cache default_config 0 1 None default_db"
  have "quiet_step default_config ?i (?i\<lparr>cs_db := deny_db, cs_dirty := Suc (cs_dirty ?i)\<rparr>)"
    by (rule quiet_commit) (simp add: initial_cache_def Let_def)
  then have 1: "quiet_step default_config ?i (?i\<lparr>cs_db := deny_db, cs_dirty := 1\<rparr>)"
    by (simp add: initial_cache_def Let_def)
  have 2: "quiet_step default_config (?i\<lparr>cs_db := deny_db, cs_dirty := 1\<rparr>) committed_cache"
    unfolding committed_cache_def Let_def by (rule quiet_touch) (simp_all add: initial_cache_def Let_def)
  from 1 2 show ?thesis by (meson converse_rtranclp_into_rtranclp rtranclp.rtrancl_refl)
qed

lemma quiet_turns: "(quiet_step cfg)\<^sup>*\<^sup>* c (watcher_turns cfg ts c)"
  unfolding watcher_turns_def
proof (induction ts arbitrary: c)
  case (Cons t ts)
  have "quiet_step cfg c (watcher_turn cfg t c)" by (rule quiet_watch)
  with Cons [of "watcher_turn cfg t c"] show ?case by (simp add: converse_rtranclp_into_rtranclp)
qed simp

theorem quiescent_cache_decides_witness:
  "\<not> is_ip_allowed_cached default_config
     (Some (cs_snapshot (watcher_turns default_config [3, 3, 3] committed_cache))) ''10.0.0.1''"
proof -
  let ?c = "watcher_turns default_config [3, 3, 3] committed_cache"
  have s: "cs_db ?c = deny_db" "quiescent ?c"
    by (simp_all add: watcher_turns_def committed_cache_def watcher_turn_def quiescent_def
        initial_cache_def Let_def)
  have "(quiet_step default_config)\<^sup>*\<^sup>* (initial_cache default_config 0 1 None default_db) ?c"
    using committed_steps quiet_turns by (rule rtranclp_trans)
  with s show ?thesis
    using quiescent_cache_decides [of default_env 0 1 None default_db ?c
        "runtime_settings_defaults default_config 0" "''dynamic''" 0 "''10.0.0.1''"] by simp
qed



text \<open>A commit that falls between the load and the second read of the token.\<close>

definition racing_cache :: cache_system where
  "racing_cache = (let
     c0 = (initial_cache default_config 0 1 None default_db)\<lparr>cs_marker := Some 2\<rparr>;
     c1 = watcher_turns default_config [3, 3] c0;
     c2 = c1\<lparr>cs_db := deny_db, cs_marker := Some 4\<rparr>
   in watcher_turn default_config 5 c2)"

lemma racing_cache_simps:
  "quiescent racing_cache" "cs_db racing_cache = deny_db"
  "cs_snapshot racing_cache = load_snapshot_from_db default_config 3 default_db"
  by (simp_all add: racing_cache_def Let_def watcher_turns_def watcher_turn_def initial_cache_def
      quiescent_def)

lemma racing_steps: "(cache_step default_config)\<^sup>*\<^sup>* (initial_cache default_config 0 1 None default_db) racing_cache"
proof -
  let ?S = "cache_step default_config" and ?i = "initial_cache default_config 0 1 None default_db"
  let ?a = "?i\<lparr>cs_marker := Some 2\<rparr>"
  let ?b = "watcher_turn default_config 3 ?a"
  let ?d = "watcher_turn default_config 3 ?b"
  have "?S ?i (?i\<lparr>cs_db := default_db, cs_dirty := Suc (cs_dirty ?i)\<rparr>)" by (rule admin_commit)
  moreover have "?S (?i\<lparr>cs_db := default_db, cs_dirty := Suc (cs_dirty ?i)\<rparr>)
     ((?i\<lparr>cs_db := default_db, cs_dirty := Suc (cs_dirty ?i)\<rparr>)\<lparr>cs_marker := Some 2, cs_dirty := 0\<rparr>)"
    by (rule admin_touch) (simp_all add: initial_cache_def Let_def)
  moreover have "(?i\<lparr>cs_db := default_db, cs_dirty := Suc (cs_dirty ?i)\<rparr>)
      \<lparr>cs_marker := Some 2, cs_dirty := 0\<rparr> = ?a" by (simp add: initial_cache_def Let_def)
  ultimately have 1: "?S\<^sup>*\<^sup>* ?i ?a" by (metis (no_types) converse_rtranclp_into_rtranclp rtranclp.rtrancl_refl)
  have 2: "?S ?a ?b" "?S ?b ?d" by (rule watch)+
  have 3: "?S ?d (?d\<lparr>cs_db := deny_db, cs_dirty := Suc (cs_dirty ?d)\<rparr>)" by (rule admin_commit)
  have "?S (?d\<lparr>cs_db := deny_db, cs_dirty := Suc (cs_dirty ?d)\<rparr>)
     ((?d\<lparr>cs_db := deny_db, cs_dirty := Suc (cs_dirty ?d)\<rparr>)\<lparr>cs_marker := Some 4, cs_dirty := 0\<rparr>)"
    by (rule admin_touch) (simp_all add: initial_cache_def Let_def watcher_turn_def)
  moreover have "(?d\<lparr>cs_db := deny_db, cs_dirty := Suc (cs_dirty ?d)\<rparr>)\<lparr>cs_marker := Some 4, cs_dirty := 0\<rparr>
      = ?d\<lparr>cs_db := deny_db, cs_marker := Some 4\<rparr>"
    by (simp add: initial_cache_def Let_def watcher_turn_def)
  ultimately have 4: "?S (?d\<lparr>cs_db := deny_db, cs_dirty := Suc (cs_dirty ?d)\<rparr>)
      (?d\<lparr>cs_db := deny_db, cs_marker := Some 4\<rparr>)" by simp
  have 5: "?S (?d\<lparr>cs_db := deny_db, cs_marker := Some 4\<rparr>) racing_cache"
    unfolding racing_cache_def Let_def watcher_turns_def by simp (rule watch)
  from 1 2 3 4 5 show ?thesis by (meson rtranclp.rtrancl_into_rtrancl)
qed

lemma matching_turn:
  assumes "cs_token c = cs_marker c" "cs_watcher c = Idle \<or> cs_watcher c = Checked (cs_token c)"
  shows "cs_snapshot (watcher_turn cfg t c) = cs_snapshot c"
    "cs_token (watcher_turn cfg t c) = cs_marker (watcher_turn cfg t c)"
    "cs_watcher (watcher_turn cfg t c) = Idle
       \<or> cs_watcher (watcher_turn cfg t c) = Checked (cs_token (watcher_turn cfg t c))"
  using assms by (auto simp: watcher_turn_def)

lemma quiescent_turns_keep:
  "cs_token c = cs_marker c \<Longrightarrow> cs_watcher c = Idle \<or> cs_watcher c = Checked (cs_token c) \<Longrightarrow>
   cs_snapshot (watcher_turns cfg ts c) = cs_snapshot c"
  unfolding watcher_turns_def
proof (induction ts arbitrary: c)
  case (Cons t ts)
  note turn = matching_turn [OF Cons.prems, of cfg t]
  from Cons.IH [OF turn(2,3)] turn(1) show ?case by simp
qed simp

text \<open>
  C15: The reload races with the admin tool: \<open>refresh_runtime_access_cache\<close> loads the snapshot
  first and reads the marker afterwards, so a deny rule committed in between is recorded as seen.
  The process then rests with the marker's token, allows the denied address, and no number of
  further turns of the watcher changes that.
\<close>

theorem reload_race:
  "\<exists>c. (cache_step default_config)\<^sup>*\<^sup>* (initial_cache default_config 0 1 None default_db) c \<and> quiescent c
     \<and> is_ip_allowed default_env now ''10.0.0.1'' (cs_db c) = Inr (False, cs_db c)
     \<and> (\<forall>ts. is_ip_allowed_cached default_config (Some (cs_snapshot (watcher_turns default_config ts c))) ''10.0.0.1'')"
proof (intro exI conjI allI)
  show "(cache_step default_config)\<^sup>*\<^sup>* (initial_cache default_config 0 1 None default_db) racing_cache"
    by (rule racing_steps)
  show "quiescent racing_cache" by (rule racing_cache_simps)
  show "is_ip_allowed default_env now ''10.0.0.1'' (cs_db racing_cache) = Inr (False, cs_db racing_cache)"
    by (simp add: racing_cache_simps)
  fix ts
  show "is_ip_allowed_cached default_config
      (Some (cs_snapshot (watcher_turns default_config ts racing_cache))) ''10.0.0.1''"
    using racing_cache_simps(1) by (simp add: quiescent_turns_keep quiescent_def racing_cache_simps)
qed

end
