(* ===== verification/Server.thy ===== *)
theory Server
  imports Schemas AccessCache
begin

text \<open>
  The request handlers of the relay (\<open>app/main.py\<close>). A handler maps the committed store to the
  committed store and its outcome, an \<open>HTTPException\<close> or a response. What it raises before a
  commit leaves the store as it was: \<open>get_db\<close> closes the session, which rolls it back. A
  constraint that a commit breaks, where the source does not catch it, is the framework's
  \<open>500 Internal Server Error\<close>.

  The clock, the random identifiers and the random keys that one request draws are its
  \<open>draws\<close>: \<open>dr_now k\<close> is its \<open>k\<close>-th reading of the clock, \<open>dr_uuid k\<close> its \<open>k\<close>-th \<open>uuid4()\<close>.
  \<open>redeem_link_code\<close> and \<open>send_packet\<close> read first and write later in a transaction of their
  own, so each is the composition of a check and of a commit that may meet a later store.
\<close>

record draws =
  dr_now :: "nat \<Rightarrow> time"
  dr_uuid :: "nat \<Rightarrow> string"
  dr_secret :: string
  dr_salt :: string
  dr_codes :: "nat \<Rightarrow> nat list"

type_synonym 'a outcome = "db \<times> (http_error + 'a)"

section \<open>Control flow of a handler\<close>

definition reject :: "db \<Rightarrow> nat \<Rightarrow> string \<Rightarrow> 'a outcome" where
  "reject s code detail = (s, Inl (HTTPException code detail))"

text \<open>A check that raises ends the handler.\<close>

definition check :: "db \<Rightarrow> http_error + 'a \<Rightarrow> ('a \<Rightarrow> 'b outcome) \<Rightarrow> 'b outcome" where
  "check s c k = (case c of Inl e \<Rightarrow> (s, Inl e) | Inr x \<Rightarrow> k x)"

definition and_then :: "http_error + 'a \<Rightarrow> ('a \<Rightarrow> http_error + 'b) \<Rightarrow> http_error + 'b" where
  "and_then c k = (case c of Inl e \<Rightarrow> Inl e | Inr x \<Rightarrow> k x)"

text \<open>A flush or commit of inserts whose \<open>IntegrityError\<close> is not caught.\<close>

definition flush :: "db \<Rightarrow> db option \<Rightarrow> (db \<Rightarrow> 'a outcome) \<Rightarrow> 'a outcome" where
  "flush s r k = (case r of None \<Rightarrow> reject s 500 ''Internal Server Error'' | Some t \<Rightarrow> k t)"

fun insert_all :: "('r \<Rightarrow> db \<Rightarrow> db option) \<Rightarrow> 'r list \<Rightarrow> db \<Rightarrow> db option" where
  "insert_all ins [] s = Some s"
| "insert_all ins (r # rs) s = (case ins r s of None \<Rightarrow> None | Some t \<Rightarrow> insert_all ins rs t)"

section \<open>Identities\<close>

definition register :: "kdf \<Rightarrow> draws \<Rightarrow> string option \<Rightarrow> db \<Rightarrow> register_response outcome" where
  "register pbkdf2 dr node_name s =
     (let now = dr_now dr 0;
          node_id = dr_uuid dr 0;
          endpoint_id = dr_uuid dr 1;
          (key_id, api_key) = generate_api_key (dr_uuid dr 2) (dr_secret dr);
          node = \<lparr>n_node_id = node_id, n_key_id = key_id,
                  n_api_key_hash = hash_api_key pbkdf2 (dr_salt dr) api_key,
                  n_node_name = node_name, n_created_at = now, n_status = ''active''\<rparr>;
          endpoint = \<lparr>e_endpoint_id = endpoint_id, e_node_id = node_id,
                  e_endpoint_name = Some ''default'', e_kind = Some ''default'', e_meta = Some [],
                  e_created_at = now, e_status = ''active''\<rparr>
      in flush s (insert_node node s) (\<lambda>s1.
         flush s (insert_endpoint endpoint s1) (\<lambda>s2.
           (s2, Inr \<lparr>rr_node_id = node_id, rr_api_key = api_key,
                     rr_default_endpoint_id = endpoint_id\<rparr>))))"

definition self_rotate_key :: "kdf \<Rightarrow> draws \<Rightarrow> node \<Rightarrow> db \<Rightarrow> rotate_key_response outcome" where
  "self_rotate_key pbkdf2 dr node s =
     check s (ensure_node_active (n_status node)) (\<lambda>_.
       let (key_id, api_key) = generate_api_key (n_key_id node) (dr_secret dr);
           h = hash_api_key pbkdf2 (dr_salt dr) api_key
       in (s\<lparr>nodes := update_where (\<lambda>n. n_node_id n = n_node_id node)
              (\<lambda>n. n\<lparr>n_api_key_hash := h\<rparr>) (nodes s)\<rparr>,
           Inr \<lparr>rk_node_id = n_node_id node, rk_api_key = api_key\<rparr>))"

definition endpoint_ids_of :: "db \<Rightarrow> string \<Rightarrow> string list" where
  "endpoint_ids_of s node_id = map e_endpoint_id (filter (\<lambda>e. e_node_id e = node_id) (endpoints s))"

definition delete_identity :: "node \<Rightarrow> db \<Rightarrow> delete_identity_response outcome" where
  "delete_identity node s =
     (let node_id = n_node_id node;
          endpoint_ids = endpoint_ids_of s node_id;
          mine = (\<lambda>e. e \<in> set endpoint_ids);
          counts =
            (if endpoint_ids \<noteq> [] then
               (count_where (\<lambda>l. mine (l_endpoint_a_id l) \<or> mine (l_endpoint_b_id l)) (links s),
                count_where (\<lambda>r. mine (r_from_endpoint_id r) \<or> mine (r_to_endpoint_id r)) (directed_routes s),
                count_where (\<lambda>c. mine (c_source_endpoint_id c)) (link_codes s),
                count_where (\<lambda>p. p_sender_node_id p = node_id \<or> mine (p_from_endpoint_id p)
                   \<or> mine (p_to_endpoint_id p)) (packets s),
                count_where (\<lambda>d. d_destination_node_id d = node_id
                   \<or> mine (d_destination_endpoint_id d)) (deliveries s))
             else
               (0, 0, 0, count_where (\<lambda>p. p_sender_node_id p = node_id) (packets s),
                count_where (\<lambda>d. d_destination_node_id d = node_id) (deliveries s)));
          (links_deleted, routes_deleted, link_codes_deleted, packets_deleted, deliveries_deleted) = counts;
          send_events_deleted = count_where (\<lambda>v. s_node_id v = node_id) (send_events s)
      in (delete_nodes (\<lambda>n. n_node_id n = node_id) s,
          Inr \<lparr>di_deleted = True, di_node_id = node_id,
               di_endpoints_deleted = int (length endpoint_ids), di_links_deleted = links_deleted,
               di_routes_deleted = routes_deleted, di_link_codes_deleted = link_codes_deleted,
               di_packets_deleted = packets_deleted, di_deliveries_deleted = deliveries_deleted,
               di_send_events_deleted = send_events_deleted\<rparr>))"

section \<open>Endpoints\<close>

text \<open>\<open>ORDER BY\<close> is a stable sort of the rows in their stored order.\<close>

definition list_endpoints :: "node \<Rightarrow> db \<Rightarrow> endpoint list outcome" where
  "list_endpoints node s =
     (s, Inr (sort_key e_created_at (filter (\<lambda>e. e_node_id e = n_node_id node) (endpoints s))))"

definition create_endpoint :: "draws \<Rightarrow> endpoint_create_request \<Rightarrow> node \<Rightarrow> db \<Rightarrow> endpoint outcome" where
  "create_endpoint dr payload node s =
     check s (ensure_node_active (n_status node)) (\<lambda>_.
       let endpoint = \<lparr>e_endpoint_id = dr_uuid dr 0, e_node_id = n_node_id node,
             e_endpoint_name = ec_endpoint_name payload, e_kind = ec_kind payload,
             e_meta = Some (case ec_meta payload of None \<Rightarrow> [] | Some m \<Rightarrow> m),
             e_created_at = dr_now dr 0, e_status = ''active''\<rparr>
       in flush s (insert_endpoint endpoint s) (\<lambda>t. (t, Inr endpoint)))"

definition delete_endpoint :: "draws \<Rightarrow> string \<Rightarrow> node \<Rightarrow> db \<Rightarrow> string outcome" where
  "delete_endpoint dr endpoint_id node s =
     (let now = dr_now dr 0 in
      check s (ensure_node_owns_endpoint s (n_node_id node) endpoint_id) (\<lambda>endpoint.
        if e_endpoint_name endpoint = Some ''default'' then
          reject s 409 ''default endpoint deletion not allowed''
        else
          let linked = count_where (\<lambda>l. l_status l = ''active''
                \<and> (l_endpoint_a_id l = endpoint_id \<or> l_endpoint_b_id l = endpoint_id)) (links s);
              queued = queue_packets (\<lambda>d. d_destination_endpoint_id d = endpoint_id) now s
          in if linked \<noteq> 0 \<or> queued \<noteq> 0 then reject s 409 ''endpoint still linked or queued''
             else (delete_endpoints (\<lambda>e. e_endpoint_id e = endpoint_id) s, Inr endpoint_id)))"

section \<open>Link codes\<close>

definition ALPHANUM :: string where
  "ALPHANUM = ''ABCDEFGHIJKLMNOPQRSTUVWXYZ0123456789''"

text \<open>Six \<open>secrets.choice\<close>s, given as positions in the alphabet.\<close>

definition generate_link_code :: "nat list \<Rightarrow> string" where
  "generate_link_code choices = map (\<lambda>i. ALPHANUM ! (choices ! i mod 36)) [0..<6]"

text \<open>The loop over at most 20 candidates: the first one that no row has.\<close>

definition allocate_code :: "draws \<Rightarrow> db \<Rightarrow> string option" where
  "allocate_code dr s =
     find (\<lambda>candidate. \<not> list_ex (\<lambda>c. c_code c = candidate) (link_codes s))
       (map (\<lambda>k. generate_link_code (dr_codes dr k)) [0..<20])"

definition request_link_code ::
  "app_config \<Rightarrow> draws \<Rightarrow> link_code_request \<Rightarrow> node \<Rightarrow> db \<Rightarrow> link_code outcome" where
  "request_link_code cfg dr payload node s =
     check s (ensure_node_active (n_status node)) (\<lambda>_.
     check s (ensure_node_owns_endpoint s (n_node_id node) (lc_source_endpoint_id payload)) (\<lambda>_.
       let now = dr_now dr 0 in
       case allocate_code dr s of
         None \<Rightarrow> reject s 500 ''failed to allocate link code''
       | Some code_value \<Rightarrow>
           let record = \<lparr>c_link_code_id = dr_uuid dr 0, c_code = code_value,
                 c_source_endpoint_id = lc_source_endpoint_id payload,
                 c_requested_mode = lc_requested_mode payload, c_created_at = now,
                 c_expires_at = now + seconds (rt_link_code_ttl_seconds (cf_retention cfg)),
                 c_status = ''active''\<rparr>
           in flush s (insert_link_code record s) (\<lambda>t. (t, Inr record))))"

definition set_code_status :: "string \<Rightarrow> string \<Rightarrow> db \<Rightarrow> db" where
  "set_code_status link_code_id st s =
     s\<lparr>link_codes := update_where (\<lambda>c. c_link_code_id c = link_code_id)
        (\<lambda>c. c\<lparr>c_status := st\<rparr>) (link_codes s)\<rparr>"

text \<open>Up to the claim: reads only, except that an expired code is recorded as such and committed.\<close>

definition redeem_check ::
  "draws \<Rightarrow> link_redeem_request \<Rightarrow> node \<Rightarrow> db \<Rightarrow> link_code outcome" where
  "redeem_check dr payload node s =
     check s (ensure_node_active (n_status node)) (\<lambda>_.
     check s (ensure_node_owns_endpoint s (n_node_id node) (lr_destination_endpoint_id payload)) (\<lambda>dest_endpoint.
       case fetch c_code (lr_code payload) (link_codes s) of
         None \<Rightarrow> reject s 404 ''link code not found''
       | Some code \<Rightarrow>
           if c_expires_at code \<le> dr_now dr 0 then
             reject (set_code_status (c_link_code_id code) ''expired'' s) 409 ''link code expired''
           else if c_status code \<noteq> ''active'' then reject s 409 ''link code not active''
           else if c_source_endpoint_id code = e_endpoint_id dest_endpoint then
             reject s 409 ''cannot self-link endpoint''
           else (s, Inr code)))"

text \<open>The claim and what follows it, in one write transaction that a rejection rolls back.\<close>

definition redeem_claim :: "draws \<Rightarrow> string \<Rightarrow> link_code \<Rightarrow> db \<Rightarrow> link outcome" where
  "redeem_claim dr dest code s =
     (let source = c_source_endpoint_id code;
          mode = c_requested_mode code;
          claimed = count_where (\<lambda>c. c_link_code_id c = c_link_code_id code \<and> c_status c = ''active'')
            (link_codes s);
          s1 = s\<lparr>link_codes := update_where
            (\<lambda>c. c_link_code_id c = c_link_code_id code \<and> c_status c = ''active'')
            (\<lambda>c. c\<lparr>c_status := ''used''\<rparr>) (link_codes s)\<rparr>
      in if claimed \<noteq> 1 then reject s 409 ''link code not active''
         else if (case get_endpoint s1 source of None \<Rightarrow> True | Some e \<Rightarrow> e_status e \<noteq> ''active'') then
           reject s 409 ''source endpoint unavailable''
         else if exact_active_link_exists s1 source dest mode then reject s 409 ''duplicate active link''
         else check s (resolve_redeem_routes source dest mode) (\<lambda>routes.
           if list_ex (\<lambda>(a, b). active_route_exists s1 a b) routes then
             reject s 409 ''active route already exists''
           else
             let now = dr_now dr 1;
                 link = \<lparr>l_link_id = dr_uuid dr 0, l_endpoint_a_id = source, l_endpoint_b_id = dest,
                         l_mode = mode, l_created_at = now, l_status = ''active''\<rparr>;
                 rows = map (\<lambda>(k, a, b). \<lparr>r_route_id = dr_uuid dr k, r_from_endpoint_id = a,
                         r_to_endpoint_id = b, r_created_at = now, r_status = ''active'',
                         r_created_by_link_id = Some (l_link_id link)\<rparr>) (enumerate 1 routes)
             in flush s (insert_link link s1) (\<lambda>s2.
                flush s (insert_all insert_route rows s2) (\<lambda>s3. (s3, Inr link)))))"

definition redeem_link_code :: "draws \<Rightarrow> link_redeem_request \<Rightarrow> node \<Rightarrow> db \<Rightarrow> link outcome" where
  "redeem_link_code dr payload node s =
     (case redeem_check dr payload node s of
        (s0, Inl e) \<Rightarrow> (s0, Inl e)
      | (s0, Inr code) \<Rightarrow> redeem_claim dr (lr_destination_endpoint_id payload) code s0)"

definition list_links :: "node \<Rightarrow> db \<Rightarrow> link list outcome" where
  "list_links node s =
     (let endpoint_ids = endpoint_ids_of s (n_node_id node) in
      if endpoint_ids = [] then (s, Inr [])
      else (s, Inr (sort_key (\<lambda>l. - l_created_at l)
        (filter (\<lambda>l. l_status l = ''active''
           \<and> (l_endpoint_a_id l \<in> set endpoint_ids \<or> l_endpoint_b_id l \<in> set endpoint_ids)) (links s)))))"

definition revoke_link_rows :: "string \<Rightarrow> db \<Rightarrow> db" where
  "revoke_link_rows link_id s =
     s\<lparr>links := update_where (\<lambda>l. l_link_id l = link_id) (\<lambda>l. l\<lparr>l_status := ''revoked''\<rparr>) (links s),
       directed_routes := update_where (\<lambda>r. r_created_by_link_id r = Some link_id)
         (\<lambda>r. r\<lparr>r_status := ''revoked''\<rparr>) (directed_routes s)\<rparr>"

definition revoke_link :: "string \<Rightarrow> node \<Rightarrow> db \<Rightarrow> string outcome" where
  "revoke_link link_id node s =
     (case get_link s link_id of
        None \<Rightarrow> reject s 404 ''link not found''
      | Some l \<Rightarrow>
          let endpoint_ids = endpoint_ids_of s (n_node_id node) in
          if l_endpoint_a_id l \<notin> set endpoint_ids \<and> l_endpoint_b_id l \<notin> set endpoint_ids then
            reject s 403 ''link not visible to node''
          else (revoke_link_rows (l_link_id l) s, Inr link_id))"

section \<open>Sending\<close>

text \<open>The guards of \<open>send_packet\<close> up to the size check; the node of the destination is returned.\<close>

definition send_authorised :: "node \<Rightarrow> packet_send_request \<Rightarrow> db \<Rightarrow> http_error + node" where
  "send_authorised node payload s =
     and_then (ensure_node_active (n_status node)) (\<lambda>_.
     and_then (ensure_node_owns_endpoint s (n_node_id node) (ps_from_endpoint_id payload)) (\<lambda>_.
       case get_endpoint s (ps_to_endpoint_id payload) of
         None \<Rightarrow> Inl (HTTPException 404 ''destination endpoint not found'')
       | Some dest_endpoint \<Rightarrow>
           if e_status dest_endpoint \<noteq> ''active'' then
             Inl (HTTPException 403 ''destination endpoint not active'')
           else (case get_node s (e_node_id dest_endpoint) of
               None \<Rightarrow> Inl (HTTPException 403 ''destination node not active'')
             | Some dest_node \<Rightarrow>
                 if n_status dest_node \<noteq> ''active'' then
                   Inl (HTTPException 403 ''destination node not active'')
                 else if \<not> active_route_exists s (ps_from_endpoint_id payload) (ps_to_endpoint_id payload) then
                   Inl (HTTPException 403 ''no active directed route'')
                 else Inr dest_node)))"

definition matches_payload :: "node \<Rightarrow> packet_send_request \<Rightarrow> packet \<Rightarrow> bool" where
  "matches_payload node payload existing =
     packet_matches existing (n_node_id node) (ps_from_endpoint_id payload) (ps_to_endpoint_id payload)
       (ps_headers payload) (ps_body payload) (ps_data payload) (ps_meta payload) (ps_version payload)"

definition delivery_of :: "db \<Rightarrow> string \<Rightarrow> delivery option" where
  "delivery_of s packet_id = fetch d_packet_id packet_id (deliveries s)"

definition duplicate_response :: "db \<Rightarrow> packet \<Rightarrow> packet_send_response" where
  "duplicate_response s existing =
     \<lparr>pr_result = ''duplicate'', pr_packet_id = p_packet_id existing,
      pr_delivery_id = map_option d_delivery_id (delivery_of s (p_packet_id existing)),
      pr_expires_at = p_expires_at existing\<rparr>"

text \<open>A stored packet of the same identifier; one that is expired is deleted in the session.\<close>

definition existing_packet :: "time \<Rightarrow> string \<Rightarrow> db \<Rightarrow> packet option \<times> db" where
  "existing_packet now packet_id s =
     (case get_packet s packet_id of
        None \<Rightarrow> (None, s)
      | Some p \<Rightarrow> if is_packet_expired now p
                  then (None, delete_packets (\<lambda>q. p_packet_id q = packet_id) s) else (Some p, s))"

definition payload_bytes :: "packet_send_request \<Rightarrow> int" where
  "payload_bytes payload =
     payload_size_bytes (ps_headers payload) (ps_body payload) (ps_data payload) (ps_meta payload)"

definition new_packet :: "app_config \<Rightarrow> time \<Rightarrow> node \<Rightarrow> packet_send_request \<Rightarrow> packet" where
  "new_packet cfg now node payload =
     \<lparr>p_packet_id = ps_packet_id payload, p_version = ps_version payload,
      p_sender_node_id = n_node_id node, p_from_endpoint_id = ps_from_endpoint_id payload,
      p_to_endpoint_id = ps_to_endpoint_id payload, p_headers = ps_headers payload,
      p_body = ps_body payload, p_data = ps_data payload, p_meta = ps_meta payload,
      p_created_at = now, p_expires_at = packet_expiry now cfg (ps_ttl_seconds payload),
      p_payload_bytes = payload_bytes payload\<rparr>"

definition new_delivery :: "time \<Rightarrow> string \<Rightarrow> node \<Rightarrow> packet_send_request \<Rightarrow> delivery" where
  "new_delivery now delivery_id dest_node payload =
     \<lparr>d_delivery_id = delivery_id, d_packet_id = ps_packet_id payload,
      d_destination_node_id = n_node_id dest_node,
      d_destination_endpoint_id = ps_to_endpoint_id payload, d_queued_at = now,
      d_state = ''queued'', d_last_attempt_at = None\<rparr>"

datatype send_plan =
    Answer packet_send_response
  | Store send_event packet delivery

text \<open>
  Everything before the inserts. The result carries the session, in which an expired packet of
  the same identifier is deleted but not committed.
\<close>

definition send_check ::
  "admin_env \<Rightarrow> file_sizes \<Rightarrow> draws \<Rightarrow> packet_send_request \<Rightarrow> node \<Rightarrow> db \<Rightarrow> http_error + send_plan \<times> db" where
  "send_check env stat dr payload node s =
     and_then (send_authorised node payload s) (\<lambda>dest_node.
       let packet_bytes = payload_bytes payload in
       and_then (settings_or_500 env (dr_now dr 0) s) (\<lambda>(settings, s1).
         if packet_bytes > rs_max_packet_bytes settings then
           Inl (HTTPException 400 ''packet exceeds max packet bytes'')
         else (case existing_packet (dr_now dr 1) (ps_packet_id payload) s1 of
             (Some existing, s2) \<Rightarrow>
               if matches_payload node payload existing then Inr (Answer (duplicate_response s2 existing), s2)
               else Inl (HTTPException 409 ''packet_id already used for different packet'')
           | (None, s2) \<Rightarrow>
               and_then (enforce_send_rate_limit env (dr_now dr 2) (dr_uuid dr 0) (n_node_id node) s2) (\<lambda>(event, s3).
               and_then (enforce_queue_limits env stat (dr_now dr 3) (ps_to_endpoint_id payload)
                   (n_node_id dest_node) packet_bytes s3) (\<lambda>s4.
                 if packet_expiry_overflows (dr_now dr 4) (ae_cfg env) (ps_ttl_seconds payload) then
                   Inl (HTTPException 500 ''Internal Server Error'')
                 else Inr (Store event (new_packet (ae_cfg env) (dr_now dr 4) node payload)
                        (new_delivery (dr_now dr 4) (dr_uuid dr 1) dest_node payload), s4))))))"

text \<open>
  After an \<open>IntegrityError\<close>: up to five reads of the store as it is then, \<open>0.05\<close> seconds apart,
  each with its reading of the clock. A packet found expired is deleted in the session, which
  from then on sees none. The rollback made the session forget the node, so its identifier is
  read again; a node deleted meanwhile is an internal error.
\<close>

fun competing_packet :: "(time \<times> db) list \<Rightarrow> string \<Rightarrow> (packet \<times> db) option" where
  "competing_packet [] packet_id = None"
| "competing_packet ((now, v) # views) packet_id =
     (case get_packet v packet_id of
        None \<Rightarrow> competing_packet views packet_id
      | Some p \<Rightarrow> if is_packet_expired now p then None else Some (p, v))"

definition send_fallback ::
  "(time \<times> db) list \<Rightarrow> node \<Rightarrow> packet_send_request \<Rightarrow> http_error + packet_send_response" where
  "send_fallback views node payload =
     (case competing_packet (take 5 views) (ps_packet_id payload) of
        None \<Rightarrow> Inl (HTTPException 409 ''packet_id collision during concurrent send'')
      | Some (existing, v) \<Rightarrow>
          if get_node v (n_node_id node) = None then Inl (HTTPException 500 ''Internal Server Error'')
          else if matches_payload node payload existing then Inr (duplicate_response v existing)
          else Inl (HTTPException 409 ''packet_id already used for different packet''))"

definition store_packet :: "send_event \<Rightarrow> packet \<Rightarrow> delivery \<Rightarrow> db \<Rightarrow> db option" where
  "store_packet event packet delivery s =
     (case insert_send_event event s of None \<Rightarrow> None
      | Some s1 \<Rightarrow> (case insert_packet packet s1 of None \<Rightarrow> None
          | Some s2 \<Rightarrow> insert_delivery delivery s2))"

text \<open>
  The write transaction, on the session \<open>sess\<close> over the committed store \<open>s\<close>. Beside the outcome
  stands the node that \<open>inbox_notifier.notify\<close> is called with, if it is.
\<close>

definition send_commit ::
  "(time \<times> db) list \<Rightarrow> node \<Rightarrow> packet_send_request \<Rightarrow> send_event \<Rightarrow> packet \<Rightarrow> delivery
   \<Rightarrow> db \<Rightarrow> db \<Rightarrow> db \<times> string option \<times> (http_error + packet_send_response)" where
  "send_commit views node payload event packet delivery s sess =
     (case store_packet event packet delivery sess of
        Some t \<Rightarrow> (t, Some (d_destination_node_id delivery),
          Inr \<lparr>pr_result = ''accepted'', pr_packet_id = p_packet_id packet,
               pr_delivery_id = Some (d_delivery_id delivery), pr_expires_at = p_expires_at packet\<rparr>)
      | None \<Rightarrow> (s, None, send_fallback views node payload))"

definition send_packet ::
  "admin_env \<Rightarrow> file_sizes \<Rightarrow> draws \<Rightarrow> packet_send_request \<Rightarrow> node \<Rightarrow> db
   \<Rightarrow> db \<times> string option \<times> (http_error + packet_send_response)" where
  "send_packet env stat dr payload node s =
     (case send_check env stat dr payload node s of
        Inl e \<Rightarrow> (s, None, Inl e)
      | Inr (Answer r, sess) \<Rightarrow> (s, None, Inr r)
      | Inr (Store event packet delivery, sess) \<Rightarrow>
          send_commit (map (\<lambda>k. (dr_now dr (5 + k), s)) [0..<5]) node payload event packet delivery s sess)"

section \<open>Receiving\<close>

text \<open>SQLite's \<open>LIMIT\<close>: a negative bound is none.\<close>

definition sql_limit :: "int \<Rightarrow> 'a list \<Rightarrow> 'a list" where
  "sql_limit n xs = (if n < 0 then xs else take (nat n) xs)"

lemma set_sql_limit: "set (sql_limit n xs) \<subseteq> set xs"
  by (auto simp: sql_limit_def dest: in_set_takeD)

lemma length_sql_limit: "0 \<le> n \<Longrightarrow> int (length (sql_limit n xs)) = min n (int (length xs))"
  by (auto simp: sql_limit_def)

definition delivery_result :: "delivery \<times> packet \<Rightarrow> delivery_out" where
  "delivery_result dp = (case dp of (d, p) \<Rightarrow>
     \<lparr>do_delivery_id = d_delivery_id d, do_destination_endpoint_id = d_destination_endpoint_id d,
      do_queued_at = d_queued_at d, do_state = d_state d, do_last_attempt_at = d_last_attempt_at d,
      do_packet = \<lparr>dp_packet_id = p_packet_id p, dp_version = p_version p,
        dp_from_endpoint_id = p_from_endpoint_id p, dp_to_endpoint_id = p_to_endpoint_id p,
        dp_headers = p_headers p, dp_body = p_body p, dp_data = p_data p, dp_meta = p_meta p,
        dp_created_at = p_created_at p, dp_expires_at = p_expires_at p\<rparr>\<rparr>)"

definition fetch_inbox_deliveries :: "time \<Rightarrow> string \<Rightarrow> int \<Rightarrow> db \<Rightarrow> delivery_out list" where
  "fetch_inbox_deliveries now node_id limit s =
     map delivery_result
       (sql_limit limit
         (sort_key (\<lambda>(d, p). d_queued_at d)
           (filter (\<lambda>(d, p). d_destination_node_id d = node_id \<and> d_state d = ''queued'')
             (active_joined now s))))"

definition inbox_limits :: "app_config \<Rightarrow> time \<Rightarrow> access_snapshot option \<Rightarrow> int \<Rightarrow> int \<Rightarrow> int \<times> int" where
  "inbox_limits cfg now snapshot wait limit =
     (let (max_wait, max_limit) = get_inbox_limits_cached cfg now snapshot
      in (min wait max_wait, min limit max_limit))"

definition ack_row :: "time \<Rightarrow> packet_ack_request \<Rightarrow> db \<Rightarrow> (delivery \<times> packet) option" where
  "ack_row now payload s =
     (case ak_delivery_id payload of
        Some delivery_id \<Rightarrow> find (\<lambda>(d, p). d_delivery_id d = delivery_id) (active_joined now s)
      | None \<Rightarrow> (case ak_packet_id payload of
          Some packet_id \<Rightarrow> find (\<lambda>(d, p). p_packet_id p = packet_id) (active_joined now s)
        | None \<Rightarrow> None))"

definition ack_packet :: "draws \<Rightarrow> packet_ack_request \<Rightarrow> node \<Rightarrow> db \<Rightarrow> packet_ack_response outcome" where
  "ack_packet dr payload node s =
     check s (ensure_node_active (n_status node)) (\<lambda>_.
       case ack_row (dr_now dr 0) payload s of
         None \<Rightarrow> reject s 404 ''delivery not found''
       | Some (delivery, packet) \<Rightarrow>
           if d_destination_node_id delivery \<noteq> n_node_id node then
             reject s 403 ''delivery not owned by node''
           else
             (delete_packets (\<lambda>p. p_packet_id p = p_packet_id packet)
                (delete_deliveries (\<lambda>d. d_delivery_id d = d_delivery_id delivery) s),
              Inr \<lparr>ar_acked = True, ar_packet_id = d_packet_id delivery, ar_status = ak_status payload\<rparr>))"

section \<open>Observability\<close>

definition enforce_observability_mode ::
  "kdf \<Rightarrow> app_config \<Rightarrow> request \<Rightarrow> db \<Rightarrow> string \<Rightarrow> http_error + unit" where
  "enforce_observability_mode pbkdf2 cfg rq s mode =
     (if mode = ''off'' then Inl (HTTPException 404 ''not found'')
      else if mode = ''public'' then Inr ()
      else if mode = ''node_api_key'' then
        and_then (require_node pbkdf2 cfg s (header rq (sv_api_key_header (cf_server cfg)))
          (header rq ''Authorization'')) (\<lambda>_. Inr ())
      else Inl (HTTPException 500 ''invalid observability mode''))"

definition health :: "kdf \<Rightarrow> app_config \<Rightarrow> draws \<Rightarrow> request \<Rightarrow> db \<Rightarrow> health_response outcome" where
  "health pbkdf2 cfg dr rq s =
     check s (enforce_observability_mode pbkdf2 cfg rq s (ob_health_mode (cf_observability cfg))) (\<lambda>_.
       (s, Inr \<lparr>hr_status = ''ok'', hr_time = dr_now dr 0\<rparr>))"

definition stats :: "kdf \<Rightarrow> app_config \<Rightarrow> draws \<Rightarrow> request \<Rightarrow> db \<Rightarrow> stats_response outcome" where
  "stats pbkdf2 cfg dr rq s =
     check s (enforce_observability_mode pbkdf2 cfg rq s (ob_stats_mode (cf_observability cfg))) (\<lambda>_.
       let now = dr_now dr 0 in
       (s, Inr \<lparr>sr_nodes_total = int (length (nodes s)), sr_endpoints_total = int (length (endpoints s)),
          sr_active_links_total = count_where (\<lambda>l. l_status l = ''active'') (links s),
          sr_queued_packets_total = queue_packets (\<lambda>_. True) now s,
          sr_queued_bytes_total = queue_bytes (\<lambda>_. True) now s,
          sr_link_codes_active_total = count_where (link_code_active now) (link_codes s),
          sr_time = now\<rparr>))"

section \<open>Every handler keeps the store well formed\<close>

lemma reject_fst [simp]: "fst (reject s code detail) = s"
  by (simp add: reject_def)

lemma db_ok_reject [db_intro]: "db_ok s \<Longrightarrow> db_ok (fst (reject s code detail))"
  by simp

lemma db_ok_check [db_intro]:
  "db_ok s \<Longrightarrow> (\<And>x. c = Inr x \<Longrightarrow> db_ok (fst (k x))) \<Longrightarrow> db_ok (fst (check s c k))"
  by (simp add: check_def split: sum.splits)

lemma db_ok_flush [db_intro]:
  "db_ok s \<Longrightarrow> (\<And>t. r = Some t \<Longrightarrow> db_ok (fst (k t))) \<Longrightarrow> db_ok (fst (flush s r k))"
  by (simp add: flush_def split: option.splits)

lemma db_ok_if [db_intro]:
  "(b \<Longrightarrow> db_ok (fst x)) \<Longrightarrow> (\<not> b \<Longrightarrow> db_ok (fst y)) \<Longrightarrow> db_ok (fst (if b then x else y))"
  by simp

lemma register_ok [db_intro]:
  assumes "db_ok s"
  shows "db_ok (fst (register pbkdf2 dr name s))"
  unfolding register_def Let_def generate_api_key_def prod.case
  using assms by (intro db_intro) (auto dest: insert_oks)

lemma self_rotate_key_ok [db_intro]:
  "db_ok s \<Longrightarrow> db_ok (fst (self_rotate_key pbkdf2 dr node s))"
  unfolding self_rotate_key_def Let_def generate_api_key_def prod.case
  by (intro db_intro) (simp_all add: update_nodes_ok)

lemma delete_identity_ok [db_intro]: "db_ok s \<Longrightarrow> db_ok (fst (delete_identity node s))"
  by (auto simp: delete_identity_def Let_def split: prod.splits intro: db_intro)

lemma create_endpoint_ok [db_intro]: "db_ok s \<Longrightarrow> db_ok (fst (create_endpoint dr payload node s))"
  unfolding create_endpoint_def Let_def by (intro db_intro) (auto dest: insert_oks)

lemma delete_endpoint_ok [db_intro]: "db_ok s \<Longrightarrow> db_ok (fst (delete_endpoint dr i node s))"
  unfolding delete_endpoint_def Let_def
  by (intro db_intro) (auto intro: db_intro split: if_splits)

lemma request_link_code_ok [db_intro]: "db_ok s \<Longrightarrow> db_ok (fst (request_link_code cfg dr payload node s))"
  unfolding request_link_code_def Let_def
  by (intro db_intro) (auto simp: flush_def dest: insert_oks split: option.splits)

lemma redeem_check_ok [db_intro]: "db_ok s \<Longrightarrow> db_ok (fst (redeem_check dr payload node s))"
  unfolding redeem_check_def set_code_status_def
  by (intro db_intro) (auto simp: update_codes_ok split: option.splits)

lemma insert_all_ok:
  "(\<And>r s t. ins r s = Some t \<Longrightarrow> db_ok s \<Longrightarrow> db_ok t) \<Longrightarrow> insert_all ins rs s = Some t \<Longrightarrow> db_ok s \<Longrightarrow> db_ok t"
  by (induction rs arbitrary: s) (auto split: option.splits)

lemma link_rows_ok:
  "insert_link l s = Some t \<Longrightarrow> insert_all insert_route rows t = Some u \<Longrightarrow> db_ok s \<Longrightarrow> db_ok u"
  by (metis insert_all_ok insert_route_ok insert_link_ok)

lemma redeem_claim_ok [db_intro]:
  assumes "db_ok s"
  shows "db_ok (fst (redeem_claim dr dest code s))"
proof -
  have claimed: "db_ok (s\<lparr>link_codes := update_where P (\<lambda>c. c\<lparr>c_status := ''used''\<rparr>) (link_codes s)\<rparr>)" for P
    using assms by (rule update_codes_ok) simp_all
  show ?thesis
    unfolding redeem_claim_def Let_def
    using assms by (intro db_intro) (auto elim: link_rows_ok intro: claimed)
qed

lemma redeem_link_code_ok [db_intro]: "db_ok s \<Longrightarrow> db_ok (fst (redeem_link_code dr payload node s))"
  using redeem_check_ok [of s dr payload node] redeem_claim_ok
  by (auto simp: redeem_link_code_def split: prod.splits sum.splits)

lemma revoke_link_rows_ok [db_intro]:
  assumes "db_ok s"
  shows "db_ok (revoke_link_rows i s)"
proof -
  let ?t = "s\<lparr>links := update_where (\<lambda>l. l_link_id l = i) (\<lambda>l. l\<lparr>l_status := ''revoked''\<rparr>) (links s)\<rparr>"
  have "db_ok ?t" using assms by (rule update_links_ok) simp_all
  then have "db_ok (?t\<lparr>directed_routes := update_where (\<lambda>r. r_created_by_link_id r = Some i)
      (\<lambda>r. r\<lparr>r_status := ''revoked''\<rparr>) (directed_routes ?t)\<rparr>)"
    by (rule update_routes_ok) simp_all
  then show ?thesis by (simp add: revoke_link_rows_def)
qed

lemma revoke_link_ok [db_intro]: "db_ok s \<Longrightarrow> db_ok (fst (revoke_link i node s))"
  by (auto simp: revoke_link_def Let_def split: option.splits intro: db_intro)

lemma ack_packet_ok [db_intro]: "db_ok s \<Longrightarrow> db_ok (fst (ack_packet dr payload node s))"
  unfolding ack_packet_def by (intro db_intro) (auto split: option.splits intro: db_intro)

lemma existing_packet_ok: "db_ok s \<Longrightarrow> db_ok (snd (existing_packet now i s))"
  by (auto simp: existing_packet_def split: option.splits intro: db_intro)

lemma and_then_Inr: "and_then c k = Inr y \<longleftrightarrow> (\<exists>x. c = Inr x \<and> k x = Inr y)"
  by (auto simp: and_then_def split: sum.splits)

lemma settings_or_500_Inr: "settings_or_500 env now s = Inr (r, t) \<Longrightarrow> same_requests s t"
  by (auto simp: settings_or_500_def dest: get_runtime_settings_same_requests split: sum.splits)

lemma enforce_send_rate_limit_Inr:
  "enforce_send_rate_limit env now i n s = Inr (v, t) \<Longrightarrow> same_requests s t"
  by (auto simp: enforce_send_rate_limit_def Let_def dest!: settings_or_500_Inr split: sum.splits if_splits)

lemma enforce_queue_limits_Inr:
  "enforce_queue_limits env stat now e n b s = Inr t \<Longrightarrow> same_requests s t"
  by (auto simp: enforce_queue_limits_def Let_def dest!: settings_or_500_Inr split: sum.splits if_splits)

lemma send_check_ok:
  assumes "db_ok s" "send_check env stat dr payload node s = Inr (plan, t)"
  shows "db_ok t"
proof -
  note * = assms(2) [unfolded send_check_def and_then_Inr Let_def]
  from * obtain s1 settings where 1: "settings_or_500 env (dr_now dr 0) s = Inr (settings, s1)"
    by (auto simp: and_then_Inr)
  then have ok1: "db_ok s1" using assms(1) by (simp add: same_requests_db_ok [OF settings_or_500_Inr])
  then have ok2: "db_ok (snd (existing_packet (dr_now dr 1) (ps_packet_id payload) s1))"
    by (rule existing_packet_ok)
  from * 1 show ?thesis
    using ok2 by (auto simp: and_then_Inr split: if_splits option.splits prod.splits
        dest!: enforce_send_rate_limit_Inr enforce_queue_limits_Inr simp: same_requests_db_ok)
qed

lemma store_packet_ok: "store_packet v p d s = Some t \<Longrightarrow> db_ok s \<Longrightarrow> db_ok t"
  unfolding store_packet_def
  by (auto split: option.splits) (metis insert_send_event_ok insert_packet_ok insert_delivery_ok)

lemma send_commit_ok:
  "db_ok s \<Longrightarrow> db_ok sess \<Longrightarrow> db_ok (fst (send_commit views node payload v p d s sess))"
  by (auto simp: send_commit_def split: option.splits dest: store_packet_ok)

lemma send_packet_ok [db_intro]: "db_ok s \<Longrightarrow> db_ok (fst (send_packet env stat dr payload node s))"
  by (auto simp: send_packet_def split: sum.splits send_plan.splits prod.splits
      intro: send_commit_ok send_check_ok)

end
