(* ===== verification/Relay.thy ===== *)
theory Relay
  imports Server
begin

text \<open>
  What the relay promises about packets: an accepted packet is in the inbox of its destination, a
  repeated send is recognised, an acknowledgement removes exactly one delivery, the inbox shows a
  node its own unexpired deliveries in order, and the queue and rate limits hold after every
  accepted send. The clean-up changes none of this.

  A server that has started serves with its admin tables in place: the settings row is there.
\<close>

definition serving :: "admin_env \<Rightarrow> db \<Rightarrow> runtime_settings \<Rightarrow> bool" where
  "serving env s st \<longleftrightarrow> ae_ready env \<and> settings_row s = Some st"

lemma serving_settings [simp]: "serving env s st \<Longrightarrow> settings_or_500 env now s = Inr (st, s)"
  by (simp add: serving_def settings_or_500_def)

section \<open>The checks of a send, taken apart\<close>

lemma rate_limit_serving:
  assumes "serving env s st"
  shows "enforce_send_rate_limit env now i n s = Inr (v, t) \<longleftrightarrow>
     t = s \<and> v = \<lparr>s_event_id = i, s_node_id = n, s_created_at = now\<rparr>
     \<and> sends_since s n (now - seconds (rs_send_window_seconds st)) < rs_max_sends_per_window st"
  using assms by (auto simp: enforce_send_rate_limit_def Let_def)

definition caps_leave_room ::
  "runtime_settings \<Rightarrow> app_config \<Rightarrow> file_sizes \<Rightarrow> time \<Rightarrow> string \<Rightarrow> string \<Rightarrow> int \<Rightarrow> db \<Rightarrow> bool" where
  "caps_leave_room st cfg stat now e n b s \<longleftrightarrow>
     queue_packets (\<lambda>d. d_destination_endpoint_id d = e) now s < rs_max_queued_packets_per_endpoint st
     \<and> queue_bytes (\<lambda>d. d_destination_endpoint_id d = e) now s + b \<le> rs_max_queued_bytes_per_endpoint st
     \<and> queue_bytes (\<lambda>d. d_destination_node_id d = n) now s + b \<le> rs_max_queued_bytes_per_node st
     \<and> queue_packets (\<lambda>_. True) now s < rs_max_total_queued_packets st
     \<and> queue_bytes (\<lambda>_. True) now s + b \<le> rs_max_total_queued_bytes st
     \<and> current_storage_usage_bytes stat cfg < rs_max_storage_bytes st
     \<and> current_storage_usage_bytes stat cfg + b \<le> rs_max_storage_bytes st"

lemma queue_limits_serving:
  assumes "serving env s st"
  shows "enforce_queue_limits env stat now e n b s = Inr t \<longleftrightarrow>
     t = s \<and> caps_leave_room st (ae_cfg env) stat now e n b s"
  using assms by (auto simp: enforce_queue_limits_def caps_leave_room_def Let_def)

lemma existing_packet_serving: "serving env s st \<Longrightarrow> serving env (snd (existing_packet now i s)) st"
  by (auto simp: existing_packet_def serving_def split: option.splits)

text \<open>A send that reaches the store, with everything that the checks have established.\<close>

lemma send_check_Store:
  assumes "serving env s st" "send_check env stat dr rq node s = Inr (Store v p d, t)"
  obtains dn where "send_authorised node rq s = Inr dn" "payload_bytes rq \<le> rs_max_packet_bytes st"
    "existing_packet (dr_now dr 1) (ps_packet_id rq) s = (None, t)"
    "v = \<lparr>s_event_id = dr_uuid dr 0, s_node_id = n_node_id node, s_created_at = dr_now dr 2\<rparr>"
    "sends_since t (n_node_id node) (dr_now dr 2 - seconds (rs_send_window_seconds st))
       < rs_max_sends_per_window st"
    "caps_leave_room st (ae_cfg env) stat (dr_now dr 3) (ps_to_endpoint_id rq) (n_node_id dn)
       (payload_bytes rq) t"
    "p = new_packet (ae_cfg env) (dr_now dr 4) node rq"
    "d = new_delivery (dr_now dr 4) (dr_uuid dr 1) dn rq"
proof -
  obtain ex s2 where ex: "existing_packet (dr_now dr 1) (ps_packet_id rq) s = (ex, s2)" by fastforce
  have s2: "serving env s2 st" using existing_packet_serving [OF assms(1)] ex by (metis snd_conv)
  show ?thesis
    using assms that ex
    by (auto simp: send_check_def and_then_Inr Let_def rate_limit_serving [OF s2]
        queue_limits_serving [OF s2] split: if_splits option.splits)
qed

lemma send_check_Answer:
  assumes "serving env s st" "send_check env stat dr rq node s = Inr (Answer r, t)"
  obtains dn ex where "send_authorised node rq s = Inr dn"
    "existing_packet (dr_now dr 1) (ps_packet_id rq) s = (Some ex, s)" "t = s"
    "matches_payload node rq ex" "r = duplicate_response s ex"
proof -
  obtain ex s2 where ex: "existing_packet (dr_now dr 1) (ps_packet_id rq) s = (ex, s2)" by fastforce
  then have "ex \<noteq> None \<Longrightarrow> s2 = s" by (auto simp: existing_packet_def split: option.splits if_splits)
  with assms that ex show ?thesis
    by (auto simp: send_check_def and_then_Inr Let_def split: if_splits option.splits)
qed

lemma store_packet_Some:
  "store_packet v p d s = Some t \<longleftrightarrow>
     t = s\<lparr>send_events := send_events s @ [v], packets := packets s @ [p], deliveries := deliveries s @ [d]\<rparr>
     \<and> s_event_id v \<notin> s_event_id ` set (send_events s) \<and> s_node_id v \<in> node_ids s
     \<and> p_packet_id p \<notin> packet_ids s \<and> p_sender_node_id p \<in> node_ids s
     \<and> p_from_endpoint_id p \<in> endpoint_ids s \<and> p_to_endpoint_id p \<in> endpoint_ids s
     \<and> d_delivery_id d \<notin> d_delivery_id ` set (deliveries s) \<and> d_packet_id d \<notin> d_packet_id ` set (deliveries s)
     \<and> d_packet_id d \<in> insert (p_packet_id p) (packet_ids s) \<and> d_destination_node_id d \<in> node_ids s
     \<and> d_destination_endpoint_id d \<in> endpoint_ids s"
  by (auto simp: store_packet_def insert_send_event_def insert_packet_def insert_delivery_def)

text \<open>The view of the queue after a packet and its delivery have been stored.\<close>

lemma joined_store_packet:
  assumes "db_ok s" "store_packet v p d s = Some t" "d_packet_id d = p_packet_id p"
  shows "joined t = joined s @ [(d, p)]"
proof -
  from assms(2) have t: "deliveries t = deliveries s @ [d]" "packets t = packets s @ [p]"
    and new: "p_packet_id p \<notin> packet_ids s" "p_packet_id p \<notin> d_packet_id ` set (deliveries s)"
    using assms(3) by (auto simp: store_packet_Some)
  have "db_ok t" using store_packet_ok [OF assms(2,1)] .
  then have "joined t = map (\<lambda>d. (d, packet_of t d)) (deliveries s) @ [(d, packet_of t d)]"
    by (simp add: joined_db_ok t)
  moreover have "packet_of t e = packet_of s e" if "e \<in> set (deliveries s)" for e
  proof -
    have "get_packet t (d_packet_id e) = Some (packet_of s e)"
      using get_packet_of [OF assms(1) that] by (simp add: get_packet_def t fetch_snoc)
    then show ?thesis by (simp add: packet_of_def)
  qed
  moreover have "packet_of t d = p"
  proof -
    from new have "fetch p_packet_id (p_packet_id p) (packets s) = None" by (simp add: fetch_None_iff)
    then show ?thesis by (simp add: packet_of_def get_packet_def t fetch_snoc assms(3))
  qed
  ultimately show ?thesis by (simp add: joined_db_ok [OF assms(1)] cong: map_cong)
qed

text \<open>What an accepted send has done.\<close>

lemma send_packet_accepted:
  assumes "serving env s st" "send_packet env stat dr rq node s = (t, Some n, r)"
  obtains dn s0 where "send_authorised node rq s = Inr dn" "n = n_node_id dn"
    "existing_packet (dr_now dr 1) (ps_packet_id rq) s = (None, s0)"
    "sends_since s0 (n_node_id node) (dr_now dr 2 - seconds (rs_send_window_seconds st))
       < rs_max_sends_per_window st"
    "caps_leave_room st (ae_cfg env) stat (dr_now dr 3) (ps_to_endpoint_id rq) n (payload_bytes rq) s0"
    "store_packet \<lparr>s_event_id = dr_uuid dr 0, s_node_id = n_node_id node, s_created_at = dr_now dr 2\<rparr>
       (new_packet (ae_cfg env) (dr_now dr 4) node rq) (new_delivery (dr_now dr 4) (dr_uuid dr 1) dn rq) s0
       = Some t"
    "r = Inr \<lparr>pr_result = ''accepted'', pr_packet_id = ps_packet_id rq,
       pr_delivery_id = Some (dr_uuid dr 1),
       pr_expires_at = packet_expiry (dr_now dr 4) (ae_cfg env) (ps_ttl_seconds rq)\<rparr>"
proof -
  from assms(2) obtain v p d s0 where c: "send_check env stat dr rq node s = Inr (Store v p d, s0)"
    and st: "store_packet v p d s0 = Some t" and n: "n = d_destination_node_id d"
    and r: "r = Inr \<lparr>pr_result = ''accepted'', pr_packet_id = p_packet_id p,
               pr_delivery_id = Some (d_delivery_id d), pr_expires_at = p_expires_at p\<rparr>"
    by (auto simp: send_packet_def send_commit_def split: sum.splits prod.splits send_plan.splits option.splits)
  show ?thesis
    by (rule send_check_Store [OF assms(1) c])
      (use that st n r in \<open>simp add: new_packet_def new_delivery_def\<close>)
qed

text \<open>An expired packet of the same identifier was not visible, so its removal is not either.\<close>

lemma existing_None_joined:
  assumes "db_ok s" "existing_packet now i s = (None, s0)" "now \<le> now'"
  shows "active_joined now' s0 = active_joined now' s"
proof (cases "s0 = s")
  case False
  with assms(2) obtain p where p: "get_packet s i = Some p" "is_packet_expired now p"
    and s0: "s0 = delete_packets (\<lambda>q. p_packet_id q = i) s"
    by (auto simp: existing_packet_def split: option.splits if_splits)
  have "is_packet_expired now' q" if "q \<in> set (packets s)" "p_packet_id q = i" for q
    using p(1) that db_okD(1) [OF assms(1)] expired_mono [OF p(2) assms(3)]
    by (metis fetch_Some_iff get_packet_def option.inject)
  then have "filter (\<lambda>(d, p). packet_active now' p) (filter (\<lambda>(d, p). p_packet_id p \<noteq> i) (joined s)) =
      filter (\<lambda>(d, p). packet_active now' p) (joined s)"
    by (auto simp: packet_active_iff set_joined intro!: filter_cong)
  then show ?thesis by (simp add: s0 active_joined_def joined_delete_packets [OF assms(1)])
qed simp

lemma existing_packet_frame:
  assumes "existing_packet now i s = (x, s0)"
  shows "nodes s0 = nodes s" "endpoints s0 = endpoints s" "directed_routes s0 = directed_routes s"
    "send_events s0 = send_events s" "links s0 = links s" "link_codes s0 = link_codes s"
    "settings_row s0 = settings_row s"
  using assms by (auto simp: existing_packet_def split: option.splits if_splits)

lemma send_authorised_cong:
  assumes "nodes t = nodes s" "endpoints t = endpoints s" "directed_routes t = directed_routes s"
  shows "send_authorised node rq t = send_authorised node rq s"
proof -
  have eqs: "get_node t = get_node s" "get_endpoint t = get_endpoint s"
    "active_route_exists t = active_route_exists s"
    using assms by (simp_all add: fun_eq_iff get_node_def get_endpoint_def active_route_exists_def)
  show ?thesis unfolding send_authorised_def ensure_node_owns_endpoint_def eqs by (rule refl)
qed

text \<open>The destination is the node of the destination endpoint.\<close>

lemma send_authorised_Inr:
  assumes "send_authorised node rq s = Inr dn"
  obtains e f where "get_endpoint s (ps_to_endpoint_id rq) = Some e" "get_node s (e_node_id e) = Some dn"
    "e_status e = ''active''" "n_status dn = ''active''" "n_status node = ''active''"
    "get_endpoint s (ps_from_endpoint_id rq) = Some f" "e_node_id f = n_node_id node"
    "active_route_exists s (ps_from_endpoint_id rq) (ps_to_endpoint_id rq)"
  using assms that by (auto simp: send_authorised_def and_then_Inr ensure_node_active_def
      ensure_node_owns_endpoint_def split: option.splits if_splits)

lemma get_node_id: "get_node s i = Some n \<Longrightarrow> n_node_id n = i"
  unfolding get_node_def by (blast dest: fetch_SomeD)

text \<open>The effect of an accepted send on everything that is visible from its start on.\<close>

lemma accepted_effect:
  assumes "db_ok s" "serving env s st" "send_packet env stat dr rq node s = (t, Some n, r)"
  obtains dn s0 where "send_authorised node rq s = Inr dn" "n = n_node_id dn"
    "existing_packet (dr_now dr 1) (ps_packet_id rq) s = (None, s0)" "db_ok s0"
    "sends_since s0 (n_node_id node) (dr_now dr 2 - seconds (rs_send_window_seconds st))
       < rs_max_sends_per_window st"
    "caps_leave_room st (ae_cfg env) stat (dr_now dr 3) (ps_to_endpoint_id rq) n (payload_bytes rq) s0"
    "packets t = packets s0 @ [new_packet (ae_cfg env) (dr_now dr 4) node rq]"
    "deliveries t = deliveries s0 @ [new_delivery (dr_now dr 4) (dr_uuid dr 1) dn rq]"
    "send_events t = send_events s @ [\<lparr>s_event_id = dr_uuid dr 0, s_node_id = n_node_id node,
       s_created_at = dr_now dr 2\<rparr>]"
    "nodes t = nodes s" "endpoints t = endpoints s" "directed_routes t = directed_routes s"
    "settings_row t = settings_row s"
    "joined t = joined s0 @ [(new_delivery (dr_now dr 4) (dr_uuid dr 1) dn rq,
       new_packet (ae_cfg env) (dr_now dr 4) node rq)]"
    "ps_packet_id rq \<notin> packet_ids s0" "ps_packet_id rq \<notin> d_packet_id ` set (deliveries s0)"
    "r = Inr \<lparr>pr_result = ''accepted'', pr_packet_id = ps_packet_id rq,
       pr_delivery_id = Some (dr_uuid dr 1),
       pr_expires_at = packet_expiry (dr_now dr 4) (ae_cfg env) (ps_ttl_seconds rq)\<rparr>"
proof (rule send_packet_accepted [OF assms(2,3)])
  fix dn s0
  let ?v = "\<lparr>s_event_id = dr_uuid dr 0, s_node_id = n_node_id node, s_created_at = dr_now dr 2\<rparr>"
  let ?p = "new_packet (ae_cfg env) (dr_now dr 4) node rq"
  let ?d = "new_delivery (dr_now dr 4) (dr_uuid dr 1) dn rq"
  assume a: "send_authorised node rq s = Inr dn" "n = n_node_id dn"
    "existing_packet (dr_now dr 1) (ps_packet_id rq) s = (None, s0)"
    "sends_since s0 (n_node_id node) (dr_now dr 2 - seconds (rs_send_window_seconds st)) < rs_max_sends_per_window st"
    "caps_leave_room st (ae_cfg env) stat (dr_now dr 3) (ps_to_endpoint_id rq) n (payload_bytes rq) s0"
    and st: "store_packet ?v ?p ?d s0 = Some t"
    and r: "r = Inr \<lparr>pr_result = ''accepted'', pr_packet_id = ps_packet_id rq,
       pr_delivery_id = Some (dr_uuid dr 1),
       pr_expires_at = packet_expiry (dr_now dr 4) (ae_cfg env) (ps_ttl_seconds rq)\<rparr>"
  have ok: "db_ok s0" using existing_packet_ok [OF assms(1)] a(3) by (metis snd_conv)
  have ids: "d_packet_id ?d = p_packet_id ?p" "p_packet_id ?p = ps_packet_id rq"
    by (simp_all add: new_packet_def new_delivery_def)
  note fr = existing_packet_frame [OF a(3)]
  note st' = st [unfolded store_packet_Some]
  show thesis
    by (rule that [OF a(1,2,3) ok a(4,5)])
      (use st' fr joined_store_packet [OF ok st ids(1)] ids r in \<open>simp_all\<close>)
qed

section \<open>The inbox\<close>

lemma set_inbox:
  "set (filter (\<lambda>(d, p). d_destination_node_id d = n \<and> d_state d = ''queued'') (active_joined now s)) =
     {(d, p). d \<in> set (deliveries s) \<and> p \<in> set (packets s) \<and> p_packet_id p = d_packet_id d
        \<and> packet_active now p \<and> d_destination_node_id d = n \<and> d_state d = ''queued''}"
  by (auto simp: set_active_joined)

lemma distinct_active_joined:
  assumes "db_ok s"
  shows "distinct (map (\<lambda>(d, p). d_delivery_id d) (active_joined now s))"
proof -
  have "map (\<lambda>(d, p). d_delivery_id d) (joined s) = map d_delivery_id (deliveries s)"
    by (simp add: joined_db_ok [OF assms])
  then have "distinct (map (\<lambda>(d, p). d_delivery_id d) (joined s))"
    using db_okD(3) [OF assms] by simp
  then show ?thesis unfolding active_joined_def by (rule distinct_map_filter)
qed

lemma delivery_result_fields [simp]:
  "do_delivery_id (delivery_result (d, p)) = d_delivery_id d"
  "do_queued_at (delivery_result (d, p)) = d_queued_at d"
  "do_destination_endpoint_id (delivery_result (d, p)) = d_destination_endpoint_id d"
  by (simp_all add: delivery_result_def)

definition inbox_rows :: "time \<Rightarrow> string \<Rightarrow> db \<Rightarrow> (delivery \<times> packet) list" where
  "inbox_rows now n s = sort_key (\<lambda>(d, p). d_queued_at d)
     (filter (\<lambda>(d, p). d_destination_node_id d = n \<and> d_state d = ''queued'') (active_joined now s))"

lemma fetch_inbox_rows: "fetch_inbox_deliveries now n limit s = map delivery_result (sql_limit limit (inbox_rows now n s))"
  by (simp add: fetch_inbox_deliveries_def inbox_rows_def)

lemma set_inbox_rows [simp]:
  "set (inbox_rows now n s) = {(d, p). d \<in> set (deliveries s) \<and> p \<in> set (packets s)
     \<and> p_packet_id p = d_packet_id d \<and> packet_active now p \<and> d_destination_node_id d = n
     \<and> d_state d = ''queued''}"
  by (auto simp: inbox_rows_def set_active_joined)

lemma sorted_inbox_rows: "sorted (map (\<lambda>(d, p). d_queued_at d) (inbox_rows now n s))"
  unfolding inbox_rows_def by (rule sorted_sort_key)

lemma distinct_inbox_rows:
  assumes "db_ok s"
  shows "distinct (map (\<lambda>(d, p). d_delivery_id d) (inbox_rows now n s))"
proof -
  have "distinct (map (\<lambda>(d, p). d_delivery_id d)
      (filter (\<lambda>(d, p). d_destination_node_id d = n \<and> d_state d = ''queued'') (active_joined now s)))"
    by (rule distinct_map_filter [OF distinct_active_joined [OF assms]])
  then show ?thesis unfolding inbox_rows_def by (simp add: distinct_map)
qed

lemma sql_limit_prefix: "\<exists>ys. xs = sql_limit n xs @ ys \<and> (ys = [] \<or> (0 \<le> n \<and> int (length (sql_limit n xs)) = n))"
proof (cases "0 \<le> n \<and> nat n < length xs")
  case True
  then have "xs = sql_limit n xs @ drop (nat n) xs" "int (length (sql_limit n xs)) = n"
    by (simp_all add: sql_limit_def)
  with True show ?thesis by metis
next
  case False
  then have "sql_limit n xs = xs" by (auto simp: sql_limit_def)
  then show ?thesis by simp
qed

lemma sorted_map_sql_limit: "sorted (map f xs) \<Longrightarrow> sorted (map f (sql_limit n xs))"
  by (simp add: sql_limit_def take_map [symmetric] sorted_wrt_take)

lemma distinct_map_sql_limit: "distinct (map f xs) \<Longrightarrow> distinct (map f (sql_limit n xs))"
  by (simp add: sql_limit_def take_map [symmetric])

lemma map_delivery_result:
  "map do_queued_at (map delivery_result xs) = map (\<lambda>(d, p). d_queued_at d) xs"
  "map do_delivery_id (map delivery_result xs) = map (\<lambda>(d, p). d_delivery_id d) xs"
  by auto

section \<open>A small world for concrete instances\<close>

text \<open>Two nodes with an endpoint each and a bidirectional link between them.\<close>

definition demo_node :: "string \<Rightarrow> node" where
  "demo_node i = \<lparr>n_node_id = i, n_key_id = i, n_api_key_hash = [], n_node_name = None,
     n_created_at = 0, n_status = ''active''\<rparr>"

definition demo_endpoint :: "string \<Rightarrow> string \<Rightarrow> endpoint" where
  "demo_endpoint i n = \<lparr>e_endpoint_id = i, e_node_id = n, e_endpoint_name = None, e_kind = None,
     e_meta = Some [], e_created_at = 0, e_status = ''active''\<rparr>"

definition demo_route :: "string \<Rightarrow> string \<Rightarrow> string \<Rightarrow> directed_route" where
  "demo_route i a b = \<lparr>r_route_id = i, r_from_endpoint_id = a, r_to_endpoint_id = b, r_created_at = 0,
     r_status = ''active'', r_created_by_link_id = Some ''l''\<rparr>"

definition demo_db :: db where
  "demo_db = \<lparr>nodes = [demo_node ''n1'', demo_node ''n2''],
     endpoints = [demo_endpoint ''e1'' ''n1'', demo_endpoint ''e2'' ''n2''],
     links = [\<lparr>l_link_id = ''l'', l_endpoint_a_id = ''e1'', l_endpoint_b_id = ''e2'',
       l_mode = ''bidirectional'', l_created_at = 0, l_status = ''active''\<rparr>],
     directed_routes = [demo_route ''r1'' ''e1'' ''e2'', demo_route ''r2'' ''e2'' ''e1''],
     link_codes = [], packets = [], deliveries = [], send_events = [],
     settings_row = Some (runtime_settings_defaults default_config 0), ip_access_rules = []\<rparr>"

definition demo_draws :: "time \<Rightarrow> string \<Rightarrow> draws" where
  "demo_draws t tag = \<lparr>dr_now = \<lambda>_. t, dr_uuid = \<lambda>i. tag @ str_of_nat i, dr_secret = ''s'', dr_salt = [],
     dr_codes = \<lambda>_. []\<rparr>"

definition demo_send :: "string \<Rightarrow> packet_send_request" where
  "demo_send i = \<lparr>ps_version = 1, ps_packet_id = i, ps_from_endpoint_id = ''e1'',
     ps_to_endpoint_id = ''e2'', ps_headers = [], ps_body = Some ''hi'', ps_data = [], ps_meta = [],
     ps_ttl_seconds = None\<rparr>"

text \<open>The store after \<open>n1\<close> has sent one packet at time 10.\<close>

definition demo_sent :: db where
  "demo_sent = demo_db\<lparr>
     send_events := [\<lparr>s_event_id = ''x0'', s_node_id = ''n1'', s_created_at = 10\<rparr>],
     packets := [new_packet default_config 10 (demo_node ''n1'') (demo_send ''p'')],
     deliveries := [new_delivery 10 ''x1'' (demo_node ''n2'') (demo_send ''p'')]\<rparr>"

lemma demo_db_ok [simp]: "db_ok demo_db"
  by (simp add: demo_db_def db_ok_def keys_ok_def refs_ok_def demo_node_def demo_endpoint_def demo_route_def)

lemma demo_serving [simp]: "serving default_env demo_db (runtime_settings_defaults default_config 0)"
  by (simp add: serving_def demo_db_def)

lemma demo_draws_simps [simp]:
  "dr_now (demo_draws t tag) k = t" "dr_uuid (demo_draws t tag) k = tag @ str_of_nat k"
  by (simp_all add: demo_draws_def)

lemma str_of_nat_01 [simp]: "str_of_nat 0 = ''0''" "str_of_nat 1 = ''1''" "str_of_nat (Suc 0) = ''1''"
  by (simp_all add: str_of_nat.simps)

lemma demo_authorised [simp]:
  "send_authorised (demo_node ''n1'') (demo_send p) demo_db = Inr (demo_node ''n2'')"
  by (simp add: send_authorised_def and_then_def ensure_node_active_def ensure_node_owns_endpoint_def
      get_endpoint_def get_node_def fetch_def demo_db_def demo_node_def demo_endpoint_def demo_send_def
      demo_route_def active_route_exists_def)

lemma default_limits_values:
  "rs_max_packet_bytes (runtime_settings_defaults default_config 0) = 262144"
  "rs_max_queued_packets_per_endpoint (runtime_settings_defaults default_config 0) = 10000"
  "rs_max_queued_bytes_per_endpoint (runtime_settings_defaults default_config 0) = 1073741824"
  "rs_max_queued_bytes_per_node (runtime_settings_defaults default_config 0) = 5368709120"
  "rs_max_total_queued_packets (runtime_settings_defaults default_config 0) = 100000"
  "rs_max_total_queued_bytes (runtime_settings_defaults default_config 0) = 42949672960"
  "rs_max_storage_bytes (runtime_settings_defaults default_config 0) = 42949672960"
  "rs_send_window_seconds (runtime_settings_defaults default_config 0) = 60"
  "rs_max_sends_per_window (runtime_settings_defaults default_config 0) = 600"
  by (simp_all add: runtime_settings_defaults_def default_config_def default_limits_def default_rate_limit_def)

lemma demo_payload_bytes [simp]: "payload_bytes (demo_send p) = 46"
  by (simp add: demo_send_def payload_bytes_def payload_size_bytes_def payload_envelope_def) code_simp

abbreviation demo_settings :: runtime_settings where
  "demo_settings \<equiv> runtime_settings_defaults default_config 0"

definition demo_response :: "string \<Rightarrow> packet_send_response" where
  "demo_response r = \<lparr>pr_result = r, pr_packet_id = ''p'', pr_delivery_id = Some ''x1'',
     pr_expires_at = packet_expiry 10 default_config None\<rparr>"

lemma demo_empty_queue [simp]: "joined demo_db = []" "send_events demo_db = []" "packets demo_db = []"
  by (simp_all add: joined_def demo_db_def)

lemma demo_caps:
  "joined s = [] \<Longrightarrow> caps_leave_room demo_settings default_config (\<lambda>_. None) now e n 46 s"
  by (simp add: caps_leave_room_def queue_packets_def queue_bytes_def active_joined_def
      default_limits_values current_storage_usage_bytes_def storage_candidates_def)

definition demo_event :: send_event where
  "demo_event = \<lparr>s_event_id = ''x0'', s_node_id = ''n1'', s_created_at = 10\<rparr>"

definition demo_packet :: packet where
  "demo_packet = new_packet default_config 10 (demo_node ''n1'') (demo_send ''p'')"

definition demo_delivery :: delivery where
  "demo_delivery = new_delivery 10 ''x1'' (demo_node ''n2'') (demo_send ''p'')"

lemma demo_expiry [simp]: "packet_expiry t default_config None = Some (t + 2592000000000)"
  by (simp add: packet_expiry_def default_config_def default_retention_def seconds_def)

lemma demo_send_check:
  "send_check default_env (\<lambda>_. None) (demo_draws 10 ''x'') (demo_send ''p'') (demo_node ''n1'') demo_db
     = Inr (Store demo_event demo_packet demo_delivery, demo_db)"
proof -
  have rate: "enforce_send_rate_limit default_env 10 ''x0'' ''n1'' demo_db = Inr (demo_event, demo_db)"
    by (simp add: rate_limit_serving [OF demo_serving] sends_since_def count_where_def default_limits_values
        demo_event_def)
  have caps: "enforce_queue_limits default_env (\<lambda>_. None) 10 ''e2'' ''n2'' 46 demo_db = Inr demo_db"
    by (simp add: queue_limits_serving [OF demo_serving] demo_caps)
  have ex: "existing_packet 10 ''p'' demo_db = (None, demo_db)"
    by (simp add: existing_packet_def get_packet_def fetch_def)
  have ids: "n_node_id (demo_node ''n1'') = ''n1''" "n_node_id (demo_node ''n2'') = ''n2''"
    "ps_packet_id (demo_send ''p'') = ''p''" "ps_to_endpoint_id (demo_send ''p'') = ''e2''"
    "ps_ttl_seconds (demo_send ''p'') = None"
    by (simp_all add: demo_node_def demo_send_def)
  show ?thesis
    by (simp add: send_check_def and_then_def serving_settings [OF demo_serving] default_limits_values
        ex rate caps ids demo_packet_def demo_delivery_def packet_expiry_overflows_def last_datetime_def)
qed

lemma demo_store: "store_packet demo_event demo_packet demo_delivery demo_db = Some demo_sent"
  by (simp add: store_packet_Some demo_sent_def demo_event_def demo_packet_def demo_delivery_def)
    (simp add: demo_db_def new_packet_def new_delivery_def demo_node_def demo_endpoint_def demo_send_def)

lemma demo_commit:
  "send_commit views (demo_node ''n1'') (demo_send ''p'') demo_event demo_packet demo_delivery s demo_db =
     (demo_sent, Some ''n2'', Inr (demo_response ''accepted''))"
  by (simp add: send_commit_def demo_response_def demo_store)
    (simp add: demo_packet_def demo_delivery_def new_packet_def new_delivery_def demo_node_def demo_send_def)

lemma demo_accepted:
  "send_packet default_env (\<lambda>_. None) (demo_draws 10 ''x'') (demo_send ''p'') (demo_node ''n1'') demo_db =
     (demo_sent, Some ''n2'', Inr (demo_response ''accepted''))"
  by (simp add: send_packet_def demo_send_check demo_commit)

lemma demo_send_fields [simp]:
  "ps_packet_id (demo_send i) = i" "ps_headers (demo_send i) = []" "ps_data (demo_send i) = []"
  "ps_meta (demo_send i) = []" "ps_to_endpoint_id (demo_send i) = ''e2''" "ps_ttl_seconds (demo_send i) = None"
  "ps_body (demo_send i) = Some ''hi''" "ps_from_endpoint_id (demo_send i) = ''e1''"
  by (simp_all add: demo_send_def)

lemma wf_dict_Nil [simp]: "wf_dict []"
  by (simp add: wf_dict_def)

lemma demo_sent_ok [simp]: "db_ok demo_sent"
  using send_packet_ok [OF demo_db_ok, of default_env "\<lambda>_. None" "demo_draws 10 ''x''" "demo_send ''p''" "demo_node ''n1''"]
  by (simp add: demo_accepted)

text \<open>
  A time to live that leads past the year 9999 is not refused but an internal error: the sum overflows after all
  checks have passed, and nothing is stored.
\<close>

lemma endless_ttl_fails:
  assumes "serving env s st" "send_authorised node rq s = Inr dn" "payload_bytes rq \<le> rs_max_packet_bytes st"
    and "get_packet s (ps_packet_id rq) = None"
    and "sends_since s (n_node_id node) (dr_now dr 2 - seconds (rs_send_window_seconds st)) < rs_max_sends_per_window st"
    and "caps_leave_room st (ae_cfg env) stat (dr_now dr 3) (ps_to_endpoint_id rq) (n_node_id dn) (payload_bytes rq) s"
    and "ps_ttl_seconds rq = Some ttl" "last_datetime < dr_now dr 4 + seconds ttl"
  shows "send_packet env stat dr rq node s = (s, None, Inl (HTTPException 500 ''Internal Server Error''))"
proof -
  have ex: "existing_packet (dr_now dr 1) (ps_packet_id rq) s = (None, s)"
    using assms(4) by (simp add: existing_packet_def)
  have rate: "enforce_send_rate_limit env (dr_now dr 2) (dr_uuid dr 0) (n_node_id node) s =
      Inr (\<lparr>s_event_id = dr_uuid dr 0, s_node_id = n_node_id node, s_created_at = dr_now dr 2\<rparr>, s)"
    by (simp add: rate_limit_serving [OF assms(1)] assms(5))
  have caps: "enforce_queue_limits env stat (dr_now dr 3) (ps_to_endpoint_id rq) (n_node_id dn) (payload_bytes rq) s = Inr s"
    by (simp add: queue_limits_serving [OF assms(1)] assms(6))
  have "packet_expiry_overflows (dr_now dr 4) (ae_cfg env) (ps_ttl_seconds rq)"
    using assms(7,8) by (simp add: packet_expiry_overflows_def packet_expiry_def)
  then show ?thesis
    using assms(1-3) ex rate caps by (simp add: send_packet_def send_check_def and_then_def)
qed

section \<open>Properties of the inbox and of a send\<close>

text \<open>
  C8: \<open>_fetch_inbox_deliveries\<close> returns only queued deliveries of the asking node whose packet has
  not expired, oldest first, none twice and at most \<open>limit\<close> of them.
\<close>

theorem inbox_sound:
  assumes "db_ok s" "0 \<le> limit"
  shows "let out = fetch_inbox_deliveries now n limit s in
     (\<forall>x\<in>set out. \<exists>d p. x = delivery_result (d, p) \<and> d \<in> set (deliveries s) \<and> p \<in> set (packets s)
        \<and> p_packet_id p = d_packet_id d \<and> d_destination_node_id d = n \<and> d_state d = ''queued''
        \<and> packet_active now p)
     \<and> sorted (map do_queued_at out) \<and> distinct (map do_delivery_id out) \<and> int (length out) \<le> limit"
proof -
  have "\<exists>d p. x = delivery_result (d, p) \<and> d \<in> set (deliveries s) \<and> p \<in> set (packets s)
        \<and> p_packet_id p = d_packet_id d \<and> d_destination_node_id d = n \<and> d_state d = ''queued''
        \<and> packet_active now p"
    if "x \<in> set (fetch_inbox_deliveries now n limit s)" for x
  proof -
    from that obtain d p where x: "x = delivery_result (d, p)"
      and dp: "(d, p) \<in> set (sql_limit limit (inbox_rows now n s))"
      by (auto simp: fetch_inbox_rows)
    have "(d, p) \<in> set (inbox_rows now n s)" by (rule subsetD [OF set_sql_limit dp])
    with x show ?thesis by auto
  qed
  moreover have "int (length (fetch_inbox_deliveries now n limit s)) \<le> limit"
    using assms(2) by (simp add: fetch_inbox_rows length_sql_limit)
  ultimately show ?thesis
    by (simp add: Let_def fetch_inbox_rows map_delivery_result sorted_map_sql_limit sorted_inbox_rows
        distinct_map_sql_limit distinct_inbox_rows [OF assms(1)] del: map_map)
qed

theorem inbox_sound_witness:
  "int (length (fetch_inbox_deliveries 11 ''n2'' 5 demo_sent)) \<le> 5"
  using inbox_sound [of demo_sent 5 11 "''n2''"] by (simp add: Let_def)

text \<open>
  Nothing is held back except by the limit: a queued, unexpired delivery of the node that is not
  in the answer means that the answer is full and consists of deliveries queued no later.
\<close>

theorem inbox_complete:
  assumes "d \<in> set (deliveries s)" "p \<in> set (packets s)" "p_packet_id p = d_packet_id d"
    and "packet_active now p" "d_destination_node_id d = n" "d_state d = ''queued''"
    and "delivery_result (d, p) \<notin> set (fetch_inbox_deliveries now n limit s)"
  shows "int (length (fetch_inbox_deliveries now n limit s)) = limit
     \<and> (\<forall>x\<in>set (fetch_inbox_deliveries now n limit s). do_queued_at x \<le> d_queued_at d)"
proof -
  let ?rows = "inbox_rows now n s"
  obtain ys where ys: "?rows = sql_limit limit ?rows @ ys"
    and full: "ys = [] \<or> (0 \<le> limit \<and> int (length (sql_limit limit ?rows)) = limit)"
    using sql_limit_prefix by metis
  have "(d, p) \<in> set ?rows" using assms by simp
  moreover have "(d, p) \<notin> set (sql_limit limit ?rows)" using assms(7) by (auto simp: fetch_inbox_rows)
  ultimately have in_ys: "(d, p) \<in> set ys" using ys by (metis Un_iff set_append)
  have "sorted (map (\<lambda>(d, p). d_queued_at d) (sql_limit limit ?rows @ ys))"
    using sorted_inbox_rows ys by metis
  then have "\<forall>x\<in>set (sql_limit limit ?rows). \<forall>y\<in>set ys. d_queued_at (fst x) \<le> d_queued_at (fst y)"
    by (simp add: sorted_append case_prod_unfold)
  with in_ys have "\<forall>x\<in>set (fetch_inbox_deliveries now n limit s). do_queued_at x \<le> d_queued_at d"
    by (fastforce simp: fetch_inbox_rows)
  with full in_ys show ?thesis by (auto simp: fetch_inbox_rows)
qed

theorem inbox_complete_witness:
  "int (length (fetch_inbox_deliveries 11 ''n2'' 0 demo_sent)) = 0"
proof -
  have "fetch_inbox_deliveries 11 ''n2'' 0 demo_sent = []" by (simp add: fetch_inbox_rows sql_limit_def)
  then show ?thesis
    using inbox_complete [of "new_delivery 10 ''x1'' (demo_node ''n2'') (demo_send ''p'')" demo_sent
        "new_packet default_config 10 (demo_node ''n1'') (demo_send ''p'')" 11 "''n2''" 0]
    by (simp add: demo_sent_def new_delivery_def new_packet_def demo_node_def demo_send_def
        packet_active_def packet_expiry_def default_config_def default_retention_def seconds_def)
qed

text \<open>
  C3: An accepted \<open>send_packet\<close> adds exactly one delivery to everything that can be seen from then
  on: the packet with the sender's content, for the node that owns the destination endpoint, which
  is the node that is notified. No other delivery becomes visible or disappears.
\<close>

theorem accepted_send_is_queued:
  assumes "db_ok s" "serving env s st" "send_packet env stat dr rq node s = (t, Some n, r)"
  shows "\<exists>d p. r = Inr \<lparr>pr_result = ''accepted'', pr_packet_id = p_packet_id p,
        pr_delivery_id = Some (d_delivery_id d), pr_expires_at = p_expires_at p\<rparr>
     \<and> p_packet_id p = ps_packet_id rq \<and> p_sender_node_id p = n_node_id node
     \<and> p_headers p = ps_headers rq \<and> p_body p = ps_body rq \<and> p_data p = ps_data rq \<and> p_meta p = ps_meta rq
     \<and> (\<exists>e. get_endpoint s (ps_to_endpoint_id rq) = Some e \<and> e_node_id e = n)
     \<and> d_destination_endpoint_id d = ps_to_endpoint_id rq \<and> d_destination_node_id d = n \<and> d_state d = ''queued''
     \<and> (\<forall>now\<ge>dr_now dr 1. active_joined now t =
          active_joined now s @ (if packet_active now p then [(d, p)] else []))"
proof (rule accepted_effect [OF assms])
  fix dn s0
  let ?p = "new_packet (ae_cfg env) (dr_now dr 4) node rq"
  let ?d = "new_delivery (dr_now dr 4) (dr_uuid dr 1) dn rq"
  assume a: "send_authorised node rq s = Inr dn" "n = n_node_id dn"
    "existing_packet (dr_now dr 1) (ps_packet_id rq) s = (None, s0)"
    "joined t = joined s0 @ [(?d, ?p)]"
    "r = Inr \<lparr>pr_result = ''accepted'', pr_packet_id = ps_packet_id rq,
       pr_delivery_id = Some (dr_uuid dr 1),
       pr_expires_at = packet_expiry (dr_now dr 4) (ae_cfg env) (ps_ttl_seconds rq)\<rparr>"
  have "\<exists>e. get_endpoint s (ps_to_endpoint_id rq) = Some e \<and> e_node_id e = n"
    using a(1,2) by (auto elim!: send_authorised_Inr dest: get_node_id)
  moreover have "active_joined now t = active_joined now s @ (if packet_active now ?p then [(?d, ?p)] else [])"
    if "now \<ge> dr_now dr 1" for now
    using existing_None_joined [OF assms(1) a(3) that] by (simp add: active_joined_def a(4))
  ultimately show ?thesis
    by (intro exI [where x = ?d] exI [where x = ?p]) (simp add: a(2,5) new_packet_def new_delivery_def)
qed

theorem accepted_send_is_queued_witness:
  "\<exists>d p. (\<forall>now\<ge>10. active_joined now demo_sent = (if packet_active now p then [(d, p)] else []))
     \<and> d_destination_node_id d = ''n2''"
proof -
  have "active_joined now demo_db = []" for now by (simp add: active_joined_def)
  then show ?thesis
    using accepted_send_is_queued [OF demo_db_ok demo_serving demo_accepted] by fastforce
qed

text \<open>
  A retry is harmless: the same request by the same node, while the stored packet has not
  expired, stores nothing, notifies nobody and is answered as a duplicate with the delivery
  identifier and expiry of the first answer, whatever limits have been reached meanwhile.
\<close>

theorem resend_is_duplicate:
  assumes "db_ok s" "serving env s st" "send_packet env stat dr rq node s = (t, Some n, Inr a)"
    and "wf_dict (ps_headers rq)" "wf_dict (ps_data rq)" "wf_dict (ps_meta rq)"
    and "case pr_expires_at a of None \<Rightarrow> True | Some e \<Rightarrow> dr_now dr' 1 < e"
    and "payload_bytes rq \<le> rs_max_packet_bytes st"
  shows "send_packet env stat' dr' rq node t = (t, None, Inr (a\<lparr>pr_result := ''duplicate''\<rparr>))"
proof (rule accepted_effect [OF assms(1-3)])
  fix dn s0
  let ?p = "new_packet (ae_cfg env) (dr_now dr 4) node rq"
  let ?d = "new_delivery (dr_now dr 4) (dr_uuid dr 1) dn rq"
  assume a: "send_authorised node rq s = Inr dn"
    "packets t = packets s0 @ [?p]" "deliveries t = deliveries s0 @ [?d]"
    "nodes t = nodes s" "endpoints t = endpoints s" "directed_routes t = directed_routes s"
    "settings_row t = settings_row s"
    "ps_packet_id rq \<notin> packet_ids s0" "ps_packet_id rq \<notin> d_packet_id ` set (deliveries s0)"
    "Inr a = Inr \<lparr>pr_result = ''accepted'', pr_packet_id = ps_packet_id rq,
       pr_delivery_id = Some (dr_uuid dr 1),
       pr_expires_at = packet_expiry (dr_now dr 4) (ae_cfg env) (ps_ttl_seconds rq)\<rparr>"
  have auth: "send_authorised node rq t = Inr dn"
    using a(1) send_authorised_cong [OF a(4,5,6)] by simp
  have sv: "serving env t st" using assms(2) a(7) by (simp add: serving_def)
  have p: "p_packet_id ?p = ps_packet_id rq" "p_expires_at ?p = pr_expires_at a"
    using a(10) by (simp_all add: new_packet_def)
  have get: "get_packet t (ps_packet_id rq) = Some ?p"
    using a(8) p(1) by (simp add: get_packet_def a(2) fetch_snoc fetch_None_iff [THEN iffD2])
  have "\<not> is_packet_expired (dr_now dr' 1) ?p"
    using assms(7) p(2) by (auto simp: is_packet_expired_def split: option.splits)
  then have ex: "existing_packet (dr_now dr' 1) (ps_packet_id rq) t = (Some ?p, t)"
    using get by (simp add: existing_packet_def)
  have m: "matches_payload node rq ?p"
    using assms(4-6) by (simp add: matches_payload_def packet_matches_def new_packet_def)
  have "delivery_of t (ps_packet_id rq) = Some ?d"
    using a(9) by (simp add: delivery_of_def a(3) fetch_snoc fetch_None_iff [THEN iffD2] new_delivery_def)
  then have "duplicate_response t ?p = a\<lparr>pr_result := ''duplicate''\<rparr>"
    using a(10) by (simp add: duplicate_response_def p new_delivery_def)
  with auth sv ex m assms(8) show ?thesis
    by (simp add: send_packet_def send_check_def and_then_def)
qed

theorem resend_is_duplicate_witness:
  "send_packet default_env (\<lambda>_. None) (demo_draws 20 ''y'') (demo_send ''p'') (demo_node ''n1'') demo_sent =
     (demo_sent, None, Inr (demo_response ''duplicate''))"
  using resend_is_duplicate [OF demo_db_ok demo_serving demo_accepted, of "demo_draws 20 ''y''" "\<lambda>_. None"]
  by (simp add: demo_response_def default_limits_values)

text \<open>
  A packet identifier stays bound to its first packet: a send that is otherwise in order but
  differs from the stored, unexpired packet of that identifier is refused with 409 and changes
  nothing.
\<close>

theorem conflicting_send_refused:
  assumes "serving env s st" "send_authorised node rq s = Inr dn"
    and "payload_bytes rq \<le> rs_max_packet_bytes st"
    and "get_packet s (ps_packet_id rq) = Some p" "\<not> is_packet_expired (dr_now dr 1) p"
    and "\<not> matches_payload node rq p"
  shows "send_packet env stat dr rq node s =
     (s, None, Inl (HTTPException 409 ''packet_id already used for different packet''))"
  using assms by (simp add: send_packet_def send_check_def and_then_def existing_packet_def)

lemma demo_sent_serving [simp]: "serving default_env demo_sent demo_settings"
  by (simp add: serving_def demo_sent_def demo_db_def)

lemma demo_sent_authorised [simp]:
  "send_authorised (demo_node ''n1'') (rq\<lparr>ps_from_endpoint_id := ''e1'', ps_to_endpoint_id := ''e2''\<rparr>) demo_sent
     = Inr (demo_node ''n2'')"
  by (simp add: send_authorised_def and_then_def ensure_node_active_def ensure_node_owns_endpoint_def
      get_endpoint_def get_node_def fetch_def demo_db_def demo_node_def demo_endpoint_def demo_sent_def
      demo_route_def active_route_exists_def)

definition demo_other :: packet_send_request where
  "demo_other = (demo_send ''p'')\<lparr>ps_body := Some ''ho''\<rparr>"

theorem conflicting_send_refused_witness:
  "fst (send_packet default_env (\<lambda>_. None) (demo_draws 20 ''y'') demo_other (demo_node ''n1'') demo_sent) = demo_sent"
proof -
  have auth: "send_authorised (demo_node ''n1'') demo_other demo_sent = Inr (demo_node ''n2'')"
    using demo_sent_authorised [of demo_other] by (simp add: demo_other_def demo_send_def)
  have size: "payload_bytes demo_other = 46"
    by (simp add: demo_other_def demo_send_def payload_bytes_def payload_size_bytes_def payload_envelope_def)
      code_simp
  have p: "get_packet demo_sent (ps_packet_id demo_other) =
      Some (new_packet default_config 10 (demo_node ''n1'') (demo_send ''p''))"
    by (simp add: get_packet_def fetch_def demo_sent_def new_packet_def demo_other_def)
  show ?thesis
    using conflicting_send_refused [OF demo_sent_serving auth _ p, of "demo_draws 20 ''y''" "\<lambda>_. None"] size
    by (simp add: default_limits_values is_packet_expired_def new_packet_def matches_payload_def
        packet_matches_def demo_other_def)
qed

text \<open>
  C9: After an accepted send, handled in one piece, every queue cap holds with the new packet counted:
  packets and bytes of the destination endpoint, bytes of the destination node, packets and bytes of the
  relay. The bytes on disk, as measured before the insert, and the packet's size stay within the storage cap.
\<close>

theorem queue_caps_hold:
  assumes "db_ok s" "serving env s st" "send_packet env stat dr rq node s = (t, Some n, r)"
    and "dr_now dr 1 \<le> dr_now dr 3"
  shows "queue_packets (\<lambda>d. d_destination_endpoint_id d = ps_to_endpoint_id rq) (dr_now dr 3) t
        \<le> rs_max_queued_packets_per_endpoint st
     \<and> queue_bytes (\<lambda>d. d_destination_endpoint_id d = ps_to_endpoint_id rq) (dr_now dr 3) t
        \<le> rs_max_queued_bytes_per_endpoint st
     \<and> queue_bytes (\<lambda>d. d_destination_node_id d = n) (dr_now dr 3) t \<le> rs_max_queued_bytes_per_node st
     \<and> queue_packets (\<lambda>_. True) (dr_now dr 3) t \<le> rs_max_total_queued_packets st
     \<and> queue_bytes (\<lambda>_. True) (dr_now dr 3) t \<le> rs_max_total_queued_bytes st
     \<and> current_storage_usage_bytes stat (ae_cfg env) + payload_bytes rq \<le> rs_max_storage_bytes st"
proof (rule accepted_effect [OF assms(1-3)])
  fix dn s0
  let ?p = "new_packet (ae_cfg env) (dr_now dr 4) node rq"
  let ?d = "new_delivery (dr_now dr 4) (dr_uuid dr 1) dn rq"
  let ?now = "dr_now dr 3"
  assume caps: "caps_leave_room st (ae_cfg env) stat ?now (ps_to_endpoint_id rq) n (payload_bytes rq) s0"
    and j: "joined t = joined s0 @ [(?d, ?p)]"
  have b: "p_payload_bytes ?p = payload_bytes rq" "0 \<le> payload_bytes rq"
    by (simp_all add: new_packet_def payload_bytes_def payload_size_bytes_def)
  have "queue_packets P ?now t \<le> queue_packets P ?now s0 + 1" for P
    by (simp add: queue_packets_def active_joined_def j)
  moreover have "queue_bytes P ?now t \<le> queue_bytes P ?now s0 + payload_bytes rq" for P
    using b by (simp add: queue_bytes_def active_joined_def j)
  ultimately show ?thesis
    using caps unfolding caps_leave_room_def by (smt (verit))
qed

theorem queue_caps_hold_witness:
  "queue_packets (\<lambda>_. True) 10 demo_sent \<le> 100000"
  using queue_caps_hold [OF demo_db_ok demo_serving demo_accepted]
  by (simp add: default_limits_values)

text \<open>
  C10: The rate limit: an accepted send counts once, for its sender and from its time on, and leaves at
  most the allowed number of sends in the sender's window, its own included; a send that is not accepted
  is not counted.
\<close>

theorem rate_limit_holds:
  assumes "db_ok s" "serving env s st" "send_packet env stat dr rq node s = (t, notified, r)"
  shows "(notified = None \<longrightarrow> send_events t = send_events s)
     \<and> (notified \<noteq> None \<longrightarrow> sends_since t (n_node_id node) (dr_now dr 2 - seconds (rs_send_window_seconds st))
          \<le> rs_max_sends_per_window st
        \<and> (\<forall>i t0. sends_since t i t0 =
             sends_since s i t0 + (if i = n_node_id node \<and> t0 \<le> dr_now dr 2 then 1 else 0)))"
proof (cases notified)
  case None
  with assms(3) show ?thesis
    by (auto simp: send_packet_def send_commit_def split: sum.splits prod.splits send_plan.splits option.splits)
next
  case (Some n)
  show ?thesis
  proof (rule accepted_effect [OF assms(1,2) assms(3) [unfolded Some]])
    fix dn s0
    assume x: "existing_packet (dr_now dr 1) (ps_packet_id rq) s = (None, s0)"
      and r: "sends_since s0 (n_node_id node) (dr_now dr 2 - seconds (rs_send_window_seconds st))
         < rs_max_sends_per_window st"
      and e: "send_events t = send_events s @ [\<lparr>s_event_id = dr_uuid dr 0, s_node_id = n_node_id node,
       s_created_at = dr_now dr 2\<rparr>]"
    have "send_events s0 = send_events s" by (rule existing_packet_frame [OF x])
    with r e Some show ?thesis by (simp add: sends_since_def)
  qed
qed

theorem rate_limit_holds_witness:
  "sends_since demo_sent ''n1'' (10 - seconds 60) \<le> 600 \<and> sends_since demo_sent ''n1'' 10 = 1"
  using rate_limit_holds [OF demo_db_ok demo_serving demo_accepted]
  by (auto simp: default_limits_values demo_node_def sends_since_def [of demo_db] count_where_def)

section \<open>Acknowledgement\<close>

lemma ack_row_Some:
  assumes "ack_row now rq s = Some (d, p)"
  shows "d \<in> set (deliveries s)" "p \<in> set (packets s)" "p_packet_id p = d_packet_id d" "packet_active now p"
    "case ak_delivery_id rq of Some i \<Rightarrow> d_delivery_id d = i | None \<Rightarrow> ak_packet_id rq = Some (p_packet_id p)"
proof -
  have "(d, p) \<in> set (active_joined now s) \<and>
      (case ak_delivery_id rq of Some i \<Rightarrow> d_delivery_id d = i | None \<Rightarrow> ak_packet_id rq = Some (p_packet_id p))"
    using assms by (auto simp: ack_row_def dest!: find_SomeD split: option.splits)
  then show "d \<in> set (deliveries s)" "p \<in> set (packets s)" "p_packet_id p = d_packet_id d" "packet_active now p"
    "case ak_delivery_id rq of Some i \<Rightarrow> d_delivery_id d = i | None \<Rightarrow> ak_packet_id rq = Some (p_packet_id p)"
    by (simp_all add: set_active_joined)
qed

text \<open>Removing a delivery and its packet removes one row of the joined view.\<close>

lemma joined_remove:
  assumes "db_ok s" "d \<in> set (deliveries s)"
  shows "joined (delete_packets (\<lambda>p. p_packet_id p = d_packet_id d)
           (delete_deliveries (\<lambda>e. d_delivery_id e = d_delivery_id d) s)) =
     filter (\<lambda>(e, p). d_delivery_id e \<noteq> d_delivery_id d) (joined s)"
proof -
  have same: "d_delivery_id e = d_delivery_id d \<longleftrightarrow> e = d" "d_packet_id e = d_packet_id d \<longleftrightarrow> e = d"
    if "e \<in> set (deliveries s)" for e
    using that assms(2) db_okD(2,3) [OF assms(1)] by (auto simp: distinct_map inj_on_def)
  have "joined (delete_packets (\<lambda>p. p_packet_id p = d_packet_id d)
           (delete_deliveries (\<lambda>e. d_delivery_id e = d_delivery_id d) s)) =
      filter (\<lambda>(e, p). p_packet_id p \<noteq> d_packet_id d)
        (filter (\<lambda>(e, p). d_delivery_id e \<noteq> d_delivery_id d) (joined s))"
    by (simp add: joined_delete_packets [OF delete_deliveries_ok [OF assms(1)]] joined_delete_deliveries)
  also have "\<dots> = filter (\<lambda>(e, p). d_delivery_id e \<noteq> d_delivery_id d) (joined s)"
    unfolding filter_filter by (rule filter_cong) (auto simp: set_joined, metis same)
  finally show ?thesis .
qed

lemma ack_packet_acked:
  assumes "ack_packet dr rq node s = (t, Inr a)"
  obtains d p where "ack_row (dr_now dr 0) rq s = Some (d, p)" "d_destination_node_id d = n_node_id node"
    "n_status node = ''active''" "ar_packet_id a = d_packet_id d"
    "t = delete_packets (\<lambda>q. p_packet_id q = p_packet_id p)
        (delete_deliveries (\<lambda>e. d_delivery_id e = d_delivery_id d) s)"
  using assms that
  by (auto simp: ack_packet_def check_def reject_def ensure_node_active_def split: if_splits option.splits)

text \<open>
  C7: An acknowledgement by the destination node removes exactly the delivery it names, by its own
  identifier or else by that of its packet, together with the packet: at every time all other deliveries are as
  before, and the acknowledged packet is no longer stored.
\<close>

theorem ack_removes_one:
  assumes "db_ok s" "ack_packet dr rq node s = (t, Inr a)"
  shows "\<exists>d\<in>set (deliveries s). d_destination_node_id d = n_node_id node \<and> ar_packet_id a = d_packet_id d
     \<and> (case ak_delivery_id rq of Some i \<Rightarrow> d_delivery_id d = i | None \<Rightarrow> ak_packet_id rq = Some (d_packet_id d))
     \<and> (\<forall>now. active_joined now t = filter (\<lambda>(e, p). d_delivery_id e \<noteq> d_delivery_id d) (active_joined now s))
     \<and> get_packet t (ar_packet_id a) = None"
proof (rule ack_packet_acked [OF assms(2)])
  fix d p
  assume row: "ack_row (dr_now dr 0) rq s = Some (d, p)" and d: "d_destination_node_id d = n_node_id node"
    "ar_packet_id a = d_packet_id d"
    and t: "t = delete_packets (\<lambda>q. p_packet_id q = p_packet_id p)
        (delete_deliveries (\<lambda>e. d_delivery_id e = d_delivery_id d) s)"
  note r = ack_row_Some [OF row]
  have "joined t = filter (\<lambda>(e, p). d_delivery_id e \<noteq> d_delivery_id d) (joined s)"
    using joined_remove [OF assms(1) r(1)] by (simp add: t r(3))
  then have "active_joined now t = filter (\<lambda>(e, p). d_delivery_id e \<noteq> d_delivery_id d) (active_joined now s)"
    for now by (simp add: active_joined_def conj_commute case_prod_unfold)
  moreover have "get_packet t (d_packet_id d) = None"
    by (auto simp: t r(3) get_packet_def fetch_None_iff)
  ultimately show ?thesis
    using d r(1,3,5) by (intro bexI [where x = d]) (auto split: option.splits)
qed

definition demo_ack :: packet_ack_request where
  "demo_ack = \<lparr>ak_delivery_id = Some ''x1'', ak_packet_id = None, ak_status = ''handled''\<rparr>"

lemma joined_demo_sent:
  "joined demo_sent = [(new_delivery 10 ''x1'' (demo_node ''n2'') (demo_send ''p''),
     new_packet default_config 10 (demo_node ''n1'') (demo_send ''p''))]"
  by (simp add: joined_def demo_sent_def new_delivery_def new_packet_def)

lemma demo_ack_row:
  "ack_row 20 demo_ack demo_sent = Some (new_delivery 10 ''x1'' (demo_node ''n2'') (demo_send ''p''),
     new_packet default_config 10 (demo_node ''n1'') (demo_send ''p''))"
  by (simp add: ack_row_def demo_ack_def active_joined_def joined_demo_sent packet_active_def)
    (simp add: new_delivery_def new_packet_def)

lemma demo_acked:
  "\<exists>t. ack_packet (demo_draws 20 ''z'') demo_ack (demo_node ''n2'') demo_sent =
     (t, Inr \<lparr>ar_acked = True, ar_packet_id = ''p'', ar_status = ''handled''\<rparr>)"
  by (simp add: ack_packet_def check_def ensure_node_active_def demo_ack_row)
    (simp add: demo_node_def new_delivery_def demo_ack_def)

theorem ack_removes_one_witness:
  "\<exists>t. get_packet t ''p'' = None
     \<and> fst (ack_packet (demo_draws 20 ''z'') demo_ack (demo_node ''n2'') demo_sent) = t"
proof -
  from demo_acked obtain t where t: "ack_packet (demo_draws 20 ''z'') demo_ack (demo_node ''n2'') demo_sent =
     (t, Inr \<lparr>ar_acked = True, ar_packet_id = ''p'', ar_status = ''handled''\<rparr>)" by blast
  from ack_removes_one [OF demo_sent_ok t] t show ?thesis by auto
qed

text \<open>
  The outcomes of an acknowledgement that is not carried out: a node that is not active gets
  403, a reference without an unexpired delivery 404, a delivery for another node 403, and the store
  is unchanged. In particular a second acknowledgement of the same delivery gets 404.
\<close>

theorem ack_refused:
  "(n_status node \<noteq> ''active'' \<longrightarrow>
      ack_packet dr rq node s = (s, Inl (HTTPException 403 (''node '' @ n_status node))))
   \<and> (n_status node = ''active'' \<longrightarrow> ack_row (dr_now dr 0) rq s = None \<longrightarrow>
      ack_packet dr rq node s = (s, Inl (HTTPException 404 ''delivery not found'')))
   \<and> (n_status node = ''active'' \<longrightarrow> ack_row (dr_now dr 0) rq s = Some (d, p) \<longrightarrow>
      d_destination_node_id d \<noteq> n_node_id node \<longrightarrow>
      ack_packet dr rq node s = (s, Inl (HTTPException 403 ''delivery not owned by node'')))
   \<and> (db_ok s \<longrightarrow> ack_packet dr rq node s = (t, Inr a) \<longrightarrow>
      ack_packet dr' rq node t = (t, Inl (HTTPException 404 ''delivery not found'')))"
proof -
  have "ack_packet dr' rq node t = (t, Inl (HTTPException 404 ''delivery not found''))"
    if ok: "db_ok s" and acked: "ack_packet dr rq node s = (t, Inr a)"
  proof (rule ack_packet_acked [OF acked])
    fix d p
    assume row: "ack_row (dr_now dr 0) rq s = Some (d, p)" and act: "n_status node = ''active''"
      and t: "t = delete_packets (\<lambda>q. p_packet_id q = p_packet_id p)
        (delete_deliveries (\<lambda>e. d_delivery_id e = d_delivery_id d) s)"
    note r = ack_row_Some [OF row]
    have j: "joined t = filter (\<lambda>(e, p). d_delivery_id e \<noteq> d_delivery_id d) (joined s)"
      using joined_remove [OF ok r(1)] by (simp add: t r(3))
    have "ack_row (dr_now dr' 0) rq t = None"
    proof (rule ccontr)
      assume "ack_row (dr_now dr' 0) rq t \<noteq> None"
      then obtain e q where row': "ack_row (dr_now dr' 0) rq t = Some (e, q)" by fastforce
      note r' = ack_row_Some [OF row']
      from r' have "(e, q) \<in> set (joined t)" by (simp add: set_joined)
      then have e: "d_delivery_id e \<noteq> d_delivery_id d" "(e, q) \<in> set (joined s)" by (simp_all add: j)
      from e r r' have "d_packet_id e = d_packet_id d" by (auto split: option.splits)
      with e(2) r(1) db_okD(2) [OF ok] have "e = d" by (auto simp: set_joined distinct_map inj_on_def)
      with e(1) show False by simp
    qed
    then show ?thesis by (simp add: ack_packet_def check_def ensure_node_active_def act reject_def)
  qed
  then show ?thesis by (auto simp: ack_packet_def check_def ensure_node_active_def reject_def)
qed

theorem ack_refused_witness:
  "ack_packet (demo_draws 20 ''z'') demo_ack (demo_node ''n1'') demo_sent =
     (demo_sent, Inl (HTTPException 403 ''delivery not owned by node''))"
  using ack_refused [of "demo_node ''n1''" "demo_draws 20 ''z''" demo_ack demo_sent
      "new_delivery 10 ''x1'' (demo_node ''n2'') (demo_send ''p'')"
      "new_packet default_config 10 (demo_node ''n1'') (demo_send ''p'')"]
  by (simp add: demo_ack_row) (simp add: demo_node_def new_delivery_def)

section \<open>Clean-up\<close>

lemma cleanup_expired_serving:
  assumes "serving env s st"
  shows "cleanup_expired env now s = Inr (r, t) \<longleftrightarrow>
     t = delete_send_events (\<lambda>v. s_created_at v < now - seconds (rs_send_window_seconds st * 2))
           (delete_packets (is_packet_expired now) (expire_codes now s))
     \<and> r = \<lparr>cr_expired_link_codes =
           count_where (\<lambda>c. c_status c = ''active'' \<and> c_expires_at c \<le> now) (link_codes s),
          cr_expired_packets = count_where (is_packet_expired now) (packets s),
          cr_pruned_send_events =
           count_where (\<lambda>v. s_created_at v < now - seconds (rs_send_window_seconds st * 2)) (send_events s)\<rparr>"
  using assms by (auto simp: cleanup_expired_def serving_def Let_def)

text \<open>
  C11: On a server with its settings row, \<open>cleanup_expired\<close> takes away only what is dead already: from its
  time on every inbox answer, the delivery that an acknowledgement finds, every queue count and the active
  link codes are as without it, and it forgets no send that the rate limit still counts. Nodes, endpoints,
  links and routes stay. (What \<open>DELETE /identity\<close> reports to have deleted counts dead rows too, so it does change.)
\<close>

theorem cleanup_keeps_live:
  assumes "db_ok s" "serving env s st" "cleanup_expired env now s = Inr (r, t)" "now \<le> now'"
    and "0 \<le> rs_send_window_seconds st"
  shows "fetch_inbox_deliveries now' n limit t = fetch_inbox_deliveries now' n limit s
     \<and> ack_row now' rq t = ack_row now' rq s
     \<and> queue_packets P now' t = queue_packets P now' s \<and> queue_bytes P now' t = queue_bytes P now' s
     \<and> filter (link_code_active now') (link_codes t) = filter (link_code_active now') (link_codes s)
     \<and> sends_since t n (now' - seconds (rs_send_window_seconds st)) =
         sends_since s n (now' - seconds (rs_send_window_seconds st))
     \<and> nodes t = nodes s \<and> endpoints t = endpoints s \<and> links t = links s \<and> directed_routes t = directed_routes s"
proof -
  have t: "t = delete_send_events (\<lambda>v. s_created_at v < now - seconds (rs_send_window_seconds st * 2))
           (delete_packets (is_packet_expired now) (expire_codes now s))"
    using assms(3) by (simp add: cleanup_expired_serving [OF assms(2)])
  have "active_joined now' t = active_joined now' (delete_packets (is_packet_expired now) (expire_codes now s))"
    by (rule active_joined_cong) (simp_all add: t)
  also have "\<dots> = active_joined now' (expire_codes now s)"
    using expire_codes_ok [OF assms(1)] assms(4) by (rule active_joined_cleanup)
  also have "\<dots> = active_joined now' s" by (rule active_joined_cong) simp_all
  finally have aj: "active_joined now' t = active_joined now' s" .
  have "filter (link_code_active now') (update_where (\<lambda>c. c_status c = ''active'' \<and> c_expires_at c \<le> now)
        (\<lambda>c. c\<lparr>c_status := ''expired''\<rparr>) cs) = filter (link_code_active now') cs" for cs
    using assms(4) by (induction cs) (auto simp: update_where_def link_code_active_def)
  then have codes: "filter (link_code_active now') (link_codes t) = filter (link_code_active now') (link_codes s)"
    by (simp add: t expire_codes_def)
  have le: "now - seconds (rs_send_window_seconds st * 2) \<le> now' - seconds (rs_send_window_seconds st)"
    using assms(4,5) by (simp add: seconds_def)
  have sends: "sends_since t n (now' - seconds (rs_send_window_seconds st)) =
      sends_since s n (now' - seconds (rs_send_window_seconds st))"
    unfolding sends_since_def count_where_def t
    using le by (auto simp: delete_where_def intro!: arg_cong [where f = length] filter_cong)
  have ack: "ack_row now' rq t = ack_row now' rq s" unfolding ack_row_def aj by (rule refl)
  have tables: "nodes t = nodes s \<and> endpoints t = endpoints s \<and> links t = links s \<and> directed_routes t = directed_routes s"
    by (simp add: t expire_codes_def)
  show ?thesis
    using aj codes sends ack tables by (simp add: fetch_inbox_deliveries_def queue_packets_def queue_bytes_def)
qed

lemma demo_cleanup: "\<exists>r t. cleanup_expired default_env now demo_sent = Inr (r, t)"
  by (simp add: cleanup_expired_serving [OF demo_sent_serving])

theorem cleanup_keeps_live_witness:
  "\<exists>r t. cleanup_expired default_env 100 demo_sent = Inr (r, t)
     \<and> fetch_inbox_deliveries 100 ''n2'' 5 t = fetch_inbox_deliveries 100 ''n2'' 5 demo_sent"
proof -
  from demo_cleanup obtain r t where t: "cleanup_expired default_env 100 demo_sent = Inr (r, t)" by blast
  from cleanup_keeps_live [OF demo_sent_ok demo_sent_serving t, of 100 "''n2''" 5] t show ?thesis
    by (auto simp: default_limits_values)
qed

text \<open>
  \<open>cleanup_expired\<close> leaves no expired packet, no active code past its expiry and no delivery of
  an expired packet; it reports what it removed, and a second run at the same time finds nothing.
\<close>

theorem cleanup_complete:
  assumes "db_ok s" "serving env s st" "cleanup_expired env now s = Inr (r, t)"
  shows "(\<forall>p\<in>set (packets t). \<not> is_packet_expired now p)
     \<and> (\<forall>c\<in>set (link_codes t). c_status c = ''active'' \<longrightarrow> now < c_expires_at c)
     \<and> (\<forall>d\<in>set (deliveries t). \<not> is_packet_expired now (packet_of t d))
     \<and> cr_expired_packets r = int (length (packets s)) - int (length (packets t))
     \<and> cleanup_expired env now t =
         Inr (\<lparr>cr_expired_link_codes = 0, cr_expired_packets = 0, cr_pruned_send_events = 0\<rparr>, t)"
proof -
  let ?old = "\<lambda>v. s_created_at v < now - seconds (rs_send_window_seconds st * 2)"
  have t: "t = delete_send_events ?old (delete_packets (is_packet_expired now) (expire_codes now s))"
    and r: "cr_expired_packets r = count_where (is_packet_expired now) (packets s)"
    using assms(3) by (simp_all add: cleanup_expired_serving [OF assms(2)])
  have packets: "\<forall>p\<in>set (packets t). \<not> is_packet_expired now p" by (simp add: t)
  have codes: "\<forall>c\<in>set (link_codes t). c_status c = ''active'' \<longrightarrow> now < c_expires_at c"
    by (auto simp: t expire_codes_def update_where_def)
  have ok: "db_ok t" using cleanup_expired_ok [OF assms(3,1)] .
  have deliveries: "\<forall>d\<in>set (deliveries t). \<not> is_packet_expired now (packet_of t d)"
    using packets packet_of(1) [OF ok] by blast
  have events: "\<forall>v\<in>set (send_events t). \<not> ?old v" by (simp add: t)
  have same: "expire_codes now t = t"
  proof -
    have "update_where (\<lambda>c. c_status c = ''active'' \<and> c_expires_at c \<le> now)
        (\<lambda>c. c\<lparr>c_status := ''expired''\<rparr>) (link_codes t) = link_codes t"
      using codes by (auto simp: update_where_def intro!: map_idI)
    then show ?thesis by (simp add: expire_codes_def)
  qed
  have "delete_packets (is_packet_expired now) t = t"
    using packets by (simp add: delete_packets_def delete_deliveries_def delete_where_def filter_id_conv Let_def)
  moreover have "delete_send_events ?old t = t"
    using events by (simp add: delete_send_events_def delete_where_def filter_id_conv)
  moreover have "serving env t st" using assms(2) by (simp add: t serving_def)
  ultimately have again: "cleanup_expired env now t =
      Inr (\<lparr>cr_expired_link_codes = 0, cr_expired_packets = 0, cr_pruned_send_events = 0\<rparr>, t)"
    using packets codes events same by (auto simp: cleanup_expired_serving count_where_0)
  have "cr_expired_packets r = int (length (packets s)) - int (length (packets t))"
    by (simp add: r t count_delete_where)
  with packets codes deliveries again show ?thesis by blast
qed

theorem cleanup_complete_witness:
  "\<exists>r t. cleanup_expired default_env (10 ^ 15) demo_sent = Inr (r, t) \<and> packets t = []
     \<and> (\<forall>d\<in>set (deliveries t). \<not> is_packet_expired (10 ^ 15) (packet_of t d))"
proof -
  from demo_cleanup obtain r t where t: "cleanup_expired default_env (10 ^ 15) demo_sent = Inr (r, t)" by blast
  then have "packets t = []"
    by (simp add: cleanup_expired_serving [OF demo_sent_serving] delete_where_def)
      (simp add: demo_sent_def is_packet_expired_def new_packet_def)
  with cleanup_complete [OF demo_sent_ok demo_sent_serving t] t show ?thesis by blast
qed

end
