(* ===== verification/Links.thy ===== *)
theory Links
  imports Relay
begin

text \<open>
  Links and routes: a link code is redeemed at most once, an ordered pair of endpoints never has two
  active routes, revocation stops the sends that the link allowed, and the deletion of an endpoint
  takes along only what hangs on it.
\<close>

section \<open>The claim of a code\<close>

definition claim_code :: "string \<Rightarrow> db \<Rightarrow> db" where
  "claim_code i s = s\<lparr>link_codes := update_where (\<lambda>c. c_link_code_id c = i \<and> c_status c = ''active'')
     (\<lambda>c. c\<lparr>c_status := ''used''\<rparr>) (link_codes s)\<rparr>"

definition link_row :: "draws \<Rightarrow> string \<Rightarrow> link_code \<Rightarrow> link" where
  "link_row dr dest code = \<lparr>l_link_id = dr_uuid dr 0, l_endpoint_a_id = c_source_endpoint_id code,
     l_endpoint_b_id = dest, l_mode = c_requested_mode code, l_created_at = dr_now dr 1, l_status = ''active''\<rparr>"

definition route_rows :: "draws \<Rightarrow> (string \<times> string) list \<Rightarrow> directed_route list" where
  "route_rows dr routes = map (\<lambda>(k, a, b). \<lparr>r_route_id = dr_uuid dr k, r_from_endpoint_id = a,
     r_to_endpoint_id = b, r_created_at = dr_now dr 1, r_status = ''active'',
     r_created_by_link_id = Some (dr_uuid dr 0)\<rparr>) (enumerate 1 routes)"

lemma insert_route_Some: "insert_route r s = Some t \<Longrightarrow> t = s\<lparr>directed_routes := directed_routes s @ [r]\<rparr>"
  by (auto simp: insert_route_def split: if_splits)

lemma insert_all_route:
  "insert_all insert_route rows s = Some t \<Longrightarrow> t = s\<lparr>directed_routes := directed_routes s @ rows\<rparr>"
proof (induction rows arbitrary: s)
  case (Cons r rows)
  then obtain s1 where s1: "insert_route r s = Some s1" "insert_all insert_route rows s1 = Some t"
    by (auto split: option.splits)
  from Cons.IH [OF s1(2)] insert_route_Some [OF s1(1)] show ?case by simp
qed simp

text \<open>A successful claim, taken apart.\<close>

lemma redeem_claim_Inr:
  assumes "redeem_claim dr dest code s = (t, Inr l)"
  obtains routes where
    "count_where (\<lambda>c. c_link_code_id c = c_link_code_id code \<and> c_status c = ''active'') (link_codes s) = 1"
    "resolve_redeem_routes (c_source_endpoint_id code) dest (c_requested_mode code) = Inr routes"
    "\<forall>(a, b)\<in>set routes. \<not> active_route_exists s a b"
    "l = link_row dr dest code"
    "t = (claim_code (c_link_code_id code) s)\<lparr>links := links s @ [l],
       directed_routes := directed_routes s @ route_rows dr routes\<rparr>"
    "\<not> exact_active_link_exists s (c_source_endpoint_id code) dest (c_requested_mode code)"
proof -
  have ex: "active_route_exists (s\<lparr>link_codes := cs\<rparr>) = active_route_exists s"
    "exact_active_link_exists (s\<lparr>link_codes := cs\<rparr>) = exact_active_link_exists s" for cs
    by (simp_all add: fun_eq_iff active_route_exists_def exact_active_link_exists_def)
  from assms obtain routes where a:
    "count_where (\<lambda>c. c_link_code_id c = c_link_code_id code \<and> c_status c = ''active'') (link_codes s) = 1"
    "resolve_redeem_routes (c_source_endpoint_id code) dest (c_requested_mode code) = Inr routes"
    "\<not> list_ex (\<lambda>(a, b). active_route_exists s a b) routes"
    "\<not> exact_active_link_exists s (c_source_endpoint_id code) dest (c_requested_mode code)"
    and f: "flush s (insert_link (link_row dr dest code) (claim_code (c_link_code_id code) s)) (\<lambda>s2.
      flush s (insert_all insert_route (route_rows dr routes) s2) (\<lambda>s3. (s3, Inr (link_row dr dest code))))
      = (t, Inr l)"
    unfolding redeem_claim_def Let_def ex
    by (auto simp: check_def reject_def link_row_def route_rows_def claim_code_def split: if_splits sum.splits)
  from f have "l = link_row dr dest code"
    "t = (claim_code (c_link_code_id code) s)\<lparr>links := links s @ [l],
       directed_routes := directed_routes s @ route_rows dr routes\<rparr>"
    by (auto simp: flush_def reject_def insert_link_def claim_code_def dest!: insert_all_route
        split: option.splits if_splits)
  with a that show ?thesis by (fastforce simp: list_ex_iff)
qed

lemma redeem_check_Inr:
  assumes "redeem_check dr payload node s = (s', Inr code)"
  shows "s' = s" "code \<in> set (link_codes s)" "c_code code = lr_code payload" "c_status code = ''active''"
    "dr_now dr 0 < c_expires_at code" "c_source_endpoint_id code \<noteq> lr_destination_endpoint_id payload"
proof -
  from assms obtain e where e: "get_endpoint s (lr_destination_endpoint_id payload) = Some e"
    and c: "fetch c_code (lr_code payload) (link_codes s) = Some code"
    and r: "s' = s" "c_status code = ''active''" "\<not> c_expires_at code \<le> dr_now dr 0"
      "c_source_endpoint_id code \<noteq> e_endpoint_id e"
    by (auto simp: redeem_check_def check_def ensure_node_owns_endpoint_def reject_def
        split: sum.splits option.splits if_splits)
  have "e_endpoint_id e = lr_destination_endpoint_id payload"
    using e unfolding get_endpoint_def by (blast dest: fetch_SomeD)
  moreover have "code \<in> set (link_codes s)" "c_code code = lr_code payload"
    using c by (blast dest: fetch_SomeD)+
  ultimately show "s' = s" "code \<in> set (link_codes s)" "c_code code = lr_code payload"
    "c_status code = ''active''" "dr_now dr 0 < c_expires_at code"
    "c_source_endpoint_id code \<noteq> lr_destination_endpoint_id payload"
    using r by simp_all
qed

section \<open>At most one active route per ordered pair\<close>

definition active_pairs :: "db \<Rightarrow> (string \<times> string) list" where
  "active_pairs s = map (\<lambda>r. (r_from_endpoint_id r, r_to_endpoint_id r))
     (filter (\<lambda>r. r_status r = ''active'') (directed_routes s))"

definition routes_unique :: "db \<Rightarrow> bool" where
  "routes_unique s \<longleftrightarrow> distinct (active_pairs s)"

text \<open>Operations that only drop or revoke routes keep a subsequence of the active pairs.\<close>

definition fewer_routes :: "db \<Rightarrow> db \<Rightarrow> bool" where
  "fewer_routes s t \<longleftrightarrow> subseq (active_pairs t) (active_pairs s)"

lemma fewer_routes_unique: "fewer_routes s t \<Longrightarrow> routes_unique s \<Longrightarrow> routes_unique t"
  unfolding fewer_routes_def routes_unique_def by (metis subseq_conv_nths distinct_nthsI)

lemma fewer_routes_trans: "fewer_routes s t \<Longrightarrow> fewer_routes t u \<Longrightarrow> fewer_routes s u"
  unfolding fewer_routes_def by (rule subseq_order.trans)

lemma fewer_routes_same: "directed_routes t = directed_routes s \<Longrightarrow> fewer_routes s t"
  by (simp add: fewer_routes_def active_pairs_def)

lemma fewer_routes_delete: "fewer_routes s (delete_routes P s)"
proof -
  have "subseq (map f (filter Q (filter R xs))) (map f (filter Q xs))" for f :: "directed_route \<Rightarrow> string \<times> string" and Q R xs
    by (intro subseq_map) (metis filter_filter subseq_filter subseq_filter_left filter_filter conj_commute)
  then show ?thesis
    by (simp add: fewer_routes_def active_pairs_def delete_where_def)
qed

lemma active_pairs_update:
  assumes "\<And>r. r_from_endpoint_id (f r) = r_from_endpoint_id r" "\<And>r. r_to_endpoint_id (f r) = r_to_endpoint_id r"
    and "\<And>r. r_status (f r) = r_status r \<or> r_status (f r) \<noteq> ''active''"
  shows "subseq (map (\<lambda>r. (r_from_endpoint_id r, r_to_endpoint_id r))
           (filter (\<lambda>r. r_status r = ''active'') (update_where P f rs)))
         (map (\<lambda>r. (r_from_endpoint_id r, r_to_endpoint_id r)) (filter (\<lambda>r. r_status r = ''active'') rs))"
proof (induction rs)
  case (Cons r rs)
  with assms(3) [of r] show ?case
    by (auto simp: update_where_def assms(1,2) list_emb_Cons)
qed (simp add: update_where_def)

lemma fewer_routes_update:
  assumes "directed_routes t = update_where P f (directed_routes s)"
    and "\<And>r. r_from_endpoint_id (f r) = r_from_endpoint_id r" "\<And>r. r_to_endpoint_id (f r) = r_to_endpoint_id r"
    and "\<And>r. r_status (f r) = r_status r \<or> r_status (f r) \<noteq> ''active''"
  shows "fewer_routes s t"
  unfolding fewer_routes_def active_pairs_def assms(1) using assms(2-4) by (rule active_pairs_update)

lemma fewer_routes_revoke: "fewer_routes s (revoke_link_rows i s)"
  by (rule fewer_routes_update [where f = "\<lambda>r. r\<lparr>r_status := ''revoked''\<rparr>"
        and P = "\<lambda>r. r_created_by_link_id r = Some i"]) (simp_all add: revoke_link_rows_def)

lemma fewer_routes_delete_links: "fewer_routes s (delete_links P s)"
  by (rule fewer_routes_update [where f = "\<lambda>r. r\<lparr>r_created_by_link_id := None\<rparr>"
        and P = "\<lambda>r. \<exists>l\<in>l_link_id ` set (filter P (links s)). r_created_by_link_id r = Some l"])
    (simp_all add: delete_links_def Let_def)

lemma fewer_routes_detach_endpoints: "fewer_routes s (detach_endpoints gone s)"
proof -
  let ?a = "delete_links (\<lambda>l. l_endpoint_a_id l \<in> gone \<or> l_endpoint_b_id l \<in> gone) s"
  let ?b = "delete_routes (\<lambda>r. r_from_endpoint_id r \<in> gone \<or> r_to_endpoint_id r \<in> gone) ?a"
  have "fewer_routes ?b (detach_endpoints gone s)"
    by (rule fewer_routes_same) (simp add: detach_endpoints_def)
  from fewer_routes_trans [OF fewer_routes_trans [OF fewer_routes_delete_links fewer_routes_delete] this]
  show ?thesis .
qed

lemma fewer_routes_delete_endpoints: "fewer_routes s (delete_endpoints P s)"
  using fewer_routes_trans [OF fewer_routes_detach_endpoints fewer_routes_same]
  by (simp add: delete_endpoints_def)

lemma fewer_routes_delete_nodes: "fewer_routes s (delete_nodes P s)"
proof -
  let ?gone = "n_node_id ` set (filter P (nodes s))"
  have "fewer_routes (delete_endpoints (\<lambda>e. e_node_id e \<in> ?gone) s) (delete_nodes P s)"
    by (rule fewer_routes_same) (simp add: delete_nodes_def detach_nodes_def)
  with fewer_routes_delete_endpoints show ?thesis by (rule fewer_routes_trans)
qed

lemma active_route_exists_pairs: "active_route_exists s a b \<longleftrightarrow> (a, b) \<in> set (active_pairs s)"
  by (auto simp: active_route_exists_def active_pairs_def list_ex_iff)

lemma active_pairs_route_rows:
  "map (\<lambda>r. (r_from_endpoint_id r, r_to_endpoint_id r))
     (filter (\<lambda>r. r_status r = ''active'') (route_rows dr routes)) = routes"
proof -
  have "filter (\<lambda>r. r_status r = ''active'') (route_rows dr routes) = route_rows dr routes"
    by (auto simp: route_rows_def filter_id_conv)
  moreover have "map (\<lambda>r. (r_from_endpoint_id r, r_to_endpoint_id r)) (route_rows dr routes) =
      map snd (enumerate 1 routes)"
    by (simp add: route_rows_def case_prod_unfold o_def)
  ultimately show ?thesis by (simp only: map_snd_enumerate)
qed

lemma resolve_redeem_routes_distinct:
  "resolve_redeem_routes a b mode = Inr routes \<Longrightarrow> a \<noteq> b \<Longrightarrow> distinct routes"
  by (auto simp: resolve_redeem_routes_def split: if_splits)

lemma redeem_claim_pairs:
  assumes "redeem_claim dr dest code s = (t, Inr l)"
  obtains routes where "resolve_redeem_routes (c_source_endpoint_id code) dest (c_requested_mode code) = Inr routes"
    "active_pairs t = active_pairs s @ routes" "\<forall>x\<in>set routes. x \<notin> set (active_pairs s)"
proof (rule redeem_claim_Inr [OF assms])
  fix routes
  assume r: "resolve_redeem_routes (c_source_endpoint_id code) dest (c_requested_mode code) = Inr routes"
    "\<forall>(a, b)\<in>set routes. \<not> active_route_exists s a b"
    and t: "t = (claim_code (c_link_code_id code) s)\<lparr>links := links s @ [l],
       directed_routes := directed_routes s @ route_rows dr routes\<rparr>"
  have "active_pairs t = active_pairs s @ routes"
    unfolding active_pairs_def t using active_pairs_route_rows [of dr routes] by simp
  with r that show thesis by (auto simp: active_route_exists_pairs)
qed

lemma redeem_claim_unique:
  assumes "routes_unique s" "redeem_claim dr dest code s = (t, r)" "c_source_endpoint_id code \<noteq> dest"
  shows "routes_unique t"
proof (cases r)
  case (Inr l)
  show ?thesis
  proof (rule redeem_claim_pairs [OF assms(2) [unfolded Inr]])
    fix routes
    assume "resolve_redeem_routes (c_source_endpoint_id code) dest (c_requested_mode code) = Inr routes"
      "active_pairs t = active_pairs s @ routes" "\<forall>x\<in>set routes. x \<notin> set (active_pairs s)"
    then show ?thesis
      using assms(1) resolve_redeem_routes_distinct [OF _ assms(3)] by (auto simp: routes_unique_def)
  qed
next
  case (Inl e)
  then have "t = s"
    using assms(2) by (auto simp: redeem_claim_def Let_def check_def flush_def reject_def
        split: if_splits sum.splits option.splits)
  with assms(1) show ?thesis by simp
qed

section \<open>Revocation and deletion\<close>

lemma active_pairs_rows:
  "(a, b) \<in> set (active_pairs s) \<longleftrightarrow>
     (\<exists>r\<in>set (directed_routes s). r_status r = ''active'' \<and> r_from_endpoint_id r = a \<and> r_to_endpoint_id r = b)"
  by (auto simp: active_pairs_def)

text \<open>An active pair has one active row, so revoking that row ends the pair.\<close>

lemma revoke_ends_pair:
  assumes "routes_unique s" "r \<in> set (directed_routes s)" "r_status r = ''active''"
    and "r_created_by_link_id r = Some i"
  shows "\<not> active_route_exists (revoke_link_rows i s) (r_from_endpoint_id r) (r_to_endpoint_id r)"
proof
  assume "active_route_exists (revoke_link_rows i s) (r_from_endpoint_id r) (r_to_endpoint_id r)"
  then obtain q where q: "q \<in> set (directed_routes (revoke_link_rows i s))" "r_status q = ''active''"
    "r_from_endpoint_id q = r_from_endpoint_id r" "r_to_endpoint_id q = r_to_endpoint_id r"
    by (auto simp: active_route_exists_pairs active_pairs_rows)
  from q(1,2) have "q \<in> set (directed_routes s)" "r_created_by_link_id q \<noteq> Some i"
    by (auto simp: revoke_link_rows_def elim!: in_update_whereE split: if_splits)
  with q assms have "q = r" by (auto simp: routes_unique_def active_pairs_def distinct_map inj_on_def)
  with \<open>r_created_by_link_id q \<noteq> Some i\<close> assms(4) show False by simp
qed

lemma no_route_no_send:
  assumes "\<not> active_route_exists s (ps_from_endpoint_id rq) (ps_to_endpoint_id rq)"
  shows "\<exists>e. send_packet env stat dr rq node s = (s, None, Inl e)"
proof (cases "send_authorised node rq s")
  case (Inl e)
  then show ?thesis by (simp add: send_packet_def send_check_def and_then_def)
next
  case (Inr dn)
  then have "active_route_exists s (ps_from_endpoint_id rq) (ps_to_endpoint_id rq)"
    by (rule send_authorised_Inr)
  with assms show ?thesis by simp
qed

text \<open>The queue after an endpoint is gone: the rows of its own deliveries and of its packets go.\<close>

lemma joined_delete_endpoints:
  assumes "db_ok s"
  shows "joined (delete_endpoints (\<lambda>e. e_endpoint_id e = i) s) =
    (if i \<in> endpoint_ids s
     then filter (\<lambda>(d, p). d_destination_endpoint_id d \<noteq> i \<and> p_from_endpoint_id p \<noteq> i \<and> p_to_endpoint_id p \<noteq> i) (joined s)
     else joined s)"
proof -
  define gone where "gone = e_endpoint_id ` set (filter (\<lambda>e. e_endpoint_id e = i) (endpoints s))"
  have gone: "gone = (if i \<in> endpoint_ids s then {i} else {})" by (auto simp: gone_def)
  let ?a = "delete_link_codes (\<lambda>c. c_source_endpoint_id c \<in> gone)
    (delete_routes (\<lambda>r. r_from_endpoint_id r \<in> gone \<or> r_to_endpoint_id r \<in> gone)
    (delete_links (\<lambda>l. l_endpoint_a_id l \<in> gone \<or> l_endpoint_b_id l \<in> gone) s))"
  have ok: "db_ok ?a" using assms by (intro db_intro)
  have "joined ?a = joined s" by (rule joined_cong) simp_all
  then have "joined (detach_endpoints gone s) = filter (\<lambda>(d, p). d_destination_endpoint_id d \<notin> gone)
      (filter (\<lambda>(d, p). \<not> (p_from_endpoint_id p \<in> gone \<or> p_to_endpoint_id p \<in> gone)) (joined s))"
    by (simp add: detach_endpoints_def joined_delete_deliveries joined_delete_packets [OF ok])
  moreover have "joined (delete_endpoints (\<lambda>e. e_endpoint_id e = i) s) = joined (detach_endpoints gone s)"
    by (rule joined_cong) (simp_all add: delete_endpoints_def gone_def)
  ultimately show ?thesis by (auto simp: gone intro!: filter_cong)
qed

section \<open>Properties\<close>

text \<open>
  C16: A redeemed code opens exactly the routes of its mode: besides the ordered pairs that had an active
  route before, the pair from the code's endpoint to the redeemer's for \<open>a_to_b\<close>, the opposite one for \<open>b_to_a\<close>,
  and both for \<open>bidirectional\<close>; no other mode is redeemed. The link is stored as active, and the code is no
  longer active.
\<close>

theorem redeem_opens_routes:
  assumes "redeem_link_code dr payload node s = (t, Inr l)"
  shows "\<exists>code. code \<in> set (link_codes s) \<and> c_code code = lr_code payload \<and> c_status code = ''active''
     \<and> dr_now dr 0 < c_expires_at code
     \<and> c_requested_mode code \<in> {''a_to_b'', ''b_to_a'', ''bidirectional''}
     \<and> (\<forall>a b. active_route_exists t a b \<longleftrightarrow> active_route_exists s a b
          \<or> c_requested_mode code \<in> {''a_to_b'', ''bidirectional''}
              \<and> a = c_source_endpoint_id code \<and> b = lr_destination_endpoint_id payload
          \<or> c_requested_mode code \<in> {''b_to_a'', ''bidirectional''}
              \<and> a = lr_destination_endpoint_id payload \<and> b = c_source_endpoint_id code)
     \<and> links t = links s @ [l] \<and> l_status l = ''active'' \<and> l_mode l = c_requested_mode code
     \<and> (\<forall>c\<in>set (link_codes t). c_link_code_id c = c_link_code_id code \<longrightarrow> c_status c \<noteq> ''active'')"
proof -
  from assms obtain s0 code where ch: "redeem_check dr payload node s = (s0, Inr code)"
    and cl: "redeem_claim dr (lr_destination_endpoint_id payload) code s0 = (t, Inr l)"
    by (auto simp: redeem_link_code_def split: prod.splits sum.splits)
  note c = redeem_check_Inr [OF ch]
  note cl = cl [unfolded c(1)]
  from cl show ?thesis
  proof (rule redeem_claim_Inr)
    fix routes
    assume r: "resolve_redeem_routes (c_source_endpoint_id code) (lr_destination_endpoint_id payload)
        (c_requested_mode code) = Inr routes"
      and l: "l = link_row dr (lr_destination_endpoint_id payload) code"
      and t: "t = (claim_code (c_link_code_id code) s)\<lparr>links := links s @ [l],
        directed_routes := directed_routes s @ route_rows dr routes\<rparr>"
    have pairs: "active_route_exists t a b \<longleftrightarrow> active_route_exists s a b \<or> (a, b) \<in> set routes" for a b
      by (rule redeem_claim_pairs [OF cl]) (use r in \<open>auto simp: active_route_exists_pairs\<close>)
    have "c_requested_mode code \<in> {''a_to_b'', ''b_to_a'', ''bidirectional''}"
      using r by (auto simp: resolve_redeem_routes_def split: if_splits)
    moreover have "active_route_exists t a b \<longleftrightarrow> active_route_exists s a b
          \<or> c_requested_mode code \<in> {''a_to_b'', ''bidirectional''}
              \<and> a = c_source_endpoint_id code \<and> b = lr_destination_endpoint_id payload
          \<or> c_requested_mode code \<in> {''b_to_a'', ''bidirectional''}
              \<and> a = lr_destination_endpoint_id payload \<and> b = c_source_endpoint_id code" for a b
      unfolding pairs using r by (auto simp: resolve_redeem_routes_def split: if_splits)
    moreover have "\<forall>c\<in>set (link_codes t). c_link_code_id c = c_link_code_id code \<longrightarrow> c_status c \<noteq> ''active''"
      unfolding t by (auto simp: claim_code_def elim!: in_update_whereE split: if_splits)
    ultimately show ?thesis
      using c l by (intro exI [where x = code]) (simp add: t link_row_def)
  qed
qed

lemma demo_node_id [simp]: "n_node_id (demo_node i) = i"
  by (simp add: demo_node_def)

definition demo_code :: link_code where
  "demo_code = \<lparr>c_link_code_id = ''c'', c_code = ''ABC123'', c_source_endpoint_id = ''e1'',
     c_requested_mode = ''a_to_b'', c_created_at = 0, c_expires_at = 100, c_status = ''active''\<rparr>"

definition demo_coded :: db where
  "demo_coded = demo_db\<lparr>links := [], directed_routes := [], link_codes := [demo_code]\<rparr>"

definition demo_redeem :: link_redeem_request where
  "demo_redeem = \<lparr>lr_code = ''ABC123'', lr_destination_endpoint_id = ''e2''\<rparr>"

lemma demo_redeem_check:
  "redeem_check (demo_draws 10 tag) demo_redeem (demo_node ''n2'') demo_coded = (demo_coded, Inr demo_code)"
proof -
  have "get_endpoint demo_coded ''e2'' = Some (demo_endpoint ''e2'' ''n2'')"
    by (simp add: get_endpoint_def fetch_def demo_coded_def demo_db_def demo_endpoint_def)
  then show ?thesis
    by (simp add: redeem_check_def check_def ensure_node_active_def ensure_node_owns_endpoint_def demo_redeem_def
        demo_coded_def fetch_def demo_code_def) (simp add: demo_node_def demo_endpoint_def)
qed

lemma demo_redeemed:
  "\<exists>t l. redeem_link_code (demo_draws 10 ''x'') demo_redeem (demo_node ''n2'') demo_coded = (t, Inr l)"
proof -
  have "redeem_claim (demo_draws 10 ''x'') ''e2'' demo_code demo_coded \<noteq> (t, Inl e)" for t e
    by (simp add: redeem_claim_def Let_def demo_coded_def demo_code_def count_where_def get_endpoint_def
        fetch_def exact_active_link_exists_def resolve_redeem_routes_def active_route_exists_def check_def
        flush_def insert_link_def insert_route_def enumerate_eq_zip)
      (simp add: demo_db_def demo_endpoint_def)
  then obtain t l where "redeem_claim (demo_draws 10 ''x'') ''e2'' demo_code demo_coded = (t, Inr l)"
    by (metis sum.exhaust surj_pair)
  then show ?thesis by (simp add: redeem_link_code_def demo_redeem_check) (simp add: demo_redeem_def)
qed

theorem redeem_opens_routes_witness:
  "\<exists>t l. redeem_link_code (demo_draws 10 ''x'') demo_redeem (demo_node ''n2'') demo_coded = (t, Inr l)
     \<and> active_route_exists t ''e1'' ''e2''"
proof -
  from demo_redeemed obtain t l
    where t: "redeem_link_code (demo_draws 10 ''x'') demo_redeem (demo_node ''n2'') demo_coded = (t, Inr l)" by blast
  have "active_route_exists t ''e1'' ''e2''"
    using redeem_opens_routes [OF t]
    by (auto simp: demo_coded_def demo_code_def demo_redeem_def)
  with t show ?thesis by blast
qed

text \<open>
  C17: Revoking a link stops the traffic it allowed: after \<open>revoke_link\<close> no send along any active
  route that the link had created is accepted, whatever the sender, the packet and the limits, and
  the store is unchanged by the attempt.
\<close>

theorem revoke_stops_sends:
  assumes "routes_unique s" "revoke_link i node s = (t, Inr j)"
    and "r \<in> set (directed_routes s)" "r_status r = ''active''" "r_created_by_link_id r = Some i"
    and "ps_from_endpoint_id rq = r_from_endpoint_id r" "ps_to_endpoint_id rq = r_to_endpoint_id r"
  shows "\<exists>e. send_packet env stat dr rq sender t = (t, None, Inl e)"
proof -
  from assms(2) obtain l where "get_link s i = Some l" "t = revoke_link_rows (l_link_id l) s"
    by (auto simp: revoke_link_def reject_def Let_def split: option.splits if_splits)
  moreover from this have "l_link_id l = i" unfolding get_link_def by (blast dest: fetch_SomeD)
  ultimately have "\<not> active_route_exists t (ps_from_endpoint_id rq) (ps_to_endpoint_id rq)"
    using revoke_ends_pair [OF assms(1,3,4,5)] assms(6,7) by simp
  then show ?thesis by (rule no_route_no_send)
qed

lemma demo_routes_unique [simp]: "routes_unique demo_db"
  by (simp add: routes_unique_def active_pairs_def demo_db_def demo_route_def)

lemma demo_endpoint_ids: "endpoint_ids_of demo_db ''n2'' = [''e2'']"
  by (simp add: endpoint_ids_of_def demo_db_def demo_endpoint_def)

lemma demo_link: "get_link demo_db ''l'' = Some \<lparr>l_link_id = ''l'', l_endpoint_a_id = ''e1'',
    l_endpoint_b_id = ''e2'', l_mode = ''bidirectional'', l_created_at = 0, l_status = ''active''\<rparr>"
  by (simp add: get_link_def fetch_def demo_db_def)

theorem revoke_stops_sends_witness:
  "\<exists>t e. revoke_link ''l'' (demo_node ''n2'') demo_db = (t, Inr ''l'')
     \<and> send_packet default_env (\<lambda>_. None) (demo_draws 10 ''x'') (demo_send ''p'') (demo_node ''n1'') t = (t, None, Inl e)"
proof -
  have "\<exists>t. revoke_link ''l'' (demo_node ''n2'') demo_db = (t, Inr ''l'')"
    by (simp add: revoke_link_def demo_link demo_endpoint_ids demo_node_id Let_def)
  then obtain t where t: "revoke_link ''l'' (demo_node ''n2'') demo_db = (t, Inr ''l'')" by blast
  from revoke_stops_sends [OF demo_routes_unique t, of "demo_route ''r1'' ''e1'' ''e2''" "demo_send ''p''"] t
  show ?thesis by (auto simp: demo_db_def demo_route_def)
qed

text \<open>
  A deletion of an endpoint is refused while something is queued for it, but it takes along what
  the endpoint has sent: of everything visible from then on, exactly the deliveries whose packet
  names the endpoint, as its origin or its target, disappear.
\<close>

theorem delete_endpoint_queue:
  assumes "db_ok s" "delete_endpoint dr i node s = (t, Inr j)" "dr_now dr 0 \<le> now"
  shows "active_joined now t =
      filter (\<lambda>(d, p). p_from_endpoint_id p \<noteq> i \<and> p_to_endpoint_id p \<noteq> i) (active_joined now s)
    \<and> (\<forall>(d, p)\<in>set (active_joined now s). d_destination_endpoint_id d \<noteq> i)"
proof -
  from assms(2) obtain e where e: "get_endpoint s i = Some e"
    and q: "queue_packets (\<lambda>d. d_destination_endpoint_id d = i) (dr_now dr 0) s = 0"
    and t: "t = delete_endpoints (\<lambda>e. e_endpoint_id e = i) s"
    by (auto simp: delete_endpoint_def check_def reject_def ensure_node_owns_endpoint_def Let_def
        split: sum.splits option.splits if_splits)
  have i: "i \<in> endpoint_ids s" using e unfolding get_endpoint_def by (metis fetch_None_iff option.discI)
  have none: "d_destination_endpoint_id d \<noteq> i" if "(d, p) \<in> set (joined s)" "packet_active now p" for d p
  proof
    assume d: "d_destination_endpoint_id d = i"
    have "packet_active (dr_now dr 0) p" using that(2) expired_mono [OF _ assms(3)] by (auto simp: packet_active_iff)
    with that(1) have "(d, p) \<in> set (active_joined (dr_now dr 0) s)" by (simp add: active_joined_def)
    moreover have "\<forall>(d, p)\<in>set (active_joined (dr_now dr 0) s). d_destination_endpoint_id d \<noteq> i"
      using q by (simp add: queue_packets_def filter_empty_conv case_prod_unfold)
    ultimately show False using d by blast
  qed
  have "joined t = filter (\<lambda>(d, p). d_destination_endpoint_id d \<noteq> i \<and> p_from_endpoint_id p \<noteq> i
      \<and> p_to_endpoint_id p \<noteq> i) (joined s)"
    using joined_delete_endpoints [OF assms(1)] i by (simp add: t)
  with none show ?thesis
    by (auto simp: active_joined_def intro!: filter_cong)
qed

text \<open>The link of the small world is gone; \<open>n1\<close> deletes the endpoint it has just sent from.\<close>

definition demo_unlinked :: db where
  "demo_unlinked = demo_sent\<lparr>links := [], directed_routes := []\<rparr>"

lemma joined_demo_unlinked: "joined demo_unlinked = joined demo_sent"
  by (rule joined_cong) (simp_all add: demo_unlinked_def)

lemma demo_unlinked_ok [simp]: "db_ok demo_unlinked"
proof -
  have "db_ok (delete_routes (\<lambda>_. True) (delete_links (\<lambda>_. True) demo_sent))"
    by (intro db_intro) simp
  moreover have "delete_routes (\<lambda>_. True) (delete_links (\<lambda>_. True) demo_sent) = demo_unlinked"
    by (simp add: delete_routes_def delete_links_def delete_where_def demo_unlinked_def Let_def)
  ultimately show ?thesis by simp
qed

lemma demo_delete_endpoint:
  "\<exists>t. delete_endpoint (demo_draws 20 ''z'') ''e1'' (demo_node ''n1'') demo_unlinked = (t, Inr ''e1'')"
proof -
  have "get_endpoint demo_unlinked ''e1'' = Some (demo_endpoint ''e1'' ''n1'')"
    by (simp add: get_endpoint_def fetch_def demo_unlinked_def demo_sent_def demo_db_def demo_endpoint_def)
  moreover have "queue_packets (\<lambda>d. d_destination_endpoint_id d = ''e1'') 20 demo_unlinked = 0"
    by (simp add: queue_packets_def active_joined_def joined_demo_unlinked joined_demo_sent new_delivery_def)
  moreover have "links demo_unlinked = []" by (simp add: demo_unlinked_def)
  ultimately show ?thesis
    by (simp add: delete_endpoint_def check_def ensure_node_owns_endpoint_def Let_def count_where_def)
      (simp add: demo_endpoint_def)
qed

theorem delete_endpoint_queue_witness:
  "\<exists>t. delete_endpoint (demo_draws 20 ''z'') ''e1'' (demo_node ''n1'') demo_unlinked = (t, Inr ''e1'')
     \<and> active_joined 30 demo_unlinked \<noteq> [] \<and> active_joined 30 t = []"
proof -
  from demo_delete_endpoint obtain t
    where t: "delete_endpoint (demo_draws 20 ''z'') ''e1'' (demo_node ''n1'') demo_unlinked = (t, Inr ''e1'')"
    by blast
  have a: "active_joined 30 demo_unlinked = joined demo_sent"
    by (simp add: active_joined_def joined_demo_unlinked joined_demo_sent packet_active_def new_packet_def)
  with delete_endpoint_queue [OF demo_unlinked_ok t, of 30] have "active_joined 30 t = []"
    by (simp add: joined_demo_sent new_packet_def)
  with t a show ?thesis by (simp add: joined_demo_sent)
qed

end
