(* ===== verification/Api.thy ===== *)
theory Api
  imports Links
begin

text \<open>
  The application around the handlers (\<open>app/main.py\<close>): one constructor of \<open>call\<close> per route, the
  order in which a request is authenticated, validated and handled, the middleware that enforces
  the IP policy and logs, and the periodic maintenance. The framework resolves the dependencies of a
  route (the authentication) before it validates the body.
\<close>

section \<open>Logging\<close>

datatype log_level = INFO | WARNING | ERROR

primrec level_rank :: "log_level \<Rightarrow> nat" where
  "level_rank INFO = 20"
| "level_rank WARNING = 30"
| "level_rank ERROR = 40"

instantiation log_level :: linorder
begin

definition less_eq_log_level :: "log_level \<Rightarrow> log_level \<Rightarrow> bool" where
  "less_eq_log_level a b \<longleftrightarrow> level_rank a \<le> level_rank b"

definition less_log_level :: "log_level \<Rightarrow> log_level \<Rightarrow> bool" where
  "less_log_level a b \<longleftrightarrow> level_rank a < level_rank b"

instance
proof
  fix a b c :: log_level
  show "a < b \<longleftrightarrow> a \<le> b \<and> \<not> b \<le> a"
    by (auto simp: less_eq_log_level_def less_log_level_def)
  show "a \<le> a" by (simp add: less_eq_log_level_def)
  show "a \<le> b \<Longrightarrow> b \<le> c \<Longrightarrow> a \<le> c" by (simp add: less_eq_log_level_def)
  show "a \<le> b \<Longrightarrow> b \<le> a \<Longrightarrow> a = b"
    by (cases a; cases b) (simp_all add: less_eq_log_level_def)
  show "a \<le> b \<or> b \<le> a" by (auto simp: less_eq_log_level_def)
qed

end

definition request_log_level :: "nat \<Rightarrow> log_level" where
  "request_log_level code = (if code \<ge> 500 then ERROR else if code \<ge> 400 then WARNING else INFO)"

record log_input =
  li_message :: string
  li_method :: string
  li_path :: string
  li_query :: string
  li_status_code :: nat
  li_duration_ms :: string
  li_direct_peer_ip :: string
  li_direct_peer_port :: "nat option"
  li_effective_client_ip :: string
  li_node_id :: "string option"
  li_detail :: "string option"

definition or_dash :: "string option \<Rightarrow> string" where
  "or_dash v = (case v of None \<Rightarrow> ''-'' | Some w \<Rightarrow> if w = [] then ''-'' else w)"

text \<open>The line that \<open>_log_request_event\<close> hands to the logger, with its level.\<close>

definition log_request_event :: "log_input \<Rightarrow> log_level \<times> string" where
  "log_request_event li =
     (request_log_level (li_status_code li),
      join '' ''
        ([li_message li,
          ''method='' @ li_method li,
          ''path='' @ li_path li,
          ''query='' @ or_dash (Some (li_query li)),
          ''status='' @ str_of_nat (li_status_code li),
          ''duration_ms='' @ li_duration_ms li,
          ''direct_peer_ip='' @ li_direct_peer_ip li,
          ''direct_peer_port='' @ (case li_direct_peer_port li of None \<Rightarrow> ''-'' | Some p \<Rightarrow> str_of_nat p),
          ''effective_client_ip='' @ li_effective_client_ip li,
          ''node_id='' @ or_dash (li_node_id li)]
         @ (case li_detail li of None \<Rightarrow> [] | Some d \<Rightarrow> if d = [] then [] else [''detail='' @ d])))"

section \<open>Routing\<close>

datatype call =
    Register "string option"
  | RotateKey
  | DeleteIdentity
  | ListEndpoints
  | CreateEndpoint endpoint_create_request
  | DeleteEndpoint string
  | RequestCode link_code_request
  | Redeem link_redeem_request
  | ListLinks
  | RevokeLink string
  | Send packet_send_request
  | Inbox int
  | Ack packet_ack_request
  | Health
  | Stats

datatype answer =
    Registered register_response
  | Rotated rotate_key_response
  | IdentityDeleted delete_identity_response
  | Endpoints "endpoint list"
  | EndpointCreated endpoint
  | EndpointDeleted string
  | CodeIssued link_code
  | Linked link
  | Links "link list"
  | LinkRevoked string
  | Sent packet_send_response
  | Deliveries "delivery_out list"
  | Acked packet_ack_response
  | Healthy health_response
  | Statistics stats_response

definition success_status :: "call \<Rightarrow> nat" where
  "success_status c = (case c of CreateEndpoint _ \<Rightarrow> 201 | RequestCode _ \<Rightarrow> 201 | Redeem _ \<Rightarrow> 201
     | Send _ \<Rightarrow> 201 | _ \<Rightarrow> 200)"

type_synonym 'a reply = "db \<times> string option \<times> (http_error + 'a)"

definition answer_with :: "('a \<Rightarrow> answer) \<Rightarrow> 'a outcome \<Rightarrow> answer reply" where
  "answer_with f r = (fst r, None, map_sum id f (snd r))"

definition invalid :: "db \<Rightarrow> http_error \<Rightarrow> answer reply" where
  "invalid s e = (s, None, Inl e)"

text \<open>The body validators of \<open>app/schemas.py\<close>, then the handler, for an authenticated node.\<close>

definition handle_redeem :: "draws \<Rightarrow> link_redeem_request \<Rightarrow> node \<Rightarrow> db \<Rightarrow> answer reply" where
  "handle_redeem dr payload node s =
     (case normalize_code (lr_code payload) of
        None \<Rightarrow> invalid s (HTTPException 422 ''code must be alphanumeric'')
      | Some c \<Rightarrow> answer_with Linked (redeem_link_code dr (payload\<lparr>lr_code := c\<rparr>) node s))"

definition handle_send ::
  "admin_env \<Rightarrow> file_sizes \<Rightarrow> draws \<Rightarrow> packet_send_request \<Rightarrow> node \<Rightarrow> db \<Rightarrow> answer reply" where
  "handle_send env stat dr payload node s =
     (case validate_payload payload of
        Inl e \<Rightarrow> invalid s e
      | Inr p \<Rightarrow> (case send_packet env stat dr p node s of (t, notified, r) \<Rightarrow> (t, notified, map_sum id Sent r)))"

definition handle_ack :: "draws \<Rightarrow> packet_ack_request \<Rightarrow> node \<Rightarrow> db \<Rightarrow> answer reply" where
  "handle_ack dr payload node s =
     (case validate_reference payload of
        Inl e \<Rightarrow> invalid s e
      | Inr p \<Rightarrow>
          if ak_status p \<notin> set ack_statuses then invalid s (HTTPException 422 ''status'')
          else answer_with Acked (ack_packet dr p node s))"

definition handle_code :: "app_config \<Rightarrow> draws \<Rightarrow> link_code_request \<Rightarrow> node \<Rightarrow> db \<Rightarrow> answer reply" where
  "handle_code cfg dr payload node s =
     (if lc_requested_mode payload \<notin> set link_modes then invalid s (HTTPException 422 ''requested_mode'')
      else answer_with CodeIssued (request_link_code cfg dr payload node s))"

text \<open>One pass of \<open>poll_inbox\<close>, the answer of a poll that does not wait.\<close>

definition handle_inbox ::
  "app_config \<Rightarrow> access_snapshot option \<Rightarrow> draws \<Rightarrow> int \<Rightarrow> node \<Rightarrow> db \<Rightarrow> answer reply" where
  "handle_inbox cfg snapshot dr limit node s =
     (if limit < 1 then invalid s (HTTPException 422 ''limit'')
      else answer_with Deliveries (check s (ensure_node_active (n_status node)) (\<lambda>_.
        (s, Inr (fetch_inbox_deliveries (dr_now dr 1) (n_node_id node)
           (snd (inbox_limits cfg (dr_now dr 0) snapshot 0 limit)) s)))))"

definition handle :: "kdf \<Rightarrow> admin_env \<Rightarrow> file_sizes \<Rightarrow> access_snapshot option \<Rightarrow> draws \<Rightarrow> call
    \<Rightarrow> node \<Rightarrow> db \<Rightarrow> answer reply" where
  "handle pbkdf2 env stat snapshot dr c node s =
     (case c of
        RotateKey \<Rightarrow> answer_with Rotated (self_rotate_key pbkdf2 dr node s)
      | DeleteIdentity \<Rightarrow> answer_with IdentityDeleted (delete_identity node s)
      | ListEndpoints \<Rightarrow> answer_with Endpoints (list_endpoints node s)
      | CreateEndpoint p \<Rightarrow> answer_with EndpointCreated (create_endpoint dr p node s)
      | DeleteEndpoint i \<Rightarrow> answer_with EndpointDeleted (delete_endpoint dr i node s)
      | RequestCode p \<Rightarrow> handle_code (ae_cfg env) dr p node s
      | Redeem p \<Rightarrow> handle_redeem dr p node s
      | ListLinks \<Rightarrow> answer_with Links (list_links node s)
      | RevokeLink i \<Rightarrow> answer_with LinkRevoked (revoke_link i node s)
      | Send p \<Rightarrow> handle_send env stat dr p node s
      | Inbox limit \<Rightarrow> handle_inbox (ae_cfg env) snapshot dr limit node s
      | Ack p \<Rightarrow> handle_ack dr p node s
      | _ \<Rightarrow> invalid s (HTTPException 404 ''Not Found''))"

definition dispatch :: "kdf \<Rightarrow> admin_env \<Rightarrow> file_sizes \<Rightarrow> access_snapshot option \<Rightarrow> draws \<Rightarrow> request
    \<Rightarrow> call \<Rightarrow> db \<Rightarrow> answer reply" where
  "dispatch pbkdf2 env stat snapshot dr rq c s =
     (case c of
        Register name \<Rightarrow> answer_with Registered (register pbkdf2 dr name s)
      | Health \<Rightarrow> answer_with Healthy (health pbkdf2 (ae_cfg env) dr rq s)
      | Stats \<Rightarrow> answer_with Statistics (stats pbkdf2 (ae_cfg env) dr rq s)
      | _ \<Rightarrow>
          (case require_node pbkdf2 (ae_cfg env) s (header rq ''X-ARQS-API-Key'') (header rq ''Authorization'') of
             Inl e \<Rightarrow> invalid s e
           | Inr node \<Rightarrow> handle pbkdf2 env stat snapshot dr c node s))"

section \<open>The middleware\<close>

text \<open>
  Where a request comes in and what the logger is told of it. \<open>wr_exception\<close> is the class name
  that an exception which escapes the application would have.
\<close>

record wire_request =
  wr_request :: request
  wr_peer_port :: "nat option"
  wr_method :: string
  wr_path :: string
  wr_query :: string
  wr_duration :: string
  wr_exception :: string

record wire_response =
  wp_status :: nat
  wp_cache_control :: "string option"
  wp_result :: "http_error + answer"

definition wire_log :: "app_config \<Rightarrow> wire_request \<Rightarrow> string \<Rightarrow> nat \<Rightarrow> string option \<Rightarrow> string option
    \<Rightarrow> log_level \<times> string" where
  "wire_log cfg w message code node_id detail =
     log_request_event \<lparr>li_message = message, li_method = wr_method w, li_path = wr_path w,
       li_query = wr_query w, li_status_code = code, li_duration_ms = wr_duration w,
       li_direct_peer_ip = (case rq_client_host (wr_request w) of None \<Rightarrow> ''unknown'' | Some h \<Rightarrow> h),
       li_direct_peer_port = wr_peer_port w, li_effective_client_ip = get_client_ip cfg (wr_request w),
       li_node_id = node_id, li_detail = detail\<rparr>"

definition reply_status :: "call \<Rightarrow> http_error + answer \<Rightarrow> nat" where
  "reply_status c r = (case r of Inl e \<Rightarrow> status_code e | Inr _ \<Rightarrow> success_status c)"

text \<open>What the authentication of the route leaves in \<open>request.state.node_id\<close>.\<close>

definition state_node_id :: "kdf \<Rightarrow> app_config \<Rightarrow> db \<Rightarrow> request \<Rightarrow> call \<Rightarrow> string option" where
  "state_node_id pbkdf2 cfg s rq c =
     (let key_header = (if c \<in> {Health, Stats} then sv_api_key_header (cf_server cfg) else ''X-ARQS-API-Key'');
          asked = (case c of Register _ \<Rightarrow> False
             | Health \<Rightarrow> ob_health_mode (cf_observability cfg) = ''node_api_key''
             | Stats \<Rightarrow> ob_stats_mode (cf_observability cfg) = ''node_api_key''
             | _ \<Rightarrow> True)
      in if \<not> asked then None
         else case require_node pbkdf2 cfg s (header rq key_header) (header rq ''Authorization'') of
             Inl _ \<Rightarrow> None | Inr n \<Rightarrow> Some (n_node_id n))"

text \<open>
  \<open>enforce_ip_policy_and_no_store\<close>: the store, the notified node, the response and the log line.
  An exception that escapes is logged and raised again; the server in front answers 500.
\<close>

definition middleware :: "kdf \<Rightarrow> admin_env \<Rightarrow> file_sizes \<Rightarrow> access_snapshot option \<Rightarrow> draws \<Rightarrow> wire_request
    \<Rightarrow> call \<Rightarrow> db \<Rightarrow> db \<times> string option \<times> wire_response \<times> (log_level \<times> string)" where
  "middleware pbkdf2 env stat snapshot dr w c s =
     (let cfg = ae_cfg env;
          client_ip = get_client_ip cfg (wr_request w);
          node_id = state_node_id pbkdf2 cfg s (wr_request w) c
      in if \<not> is_ip_allowed_cached cfg snapshot client_ip then
           (s, None,
            \<lparr>wp_status = 403, wp_cache_control = Some ''no-store'',
             wp_result = Inl (HTTPException 403 ''client IP denied'')\<rparr>,
            wire_log cfg w ''request_denied'' 403 None (Some ''client IP denied''))
         else
           (case dispatch pbkdf2 env stat snapshot dr (wr_request w) c s of (t, notified, r) \<Rightarrow>
              if r = Inl (HTTPException 500 ''Internal Server Error'') then
                (t, notified, \<lparr>wp_status = 500, wp_cache_control = None, wp_result = r\<rparr>,
                 wire_log cfg w ''request_exception'' 500 node_id (Some (wr_exception w)))
              else
                (t, notified,
                 \<lparr>wp_status = reply_status c r, wp_cache_control = Some ''no-store'', wp_result = r\<rparr>,
                 wire_log cfg w ''request_complete'' (reply_status c r) node_id None)))"

section \<open>Maintenance\<close>

text \<open>
  \<open>_maintenance_loop\<close>, one turn per expired wait of the stop event: the clean-up commits, an
  exception is logged and the loop goes on. With an interval of zero or less the loop does not run.
\<close>

definition maintenance_turn :: "admin_env \<Rightarrow> time \<Rightarrow> db \<Rightarrow> db" where
  "maintenance_turn env now s = fst (session_scope (cleanup_expired env now) s)"

definition maintenance_loop :: "admin_env \<Rightarrow> time list \<Rightarrow> db \<Rightarrow> db" where
  "maintenance_loop env wakeups s =
     (if mt_cleanup_interval_seconds (cf_maintenance (ae_cfg env)) \<le> 0 then s
      else fold (maintenance_turn env) wakeups s)"

text \<open>\<open>on_startup\<close>: the admin tables, then the cache of the process, then the maintenance thread.\<close>

definition on_startup :: "admin_env \<Rightarrow> time \<Rightarrow> nat \<Rightarrow> nat option \<Rightarrow> db \<Rightarrow> cache_system \<times> bool" where
  "on_startup env now token marker s =
     (initial_cache (ae_cfg env) now token marker (ensure_admin_tables env now False s),
      mt_cleanup_interval_seconds (cf_maintenance (ae_cfg env)) > 0)"

section \<open>What every request keeps\<close>

lemma answer_with_fst [simp]: "fst (answer_with f r) = fst r"
  by (simp add: answer_with_def)

lemma invalid_fst [simp]: "fst (invalid s e) = s"
  by (simp add: invalid_def)

lemma handle_send_fst:
  "fst (handle_send env stat dr payload node s) =
     (case validate_payload payload of Inl _ \<Rightarrow> s | Inr p \<Rightarrow> fst (send_packet env stat dr p node s))"
  by (simp add: handle_send_def split: sum.splits prod.splits)

lemma handle_ok:
  assumes "db_ok s"
  shows "db_ok (fst (handle pbkdf2 env stat snapshot dr c node s))"
  using assms
  by (cases c) (auto simp: handle_def handle_send_fst handle_redeem_def handle_ack_def handle_code_def
    handle_inbox_def list_endpoints_def list_links_def Let_def split: option.splits sum.splits intro!: db_intro)

lemma dispatch_ok [db_intro]:
  assumes "db_ok s"
  shows "db_ok (fst (dispatch pbkdf2 env stat snapshot dr rq c s))"
proof -
  have "fst (health pbkdf2 (ae_cfg env) dr rq s) = s" "fst (stats pbkdf2 (ae_cfg env) dr rq s) = s"
    by (auto simp: health_def stats_def check_def Let_def split: sum.splits)
  then show ?thesis
    using assms handle_ok [OF assms] by (auto simp: dispatch_def split: call.splits sum.splits intro: db_intro)
qed

lemma middleware_fst:
  "fst (middleware pbkdf2 env stat snapshot dr w c s) =
     (if is_ip_allowed_cached (ae_cfg env) snapshot (get_client_ip (ae_cfg env) (wr_request w))
      then fst (dispatch pbkdf2 env stat snapshot dr (wr_request w) c s) else s)"
  by (simp add: middleware_def Let_def split: prod.splits)

text \<open>The routes: a request drops or revokes some, or redeems a code.\<close>

lemma same_routes:
  "directed_routes (fst (register pbkdf2 dr name s)) = directed_routes s"
  "directed_routes (fst (self_rotate_key pbkdf2 dr node s)) = directed_routes s"
  "directed_routes (fst (create_endpoint dr ec node s)) = directed_routes s"
  "directed_routes (fst (request_link_code cfg dr lc node s)) = directed_routes s"
  "directed_routes (fst (ack_packet dr ak node s)) = directed_routes s"
  "directed_routes (fst (redeem_check dr lr node s)) = directed_routes s"
  by (auto simp: register_def self_rotate_key_def create_endpoint_def request_link_code_def ack_packet_def
      redeem_check_def set_code_status_def generate_api_key_def check_def flush_def reject_def Let_def
      insert_node_def insert_endpoint_def insert_link_code_def split: sum.splits option.splits)

lemma send_check_frame:
  assumes "send_check env stat dr rq node s = Inr (plan, sess)"
  shows "directed_routes sess = directed_routes s \<and> link_codes sess = link_codes s"
proof -
  from assms obtain st s1 where 1: "settings_or_500 env (dr_now dr 0) s = Inr (st, s1)"
    by (auto simp: send_check_def and_then_Inr Let_def)
  obtain x s2 where 2: "existing_packet (dr_now dr 1) (ps_packet_id rq) s1 = (x, s2)" by fastforce
  from assms 1 2 have 3: "sess = s2 \<or> (\<exists>v s3 b n.
      enforce_send_rate_limit env (dr_now dr 2) (dr_uuid dr 0) (n_node_id node) s2 = Inr (v, s3)
      \<and> enforce_queue_limits env stat (dr_now dr 3) (ps_to_endpoint_id rq) n b s3 = Inr sess)"
    by (cases x) (auto simp: send_check_def and_then_Inr Let_def split: if_splits)
  have "directed_routes s1 = directed_routes s" "link_codes s1 = link_codes s"
    using settings_or_500_Inr [OF 1] by (simp_all add: same_requests_def)
  moreover have "directed_routes s2 = directed_routes s1" "link_codes s2 = link_codes s1"
    by (rule existing_packet_frame [OF 2])+
  moreover have "directed_routes sess = directed_routes s2 \<and> link_codes sess = link_codes s2"
    using 3 by (auto simp: same_requests_def dest!: enforce_send_rate_limit_Inr enforce_queue_limits_Inr)
  ultimately show ?thesis by simp
qed

lemma send_packet_frame:
  "directed_routes (fst (send_packet env stat dr rq node s)) = directed_routes s
   \<and> link_codes (fst (send_packet env stat dr rq node s)) = link_codes s"
proof (cases "send_check env stat dr rq node s")
  case (Inr x)
  obtain plan sess where x: "x = (plan, sess)" by fastforce
  show ?thesis
    using send_check_frame [OF Inr [unfolded x]]
    by (cases plan) (auto simp: send_packet_def Inr x send_commit_def store_packet_Some split: option.splits)
qed (simp add: send_packet_def)

lemma unique_same: "routes_unique s \<Longrightarrow> directed_routes t = directed_routes s \<Longrightarrow> routes_unique t"
  by (simp add: routes_unique_def active_pairs_def)

lemma redeem_link_code_unique:
  assumes "routes_unique s"
  shows "routes_unique (fst (redeem_link_code dr payload node s))"
proof -
  obtain s' r where c: "redeem_check dr payload node s = (s', r)" by fastforce
  show ?thesis
  proof (cases r)
    case (Inl e)
    have "directed_routes s' = directed_routes s"
      using same_routes(6) [of dr payload node s] c by simp
    with assms Inl c show ?thesis by (simp add: redeem_link_code_def unique_same)
  next
    case (Inr code)
    note rc = redeem_check_Inr [OF c [unfolded Inr]]
    have "routes_unique (fst (redeem_claim dr (lr_destination_endpoint_id payload) code s))"
      using redeem_claim_unique [OF assms _ rc(6)] by (metis prod.collapse)
    with Inr c rc(1) show ?thesis by (simp add: redeem_link_code_def)
  qed
qed

lemma delete_identity_fst: "fst (delete_identity node s) = delete_nodes (\<lambda>n. n_node_id n = n_node_id node) s"
  by (simp add: delete_identity_def Let_def split: prod.splits)

lemma delete_endpoint_fewer: "fewer_routes s (fst (delete_endpoint dr i node s))"
  by (auto simp: delete_endpoint_def check_def Let_def fewer_routes_delete_endpoints fewer_routes_same
      split: sum.splits)

lemma revoke_link_fewer: "fewer_routes s (fst (revoke_link i node s))"
  by (auto simp: revoke_link_def Let_def fewer_routes_same fewer_routes_revoke split: option.splits)

lemma handle_unique:
  assumes "routes_unique s"
  shows "routes_unique (fst (handle pbkdf2 env stat snapshot dr c node s))"
proof (cases c)
  case DeleteIdentity
  show ?thesis
    using fewer_routes_unique [OF fewer_routes_delete_nodes assms]
    by (simp add: DeleteIdentity handle_def delete_identity_fst)
next
  case (DeleteEndpoint i)
  show ?thesis using fewer_routes_unique [OF delete_endpoint_fewer assms] by (simp add: DeleteEndpoint handle_def)
next
  case (RevokeLink i)
  show ?thesis using fewer_routes_unique [OF revoke_link_fewer assms] by (simp add: RevokeLink handle_def)
next
  case (Redeem p)
  show ?thesis using redeem_link_code_unique [OF assms] assms
    by (simp add: Redeem handle_def handle_redeem_def split: option.splits)
qed (use assms in \<open>auto simp: handle_def handle_send_fst handle_ack_def handle_code_def
    handle_inbox_def list_endpoints_def list_links_def Let_def check_def same_routes send_packet_frame
    split: option.splits sum.splits intro: unique_same\<close>)

lemma dispatch_unique:
  assumes "routes_unique s"
  shows "routes_unique (fst (dispatch pbkdf2 env stat snapshot dr rq c s))"
proof -
  have "fst (health pbkdf2 (ae_cfg env) dr rq s) = s" "fst (stats pbkdf2 (ae_cfg env) dr rq s) = s"
    by (auto simp: health_def stats_def check_def Let_def split: sum.splits)
  moreover have "routes_unique (fst (register pbkdf2 dr name s))" for name
    using assms same_routes(1) by (rule unique_same)
  ultimately show ?thesis
    using assms handle_unique [OF assms] by (auto simp: dispatch_def split: call.splits sum.splits)
qed

section \<open>What a request can make visible\<close>

text \<open>
  The rows of the queue that a step adds: none, or those of the delivery whose node it notifies.
\<close>

definition arrives :: "db \<Rightarrow> db \<Rightarrow> string option \<Rightarrow> bool" where
  "arrives s t notified \<longleftrightarrow>
     (\<forall>(d, p)\<in>set (joined t). (d, p) \<in> set (joined s) \<or> notified = Some (d_destination_node_id d))"

lemma arrives_subset:
  "set (deliveries t) \<subseteq> set (deliveries s) \<Longrightarrow> set (packets t) \<subseteq> set (packets s) \<Longrightarrow> arrives s t n"
  by (auto simp: arrives_def set_joined)

lemma arrives_same: "deliveries t = deliveries s \<Longrightarrow> packets t = packets s \<Longrightarrow> arrives s t n"
  by (simp add: arrives_subset)

lemma arrives_refl [simp]: "arrives s s n"
  by (simp add: arrives_same)

lemma same_queue:
  "deliveries (fst (register pbkdf2 dr name s)) = deliveries s" "packets (fst (register pbkdf2 dr name s)) = packets s"
  "deliveries (fst (self_rotate_key pbkdf2 dr node s)) = deliveries s" "packets (fst (self_rotate_key pbkdf2 dr node s)) = packets s"
  "deliveries (fst (create_endpoint dr ec node s)) = deliveries s" "packets (fst (create_endpoint dr ec node s)) = packets s"
  "deliveries (fst (request_link_code cfg dr lc node s)) = deliveries s" "packets (fst (request_link_code cfg dr lc node s)) = packets s"
  "deliveries (fst (redeem_check dr lr node s)) = deliveries s" "packets (fst (redeem_check dr lr node s)) = packets s"
  "deliveries (fst (revoke_link i node s)) = deliveries s" "packets (fst (revoke_link i node s)) = packets s"
  by (auto simp: register_def self_rotate_key_def create_endpoint_def request_link_code_def revoke_link_def
      revoke_link_rows_def redeem_check_def set_code_status_def generate_api_key_def check_def flush_def
      reject_def Let_def insert_node_def insert_endpoint_def insert_link_code_def
      split: sum.splits option.splits)

lemma redeem_claim_queue:
  "deliveries (fst (redeem_claim dr dest code s)) = deliveries s"
  "packets (fst (redeem_claim dr dest code s)) = packets s"
proof -
  have "deliveries (fst (redeem_claim dr dest code s)) = deliveries s
      \<and> packets (fst (redeem_claim dr dest code s)) = packets s"
  proof (cases "snd (redeem_claim dr dest code s)")
    case (Inr l)
    then have "redeem_claim dr dest code s = (fst (redeem_claim dr dest code s), Inr l)"
      by (metis prod.collapse)
    then show ?thesis by (rule redeem_claim_Inr) (simp add: claim_code_def)
  next
    case (Inl e)
    then have "fst (redeem_claim dr dest code s) = s"
      by (auto simp: redeem_claim_def Let_def check_def flush_def reject_def
          split: if_splits sum.splits option.splits)
    then show ?thesis by simp
  qed
  then show "deliveries (fst (redeem_claim dr dest code s)) = deliveries s"
    "packets (fst (redeem_claim dr dest code s)) = packets s" by simp_all
qed

lemma redeem_link_code_queue:
  "deliveries (fst (redeem_link_code dr payload node s)) = deliveries s"
  "packets (fst (redeem_link_code dr payload node s)) = packets s"
  using same_queue(9,10) [of dr payload node s] redeem_claim_queue
  by (auto simp: redeem_link_code_def split: prod.splits sum.splits)

text \<open>The tables of the queue only lose rows when endpoints, nodes or packets are deleted.\<close>

lemma delete_queue_subset:
  "set (deliveries (delete_endpoints P s)) \<subseteq> set (deliveries s)" "set (packets (delete_endpoints P s)) \<subseteq> set (packets s)"
  "set (deliveries (delete_nodes Q s)) \<subseteq> set (deliveries s)" "set (packets (delete_nodes Q s)) \<subseteq> set (packets s)"
proof -
  have e: "set (deliveries (delete_endpoints R u)) \<subseteq> set (deliveries u)"
    "set (packets (delete_endpoints R u)) \<subseteq> set (packets u)" for R u
    by (auto simp: delete_endpoints_def detach_endpoints_def)
  show "set (deliveries (delete_endpoints P s)) \<subseteq> set (deliveries s)"
    "set (packets (delete_endpoints P s)) \<subseteq> set (packets s)" by (rule e)+
  show "set (deliveries (delete_nodes Q s)) \<subseteq> set (deliveries s)"
    using e(1) by (auto simp: delete_nodes_def detach_nodes_def)
  show "set (packets (delete_nodes Q s)) \<subseteq> set (packets s)"
    using e(2) by (auto simp: delete_nodes_def detach_nodes_def)
qed

lemma ack_packet_subset:
  "set (deliveries (fst (ack_packet dr rq node s))) \<subseteq> set (deliveries s)
   \<and> set (packets (fst (ack_packet dr rq node s))) \<subseteq> set (packets s)"
  by (auto simp: ack_packet_def check_def reject_def split: sum.splits option.splits)

lemma send_check_subset:
  assumes "send_check env stat dr rq node s = Inr (plan, sess)"
  shows "set (deliveries sess) \<subseteq> set (deliveries s) \<and> set (packets sess) \<subseteq> set (packets s)"
proof -
  from assms obtain st s1 where 1: "settings_or_500 env (dr_now dr 0) s = Inr (st, s1)"
    by (auto simp: send_check_def and_then_Inr Let_def)
  obtain x s2 where 2: "existing_packet (dr_now dr 1) (ps_packet_id rq) s1 = (x, s2)" by fastforce
  from assms 1 2 have 3: "sess = s2 \<or> (\<exists>v s3 b n.
      enforce_send_rate_limit env (dr_now dr 2) (dr_uuid dr 0) (n_node_id node) s2 = Inr (v, s3)
      \<and> enforce_queue_limits env stat (dr_now dr 3) (ps_to_endpoint_id rq) n b s3 = Inr sess)"
    by (cases x) (auto simp: send_check_def and_then_Inr Let_def split: if_splits)
  have "deliveries s1 = deliveries s" "packets s1 = packets s"
    using settings_or_500_Inr [OF 1] by (simp_all add: same_requests_def)
  moreover have "set (deliveries s2) \<subseteq> set (deliveries s1)" "set (packets s2) \<subseteq> set (packets s1)"
    using 2 by (auto simp: existing_packet_def split: option.splits if_splits)
  moreover have "deliveries sess = deliveries s2" "packets sess = packets s2"
    using 3 by (auto simp: same_requests_def dest!: enforce_send_rate_limit_Inr enforce_queue_limits_Inr)
  ultimately show ?thesis by simp
qed

lemma send_commit_arrives:
  assumes "send_commit views node rq v p d s sess = (t, notified, r)"
    and "set (deliveries sess) \<subseteq> set (deliveries s)" "set (packets sess) \<subseteq> set (packets s)"
    and "d_packet_id d = p_packet_id p" "db_ok sess"
  shows "arrives s t notified"
proof (cases "store_packet v p d sess")
  case None
  with assms(1) show ?thesis by (simp add: send_commit_def)
next
  case (Some u)
  then have "t = u" "notified = Some (d_destination_node_id d)" using assms(1) by (auto simp: send_commit_def)
  moreover have "joined u = joined sess @ [(d, p)]"
    by (rule joined_store_packet [OF assms(5) Some assms(4)])
  moreover have "set (joined sess) \<subseteq> set (joined s)" using assms(2,3) by (auto simp: set_joined)
  ultimately show ?thesis by (auto simp: arrives_def)
qed

lemma send_check_ids:
  "send_check env stat dr rq node s = Inr (Store v p d, sess) \<Longrightarrow> d_packet_id d = p_packet_id p"
  by (auto simp: send_check_def and_then_Inr Let_def new_packet_def new_delivery_def
      split: if_splits option.splits prod.splits)

lemma send_packet_arrives:
  assumes "db_ok s" "send_packet env stat dr rq node s = (t, notified, r)"
  shows "arrives s t notified"
proof (cases "send_check env stat dr rq node s")
  case (Inr x)
  obtain plan sess where x: "x = (plan, sess)" by fastforce
  note c = Inr [unfolded x]
  show ?thesis
  proof (cases plan)
    case (Store v p d)
    then show ?thesis
      using assms(2) send_check_subset [OF c] send_check_ids [OF c [unfolded Store]] send_check_ok [OF assms(1) c]
      by (auto simp: send_packet_def c intro: send_commit_arrives)
  qed (use assms c in \<open>simp add: send_packet_def\<close>)
qed (use assms in \<open>simp add: send_packet_def\<close>)

lemma dispatch_arrives:
  assumes "db_ok s" "dispatch pbkdf2 env stat snapshot dr rq c s = (t, notified, r)"
  shows "arrives s t notified"
proof -
  have reads: "fst (health pbkdf2 (ae_cfg env) dr rq s) = s" "fst (stats pbkdf2 (ae_cfg env) dr rq s) = s"
    by (auto simp: health_def stats_def check_def Let_def split: sum.splits)
  have h: "arrives s (fst (handle pbkdf2 env stat snapshot dr c node s)) (fst (snd (handle pbkdf2 env stat snapshot dr c node s)))"
    for node
  proof (cases c)
    case (Send p)
    then show ?thesis
      using send_packet_arrives [OF assms(1)]
      by (auto simp: handle_def handle_send_def invalid_def split: sum.splits prod.splits)
  next
    case DeleteIdentity
    then show ?thesis by (simp add: handle_def delete_identity_fst arrives_subset delete_queue_subset)
  next
    case (DeleteEndpoint i)
    have "set (deliveries (fst (delete_endpoint dr i node s))) \<subseteq> set (deliveries s)
        \<and> set (packets (fst (delete_endpoint dr i node s))) \<subseteq> set (packets s)"
      using delete_queue_subset(1,2) by (auto simp: delete_endpoint_def check_def Let_def reject_def split: sum.splits)
    with DeleteEndpoint show ?thesis by (simp add: handle_def arrives_subset)
  next
    case (Ack p)
    have "arrives s (fst (ack_packet dr x node s)) None" for x
      using ack_packet_subset by (intro arrives_subset) blast+
    with Ack show ?thesis by (simp add: handle_def handle_ack_def answer_with_def invalid_def split: sum.splits)
  qed (auto simp: handle_def handle_redeem_def handle_code_def handle_inbox_def list_endpoints_def
      list_links_def Let_def check_def same_queue redeem_link_code_queue intro!: arrives_same
      split: option.splits sum.splits)
  have "arrives s (fst (dispatch pbkdf2 env stat snapshot dr rq c s))
      (fst (snd (dispatch pbkdf2 env stat snapshot dr rq c s)))"
    using h reads by (auto simp: dispatch_def arrives_same [OF same_queue(1,2)] split: call.splits sum.splits)
  with assms(2) show ?thesis by simp
qed

end
