(* ===== verification/Mailbox.thy ===== *)
theory Mailbox
  imports Api
begin

text \<open>
  What the server is to its clients: a mailbox, a list of letters in the order of their posting. Its five
  events change the list by a \<open>filter\<close> or an append, and picking up is a look at it. Every request of an
  authenticated node is one of these events on the letters that the store holds.
\<close>

section \<open>The mailbox\<close>

record letter =
  lt_sender :: string
  lt_owner :: string
  lt_out :: delivery_out

datatype mail_event =
    Post letter
  | Sign string
  | Close string
  | Leave string "string set"
  | Quiet

text \<open>
  \<open>Post\<close> puts a letter at the end, \<open>Sign\<close> takes out the letter of a packet, \<open>Close\<close> the letters from and to an
  endpoint, \<open>Leave\<close> those of a node and of its endpoints.
\<close>

fun mail_step :: "mail_event \<Rightarrow> letter list \<Rightarrow> letter list" where
  "mail_step (Post l) box = box @ [l]"
| "mail_step (Sign i) box = filter (\<lambda>l. dp_packet_id (do_packet (lt_out l)) \<noteq> i) box"
| "mail_step (Close e) box =
     filter (\<lambda>l. dp_from_endpoint_id (do_packet (lt_out l)) \<noteq> e \<and> dp_to_endpoint_id (do_packet (lt_out l)) \<noteq> e) box"
| "mail_step (Leave n es) box =
     filter (\<lambda>l. lt_sender l \<noteq> n \<and> lt_owner l \<noteq> n \<and> dp_from_endpoint_id (do_packet (lt_out l)) \<notin> es
       \<and> dp_to_endpoint_id (do_packet (lt_out l)) \<notin> es \<and> do_destination_endpoint_id (lt_out l) \<notin> es) box"
| "mail_step Quiet box = box"

text \<open>A letter past its expiry is not seen any more.\<close>

definition alive :: "time \<Rightarrow> letter \<Rightarrow> bool" where
  "alive now l = (case dp_expires_at (do_packet (lt_out l)) of None \<Rightarrow> True | Some t \<Rightarrow> now < t)"

text \<open>What a node sees of the mailbox: its letters, oldest first, up to a limit.\<close>

definition pick_up :: "string \<Rightarrow> int \<Rightarrow> letter list \<Rightarrow> delivery_out list" where
  "pick_up n limit box = sql_limit limit (sort_key do_queued_at (map lt_out (filter (\<lambda>l. lt_owner l = n) box)))"

section \<open>The letters in the store, and the event of a request\<close>

definition letter_of :: "delivery \<times> packet \<Rightarrow> letter" where
  "letter_of dp = \<lparr>lt_sender = p_sender_node_id (snd dp), lt_owner = d_destination_node_id (fst dp), lt_out = delivery_result dp\<rparr>"

definition letters :: "time \<Rightarrow> db \<Rightarrow> letter list" where
  "letters now s = map letter_of (filter (\<lambda>(d, p). d_state d = ''queued'') (active_joined now s))"

text \<open>The letter that an accepted send posts, from the request, the answer and the time of the insert.\<close>

definition posted :: "time \<Rightarrow> node \<Rightarrow> string \<Rightarrow> packet_send_request \<Rightarrow> packet_send_response \<Rightarrow> letter" where
  "posted now node n q a =
     \<lparr>lt_sender = n_node_id node, lt_owner = n, lt_out =
       \<lparr>do_delivery_id = the (pr_delivery_id a), do_destination_endpoint_id = ps_to_endpoint_id q, do_queued_at = now,
        do_state = ''queued'', do_last_attempt_at = None, do_packet =
          \<lparr>dp_packet_id = pr_packet_id a, dp_version = ps_version q, dp_from_endpoint_id = ps_from_endpoint_id q,
           dp_to_endpoint_id = ps_to_endpoint_id q, dp_headers = ps_headers q, dp_body = ps_body q, dp_data = ps_data q,
           dp_meta = ps_meta q, dp_created_at = now, dp_expires_at = pr_expires_at a\<rparr>\<rparr>\<rparr>"

text \<open>The event of a request: of a node that owns the endpoints \<open>es\<close>, with the notified node and the answer.\<close>

definition event_of ::
  "draws \<Rightarrow> node \<Rightarrow> string set \<Rightarrow> call \<Rightarrow> string option \<Rightarrow> http_error + answer \<Rightarrow> mail_event" where
  "event_of dr node es c notified r =
     (case (c, notified, r) of
        (Send p, Some n, Inr (Sent a)) \<Rightarrow>
          (case validate_payload p of Inr q \<Rightarrow> Post (posted (dr_now dr 4) node n q a) | Inl _ \<Rightarrow> Quiet)
      | (Ack p, _, Inr (Acked a)) \<Rightarrow> Sign (ar_packet_id a)
      | (DeleteEndpoint i, _, Inr (EndpointDeleted _)) \<Rightarrow> Close i
      | (DeleteIdentity, _, Inr (IdentityDeleted _)) \<Rightarrow> Leave (n_node_id node) es
      | _ \<Rightarrow> Quiet)"

section \<open>The queue after a deletion\<close>

lemma joined_detach_endpoints:
  assumes "db_ok s"
  shows "joined (detach_endpoints gone s) = filter (\<lambda>(d, p). d_destination_endpoint_id d \<notin> gone
    \<and> p_from_endpoint_id p \<notin> gone \<and> p_to_endpoint_id p \<notin> gone) (joined s)"
proof -
  let ?a = "delete_link_codes (\<lambda>c. c_source_endpoint_id c \<in> gone)
    (delete_routes (\<lambda>r. r_from_endpoint_id r \<in> gone \<or> r_to_endpoint_id r \<in> gone)
    (delete_links (\<lambda>l. l_endpoint_a_id l \<in> gone \<or> l_endpoint_b_id l \<in> gone) s))"
  have ok: "db_ok ?a" using assms by (intro db_intro)
  have "joined ?a = joined s" by (rule joined_cong) simp_all
  then show ?thesis
    by (auto simp: detach_endpoints_def joined_delete_deliveries joined_delete_packets [OF ok] intro!: filter_cong)
qed

lemma joined_delete_nodes:
  assumes "db_ok s" "n \<in> n_node_id ` set (nodes s)"
  shows "joined (delete_nodes (\<lambda>m. n_node_id m = n) s) = filter (\<lambda>(d, p). d_destination_node_id d \<noteq> n
    \<and> p_sender_node_id p \<noteq> n \<and> d_destination_endpoint_id d \<notin> set (endpoint_ids_of s n)
    \<and> p_from_endpoint_id p \<notin> set (endpoint_ids_of s n) \<and> p_to_endpoint_id p \<notin> set (endpoint_ids_of s n)) (joined s)"
proof -
  let ?mine = "set (endpoint_ids_of s n)"
  have gone: "n_node_id ` set (filter (\<lambda>m. n_node_id m = n) (nodes s)) = {n}" using assms(2) by auto
  have mine: "e_endpoint_id ` set (filter (\<lambda>e. e_node_id e \<in> {n}) (endpoints s)) = ?mine"
    by (auto simp: endpoint_ids_of_def)
  let ?e = "delete_endpoints (\<lambda>e. e_node_id e \<in> {n}) s"
  have e: "joined ?e = filter (\<lambda>(d, p). d_destination_endpoint_id d \<notin> ?mine
      \<and> p_from_endpoint_id p \<notin> ?mine \<and> p_to_endpoint_id p \<notin> ?mine) (joined s)"
    using joined_detach_endpoints [OF assms(1), of ?mine] joined_cong [of ?e "detach_endpoints ?mine s"]
    by (simp only: delete_endpoints_def mine) simp
  have ok: "db_ok ?e" using assms(1) by (rule delete_endpoints_ok)
  have "joined (detach_nodes {n} s) = filter (\<lambda>(d, p). d_destination_node_id d \<notin> {n})
      (filter (\<lambda>(d, p). p_sender_node_id p \<notin> {n}) (joined ?e))"
    unfolding detach_nodes_def joined_delete_deliveries [symmetric] joined_delete_packets [OF ok, symmetric]
    by (rule joined_cong) simp_all
  moreover have "joined (delete_nodes (\<lambda>m. n_node_id m = n) s) = joined (detach_nodes {n} s)"
    unfolding delete_nodes_def gone by (rule joined_cong) simp_all
  ultimately show ?thesis
    unfolding e by (simp only: filter_filter) (rule filter_cong, auto)
qed

section \<open>The letters after a request\<close>

lemma letters_cong: "deliveries t = deliveries s \<Longrightarrow> packets t = packets s \<Longrightarrow> letters now t = letters now s"
  unfolding letters_def by (simp only: active_joined_cong [of t s])

lemma active_joined_filter: "joined t = filter P (joined s) \<Longrightarrow> active_joined now t = filter P (active_joined now s)"
  by (simp add: active_joined_def conj_commute)

lemma letters_filter:
  assumes "active_joined now t = filter P (active_joined now s)"
    and "\<And>d p. (d, p) \<in> set (active_joined now s) \<Longrightarrow> P (d, p) \<longleftrightarrow> Q (letter_of (d, p))"
  shows "letters now t = filter Q (letters now s)"
  unfolding letters_def assms(1) filter_map filter_filter comp_def
  by (rule arg_cong [where f = "map letter_of"], rule filter_cong) (use assms(2) in auto)

lemma alive_letter [simp]: "alive now (letter_of (d, p)) \<longleftrightarrow> packet_active now p"
  by (simp add: alive_def letter_of_def delivery_result_def packet_active_def split: option.split)

lemma letters_alive [simp]: "filter (alive now) (letters now s) = letters now s"
  by (auto simp: letters_def active_joined_def intro!: filter_True)

lemma alive_filter [simp]: "filter (\<lambda>l. P l \<and> alive now l) (letters now s) = filter P (letters now s)"
  using letters_alive [of now s] by (metis (no_types, lifting) filter_cong filter_filter)

lemma alive_filters: "filter (alive now) (filter P (letters now s)) = filter P (letters now s)"
  by simp

lemma pick_up_letters: "fetch_inbox_deliveries now n limit s = pick_up n limit (letters now s)"
proof -
  have rows: "filter (\<lambda>l. lt_owner l = n) (letters now s) =
      map letter_of (filter (\<lambda>(d, p). d_destination_node_id d = n \<and> d_state d = ''queued'') (active_joined now s))"
    by (auto simp: letters_def filter_map letter_of_def comp_def intro!: filter_cong arg_cong [where f = "map letter_of"])
  have queued_at: "(\<lambda>x. do_queued_at (delivery_result x)) = (\<lambda>(d, p). d_queued_at d)"
    by (auto simp: delivery_result_def)
  show ?thesis
    by (simp add: pick_up_def rows fetch_inbox_deliveries_def sort_key_map letter_of_def comp_def queued_at sql_limit_def take_map)
qed

lemma ack_letters:
  assumes "db_ok s" "ack_packet dr rq node s = (t, Inr a)"
  shows "letters now t = filter (\<lambda>l. dp_packet_id (do_packet (lt_out l)) \<noteq> ar_packet_id a) (letters now s)"
proof (rule ack_packet_acked [OF assms(2)])
  fix d p
  assume row: "ack_row (dr_now dr 0) rq s = Some (d, p)" and i: "ar_packet_id a = d_packet_id d"
    and t: "t = delete_packets (\<lambda>q. p_packet_id q = p_packet_id p)
        (delete_deliveries (\<lambda>e. d_delivery_id e = d_delivery_id d) s)"
  note r = ack_row_Some [OF row]
  have j: "joined t = filter (\<lambda>(e, p). d_delivery_id e \<noteq> d_delivery_id d) (joined s)"
    using joined_remove [OF assms(1) r(1)] by (simp add: t r(3))
  have same: "d_delivery_id e = d_delivery_id d \<longleftrightarrow> d_packet_id e = d_packet_id d" if "e \<in> set (deliveries s)" for e
    using that r(1) db_okD(2,3) [OF assms(1)] by (auto simp: distinct_map inj_on_def)
  show ?thesis
    by (rule letters_filter [OF active_joined_filter [OF j]])
      (auto simp: set_active_joined letter_of_def delivery_result_def i same)
qed

lemma delete_endpoint_letters:
  assumes "db_ok s" "delete_endpoint dr i node s = (t, Inr j)" "dr_now dr 0 \<le> now"
  shows "letters now t = mail_step (Close i) (letters now s)"
  unfolding mail_step.simps
  by (rule letters_filter [OF conjunct1 [OF delete_endpoint_queue [OF assms]]])
    (simp add: letter_of_def delivery_result_def)

lemma delete_identity_letters:
  assumes "db_ok s" "n_node_id node \<in> n_node_id ` set (nodes s)"
  shows "letters now (fst (delete_identity node s)) =
    mail_step (Leave (n_node_id node) (set (endpoint_ids_of s (n_node_id node)))) (letters now s)"
  unfolding mail_step.simps delete_identity_fst
  by (rule letters_filter [OF active_joined_filter [OF joined_delete_nodes [OF assms]]])
    (auto simp: letter_of_def delivery_result_def)

lemma send_letters:
  assumes "db_ok s" "serving env s st" "send_packet env stat dr q node s = (t, Some n, r)" "\<forall>k. dr_now dr k \<le> now"
  shows "\<exists>a. r = Inr a \<and> letters now t = letters now s @ filter (alive now) [posted (dr_now dr 4) node n q a]"
proof (rule accepted_effect [OF assms(1-3)])
  fix dn s0
  let ?d = "new_delivery (dr_now dr 4) (dr_uuid dr 1) dn q" and ?p = "new_packet (ae_cfg env) (dr_now dr 4) node q"
  assume n: "n = n_node_id dn" and e: "existing_packet (dr_now dr 1) (ps_packet_id q) s = (None, s0)"
    and j: "joined t = joined s0 @ [(?d, ?p)]"
    and r: "r = Inr \<lparr>pr_result = ''accepted'', pr_packet_id = ps_packet_id q, pr_delivery_id = Some (dr_uuid dr 1),
       pr_expires_at = packet_expiry (dr_now dr 4) (ae_cfg env) (ps_ttl_seconds q)\<rparr>" (is "r = Inr ?a")
  have "active_joined now s0 = active_joined now s"
    by (rule existing_None_joined [OF assms(1) e]) (use assms(4) in blast)
  moreover have "letter_of (?d, ?p) = posted (dr_now dr 4) node n q ?a"
    by (simp add: letter_of_def posted_def delivery_result_def new_delivery_def new_packet_def n)
  moreover have "d_state ?d = ''queued''" by (simp add: new_delivery_def)
  ultimately show ?thesis using r alive_letter [of now ?d ?p]
    by (simp add: letters_def active_joined_def j)
qed

lemma send_packet_unnotified: "send_packet env stat dr q node s = (t, None, r) \<Longrightarrow> t = s"
  by (auto simp: send_packet_def send_commit_def split: sum.splits prod.splits send_plan.splits option.splits)

lemma refused_unchanged:
  "ack_packet dr rq node s = (t, Inl e) \<Longrightarrow> t = s"
  "delete_endpoint dr i node s = (t, Inl e) \<Longrightarrow> t = s"
  by (auto simp: ack_packet_def delete_endpoint_def check_def reject_def Let_def split: sum.splits option.splits if_splits)

lemma event_of_refused [simp]: "event_of dr node es c notified (Inl e) = Quiet"
  by (simp add: event_of_def split: call.split option.split)

section \<open>The refinement\<close>

text \<open>
  C32: The server implements the mailbox: whatever an authenticated node requests, the letters in the store
  afterwards are those of the mailbox after the event of the request, less what has expired, and an answer with
  deliveries is what the node picks up from the mailbox. Requests about keys, endpoints, codes and links that
  do not delete leave it as it is, and so does every request that is refused.
\<close>

theorem mailbox_refinement:
  assumes "db_ok s" "serving env s st" "n_node_id node \<in> n_node_id ` set (nodes s)" "\<forall>k. dr_now dr k \<le> now"
    and "handle pbkdf2 env stat snapshot dr c node s = (t, notified, r)"
  shows "letters now t = filter (alive now)
      (mail_step (event_of dr node (set (endpoint_ids_of s (n_node_id node))) c notified r) (letters now s))
    \<and> (\<forall>k ds. c = Inbox k \<and> r = Inr (Deliveries ds) \<longrightarrow>
      ds = pick_up (n_node_id node) (snd (inbox_limits (ae_cfg env) (dr_now dr 0) snapshot 0 k)) (letters (dr_now dr 1) s))"
proof (cases c)
  case (Send p)
  show ?thesis
  proof (cases "validate_payload p")
    case (Inl e)
    then show ?thesis using assms(5) Send by (auto simp: handle_def handle_send_def invalid_def event_of_def)
  next
    case (Inr q)
    then obtain r' where sent: "send_packet env stat dr q node s = (t, notified, r')" and r: "r = map_sum id Sent r'"
      using assms(5) Send by (auto simp: handle_def handle_send_def split: prod.splits)
    show ?thesis
    proof (cases notified)
      case None
      then have "t = s" using sent by (auto intro: send_packet_unnotified)
      with None show ?thesis using r by (cases r') (auto simp: event_of_def Send)
    next
      case (Some n)
      then show ?thesis using send_letters [OF assms(1,2) sent [unfolded Some] assms(4)] r Inr
        by (auto simp: event_of_def Send alive_filters)
    qed
  qed
next
  case (Ack p)
  then consider (invalid) e where "t = s" "r = Inl e"
    | (asked) q r' where "ack_packet dr q node s = (t, r')" "r = map_sum id Acked r'"
    using assms(5)
    by (auto simp: handle_def handle_ack_def invalid_def answer_with_def split: sum.splits if_splits) (metis prod.collapse)
  then show ?thesis
  proof cases
    case (asked q r')
    show ?thesis
    proof (cases r')
      case (Inl e)
      then show ?thesis using asked refused_unchanged(1) [of dr q node s t e] by simp
    next
      case (Inr a)
      then show ?thesis using asked(2) ack_letters [OF assms(1) asked(1) [unfolded Inr]]
        by (simp add: event_of_def Ack alive_filters del: filter_filter)
    qed
  qed simp
next
  case (DeleteEndpoint i)
  then obtain r' where d: "delete_endpoint dr i node s = (t, r')" and r: "r = map_sum id EndpointDeleted r'" "notified = None"
    using assms(5) that [of "snd (delete_endpoint dr i node s)"] by (auto simp: handle_def answer_with_def)
  show ?thesis
  proof (cases r')
    case (Inl e)
    then show ?thesis using refused_unchanged(2) [of dr i node s t e] d r by simp
  next
    case (Inr j)
    then show ?thesis using delete_endpoint_letters [OF assms(1) d [unfolded Inr]] assms(4) r
      by (simp add: event_of_def DeleteEndpoint alive_filters del: filter_filter)
  qed
next
  case DeleteIdentity
  have "\<exists>a. snd (delete_identity node s) = Inr a" by (simp add: delete_identity_def Let_def split: prod.splits)
  then show ?thesis using assms(5) delete_identity_letters [OF assms(1,3), of now]
    by (auto simp: handle_def answer_with_def event_of_def DeleteIdentity alive_filters simp del: filter_filter)
next
  case (Inbox limit)
  then show ?thesis using assms(5)
    by (auto simp: handle_def handle_inbox_def invalid_def answer_with_def check_def pick_up_letters event_of_def
        split: sum.splits if_splits)
qed (use assms(5) in \<open>auto simp: handle_def handle_redeem_def handle_code_def invalid_def answer_with_def event_of_def
      list_endpoints_def list_links_def Let_def check_def same_queue redeem_link_code_queue
      intro!: letters_cong split: option.splits sum.splits if_splits\<close>)

theorem mailbox_refinement_witness:
  "\<exists>t. handle (\<lambda>s _ _. s) default_env (\<lambda>_. None) None (demo_draws 20 ''z'') (Ack demo_ack) (demo_node ''n2'') demo_sent =
       (t, None, Inr (Acked \<lparr>ar_acked = True, ar_packet_id = ''p'', ar_status = ''handled''\<rparr>))
     \<and> letters 20 demo_sent \<noteq> []
     \<and> letters 20 t = filter (alive 20) (mail_step (Sign ''p'') (letters 20 demo_sent))"
proof -
  let ?a = "Acked \<lparr>ar_acked = True, ar_packet_id = ''p'', ar_status = ''handled''\<rparr>"
  obtain t where h: "handle (\<lambda>s _ _. s) default_env (\<lambda>_. None) None (demo_draws 20 ''z'') (Ack demo_ack) (demo_node ''n2'') demo_sent =
      (t, None, Inr ?a)"
    using demo_acked
    by (auto simp: handle_def handle_ack_def validate_reference_def answer_with_def ack_statuses_def demo_ack_def)
  have node: "n_node_id (demo_node ''n2'') \<in> n_node_id ` set (nodes demo_sent)"
    by (simp add: demo_sent_def demo_db_def)
  have "letters 20 demo_sent \<noteq> []"
    by (simp add: letters_def active_joined_def joined_demo_sent packet_active_def new_packet_def new_delivery_def demo_send_def)
  with mailbox_refinement [OF demo_sent_ok demo_sent_serving node _ h, of 20] h show ?thesis
    by (simp add: event_of_def)
qed

end
