(* ===== verification/Notifier.thy ===== *)
theory Notifier
  imports Prelude
begin

text \<open>
  The in-process wake-up of long polls (\<open>app/inbox_notifier.py\<close>): a version and a list of waiting
  futures per node. The lock of the source makes each operation below one step. A future is a
  number; its state says whether it is pending, has a result or was cancelled. The running loop and
  its thread are numbers; \<open>closed\<close> answers \<open>loop.is_closed()\<close>.
\<close>

datatype future_state = Pending | Resolved nat | Cancelled

record node_slot =
  ns_version :: nat
  ns_waiters :: "nat list"

definition new_slot :: node_slot where
  "new_slot = \<lparr>ns_version = 0, ns_waiters = []\<rparr>"

record notifier =
  nf_loop :: "(nat \<times> nat) option"
  nf_slots :: "string \<Rightarrow> node_slot option"
  nf_futures :: "nat \<Rightarrow> future_state"
  nf_next :: nat

definition new_notifier :: notifier where
  "new_notifier = \<lparr>nf_loop = None, nf_slots = \<lambda>_. None, nf_futures = \<lambda>_. Cancelled, nf_next = 0\<rparr>"

text \<open>\<^term>\<open>None\<close> is the \<open>RuntimeError\<close> of a second event loop.\<close>

definition bind_running_loop :: "(nat \<Rightarrow> bool) \<Rightarrow> nat \<Rightarrow> nat \<Rightarrow> notifier \<Rightarrow> notifier option" where
  "bind_running_loop closed loop thread nf =
     (case nf_loop nf of
        None \<Rightarrow> Some (nf\<lparr>nf_loop := Some (loop, thread)\<rparr>)
      | Some (l, t) \<Rightarrow>
          if closed l then Some (nf\<lparr>nf_loop := Some (loop, thread)\<rparr>)
          else if l \<noteq> loop then None else Some nf)"

text \<open>\<open>self._slots.setdefault(node_id, _NodeSlot())\<close>.\<close>

definition slot_of :: "notifier \<Rightarrow> string \<Rightarrow> node_slot" where
  "slot_of nf node_id = (case nf_slots nf node_id of None \<Rightarrow> new_slot | Some sl \<Rightarrow> sl)"

definition put_slot :: "string \<Rightarrow> node_slot \<Rightarrow> notifier \<Rightarrow> notifier" where
  "put_slot node_id sl nf = nf\<lparr>nf_slots := (nf_slots nf)(node_id := Some sl)\<rparr>"

definition snapshot :: "string \<Rightarrow> notifier \<Rightarrow> nat \<times> notifier" where
  "snapshot node_id nf = (let sl = slot_of nf node_id in (ns_version sl, put_slot node_id sl nf))"

text \<open>
  \<open>wait_for_change\<close> up to its \<open>await\<close>: the current version if it has moved, else a new future that
  waits. Then either the future has its result, or the timeout or a cancellation removes it.
\<close>

definition wait_begin :: "string \<Rightarrow> nat \<Rightarrow> notifier \<Rightarrow> (nat + nat) \<times> notifier" where
  "wait_begin node_id after_version nf =
     (let sl = slot_of nf node_id in
      if ns_version sl \<noteq> after_version then (Inl (ns_version sl), put_slot node_id sl nf)
      else let f = nf_next nf in
        (Inr f, put_slot node_id (sl\<lparr>ns_waiters := ns_waiters sl @ [f]\<rparr>)
           (nf\<lparr>nf_futures := (nf_futures nf)(f := Pending), nf_next := Suc f\<rparr>)))"

definition wait_abandon :: "string \<Rightarrow> nat \<Rightarrow> notifier \<Rightarrow> notifier" where
  "wait_abandon node_id f nf =
     (let nf1 = (if nf_futures nf f = Pending then nf\<lparr>nf_futures := (nf_futures nf)(f := Cancelled)\<rparr> else nf)
      in case nf_slots nf1 node_id of
           None \<Rightarrow> nf1
         | Some sl \<Rightarrow> put_slot node_id (sl\<lparr>ns_waiters := remove1 f (ns_waiters sl)\<rparr>) nf1)"

text \<open>\<open>_notify_in_loop\<close>: the version goes up and every pending future of the slot gets it.\<close>

definition resolve :: "nat \<Rightarrow> nat \<Rightarrow> (nat \<Rightarrow> future_state) \<Rightarrow> nat \<Rightarrow> future_state" where
  "resolve v f fs = (if fs f = Pending then fs(f := Resolved v) else fs)"

definition notify_in_loop :: "string \<Rightarrow> notifier \<Rightarrow> notifier" where
  "notify_in_loop node_id nf =
     (let sl = slot_of nf node_id; v = Suc (ns_version sl) in
      (put_slot node_id \<lparr>ns_version = v, ns_waiters = []\<rparr> nf)
        \<lparr>nf_futures := fold (resolve v) (ns_waiters sl) (nf_futures nf)\<rparr>)"

text \<open>
  \<open>notify\<close> from a thread: nothing without an open loop, at once in the loop's own thread, else
  handed to the loop; the second component is what \<open>call_soon_threadsafe\<close> has been given.
\<close>

definition notify :: "(nat \<Rightarrow> bool) \<Rightarrow> nat \<Rightarrow> string \<Rightarrow> notifier \<Rightarrow> notifier \<times> string list" where
  "notify closed thread node_id nf =
     (case nf_loop nf of
        None \<Rightarrow> (nf, [])
      | Some (l, t) \<Rightarrow>
          if closed l then (nf, [])
          else if thread = t then (notify_in_loop node_id nf, [])
          else (nf, [node_id]))"

section \<open>Lemmas\<close>

lemma slot_of_put [simp]: "slot_of (put_slot n sl nf) m = (if m = n then sl else slot_of nf m)"
  by (simp add: slot_of_def put_slot_def)

lemma put_slot_frame [simp]:
  "nf_futures (put_slot n sl nf) = nf_futures nf" "nf_loop (put_slot n sl nf) = nf_loop nf"
  "nf_next (put_slot n sl nf) = nf_next nf"
  by (simp_all add: put_slot_def)

lemma slot_of_futures [simp]: "slot_of (nf\<lparr>nf_futures := fs\<rparr>) = slot_of nf"
  "slot_of (nf\<lparr>nf_next := k\<rparr>) = slot_of nf"
  "slot_of (nf\<lparr>nf_futures := fs, nf_next := k\<rparr>) = slot_of nf"
  by (simp_all add: slot_of_def fun_eq_iff)

lemma fold_resolve:
  "fold (resolve v) ws fs f = (if fs f = Pending \<and> f \<in> set ws then Resolved v else fs f)"
  by (induction ws arbitrary: fs) (auto simp: resolve_def)

lemma snapshot_slots [simp]:
  "slot_of (snd (snapshot n nf)) = slot_of nf" "nf_futures (snd (snapshot n nf)) = nf_futures nf"
  "nf_loop (snd (snapshot n nf)) = nf_loop nf" "nf_next (snd (snapshot n nf)) = nf_next nf"
  "fst (snapshot n nf) = ns_version (slot_of nf n)"
  by (auto simp: snapshot_def Let_def fun_eq_iff)

lemma slot_of_notify [simp]:
  "slot_of (notify_in_loop n nf) m =
     (if m = n then \<lparr>ns_version = Suc (ns_version (slot_of nf n)), ns_waiters = []\<rparr> else slot_of nf m)"
  by (simp add: notify_in_loop_def Let_def)

lemma futures_notify:
  "nf_futures (notify_in_loop n nf) f =
     (if nf_futures nf f = Pending \<and> f \<in> set (ns_waiters (slot_of nf n))
      then Resolved (Suc (ns_version (slot_of nf n))) else nf_futures nf f)"
  by (simp add: notify_in_loop_def Let_def fold_resolve)

lemma notify_frame [simp]:
  "nf_loop (notify_in_loop n nf) = nf_loop nf" "nf_next (notify_in_loop n nf) = nf_next nf"
  by (simp_all add: notify_in_loop_def Let_def)

lemma slot_of_abandon:
  "slot_of (wait_abandon n f nf) m =
     (if m = n then (slot_of nf n)\<lparr>ns_waiters := remove1 f (ns_waiters (slot_of nf n))\<rparr> else slot_of nf m)"
  by (auto simp: wait_abandon_def Let_def slot_of_def put_slot_def new_slot_def split: option.splits)

lemma abandon_frame:
  "nf_futures (wait_abandon n f nf) g =
     (if g = f \<and> nf_futures nf f = Pending then Cancelled else nf_futures nf g)"
  "nf_loop (wait_abandon n f nf) = nf_loop nf" "nf_next (wait_abandon n f nf) = nf_next nf"
  by (auto simp: wait_abandon_def Let_def split: option.splits)

end
