(* ===== verification/AdminOps.thy ===== *)
theory AdminOps
  imports Links
begin

text \<open>
  The operator's side of the server, the second half of \<open>src/arqs-server/app/admin_services.py\<close>:
  reports on the queue and on nodes, endpoints, links and codes, the status of a node, and the
  revocation of a link. Every function runs in a session and is committed or rolled back as a whole.
\<close>

section \<open>Shared parts\<close>

definition node_status_values :: "string list" where
  "node_status_values = [''active'', ''disabled'', ''revoked'']"

definition link_status_values :: "string list" where
  "link_status_values = [''active'', ''revoked'']"

definition link_code_status_values :: "string list" where
  "link_code_status_values = [''active'', ''expired'', ''revoked'', ''used'']"

text \<open>\<open>ORDER BY key DESC LIMIT n\<close>; equal rows stay in their order.\<close>

definition newest :: "('r \<Rightarrow> 'k::linorder) \<Rightarrow> int \<Rightarrow> 'r list \<Rightarrow> 'r list" where
  "newest key limit rows = sql_limit limit (rev (sort_key key (rev rows)))"

definition matching :: "'a option \<Rightarrow> ('r \<Rightarrow> 'a) \<Rightarrow> 'r list \<Rightarrow> 'r list" where
  "matching value field rows = (case value of None \<Rightarrow> rows | Some v \<Rightarrow> filter (\<lambda>r. field r = v) rows)"

definition bind_admin :: "admin_error + 'a \<Rightarrow> ('a \<Rightarrow> admin_error + 'b) \<Rightarrow> admin_error + 'b" where
  "bind_admin c k = (case c of Inl e \<Rightarrow> Inl e | Inr x \<Rightarrow> k x)"

section \<open>Reports\<close>

record ip_access_info =
  ia_mode :: string
  ia_default_ip_policy :: string
  ia_allow_rules_total :: int
  ia_deny_rules_total :: int

record health_info =
  hi_app :: string
  hi_db_path :: string
  hi_db_file_size_bytes :: "int option"
  hi_time :: time
  hi_cleanup_interval_seconds :: int
  hi_cleanup_enabled :: bool
  hi_runtime_settings :: runtime_settings
  hi_ip_access :: ip_access_info

text \<open>The file sizes that can be read, added up; none readable is \<open>None\<close>.\<close>

definition db_file_size :: "file_sizes \<Rightarrow> app_config \<Rightarrow> int option" where
  "db_file_size stat cfg =
     (let path = st_db_path (cf_storage cfg);
          sizes = List.map_filter stat [path, path @ ''-wal'', path @ ''-shm'', path @ ''-journal'']
      in if sizes = [] then None else Some (sum_list sizes))"

definition health_check :: "admin_env \<Rightarrow> file_sizes \<Rightarrow> (nat \<Rightarrow> time) \<Rightarrow> db \<Rightarrow> health_info adm" where
  "health_check env stat clock s0 =
     (let cfg = ae_cfg env; s = ensure_admin_tables env (clock 0) False s0 in
      case get_runtime_settings_row_safe env (clock 2) s of Inl e \<Rightarrow> Inl e
      | Inr (rt, s1) \<Rightarrow>
         (case ip_access_mode cfg of Inl e \<Rightarrow> Inl e
          | Inr mode \<Rightarrow>
             (case get_runtime_settings env (clock 3) s1 of Inl e \<Rightarrow> Inl e
              | Inr (rt', s2) \<Rightarrow>
                  Inr (\<lparr>hi_app = sv_app_name (cf_server cfg), hi_db_path = st_db_path (cf_storage cfg),
                       hi_db_file_size_bytes = db_file_size stat cfg, hi_time = clock 1,
                       hi_cleanup_interval_seconds = mt_cleanup_interval_seconds (cf_maintenance cfg),
                       hi_cleanup_enabled = mt_cleanup_interval_seconds (cf_maintenance cfg) > 0,
                       hi_runtime_settings = rt,
                       hi_ip_access = \<lparr>ia_mode = mode, ia_default_ip_policy = rs_default_ip_policy rt',
                         ia_allow_rules_total = count_ip_rules s2 ''allow'',
                         ia_deny_rules_total = count_ip_rules s2 ''deny''\<rparr>\<rparr>, s2))))"

record summary_stats =
  ss_nodes_total :: int
  ss_endpoints_total :: int
  ss_active_links_total :: int
  ss_queued_packets_total :: int
  ss_queued_bytes_total :: int
  ss_active_link_codes_total :: int
  ss_default_ip_policy :: string
  ss_allowed_ips_total :: int
  ss_denied_ips_total :: int

definition get_summary_stats :: "admin_env \<Rightarrow> (nat \<Rightarrow> time) \<Rightarrow> db \<Rightarrow> summary_stats adm" where
  "get_summary_stats env clock s0 =
     (let s = ensure_admin_tables env (clock 0) False s0; now = clock 1 in
      case get_runtime_settings env (clock 2) s of Inl e \<Rightarrow> Inl e
      | Inr (rt, t) \<Rightarrow>
          Inr (\<lparr>ss_nodes_total = int (length (nodes s)), ss_endpoints_total = int (length (endpoints s)),
               ss_active_links_total = count_where (\<lambda>l. l_status l = ''active'') (links s),
               ss_queued_packets_total = queue_packets (\<lambda>_. True) now s,
               ss_queued_bytes_total = queue_bytes (\<lambda>_. True) now s,
               ss_active_link_codes_total = count_where (link_code_active now) (link_codes s),
               ss_default_ip_policy = rs_default_ip_policy rt,
               ss_allowed_ips_total = count_ip_rules t ''allow'',
               ss_denied_ips_total = count_ip_rules t ''deny''\<rparr>, t))"

record queue_stats =
  qs_id :: string
  qs_queued_packets :: int
  qs_queued_bytes :: int
  qs_oldest_queued_at :: time

text \<open>\<open>GROUP BY\<close>: one row per value of the column among the visible deliveries, by value.\<close>

definition queue_group :: "(delivery \<Rightarrow> string) \<Rightarrow> time \<Rightarrow> db \<Rightarrow> string \<Rightarrow> queue_stats" where
  "queue_group column now s k =
     (let rows = filter (\<lambda>(d, p). column d = k) (active_joined now s) in
      \<lparr>qs_id = k, qs_queued_packets = int (length rows),
       qs_queued_bytes = sum_list (map (\<lambda>(d, p). p_payload_bytes p) rows),
       qs_oldest_queued_at = Min (set (map (\<lambda>(d, p). d_queued_at d) rows))\<rparr>)"

text \<open>\<open>ORDER BY count DESC, bytes DESC\<close>; ties as the groups come.\<close>

definition queue_report :: "(delivery \<Rightarrow> string) \<Rightarrow> time \<Rightarrow> int \<Rightarrow> db \<Rightarrow> queue_stats list" where
  "queue_report column now limit s =
     newest qs_queued_packets limit (rev (sort_key qs_queued_bytes (rev
       (map (queue_group column now s)
         (sort (remdups (map (\<lambda>(d, p). column d) (active_joined now s))))))))"

definition get_queue_stats_by_node :: "time \<Rightarrow> int \<Rightarrow> db \<Rightarrow> admin_error + queue_stats list" where
  "get_queue_stats_by_node now limit s =
     bind_admin (validate_positive_int ''limit'' (JInt limit)) (\<lambda>n. Inr (queue_report d_destination_node_id now n s))"

definition get_queue_stats_by_endpoint :: "time \<Rightarrow> int \<Rightarrow> db \<Rightarrow> admin_error + queue_stats list" where
  "get_queue_stats_by_endpoint now limit s =
     bind_admin (validate_positive_int ''limit'' (JInt limit)) (\<lambda>n. Inr (queue_report d_destination_endpoint_id now n s))"

definition get_oldest_queued_delivery_info :: "time \<Rightarrow> db \<Rightarrow> (delivery \<times> int) option" where
  "get_oldest_queued_delivery_info now s =
     (case sort_key (\<lambda>(d, p). d_queued_at d) (active_joined now s) of
        [] \<Rightarrow> None
      | (d, p) # _ \<Rightarrow> Some (d, p_payload_bytes p))"

section \<open>Nodes and endpoints\<close>

definition list_nodes :: "string option \<Rightarrow> int \<Rightarrow> db \<Rightarrow> admin_error + node list" where
  "list_nodes status limit s =
     bind_admin (validate_positive_int ''limit'' (JInt limit)) (\<lambda>n.
     bind_admin (coerce_status_filter status node_status_values ''status'') (\<lambda>st.
       Inr (newest n_created_at n (matching st n_status (nodes s)))))"

record node_detail =
  nd_node :: node
  nd_endpoint_count :: int
  nd_active_link_count :: int
  nd_active_link_code_count :: int
  nd_queued_inbound_packets :: int
  nd_queued_inbound_bytes :: int

definition get_node_detail :: "time \<Rightarrow> string \<Rightarrow> db \<Rightarrow> admin_error + node_detail" where
  "get_node_detail now node_id s =
     (case get_node s node_id of
        None \<Rightarrow> Inl (AdminNotFoundError (''node not found: '' @ node_id))
      | Some node \<Rightarrow>
          let ids = map e_endpoint_id (filter (\<lambda>e. e_node_id e = node_id) (endpoints s)) in
          Inr \<lparr>nd_node = node, nd_endpoint_count = int (length ids),
            nd_active_link_count = count_where (\<lambda>l. l_status l = ''active''
              \<and> (l_endpoint_a_id l \<in> set ids \<or> l_endpoint_b_id l \<in> set ids)) (links s),
            nd_active_link_code_count = count_where (\<lambda>c. link_code_active now c
              \<and> c_source_endpoint_id c \<in> set ids) (link_codes s),
            nd_queued_inbound_packets = queue_packets (\<lambda>d. d_destination_node_id d = node_id) now s,
            nd_queued_inbound_bytes = queue_bytes (\<lambda>d. d_destination_node_id d = node_id) now s\<rparr>)"

definition set_node_status :: "string \<Rightarrow> string \<Rightarrow> db \<Rightarrow> (string \<times> string) adm" where
  "set_node_status node_id status s =
     bind_admin (coerce_status_filter (Some status) node_status_values ''status'') (\<lambda>st.
       case st of None \<Rightarrow> Inl (AdminValidationError ''status'')
       | Some normalized \<Rightarrow>
           (case get_node s node_id of
              None \<Rightarrow> Inl (AdminNotFoundError (''node not found: '' @ node_id))
            | Some node \<Rightarrow> Inr ((node_id, normalized),
                s\<lparr>nodes := update_where (\<lambda>n. n_node_id n = node_id) (\<lambda>n. n\<lparr>n_status := normalized\<rparr>) (nodes s)\<rparr>)))"

lemma set_node_status_Inr:
  assumes "set_node_status i status s = Inr (x, t)"
  obtains st where "st \<in> set node_status_values"
    "t = s\<lparr>nodes := update_where (\<lambda>n. n_node_id n = i) (\<lambda>n. n\<lparr>n_status := st\<rparr>) (nodes s)\<rparr>"
  using assms that
  by (auto simp: set_node_status_def bind_admin_def coerce_status_filter_def validate_word_def Let_def
      split: sum.splits option.splits if_splits)

definition disable_node :: "string \<Rightarrow> db \<Rightarrow> (string \<times> string) adm" where
  "disable_node node_id s = set_node_status node_id ''disabled'' s"

definition enable_node :: "string \<Rightarrow> db \<Rightarrow> (string \<times> string) adm" where
  "enable_node node_id s = set_node_status node_id ''active'' s"

definition revoke_node :: "string \<Rightarrow> db \<Rightarrow> (string \<times> string) adm" where
  "revoke_node node_id s = set_node_status node_id ''revoked'' s"

definition list_endpoints_admin :: "string option \<Rightarrow> string option \<Rightarrow> int \<Rightarrow> db \<Rightarrow> admin_error + endpoint list" where
  "list_endpoints_admin node_id status limit s =
     bind_admin (validate_positive_int ''limit'' (JInt limit)) (\<lambda>n.
     bind_admin (coerce_status_filter status node_status_values ''status'') (\<lambda>st.
       Inr (newest e_created_at n (matching st e_status (matching node_id e_node_id (endpoints s))))))"

record endpoint_detail =
  ed_endpoint :: endpoint
  ed_queued_inbound_packets :: int
  ed_queued_inbound_bytes :: int
  ed_active_link_count :: int

definition get_endpoint_detail :: "time \<Rightarrow> string \<Rightarrow> db \<Rightarrow> admin_error + endpoint_detail" where
  "get_endpoint_detail now endpoint_id s =
     (case get_endpoint s endpoint_id of
        None \<Rightarrow> Inl (AdminNotFoundError (''endpoint not found: '' @ endpoint_id))
      | Some e \<Rightarrow> Inr \<lparr>ed_endpoint = e,
          ed_queued_inbound_packets = queue_packets (\<lambda>d. d_destination_endpoint_id d = endpoint_id) now s,
          ed_queued_inbound_bytes = queue_bytes (\<lambda>d. d_destination_endpoint_id d = endpoint_id) now s,
          ed_active_link_count = count_where (\<lambda>l. l_status l = ''active''
            \<and> (l_endpoint_a_id l = endpoint_id \<or> l_endpoint_b_id l = endpoint_id)) (links s)\<rparr>)"

section \<open>Links and codes\<close>

definition list_links_admin :: "string option \<Rightarrow> int \<Rightarrow> db \<Rightarrow> admin_error + link list" where
  "list_links_admin status limit s =
     bind_admin (validate_positive_int ''limit'' (JInt limit)) (\<lambda>n.
     bind_admin (coerce_status_filter status link_status_values ''status'') (\<lambda>st.
       Inr (newest l_created_at n (matching st l_status (links s)))))"

definition revoke_link_admin :: "string \<Rightarrow> db \<Rightarrow> int adm" where
  "revoke_link_admin link_id s =
     (case get_link s link_id of
        None \<Rightarrow> Inl (AdminNotFoundError (''link not found: '' @ link_id))
      | Some l \<Rightarrow> Inr (count_where (\<lambda>r. r_created_by_link_id r = Some link_id) (directed_routes s),
          revoke_link_rows link_id s))"

lemma revoke_link_admin_Inr: "revoke_link_admin i s = Inr (n, t) \<Longrightarrow> t = revoke_link_rows i s"
  by (simp add: revoke_link_admin_def split: option.splits)

definition code_matches :: "time \<Rightarrow> string option \<Rightarrow> link_code \<Rightarrow> bool" where
  "code_matches now status c =
     (case status of None \<Rightarrow> True
      | Some st \<Rightarrow>
          if st = ''active'' then link_code_active now c
          else if st = ''expired'' then c_status c = ''expired'' \<or> (c_status c = ''active'' \<and> c_expires_at c \<le> now)
          else c_status c = st)"

definition list_link_codes_admin :: "time \<Rightarrow> string option \<Rightarrow> int \<Rightarrow> db \<Rightarrow> admin_error + link_code list" where
  "list_link_codes_admin now status limit s =
     bind_admin (validate_positive_int ''limit'' (JInt limit)) (\<lambda>n.
     bind_admin (coerce_status_filter status link_code_status_values ''status'') (\<lambda>st.
       Inr (map (\<lambda>c. c\<lparr>c_status := effective_link_code_status now c\<rparr>)
         (newest c_created_at n (filter (code_matches now st) (link_codes s))))))"

definition run_cleanup_now :: "admin_env \<Rightarrow> (nat \<Rightarrow> time) \<Rightarrow> db \<Rightarrow> cleanup_result adm" where
  "run_cleanup_now env clock s = cleanup_expired env (clock 1) (ensure_admin_tables env (clock 0) False s)"

end
