(* ===== verification/Machine.thy ===== *)
theory Machine
  imports Api Notifier AdminOps
begin

text \<open>
  The running server as a state machine. The handlers run in a pool of threads: a request is one
  step, except that a send and a redemption may also be split into their check and their commit,
  with any other steps between the two. A commit that queues a delivery is followed, later, by the
  call of \<open>inbox_notifier.notify\<close>, which hands the wake-up to the event loop, where it runs later
  still. Long polls (\<open>poll_inbox\<close>) live in the event loop and move from one \<open>await\<close> to the next.

  \<open>w_claimed\<close> is a ghost: the codes whose redemption has succeeded. Identifiers that a step draws
  are new (\<open>uuid4\<close>), which is used for the codes only.
\<close>

section \<open>Long polls\<close>

text \<open>Where \<open>poll_inbox\<close> is: before the version is read, before the fetch, before the wait, in it.\<close>

datatype poll_pc = Top | Snapped nat | Empty nat | Waiting nat nat | Done "delivery_out list"

record poll =
  pl_node :: string
  pl_limit :: int
  pl_deadline :: time
  pl_pc :: poll_pc

record pending_send =
  sn_node :: node
  sn_request :: packet_send_request
  sn_event :: send_event
  sn_packet :: packet
  sn_delivery :: delivery

record pending_claim =
  cl_draws :: draws
  cl_dest :: string
  cl_code :: link_code

record world =
  w_db :: db
  w_now :: time
  w_mono :: time
  w_sends :: "pending_send list"
  w_claims :: "pending_claim list"
  w_claimed :: "string list"
  w_committed :: "string list"
  w_scheduled :: "string list"
  w_notifier :: notifier
  w_polls :: "nat \<Rightarrow> poll option"

text \<open>
  One move of a poll: \<open>snapshot\<close>; fetch and the test of the deadline; \<open>wait_for_change\<close> up to its
  await; the end of the wait. \<open>now\<close> is the wall clock, \<open>mclock\<close> the monotonic one.
\<close>

definition poll_move :: "time \<Rightarrow> time \<Rightarrow> db \<Rightarrow> poll \<Rightarrow> notifier \<Rightarrow> poll \<times> notifier" where
  "poll_move now mclock s pl nf =
     (case pl_pc pl of
        Top \<Rightarrow> (case snapshot (pl_node pl) nf of (v, nf') \<Rightarrow> (pl\<lparr>pl_pc := Snapped v\<rparr>, nf'))
      | Snapped v \<Rightarrow>
          let out = fetch_inbox_deliveries now (pl_node pl) (pl_limit pl) s in
          if out \<noteq> [] \<or> mclock \<ge> pl_deadline pl then (pl\<lparr>pl_pc := Done out\<rparr>, nf)
          else (pl\<lparr>pl_pc := Empty v\<rparr>, nf)
      | Empty v \<Rightarrow>
          if pl_deadline pl \<le> mclock then (pl\<lparr>pl_pc := Top\<rparr>, nf)
          else (case wait_begin (pl_node pl) v nf of
                  (Inl _, nf') \<Rightarrow> (pl\<lparr>pl_pc := Top\<rparr>, nf')
                | (Inr f, nf') \<Rightarrow> (pl\<lparr>pl_pc := Waiting v f\<rparr>, nf'))
      | Waiting v f \<Rightarrow>
          (case nf_futures nf f of
             Resolved _ \<Rightarrow> (pl\<lparr>pl_pc := Top\<rparr>, nf)
           | _ \<Rightarrow> if pl_deadline pl \<le> mclock
                  then (pl\<lparr>pl_pc := Top\<rparr>, wait_abandon (pl_node pl) f nf)
                  else (pl, nf))
      | Done out \<Rightarrow> (pl, nf))"

section \<open>Steps\<close>

definition opt_list :: "'a option \<Rightarrow> 'a list" where
  "opt_list x = (case x of None \<Rightarrow> [] | Some y \<Rightarrow> [y])"

text \<open>The parameters that no step changes.\<close>

record deployment =
  dp_kdf :: kdf
  dp_env :: admin_env
  dp_loop :: nat
  dp_thread :: nat

definition claimed_by :: "answer reply \<Rightarrow> db \<Rightarrow> draws \<Rightarrow> call \<Rightarrow> string list" where
  "claimed_by r s dr c =
     (case (c, snd (snd r)) of
        (Redeem p, Inr (Linked l)) \<Rightarrow>
          (case normalize_code (lr_code p) of None \<Rightarrow> []
           | Some k \<Rightarrow> opt_list (map_option c_link_code_id (fetch c_code k (link_codes s))))
      | _ \<Rightarrow> [])"

text \<open>
  The steps. \<open>request\<close> is a whole request; \<open>begin_\<close> and \<open>finish_\<close> the halves of a send or a
  redemption; \<open>maintain\<close> a turn of the maintenance thread. The admin tool works on the same store: \<open>administer\<close>
  is a change of the settings or the access rules, \<open>admin_status\<close> a new status of a node, \<open>admin_revoke\<close> the
  revocation of a link. \<open>call_notify\<close> and \<open>run_notify\<close> are the two halves of a wake-up.
\<close>

inductive step :: "deployment \<Rightarrow> world \<Rightarrow> world \<Rightarrow> bool" for dp where
  tick: "w_now w \<le> now \<Longrightarrow> w_mono w \<le> mclock \<Longrightarrow> step dp w (w\<lparr>w_now := now, w_mono := mclock\<rparr>)"
| request: "dispatch (dp_kdf dp) (dp_env dp) stat cache dr rq c (w_db w) = (t, notified, r) \<Longrightarrow>
    (\<forall>k. dr_uuid dr k \<notin> set (w_claimed w)) \<Longrightarrow>
    step dp w (w\<lparr>w_db := t, w_committed := w_committed w @ opt_list notified,
      w_claimed := w_claimed w @ claimed_by (t, notified, r) (w_db w) dr c\<rparr>)"
| begin_send: "send_check (dp_env dp) stat dr payload node (w_db w) = Inr (Store v p d, w_db w) \<Longrightarrow>
    step dp w (w\<lparr>w_sends := w_sends w @ [\<lparr>sn_node = node, sn_request = payload, sn_event = v,
      sn_packet = p, sn_delivery = d\<rparr>]\<rparr>)"
| finish_send: "w_sends w = before @ sn # after \<Longrightarrow>
    send_commit views (sn_node sn) (sn_request sn) (sn_event sn) (sn_packet sn) (sn_delivery sn)
      (w_db w) (w_db w) = (t, notified, r) \<Longrightarrow>
    step dp w (w\<lparr>w_db := t, w_sends := before @ after, w_committed := w_committed w @ opt_list notified\<rparr>)"
| begin_redeem: "redeem_check dr payload node (w_db w) = (w_db w, Inr code) \<Longrightarrow>
    step dp w (w\<lparr>w_claims := w_claims w @ [\<lparr>cl_draws = dr, cl_dest = lr_destination_endpoint_id payload,
      cl_code = code\<rparr>]\<rparr>)"
| finish_redeem: "w_claims w = before @ cl # after \<Longrightarrow>
    redeem_claim (cl_draws cl) (cl_dest cl) (cl_code cl) (w_db w) = (t, r) \<Longrightarrow>
    step dp w (w\<lparr>w_db := t, w_claims := before @ after,
      w_claimed := w_claimed w @ (case r of Inr _ \<Rightarrow> [c_link_code_id (cl_code cl)] | Inl _ \<Rightarrow> [])\<rparr>)"
| maintain: "step dp w (w\<lparr>w_db := maintenance_turn (dp_env dp) now (w_db w)\<rparr>)"
| administer: "same_requests (w_db w) t \<Longrightarrow> step dp w (w\<lparr>w_db := t\<rparr>)"
| admin_status: "set_node_status i status (w_db w) = Inr (x, t) \<Longrightarrow> step dp w (w\<lparr>w_db := t\<rparr>)"
| admin_revoke: "revoke_link_admin i (w_db w) = Inr (n, t) \<Longrightarrow> step dp w (w\<lparr>w_db := t\<rparr>)"
| call_notify: "w_committed w = before @ n # after \<Longrightarrow>
    notify (\<lambda>_. False) thread n (w_notifier w) = (nf, later) \<Longrightarrow>
    step dp w (w\<lparr>w_committed := before @ after, w_notifier := nf, w_scheduled := w_scheduled w @ later\<rparr>)"
| run_notify: "w_scheduled w = n # later \<Longrightarrow>
    step dp w (w\<lparr>w_scheduled := later, w_notifier := notify_in_loop n (w_notifier w)\<rparr>)"
| start_poll: "w_polls w i = None \<Longrightarrow> limit \<noteq> 0 \<Longrightarrow>
    bind_running_loop (\<lambda>_. False) (dp_loop dp) (dp_thread dp) (w_notifier w) = Some nf \<Longrightarrow>
    step dp w (w\<lparr>w_notifier := nf, w_polls := (w_polls w)(i \<mapsto> \<lparr>pl_node = n, pl_limit = limit,
      pl_deadline = deadline, pl_pc = Top\<rparr>)\<rparr>)"
| move_poll: "w_polls w i = Some pl \<Longrightarrow>
    poll_move (w_now w) (w_mono w) (w_db w) pl (w_notifier w) = (pl', nf) \<Longrightarrow>
    step dp w (w\<lparr>w_polls := (w_polls w)(i \<mapsto> pl'), w_notifier := nf\<rparr>)"

definition initial_world :: "db \<Rightarrow> world" where
  "initial_world s = \<lparr>w_db = s, w_now = 0, w_mono = 0, w_sends = [], w_claims = [], w_claimed = [],
     w_committed = [], w_scheduled = [], w_notifier = new_notifier, w_polls = (\<lambda>_. None)\<rparr>"

definition reachable :: "deployment \<Rightarrow> db \<Rightarrow> world \<Rightarrow> bool" where
  "reachable dp s w \<longleftrightarrow> (step dp)\<^sup>*\<^sup>* (initial_world s) w"

lemma reachable_induct [consumes 1, case_names init step]:
  assumes "reachable dp s w" "P (initial_world s)"
    and "\<And>w w'. reachable dp s w \<Longrightarrow> step dp w w' \<Longrightarrow> P w \<Longrightarrow> P w'"
  shows "P w"
  using assms(1) unfolding reachable_def
  by (induction rule: rtranclp_induct) (use assms in \<open>auto simp: reachable_def\<close>)

inductive_cases stepE: "step dp w w'"

section \<open>The store stays well formed\<close>

definition claims_ok :: "world \<Rightarrow> bool" where
  "claims_ok w \<longleftrightarrow> (\<forall>cl\<in>set (w_claims w). c_source_endpoint_id (cl_code cl) \<noteq> cl_dest cl)"

definition world_ok :: "world \<Rightarrow> bool" where
  "world_ok w \<longleftrightarrow> db_ok (w_db w) \<and> routes_unique (w_db w) \<and> claims_ok w
     \<and> (\<forall>sn\<in>set (w_sends w). d_packet_id (sn_delivery sn) = p_packet_id (sn_packet sn))"

lemma maintenance_turn_ok:
  assumes "db_ok s"
  shows "db_ok (maintenance_turn env now s)"
  using cleanup_expired_ok [OF _ assms] assms
  by (auto simp: maintenance_turn_def session_scope_def split: sum.splits)

lemma maintenance_turn_routes: "directed_routes (maintenance_turn env now s) = directed_routes s"
  by (auto simp: maintenance_turn_def session_scope_def cleanup_expired_def Let_def same_requests_def
      dest!: get_runtime_settings_same_requests split: sum.splits)

lemma send_commit_routes: "directed_routes (fst (send_commit views node rq v p d s s)) = directed_routes s"
  by (auto simp: send_commit_def store_packet_Some split: option.splits)

lemma step_world_ok:
  assumes "step dp w w'" "world_ok w"
  shows "world_ok w'"
  using assms
proof (induction rule: step.induct)
  case (request stat cache dr rq c w t notified r)
  then have "t = fst (dispatch (dp_kdf dp) (dp_env dp) stat cache dr rq c (w_db w))" by simp
  with request show ?case by (simp add: world_ok_def claims_ok_def dispatch_ok dispatch_unique)
next
  case (begin_send stat dr payload node w v p d)
  then show ?case using send_check_ids [OF begin_send(1)] by (simp add: world_ok_def claims_ok_def)
next
  case (finish_send w before sn after views t notified r)
  let ?r = "send_commit views (sn_node sn) (sn_request sn) (sn_event sn) (sn_packet sn)
      (sn_delivery sn) (w_db w) (w_db w)"
  have "db_ok (fst ?r)" using finish_send by (intro send_commit_ok) (simp_all add: world_ok_def)
  moreover have "routes_unique (fst ?r)"
    by (rule unique_same [OF _ send_commit_routes]) (use finish_send in \<open>simp add: world_ok_def\<close>)
  ultimately show ?case using finish_send by (simp add: world_ok_def claims_ok_def)
next
  case (begin_redeem dr payload node w code)
  then show ?case using redeem_check_Inr(6) [OF begin_redeem(1)] by (auto simp: world_ok_def claims_ok_def)
next
  case (finish_redeem w before cl after t r)
  then have ne: "c_source_endpoint_id (cl_code cl) \<noteq> cl_dest cl" by (simp add: world_ok_def claims_ok_def)
  have "db_ok t" using redeem_claim_ok [of "w_db w"] finish_redeem by (metis fst_conv world_ok_def)
  moreover have "routes_unique t"
    using redeem_claim_unique [OF _ finish_redeem(2) ne] finish_redeem(3) by (simp add: world_ok_def)
  ultimately show ?case using finish_redeem by (simp add: world_ok_def claims_ok_def)
next
  case (maintain w now)
  then show ?case
    using maintenance_turn_ok unique_same [OF _ maintenance_turn_routes] by (simp add: world_ok_def claims_ok_def)
next
  case (administer w t)
  then have "db_ok t" using same_requests_db_ok [OF administer(1)] by (simp add: world_ok_def)
  moreover have "routes_unique t"
    by (rule unique_same [of "w_db w"]) (use administer in \<open>simp_all add: world_ok_def same_requests_def\<close>)
  ultimately show ?case using administer(2) by (simp add: world_ok_def claims_ok_def)
next
  case (admin_status i status w x t)
  have "db_ok (w_db w)" "routes_unique (w_db w)" using admin_status(2) by (simp_all add: world_ok_def)
  with admin_status show ?case
    by (auto simp: world_ok_def claims_ok_def intro: update_nodes_ok unique_same elim!: set_node_status_Inr)
next
  case (admin_revoke i w n t)
  have "db_ok (w_db w)" "routes_unique (w_db w)" using admin_revoke(2) by (simp_all add: world_ok_def)
  then have "db_ok t" "routes_unique t"
    using revoke_link_admin_Inr [OF admin_revoke(1)] fewer_routes_unique [OF fewer_routes_revoke]
    by (simp_all add: revoke_link_rows_ok)
  then show ?case using admin_revoke(2) by (simp add: world_ok_def claims_ok_def)
qed (simp_all add: world_ok_def claims_ok_def)

lemma reachable_world_ok:
  assumes "reachable dp s w" "db_ok s" "routes_unique s"
  shows "world_ok w"
  using assms(1)
proof (induction rule: reachable_induct)
  case init
  show ?case using assms(2,3) by (simp add: initial_world_def world_ok_def claims_ok_def)
qed (rule step_world_ok)

section \<open>A link code is redeemed at most once\<close>

text \<open>No row of the code is active; a code without a row counts.\<close>

definition spent :: "string \<Rightarrow> db \<Rightarrow> bool" where
  "spent i s \<longleftrightarrow> (\<forall>c\<in>set (link_codes s). c_link_code_id c = i \<longrightarrow> c_status c \<noteq> ''active'')"

lemma spent_same: "spent i s \<Longrightarrow> link_codes t = link_codes s \<Longrightarrow> spent i t"
  by (simp add: spent_def)

lemma spent_subset: "spent i s \<Longrightarrow> set (link_codes t) \<subseteq> set (link_codes s) \<Longrightarrow> spent i t"
  by (auto simp: spent_def)

lemma spent_update:
  assumes "spent i s" "link_codes t = update_where P (\<lambda>c. c\<lparr>c_status := st\<rparr>) (link_codes s)" "st \<noteq> ''active''"
  shows "spent i t"
  using assms(1,3) by (auto simp: spent_def assms(2) elim!: in_update_whereE split: if_splits)

lemma redeem_claim_spends:
  assumes "redeem_claim dr dest code s = (t, Inr l)"
  shows "\<not> spent (c_link_code_id code) s" "spent (c_link_code_id code) t"
proof -
  from assms have "\<not> spent (c_link_code_id code) s \<and> spent (c_link_code_id code) t"
  proof (rule redeem_claim_Inr)
    fix routes
    assume c: "count_where (\<lambda>c. c_link_code_id c = c_link_code_id code \<and> c_status c = ''active'') (link_codes s) = 1"
      and t: "t = (claim_code (c_link_code_id code) s)\<lparr>links := links s @ [l],
        directed_routes := directed_routes s @ route_rows dr routes\<rparr>"
    have "\<not> spent (c_link_code_id code) s"
    proof
      assume "spent (c_link_code_id code) s"
      then have "count_where (\<lambda>c. c_link_code_id c = c_link_code_id code \<and> c_status c = ''active'') (link_codes s) = 0"
        by (auto simp: spent_def count_where_0)
      with c show False by simp
    qed
    moreover have "spent (c_link_code_id code) t"
      unfolding t by (auto simp: spent_def claim_code_def elim!: in_update_whereE split: if_splits)
    ultimately show ?thesis ..
  qed
  then show "\<not> spent (c_link_code_id code) s" "spent (c_link_code_id code) t" by simp_all
qed

lemma redeem_claim_Inl: "redeem_claim dr dest code s = (t, Inl e) \<Longrightarrow> t = s"
  by (auto simp: redeem_claim_def Let_def check_def flush_def reject_def
      split: if_splits sum.splits option.splits)

lemma redeem_claim_spent:
  assumes "spent i s" "redeem_claim dr dest code s = (t, r)"
  shows "spent i t"
proof (cases r)
  case (Inl e)
  with assms redeem_claim_Inl show ?thesis by blast
next
  case (Inr l)
  from assms(2) [unfolded Inr] show ?thesis
    by (rule redeem_claim_Inr) (use assms(1) in \<open>auto simp: spent_def claim_code_def elim!: in_update_whereE\<close>)
qed

lemma redeem_check_spent:
  assumes "spent i s"
  shows "spent i (fst (redeem_check dr payload node s))"
proof -
  have "spent i (set_code_status j ''expired'' s)" for j
    by (rule spent_update [OF assms, where st = "''expired''"]) (simp_all add: set_code_status_def)
  with assms show ?thesis
    by (auto simp: redeem_check_def check_def split: sum.splits option.splits)
qed

lemma redeem_link_code_spent:
  assumes "spent i s"
  shows "spent i (fst (redeem_link_code dr payload node s))"
proof -
  obtain s0 r where c: "redeem_check dr payload node s = (s0, r)" by fastforce
  have s0: "spent i s0" using redeem_check_spent [OF assms, of dr payload node] c by simp
  then have "spent i (fst (redeem_claim dr dest code s0))" for dest code
    using redeem_claim_spent by (metis prod.collapse)
  with s0 show ?thesis by (simp add: redeem_link_code_def c split: sum.splits)
qed

lemma request_link_code_spent:
  assumes "spent i s" "dr_uuid dr 0 \<noteq> i"
  shows "spent i (fst (request_link_code cfg dr payload node s))"
  using assms by (auto simp: request_link_code_def check_def flush_def insert_link_code_def spent_def Let_def
      split: sum.splits option.splits)

lemma same_codes:
  "link_codes (fst (register pbkdf2 dr name s)) = link_codes s"
  "link_codes (fst (self_rotate_key pbkdf2 dr node s)) = link_codes s"
  "link_codes (fst (create_endpoint dr ec node s)) = link_codes s"
  "link_codes (fst (ack_packet dr ak node s)) = link_codes s"
  "link_codes (fst (revoke_link j node s)) = link_codes s"
  by (auto simp: register_def self_rotate_key_def create_endpoint_def ack_packet_def revoke_link_def
      revoke_link_rows_def generate_api_key_def check_def flush_def reject_def Let_def
      insert_node_def insert_endpoint_def split: sum.splits option.splits)

lemma delete_codes_subset:
  "set (link_codes (delete_endpoints P s)) \<subseteq> set (link_codes s)"
  "set (link_codes (delete_nodes Q s)) \<subseteq> set (link_codes s)"
proof -
  have e: "set (link_codes (delete_endpoints R u)) \<subseteq> set (link_codes u)" for R u
    by (auto simp: delete_endpoints_def detach_endpoints_def)
  show "set (link_codes (delete_endpoints P s)) \<subseteq> set (link_codes s)" by (rule e)
  show "set (link_codes (delete_nodes Q s)) \<subseteq> set (link_codes s)"
    using e by (auto simp: delete_nodes_def detach_nodes_def)
qed

lemma handle_spent:
  assumes "spent i s" "\<forall>k. dr_uuid dr k \<noteq> i"
  shows "spent i (fst (handle pbkdf2 env stat cache dr c node s))"
proof (cases c)
  case (DeleteEndpoint j)
  then show ?thesis
    using assms(1) spent_subset [OF assms(1) delete_codes_subset(1)]
    by (auto simp: handle_def delete_endpoint_def check_def Let_def split: sum.splits)
next
  case DeleteIdentity
  then show ?thesis
    using spent_subset [OF assms(1) delete_codes_subset(2)] by (simp add: handle_def delete_identity_fst)
next
  case (Redeem p)
  then show ?thesis using assms(1)
    by (simp add: handle_def handle_redeem_def redeem_link_code_spent split: option.splits)
next
  case (RequestCode p)
  then show ?thesis using assms by (simp add: handle_def handle_code_def request_link_code_spent)
qed (use assms(1) in \<open>auto simp: handle_def handle_send_fst handle_ack_def handle_inbox_def list_endpoints_def
    list_links_def Let_def check_def same_codes send_packet_frame split: option.splits sum.splits
    intro: spent_same\<close>)

lemma dispatch_spent:
  assumes "spent i s" "\<forall>k. dr_uuid dr k \<noteq> i"
  shows "spent i (fst (dispatch pbkdf2 env stat cache dr rq c s))"
proof -
  have "fst (health pbkdf2 (ae_cfg env) dr rq s) = s" "fst (stats pbkdf2 (ae_cfg env) dr rq s) = s"
    by (auto simp: health_def stats_def check_def Let_def split: sum.splits)
  then show ?thesis
    using assms(1) handle_spent [OF assms] spent_same [OF assms(1) same_codes(1)]
    by (auto simp: dispatch_def split: call.splits sum.splits)
qed

text \<open>A whole request that redeems a code: it was active before and is spent afterwards.\<close>

lemma dispatch_claims:
  assumes "dispatch pbkdf2 env stat cache dr rq c s = (t, notified, r)"
    and "i \<in> set (claimed_by (t, notified, r) s dr c)"
  shows "\<not> spent i s" "spent i t" "claimed_by (t, notified, r) s dr c = [i]"
proof -
  from assms(2) obtain p l k code where c: "c = Redeem p" "r = Inr (Linked l)" "normalize_code (lr_code p) = Some k"
    "fetch c_code k (link_codes s) = Some code" and i: "i = c_link_code_id code"
    by (auto simp: claimed_by_def opt_list_def split: call.splits sum.splits answer.splits option.splits)
      (metis option.inject)
  with assms(2) show "claimed_by (t, notified, r) s dr c = [i]" by (simp add: claimed_by_def opt_list_def)
  from assms(1) c obtain node where "redeem_link_code dr (p\<lparr>lr_code := k\<rparr>) node s = (t, Inr l)"
    by (auto simp: dispatch_def handle_def handle_redeem_def answer_with_def invalid_def
        map_sum_def prod_eq_iff split: sum.splits)
  then obtain s0 code' where ch: "redeem_check dr (p\<lparr>lr_code := k\<rparr>) node s = (s0, Inr code')"
    and cl: "redeem_claim dr (lr_destination_endpoint_id p) code' s0 = (t, Inr l)"
    by (auto simp: redeem_link_code_def split: prod.splits sum.splits)
  have "code' = code"
    using ch c(4) by (auto simp: redeem_check_def check_def reject_def split: sum.splits option.splits if_splits)
  with cl redeem_check_Inr(1) [OF ch] redeem_claim_spends show "\<not> spent i s" "spent i t"
    unfolding i by blast+
qed

lemma maintenance_turn_spent:
  assumes "spent i s"
  shows "spent i (maintenance_turn env now s)"
proof (cases "cleanup_expired env now s")
  case (Inr x)
  obtain r t where x: "x = (r, t)" by fastforce
  with Inr obtain rt u where u: "get_runtime_settings env now s = Inr (rt, u)"
    and t: "link_codes t = link_codes (expire_codes now u)"
    by (auto simp: cleanup_expired_def Let_def split: sum.splits)
  have "spent i u"
    using assms get_runtime_settings_same_requests [OF u] by (simp add: spent_def same_requests_def)
  then have "spent i (expire_codes now u)"
    by (rule spent_update [where st = "''expired''"]) (simp_all add: expire_codes_def)
  then have "spent i t" using t by (rule spent_same)
  with Inr x show ?thesis by (simp add: maintenance_turn_def session_scope_def)
qed (use assms in \<open>simp add: maintenance_turn_def session_scope_def\<close>)

definition claimed_ok :: "world \<Rightarrow> bool" where
  "claimed_ok w \<longleftrightarrow> distinct (w_claimed w) \<and> (\<forall>i\<in>set (w_claimed w). spent i (w_db w))"

lemma step_claimed_ok:
  assumes "step dp w w'" "claimed_ok w"
  shows "claimed_ok w'"
  using assms
proof (induction rule: step.induct)
  case (request stat cache dr rq c w t notified r)
  let ?new = "claimed_by (t, notified, r) (w_db w) dr c"
  have t: "t = fst (dispatch (dp_kdf dp) (dp_env dp) stat cache dr rq c (w_db w))" using request(1) by simp
  have old: "spent i t" if "i \<in> set (w_claimed w)" for i
    unfolding t by (rule dispatch_spent) (use request that in \<open>auto simp: claimed_ok_def\<close>)
  show ?case
  proof (cases ?new)
    case Nil
    with old request(3) show ?thesis by (simp add: claimed_ok_def)
  next
    case (Cons i js)
    then have "i \<in> set ?new" by simp
    note n = dispatch_claims [OF request(1) this]
    from n(1) request(3) have "i \<notin> set (w_claimed w)" by (auto simp: claimed_ok_def)
    with n old request(3) show ?thesis by (simp add: claimed_ok_def)
  qed
next
  case (finish_send w before sn after views t notified r)
  have "link_codes t = link_codes (w_db w)"
    using finish_send(2) by (auto simp: send_commit_def store_packet_Some split: option.splits)
  with finish_send(3) show ?case by (simp add: claimed_ok_def spent_def)
next
  case (finish_redeem w before cl after t r)
  have old: "spent i t" if "i \<in> set (w_claimed w)" for i
    using redeem_claim_spent [OF _ finish_redeem(2)] that finish_redeem(3) by (auto simp: claimed_ok_def)
  show ?case
  proof (cases r)
    case (Inl e)
    with old finish_redeem(3) show ?thesis by (simp add: claimed_ok_def)
  next
    case (Inr l)
    note n = redeem_claim_spends [OF finish_redeem(2) [unfolded Inr]]
    with old finish_redeem(3) Inr show ?thesis by (auto simp: claimed_ok_def)
  qed
next
  case (maintain w now)
  have "spent i (maintenance_turn (dp_env dp) now (w_db w))" if "spent i (w_db w)" for i
    using that by (rule maintenance_turn_spent)
  with maintain show ?case by (simp add: claimed_ok_def)
next
  case (administer w t)
  then show ?case by (simp add: claimed_ok_def same_requests_def spent_def)
next
  case (admin_status i status w x t)
  from admin_status(1) have "link_codes t = link_codes (w_db w)" by (rule set_node_status_Inr) simp
  with admin_status(2) show ?case by (simp add: claimed_ok_def spent_def)
next
  case (admin_revoke i w n t)
  have "link_codes t = link_codes (w_db w)"
    using revoke_link_admin_Inr [OF admin_revoke(1)] by (simp add: revoke_link_rows_def)
  with admin_revoke(2) show ?case by (simp add: claimed_ok_def spent_def)
qed (simp_all add: claimed_ok_def)

section \<open>No wake-up is lost\<close>

text \<open>A delivery that a fetch for the node would return, and a wake-up that is on its way.\<close>

definition visible :: "time \<Rightarrow> string \<Rightarrow> db \<Rightarrow> bool" where
  "visible now n s \<longleftrightarrow> (\<exists>(d, p)\<in>set (joined s). packet_active now p \<and> d_destination_node_id d = n \<and> d_state d = ''queued'')"

definition wake_pending :: "world \<Rightarrow> string \<Rightarrow> bool" where
  "wake_pending w n \<longleftrightarrow> n \<in> set (w_committed w) \<union> set (w_scheduled w)"

lemma visible_later: "visible now' n s \<Longrightarrow> now \<le> now' \<Longrightarrow> visible now n s"
  unfolding visible_def packet_active_iff by (blast dest: expired_mono)

lemma visible_arrives:
  "visible now n t \<Longrightarrow> arrives s t notified \<Longrightarrow> visible now n s \<or> notified = Some n"
  by (fastforce simp: visible_def arrives_def)

lemma fetch_empty:
  assumes "fetch_inbox_deliveries now n limit s = []" "limit \<noteq> 0"
  shows "\<not> visible now n s"
proof
  assume "visible now n s"
  then obtain d p where "(d, p) \<in> set (inbox_rows now n s)" by (auto simp: visible_def set_joined)
  then have "inbox_rows now n s \<noteq> []" by (metis empty_iff empty_set)
  moreover have "sql_limit limit (inbox_rows now n s) = []" using assms(1) by (simp add: fetch_inbox_rows)
  ultimately show False using assms(2) by (auto simp: sql_limit_def split: if_splits)
qed

definition version_of :: "world \<Rightarrow> string \<Rightarrow> nat" where
  "version_of w n = ns_version (slot_of (w_notifier w) n)"

definition waiters_of :: "world \<Rightarrow> string \<Rightarrow> nat list" where
  "waiters_of w n = ns_waiters (slot_of (w_notifier w) n)"

definition poll_inv :: "world \<Rightarrow> poll \<Rightarrow> bool" where
  "poll_inv w pl \<longleftrightarrow> pl_limit pl \<noteq> 0 \<and> nf_loop (w_notifier w) \<noteq> None \<and>
     (let n = pl_node pl; new = visible (w_now w) n (w_db w) \<longrightarrow> wake_pending w n in
      case pl_pc pl of
        Snapped v \<Rightarrow> v \<le> version_of w n
      | Empty v \<Rightarrow> v \<le> version_of w n \<and> (v = version_of w n \<longrightarrow> new)
      | Waiting v f \<Rightarrow> f < nf_next (w_notifier w)
          \<and> (nf_futures (w_notifier w) f = Pending \<longrightarrow> f \<in> set (waiters_of w n) \<and> new)
      | _ \<Rightarrow> True)"

definition polls_inv :: "world \<Rightarrow> bool" where
  "polls_inv w \<longleftrightarrow> (\<forall>i pl. w_polls w i = Some pl \<longrightarrow> poll_inv w pl)
     \<and> (\<forall>i j pl pl' v v' f. w_polls w i = Some pl \<longrightarrow> w_polls w j = Some pl' \<longrightarrow>
          pl_pc pl = Waiting v f \<longrightarrow> pl_pc pl' = Waiting v' f \<longrightarrow> i = j)"

lemma polls_invD: "polls_inv w \<Longrightarrow> w_polls w i = Some pl \<Longrightarrow> poll_inv w pl"
  by (simp add: polls_inv_def)

text \<open>A step of the other threads: the store changes, and what it queues is on its way.\<close>

lemma polls_inv_db:
  assumes "polls_inv w" "arrives (w_db w) (w_db w') notified" "w_now w' = w_now w"
    and "w_committed w' = w_committed w @ opt_list notified" "w_scheduled w' = w_scheduled w"
    and "w_notifier w' = w_notifier w" "w_polls w' = w_polls w"
  shows "polls_inv w'"
proof -
  have new: "visible (w_now w') n (w_db w') \<longrightarrow> wake_pending w' n"
    if "visible (w_now w) n (w_db w) \<longrightarrow> wake_pending w n" for n
    using that visible_arrives [OF _ assms(2)] assms(3-5) by (auto simp: wake_pending_def opt_list_def)
  have "poll_inv w' pl" if "poll_inv w pl" for pl
    using that new [of "pl_node pl"] assms(6)
    by (auto simp: poll_inv_def Let_def version_of_def waiters_of_def split: poll_pc.splits)
  with assms(1,7) show ?thesis by (simp add: polls_inv_def)
qed

lemma polls_inv_same:
  assumes "polls_inv w" "w_notifier w' = w_notifier w" "\<And>m. wake_pending w m \<Longrightarrow> wake_pending w' m"
    and "w_db w' = w_db w" "w_now w' = w_now w" "w_polls w' = w_polls w"
  shows "polls_inv w'"
proof -
  have "poll_inv w' pl" if "poll_inv w pl" for pl
    using that assms(2-5) by (auto simp: poll_inv_def Let_def version_of_def waiters_of_def split: poll_pc.splits)
  with assms(1,6) show ?thesis by (simp add: polls_inv_def)
qed

text \<open>A wake-up that runs resolves the waiting futures of its node and moves its version.\<close>

lemma polls_inv_notify:
  assumes "polls_inv w" "w_notifier w' = notify_in_loop n (w_notifier w)"
    and "\<And>m. m \<noteq> n \<Longrightarrow> wake_pending w m \<Longrightarrow> wake_pending w' m"
    and "w_db w' = w_db w" "w_now w' = w_now w" "w_polls w' = w_polls w"
  shows "polls_inv w'"
proof -
  have "poll_inv w' pl" if "poll_inv w pl" for pl
    using that assms(3) [of "pl_node pl"] assms(2,4,5)
    by (cases "pl_node pl = n") (auto simp: poll_inv_def Let_def version_of_def waiters_of_def futures_notify
        split: poll_pc.splits)
  with assms(1,6) show ?thesis by (simp add: polls_inv_def)
qed

text \<open>A move of one poll leaves the others as they are.\<close>

lemma poll_inv_other:
  assumes "poll_inv w pl" "w_db w' = w_db w" "w_now w' = w_now w" "w_committed w' = w_committed w"
    and "w_scheduled w' = w_scheduled w" "nf_loop (w_notifier w') \<noteq> None"
    and "\<And>m. version_of w' m = version_of w m" "nf_next (w_notifier w) \<le> nf_next (w_notifier w')"
    and "\<And>v f. pl_pc pl = Waiting v f \<Longrightarrow> nf_futures (w_notifier w') f = nf_futures (w_notifier w) f
      \<and> (f \<in> set (waiters_of w (pl_node pl)) \<longrightarrow> f \<in> set (waiters_of w' (pl_node pl)))"
  shows "poll_inv w' pl"
  using assms by (auto simp: poll_inv_def Let_def wake_pending_def split: poll_pc.splits)

lemma poll_move_frame:
  assumes "poll_move now mclock s pl nf0 = (pl', nf)"
  shows "nf_loop nf = nf_loop nf0 \<and> (\<forall>m. ns_version (slot_of nf m) = ns_version (slot_of nf0 m))
     \<and> nf_next nf0 \<le> nf_next nf
     \<and> (\<forall>f. f < nf_next nf0 \<longrightarrow> (\<forall>v. pl_pc pl \<noteq> Waiting v f) \<longrightarrow> nf_futures nf f = nf_futures nf0 f
          \<and> (\<forall>m. f \<in> set (ns_waiters (slot_of nf0 m)) \<longrightarrow> f \<in> set (ns_waiters (slot_of nf m))))
     \<and> (\<forall>v f. pl_pc pl' = Waiting v f \<longrightarrow> pl_pc pl = Waiting v f \<or> f = nf_next nf0)"
  using assms
  by (auto simp: poll_move_def Let_def snapshot_def wait_begin_def slot_of_abandon abandon_frame
      split: poll_pc.splits if_splits future_state.splits prod.splits sum.splits)

lemma poll_move_inv:
  assumes inv: "polls_inv w" and i: "w_polls w i = Some pl"
    and move: "poll_move (w_now w) (w_mono w) (w_db w) pl (w_notifier w) = (pl', nf)"
  shows "polls_inv (w\<lparr>w_polls := (w_polls w)(i \<mapsto> pl'), w_notifier := nf\<rparr>)" (is "polls_inv ?w")
proof -
  have pl: "poll_inv w pl" using polls_invD [OF inv i] .
  note frame = poll_move_frame [OF move]
  have bound: "f < nf_next (w_notifier w)" if "w_polls w j = Some q" "pl_pc q = Waiting v f" for j q v f
    using polls_invD [OF inv that(1)] that(2) by (simp add: poll_inv_def Let_def)
  have mine: "poll_inv ?w pl'"
    using pl move fetch_empty
    by (auto simp: poll_inv_def poll_move_def Let_def version_of_def waiters_of_def wake_pending_def
        snapshot_def wait_begin_def slot_of_abandon abandon_frame new_slot_def
        split: poll_pc.splits if_splits future_state.splits prod.splits sum.splits)
  have apart: "pl_pc pl \<noteq> Waiting v' f" if "j \<noteq> i" "w_polls w j = Some q" "pl_pc q = Waiting v f" for j q v v' f
    using inv that i unfolding polls_inv_def by blast
  have other: "poll_inv ?w q" if "j \<noteq> i" "w_polls w j = Some q" for j q
  proof (rule poll_inv_other [OF polls_invD [OF inv that(2)]])
    show "nf_loop (w_notifier ?w) \<noteq> None" using frame pl by (simp add: poll_inv_def)
    show "nf_futures (w_notifier ?w) f = nf_futures (w_notifier w) f
        \<and> (f \<in> set (waiters_of w (pl_node q)) \<longrightarrow> f \<in> set (waiters_of ?w (pl_node q)))"
      if "pl_pc q = Waiting v f" for v f
      using frame apart [OF \<open>j \<noteq> i\<close> \<open>w_polls w j = Some q\<close> that] bound [OF \<open>w_polls w j = Some q\<close> that]
      by (simp add: waiters_of_def)
  qed (use frame in \<open>simp_all add: version_of_def\<close>)
  have "j = k" if "w_polls ?w j = Some q" "w_polls ?w k = Some q'" "pl_pc q = Waiting v f" "pl_pc q' = Waiting v' f"
    for j k q q' v v' f
  proof -
    have *: "j = i" if "w_polls ?w j = Some q" "pl_pc q = Waiting v f" "pl_pc pl' = Waiting v' f" for j q v v' f
    proof (rule ccontr)
      assume "j \<noteq> i"
      with that have q: "w_polls w j = Some q" by simp
      from frame that(3) have "pl_pc pl = Waiting v' f \<or> f = nf_next (w_notifier w)" by blast
      with apart [OF \<open>j \<noteq> i\<close> q that(2)] bound [OF q that(2)] show False by auto
    qed
    show ?thesis
    proof (cases "j = i")
      case True
      with that(1) have "q = pl'" by simp
      with * [OF that(2,4)] that(3) True show ?thesis by simp
    next
      case False
      show ?thesis
      proof (cases "k = i")
        case True
        with that(2) have "q' = pl'" by simp
        with * [OF that(1,3)] that(4) True show ?thesis by simp
      next
        case k: False
        from False k that(1,2) have "w_polls w j = Some q" "w_polls w k = Some q'" by simp_all
        with inv that(3,4) show ?thesis unfolding polls_inv_def by blast
      qed
    qed
  qed
  note uniq = this
  show ?thesis
    unfolding polls_inv_def
  proof (intro conjI allI impI)
    show "poll_inv ?w q" if "w_polls ?w j = Some q" for j q
      using that mine other by (cases "j = i") simp_all
    show "j = k" if "w_polls ?w j = Some q" "w_polls ?w k = Some q'" "pl_pc q = Waiting v f" "pl_pc q' = Waiting v' f"
      for j k q q' v v' f
      by (rule uniq [OF that])
  qed
qed

lemma notify_cases:
  assumes "notify (\<lambda>_. False) thread n nf0 = (nf, later)"
  shows "nf_loop nf0 = None \<and> nf = nf0 \<or> nf = notify_in_loop n nf0 \<or> nf = nf0 \<and> later = [n]"
  using assms by (auto simp: notify_def split: option.splits if_splits)

lemma bind_frame:
  assumes "bind_running_loop closed loop thread nf0 = Some nf"
  shows "nf_loop nf \<noteq> None" "slot_of nf = slot_of nf0" "nf_futures nf = nf_futures nf0" "nf_next nf = nf_next nf0"
  using assms by (auto simp: bind_running_loop_def slot_of_def fun_eq_iff split: option.splits if_splits)

lemma maintenance_arrives: "arrives s (maintenance_turn env now s) None"
proof (rule arrives_subset)
  show "set (deliveries (maintenance_turn env now s)) \<subseteq> set (deliveries s)"
    "set (packets (maintenance_turn env now s)) \<subseteq> set (packets s)"
    by (auto simp: maintenance_turn_def session_scope_def cleanup_expired_def Let_def same_requests_def
        dest!: get_runtime_settings_same_requests split: sum.splits)
qed

lemma step_polls_inv:
  assumes "step dp w w'" "world_ok w" "polls_inv w"
  shows "polls_inv w'"
  using assms
proof (induction rule: step.induct)
  case (tick w now mclock)
  then show ?case
    using visible_later by (fastforce simp: polls_inv_def poll_inv_def Let_def version_of_def waiters_of_def
        wake_pending_def split: poll_pc.splits)
next
  case (request stat cache dr rq c w t notified r)
  then show ?case
    using dispatch_arrives [OF _ request(1)] by (auto simp: world_ok_def intro: polls_inv_db [of w])
next
  case (begin_send stat dr payload node w v p d)
  then show ?case by (auto simp: opt_list_def intro: polls_inv_db [of w _ None])
next
  case (finish_send w before sn after views t notified r)
  then have "arrives (w_db w) t notified"
    by (intro send_commit_arrives [OF finish_send(2)]) (simp_all add: world_ok_def)
  then show ?case using finish_send(4) by (auto intro: polls_inv_db [of w])
next
  case (begin_redeem dr payload node w code)
  then show ?case by (auto simp: opt_list_def intro: polls_inv_db [of w _ None])
next
  case (finish_redeem w before cl after t r)
  then have "arrives (w_db w) t None"
    using redeem_claim_queue [of "cl_draws cl" "cl_dest cl" "cl_code cl" "w_db w"] by (simp add: arrives_same)
  then show ?case using finish_redeem(4) by (auto simp: opt_list_def intro: polls_inv_db [of w _ None])
next
  case (maintain w now)
  then show ?case using maintenance_arrives by (auto simp: opt_list_def intro: polls_inv_db [of w _ None])
next
  case (administer w t)
  then have "arrives (w_db w) t None" by (simp add: arrives_same same_requests_def)
  then show ?case using administer(3) by (auto simp: opt_list_def intro: polls_inv_db [of w _ None])
next
  case (admin_status i status w x t)
  from admin_status(1) have "arrives (w_db w) t None" by (rule set_node_status_Inr) (simp add: arrives_same)
  then show ?case using admin_status(3) by (auto simp: opt_list_def intro: polls_inv_db [of w _ None])
next
  case (admin_revoke i w n t)
  have "arrives (w_db w) t None"
    using revoke_link_admin_Inr [OF admin_revoke(1)] by (simp add: arrives_same revoke_link_rows_def)
  then show ?case using admin_revoke(3) by (auto simp: opt_list_def intro: polls_inv_db [of w _ None])
next
  case (call_notify w before n after thread nf later)
  consider "nf_loop (w_notifier w) = None" | "nf = notify_in_loop n (w_notifier w)"
    | "nf = w_notifier w" "later = [n]"
    using notify_cases [OF call_notify(2)] by metis
  then show ?case
  proof cases
    case 1
    then have "w_polls w i = None" for i using call_notify(4) by (auto simp: polls_inv_def poll_inv_def)
    then show ?thesis by (simp add: polls_inv_def)
  next
    case 2
    show ?thesis
      by (rule polls_inv_notify [OF call_notify(4), of _ n]) (use call_notify(1) 2 in \<open>auto simp: wake_pending_def\<close>)
  next
    case 3
    show ?thesis
      by (rule polls_inv_same [OF call_notify(4)]) (use call_notify(1) 3 in \<open>auto simp: wake_pending_def\<close>)
  qed
next
  case (run_notify w n later)
  show ?case
    by (rule polls_inv_notify [OF run_notify(3), of _ n]) (use run_notify(1) in \<open>auto simp: wake_pending_def\<close>)
next
  case (start_poll w i limit nf n deadline)
  note fr = bind_frame [OF start_poll(3)]
  have old: "poll_inv (w\<lparr>w_notifier := nf, w_polls := P\<rparr>) pl" if "poll_inv w pl" for pl P
    by (rule poll_inv_other [OF that]) (use fr in \<open>simp_all add: version_of_def waiters_of_def\<close>)
  show ?case
    using start_poll(1,2,5) old fr(1) unfolding polls_inv_def
    by (auto simp: poll_inv_def [of _ "\<lparr>pl_node = n, pl_limit = limit, pl_deadline = deadline, pl_pc = Top\<rparr>"] Let_def)
next
  case (move_poll w i pl pl' nf)
  then show ?case by (intro poll_move_inv)
qed

lemma reachable_polls_inv:
  assumes "reachable dp s w" "db_ok s" "routes_unique s"
  shows "polls_inv w"
  using assms(1)
proof (induction rule: reachable_induct)
  case init
  show ?case by (simp add: polls_inv_def initial_world_def)
next
  case (step w w')
  from step(2) reachable_world_ok [OF step(1) assms(2,3)] step(3) show ?case by (rule step_polls_inv)
qed

section \<open>A concrete run\<close>

text \<open>A poll of \<open>n2\<close> starts to wait, then \<open>n1\<close> sends it a packet.\<close>

definition demo_deployment :: deployment where
  "demo_deployment = \<lparr>dp_kdf = (\<lambda>p s i. p), dp_env = default_env, dp_loop = 0, dp_thread = 0\<rparr>"

definition demo_notifier :: notifier where
  "demo_notifier = new_notifier\<lparr>nf_loop := Some (0, 0)\<rparr>"

definition demo_poll :: "poll_pc \<Rightarrow> poll" where
  "demo_poll pc = \<lparr>pl_node = ''n2'', pl_limit = 5, pl_deadline = 100, pl_pc = pc\<rparr>"

definition demo_world :: "notifier \<Rightarrow> poll_pc \<Rightarrow> world" where
  "demo_world nf pc = (initial_world demo_db)\<lparr>w_notifier := nf, w_polls := [0 \<mapsto> demo_poll pc]\<rparr>"

definition demo_waiting :: notifier where
  "demo_waiting = snd (wait_begin ''n2'' 0 (snd (snapshot ''n2'' demo_notifier)))"

definition demo_pending :: pending_send where
  "demo_pending = \<lparr>sn_node = demo_node ''n1'', sn_request = demo_send ''p'', sn_event = demo_event,
     sn_packet = demo_packet, sn_delivery = demo_delivery\<rparr>"

definition demo_arrived :: world where
  "demo_arrived = (demo_world demo_waiting (Waiting 0 0))\<lparr>w_db := demo_sent, w_committed := [''n2'']\<rparr>"

lemma demo_slot: "slot_of demo_notifier m = new_slot" "nf_next demo_notifier = 0"
  by (simp_all add: demo_notifier_def new_notifier_def slot_of_def)

lemma demo_world_move:
  assumes "poll_move 0 0 demo_db (demo_poll pc) nf = (demo_poll pc', nf')"
  shows "step dp (demo_world nf pc) (demo_world nf' pc')"
  using move_poll [of "demo_world nf pc" 0 "demo_poll pc" "demo_poll pc'" nf' dp] assms
  by (simp add: demo_world_def initial_world_def)

lemma demo_run: "reachable demo_deployment demo_db demo_arrived"
proof -
  let ?S = "step demo_deployment"
  let ?nf = "snd (snapshot ''n2'' demo_notifier)"
  have 1: "?S (initial_world demo_db) (demo_world demo_notifier Top)"
    using start_poll [of "initial_world demo_db" 0 5 demo_deployment demo_notifier "''n2''" 100]
    by (simp add: initial_world_def demo_world_def demo_poll_def demo_deployment_def bind_running_loop_def
        new_notifier_def demo_notifier_def)
  have 2: "?S (demo_world demo_notifier Top) (demo_world ?nf (Snapped 0))"
    by (rule demo_world_move) (simp add: poll_move_def demo_poll_def snapshot_def Let_def demo_slot new_slot_def)
  have "fetch_inbox_deliveries 0 ''n2'' 5 demo_db = []"
    by (simp add: fetch_inbox_deliveries_def active_joined_def sql_limit_def)
  then have 3: "?S (demo_world ?nf (Snapped 0)) (demo_world ?nf (Empty 0))"
    by (intro demo_world_move) (simp add: poll_move_def demo_poll_def Let_def)
  have 4: "?S (demo_world ?nf (Empty 0)) (demo_world demo_waiting (Waiting 0 0))"
    by (rule demo_world_move)
      (simp add: poll_move_def demo_poll_def demo_waiting_def wait_begin_def Let_def demo_slot new_slot_def)
  have 5: "?S (demo_world demo_waiting (Waiting 0 0))
      ((demo_world demo_waiting (Waiting 0 0))\<lparr>w_sends := [demo_pending]\<rparr>)"
    using begin_send [of demo_deployment "\<lambda>_. None" "demo_draws 10 ''x''" "demo_send ''p''" "demo_node ''n1''"
        "demo_world demo_waiting (Waiting 0 0)" demo_event demo_packet demo_delivery] demo_send_check
    by (simp add: demo_world_def initial_world_def demo_deployment_def demo_pending_def)
  have 6: "?S ((demo_world demo_waiting (Waiting 0 0))\<lparr>w_sends := [demo_pending]\<rparr>) demo_arrived"
    using finish_send [of "(demo_world demo_waiting (Waiting 0 0))\<lparr>w_sends := [demo_pending]\<rparr>" "[]" demo_pending
        "[]" "[]" demo_sent "Some ''n2''" "Inr (demo_response ''accepted'')" demo_deployment]
    by (simp add: demo_arrived_def demo_world_def initial_world_def demo_pending_def demo_commit opt_list_def)
  from 1 2 3 4 5 6 show ?thesis
    unfolding reachable_def by (meson rtranclp.rtrancl_into_rtrancl rtranclp.rtrancl_refl)
qed

section \<open>Properties\<close>

text \<open>
  C5: The store stays well formed in every reachable state of the server, with any interleaving of
  the halves of sends and redemptions, maintenance and administration: primary keys and unique
  columns are distinct and every foreign key refers to a row, so no delivery lacks its packet.
\<close>

theorem store_well_formed:
  assumes "reachable dp s w" "db_ok s" "routes_unique s"
  shows "db_ok (w_db w)"
  using reachable_world_ok [OF assms] by (simp add: world_ok_def)

theorem store_well_formed_witness: "db_ok (w_db demo_arrived)"
  by (rule store_well_formed [OF demo_run]) simp_all

text \<open>
  C6: In every reachable state an ordered pair of endpoints has at most one active directed route,
  although the redemption checks this in Python and the table has no such constraint.
\<close>

theorem one_active_route:
  assumes "reachable dp s w" "db_ok s" "routes_unique s"
  shows "distinct (map (\<lambda>r. (r_from_endpoint_id r, r_to_endpoint_id r))
    (filter (\<lambda>r. r_status r = ''active'') (directed_routes (w_db w))))"
  using reachable_world_ok [OF assms] by (simp add: world_ok_def routes_unique_def active_pairs_def)

theorem one_active_route_witness:
  "distinct (map (\<lambda>r. (r_from_endpoint_id r, r_to_endpoint_id r))
    (filter (\<lambda>r. r_status r = ''active'') (directed_routes (w_db demo_arrived))))"
  by (rule one_active_route [OF demo_run]) simp_all

lemma reachable_claimed_ok: "reachable dp s w \<Longrightarrow> claimed_ok w"
proof (induction rule: reachable_induct)
  case init
  show ?case by (simp add: claimed_ok_def initial_world_def)
qed (rule step_claimed_ok)

text \<open>
  C2: A link code is redeemed at most once, however the checks and claims of concurrent redeemers
  interleave: along every run each code occurs at most once among the successful redemptions, and
  any later claim of such a code is answered with 409 and changes nothing.
\<close>

theorem redeemed_at_most_once:
  assumes "reachable dp s w"
  shows "distinct (w_claimed w)
     \<and> (\<forall>code dr dest. c_link_code_id code \<in> set (w_claimed w) \<longrightarrow>
          redeem_claim dr dest code (w_db w) = (w_db w, Inl (HTTPException 409 ''link code not active'')))"
proof -
  have "redeem_claim dr dest code (w_db w) = (w_db w, Inl (HTTPException 409 ''link code not active''))"
    if "spent (c_link_code_id code) (w_db w)" for code dr dest
  proof -
    from that have "count_where (\<lambda>c. c_link_code_id c = c_link_code_id code \<and> c_status c = ''active'')
        (link_codes (w_db w)) = 0"
      by (auto simp: spent_def count_where_0)
    then show ?thesis by (simp add: redeem_claim_def Let_def reject_def)
  qed
  with reachable_claimed_ok [OF assms] show ?thesis by (simp add: claimed_ok_def)
qed

text \<open>Two redeemers have both found the code active; the first one's claim succeeds, the second one's is refused.\<close>

definition demo_claim :: "string \<Rightarrow> pending_claim" where
  "demo_claim tag = \<lparr>cl_draws = demo_draws 10 tag, cl_dest = ''e2'', cl_code = demo_code\<rparr>"

definition demo_contested :: "db \<Rightarrow> world" where
  "demo_contested t = (initial_world demo_coded)\<lparr>w_db := t, w_claims := [demo_claim ''y''], w_claimed := [''c'']\<rparr>"

lemma demo_redeem_race: "\<exists>t l. redeem_claim (demo_draws 10 ''x'') ''e2'' demo_code demo_coded = (t, Inr l)
    \<and> reachable demo_deployment demo_coded (demo_contested t)"
proof -
  let ?S = "step demo_deployment"
  let ?w = "initial_world demo_coded"
  obtain t l where t: "redeem_claim (demo_draws 10 ''x'') ''e2'' demo_code demo_coded = (t, Inr l)"
    using demo_redeemed by (simp add: redeem_link_code_def demo_redeem_check) (auto simp: demo_redeem_def)
  have 1: "?S ?w (?w\<lparr>w_claims := [demo_claim ''x'']\<rparr>)"
    using begin_redeem [of "demo_draws 10 ''x''" demo_redeem "demo_node ''n2''" ?w demo_code demo_deployment]
      demo_redeem_check [of "''x''"] by (simp add: initial_world_def demo_claim_def demo_redeem_def)
  have 2: "?S (?w\<lparr>w_claims := [demo_claim ''x'']\<rparr>) (?w\<lparr>w_claims := [demo_claim ''x'', demo_claim ''y'']\<rparr>)"
    using begin_redeem [of "demo_draws 10 ''y''" demo_redeem "demo_node ''n2''" "?w\<lparr>w_claims := [demo_claim ''x'']\<rparr>"
        demo_code demo_deployment] demo_redeem_check [of "''y''"]
    by (simp add: initial_world_def demo_claim_def demo_redeem_def)
  have 3: "?S (?w\<lparr>w_claims := [demo_claim ''x'', demo_claim ''y'']\<rparr>) (demo_contested t)"
    using finish_redeem [of "?w\<lparr>w_claims := [demo_claim ''x'', demo_claim ''y'']\<rparr>" "[]" "demo_claim ''x''"
        "[demo_claim ''y'']" t "Inr l" demo_deployment] t
    by (simp add: initial_world_def demo_claim_def demo_contested_def demo_code_def)
  from 1 2 3 have "reachable demo_deployment demo_coded (demo_contested t)"
    unfolding reachable_def by (meson rtranclp.rtrancl_into_rtrancl rtranclp.rtrancl_refl)
  with t show ?thesis by blast
qed

theorem redeemed_at_most_once_witness:
  "\<exists>t l. redeem_claim (demo_draws 10 ''x'') ''e2'' demo_code demo_coded = (t, Inr l)
     \<and> redeem_claim (demo_draws 10 ''y'') ''e2'' demo_code t = (t, Inl (HTTPException 409 ''link code not active''))"
proof -
  obtain t l where t: "redeem_claim (demo_draws 10 ''x'') ''e2'' demo_code demo_coded = (t, Inr l)"
    "reachable demo_deployment demo_coded (demo_contested t)" using demo_redeem_race by blast
  have "c_link_code_id demo_code \<in> set (w_claimed (demo_contested t))" "w_db (demo_contested t) = t"
    by (simp_all add: demo_contested_def demo_code_def)
  with redeemed_at_most_once [OF t(2)] t(1) show ?thesis by metis
qed

text \<open>
  C1: No wake-up is lost: in every reachable state, if a poll waits on a pending future although a
  delivery that it would return is stored, then the commit that stored it has its \<open>notify\<close> still
  to come or scheduled, and running that wake-up resolves the very future the poll waits on.
\<close>

theorem no_lost_wakeup:
  assumes "reachable dp s w" "db_ok s" "routes_unique s"
    and "w_polls w i = Some pl" "pl_pc pl = Waiting v f" "nf_futures (w_notifier w) f = Pending"
    and "fetch_inbox_deliveries (w_now w) (pl_node pl) (pl_limit pl) (w_db w) \<noteq> []"
  shows "(pl_node pl \<in> set (w_committed w) \<or> pl_node pl \<in> set (w_scheduled w))
     \<and> (\<exists>k. nf_futures (notify_in_loop (pl_node pl) (w_notifier w)) f = Resolved k)"
proof -
  have pl: "poll_inv w pl" using polls_invD [OF reachable_polls_inv [OF assms(1-3)] assms(4)] .
  from assms(7) have "inbox_rows (w_now w) (pl_node pl) (w_db w) \<noteq> []"
    by (auto simp: fetch_inbox_rows sql_limit_def split: if_splits)
  then obtain d p where "(d, p) \<in> set (inbox_rows (w_now w) (pl_node pl) (w_db w))"
    by (metis list.set_sel(1) surj_pair)
  then have "visible (w_now w) (pl_node pl) (w_db w)" by (auto simp: visible_def set_joined)
  with pl assms(5,6) show ?thesis
    by (auto simp: poll_inv_def Let_def wake_pending_def waiters_of_def futures_notify)
qed

lemma demo_sent_inbox: "fetch_inbox_deliveries 0 ''n2'' 5 demo_sent \<noteq> []"
  by (simp add: fetch_inbox_deliveries_def active_joined_def joined_demo_sent sql_limit_def)
    (simp add: new_packet_def packet_active_def new_delivery_def demo_node_def)

theorem no_lost_wakeup_witness: "''n2'' \<in> set (w_committed demo_arrived)"
  using no_lost_wakeup [OF demo_run, of 0 "demo_poll (Waiting 0 0)" 0 0] demo_sent_inbox
  by (simp add: demo_arrived_def demo_world_def initial_world_def demo_poll_def demo_waiting_def
      wait_begin_def Let_def demo_slot new_slot_def)

text \<open>
  C12: A long poll ends: once the monotonic clock has reached its deadline, at most three further moves,
  with whatever stores and notifier states they meet, bring it to its answer.
\<close>

theorem poll_ends:
  assumes "pl_deadline pl \<le> m1" "pl_deadline pl \<le> m2" "pl_deadline pl \<le> m3"
    and "poll_move t1 m1 s1 pl nf1 = (pl1, x1)" "poll_move t2 m2 s2 pl1 nf2 = (pl2, x2)"
    and "poll_move t3 m3 s3 pl2 nf3 = (pl3, x3)"
  shows "\<exists>out. pl_pc pl3 = Done out"
proof -
  have top: "pl_pc p' = Snapped (fst (snapshot (pl_node p) nf)) \<and> pl_deadline p' = pl_deadline p"
    if "pl_pc p = Top" "poll_move t m s p nf = (p', x)" for p p' t m s nf x
    using that by (auto simp: poll_move_def snapshot_def Let_def)
  have snapped: "\<exists>out. pl_pc p' = Done out"
    if "pl_pc p = Snapped v" "pl_deadline p \<le> m" "poll_move t m s p nf = (p', x)" for p p' t m s nf x v
    using that by (auto simp: poll_move_def Let_def split: if_splits)
  have done_: "p' = p" if "pl_pc p = Done out" "poll_move t m s p nf = (p', x)" for p p' t m s nf x out
    using that by (simp add: poll_move_def)
  have again: "pl_pc p' = Top \<and> pl_deadline p' = pl_deadline p"
    if "pl_pc p = Empty v \<or> pl_pc p = Waiting v f" "pl_deadline p \<le> m" "poll_move t m s p nf = (p', x)"
    for p p' t m s nf x v f
    using that by (auto simp: poll_move_def split: future_state.splits)
  show ?thesis
  proof (cases "pl_pc pl")
    case Top
    with top assms(4) have "pl_pc pl1 = Snapped (fst (snapshot (pl_node pl) nf1))" "pl_deadline pl1 = pl_deadline pl"
      by blast+
    with snapped assms(2,5) obtain out where "pl_pc pl2 = Done out" by metis
    with done_ assms(6) show ?thesis by metis
  next
    case (Snapped v)
    with snapped assms(1,4) obtain out where "pl_pc pl1 = Done out" by metis
    with done_ assms(5,6) show ?thesis by metis
  next
    case (Done out)
    with done_ assms(4,5,6) show ?thesis by metis
  next
    case (Empty v)
    with again assms(1,4) have "pl_pc pl1 = Top" "pl_deadline pl1 = pl_deadline pl" by blast+
    with top assms(5) have "pl_pc pl2 = Snapped (fst (snapshot (pl_node pl1) nf2))" "pl_deadline pl2 = pl_deadline pl"
      by metis+
    with snapped assms(3,6) show ?thesis by metis
  next
    case (Waiting v f)
    with again assms(1,4) have "pl_pc pl1 = Top" "pl_deadline pl1 = pl_deadline pl" by blast+
    with top assms(5) have "pl_pc pl2 = Snapped (fst (snapshot (pl_node pl1) nf2))" "pl_deadline pl2 = pl_deadline pl"
      by metis+
    with snapped assms(3,6) show ?thesis by metis
  qed
qed

definition demo_moved :: "poll \<Rightarrow> poll" where
  "demo_moved pl = fst (poll_move 0 100 demo_db pl demo_waiting)"

theorem poll_ends_witness:
  "\<exists>out. pl_pc (demo_moved (demo_moved (demo_moved (demo_poll (Waiting 0 0))))) = Done out"
proof -
  have move: "poll_move 0 100 demo_db pl demo_waiting = (demo_moved pl, snd (poll_move 0 100 demo_db pl demo_waiting))"
    for pl by (simp add: demo_moved_def)
  show ?thesis
    by (rule poll_ends [OF _ _ _ move move move]) (simp_all add: demo_poll_def)
qed

end
