(* ===== verification/Typing.thy ===== *)
theory Typing
  imports Machine
begin

text \<open>
  The values that the columns of the store take: every status, mode and state is one of those that the code
  writes, and the routes of a link are those of its mode, with the status of the link. Every step of the
  running server and every change by the operator keeps this.
\<close>

section \<open>The invariant\<close>

text \<open>The ordered pairs of the routes that a link has created.\<close>

definition pairs_of_link :: "string \<Rightarrow> directed_route list \<Rightarrow> (string \<times> string) set" where
  "pairs_of_link i rs = (\<lambda>r. (r_from_endpoint_id r, r_to_endpoint_id r)) ` {r \<in> set rs. r_created_by_link_id r = Some i}"

definition link_typed :: "directed_route list \<Rightarrow> link \<Rightarrow> bool" where
  "link_typed rs l \<longleftrightarrow> l_status l \<in> {''active'', ''revoked''}
     \<and> (case resolve_redeem_routes (l_endpoint_a_id l) (l_endpoint_b_id l) (l_mode l) of
          Inl _ \<Rightarrow> False | Inr pairs \<Rightarrow> pairs_of_link (l_link_id l) rs = set pairs)
     \<and> (\<forall>r\<in>set rs. r_created_by_link_id r = Some (l_link_id l) \<longrightarrow> r_status r = l_status l)"

definition code_typed :: "link_code \<Rightarrow> bool" where
  "code_typed c \<longleftrightarrow> c_status c \<in> {''active'', ''used'', ''expired''} \<and> c_requested_mode c \<in> set link_modes
     \<and> length (c_code c) = 6 \<and> set (c_code c) \<subseteq> set ALPHANUM"

definition typed :: "db \<Rightarrow> bool" where
  "typed s \<longleftrightarrow> (\<forall>n\<in>set (nodes s). n_status n \<in> set node_status_values) \<and> (\<forall>e\<in>set (endpoints s). e_status e = ''active'')
     \<and> (\<forall>l\<in>set (links s). link_typed (directed_routes s) l)
     \<and> (\<forall>r\<in>set (directed_routes s). r_status r \<in> {''active'', ''revoked''})
     \<and> (\<forall>c\<in>set (link_codes s). code_typed c)
     \<and> (\<forall>d\<in>set (deliveries s). d_state d = ''queued'' \<and> d_last_attempt_at d = None)"

lemma pairs_of_link_status [simp]:
  "pairs_of_link i (update_where P (\<lambda>r. r\<lparr>r_status := st\<rparr>) rs) = pairs_of_link i rs"
proof -
  let ?pairs = "\<lambda>rs. map (\<lambda>r. (r_from_endpoint_id r, r_to_endpoint_id r)) (filter (\<lambda>r. r_created_by_link_id r = Some i) rs)"
  have "?pairs (update_where P (\<lambda>r. r\<lparr>r_status := st\<rparr>) rs) = ?pairs rs"
    by (induction rs) (simp_all add: update_where_def)
  then have "set (?pairs (update_where P (\<lambda>r. r\<lparr>r_status := st\<rparr>) rs)) = set (?pairs rs)" by simp
  then show ?thesis by (simp add: pairs_of_link_def)
qed

text \<open>Only the routes that a link has created matter to it.\<close>

lemma link_typed_cong:
  assumes "{r \<in> set rs'. r_created_by_link_id r = Some (l_link_id l)} = {r \<in> set rs. r_created_by_link_id r = Some (l_link_id l)}"
  shows "link_typed rs' l \<longleftrightarrow> link_typed rs l"
proof -
  have "pairs_of_link (l_link_id l) rs' = pairs_of_link (l_link_id l) rs" by (simp only: pairs_of_link_def assms)
  moreover have "(\<forall>r\<in>set rs'. r_created_by_link_id r = Some (l_link_id l) \<longrightarrow> r_status r = l_status l) \<longleftrightarrow>
      (\<forall>r\<in>set rs. r_created_by_link_id r = Some (l_link_id l) \<longrightarrow> r_status r = l_status l)"
    using assms by blast
  ultimately show ?thesis by (simp only: link_typed_def)
qed

lemma typed_cong:
  assumes "typed s" "nodes t = nodes s" "endpoints t = endpoints s" "links t = links s"
    "directed_routes t = directed_routes s" "link_codes t = link_codes s" "set (deliveries t) \<subseteq> set (deliveries s)"
  shows "typed t"
  using assms by (auto simp: typed_def)

lemma typed_codes:
  "typed s \<Longrightarrow> (\<And>c. c \<in> set cs \<Longrightarrow> code_typed c) \<Longrightarrow> typed (s\<lparr>link_codes := cs\<rparr>)"
  by (simp add: typed_def)

lemma code_typed_status: "code_typed c \<Longrightarrow> st \<in> {''active'', ''used'', ''expired''} \<Longrightarrow> code_typed (c\<lparr>c_status := st\<rparr>)"
  by (simp add: code_typed_def)

lemma typed_code_status:
  assumes "typed s" "st \<in> {''active'', ''used'', ''expired''}"
  shows "typed (s\<lparr>link_codes := update_where P (\<lambda>c. c\<lparr>c_status := st\<rparr>) (link_codes s)\<rparr>)"
  by (rule typed_codes [OF assms(1)])
    (use assms in \<open>auto simp: typed_def code_typed_status elim!: in_update_whereE split: if_splits\<close>)

section \<open>Deletion\<close>

text \<open>A link without an endpoint in \<^term>\<open>gone\<close> keeps its routes when the others go.\<close>

lemma link_typed_detached:
  assumes "link_typed rs l" "l_endpoint_a_id l \<notin> gone" "l_endpoint_b_id l \<notin> gone" "l_link_id l \<notin> lost"
  shows "link_typed (delete_where (\<lambda>r. r_from_endpoint_id r \<in> gone \<or> r_to_endpoint_id r \<in> gone)
    (update_where (\<lambda>r. \<exists>i\<in>lost. r_created_by_link_id r = Some i) (\<lambda>r. r\<lparr>r_created_by_link_id := None\<rparr>) rs)) l"
proof -
  let ?f = "\<lambda>r. if \<exists>i\<in>lost. r_created_by_link_id r = Some i then r\<lparr>r_created_by_link_id := None\<rparr> else r"
  let ?rs = "delete_where (\<lambda>r. r_from_endpoint_id r \<in> gone \<or> r_to_endpoint_id r \<in> gone)
    (update_where (\<lambda>r. \<exists>i\<in>lost. r_created_by_link_id r = Some i) (\<lambda>r. r\<lparr>r_created_by_link_id := None\<rparr>) rs)"
  from assms(1) obtain pairs
    where p: "resolve_redeem_routes (l_endpoint_a_id l) (l_endpoint_b_id l) (l_mode l) = Inr pairs"
      "pairs_of_link (l_link_id l) rs = set pairs"
    by (auto simp: link_typed_def split: sum.splits)
  have ends: "x \<notin> gone \<and> y \<notin> gone" if "(x, y) \<in> set pairs" for x y
    using p(1) that assms(2,3) by (auto simp: resolve_redeem_routes_def split: if_splits)
  have mine: "{r \<in> set ?rs. r_created_by_link_id r = Some (l_link_id l)} =
      {r \<in> set rs. r_created_by_link_id r = Some (l_link_id l)}"
  proof (intro set_eqI iffI)
    fix r
    assume "r \<in> {r \<in> set ?rs. r_created_by_link_id r = Some (l_link_id l)}"
    then obtain q where "q \<in> set rs" "r = ?f q" "r_created_by_link_id r = Some (l_link_id l)"
      by (auto simp: delete_where_def elim!: in_update_whereE)
    then show "r \<in> {r \<in> set rs. r_created_by_link_id r = Some (l_link_id l)}" by (auto split: if_splits)
  next
    fix r
    assume r: "r \<in> {r \<in> set rs. r_created_by_link_id r = Some (l_link_id l)}"
    then have "(r_from_endpoint_id r, r_to_endpoint_id r) \<in> set pairs"
      unfolding p(2) [symmetric] by (auto simp: pairs_of_link_def)
    then have "r_from_endpoint_id r \<notin> gone \<and> r_to_endpoint_id r \<notin> gone" by (rule ends)
    moreover have "?f r = r" using r assms(4) by auto
    ultimately show "r \<in> {r \<in> set ?rs. r_created_by_link_id r = Some (l_link_id l)}"
      using r unfolding set_delete_where set_update_where by force
  qed
  show ?thesis unfolding link_typed_cong [OF mine] by (rule assms(1))
qed

lemma typed_delete_endpoints:
  assumes "typed s" "db_ok s"
  shows "typed (delete_endpoints P s)"
proof -
  define gone where "gone = e_endpoint_id ` set (filter P (endpoints s))"
  define lost where "lost = l_link_id ` set (filter (\<lambda>l. l_endpoint_a_id l \<in> gone \<or> l_endpoint_b_id l \<in> gone) (links s))"
  let ?t = "delete_endpoints P s"
  have t: "nodes ?t = nodes s" "endpoints ?t = delete_where P (endpoints s)"
    "links ?t = delete_where (\<lambda>l. l_endpoint_a_id l \<in> gone \<or> l_endpoint_b_id l \<in> gone) (links s)"
    "directed_routes ?t = delete_where (\<lambda>r. r_from_endpoint_id r \<in> gone \<or> r_to_endpoint_id r \<in> gone)
      (update_where (\<lambda>r. \<exists>i\<in>lost. r_created_by_link_id r = Some i) (\<lambda>r. r\<lparr>r_created_by_link_id := None\<rparr>) (directed_routes s))"
    "link_codes ?t = delete_where (\<lambda>c. c_source_endpoint_id c \<in> gone) (link_codes s)"
    by (simp_all add: delete_endpoints_def detach_endpoints_def delete_links_def delete_routes_def delete_link_codes_def
        Let_def lost_def gone_def)
  have "link_typed (directed_routes ?t) l" if "l \<in> set (links ?t)" for l
  proof -
    from that have l: "l \<in> set (links s)" "l_endpoint_a_id l \<notin> gone" "l_endpoint_b_id l \<notin> gone" by (auto simp: t)
    have "l_link_id l \<notin> lost"
      using l assms(2) by (auto simp: lost_def db_ok_def keys_ok_def distinct_map inj_on_def)
    then show ?thesis unfolding t by (rule link_typed_detached [rotated 3]) (use l assms(1) in \<open>auto simp: typed_def\<close>)
  qed
  moreover have "r_status r \<in> {''active'', ''revoked''}" if "r \<in> set (directed_routes ?t)" for r
    using that assms(1) by (auto simp: t typed_def elim!: in_update_whereE split: if_splits)
  ultimately show ?thesis
    using assms(1) delete_queue_subset(1) [of P s] by (auto simp: typed_def t)
qed

lemma typed_delete_nodes:
  assumes "typed s" "db_ok s"
  shows "typed (delete_nodes P s)"
proof -
  let ?e = "delete_endpoints (\<lambda>e. e_node_id e \<in> n_node_id ` set (filter P (nodes s))) s"
  have "typed ?e" by (rule typed_delete_endpoints [OF assms])
  moreover have "nodes ?e = nodes s" by (simp add: delete_endpoints_def detach_endpoints_def)
  ultimately show ?thesis
    by (auto simp: typed_def delete_nodes_def detach_nodes_def delete_packets_def delete_deliveries_def delete_send_events_def Let_def)
qed

section \<open>Requests\<close>

lemma typed_insert_rows:
  "insert_node n s = Some t \<Longrightarrow> typed s \<Longrightarrow> n_status n \<in> set node_status_values \<Longrightarrow> typed t"
  "insert_endpoint e s = Some t \<Longrightarrow> typed s \<Longrightarrow> e_status e = ''active'' \<Longrightarrow> typed t"
  "insert_link_code c s = Some t \<Longrightarrow> typed s \<Longrightarrow> code_typed c \<Longrightarrow> typed t"
  by (auto simp: insert_node_def insert_endpoint_def insert_link_code_def typed_def split: if_splits)

lemma typed_register: "typed s \<Longrightarrow> typed (fst (register pbkdf2 dr name s))"
  by (auto simp: register_def Let_def flush_def node_status_values_def split: option.splits prod.splits elim!: typed_insert_rows)

lemma typed_rotate: "typed s \<Longrightarrow> typed (fst (self_rotate_key pbkdf2 dr node s))"
  by (auto simp: self_rotate_key_def check_def Let_def typed_def elim!: in_update_whereE split: sum.splits prod.splits if_splits)

lemma typed_create_endpoint: "typed s \<Longrightarrow> typed (fst (create_endpoint dr p node s))"
  by (auto simp: create_endpoint_def check_def Let_def flush_def split: sum.splits option.splits elim!: typed_insert_rows)

lemma typed_generated: "length (generate_link_code cs) = 6" "set (generate_link_code cs) \<subseteq> set ALPHANUM"
proof -
  show "length (generate_link_code cs) = 6" by (simp add: generate_link_code_def)
  have "ALPHANUM ! (n mod 36) \<in> set ALPHANUM" for n :: nat
    by (rule nth_mem) (simp add: ALPHANUM_def)
  then show "set (generate_link_code cs) \<subseteq> set ALPHANUM" unfolding generate_link_code_def by auto
qed

lemma typed_request_code:
  assumes "typed s" "lc_requested_mode p \<in> set link_modes"
  shows "typed (fst (request_link_code cfg dr p node s))"
proof -
  have "length c = 6 \<and> set c \<subseteq> set ALPHANUM" if "allocate_code dr s = Some c" for c
  proof -
    from that obtain cs where "c = generate_link_code cs" unfolding allocate_code_def by (auto dest!: find_SomeD)
    then show ?thesis using typed_generated by simp
  qed
  then show ?thesis using assms
    by (auto simp: request_link_code_def check_def reject_def flush_def Let_def code_typed_def
        split: sum.splits option.splits elim!: typed_insert_rows(3))
qed

lemma typed_redeem_check: "typed s \<Longrightarrow> typed (fst (redeem_check dr p node s))"
  by (auto simp: redeem_check_def check_def reject_def set_code_status_def typed_code_status split: sum.splits option.splits)

text \<open>The new link comes with the routes of its mode; the routes of the other links are as before.\<close>

lemma typed_redeem_claim:
  assumes "typed s" "db_ok s"
  shows "typed (fst (redeem_claim dr dest code s))"
proof (cases "snd (redeem_claim dr dest code s)")
  case (Inl e)
  then show ?thesis using redeem_claim_Inl [of dr dest code s] assms(1) by (metis prod.collapse)
next
  case (Inr l)
  obtain t where t: "redeem_claim dr dest code s = (t, Inr l)" using Inr by (metis prod.collapse)
  have ok: "db_ok t" using redeem_claim_ok [OF assms(2), of dr dest code] t by simp
  from t have "typed t"
  proof (rule redeem_claim_Inr)
    fix pairs
    assume p: "resolve_redeem_routes (c_source_endpoint_id code) dest (c_requested_mode code) = Inr pairs"
      and l: "l = link_row dr dest code"
      and st: "t = (claim_code (c_link_code_id code) s)\<lparr>links := links s @ [l],
        directed_routes := directed_routes s @ route_rows dr pairs\<rparr>"
    let ?i = "dr_uuid dr 0"
    have i: "l_link_id l = ?i" by (simp add: l link_row_def)
    have new: "?i \<notin> link_ids s" using db_okD(7) [OF ok] by (simp add: st i)
    then have unused: "r_created_by_link_id r \<noteq> Some ?i" if "r \<in> set (directed_routes s)" for r
      using that assms(2) by (auto simp: db_ok_def refs_ok_def)
    have rows: "r_created_by_link_id r = Some ?i \<and> r_status r = ''active''" if "r \<in> set (route_rows dr pairs)" for r
      using that by (auto simp: route_rows_def)
    have old: "link_typed (directed_routes t) k" if "k \<in> set (links s)" for k
    proof -
      have "l_link_id k \<noteq> ?i" using that new by (metis imageI)
      then have "{r \<in> set (directed_routes t). r_created_by_link_id r = Some (l_link_id k)} =
          {r \<in> set (directed_routes s). r_created_by_link_id r = Some (l_link_id k)}"
        using rows by (auto simp: st)
      from link_typed_cong [OF this] that assms(1) show ?thesis by (simp add: typed_def)
    qed
    have "pairs_of_link ?i (directed_routes t) = (\<lambda>r. (r_from_endpoint_id r, r_to_endpoint_id r)) ` set (route_rows dr pairs)"
      using unused rows by (auto simp: pairs_of_link_def st)
    also have "\<dots> = snd ` set (enumerate 1 pairs)"
      by (force simp: route_rows_def image_image case_prod_unfold)
    also have "\<dots> = set pairs" using map_snd_enumerate [of 1 pairs] by (metis set_map)
    finally have "link_typed (directed_routes t) l"
      using p unused rows by (auto simp: link_typed_def l link_row_def st)
    moreover have "typed (claim_code (c_link_code_id code) s)"
      unfolding claim_code_def by (rule typed_code_status [OF assms(1)]) simp
    ultimately show ?thesis using old rows by (auto simp: typed_def st claim_code_def)
  qed
  then show ?thesis by (simp add: t)
qed

lemma typed_redeem:
  assumes "typed s" "db_ok s"
  shows "typed (fst (redeem_link_code dr p node s))"
proof -
  obtain s0 r where c: "redeem_check dr p node s = (s0, r)" by fastforce
  have "typed s0" "db_ok s0"
    using typed_redeem_check [OF assms(1), of dr p node] redeem_check_ok [OF assms(2), of dr p node] c by simp_all
  then show ?thesis using typed_redeem_claim by (simp add: redeem_link_code_def c split: sum.splits)
qed

lemma typed_revoke_rows:
  assumes "typed s"
  shows "typed (revoke_link_rows k s)"
proof -
  let ?t = "revoke_link_rows k s"
  have same: "{r \<in> set (directed_routes ?t). r_created_by_link_id r = Some j} =
      {r \<in> set (directed_routes s). r_created_by_link_id r = Some j}" if "j \<noteq> k" for j
    using that by (auto simp: revoke_link_rows_def set_update_where image_iff split: if_splits)
  have pairs: "pairs_of_link k (directed_routes ?t) = pairs_of_link k (directed_routes s)"
    by (simp add: revoke_link_rows_def)
  have "link_typed (directed_routes ?t) l" if "l \<in> set (links ?t)" for l
  proof -
    from that obtain l0 where l0: "l0 \<in> set (links s)" "l = (if l_link_id l0 = k then l0\<lparr>l_status := ''revoked''\<rparr> else l0)"
      by (auto simp: revoke_link_rows_def elim!: in_update_whereE)
    then have t: "link_typed (directed_routes s) l0" using assms by (simp add: typed_def)
    show ?thesis
    proof (cases "l_link_id l0 = k")
      case True
      have "r_status r = ''revoked''" if "r \<in> set (directed_routes ?t)" "r_created_by_link_id r = Some k" for r
        using that by (auto simp: revoke_link_rows_def elim!: in_update_whereE split: if_splits)
      with True t l0(2) pairs show ?thesis by (auto simp: link_typed_def split: sum.splits)
    next
      case False
      then show ?thesis using link_typed_cong [OF same] t l0(2) by simp
    qed
  qed
  moreover have "r_status r \<in> {''active'', ''revoked''}" if "r \<in> set (directed_routes ?t)" for r
    using that assms by (auto simp: revoke_link_rows_def typed_def elim!: in_update_whereE split: if_splits)
  ultimately show ?thesis using assms by (simp add: typed_def revoke_link_rows_def)
qed

lemma typed_revoke: "typed s \<Longrightarrow> typed (fst (revoke_link i node s))"
  by (auto simp: revoke_link_def reject_def Let_def typed_revoke_rows split: option.splits)

text \<open>The operator gives a node one of the three statuses.\<close>

lemma typed_node_status:
  assumes "typed s" "set_node_status i status s = Inr (x, t)"
  shows "typed t"
  using assms(2)
proof (rule set_node_status_Inr)
  fix st
  assume st: "st \<in> set node_status_values"
    and t: "t = s\<lparr>nodes := update_where (\<lambda>n. n_node_id n = i) (\<lambda>n. n\<lparr>n_status := st\<rparr>) (nodes s)\<rparr>"
  have "n_status n \<in> set node_status_values" if "n \<in> set (nodes t)" for n
    using that st assms(1) unfolding t by (auto simp: typed_def elim!: in_update_whereE split: if_splits)
  with assms(1) show ?thesis by (simp add: typed_def t)
qed

text \<open>A send adds one queued delivery, if anything.\<close>

definition plan_typed :: "send_plan \<Rightarrow> bool" where
  "plan_typed plan \<longleftrightarrow> (case plan of Answer _ \<Rightarrow> True | Store v p d \<Rightarrow> d_state d = ''queued'' \<and> d_last_attempt_at d = None)"

lemma send_check_plan: "send_check env stat dr rq node s = Inr (plan, sess) \<Longrightarrow> plan_typed plan"
  by (auto simp: send_check_def and_then_Inr Let_def plan_typed_def new_delivery_def
      split: if_splits option.splits prod.splits)

lemma send_check_tables:
  assumes "send_check env stat dr rq node s = Inr (plan, sess)"
  shows "nodes sess = nodes s \<and> endpoints sess = endpoints s \<and> links sess = links s"
proof -
  from assms obtain st s1 where 1: "settings_or_500 env (dr_now dr 0) s = Inr (st, s1)"
    by (auto simp: send_check_def and_then_Inr Let_def)
  obtain x s2 where 2: "existing_packet (dr_now dr 1) (ps_packet_id rq) s1 = (x, s2)" by fastforce
  from assms 1 2 have 3: "sess = s2 \<or> (\<exists>v s3 b n.
      enforce_send_rate_limit env (dr_now dr 2) (dr_uuid dr 0) (n_node_id node) s2 = Inr (v, s3)
      \<and> enforce_queue_limits env stat (dr_now dr 3) (ps_to_endpoint_id rq) n b s3 = Inr sess)"
    by (cases x) (auto simp: send_check_def and_then_Inr Let_def split: if_splits)
  have "nodes s1 = nodes s" "endpoints s1 = endpoints s" "links s1 = links s"
    using settings_or_500_Inr [OF 1] by (simp_all add: same_requests_def)
  moreover have "nodes s2 = nodes s1" "endpoints s2 = endpoints s1" "links s2 = links s1"
    using 2 by (auto simp: existing_packet_def split: option.splits if_splits)
  moreover have "nodes sess = nodes s2" "endpoints sess = endpoints s2" "links sess = links s2"
    using 3 by (auto simp: same_requests_def dest!: enforce_send_rate_limit_Inr enforce_queue_limits_Inr)
  ultimately show ?thesis by simp
qed

lemma typed_commit:
  assumes "typed s" "typed sess" "d_state d = ''queued''" "d_last_attempt_at d = None"
  shows "typed (fst (send_commit views node rq v p d s sess))"
  using assms by (auto simp: send_commit_def store_packet_Some typed_def split: option.split)

lemma typed_send:
  assumes "typed s"
  shows "typed (fst (send_packet env stat dr rq node s))"
proof (cases "send_check env stat dr rq node s")
  case (Inr x)
  obtain plan sess where x: "x = (plan, sess)" by fastforce
  note c = Inr [unfolded x]
  have "typed sess"
    by (rule typed_cong [OF assms]) (use send_check_tables [OF c] send_check_frame [OF c] send_check_subset [OF c] in auto)
  then show ?thesis
    using assms send_check_plan [OF c] by (cases plan) (auto simp: send_packet_def c plan_typed_def intro: typed_commit)
qed (use assms in \<open>simp add: send_packet_def\<close>)

lemma typed_ack: "typed s \<Longrightarrow> typed (fst (ack_packet dr rq node s))"
  by (auto simp: ack_packet_def check_def reject_def delete_packets_def delete_deliveries_def Let_def
      split: sum.splits option.splits elim!: typed_cong)

lemma typed_handle:
  assumes "typed s" "db_ok s"
  shows "typed (fst (handle pbkdf2 env stat cache dr c node s))"
proof (cases c)
  case DeleteIdentity
  then show ?thesis using assms by (simp add: handle_def delete_identity_fst typed_delete_nodes)
next
  case (DeleteEndpoint i)
  then show ?thesis using assms
    by (auto simp: handle_def delete_endpoint_def check_def reject_def Let_def typed_delete_endpoints split: sum.splits)
next
  case (RequestCode p)
  then show ?thesis using assms by (simp add: handle_def handle_code_def typed_request_code)
next
  case (Redeem p)
  then show ?thesis using assms by (simp add: handle_def handle_redeem_def typed_redeem split: option.splits)
qed (use assms in \<open>auto simp: handle_def handle_send_fst handle_ack_def handle_inbox_def list_endpoints_def
    list_links_def Let_def check_def typed_rotate typed_create_endpoint typed_revoke typed_send typed_ack
    split: option.splits sum.splits\<close>)

lemma typed_dispatch:
  assumes "typed s" "db_ok s"
  shows "typed (fst (dispatch pbkdf2 env stat cache dr rq c s))"
proof -
  have "fst (health pbkdf2 (ae_cfg env) dr rq s) = s" "fst (stats pbkdf2 (ae_cfg env) dr rq s) = s"
    by (auto simp: health_def stats_def check_def Let_def split: sum.splits)
  then show ?thesis
    using assms(1) typed_handle [OF assms] typed_register [OF assms(1)]
    by (auto simp: dispatch_def split: call.splits sum.splits)
qed

section \<open>The running server\<close>

lemma typed_maintenance:
  assumes "typed s"
  shows "typed (maintenance_turn env now s)"
proof (cases "cleanup_expired env now s")
  case (Inr x)
  obtain r t where x: "x = (r, t)" by fastforce
  with Inr obtain rt u where u: "get_runtime_settings env now s = Inr (rt, u)"
    and t: "t = delete_send_events (\<lambda>v. s_created_at v < now - seconds (rs_send_window_seconds rt * 2))
      (delete_packets (is_packet_expired now) (expire_codes now u))"
    by (auto simp: cleanup_expired_def Let_def split: sum.splits)
  have "typed u"
    by (rule typed_cong [OF assms]) (use get_runtime_settings_same_requests [OF u] in \<open>simp_all add: same_requests_def\<close>)
  then have "typed (expire_codes now u)" unfolding expire_codes_def by (rule typed_code_status) simp
  then have "typed t"
    by (rule typed_cong) (auto simp: t delete_packets_def delete_deliveries_def Let_def)
  with Inr x show ?thesis by (simp add: maintenance_turn_def session_scope_def)
qed (use assms in \<open>simp add: maintenance_turn_def session_scope_def\<close>)

definition world_typed :: "world \<Rightarrow> bool" where
  "world_typed w \<longleftrightarrow> typed (w_db w)
     \<and> (\<forall>sn\<in>set (w_sends w). d_state (sn_delivery sn) = ''queued'' \<and> d_last_attempt_at (sn_delivery sn) = None)"

lemma step_world_typed:
  assumes "step dp w w'" "world_typed w" "world_ok w"
  shows "world_typed w'"
  using assms
proof (induction rule: step.induct)
  case (request stat cache dr rq c w t notified r)
  then have "t = fst (dispatch (dp_kdf dp) (dp_env dp) stat cache dr rq c (w_db w))" by simp
  with request show ?case by (simp add: world_typed_def world_ok_def typed_dispatch)
next
  case (begin_send stat dr payload node w v p d)
  then show ?case using send_check_plan [OF begin_send(1)] by (simp add: world_typed_def plan_typed_def)
next
  case (finish_send w before sn after views t notified r)
  have "typed (fst (send_commit views (sn_node sn) (sn_request sn) (sn_event sn) (sn_packet sn) (sn_delivery sn) (w_db w) (w_db w)))"
    using finish_send by (intro typed_commit) (simp_all add: world_typed_def)
  with finish_send show ?case by (simp add: world_typed_def)
next
  case (finish_redeem w before cl after t r)
  then show ?case using typed_redeem_claim [of "w_db w" "cl_draws cl" "cl_dest cl" "cl_code cl"]
    by (simp add: world_typed_def world_ok_def)
next
  case (maintain w now)
  then show ?case by (simp add: world_typed_def typed_maintenance)
next
  case (administer w t)
  then have "typed (w_db w)" by (simp add: world_typed_def)
  then have "typed t" by (rule typed_cong) (use administer(1) in \<open>simp_all only: same_requests_def subset_refl\<close>)
  with administer(2) show ?case by (simp only: world_typed_def) simp
next
  case (admin_status i status w x t)
  have "typed t" by (rule typed_node_status [OF _ admin_status(1)]) (use admin_status(2) in \<open>simp add: world_typed_def\<close>)
  with admin_status(2) show ?case by (simp add: world_typed_def)
next
  case (admin_revoke i w n t)
  then show ?case using revoke_link_admin_Inr [OF admin_revoke(1)] by (simp add: world_typed_def typed_revoke_rows)
qed (simp_all add: world_typed_def)

lemma reachable_world_typed:
  assumes "reachable dp s w" "db_ok s" "routes_unique s" "typed s"
  shows "world_typed w \<and> world_ok w"
  using assms(1)
proof (induction rule: reachable_induct)
  case init
  show ?case using assms(2-4) by (simp add: initial_world_def world_typed_def world_ok_def claims_ok_def)
next
  case (step w w')
  then show ?case using step_world_typed step_world_ok by blast
qed

text \<open>
  C33: The columns of the store keep their types in every reachable state, whatever the interleaving of clients,
  maintenance and operator: a node is active, disabled or revoked, an endpoint is active, a code is active, used or expired and consists of six capitals and digits, a delivery is
  queued, a link is active or revoked, and the routes that it has created are exactly those of its mode, with
  its status.
\<close>

theorem store_typed:
  assumes "reachable dp s w" "db_ok s" "routes_unique s" "typed s"
  shows "typed (w_db w)"
  using reachable_world_typed [OF assms] by (simp add: world_typed_def)

theorem store_typed_witness: "typed (w_db demo_arrived)"
proof (rule store_typed [OF demo_run])
  have routes: "directed_routes demo_db = [demo_route ''r1'' ''e1'' ''e2'', demo_route ''r2'' ''e2'' ''e1'']"
    by (simp add: demo_db_def)
  have "pairs_of_link ''l'' (directed_routes demo_db) = {(''e1'', ''e2''), (''e2'', ''e1'')}"
    unfolding routes by (force simp: pairs_of_link_def demo_route_def)
  then have "link_typed (directed_routes demo_db) l" if "l \<in> set (links demo_db)" for l
    using that by (auto simp: link_typed_def resolve_redeem_routes_def demo_db_def demo_route_def)
  then show "typed demo_db" by (simp add: typed_def) (simp add: node_status_values_def demo_db_def demo_node_def demo_endpoint_def demo_route_def)
qed simp_all

end
