(* ===== verification/PyValues.thy ===== *)
theory PyValues
  imports Json "HOL-Library.List_Lexorder" "HOL-Library.Char_ord"
begin

text \<open>
  What the client library under \<open>src/apis/\<close> does with Python values: truth values, \<open>str()\<close> of a
  JSON value, dictionaries with \<open>get\<close>, item assignment and \<open>update\<close>, the text that
  \<open>json.dumps(..., sort_keys=True)\<close> stores and reads back, the exceptions it raises, and the
  order of the ISO time stamps in its SQLite files.
\<close>

section \<open>Truth and text of a value\<close>

fun truthy :: "json \<Rightarrow> bool" where
  "truthy JNull = False"
| "truthy (JBool b) = b"
| "truthy (JInt i) = (i \<noteq> 0)"
| "truthy (JStr s) = (s \<noteq> [])"
| "truthy (JList xs) = (xs \<noteq> [])"
| "truthy (JObj kvs) = (kvs \<noteq> [])"

text \<open>\<open>value in (None, "")\<close>.\<close>

definition none_or_empty :: "json \<Rightarrow> bool" where
  "none_or_empty v \<longleftrightarrow> v = JNull \<or> v = JStr []"

text \<open>\<open>repr()\<close> of a string: the quote is the single one unless only that one occurs.\<close>

definition repr_char :: "char \<Rightarrow> char \<Rightarrow> string" where
  "repr_char q c = (let n = code_point c; bs = char_of (92::nat) in
     if c = q \<or> n = 92 then [bs, c]
     else if n = 10 then [bs, CHR ''n'']
     else if n = 13 then [bs, CHR ''r'']
     else if n = 9 then [bs, CHR ''t'']
     else if n < 32 \<or> (127 \<le> n \<and> n \<le> 160) \<or> n = 173
       then bs # CHR ''x'' # [hex_digit (n div 16), hex_digit (n mod 16)]
     else [c])"

definition repr_str :: "string \<Rightarrow> string" where
  "repr_str s = (let sq = char_of (39::nat); dq = char_of (34::nat);
                     q = (if sq \<in> set s \<and> dq \<notin> set s then dq else sq)
     in q # concat (map (repr_char q) s) @ [q])"

fun py_repr :: "json \<Rightarrow> string" where
  "py_repr JNull = ''None''"
| "py_repr (JBool b) = (if b then ''True'' else ''False'')"
| "py_repr (JInt i) = str_of_int i"
| "py_repr (JStr s) = repr_str s"
| "py_repr (JList xs) = ''['' @ join '', '' (map py_repr xs) @ '']''"
| "py_repr (JObj kvs) =
     ''{'' @ join '', '' (map (\<lambda>kv. repr_str (fst kv) @ '': '' @ py_repr (snd kv)) kvs) @ ''}''"

definition str_value :: "json \<Rightarrow> string" where
  "str_value v = (case v of JStr s \<Rightarrow> s | _ \<Rightarrow> py_repr v)"

text \<open>\<open>str(v or "")\<close> and \<open>None if v in (None, "") else str(v)\<close>.\<close>

definition str_or_empty :: "json \<Rightarrow> string" where
  "str_or_empty v = (if truthy v then str_value v else [])"

definition str_or_none :: "json \<Rightarrow> string option" where
  "str_or_none v = (if none_or_empty v then None else Some (str_value v))"

section \<open>Dictionaries\<close>

definition dict_get :: "dict \<Rightarrow> string \<Rightarrow> json" where
  "dict_get d k = (case map_of d k of None \<Rightarrow> JNull | Some v \<Rightarrow> v)"

text \<open>\<open>d[k] = v\<close> keeps the position of a key that is there.\<close>

fun dict_put :: "string \<Rightarrow> json \<Rightarrow> dict \<Rightarrow> dict" where
  "dict_put k v [] = [(k, v)]"
| "dict_put k v ((k', v') # d) = (if k' = k then (k, v) # d else (k', v') # dict_put k v d)"

definition dict_update :: "dict \<Rightarrow> dict \<Rightarrow> dict" where
  "dict_update d e = fold (\<lambda>(k, v). dict_put k v) e d"

lemma map_of_dict_put [simp]: "map_of (dict_put k v d) = (map_of d)(k \<mapsto> v)"
  by (induction d) (auto simp: fun_eq_iff)

lemma dict_get_put [simp]: "dict_get (dict_put k v d) k' = (if k' = k then v else dict_get d k')"
  by (simp add: dict_get_def)

lemma keys_dict_put: "fst ` set (dict_put k v d) = insert k (fst ` set d)"
proof (induction d)
  case (Cons kv d)
  then show ?case by (cases kv) (simp add: insert_commute)
qed simp

lemma distinct_dict_put [simp]: "distinct (map fst d) \<Longrightarrow> distinct (map fst (dict_put k v d))"
proof (induction d)
  case (Cons kv d)
  have "set (map fst (dict_put k v d)) = insert k (set (map fst d))" using keys_dict_put [of k v d] by simp
  with Cons show ?case by (cases kv) auto
qed simp

lemma distinct_dict_update [simp]: "distinct (map fst d) \<Longrightarrow> distinct (map fst (dict_update d e))"
  unfolding dict_update_def by (induction e arbitrary: d) auto

lemma dict_update_Cons [simp]: "dict_update d ((k, v) # e) = dict_update (dict_put k v d) e"
  and dict_update_Nil [simp]: "dict_update d [] = d"
  by (simp_all add: dict_update_def)

lemma dict_put_new: "k \<notin> fst ` set d \<Longrightarrow> dict_put k v d = d @ [(k, v)]"
  by (induction d) auto

text \<open>Assigning distinct keys in order builds the dictionary.\<close>

lemma dict_update_append:
  "distinct (map fst (d @ e)) \<Longrightarrow> dict_update d e = d @ e"
proof (induction e arbitrary: d)
  case (Cons kv e)
  have "fst kv \<notin> fst ` set d" using Cons.prems by auto
  with Cons.IH [of "d @ [kv]"] Cons.prems show ?case
    by (cases kv) (simp add: dict_put_new)
qed simp

lemma dict_update_new: "distinct (map fst e) \<Longrightarrow> dict_update [] e = e"
  by (simp add: dict_update_append)

section \<open>What a JSON column reads back\<close>

text \<open>\<open>json.loads(json.dumps(v, sort_keys=True))\<close>: the entries of every dictionary, sorted by key.\<close>

fun sort_json :: "json \<Rightarrow> json" where
  "sort_json (JList xs) = JList (map sort_json xs)"
| "sort_json (JObj kvs) = JObj (sort_key fst (map (\<lambda>kv. (fst kv, sort_json (snd kv))) kvs))"
| "sort_json v = v"

definition sort_dict :: "dict \<Rightarrow> dict" where
  "sort_dict d = sort_key fst (map (\<lambda>kv. (fst kv, sort_json (snd kv))) d)"

lemma distinct_keys_sort: "distinct (map fst d) \<Longrightarrow> distinct (map fst (sort_key fst d))"
  by (metis distinct_map distinct_sort set_sort)

lemma map_of_sort_key:
  assumes "distinct (map fst d)"
  shows "map_of (sort_key fst d) = map_of d"
proof -
  have "distinct (map fst (sort_key fst d))" using assms by (rule distinct_keys_sort)
  with assms show ?thesis by (intro map_of_inject_set [THEN iffD2]) simp_all
qed

lemma map_of_sort_json:
  assumes "distinct (map fst kvs)"
  shows "map_of (sort_key fst (map (\<lambda>kv. (fst kv, sort_json (snd kv))) kvs)) k =
    map_option sort_json (map_of kvs k)"
proof -
  have "map_of (sort_key fst (map (\<lambda>kv. (fst kv, sort_json (snd kv))) kvs)) =
      map_of (map (\<lambda>kv. (fst kv, sort_json (snd kv))) kvs)"
    using assms by (intro map_of_sort_key) (simp add: comp_def)
  moreover have "map_of (map (\<lambda>kv. (fst kv, sort_json (snd kv))) kvs) k = map_option sort_json (map_of kvs k)"
    by (induction kvs) auto
  ultimately show ?thesis by simp
qed

lemma py_eq_sort_json: "wf_json v \<Longrightarrow> py_eq v (sort_json v)"
proof (induction v rule: wf_json.induct)
  case (1 xs)
  then show ?case by (simp add: list_all_iff list_all2_map2 list_all2_same)
next
  case (2 kvs)
  have "map_of kvs (fst kv) = Some (snd kv)" if "kv \<in> set kvs" for kv
    using that 2(2) by (simp add: map_of_eq_Some_iff)
  with 2 show ?case by (auto simp: list_all_iff map_of_sort_json)
qed simp_all

lemma dict_eq_sort_dict: "wf_dict d \<Longrightarrow> dict_eq d (sort_dict d)"
  using py_eq_sort_json [of "JObj d"] by (simp add: dict_eq_def wf_dict_def sort_dict_def)

lemma map_of_sort_dict: "distinct (map fst d) \<Longrightarrow> map_of (sort_dict d) k = map_option sort_json (map_of d k)"
  by (simp add: sort_dict_def map_of_sort_json)

lemma wf_sort_json: "wf_json v \<Longrightarrow> wf_json (sort_json v)"
proof (induction v rule: wf_json.induct)
  case (1 xs)
  then show ?case by (simp add: list_all_iff)
next
  case (2 kvs)
  let ?m = "map (\<lambda>kv. (fst kv, sort_json (snd kv))) kvs"
  have "distinct (map fst (sort_key fst ?m))"
    using 2(2) by (intro distinct_keys_sort) (simp add: comp_def)
  with 2 show ?case by (auto simp: list_all_iff)
qed simp_all

lemma wf_sort_dict: "wf_dict d \<Longrightarrow> wf_dict (sort_dict d)"
  using wf_sort_json [of "JObj d"] by (simp add: wf_dict_def sort_dict_def)

lemma sort_json_idem: "sort_json (sort_json v) = sort_json v"
proof (induction v)
  case (JObj kvs)
  let ?m = "map (\<lambda>kv. (fst kv, sort_json (snd kv))) kvs"
  have "map (\<lambda>kv. (fst kv, sort_json (snd kv))) (sort_key fst ?m) = sort_key fst ?m"
    using JObj by (intro map_idI) (auto simp: snds.simps)
  then show ?case by (simp add: sort_key_id_if_sorted)
qed simp_all

lemma sort_dict_idem [simp]: "sort_dict (sort_dict d) = sort_dict d"
  using sort_json_idem [of "JObj d"] by (simp add: sort_dict_def)

section \<open>Exceptions\<close>

datatype py_exc =
    ARQSError string
  | ARQSHTTPError nat string
  | ARQSConnectionError string
  | ARQSInsecureTransportError string
  | ValueError string
  | TypeError string
  | KeyError string
  | OtherException string

fun exc_text :: "py_exc \<Rightarrow> string" where
  "exc_text (ARQSHTTPError code detail) = ''ARQS HTTP '' @ str_of_nat code @ '': '' @ detail"
| "exc_text (ARQSError m) = m"
| "exc_text (ARQSConnectionError m) = m"
| "exc_text (ARQSInsecureTransportError m) = m"
| "exc_text (ValueError m) = m"
| "exc_text (TypeError m) = m"
| "exc_text (KeyError m) = repr_str m"
| "exc_text (OtherException m) = m"

section \<open>Time stamps as text\<close>

text \<open>
  \<open>to_iso\<close> of \<open>store.py\<close>: \<open>2026-01-02T03:04:05Z\<close> on a full second, \<open>2026-01-02T03:04:05.000006Z\<close>
  otherwise, and SQLite compares the texts. For years of four digits the text order is the order
  of the seconds, then of the microseconds, except that a full second comes after all its
  fractions: the character \<open>.\<close> is below \<open>Z\<close>. \<open>Iso t\<close> is the text of the time \<open>t\<close>.
\<close>

datatype iso_time = Iso time

primrec iso_rank :: "iso_time \<Rightarrow> int" where
  "iso_rank (Iso t) = (if t mod 1000000 = 0 then t + 1000000 else t)"

lemma iso_rank_bounds: "t \<le> iso_rank (Iso t)" "iso_rank (Iso t) \<le> t + 1000000"
  by simp_all

lemma iso_rank_inj: "iso_rank a = iso_rank b \<Longrightarrow> a = b"
  by (cases a; cases b) (auto split: if_splits)

instantiation iso_time :: linorder
begin

definition less_eq_iso_time :: "iso_time \<Rightarrow> iso_time \<Rightarrow> bool" where
  "less_eq_iso_time a b \<longleftrightarrow> iso_rank a \<le> iso_rank b"

definition less_iso_time :: "iso_time \<Rightarrow> iso_time \<Rightarrow> bool" where
  "less_iso_time a b \<longleftrightarrow> iso_rank a < iso_rank b"

instance
  by standard (auto simp: less_eq_iso_time_def less_iso_time_def intro: iso_rank_inj)

end

lemma iso_le_later: "s + 1000000 \<le> t \<Longrightarrow> Iso s \<le> Iso t"
  by (simp add: less_eq_iso_time_def)

lemma iso_le_imp: "Iso s \<le> Iso t \<Longrightarrow> s \<le> t + 1000000"
  by (simp add: less_eq_iso_time_def split: if_splits)

lemma iso_second_late:
  assumes "s mod 1000000 = 0" "s < t" "t < s + 1000000"
  shows "\<not> Iso s \<le> Iso t"
proof -
  have "t mod 1000000 = (t - s) mod 1000000" using mod_diff_right_eq [of t s 1000000] assms(1) by simp
  also have "\<dots> = t - s" using assms(2,3) by simp
  finally have "t mod 1000000 \<noteq> 0" using assms(2) by simp
  with assms show ?thesis by (simp add: less_eq_iso_time_def)
qed

end
