(* ===== verification/Loads.thy ===== *)
theory Loads
  imports PyValues IpAddr
begin

text \<open>
  The reader \<open>json.loads\<close> of the standard library, for the texts the model covers: integers, and
  escapes of code points below 256; a number with a fraction or exponent, \<open>NaN\<close> and the infinities are
  refused here. The reader inverts the writer \<^const>\<open>dumps\<close>, so the writer is injective.
\<close>

section \<open>Reading\<close>

definition is_ws :: "char \<Rightarrow> bool" where
  "is_ws c \<longleftrightarrow> code_point c \<in> {9, 10, 13, 32}"

definition skip_ws :: "string \<Rightarrow> string" where
  "skip_ws s = dropWhile is_ws s"

definition unescape :: "char \<Rightarrow> char option" where
  "unescape c = (let n = code_point c in
     if n = 34 \<or> n = 92 \<or> n = 47 then Some c
     else if c = CHR ''b'' then Some (char_of (8::nat)) else if c = CHR ''f'' then Some (char_of (12::nat))
     else if c = CHR ''n'' then Some (char_of (10::nat)) else if c = CHR ''r'' then Some (char_of (13::nat))
     else if c = CHR ''t'' then Some (char_of (9::nat)) else None)"

definition hex4 :: "char \<Rightarrow> char \<Rightarrow> char \<Rightarrow> char \<Rightarrow> char option" where
  "hex4 a b c d =
     (case (hex_value a, hex_value b, hex_value c, hex_value d) of
        (Some w, Some x, Some y, Some z) \<Rightarrow>
          if w = 0 \<and> x = 0 then Some (char_of (16 * y + z)) else None
      | _ \<Rightarrow> None)"

text \<open>The rest of a string literal, after its opening quote.\<close>

fun read_str :: "nat \<Rightarrow> string \<Rightarrow> (string \<times> string) option" where
  "read_str 0 s = None"
| "read_str (Suc k) s =
     (case s of [] \<Rightarrow> None
      | c # t \<Rightarrow>
          if code_point c = 34 then Some ([], t)
          else if code_point c = 92 then
            (case t of
               u # a # b # x # y # t' \<Rightarrow>
                 if u = CHR ''u'' then
                   (case hex4 a b x y of None \<Rightarrow> None
                    | Some z \<Rightarrow> map_option (\<lambda>(v, r). (z # v, r)) (read_str k t'))
                 else (case unescape u of None \<Rightarrow> None
                    | Some z \<Rightarrow> map_option (\<lambda>(v, r). (z # v, r)) (read_str k (tl t)))
             | u # t' \<Rightarrow> (case unescape u of None \<Rightarrow> None
                    | Some z \<Rightarrow> map_option (\<lambda>(v, r). (z # v, r)) (read_str k t'))
             | [] \<Rightarrow> None)
          else if code_point c < 32 then None
          else map_option (\<lambda>(v, r). (c # v, r)) (read_str k t))"

definition read_nat :: "string \<Rightarrow> (nat \<times> string) option" where
  "read_nat s =
     (let ds = takeWhile is_digit s; r = dropWhile is_digit s in
      if ds = [] then None
      else if hd ds = CHR ''0'' then Some (0, tl s)
      else Some (nat_of_digits ds, r))"

definition float_tail :: "string \<Rightarrow> bool" where
  "float_tail r \<longleftrightarrow> r \<noteq> [] \<and> hd r \<in> {CHR ''.'', CHR ''e'', CHR ''E''}"

definition read_int :: "string \<Rightarrow> (json \<times> string) option" where
  "read_int s =
     (case (case s of c # t \<Rightarrow> if c = CHR ''-'' then map_option (\<lambda>(n, r). (- int n, r)) (read_nat t)
               else map_option (\<lambda>(n, r). (int n, r)) (read_nat s) | [] \<Rightarrow> None) of
        None \<Rightarrow> None
      | Some (i, r) \<Rightarrow> if float_tail r then None else Some (JInt i, r))"

definition read_word :: "string \<Rightarrow> (json \<times> string) option" where
  "read_word s =
     (if startswith s ''null'' then Some (JNull, drop 4 s)
      else if startswith s ''true'' then Some (JBool True, drop 4 s)
      else if startswith s ''false'' then Some (JBool False, drop 5 s)
      else read_int s)"

text \<open>\<open>k\<close> bounds the depth and the number of entries; the length of the text is enough.\<close>

fun read_value :: "nat \<Rightarrow> string \<Rightarrow> (json \<times> string) option"
  and read_items :: "nat \<Rightarrow> string \<Rightarrow> (json list \<times> string) option"
  and read_entries :: "nat \<Rightarrow> string \<Rightarrow> ((string \<times> json) list \<times> string) option" where
  "read_value 0 s = None"
| "read_value (Suc k) s =
     (case s of [] \<Rightarrow> None
      | c # t \<Rightarrow>
          if code_point c = 34 then map_option (\<lambda>(v, r). (JStr v, r)) (read_str (length t) t)
          else if c = CHR ''['' then
            (case skip_ws t of
               d # t' \<Rightarrow> if d = CHR '']'' then Some (JList [], t')
                 else map_option (\<lambda>(xs, r). (JList xs, r)) (read_items k (d # t'))
             | [] \<Rightarrow> None)
          else if c = CHR ''{'' then
            (case skip_ws t of
               d # t' \<Rightarrow> if d = CHR ''}'' then Some (JObj [], t')
                 else map_option (\<lambda>(kvs, r). (JObj (dict_update [] kvs), r)) (read_entries k (d # t'))
             | [] \<Rightarrow> None)
          else read_word s)"
| "read_items 0 s = None"
| "read_items (Suc k) s =
     (case read_value k s of None \<Rightarrow> None
      | Some (v, r) \<Rightarrow>
          (case skip_ws r of [] \<Rightarrow> None
           | d # t \<Rightarrow> if d = CHR '']'' then Some ([v], t)
               else if d = CHR '','' then map_option (\<lambda>(vs, r). (v # vs, r)) (read_items k (skip_ws t))
               else None))"
| "read_entries 0 s = None"
| "read_entries (Suc k) s =
     (case s of [] \<Rightarrow> None
      | q # s' \<Rightarrow>
         if code_point q \<noteq> 34 then None
         else (case read_str (length s') s' of None \<Rightarrow> None
          | Some (key, r) \<Rightarrow>
            (case skip_ws r of [] \<Rightarrow> None
             | c # r' \<Rightarrow>
                if c \<noteq> CHR '':'' then None
                else (case read_value k (skip_ws r') of None \<Rightarrow> None
                 | Some (v, r2) \<Rightarrow>
                   (case skip_ws r2 of [] \<Rightarrow> None
                    | d # t \<Rightarrow> if d = CHR ''}'' then Some ([(key, v)], t)
                        else if d = CHR '','' then map_option (\<lambda>(kvs, r). ((key, v) # kvs, r)) (read_entries k (skip_ws t))
                        else None)))))"

definition loads :: "string \<Rightarrow> json option" where
  "loads s = (case read_value (2 * length s) (skip_ws s) of
     None \<Rightarrow> None | Some (v, r) \<Rightarrow> if skip_ws r = [] then Some v else None)"

section \<open>The reader inverts the writer\<close>

lemma code_point_eq_iff: "n < 256 \<Longrightarrow> code_point c = n \<longleftrightarrow> c = char_of n"
  by (auto simp: code_point_def)

lemma hex_value_digit: "d < 16 \<Longrightarrow> hex_value (hex_digit d) = Some d"
  by (auto simp: hex_value_def hex_digit_def Let_def)

lemma unescape_simps [simp]:
  "unescape CHR ''n'' = Some (char_of (10::nat))" "unescape CHR ''r'' = Some (char_of (13::nat))"
  "unescape CHR ''t'' = Some (char_of (9::nat))" "unescape CHR ''f'' = Some (char_of (12::nat))"
  "unescape CHR ''b'' = Some (char_of (8::nat))"
  by (simp_all add: unescape_def code_point_def)

text \<open>A character is written plain, as a short escape, or as four hexadecimal digits.\<close>

lemma escape_short:
  assumes "code_point c \<in> {34, 92, 10, 13, 9, 12, 8}"
  shows "\<exists>u. escape_char c = [char_of (92::nat), u] \<and> unescape u = Some c \<and> u \<noteq> CHR ''u''"
  using assms
proof (elim insertE emptyE, goal_cases)
  case 1
  then show ?case by (intro exI [of _ c]) (auto simp: escape_char_def Let_def unescape_def code_point_def)
next
  case 2
  then show ?case by (intro exI [of _ c]) (auto simp: escape_char_def Let_def unescape_def code_point_def)
next
  case 3
  then show ?case by (intro exI [of _ "CHR ''n''"]) (simp add: escape_char_def Let_def code_point_eq_iff)
next
  case 4
  then show ?case by (intro exI [of _ "CHR ''r''"]) (simp add: escape_char_def Let_def code_point_eq_iff)
next
  case 5
  then show ?case by (intro exI [of _ "CHR ''t''"]) (simp add: escape_char_def Let_def code_point_eq_iff)
next
  case 6
  then show ?case by (intro exI [of _ "CHR ''f''"]) (simp add: escape_char_def Let_def code_point_eq_iff)
next
  case 7
  then show ?case by (intro exI [of _ "CHR ''b''"]) (simp add: escape_char_def Let_def code_point_eq_iff)
qed

lemma escape_hex:
  assumes "code_point c < 32" "code_point c \<notin> {10, 13, 9, 12, 8}"
  shows "\<exists>x y. escape_char c = char_of (92::nat) # ''u00'' @ [x, y] \<and> hex4 CHR ''0'' CHR ''0'' x y = Some c"
proof -
  define n where "n = code_point c"
  have n: "n < 32" "n \<notin> {10, 13, 9, 12, 8}" and c: "c = char_of n" using assms by (simp_all add: n_def code_point_def)
  have "escape_char c = char_of (92::nat) # ''u00'' @ [hex_digit (n div 16), hex_digit (n mod 16)]"
    using n by (simp add: escape_char_def Let_def flip: n_def)
  moreover have "hex_value CHR ''0'' = Some 0" by (simp add: hex_value_def code_point_def)
  moreover have "n div 16 < 16" using n(1) by (simp add: less_mult_imp_div_less)
  ultimately show ?thesis by (auto simp: hex4_def hex_value_digit c)
qed

lemma read_str_escape:
  "read_str (Suc k) (escape_char c @ t) = map_option (\<lambda>(v, r). (c # v, r)) (read_str k t)"
proof -
  have bs: "code_point (char_of (92::nat)) = 92" by simp
  consider "code_point c \<in> {34, 92, 10, 13, 9, 12, 8}"
    | "code_point c < 32" "code_point c \<notin> {10, 13, 9, 12, 8}"
    | "code_point c \<ge> 32" "code_point c \<noteq> 34" "code_point c \<noteq> 92"
    by fastforce
  then show ?thesis
  proof cases
    case 1
    then obtain u where u: "escape_char c = [char_of (92::nat), u]" "unescape u = Some c" "u \<noteq> CHR ''u''"
      using escape_short by blast
    then show ?thesis by (simp add: bs split: list.split)
  next
    case 2
    then obtain x y where "escape_char c = char_of (92::nat) # ''u00'' @ [x, y]" "hex4 CHR ''0'' CHR ''0'' x y = Some c"
      using escape_hex by blast
    then show ?thesis by (simp add: bs)
  next
    case 3
    then have "escape_char c = [c]" by (simp add: escape_char_def Let_def)
    with 3 show ?thesis by simp
  qed
qed

lemma length_escape: "length s \<le> length (concat (map escape_char s))"
proof (induction s)
  case (Cons c s)
  have "escape_char c \<noteq> []" by (simp add: escape_char_def Let_def)
  then have "1 \<le> length (escape_char c)" by (cases "escape_char c") auto
  with Cons show ?case by simp
qed simp

lemma read_str_dumps:
  "length s < k \<Longrightarrow> read_str k (concat (map escape_char s) @ char_of (34::nat) # r) = Some (s, r)"
proof (induction s arbitrary: k)
  case Nil
  then obtain j where "k = Suc j" by (cases k) auto
  then show ?case by simp
next
  case (Cons c s)
  then obtain j where k: "k = Suc j" by (cases k) auto
  with Cons have "read_str j (concat (map escape_char s) @ char_of (34::nat) # r) = Some (s, r)" by simp
  then show ?case by (simp add: k read_str_escape del: read_str.simps)
qed

declare read_str.simps [simp del]

text \<open>Numbers end where no digit, point or exponent follows.\<close>

definition ends :: "string \<Rightarrow> bool" where
  "ends r \<longleftrightarrow> r = [] \<or> (\<not> is_digit (hd r) \<and> \<not> float_tail r)"

lemma ends_simps [simp]: "ends []" "ends (CHR '','' # r)" "ends (CHR '']'' # r)" "ends (CHR ''}'' # r)"
  by (simp_all add: ends_def is_digit_def code_point_def float_tail_def)

lemma read_nat_str:
  assumes "ends r"
  shows "read_nat (str_of_nat n @ r) = Some (n, r)"
proof -
  have d: "takeWhile is_digit (str_of_nat n @ r) = str_of_nat n" "dropWhile is_digit (str_of_nat n @ r) = r"
    using str_of_nat_digits [of n] assms
    by (auto simp: list_all_iff ends_def takeWhile_append takeWhile_eq_Nil_iff dropWhile_append dropWhile_eq_self_iff neq_Nil_conv)
  show ?thesis
  proof (cases "hd (str_of_nat n) = CHR ''0''")
    case True
    then have "n = 0" by (rule hd_str_of_nat_0)
    then show ?thesis using d by (simp add: read_nat_def str_of_nat.simps [of 0])
  next
    case False
    then show ?thesis using d str_of_nat_digits [of n] by (simp add: read_nat_def Let_def nat_of_str_of_nat)
  qed
qed

lemma hd_str_of_nat_digit: "is_digit (hd (str_of_nat n))" "str_of_nat n \<noteq> []"
  using str_of_nat_digits [of n] by (cases "str_of_nat n"; simp)+

lemma str_of_int_hd: "str_of_int i \<noteq> []" "hd (str_of_int i) = CHR ''-'' \<or> is_digit (hd (str_of_int i))"
  using hd_str_of_nat_digit by (simp_all add: str_of_int_def)

lemma read_int_str:
  assumes "ends r"
  shows "read_int (str_of_int i @ r) = Some (JInt i, r)"
proof -
  have e: "\<not> float_tail r" using assms by (auto simp: ends_def float_tail_def)
  show ?thesis
  proof (cases "i < 0")
    case True
    then show ?thesis using e by (simp add: str_of_int_def read_int_def read_nat_str [OF assms])
  next
    case False
    obtain c t where ct: "str_of_nat (nat i) = c # t" using hd_str_of_nat_digit(2) by (cases "str_of_nat (nat i)") auto
    have "c \<noteq> CHR ''-''" using hd_str_of_nat_digit(1) [of "nat i"] by (auto simp: ct is_digit_def code_point_def)
    with False e read_nat_str [OF assms, of "nat i"] show ?thesis
      by (simp add: str_of_int_def read_int_def ct)
  qed
qed

lemma read_word_int:
  assumes "ends r"
  shows "read_word (str_of_int i @ r) = Some (JInt i, r)"
proof -
  obtain c t where ct: "str_of_int i = c # t" using str_of_int_hd(1) by (cases "str_of_int i") auto
  have c: "c = CHR ''-'' \<or> is_digit c" using str_of_int_hd(2) [of i] by (simp add: ct)
  then have "c \<noteq> CHR ''n''" "c \<noteq> CHR ''t''" "c \<noteq> CHR ''f''" by (auto simp: is_digit_def code_point_def)
  with read_int_str [OF assms, of i] show ?thesis by (simp add: read_word_def startswith_def ct)
qed

text \<open>No value starts with white space or a closing bracket.\<close>

lemma dumps_str_shape: "dumps_str s = char_of (34::nat) # concat (map escape_char s) @ [char_of (34::nat)]"
  by (simp add: dumps_str_def Let_def)

lemma dumps_hd:
  "dumps v \<noteq> [] \<and> \<not> is_ws (hd (dumps v)) \<and> hd (dumps v) \<noteq> CHR '']'' \<and> hd (dumps v) \<noteq> CHR ''}''"
proof (cases v)
  case (JInt i)
  have "hd (str_of_int i) = CHR ''-'' \<or> is_digit (hd (str_of_int i))" by (rule str_of_int_hd(2))
  then have "\<not> is_ws (hd (str_of_int i)) \<and> hd (str_of_int i) \<noteq> CHR '']'' \<and> hd (str_of_int i) \<noteq> CHR ''}''"
    by (auto simp: is_ws_def is_digit_def code_point_def)
  with JInt str_of_int_hd(1) show ?thesis by simp
qed (auto simp: is_ws_def code_point_def dumps_str_shape char_of_eq_iff)

lemma skip_ws_id: "s \<noteq> [] \<Longrightarrow> \<not> is_ws (hd s) \<Longrightarrow> skip_ws s = s"
  by (cases s) (simp_all add: skip_ws_def)

lemma skip_ws_dumps [simp]: "skip_ws (dumps v @ r) = dumps v @ r"
  using dumps_hd [of v] by (simp add: skip_ws_id)

lemma skip_ws_marks [simp]:
  "skip_ws [] = []" "skip_ws (CHR '','' # r) = CHR '','' # r" "skip_ws (CHR '']'' # r) = CHR '']'' # r"
  "skip_ws (CHR ''}'' # r) = CHR ''}'' # r" "skip_ws (CHR '':'' # r) = CHR '':'' # r"
  "skip_ws (char_of (34::nat) # r) = char_of (34::nat) # r"
  by (simp_all add: skip_ws_def is_ws_def code_point_def)

lemma join_Cons: "join sep (w # ws) = w @ (if ws = [] then [] else sep @ join sep ws)"
  by (cases ws) (simp_all add: join_def)

lemma join_Nil [simp]: "join sep [] = []"
  by (simp add: join_def)

definition reads :: "json \<Rightarrow> bool" where
  "reads v \<longleftrightarrow> (\<forall>k r. length (dumps v) \<le> k \<longrightarrow> ends r \<longrightarrow> read_value k (dumps v @ r) = Some (v, r))"

lemma reads_scalar: "reads JNull" "reads (JBool b)" "reads (JInt i)" "reads (JStr s)"
proof -
  have "read_value k (''null'' @ r) = Some (JNull, r)" "read_value k (''true'' @ r) = Some (JBool True, r)"
    "read_value k (''false'' @ r) = Some (JBool False, r)" if "4 \<le> k" for k r
    using that by (cases k; simp add: read_word_def startswith_def code_point_def)+
  then show "reads JNull" "reads (JBool b)" by (simp_all add: reads_def)
  have "read_value k (str_of_int i @ r) = Some (JInt i, r)" if "length (str_of_int i) \<le> k" "ends r" for k r
  proof -
    obtain c t where ct: "str_of_int i = c # t" using str_of_int_hd(1) by (cases "str_of_int i") auto
    have "c = CHR ''-'' \<or> is_digit c" using str_of_int_hd(2) [of i] by (simp add: ct)
    then have "code_point c \<noteq> 34" "c \<noteq> CHR ''[''" "c \<noteq> CHR ''{''" by (auto simp: is_digit_def code_point_def)
    with that read_word_int [of r i] show ?thesis by (cases k) (simp_all add: ct)
  qed
  then show "reads (JInt i)" by (simp add: reads_def)
  have "read_value k (dumps_str s @ r) = Some (JStr s, r)" if "length (dumps_str s) \<le> k" for k r
    using that length_escape [of s] by (cases k) (simp_all add: dumps_str_shape read_str_dumps)
  then show "reads (JStr s)" by (simp add: reads_def)
qed

lemma reads_items:
  assumes "\<And>x. x \<in> set (v # vs) \<Longrightarrow> reads x" "length (join '','' (map dumps (v # vs))) < k"
  shows "read_items k (join '','' (map dumps (v # vs)) @ CHR '']'' # r) = Some (v # vs, r)"
  using assms
proof (induction vs arbitrary: v k)
  case Nil
  then obtain j where k: "k = Suc j" by (cases k) auto
  with Nil have "read_value j (dumps v @ CHR '']'' # r) = Some (v, CHR '']'' # r)"
    by (simp add: reads_def join_Cons)
  then show ?case by (simp add: k join_Cons)
next
  case (Cons w vs)
  then obtain j where k: "k = Suc j" by (cases k) auto
  let ?rest = "join '','' (map dumps (w # vs))"
  have "read_value j (dumps v @ CHR '','' # ?rest @ CHR '']'' # r) = Some (v, CHR '','' # ?rest @ CHR '']'' # r)"
    using Cons.prems by (simp add: reads_def join_Cons k)
  moreover have "read_items j (?rest @ CHR '']'' # r) = Some (w # vs, r)"
    using Cons.prems by (intro Cons.IH) (simp_all add: join_Cons k)
  ultimately show ?case by (simp add: k join_Cons)
qed

lemma reads_entries:
  fixes entry :: "string \<times> json \<Rightarrow> string"
  defines "entry \<equiv> \<lambda>kv. dumps_str (fst kv) @ '':'' @ dumps (snd kv)"
  assumes "\<And>x. x \<in> set (kv # kvs) \<Longrightarrow> reads (snd x)" "length (join '','' (map entry (kv # kvs))) < k"
  shows "read_entries k (join '','' (map entry (kv # kvs)) @ CHR ''}'' # r) = Some (kv # kvs, r)"
  using assms(2,3)
proof (induction kvs arbitrary: kv k)
  case Nil
  then obtain j where k: "k = Suc j" by (cases k) auto
  with Nil have "read_value j (dumps (snd kv) @ CHR ''}'' # r) = Some (snd kv, CHR ''}'' # r)"
    by (simp add: reads_def join_Cons entry_def)
  then show ?case using length_escape [of "fst kv"]
    by (simp add: k join_Cons entry_def dumps_str_shape read_str_dumps)
next
  case (Cons kw kvs)
  then obtain j where k: "k = Suc j" by (cases k) auto
  define R where "R = join '','' (map entry (kw # kvs))"
  have e: "join '','' (map entry (kv # kw # kvs)) = dumps_str (fst kv) @ '':'' @ dumps (snd kv) @ CHR '','' # R"
    using join_Cons [of "'',''" "entry kv" "map entry (kw # kvs)"] by (simp add: R_def) (simp add: entry_def)
  have len: "length (dumps (snd kv)) \<le> j" "length R < j"
    using Cons.prems(2) unfolding e k by simp_all
  have "read_value j (dumps (snd kv) @ CHR '','' # R @ CHR ''}'' # r) = Some (snd kv, CHR '','' # R @ CHR ''}'' # r)"
    using Cons.prems(1) len(1) by (simp add: reads_def)
  moreover have "read_entries j (R @ CHR ''}'' # r) = Some (kw # kvs, r)"
    using Cons.prems(1) len(2) unfolding R_def by (intro Cons.IH) simp_all
  moreover have "skip_ws (R @ CHR ''}'' # r) = R @ CHR ''}'' # r"
    by (simp add: R_def join_Cons entry_def dumps_str_shape)
  ultimately show ?case using length_escape [of "fst kv"] unfolding e k
    by (simp add: dumps_str_shape read_str_dumps)
qed

lemma reads_dumps: "wf_json v \<Longrightarrow> reads v"
proof (induction v rule: wf_json.induct)
  case (1 xs)
  have "read_value k (dumps (JList xs) @ r) = Some (JList xs, r)" if "length (dumps (JList xs)) \<le> k" for k r
  proof (cases xs)
    case Nil
    with that obtain j where "k = Suc j" by (cases k) auto
    with Nil show ?thesis by (simp add: code_point_def)
  next
    case (Cons y ys)
    from that obtain j where k: "k = Suc j" by (cases k) auto
    have "read_items j (join '','' (map dumps xs) @ CHR '']'' # r) = Some (xs, r)"
      unfolding Cons using 1 that by (intro reads_items) (auto simp: k Cons list_all_iff)
    then show ?thesis using dumps_hd [of y]
      by (cases "dumps y") (simp_all add: k Cons join_Cons code_point_def skip_ws_id)
  qed
  then show ?case by (simp add: reads_def del: dumps.simps)
next
  case (2 kvs)
  let ?e = "\<lambda>kv. dumps_str (fst kv) @ '':'' @ dumps (snd kv)"
  have "dict_update [] kvs = kvs" using 2(2) by (simp add: dict_update_new)
  have "read_value k (dumps (JObj kvs) @ r) = Some (JObj kvs, r)" if "length (dumps (JObj kvs)) \<le> k" for k r
  proof (cases kvs)
    case Nil
    with that obtain j where "k = Suc j" by (cases k) auto
    with Nil show ?thesis by (simp add: code_point_def)
  next
    case (Cons y ys)
    from that obtain j where k: "k = Suc j" by (cases k) auto
    have "read_entries j (join '','' (map ?e kvs) @ CHR ''}'' # r) = Some (kvs, r)"
      unfolding Cons using 2 that by (intro reads_entries) (auto simp: k Cons list_all_iff)
    then show ?thesis
      by (simp add: k Cons join_Cons code_point_def dumps_str_shape char_of_eq_iff \<open>dict_update [] kvs = kvs\<close> [unfolded Cons])
  qed
  then show ?case by (simp add: reads_def del: dumps.simps)
qed (rule reads_scalar)+

lemma loads_dumps:
  assumes "wf_json v"
  shows "loads (dumps v) = Some v"
proof -
  have "length (dumps v) \<le> 2 * length (dumps v)" by simp
  with reads_dumps [OF assms] ends_simps(1) have "read_value (2 * length (dumps v)) (dumps v @ []) = Some (v, [])"
    unfolding reads_def by blast
  then show ?thesis using skip_ws_dumps [of v "[]"] by (simp add: loads_def)
qed

lemma dumps_inj: "wf_json v \<Longrightarrow> wf_json w \<Longrightarrow> dumps v = dumps w \<longleftrightarrow> v = w"
  by (metis loads_dumps option.inject)

end
