(* ===== verification/Conventions.thy ===== *)
theory Conventions
  imports Loads Base64 Uuid
begin

text \<open>
  The message conventions of \<open>src/apis/arqs_conventions.py\<close>: the v1 headers, reading a packet by
  them, receipts and reactions. A mapping that may be \<open>None\<close> is the empty dictionary here, as the
  code reads \<open>dict(headers or {})\<close>. Byte strings are lists of characters.
\<close>

section \<open>The library functions behind it\<close>

text \<open>
  \<open>gzip.decompress\<close>, \<open>hashlib.sha256\<close> (its hexadecimal digest), the codec registry of
  \<open>bytes.decode\<close> (\<^term>\<open>None\<close>: \<open>LookupError\<close>; \<^term>\<open>Inl e\<close>: \<open>UnicodeDecodeError\<close> with its text), and the
  texts of the exceptions of \<open>base64\<close> and \<open>gzip\<close>.
\<close>

record pylib =
  py_gunzip :: "string \<Rightarrow> string + string"
  py_sha256 :: "string \<Rightarrow> string"
  py_codec :: "string \<Rightarrow> (string \<Rightarrow> string + string) option"
  py_b64_error :: "string \<Rightarrow> string"

text \<open>\<open>s.encode("utf-8")\<close> for code points below 256.\<close>

definition utf8_char :: "char \<Rightarrow> string" where
  "utf8_char c = (let n = code_point c in
     if n < 128 then [c] else [char_of (192 + n div 64), char_of (128 + n mod 64)])"

definition utf8_encode :: "string \<Rightarrow> string" where
  "utf8_encode s = concat (map utf8_char s)"

section \<open>Names\<close>

definition header_envelope :: string where "header_envelope = ''arqs_envelope''"
definition header_type :: string where "header_type = ''arqs_type''"
definition header_content_type :: string where "header_content_type = ''content_type''"
definition header_transfer_encoding :: string where "header_transfer_encoding = ''content_transfer_encoding''"
definition header_content_encoding :: string where "header_content_encoding = ''content_encoding''"
definition header_encryption :: string where "header_encryption = ''encryption''"
definition header_receipt_request :: string where "header_receipt_request = ''receipt_request''"
definition header_correlation_id :: string where "header_correlation_id = ''correlation_id''"
definition header_causation_id :: string where "header_causation_id = ''causation_id''"
definition type_message :: string where "type_message = ''message.v1''"
definition type_reaction :: string where "type_reaction = ''reaction.v1''"
definition type_command :: string where "type_command = ''command.v1''"
definition type_command_response :: string where "type_command_response = ''command.response.v1''"
definition type_presence_ping :: string where "type_presence_ping = ''presence.ping.v1''"
definition type_presence_pong :: string where "type_presence_pong = ''presence.pong.v1''"

lemmas header_names = header_envelope_def header_type_def header_content_type_def header_transfer_encoding_def
  header_content_encoding_def header_encryption_def header_receipt_request_def header_correlation_id_def
  header_causation_id_def

definition core_v1_headers :: "string list" where
  "core_v1_headers = [header_envelope, header_type, header_content_type, header_transfer_encoding,
     header_content_encoding, header_encryption]"

section \<open>Normalisation of single headers\<close>

definition normalize_header_value :: "json \<Rightarrow> string option" where
  "normalize_header_value v = (if none_or_empty v then None else Some (str_value v))"

definition normalize_uuid_header_value :: "string option \<Rightarrow> py_exc + string option" where
  "normalize_uuid_header_value v =
     (case v of None \<Rightarrow> Inr None
      | Some s \<Rightarrow> if s = [] then Inr None
          else (case parse_uuid s of
             None \<Rightarrow> Inl (ValueError (''invalid UUID header value: '' @ s))
           | Some u \<Rightarrow> Inr (Some u)))"

definition normalize_optional_uuid_header_value :: "json \<Rightarrow> string option" where
  "normalize_optional_uuid_header_value v = (if none_or_empty v then None else parse_uuid (str_value v))"

definition get_uuid_header_value :: "dict \<Rightarrow> string \<Rightarrow> string option" where
  "get_uuid_header_value headers key = normalize_optional_uuid_header_value (dict_get headers key)"

fun normalize_receipt_items :: "json list \<Rightarrow> string list" where
  "normalize_receipt_items [] = []"
| "normalize_receipt_items (v # vs) =
     (if none_or_empty v then normalize_receipt_items vs
      else let text = strip (str_value v) in
        if text \<noteq> [] then text # normalize_receipt_items vs else normalize_receipt_items vs)"

definition normalize_receipt_request :: "json \<Rightarrow> string list" where
  "normalize_receipt_request v = (case v of JList items \<Rightarrow> normalize_receipt_items items | _ \<Rightarrow> [])"

section \<open>Headers\<close>

record v1_options =
  vo_content_type :: string
  vo_transfer_encoding :: string
  vo_content_encoding :: string
  vo_encryption :: string
  vo_receipt_request :: json
  vo_correlation_id :: "string option"
  vo_causation_id :: "string option"
  vo_extra_headers :: dict

text \<open>The keyword defaults of \<open>build_v1_headers\<close>.\<close>

definition v1_defaults :: "string \<Rightarrow> v1_options" where
  "v1_defaults content_type = \<lparr>vo_content_type = content_type, vo_transfer_encoding = ''utf-8'',
     vo_content_encoding = ''identity'', vo_encryption = ''none'', vo_receipt_request = JNull,
     vo_correlation_id = None, vo_causation_id = None, vo_extra_headers = []\<rparr>"

definition put_some :: "string \<Rightarrow> string option \<Rightarrow> dict \<Rightarrow> dict" where
  "put_some k v d = (case v of None \<Rightarrow> d | Some s \<Rightarrow> dict_put k (JStr s) d)"

definition build_v1_headers :: "string \<Rightarrow> v1_options \<Rightarrow> py_exc + dict" where
  "build_v1_headers arqs_type opts =
     (let headers = dict_update (vo_extra_headers opts)
            [(header_envelope, JStr ''v1''), (header_type, JStr arqs_type),
             (header_content_type, JStr (vo_content_type opts)),
             (header_transfer_encoding, JStr (vo_transfer_encoding opts)),
             (header_content_encoding, JStr (vo_content_encoding opts)),
             (header_encryption, JStr (vo_encryption opts))];
          receipts = normalize_receipt_request (vo_receipt_request opts);
          headers = (if receipts \<noteq> [] then dict_put header_receipt_request (JList (map JStr receipts)) headers
                     else headers)
      in case normalize_uuid_header_value (vo_correlation_id opts) of Inl e \<Rightarrow> Inl e
         | Inr correlation_id \<Rightarrow>
             (case normalize_uuid_header_value (vo_causation_id opts) of Inl e \<Rightarrow> Inl e
              | Inr causation_id \<Rightarrow>
                  Inr (put_some header_causation_id causation_id
                        (put_some header_correlation_id correlation_id headers))))"

definition build_client_meta :: "string \<Rightarrow> string option \<Rightarrow> dict \<Rightarrow> dict" where
  "build_client_meta client adapter extra_meta =
     (let meta = [(''client'', JStr client)];
          meta = (case adapter of None \<Rightarrow> meta
                  | Some a \<Rightarrow> if a = [] then meta else dict_put ''adapter'' (JStr a) meta)
      in dict_update meta extra_meta)"

definition get_packet_type :: "dict \<Rightarrow> string option" where
  "get_packet_type headers = str_or_none (dict_get headers header_type)"

definition get_correlation_id :: "dict \<Rightarrow> string option" where
  "get_correlation_id headers = get_uuid_header_value headers header_correlation_id"

definition get_causation_id :: "dict \<Rightarrow> string option" where
  "get_causation_id headers = get_uuid_header_value headers header_causation_id"

definition get_receipt_request :: "dict \<Rightarrow> string list" where
  "get_receipt_request headers = normalize_receipt_request (dict_get headers header_receipt_request)"

definition is_receipt_type :: "string option \<Rightarrow> bool" where
  "is_receipt_type t = startswith (case t of None \<Rightarrow> [] | Some s \<Rightarrow> s) ''receipt.''"

definition is_presence_ping_type :: "string option \<Rightarrow> bool" where
  "is_presence_ping_type t \<longleftrightarrow> t = Some type_presence_ping"

definition is_presence_pong_type :: "string option \<Rightarrow> bool" where
  "is_presence_pong_type t \<longleftrightarrow> t = Some type_presence_pong"

definition should_ignore_receipt_request :: "dict \<Rightarrow> bool" where
  "should_ignore_receipt_request headers = is_receipt_type (get_packet_type headers)"

definition build_receipt_headers :: "string \<Rightarrow> dict \<Rightarrow> string \<Rightarrow> py_exc + dict" where
  "build_receipt_headers receipt_type original_headers original_packet_id =
     build_v1_headers receipt_type ((v1_defaults ''application/json'')
       \<lparr>vo_correlation_id := get_correlation_id original_headers, vo_causation_id := Some original_packet_id\<rparr>)"

definition is_convention_v1 :: "dict \<Rightarrow> bool" where
  "is_convention_v1 headers \<longleftrightarrow> lower (strip (str_or_empty (dict_get headers header_envelope))) = ''v1''"

section \<open>Reactions\<close>

definition get_reaction_emoji_identity :: "dict \<Rightarrow> (string \<times> string) option" where
  "get_reaction_emoji_identity data =
     (let emoji_id = strip (str_or_empty (dict_get data ''emoji_id''));
          emoji = strip (str_or_empty (dict_get data ''emoji''));
          emoji_name = strip_by (\<lambda>c. c = CHR '':'') (strip (str_or_empty (dict_get data ''emoji_name'')))
      in if emoji_id \<noteq> [] then Some (''emoji_id'', emoji_id)
         else if emoji \<noteq> [] then Some (''emoji'', emoji)
         else if emoji_name \<noteq> [] then Some (''emoji_name'', emoji_name)
         else None)"

definition optional_str :: "string option \<Rightarrow> json" where
  "optional_str s = (case s of None \<Rightarrow> JNull | Some t \<Rightarrow> JStr t)"

definition reaction_payload :: "string \<Rightarrow> string \<Rightarrow> string \<Rightarrow> string \<times> string \<Rightarrow> dict" where
  "reaction_payload packet_id platform user_id identity =
     [(''for_packet_id'', JStr packet_id), (''source_platform'', JStr platform), (''source_user_id'', JStr user_id),
      (''emoji_kind'', JStr (fst identity)), (''emoji_value'', JStr (snd identity))]"

text \<open>The text that is hashed: the payload as compact JSON with sorted keys.\<close>

definition reaction_key_input ::
  "json \<Rightarrow> string \<Rightarrow> string \<Rightarrow> string option \<Rightarrow> string option \<Rightarrow> string option \<Rightarrow> py_exc + string" where
  "reaction_key_input for_packet_id source_platform source_user_id emoji emoji_name emoji_id =
     (case get_reaction_emoji_identity [(''emoji'', optional_str emoji), (''emoji_name'', optional_str emoji_name),
             (''emoji_id'', optional_str emoji_id)] of
        None \<Rightarrow> Inl (ValueError ''one of emoji_id, emoji, or emoji_name is required'')
      | Some identity \<Rightarrow>
          let platform = lower (strip source_platform); user_id = strip source_user_id in
          if platform = [] then Inl (ValueError ''source_platform is required'')
          else if user_id = [] then Inl (ValueError ''source_user_id is required'')
          else (case parse_uuid (str_value for_packet_id) of
              None \<Rightarrow> Inl (ValueError ''badly formed hexadecimal UUID string'')
            | Some packet_id \<Rightarrow>
                Inr (dumps (JObj (sort_dict (reaction_payload packet_id platform user_id identity))))))"

definition build_reaction_key ::
  "pylib \<Rightarrow> json \<Rightarrow> string \<Rightarrow> string \<Rightarrow> string option \<Rightarrow> string option \<Rightarrow> string option \<Rightarrow> py_exc + string" where
  "build_reaction_key lib for_packet_id source_platform source_user_id emoji emoji_name emoji_id =
     (case reaction_key_input for_packet_id source_platform source_user_id emoji emoji_name emoji_id of
        Inl e \<Rightarrow> Inl e
      | Inr raw \<Rightarrow> Inr (''reaction.v1:'' @ py_sha256 lib (utf8_encode raw)))"

definition get_reaction_key :: "pylib \<Rightarrow> dict \<Rightarrow> string option" where
  "get_reaction_key lib data =
     (let reaction_key = strip (str_or_empty (dict_get data ''reaction_key'')) in
      if reaction_key \<noteq> [] then Some reaction_key
      else (case build_reaction_key lib (dict_get data ''for_packet_id'')
                (str_or_empty (dict_get data ''source_platform'')) (str_or_empty (dict_get data ''source_user_id''))
                (str_or_none (dict_get data ''emoji'')) (str_or_none (dict_get data ''emoji_name''))
                (str_or_none (dict_get data ''emoji_id'')) of
              Inl _ \<Rightarrow> None | Inr k \<Rightarrow> Some k))"

definition reaction_display_value :: "dict \<Rightarrow> string" where
  "reaction_display_value data =
     (let emoji = dict_get data ''emoji'';
          emoji_text = (if none_or_empty emoji then [] else strip (str_value emoji));
          emoji_name = strip (str_or_empty (dict_get data ''emoji_name''))
      in if emoji_text \<noteq> [] then emoji_text
         else if emoji_name = [] then []
         else if startswith emoji_name '':'' \<and> endswith emoji_name '':'' then emoji_name
         else if CHR '' '' \<in> set emoji_name then emoji_name
         else '':'' @ emoji_name @ '':'')"

definition render_reaction_text :: "dict \<Rightarrow> string option" where
  "render_reaction_text data =
     (let action = lower (strip (str_or_empty (dict_get data ''action''))); display = reaction_display_value data in
      if display = [] then None
      else if action = ''set'' then Some (''reacted with '' @ display)
      else if action = ''remove'' then Some (''removed reaction '' @ display)
      else None)"

section \<open>Reading a body\<close>

record decoded_packet_view =
  dv_is_convention_v1 :: bool
  dv_arqs_type :: "string option"
  dv_content_type :: "string option"
  dv_body_text :: "string option"
  dv_body_bytes :: "string option"
  dv_errors :: "string list"

definition contains :: "string \<Rightarrow> string \<Rightarrow> bool" where
  "contains s p \<longleftrightarrow> list_ex (\<lambda>i. startswith (drop i s) p) [0..<Suc (length s)]"

definition is_textual_content_type :: "string option \<Rightarrow> bool" where
  "is_textual_content_type content_type =
     (let lowered = lower (strip (case content_type of None \<Rightarrow> [] | Some c \<Rightarrow> c)) in
      if lowered = [] then False
      else if startswith lowered ''text/'' then True
      else if startswith lowered ''application/json'' then True
      else contains lowered ''+json'')"

text \<open>\<open>part.strip().partition("=")\<close>, then \<open>value.strip().strip('"').strip("'")\<close>.\<close>

definition strip_quotes :: "string \<Rightarrow> string" where
  "strip_quotes s = strip_by (\<lambda>c. code_point c = 39) (strip_by (\<lambda>c. code_point c = 34) (strip s))"

fun find_charset :: "string list \<Rightarrow> string option" where
  "find_charset [] = None"
| "find_charset (part # parts) =
     (let p = strip part; key = takeWhile (\<lambda>c. c \<noteq> CHR ''='') p; value = drop (Suc (length key)) p in
      if lower (strip key) = ''charset'' \<and> strip value \<noteq> [] then Some (strip_quotes value)
      else find_charset parts)"

definition content_charset :: "string option \<Rightarrow> string option" where
  "content_charset content_type =
     find_charset (tl (split_char (CHR '';'') (case content_type of None \<Rightarrow> [] | Some c \<Rightarrow> c)))"

definition decode_transfer_encoding :: "pylib \<Rightarrow> string option \<Rightarrow> string \<Rightarrow> string + string" where
  "decode_transfer_encoding lib body transfer_encoding =
     (case body of None \<Rightarrow> Inr []
      | Some b \<Rightarrow>
          if transfer_encoding = ''utf-8'' then Inr (utf8_encode b)
          else if transfer_encoding = ''base64'' then
            (case b64decode True b of
               None \<Rightarrow> Inl (''invalid base64 body: '' @ py_b64_error lib b)
             | Some raw \<Rightarrow> Inr raw)
          else Inl (''unsupported content_transfer_encoding: '' @ transfer_encoding))"

definition decode_content_encoding :: "pylib \<Rightarrow> string \<Rightarrow> string \<Rightarrow> string + string" where
  "decode_content_encoding lib raw content_encoding =
     (if content_encoding = ''identity'' then Inr raw
      else if content_encoding = ''gzip'' then
        (case py_gunzip lib raw of Inl m \<Rightarrow> Inl (''invalid gzip payload: '' @ m) | Inr b \<Rightarrow> Inr b)
      else Inl (''unsupported content_encoding: '' @ content_encoding))"

definition failed_view :: "dict \<Rightarrow> string option \<Rightarrow> string \<Rightarrow> decoded_packet_view" where
  "failed_view headers bytes message =
     \<lparr>dv_is_convention_v1 = True, dv_arqs_type = get_packet_type headers,
      dv_content_type = normalize_header_value (dict_get headers header_content_type),
      dv_body_text = None, dv_body_bytes = bytes, dv_errors = [message]\<rparr>"

definition header_word :: "dict \<Rightarrow> string \<Rightarrow> string" where
  "header_word headers name = lower (strip (str_value (dict_get headers name)))"

text \<open>The charset of a textual body; an unknown one raises \<open>LookupError\<close>, which nothing catches.\<close>

definition decode_text :: "pylib \<Rightarrow> dict \<Rightarrow> string \<Rightarrow> py_exc + decoded_packet_view" where
  "decode_text lib headers bytes =
     (let content_type = normalize_header_value (dict_get headers header_content_type);
          view = \<lparr>dv_is_convention_v1 = True, dv_arqs_type = get_packet_type headers,
            dv_content_type = content_type, dv_body_text = None, dv_body_bytes = Some bytes, dv_errors = []\<rparr>
      in if \<not> is_textual_content_type content_type then Inr view
         else let charset = (case content_charset content_type of None \<Rightarrow> ''utf-8''
                | Some c \<Rightarrow> if c = [] then ''utf-8'' else c)
           in case py_codec lib charset of
                None \<Rightarrow> Inl (OtherException (''unknown encoding: '' @ charset))
              | Some decode \<Rightarrow>
                  (case decode bytes of
                     Inl m \<Rightarrow> Inr (failed_view headers (Some bytes)
                       (''failed to decode text payload with charset '' @ charset @ '': '' @ m))
                   | Inr text \<Rightarrow> Inr (view\<lparr>dv_body_text := Some text\<rparr>)))"

definition missing_headers :: "dict \<Rightarrow> string list" where
  "missing_headers headers = filter (\<lambda>name. normalize_header_value (dict_get headers name) = None) core_v1_headers"

definition decode_packet_view :: "pylib \<Rightarrow> string option \<Rightarrow> dict \<Rightarrow> py_exc + decoded_packet_view" where
  "decode_packet_view lib body headers =
     (if \<not> is_convention_v1 headers then
        Inr \<lparr>dv_is_convention_v1 = False, dv_arqs_type = get_packet_type headers,
             dv_content_type = normalize_header_value (dict_get headers header_content_type),
             dv_body_text = body, dv_body_bytes = map_option utf8_encode body, dv_errors = []\<rparr>
      else if missing_headers headers \<noteq> [] then
        Inr (failed_view headers None
          (''missing required convention header(s): '' @ join '', '' (missing_headers headers)))
      else if header_word headers header_encryption \<noteq> ''none'' then
        Inr (failed_view headers None (''unsupported encryption: '' @ header_word headers header_encryption))
      else case decode_transfer_encoding lib body (header_word headers header_transfer_encoding) of
          Inl m \<Rightarrow> Inr (failed_view headers None m)
        | Inr raw \<Rightarrow>
            (case decode_content_encoding lib raw (header_word headers header_content_encoding) of
               Inl m \<Rightarrow> Inr (failed_view headers None m)
             | Inr bytes \<Rightarrow> decode_text lib headers bytes))"

text \<open>\<open>json.dumps(dict(data), ensure_ascii=False, indent=2)\<close>; the number is the indentation.\<close>

definition newline :: "nat \<Rightarrow> string" where
  "newline n = char_of (10::nat) # replicate n (CHR '' '')"

fun dumps_indent :: "nat \<Rightarrow> json \<Rightarrow> string" where
  "dumps_indent n (JList xs) =
     (if xs = [] then ''[]''
      else ''['' @ newline (n + 2) @ join ('','' @ newline (n + 2)) (map (dumps_indent (n + 2)) xs)
           @ newline n @ '']'')"
| "dumps_indent n (JObj kvs) =
     (if kvs = [] then ''{}''
      else ''{'' @ newline (n + 2) @ join ('','' @ newline (n + 2))
             (map (\<lambda>kv. dumps_str (fst kv) @ '': '' @ dumps_indent (n + 2) (snd kv)) kvs) @ newline n @ ''}'')"
| "dumps_indent n v = dumps v"

text \<open>
  Without \<open>ensure_ascii=False\<close> every character that is not ASCII is escaped; it stands in a literal.
\<close>

definition ascii_only :: "string \<Rightarrow> string" where
  "ascii_only s = concat (map (\<lambda>c. let n = code_point c in
     if n < 128 then [c] else char_of (92::nat) # ''u00'' @ [hex_digit (n div 16), hex_digit (n mod 16)]) s)"

definition render_packet_text :: "pylib \<Rightarrow> string option \<Rightarrow> dict \<Rightarrow> dict \<Rightarrow> py_exc + string" where
  "render_packet_text lib body data headers =
     (case decode_packet_view lib body headers of Inl e \<Rightarrow> Inl e
      | Inr decoded \<Rightarrow> Inr
          (case dv_body_text decoded of
             Some (c # t) \<Rightarrow> c # t
           | _ \<Rightarrow>
               (case (if dv_arqs_type decoded = Some type_reaction \<and> data \<noteq> [] then render_reaction_text data
                      else None) of
                  Some text \<Rightarrow> text
                | None \<Rightarrow>
                    if data \<noteq> [] then dumps_indent 0 (JObj data)
                    else if dv_errors decoded \<noteq> [] then
                      ''['' @ (case dv_arqs_type decoded of None \<Rightarrow> ''packet'' | Some t \<Rightarrow> if t = [] then ''packet'' else t)
                        @ '': '' @ hd (dv_errors decoded) @ '']''
                    else ''[empty message]'')))"

section \<open>Lemmas\<close>

lemma none_or_empty_JStr [simp]: "none_or_empty (JStr s) \<longleftrightarrow> s = []" "\<not> none_or_empty (JList xs)"
  by (simp_all add: none_or_empty_def)

lemma str_value_JStr [simp]: "str_value (JStr s) = s"
  by (simp add: str_value_def)

lemma dict_get_put_some [simp]:
  "dict_get (put_some k v d) k' = (case v of None \<Rightarrow> dict_get d k' | Some s \<Rightarrow> if k' = k then JStr s else dict_get d k')"
  by (simp add: put_some_def split: option.split)

lemma normalize_uuid_Inr:
  "normalize_uuid_header_value v = Inr u \<longleftrightarrow>
     (if v = None \<or> v = Some [] then u = None else u \<noteq> None \<and> u = parse_uuid (the v))"
  by (auto simp: normalize_uuid_header_value_def split: option.splits)

lemma parse_uuid_not_Nil: "parse_uuid s \<noteq> Some []"
  by (auto simp: parse_uuid_def)

lemma uuid_header: "parse_uuid s = Some c \<Longrightarrow> dict_get h k = JStr c \<Longrightarrow> get_uuid_header_value h k = Some c"
  using parse_uuid_not_Nil [of s] parse_uuid_idem [of s c]
  by (auto simp: get_uuid_header_value_def normalize_optional_uuid_header_value_def)

lemma receipt_items_stripped:
  "w \<in> set (normalize_receipt_items vs) \<Longrightarrow> w \<noteq> [] \<and> strip w = w"
  by (induction vs) (auto simp: Let_def strip_idem split: if_splits)

lemma receipt_items_id:
  "(\<And>w. w \<in> set ws \<Longrightarrow> w \<noteq> [] \<and> strip w = w) \<Longrightarrow> normalize_receipt_items (map JStr ws) = ws"
  by (induction ws) (auto simp: Let_def)

lemma receipt_request_idem:
  "normalize_receipt_request (JList (map JStr (normalize_receipt_request v))) = normalize_receipt_request v"
  using receipt_items_stripped
  by (auto simp: normalize_receipt_request_def split: json.split intro!: receipt_items_id)

text \<open>The headers that are built, one by one.\<close>

lemma build_v1_headers_get:
  assumes "build_v1_headers t opts = Inr h"
  obtains corr caus where "normalize_uuid_header_value (vo_correlation_id opts) = Inr corr"
    "normalize_uuid_header_value (vo_causation_id opts) = Inr caus"
    "\<And>k. dict_get h k =
      (if k = header_causation_id \<and> caus \<noteq> None then JStr (the caus)
       else if k = header_correlation_id \<and> corr \<noteq> None then JStr (the corr)
       else if k = header_receipt_request \<and> normalize_receipt_request (vo_receipt_request opts) \<noteq> []
         then JList (map JStr (normalize_receipt_request (vo_receipt_request opts)))
       else if k = header_envelope then JStr ''v1'' else if k = header_type then JStr t
       else if k = header_content_type then JStr (vo_content_type opts)
       else if k = header_transfer_encoding then JStr (vo_transfer_encoding opts)
       else if k = header_content_encoding then JStr (vo_content_encoding opts)
       else if k = header_encryption then JStr (vo_encryption opts)
       else dict_get (vo_extra_headers opts) k)"
proof -
  from assms obtain corr caus where
    u: "normalize_uuid_header_value (vo_correlation_id opts) = Inr corr"
      "normalize_uuid_header_value (vo_causation_id opts) = Inr caus"
    by (auto simp: build_v1_headers_def Let_def split: sum.splits)
  have h: "h = put_some header_causation_id caus (put_some header_correlation_id corr
      (let d = dict_update (vo_extra_headers opts) [(header_envelope, JStr ''v1''), (header_type, JStr t),
             (header_content_type, JStr (vo_content_type opts)),
             (header_transfer_encoding, JStr (vo_transfer_encoding opts)),
             (header_content_encoding, JStr (vo_content_encoding opts)),
             (header_encryption, JStr (vo_encryption opts))];
           rs = normalize_receipt_request (vo_receipt_request opts)
       in if rs \<noteq> [] then dict_put header_receipt_request (JList (map JStr rs)) d else d))"
    using assms by (simp add: build_v1_headers_def Let_def u)
  show thesis
    by (rule that [OF u]) (simp add: h Let_def header_names split: option.split)
qed

lemma utf8_char_cases:
  "utf8_char c = [c] \<and> code_point c < 128 \<or>
   (\<exists>a b. utf8_char c = [a, b] \<and> 192 \<le> code_point a \<and> c = char_of ((code_point a - 192) * 64 + (code_point b - 128)))"
proof (cases "code_point c < 128")
  case False
  define n where "n = code_point c"
  have "n < 256" by (simp add: n_def code_point_less)
  moreover have "n div 64 < 4" using calculation by (simp add: less_mult_imp_div_less)
  ultimately have ab: "code_point (char_of (192 + n div 64)) = 192 + n div 64"
    "code_point (char_of (128 + n mod 64)) = 128 + n mod 64"
    by (simp_all add: code_point_char_of)
  have "utf8_char c = [char_of (192 + n div 64), char_of (128 + n mod 64)]"
    using False by (simp add: utf8_char_def Let_def flip: n_def)
  moreover have "c = char_of ((192 + n div 64 - 192) * 64 + (128 + n mod 64 - 128))"
    by (simp add: n_def code_point_def)
  ultimately show ?thesis using ab by (metis le_add1)
qed (simp add: utf8_char_def)

lemma utf8_encode_inj: "utf8_encode s = utf8_encode t \<Longrightarrow> s = t"
proof (induction s arbitrary: t)
  case Nil
  then show ?case using utf8_char_cases [of "hd t"] by (cases t) (auto simp: utf8_encode_def)
next
  case (Cons c s)
  then obtain d t' where t: "t = d # t'" using utf8_char_cases [of c] by (cases t) (auto simp: utf8_encode_def)
  have "utf8_char c @ utf8_encode s = utf8_char d @ utf8_encode t'"
    using Cons.prems by (simp add: t utf8_encode_def)
  with utf8_char_cases [of c] utf8_char_cases [of d] have "c = d" "utf8_encode s = utf8_encode t'" by auto
  with Cons.IH t show ?case by simp
qed

lemma built_core:
  assumes "build_v1_headers t opts = Inr h" "t \<noteq> []" "vo_content_type opts \<noteq> []" "vo_transfer_encoding opts \<noteq> []"
    and "vo_content_encoding opts \<noteq> []" "vo_encryption opts \<noteq> []"
  shows "is_convention_v1 h" "missing_headers h = []" "get_packet_type h = Some t"
    "dict_get h header_content_type = JStr (vo_content_type opts)"
    "dict_get h header_transfer_encoding = JStr (vo_transfer_encoding opts)"
    "dict_get h header_content_encoding = JStr (vo_content_encoding opts)"
    "dict_get h header_encryption = JStr (vo_encryption opts)"
proof -
  have g: "dict_get h header_envelope = JStr ''v1''" "dict_get h header_type = JStr t"
    "dict_get h header_content_type = JStr (vo_content_type opts)"
    "dict_get h header_transfer_encoding = JStr (vo_transfer_encoding opts)"
    "dict_get h header_content_encoding = JStr (vo_content_encoding opts)"
    "dict_get h header_encryption = JStr (vo_encryption opts)"
    by (rule build_v1_headers_get [OF assms(1)]; simp add: header_names)+
  have v1: "lower (strip ''v1'') = ''v1''" by code_simp
  show "is_convention_v1 h" by (simp add: is_convention_v1_def g str_or_empty_def v1)
  show "missing_headers h = []"
    using assms(2-6) by (simp add: missing_headers_def core_v1_headers_def normalize_header_value_def g)
  show "get_packet_type h = Some t" using assms(2) by (simp add: get_packet_type_def g str_or_none_def)
qed (rule build_v1_headers_get [OF assms(1)]; simp add: header_names)+

text \<open>An identifier is stored under its canonical text and read back.\<close>

lemma built_identifiers:
  assumes "build_v1_headers t opts = Inr h"
  shows "vo_correlation_id opts = Some s \<Longrightarrow> s \<noteq> [] \<Longrightarrow> parse_uuid s \<noteq> None \<and> get_correlation_id h = parse_uuid s"
    and "vo_causation_id opts = Some s \<Longrightarrow> s \<noteq> [] \<Longrightarrow> parse_uuid s \<noteq> None \<and> get_causation_id h = parse_uuid s"
proof -
  obtain corr caus where u: "normalize_uuid_header_value (vo_correlation_id opts) = Inr corr"
      "normalize_uuid_header_value (vo_causation_id opts) = Inr caus"
    and g: "caus \<noteq> None \<Longrightarrow> dict_get h header_causation_id = JStr (the caus)"
      "corr \<noteq> None \<Longrightarrow> dict_get h header_correlation_id = JStr (the corr)"
    by (rule build_v1_headers_get [OF assms(1)]) (simp add: header_names)
  show "vo_correlation_id opts = Some s \<Longrightarrow> s \<noteq> [] \<Longrightarrow> parse_uuid s \<noteq> None \<and> get_correlation_id h = parse_uuid s"
    using u(1) g(2) uuid_header [of s "the corr" h] by (auto simp: normalize_uuid_Inr get_correlation_id_def)
  show "vo_causation_id opts = Some s \<Longrightarrow> s \<noteq> [] \<Longrightarrow> parse_uuid s \<noteq> None \<and> get_causation_id h = parse_uuid s"
    using u(2) g(1) uuid_header [of s "the caus" h] by (auto simp: normalize_uuid_Inr get_causation_id_def)
qed

lemma built_rest:
  assumes "build_v1_headers t opts = Inr h"
  shows "normalize_receipt_request (vo_receipt_request opts) \<noteq> [] \<Longrightarrow>
      get_receipt_request h = normalize_receipt_request (vo_receipt_request opts)"
    and "k \<notin> {header_receipt_request, header_correlation_id, header_causation_id} \<Longrightarrow> k \<notin> set core_v1_headers \<Longrightarrow>
      dict_get h k = dict_get (vo_extra_headers opts) k"
  by (rule build_v1_headers_get [OF assms]; simp add: get_receipt_request_def header_names receipt_request_idem
      core_v1_headers_def)+

section \<open>Properties\<close>

text \<open>
  Headers read back: the headers that \<open>build_v1_headers\<close> returns are recognised as convention v1
  with none of the required ones missing; type, correlation and causation identifiers (as canonical
  UUID texts) and the receipt request are what was put in; extra headers survive under every other
  name and never replace a required one.
\<close>

theorem headers_roundtrip:
  assumes "build_v1_headers t opts = Inr h" "t \<noteq> []" "vo_content_type opts \<noteq> []" "vo_transfer_encoding opts \<noteq> []"
    and "vo_content_encoding opts \<noteq> []" "vo_encryption opts \<noteq> []"
  shows "is_convention_v1 h \<and> missing_headers h = [] \<and> get_packet_type h = Some t
    \<and> dict_get h header_content_type = JStr (vo_content_type opts)
    \<and> (\<forall>s. vo_correlation_id opts = Some s \<longrightarrow> s \<noteq> [] \<longrightarrow> parse_uuid s \<noteq> None \<and> get_correlation_id h = parse_uuid s)
    \<and> (\<forall>s. vo_causation_id opts = Some s \<longrightarrow> s \<noteq> [] \<longrightarrow> parse_uuid s \<noteq> None \<and> get_causation_id h = parse_uuid s)
    \<and> (normalize_receipt_request (vo_receipt_request opts) \<noteq> [] \<longrightarrow>
         get_receipt_request h = normalize_receipt_request (vo_receipt_request opts))
    \<and> (\<forall>k. k \<notin> {header_receipt_request, header_correlation_id, header_causation_id} \<longrightarrow> k \<notin> set core_v1_headers \<longrightarrow>
         dict_get h k = dict_get (vo_extra_headers opts) k)"
  using built_core [OF assms] built_identifiers [OF assms(1)] built_rest [OF assms(1)] by blast

definition demo_v1 :: v1_options where
  "demo_v1 = (v1_defaults ''text/plain; charset=utf-8'')\<lparr>vo_receipt_request := JList [JStr '' read '', JNull],
     vo_extra_headers := [(''arqs_type'', JStr ''other''), (''x'', JInt 1)]\<rparr>"

theorem headers_roundtrip_witness:
  "\<exists>h. build_v1_headers ''message.v1'' demo_v1 = Inr h \<and> get_packet_type h = Some ''message.v1''
     \<and> get_receipt_request h = [''read''] \<and> dict_get h ''x'' = JInt 1"
proof -
  have r: "normalize_receipt_request (vo_receipt_request demo_v1) = [''read'']" by code_simp
  obtain h where h: "build_v1_headers ''message.v1'' demo_v1 = Inr h"
    by (simp add: build_v1_headers_def Let_def normalize_uuid_header_value_def demo_v1_def v1_defaults_def)
  from headers_roundtrip [OF h] r show ?thesis
    by (intro exI [of _ h] conjI h)
      (auto simp: demo_v1_def v1_defaults_def core_v1_headers_def header_names dict_get_def)
qed

text \<open>
  C20: A text survives the conventions: sent with headers of \<open>build_v1_headers\<close> as UTF-8 or as Base64
  of its UTF-8 bytes, compressed or not, \<open>decode_packet_view\<close> reads exactly the text and its bytes,
  without an error.
\<close>

theorem text_roundtrip:
  assumes "build_v1_headers t opts = Inr h" "t \<noteq> []"
    and "is_textual_content_type (Some (vo_content_type opts))"
    and "content_charset (Some (vo_content_type opts)) \<in> {None, Some ''utf-8''}"
    and "vo_encryption opts = ''none''"
    and "vo_transfer_encoding opts = ''utf-8'' \<and> vo_content_encoding opts = ''identity'' \<and> body = s
      \<or> vo_transfer_encoding opts = ''base64'' \<and> vo_content_encoding opts = ''identity'' \<and> body = b64encode (utf8_encode s)
      \<or> vo_transfer_encoding opts = ''base64'' \<and> vo_content_encoding opts = ''gzip'' \<and> body = b64encode (gz (utf8_encode s))"
    and utf8: "py_codec lib ''utf-8'' = Some decode" "decode (utf8_encode s) = Inr s"
    and gzip: "py_gunzip lib (gz (utf8_encode s)) = Inr (utf8_encode s)"
  shows "decode_packet_view lib (Some body) h = Inr
    \<lparr>dv_is_convention_v1 = True, dv_arqs_type = Some t, dv_content_type = Some (vo_content_type opts),
     dv_body_text = Some s, dv_body_bytes = Some (utf8_encode s), dv_errors = []\<rparr>"
proof -
  have ct: "vo_content_type opts \<noteq> []" using assms(3) by (auto simp: is_textual_content_type_def strip_Nil)
  have ne: "vo_transfer_encoding opts \<noteq> []" "vo_content_encoding opts \<noteq> []" "vo_encryption opts \<noteq> []"
    using assms(5,6) by auto
  note h = built_core [OF assms(1,2) ct ne]
  have words: "lower (strip ''none'') = ''none''" "lower (strip ''utf-8'') = ''utf-8''" "lower (strip ''base64'') = ''base64''"
    "lower (strip ''identity'') = ''identity''" "lower (strip ''gzip'') = ''gzip''"
    by code_simp+
  have read: "decode_text lib h (utf8_encode s) = Inr
    \<lparr>dv_is_convention_v1 = True, dv_arqs_type = Some t, dv_content_type = Some (vo_content_type opts),
     dv_body_text = Some s, dv_body_bytes = Some (utf8_encode s), dv_errors = []\<rparr>"
    using assms(3,4) h ct utf8 by (auto simp: decode_text_def Let_def normalize_header_value_def)
  have enc: "header_word h header_encryption = ''none''" by (simp add: header_word_def h assms(5) words)
  show ?thesis
    using h assms(6) read enc gzip
    by (auto simp: decode_packet_view_def header_word_def words decode_transfer_encoding_def
        decode_content_encoding_def b64decode_encode)
qed

text \<open>A library that knows UTF-8 for ASCII texts.\<close>

definition ascii_lib :: pylib where
  "ascii_lib = \<lparr>py_gunzip = Inr, py_sha256 = id,
     py_codec = (\<lambda>c. if c = ''utf-8'' then Some (\<lambda>b. if list_all (\<lambda>x. code_point x < 128) b then Inr b else Inl ''invalid'') else None),
     py_b64_error = (\<lambda>_. ''Incorrect padding'')\<rparr>"

theorem text_roundtrip_witness:
  "\<exists>h. build_v1_headers ''message.v1'' (demo_v1\<lparr>vo_transfer_encoding := ''base64''\<rparr>) = Inr h
     \<and> map_sum id dv_body_text (decode_packet_view ascii_lib (Some (b64encode ''hi there'')) h) = Inr (Some ''hi there'')"
proof -
  let ?o = "demo_v1\<lparr>vo_transfer_encoding := ''base64''\<rparr>"
  obtain h where h: "build_v1_headers ''message.v1'' ?o = Inr h"
    by (simp add: build_v1_headers_def Let_def normalize_uuid_header_value_def demo_v1_def v1_defaults_def)
  have t: "is_textual_content_type (Some (vo_content_type ?o))"
    "content_charset (Some (vo_content_type ?o)) = Some ''utf-8''" by code_simp+
  have e: "utf8_encode ''hi there'' = ''hi there''" by code_simp
  have a: "list_all (\<lambda>x. code_point x < 128) ''hi there''" by code_simp
  from text_roundtrip [OF h _ t(1), of "b64encode ''hi there''" "''hi there''" "\<lambda>x. x" ascii_lib] h a show ?thesis
    unfolding t(2) by (simp add: e ascii_lib_def demo_v1_def v1_defaults_def)
qed

lemma reaction_payload_wf: "wf_dict (reaction_payload i p u e)"
  by (simp add: wf_dict_def reaction_payload_def)

lemma reaction_payload_eq:
  "sort_dict (reaction_payload i p u e) = sort_dict (reaction_payload j q v f) \<longleftrightarrow> i = j \<and> p = q \<and> u = v \<and> e = f"
proof
  assume "sort_dict (reaction_payload i p u e) = sort_dict (reaction_payload j q v f)"
  then have "map_of (sort_dict (reaction_payload i p u e)) k = map_of (sort_dict (reaction_payload j q v f)) k" for k
    by simp
  moreover have "distinct (map fst (reaction_payload i p u e))" for i p u e by (simp add: reaction_payload_def)
  ultimately have m: "map_option sort_json (map_of (reaction_payload i p u e) k) =
      map_option sort_json (map_of (reaction_payload j q v f) k)" for k
    by (simp add: map_of_sort_dict)
  show "i = j \<and> p = q \<and> u = v \<and> e = f"
    using m [of "''for_packet_id''"] m [of "''source_platform''"] m [of "''source_user_id''"]
      m [of "''emoji_kind''"] m [of "''emoji_value''"]
    by (simp add: reaction_payload_def prod_eq_iff)
qed simp

definition emoji_identity :: "string option \<Rightarrow> string option \<Rightarrow> string option \<Rightarrow> (string \<times> string) option" where
  "emoji_identity emoji emoji_name emoji_id = get_reaction_emoji_identity
     [(''emoji'', optional_str emoji), (''emoji_name'', optional_str emoji_name), (''emoji_id'', optional_str emoji_id)]"

lemma reaction_key_input_Inr:
  "reaction_key_input p pl u e en ei = Inr raw \<longleftrightarrow>
    (\<exists>i k. emoji_identity e en ei = Some k \<and> lower (strip pl) \<noteq> [] \<and> strip u \<noteq> [] \<and> parse_uuid (str_value p) = Some i
       \<and> raw = dumps (JObj (sort_dict (reaction_payload i (lower (strip pl)) (strip u) k))))"
  by (auto simp: reaction_key_input_def emoji_identity_def Let_def split: option.splits)

text \<open>
  A reaction key identifies the reaction: as far as SHA-256 does not collide on the two hashed
  texts, two keys are equal exactly when packet (as a UUID value), platform (up to case and
  surrounding white space), user and emoji identity are equal.
\<close>

theorem reaction_key_identifies:
  assumes "reaction_key_input p pl u e en ei = Inr raw" "reaction_key_input p' pl' u' e' en' ei' = Inr raw'"
    and "py_sha256 lib (utf8_encode raw) = py_sha256 lib (utf8_encode raw') \<Longrightarrow> utf8_encode raw = utf8_encode raw'"
  shows "build_reaction_key lib p pl u e en ei = build_reaction_key lib p' pl' u' e' en' ei' \<longleftrightarrow>
    parse_uuid (str_value p) = parse_uuid (str_value p') \<and> lower (strip pl) = lower (strip pl') \<and> strip u = strip u'
    \<and> emoji_identity e en ei = emoji_identity e' en' ei'"
proof -
  have "build_reaction_key lib p pl u e en ei = build_reaction_key lib p' pl' u' e' en' ei' \<longleftrightarrow> raw = raw'"
    using assms(3) utf8_encode_inj by (auto simp: build_reaction_key_def assms(1,2))
  moreover have "wf_json (JObj (sort_dict (reaction_payload i a b c)))" for i a b c
    using wf_sort_dict [OF reaction_payload_wf] by (simp add: wf_dict_def)
  ultimately show ?thesis
    using assms(1,2) unfolding reaction_key_input_Inr by (auto simp: dumps_inj reaction_payload_eq simp del: dumps.simps)
qed

theorem reaction_key_identifies_witness:
  "build_reaction_key ascii_lib (JStr (uuid_text 7)) '' Discord'' ''7'' (Some ''x'') None None
   = build_reaction_key ascii_lib (JStr (uuid_text 7)) ''discord'' '' 7 '' (Some '' x'') (Some ''n'') None"
proof -
  have u: "parse_uuid (str_value (JStr (uuid_text 7))) = Some (uuid_text 7)"
    by (simp add: parse_uuid_def uuid_value_text)
  have k: "emoji_identity (Some ''x'') None None = Some (''emoji'', ''x'')"
    "emoji_identity (Some '' x'') (Some ''n'') None = Some (''emoji'', ''x'')" by code_simp+
  have s: "lower (strip '' Discord'') = ''discord''" "lower (strip ''discord'') = ''discord''"
    "strip ''7'' = ''7''" "strip '' 7 '' = ''7''" by code_simp+
  define raw where "raw = dumps (JObj (sort_dict (reaction_payload (uuid_text 7) ''discord'' ''7'' (''emoji'', ''x''))))"
  have r: "reaction_key_input (JStr (uuid_text 7)) '' Discord'' ''7'' (Some ''x'') None None = Inr raw"
    unfolding reaction_key_input_Inr u k s raw_def by blast
  have r': "reaction_key_input (JStr (uuid_text 7)) ''discord'' '' 7 '' (Some '' x'') (Some ''n'') None = Inr raw"
    unfolding reaction_key_input_Inr u k s raw_def by blast
  show ?thesis using reaction_key_identifies [OF r r', of ascii_lib] by (simp only: u k s)
qed

end
