(* ===== verification/AdminProps.thy ===== *)
theory AdminProps
  imports AdminOps AccessCache "HOL-Library.Multiset"
begin

text \<open>
  What the operator can rely on: rules decide at once and for every spelling of an address, settings
  stay valid, reports agree with the queue; and where a pardon does not last.
\<close>

section \<open>Rules and settings\<close>

lemma try_normalize_strip: "try_normalize_ip (strip ip) = try_normalize_ip ip"
  by (simp add: try_normalize_ip_def strip_idem)

lemma normalize_ip_try: "try_normalize_ip ip = Some a \<Longrightarrow> normalize_ip ip = Inr a"
  by (auto simp: normalize_ip_def try_normalize_ip_def Let_def split: if_splits option.splits)

lemma rule_ready:
  assumes "ae_ready env" "set_ip_rule env now ip action reason s = Inr (r, t)"
  shows "try_normalize_ip ip = Some (ip_ip r)" "ip_action r \<in> set ip_policy_values"
    "t = s\<lparr>ip_access_rules := upsert_rule r (ip_access_rules s)\<rparr>"
  using assms
  by (auto simp: set_ip_rule_def Let_def validate_ip_policy_def split: sum.splits dest: normalize_ip_Inr validate_word_Inr)

text \<open>
  C21: A rule decides at once: in the dynamic mode, after \<open>set_ip_rule\<close> every spelling of the address is
  allowed exactly when the action is \<open>allow\<close> and blocked exactly when it is \<open>deny\<close>, whatever the
  static list and the default policy say; every other address is decided as before.
\<close>

theorem ip_rule_decides:
  assumes "ae_ready env" "settings_row s = Some st" "ip_access_mode (ae_cfg env) = Inr ''dynamic''"
    and "set_ip_rule env now ip action reason s = Inr (r, t)"
  shows "(try_normalize_ip ip' = try_normalize_ip ip \<longrightarrow>
            is_ip_allowed env now' ip' t = Inr (ip_action r = ''allow'', t)
          \<and> is_ip_blocked env now' ip' t = Inr (ip_action r = ''deny'', t)
          \<and> (ip_action r = ''allow'') = (ip_action r \<noteq> ''deny''))
       \<and> (try_normalize_ip ip' \<noteq> try_normalize_ip ip \<longrightarrow>
            map_sum id fst (is_ip_allowed env now' ip' t) = map_sum id fst (is_ip_allowed env now' ip' s))"
proof -
  note r = rule_ready [OF assms(1,4)]
  have f: "find_rule t a = (if a = ip_ip r then Some r else find_rule s a)" for a
    by (simp add: find_rule_def r(3) fetch_upsert_rule)
  have t: "settings_row t = Some st" using assms(2) by (simp add: r(3))
  have "ip_action r = ''allow'' \<or> ip_action r = ''deny''" using r(2) by (simp add: ip_policy_values_def)
  then show ?thesis
    using assms(1-3) r(1) t
    by (auto simp: is_ip_allowed_def is_ip_blocked_def f Let_def split: option.splits)
qed

theorem ip_rule_decides_witness:
  "\<exists>r t. set_ip_rule default_env 0 ''10.0.0.1'' ''deny'' None default_db = Inr (r, t)
     \<and> is_ip_allowed default_env 5 '' 10.0.0.1 '' t = Inr (False, t)"
proof -
  have sp: "strip '' 10.0.0.1 '' = ''10.0.0.1''" by (simp add: strip_def strip_by_def is_space_def code_point_def)
  have n: "normalize_ip ''10.0.0.1'' = Inr ''10.0.0.1''" "try_normalize_ip '' 10.0.0.1 '' = Some ''10.0.0.1''"
    using try_normalize_strip [of "'' 10.0.0.1 ''"] by (simp_all add: sp normalize_ip_try)
  have w: "validate_ip_policy ''action'' (JStr ''deny'') = Inr ''deny''" by code_simp
  obtain r t where s: "set_ip_rule default_env 0 ''10.0.0.1'' ''deny'' None default_db = Inr (r, t)" "ip_action r = ''deny''"
    by (simp add: set_ip_rule_def n w Let_def)
  from ip_rule_decides [OF _ _ _ s(1), of _ "'' 10.0.0.1 ''" 5] show ?thesis
    using s by (intro exI [of _ r] exI [of _ t]) (simp add: n default_access_mode)
qed

text \<open>
  C22: Settings stay valid: an accepted update of valid settings leaves all limits positive and the
  policy one of the two words, stores what it returns, and turns the default policy to \<open>deny\<close> only
  while an allow rule exists.
\<close>

theorem settings_stay_valid:
  assumes "ae_ready env" "settings_row s = Some r0" "settings_valid r0"
    and "update_runtime_settings env now updates s = Inr (r, t)"
  shows "settings_valid r \<and> settings_row t = Some r \<and> ip_access_rules t = ip_access_rules s \<and> rs_updated_at r = now
    \<and> (rs_default_ip_policy r0 = ''allow'' \<and> rs_default_ip_policy r = ''deny'' \<longrightarrow> 0 < count_ip_rules s ''allow'')"
proof -
  from assms(1,2,4) obtain us where us: "filter_updates updates = Inr us"
    and g: "\<not> (PolicySetting ''deny'' \<in> set us \<and> count_ip_rules s ''allow'' = 0)"
    and r: "r = (fold put_setting us r0)\<lparr>rs_updated_at := now\<rparr>" and t: "t = s\<lparr>settings_row := Some r\<rparr>"
    by (auto simp: update_runtime_settings_def Let_def get_runtime_settings_row_safe_def get_runtime_settings_row_def
        split: sum.splits if_splits)
  have "settings_valid (fold put_setting us r0)"
    by (rule fold_put_setting_valid [OF filter_updates_valid [OF us] assms(3)])
  then have v: "settings_valid r" by (simp add: r settings_valid_def)
  have int: "rs_default_ip_policy (put_int_setting k i x) = rs_default_ip_policy x" for k i x
    by (simp add: put_int_setting_def)
  have "rs_default_ip_policy (fold put_setting us x) = rs_default_ip_policy x
      \<or> PolicySetting (rs_default_ip_policy (fold put_setting us x)) \<in> set us" for x us
  proof (induction us arbitrary: x)
    case (Cons u us)
    then show ?case using Cons.IH [of "put_setting u x"] by (cases u) (auto simp: int)
  qed simp
  from this [of us r0] g have "rs_default_ip_policy r0 = ''allow'' \<longrightarrow> rs_default_ip_policy r = ''deny'' \<longrightarrow>
      count_ip_rules s ''allow'' \<noteq> 0"
    by (auto simp: r)
  moreover have "0 \<le> count_ip_rules s ''allow''" by (simp add: count_ip_rules_def count_where_nonneg)
  moreover have "rs_updated_at r = now" by (simp add: r)
  ultimately show ?thesis using v by (auto simp: t)
qed

theorem settings_stay_valid_witness:
  "\<exists>r t. update_runtime_settings default_env 7 [(''max_inbox_batch'', JInt 5), (''max_packet_bytes'', JNull)] default_db = Inr (r, t)
     \<and> settings_valid r \<and> rs_max_inbox_batch r = 5"
proof -
  let ?u = "[(''max_inbox_batch'', JInt 5), (''max_packet_bytes'', JNull)]"
  have f: "filter_updates ?u = Inr [IntSetting ''max_inbox_batch'' 5]" by code_simp
  have "\<exists>r t. update_runtime_settings default_env 7 ?u default_db = Inr (r, t) \<and> rs_max_inbox_batch r = 5"
    unfolding update_runtime_settings_def f Let_def
    by (simp add: get_runtime_settings_row_safe_def get_runtime_settings_row_def put_int_setting_def)
  then obtain r t where u: "update_runtime_settings default_env 7 ?u default_db = Inr (r, t)" "rs_max_inbox_batch r = 5"
    by blast
  from settings_stay_valid [OF _ _ default_settings_valid u(1)] u show ?thesis by auto
qed

section \<open>Where a pardon does not last\<close>

lemma migrate_keeps:
  "fetch ip_ip a rules = Some r \<Longrightarrow> fetch ip_ip a (migrate_blocked_ips rows rules) = Some r"
  by (induction rows rules rule: migrate_blocked_ips.induct) (auto simp: fetch_snoc split: option.splits)

lemma migrate_denies:
  "fetch ip_ip a rules = None \<Longrightarrow> (ip, reason, tm) \<in> set rows \<Longrightarrow> try_normalize_ip ip = Some a \<Longrightarrow>
   \<exists>r. fetch ip_ip a (migrate_blocked_ips rows rules) = Some r \<and> ip_action r = ''deny''"
proof (induction rows rules rule: migrate_blocked_ips.induct)
  case (2 ip' reason' t' rows rules)
  show ?case
  proof (cases "try_normalize_ip ip' = Some a")
    case True
    have "a \<notin> ip_ip ` set rules" using "2.prems"(1) by (simp add: fetch_None_iff)
    with True migrate_keeps [of a "rules @ [\<lparr>ip_ip = a, ip_action = ''deny'', ip_reason = reason', ip_created_at = t'\<rparr>]"] "2.prems"(1)
    show ?thesis by (simp add: fetch_snoc)
  next
    case False
    then have i: "(ip, reason, tm) \<in> set rows" using "2.prems"(2,3) by auto
    show ?thesis
      using "2.IH"(1) [OF _ _ i "2.prems"(3)] "2.IH"(2) [OF _ _ _ i "2.prems"(3)] "2.IH"(3) [OF _ _ _ i "2.prems"(3)]
        "2.prems"(1) False
      by (auto simp: fetch_snoc split: option.splits)
  qed
qed simp

text \<open>
  A pardon of an address of the legacy table does not outlive the process: the rule is deleted,
  but the table \<open>blocked_ips\<close> is kept and copied again by the first \<open>ensure_admin_tables\<close> of the next
  process, so the address is denied again without anybody having blocked it.
\<close>

theorem legacy_pardon_undone:
  assumes "pardon_ip env now ip s = Inr (a, t)"
    and "\<not> ae_ready env'" "ae_legacy env' = Some rows" "(ip', reason, tm) \<in> set rows" "try_normalize_ip ip' = Some a"
  shows "find_rule t a = None
    \<and> (\<exists>r. find_rule (ensure_admin_tables env' now' False t) a = Some r \<and> ip_action r = ''deny'')"
proof -
  from assms(1) have "a \<notin> ip_ip ` set (ip_access_rules t)"
    by (auto simp: pardon_ip_def remove_ip_rule_def Let_def split: sum.splits if_splits)
  then have n: "fetch ip_ip a (ip_access_rules t) = None" by (simp add: fetch_None_iff)
  have l: "(ip', reason, tm) \<in> set (legacy_order rows)" using assms(4) by (simp add: legacy_order_def)
  have "ip_access_rules (ensure_admin_tables env' now' False t) = migrate_blocked_ips (legacy_order rows) (ip_access_rules t)"
    using assms(2,3) by (auto simp: ensure_admin_tables_def Let_def insert_default_settings_def split: option.splits)
  with n migrate_denies [OF n l assms(5)] show ?thesis by (simp add: find_rule_def)
qed

theorem legacy_pardon_undone_witness:
  "\<exists>t. pardon_ip default_env 0 ''10.0.0.1'' deny_db = Inr (''10.0.0.1'', t)
     \<and> (\<exists>r. find_rule (ensure_admin_tables (default_env\<lparr>ae_ready := False, ae_legacy := Some [(''10.0.0.1'', None, 0)]\<rparr>) 1 False t)
          ''10.0.0.1'' = Some r \<and> ip_action r = ''deny'')"
proof -
  have n: "normalize_ip ''10.0.0.1'' = Inr ''10.0.0.1''" by (simp add: normalize_ip_try)
  obtain t where p: "pardon_ip default_env 0 ''10.0.0.1'' deny_db = Inr (''10.0.0.1'', t)"
    by (simp add: pardon_ip_def remove_ip_rule_def n) (simp add: deny_db_def)
  from legacy_pardon_undone [OF p, of "default_env\<lparr>ae_ready := False, ae_legacy := Some [(''10.0.0.1'', None, 0)]\<rparr>"]
  show ?thesis using p by (intro exI [of _ t]) simp
qed

section \<open>Reports\<close>

lemma sum_groups:
  assumes "finite K" "col ` set xs \<subseteq> K"
  shows "(\<Sum>k\<in>K. sum_list (map w (filter (\<lambda>x. col x = k) xs))) = (sum_list (map w xs) :: int)"
  using assms(2)
proof (induction xs)
  case (Cons x xs)
  have "(\<Sum>k\<in>K. sum_list (map w (filter (\<lambda>y. col y = k) (x # xs)))) =
      (\<Sum>k\<in>K. (if k = col x then w x else 0) + sum_list (map w (filter (\<lambda>y. col y = k) xs)))"
    by (intro sum.cong) auto
  also have "\<dots> = w x + sum_list (map w xs)"
    using Cons assms(1) by (simp add: sum.distrib)
  finally show ?case by simp
qed simp

lemma sum_list_perm: "mset xs = mset ys \<Longrightarrow> sum_list xs = (sum_list ys :: int)"
  by (metis sum_mset_sum_list)

lemma mset_newest: "int (length rows) \<le> limit \<Longrightarrow> mset (newest key limit rows) = mset rows"
  by (auto simp: newest_def sql_limit_def)

lemma set_newest: "set (newest key limit rows) \<subseteq> set rows"
  using set_sql_limit [of limit "rev (sort_key key (rev rows))"] by (simp add: newest_def)

lemma int_length_sum: "int (length xs) = sum_list (map (\<lambda>_. 1) xs)"
  by (induction xs) auto

text \<open>
  The reports add up: a report per node, or per endpoint, that is not cut off by its limit has one
  row per destination with queued deliveries, its counts and bytes are those of that destination,
  and together they are the totals of \<open>get_summary_stats\<close>.
\<close>

theorem queue_report_adds_up:
  assumes "int (length (remdups (map (\<lambda>(d, p). column d) (active_joined now s)))) \<le> limit"
  shows "sum_list (map qs_queued_packets (queue_report column now limit s)) = queue_packets (\<lambda>_. True) now s
    \<and> sum_list (map qs_queued_bytes (queue_report column now limit s)) = queue_bytes (\<lambda>_. True) now s
    \<and> (\<forall>q\<in>set (queue_report column now limit s).
         qs_queued_packets q = queue_packets (\<lambda>d. column d = qs_id q) now s
       \<and> qs_queued_bytes q = queue_bytes (\<lambda>d. column d = qs_id q) now s)
    \<and> distinct (map qs_id (queue_report column now limit s))"
proof -
  let ?rows = "active_joined now s"
  let ?ks = "sort (remdups (map (\<lambda>(d, p). column d) ?rows))"
  let ?groups = "map (queue_group column now s) ?ks"
  have "mset (queue_report column now limit s) = mset (rev (sort_key qs_queued_bytes (rev ?groups)))"
    unfolding queue_report_def using assms by (intro mset_newest) simp
  then have m: "mset (queue_report column now limit s) = mset ?groups" by simp
  have total: "sum_list (map f (queue_report column now limit s)) = (\<Sum>k\<in>set ?ks. f (queue_group column now s k))"
    for f :: "queue_stats \<Rightarrow> int"
  proof -
    have "sum_list (map f (queue_report column now limit s)) = sum_list (map f ?groups)"
      unfolding mset_map sum_mset_sum_list [symmetric] m by (simp add: comp_def)
    also have "\<dots> = (\<Sum>k\<in>set ?ks. f (queue_group column now s k))"
      by (subst sum_list_distinct_conv_sum_set [symmetric]) (simp_all add: comp_def)
    finally show ?thesis .
  qed
  have sub: "(\<lambda>dp. column (fst dp)) ` set ?rows \<subseteq> set ?ks" by force
  have packets: "sum_list (map qs_queued_packets (queue_report column now limit s)) = queue_packets (\<lambda>_. True) now s"
    using sum_groups [OF _ sub, of "\<lambda>_. 1"]
    by (simp add: total queue_group_def Let_def queue_packets_def case_prod_unfold int_length_sum)
  have bytes: "sum_list (map qs_queued_bytes (queue_report column now limit s)) = queue_bytes (\<lambda>_. True) now s"
    using sum_groups [OF _ sub, of "\<lambda>dp. p_payload_bytes (snd dp)"]
    by (simp add: total queue_group_def Let_def queue_bytes_def case_prod_unfold)
  have "set (queue_report column now limit s) = set ?groups" using m by (metis set_mset_mset)
  then have rows: "\<forall>q\<in>set (queue_report column now limit s).
      qs_queued_packets q = queue_packets (\<lambda>d. column d = qs_id q) now s
    \<and> qs_queued_bytes q = queue_bytes (\<lambda>d. column d = qs_id q) now s"
    by (auto simp: queue_group_def queue_packets_def queue_bytes_def Let_def)
  have "mset (map qs_id (queue_report column now limit s)) = mset (map qs_id ?groups)"
    by (simp only: mset_map m)
  moreover have "map qs_id ?groups = ?ks" by (simp add: queue_group_def Let_def comp_def)
  ultimately have "distinct (map qs_id (queue_report column now limit s))"
    by (metis distinct_remdups distinct_sort mset_eq_imp_distinct_iff)
  with packets bytes rows show ?thesis by blast
qed

theorem queue_report_adds_up_witness:
  "sum_list (map qs_queued_packets (queue_report d_destination_node_id 20 10 demo_sent)) = queue_packets (\<lambda>_. True) 20 demo_sent
   \<and> queue_packets (\<lambda>_. True) 20 demo_sent = 1"
proof -
  have a: "active_joined 20 demo_sent = joined demo_sent"
    by (simp add: active_joined_def joined_demo_sent packet_active_def new_packet_def)
  have "queue_packets (\<lambda>_. True) 20 demo_sent = 1" by (simp add: queue_packets_def a joined_demo_sent)
  moreover have "int (length (remdups (map (\<lambda>(d, p). d_destination_node_id d) (active_joined 20 demo_sent)))) \<le> 10"
    by (simp add: a joined_demo_sent)
  ultimately show ?thesis using queue_report_adds_up by blast
qed

lemma code_matches_effective:
  "st \<in> set link_code_status_values \<Longrightarrow> code_matches now (Some st) c \<longleftrightarrow> effective_link_code_status now c = st"
  by (auto simp: code_matches_def link_code_status_values_def link_code_active_def effective_link_code_status_def)

text \<open>
  A filter shows what it says: every code listed under a status is shown with that status, and a
  code with that effective status is left out only when the limit is reached; so a code past its
  time is listed under \<open>expired\<close> and not under \<open>active\<close>, before and after a clean-up.
\<close>

theorem code_filter_agrees:
  assumes "list_link_codes_admin now (Some status) limit s = Inr cs"
  shows "\<exists>st. st \<in> set link_code_status_values
    \<and> (\<forall>c\<in>set cs. c_status c = st \<and> (\<exists>c0\<in>set (link_codes s). c = c0\<lparr>c_status := effective_link_code_status now c0\<rparr>))
    \<and> (int (length cs) < limit \<longrightarrow> (\<forall>c\<in>set (link_codes s). effective_link_code_status now c = st \<longrightarrow>
         c\<lparr>c_status := st\<rparr> \<in> set cs))"
proof -
  from assms obtain st where w: "validate_word link_code_status_values ''status'' (JStr status) = Inr st" and limit: "0 < limit"
    and cs: "cs = map (\<lambda>c. c\<lparr>c_status := effective_link_code_status now c\<rparr>)
      (newest c_created_at limit (filter (code_matches now (Some st)) (link_codes s)))"
    by (auto simp: list_link_codes_admin_def bind_admin_def coerce_status_filter_def validate_positive_int_def
        split: sum.splits if_splits)
  have st: "st \<in> set link_code_status_values" by (rule validate_word_Inr [OF w])
  have m: "code_matches now (Some st) c \<longleftrightarrow> effective_link_code_status now c = st" for c
    by (rule code_matches_effective [OF st])
  let ?f = "filter (code_matches now (Some st)) (link_codes s)"
  have all: "set (newest c_created_at limit ?f) = set ?f" if "int (length cs) < limit"
  proof -
    have "length (newest c_created_at limit ?f) = min (nat limit) (length ?f)"
      using limit by (simp add: newest_def sql_limit_def)
    with that have "int (length ?f) \<le> limit" using limit by (simp add: cs)
    then show ?thesis by (metis mset_newest set_mset_mset)
  qed
  have "\<forall>c\<in>set (newest c_created_at limit ?f). c \<in> set (link_codes s) \<and> effective_link_code_status now c = st"
    using set_newest [of c_created_at limit ?f] by (auto simp: m)
  then have a: "\<forall>c\<in>set cs. c_status c = st \<and> (\<exists>c0\<in>set (link_codes s). c = c0\<lparr>c_status := effective_link_code_status now c0\<rparr>)"
    by (auto simp: cs)
  have b: "c\<lparr>c_status := st\<rparr> \<in> set cs"
    if "int (length cs) < limit" "c \<in> set (link_codes s)" "effective_link_code_status now c = st" for c
  proof -
    have "c \<in> set (newest c_created_at limit ?f)" using all [OF that(1)] that(2,3) by (simp add: m)
    then have "c\<lparr>c_status := effective_link_code_status now c\<rparr> \<in> set cs" unfolding cs by simp
    with that(3) show ?thesis by simp
  qed
  show ?thesis using st a b by blast
qed

theorem code_filter_agrees_witness:
  "\<exists>cs. list_link_codes_admin 1000 (Some '' Expired'') 10 demo_coded = Inr cs \<and> (\<forall>c\<in>set cs. c_status c = ''expired'')"
proof -
  have w: "validate_word link_code_status_values ''status'' (JStr '' Expired'') = Inr ''expired''" by code_simp
  have p: "validate_positive_int ''limit'' (JInt 10) = Inr 10" by code_simp
  obtain cs where l: "list_link_codes_admin 1000 (Some '' Expired'') 10 demo_coded = Inr cs"
    and e: "\<forall>c\<in>set cs. c_status c \<in> effective_link_code_status 1000 ` set (filter (code_matches 1000 (Some ''expired'')) (link_codes demo_coded))"
    using set_newest [of c_created_at 10 "filter (code_matches 1000 (Some ''expired'')) (link_codes demo_coded)"]
    by (fastforce simp: list_link_codes_admin_def bind_admin_def coerce_status_filter_def w p)
  from code_filter_agrees [OF l] e show ?thesis
    using l by (intro exI [of _ cs]) (auto simp: code_matches_effective link_code_status_values_def)
qed

end
