(* ===== verification/AdminCli.thy ===== *)
theory AdminCli
  imports AdminProps Conventions Auth
begin

text \<open>
  The administration command line \<open>src/arqs-server/app/admin_cli.py\<close>. A command is one that \<open>typer\<close> has parsed; it runs
  in a process of its own, which sets up the tables first, prints the JSON text of its result and ends with 0, or
  prints a message and ends with the exit code of its error.
\<close>

section \<open>Commands\<close>

datatype stats_command =
    StatsSummary
  | StatsQueueByNode int
  | StatsQueueByEndpoint int
  | StatsOldestQueued

datatype ip_command =
    IpList "string option"
  | IpAllow string "string option"
  | IpDeny string "string option"
  | IpRemove string
  | IpPolicyShow
  | IpPolicySet string

text \<open>The commands of \<open>limits\<close> and \<open>rate\<close>; the options of \<open>limits set\<close> that are given are those with a value.\<close>

datatype settings_command =
    LimitsShow
  | LimitsSet "string \<Rightarrow> int option"
  | RateShow
  | RateSet "int option" "int option"

datatype node_command =
    NodesList "string option" int
  | NodesShow string
  | NodesDisable string
  | NodesEnable string
  | NodesRevoke string

datatype link_command =
    LinksList "string option" int
  | LinksRevoke string
  | LinkCodesList "string option" int

datatype admin_command =
    Health
  | Stats stats_command
  | Ip ip_command
  | Settings settings_command
  | Nodes node_command
  | EndpointsList "string option" "string option" int
  | EndpointsShow string
  | Links link_command
  | CleanupRun

text \<open>
  Times leave the process as text: \<open>tf_iso\<close> is \<open>isoformat()\<close> of a \<open>datetime\<close>, \<open>tf_sql\<close> the text that SQLite has stored and that
  a query without column types returns.
\<close>

record time_texts =
  tf_iso :: "time \<Rightarrow> string"
  tf_sql :: "time \<Rightarrow> string"

definition iso :: "time_texts \<Rightarrow> time \<Rightarrow> json" where
  "iso tf t = JStr (tf_iso tf t)"

section \<open>What is printed\<close>

definition optional_int :: "int option \<Rightarrow> json" where
  "optional_int i = (case i of None \<Rightarrow> JNull | Some i \<Rightarrow> JInt i)"

definition settings_json :: "time_texts \<Rightarrow> runtime_settings \<Rightarrow> dict" where
  "settings_json tf r =
     [(''settings_id'', JInt 1), (''max_storage_bytes'', JInt (rs_max_storage_bytes r)),
      (''max_packet_bytes'', JInt (rs_max_packet_bytes r)),
      (''max_queued_packets_per_endpoint'', JInt (rs_max_queued_packets_per_endpoint r)),
      (''max_queued_bytes_per_endpoint'', JInt (rs_max_queued_bytes_per_endpoint r)),
      (''max_queued_bytes_per_node'', JInt (rs_max_queued_bytes_per_node r)),
      (''max_total_queued_packets'', JInt (rs_max_total_queued_packets r)),
      (''max_total_queued_bytes'', JInt (rs_max_total_queued_bytes r)),
      (''max_inbox_batch'', JInt (rs_max_inbox_batch r)),
      (''long_poll_max_seconds'', JInt (rs_long_poll_max_seconds r)),
      (''send_window_seconds'', JInt (rs_send_window_seconds r)),
      (''max_sends_per_window'', JInt (rs_max_sends_per_window r)),
      (''default_ip_policy'', JStr (rs_default_ip_policy r)), (''updated_at'', JStr (tf_sql tf (rs_updated_at r)))]"

text \<open>The keys that \<open>limits show\<close> and \<open>rate show\<close> take out of the settings.\<close>

definition limit_names :: "string list" where
  "limit_names = [''max_storage_bytes'', ''max_packet_bytes'', ''max_queued_packets_per_endpoint'',
     ''max_queued_bytes_per_endpoint'', ''max_queued_bytes_per_node'', ''max_total_queued_packets'',
     ''max_total_queued_bytes'', ''max_inbox_batch'', ''long_poll_max_seconds'']"

definition chosen :: "string list \<Rightarrow> dict \<Rightarrow> json" where
  "chosen ks d = JObj (map (\<lambda>k. (k, dict_get d k)) (ks @ [''updated_at'']))"

definition health_json :: "time_texts \<Rightarrow> health_info \<Rightarrow> json" where
  "health_json tf h =
     JObj [(''status'', JStr ''ok''), (''app'', JStr (hi_app h)), (''db_path'', JStr (hi_db_path h)),
       (''db_file_size_bytes'', optional_int (hi_db_file_size_bytes h)), (''time'', iso tf (hi_time h)),
       (''maintenance'', JObj [(''cleanup_interval_seconds'', JInt (hi_cleanup_interval_seconds h)),
          (''enabled'', JBool (hi_cleanup_enabled h))]),
       (''runtime_settings'', JObj (settings_json tf (hi_runtime_settings h))),
       (''ip_access'', JObj [(''mode'', JStr (ia_mode (hi_ip_access h))),
          (''default_ip_policy'', JStr (ia_default_ip_policy (hi_ip_access h))),
          (''allow_rules_total'', JInt (ia_allow_rules_total (hi_ip_access h))),
          (''deny_rules_total'', JInt (ia_deny_rules_total (hi_ip_access h)))])]"

definition summary_json :: "summary_stats \<Rightarrow> json" where
  "summary_json x =
     JObj [(''nodes_total'', JInt (ss_nodes_total x)), (''endpoints_total'', JInt (ss_endpoints_total x)),
       (''active_links_total'', JInt (ss_active_links_total x)), (''queued_packets_total'', JInt (ss_queued_packets_total x)),
       (''queued_bytes_total'', JInt (ss_queued_bytes_total x)),
       (''active_link_codes_total'', JInt (ss_active_link_codes_total x)),
       (''default_ip_policy'', JStr (ss_default_ip_policy x)), (''allowed_ips_total'', JInt (ss_allowed_ips_total x)),
       (''denied_ips_total'', JInt (ss_denied_ips_total x))]"

definition queue_json :: "time_texts \<Rightarrow> string \<Rightarrow> queue_stats list \<Rightarrow> json" where
  "queue_json tf key rows =
     JList (map (\<lambda>q. JObj [(key, JStr (qs_id q)), (''queued_packets'', JInt (qs_queued_packets q)),
       (''queued_bytes'', JInt (qs_queued_bytes q)), (''oldest_queued_at'', iso tf (qs_oldest_queued_at q))]) rows)"

definition oldest_json :: "time_texts \<Rightarrow> (delivery \<times> int) option \<Rightarrow> json" where
  "oldest_json tf x =
     JObj (case x of None \<Rightarrow> [(''queued'', JBool False)]
       | Some (d, n) \<Rightarrow> [(''queued'', JBool True), (''delivery_id'', JStr (d_delivery_id d)),
           (''packet_id'', JStr (d_packet_id d)), (''destination_node_id'', JStr (d_destination_node_id d)),
           (''destination_endpoint_id'', JStr (d_destination_endpoint_id d)), (''queued_at'', iso tf (d_queued_at d)),
           (''state'', JStr (d_state d)), (''payload_bytes'', JInt n)])"

text \<open>A rule as \<open>set_ip_rule\<close> returns it, and as a row of the table.\<close>

definition rule_json :: "(time \<Rightarrow> string) \<Rightarrow> ip_rule \<Rightarrow> dict" where
  "rule_json f r = [(''ip'', JStr (ip_ip r)), (''action'', JStr (ip_action r)), (''reason'', optional_str (ip_reason r)),
     (''created_at'', JStr (f (ip_created_at r)))]"

definition policy_json :: "time_texts \<Rightarrow> string \<times> time \<Rightarrow> json" where
  "policy_json tf x = JObj [(''default_ip_policy'', JStr (fst x)), (''updated_at'', JStr (tf_sql tf (snd x)))]"

definition node_json :: "time_texts \<Rightarrow> node \<Rightarrow> dict" where
  "node_json tf n = [(''node_id'', JStr (n_node_id n)), (''node_name'', optional_str (n_node_name n)),
     (''created_at'', iso tf (n_created_at n)), (''status'', JStr (n_status n))]"

definition node_detail_json :: "time_texts \<Rightarrow> node_detail \<Rightarrow> json" where
  "node_detail_json tf x =
     JObj (node_json tf (nd_node x) @ [(''endpoint_count'', JInt (nd_endpoint_count x)),
       (''active_link_count'', JInt (nd_active_link_count x)), (''active_link_code_count'', JInt (nd_active_link_code_count x)),
       (''queued_inbound_packets'', JInt (nd_queued_inbound_packets x)),
       (''queued_inbound_bytes'', JInt (nd_queued_inbound_bytes x))])"

definition node_status_json :: "string \<Rightarrow> string \<times> string \<Rightarrow> json" where
  "node_status_json key x = JObj [(key, JBool True), (''node_id'', JStr (fst x)), (''status'', JStr (snd x))]"

definition endpoint_json :: "time_texts \<Rightarrow> endpoint \<Rightarrow> dict" where
  "endpoint_json tf e = [(''endpoint_id'', JStr (e_endpoint_id e)), (''node_id'', JStr (e_node_id e)),
     (''endpoint_name'', optional_str (e_endpoint_name e)), (''kind'', optional_str (e_kind e)),
     (''meta'', case e_meta e of None \<Rightarrow> JNull | Some m \<Rightarrow> JObj m), (''created_at'', iso tf (e_created_at e)),
     (''status'', JStr (e_status e))]"

definition endpoint_detail_json :: "time_texts \<Rightarrow> endpoint_detail \<Rightarrow> json" where
  "endpoint_detail_json tf x =
     JObj (endpoint_json tf (ed_endpoint x) @ [(''queued_inbound_packets'', JInt (ed_queued_inbound_packets x)),
       (''queued_inbound_bytes'', JInt (ed_queued_inbound_bytes x)), (''active_link_count'', JInt (ed_active_link_count x))])"

definition link_json :: "time_texts \<Rightarrow> link \<Rightarrow> json" where
  "link_json tf l =
     JObj [(''link_id'', JStr (l_link_id l)), (''endpoint_a_id'', JStr (l_endpoint_a_id l)),
       (''endpoint_b_id'', JStr (l_endpoint_b_id l)), (''mode'', JStr (l_mode l)), (''created_at'', iso tf (l_created_at l)),
       (''status'', JStr (l_status l))]"

definition link_code_json :: "time_texts \<Rightarrow> link_code \<Rightarrow> json" where
  "link_code_json tf c =
     JObj [(''link_code_id'', JStr (c_link_code_id c)), (''code'', JStr (c_code c)),
       (''source_endpoint_id'', JStr (c_source_endpoint_id c)), (''requested_mode'', JStr (c_requested_mode c)),
       (''created_at'', iso tf (c_created_at c)), (''expires_at'', iso tf (c_expires_at c)), (''status'', JStr (c_status c))]"

definition cleanup_json :: "cleanup_result \<Rightarrow> json" where
  "cleanup_json r = JObj [(''expired_link_codes'', JInt (cr_expired_link_codes r)),
     (''expired_packets'', JInt (cr_expired_packets r)), (''pruned_send_events'', JInt (cr_pruned_send_events r))]"

section \<open>The commands\<close>

definition printing :: "('a \<Rightarrow> json) \<Rightarrow> 'a adm \<Rightarrow> json adm" where
  "printing f r = (case r of Inl e \<Rightarrow> Inl e | Inr (x, s) \<Rightarrow> Inr (f x, s))"

definition reading_only :: "('a \<Rightarrow> json) \<Rightarrow> admin_error + 'a \<Rightarrow> db \<Rightarrow> json adm" where
  "reading_only f r s = (case r of Inl e \<Rightarrow> Inl e | Inr x \<Rightarrow> Inr (f x, s))"

text \<open>
  The blocks under \<open>with session_scope()\<close>, one function per sub-application; \<open>clock\<close> numbers the readings of the clock.
\<close>

fun stats_block :: "time_texts \<Rightarrow> admin_env \<Rightarrow> (nat \<Rightarrow> time) \<Rightarrow> stats_command \<Rightarrow> db \<Rightarrow> json adm" where
  "stats_block tf env clock StatsSummary s = printing summary_json (get_summary_stats env clock s)"
| "stats_block tf env clock (StatsQueueByNode limit) s =
     reading_only (queue_json tf ''node_id'') (get_queue_stats_by_node (clock 0) limit s) s"
| "stats_block tf env clock (StatsQueueByEndpoint limit) s =
     reading_only (queue_json tf ''endpoint_id'') (get_queue_stats_by_endpoint (clock 0) limit s) s"
| "stats_block tf env clock StatsOldestQueued s =
     Inr (oldest_json tf (get_oldest_queued_delivery_info (clock 0) s), s)"

fun ip_block :: "time_texts \<Rightarrow> admin_env \<Rightarrow> (nat \<Rightarrow> time) \<Rightarrow> ip_command \<Rightarrow> db \<Rightarrow> json adm" where
  "ip_block tf env clock (IpList action) s =
     printing (\<lambda>rs. JList (map (\<lambda>r. JObj (rule_json (tf_sql tf) r)) rs)) (list_ip_rules env (clock 0) action s)"
| "ip_block tf env clock (IpAllow ip reason) s =
     printing (\<lambda>r. JObj ((''allowed'', JBool True) # rule_json (tf_iso tf) r)) (allow_ip env (clock 0) ip reason s)"
| "ip_block tf env clock (IpDeny ip reason) s =
     printing (\<lambda>r. JObj ((''denied'', JBool True) # rule_json (tf_iso tf) r)) (deny_ip env (clock 0) ip reason s)"
| "ip_block tf env clock (IpRemove ip) s =
     printing (\<lambda>a. JObj [(''removed'', JBool True), (''ip'', JStr a)]) (remove_ip_rule env (clock 0) ip s)"
| "ip_block tf env clock IpPolicyShow s = printing (policy_json tf) (get_ip_policy env (clock 0) s)"
| "ip_block tf env clock (IpPolicySet p) s = printing (policy_json tf) (set_ip_policy env (clock 0) p s)"

fun settings_block :: "time_texts \<Rightarrow> admin_env \<Rightarrow> (nat \<Rightarrow> time) \<Rightarrow> settings_command \<Rightarrow> db \<Rightarrow> json adm" where
  "settings_block tf env clock LimitsShow s =
     printing (\<lambda>r. chosen limit_names (settings_json tf r)) (get_runtime_settings env (clock 0) s)"
| "settings_block tf env clock (LimitsSet given) s =
     printing (\<lambda>r. JObj (settings_json tf r))
       (update_runtime_settings env (clock 0) (map (\<lambda>k. (k, optional_int (given k))) limit_names) s)"
| "settings_block tf env clock RateShow s =
     printing (\<lambda>r. chosen [''send_window_seconds'', ''max_sends_per_window''] (settings_json tf r))
       (get_runtime_settings env (clock 0) s)"
| "settings_block tf env clock (RateSet window sends) s =
     printing (\<lambda>r. JObj (settings_json tf r)) (update_runtime_settings env (clock 0)
       [(''send_window_seconds'', optional_int window), (''max_sends_per_window'', optional_int sends)] s)"

fun node_block :: "time_texts \<Rightarrow> (nat \<Rightarrow> time) \<Rightarrow> node_command \<Rightarrow> db \<Rightarrow> json adm" where
  "node_block tf clock (NodesList status limit) s =
     reading_only (\<lambda>ns. JList (map (\<lambda>n. JObj (node_json tf n)) ns)) (list_nodes status limit s) s"
| "node_block tf clock (NodesShow i) s = reading_only (node_detail_json tf) (get_node_detail (clock 0) i s) s"
| "node_block tf clock (NodesDisable i) s = printing (node_status_json ''disabled'') (disable_node i s)"
| "node_block tf clock (NodesEnable i) s = printing (node_status_json ''enabled'') (enable_node i s)"
| "node_block tf clock (NodesRevoke i) s = printing (node_status_json ''revoked'') (revoke_node i s)"

fun link_block :: "time_texts \<Rightarrow> (nat \<Rightarrow> time) \<Rightarrow> link_command \<Rightarrow> db \<Rightarrow> json adm" where
  "link_block tf clock (LinksList status limit) s =
     reading_only (\<lambda>ls. JList (map (link_json tf) ls)) (list_links_admin status limit s) s"
| "link_block tf clock (LinksRevoke i) s =
     printing (\<lambda>n. JObj [(''revoked'', JBool True), (''link_id'', JStr i), (''routes_revoked'', JInt n)]) (revoke_link_admin i s)"
| "link_block tf clock (LinkCodesList status limit) s =
     reading_only (\<lambda>cs. JList (map (link_code_json tf) cs)) (list_link_codes_admin (clock 0) status limit s) s"

fun admin_block :: "time_texts \<Rightarrow> admin_env \<Rightarrow> file_sizes \<Rightarrow> (nat \<Rightarrow> time) \<Rightarrow> admin_command \<Rightarrow> db \<Rightarrow> json adm" where
  "admin_block tf env stat clock Health s = printing (health_json tf) (health_check env stat clock s)"
| "admin_block tf env stat clock (Stats c) s = stats_block tf env clock c s"
| "admin_block tf env stat clock (Ip c) s = ip_block tf env clock c s"
| "admin_block tf env stat clock (Settings c) s = settings_block tf env clock c s"
| "admin_block tf env stat clock (Nodes c) s = node_block tf clock c s"
| "admin_block tf env stat clock (EndpointsList node status limit) s =
     reading_only (\<lambda>es. JList (map (\<lambda>e. JObj (endpoint_json tf e)) es)) (list_endpoints_admin node status limit s) s"
| "admin_block tf env stat clock (EndpointsShow i) s =
     reading_only (endpoint_detail_json tf) (get_endpoint_detail (clock 0) i s) s"
| "admin_block tf env stat clock (Links c) s = link_block tf clock c s"
| "admin_block tf env stat clock CleanupRun s = printing cleanup_json (run_cleanup_now env clock s)"

section \<open>A run of the program\<close>

text \<open>What a process prints and its exit code.\<close>

datatype cli_end = Printed string | Failed nat string

text \<open>Everything that is printed is an object or a list; \<open>--json\<close> makes no difference.\<close>

definition emit :: "json \<Rightarrow> bool \<Rightarrow> string" where
  "emit data as_json =
     (if as_json then ascii_only (dumps_indent 0 data)
      else (case data of JObj d \<Rightarrow> ascii_only (dumps_indent 0 data) | JList xs \<Rightarrow> ascii_only (dumps_indent 0 data)
        | v \<Rightarrow> str_value v))"

fun cli_fail :: "admin_error \<Rightarrow> cli_end" where
  "cli_fail (AdminValidationError m) = Failed 3 (''Validation error: '' @ m)"
| "cli_fail (AdminNotFoundError m) = Failed 4 (''Not found: '' @ m)"
| "cli_fail (AdminConflictError m) = Failed 5 (''Conflict: '' @ m)"

text \<open>The callback \<open>main\<close> sets up the tables in a session of its own.\<close>

definition admin_main :: "admin_env \<Rightarrow> time \<Rightarrow> db \<Rightarrow> db" where
  "admin_main env now s = ensure_admin_tables (env\<lparr>ae_ready := False\<rparr>) now False s"

text \<open>
  The integers that are bound to a statement after every check of the service has passed. One that needs more than 64 bits
  is refused by the driver of SQLite with an \<open>OverflowError\<close>, which ends in the last branch of \<open>fail\<close>.
\<close>

fun bound_ints :: "admin_command \<Rightarrow> int list" where
  "bound_ints (Stats (StatsQueueByNode limit)) = [limit]"
| "bound_ints (Stats (StatsQueueByEndpoint limit)) = [limit]"
| "bound_ints (Settings (LimitsSet given)) = List.map_filter given limit_names"
| "bound_ints (Settings (RateSet window sends)) = List.map_filter id [window, sends]"
| "bound_ints (Nodes (NodesList status limit)) = [limit]"
| "bound_ints (EndpointsList node status limit) = [limit]"
| "bound_ints (Links (LinksList status limit)) = [limit]"
| "bound_ints (Links (LinkCodesList status limit)) = [limit]"
| "bound_ints _ = []"

definition admin_run ::
  "time_texts \<Rightarrow> admin_env \<Rightarrow> file_sizes \<Rightarrow> (nat \<Rightarrow> time) \<Rightarrow> admin_command \<Rightarrow> db \<Rightarrow> cli_end + json \<times> db" where
  "admin_run tf env stat clock c s =
     (case admin_block tf env stat clock c s of
        Inl e \<Rightarrow> Inl (cli_fail e)
      | Inr x \<Rightarrow>
          if \<forall>i\<in>set (bound_ints c). i < 2 ^ 63 then Inr x
          else Inl (Failed 1 ''Python int too large to convert to SQLite INTEGER''))"

definition admin_cli ::
  "time_texts \<Rightarrow> admin_env \<Rightarrow> file_sizes \<Rightarrow> (nat \<Rightarrow> time) \<Rightarrow> admin_command \<Rightarrow> bool \<Rightarrow> db \<Rightarrow> db \<times> cli_end" where
  "admin_cli tf env stat clock c as_json s =
     (case session_scope (admin_run tf (env\<lparr>ae_ready := True\<rparr>) stat (\<lambda>k. clock (Suc k)) c) (admin_main env (clock 0) s) of
        (s, Inr v) \<Rightarrow> (s, Printed (emit v as_json))
      | (s, Inl e) \<Rightarrow> (s, e))"

section \<open>What a command does to the store\<close>

lemma ready_tables [simp]: "ae_ready env \<Longrightarrow> ensure_admin_tables env now False s = s"
  by (simp add: ensure_admin_tables_def)

lemma main_row: "\<exists>r. settings_row (admin_main env now s) = Some r"
  by (auto simp: admin_main_def ensure_admin_tables_def insert_default_settings_def Let_def split: option.splits)

lemma main_same [simp]: "same_requests s (admin_main env now s)"
  by (simp add: admin_main_def)

lemma ready_settings:
  assumes "ae_ready env" "settings_row s = Some r"
  shows "get_runtime_settings env now s = Inr (r, s)" "get_runtime_settings_row_safe env now s = Inr (r, s)"
  using assms by (simp_all add: get_runtime_settings_def get_runtime_settings_row_safe_def get_runtime_settings_row_def)

fun is_report :: "admin_command \<Rightarrow> bool" where
  "is_report (Ip (IpAllow ip reason)) \<longleftrightarrow> False"
| "is_report (Ip (IpDeny ip reason)) \<longleftrightarrow> False"
| "is_report (Ip (IpRemove ip)) \<longleftrightarrow> False"
| "is_report (Ip (IpPolicySet p)) \<longleftrightarrow> False"
| "is_report (Settings (LimitsSet given)) \<longleftrightarrow> False"
| "is_report (Settings (RateSet window sends)) \<longleftrightarrow> False"
| "is_report (Nodes (NodesDisable i)) \<longleftrightarrow> False"
| "is_report (Nodes (NodesEnable i)) \<longleftrightarrow> False"
| "is_report (Nodes (NodesRevoke i)) \<longleftrightarrow> False"
| "is_report (Links (LinksRevoke i)) \<longleftrightarrow> False"
| "is_report CleanupRun \<longleftrightarrow> False"
| "is_report _ \<longleftrightarrow> True"

text \<open>What the commands of each group change.\<close>

lemma updated_settings:
  assumes "update_runtime_settings env now us s = Inr (x, t)" "ae_ready env" "settings_row s = Some r"
  shows "same_requests s t"
  using assms by (auto simp: same_requests_def update_runtime_settings_def get_runtime_settings_row_safe_def get_runtime_settings_row_def
      Let_def split: sum.splits if_splits)

lemma stats_changes:
  assumes "stats_block tf env clock c s = Inr (v, t)" "ae_ready env" "settings_row s = Some r"
  shows "t = s"
  using assms(1,2) ready_settings [OF assms(2,3)]
  by (cases c) (auto simp: printing_def reading_only_def get_summary_stats_def Let_def split: sum.splits)

lemma ip_changes:
  assumes "ip_block tf env clock c s = Inr (v, t)" "ae_ready env" "settings_row s = Some r"
  shows "same_requests s t \<and> (is_report (Ip c) \<longrightarrow> t = s)"
  using assms(1,2) ready_settings [OF assms(2,3)] updated_settings [OF _ assms(2,3)]
  by (cases c) (auto simp: printing_def list_ip_rules_def get_ip_policy_def set_ip_policy_def allow_ip_def deny_ip_def set_ip_rule_def
      remove_ip_rule_def same_requests_def Let_def split: sum.splits if_splits)

lemma settings_changes:
  assumes "settings_block tf env clock c s = Inr (v, t)" "ae_ready env" "settings_row s = Some r"
  shows "same_requests s t \<and> (is_report (Settings c) \<longrightarrow> t = s)"
  using assms(1,2) ready_settings [OF assms(2,3)] updated_settings [OF _ assms(2,3)]
  by (cases c) (auto simp: printing_def split: sum.splits)

lemma node_changes:
  assumes "node_block tf clock c s = Inr (v, t)"
  shows "(is_report (Nodes c) \<longrightarrow> t = s)
    \<and> (t = s \<or> (\<exists>i st. t = s\<lparr>nodes := update_where (\<lambda>n. n_node_id n = i) (\<lambda>n. n\<lparr>n_status := st\<rparr>) (nodes s)\<rparr>))"
proof -
  have "\<exists>i st. t = s\<lparr>nodes := update_where (\<lambda>n. n_node_id n = i) (\<lambda>n. n\<lparr>n_status := st\<rparr>) (nodes s)\<rparr>"
    if "set_node_status i st s = Inr (x, t)" for i st x
    using that by (rule set_node_status_Inr) blast
  then show ?thesis using assms
    by (cases c) (auto simp: printing_def reading_only_def disable_node_def enable_node_def revoke_node_def split: sum.splits)
qed

lemma link_changes:
  assumes "link_block tf clock c s = Inr (v, t)"
  shows "(is_report (Links c) \<longrightarrow> t = s) \<and> (t = s \<or> (\<exists>i. t = revoke_link_rows i s))"
  using assms by (cases c) (auto simp: printing_def reading_only_def revoke_link_admin_def split: sum.splits option.splits)

lemma report_keeps:
  assumes "admin_block tf env stat clock c s = Inr (v, t)" "is_report c" "ae_ready env" "settings_row s = Some r"
  shows "t = s"
proof (cases c)
  case (Stats d)
  then show ?thesis using assms(1) stats_changes [OF _ assms(3,4)] by simp
next
  case (Ip d)
  then show ?thesis using assms(1,2) ip_changes [OF _ assms(3,4)] by simp
next
  case (Settings d)
  then show ?thesis using assms(1,2) settings_changes [OF _ assms(3,4)] by simp
next
  case (Nodes d)
  then show ?thesis using assms(1,2) node_changes by simp
next
  case (Links d)
  then show ?thesis using assms(1,2) link_changes by simp
qed (use assms(1-3) ready_settings [OF assms(3,4)] in \<open>auto simp: printing_def reading_only_def health_check_def Let_def split: sum.splits\<close>)

lemma block_changes:
  assumes "admin_block tf env stat clock c s = Inr (v, t)" "ae_ready env" "settings_row s = Some r"
  shows "same_requests s t \<or> (\<exists>i st. t = s\<lparr>nodes := update_where (\<lambda>n. n_node_id n = i) (\<lambda>n. n\<lparr>n_status := st\<rparr>) (nodes s)\<rparr>)
    \<or> (\<exists>i. t = revoke_link_rows i s) \<or> (\<exists>x. cleanup_expired env (clock 1) s = Inr (x, t))"
proof (cases "is_report c")
  case True
  then show ?thesis using report_keeps [OF assms(1) _ assms(2,3)] by simp
next
  case False
  note m = False assms(1)
  show ?thesis
  proof (cases c)
    case (Ip d)
    then show ?thesis using m(2) ip_changes [OF _ assms(2,3)] by simp
  next
    case (Settings d)
    then show ?thesis using m(2) settings_changes [OF _ assms(2,3)] by simp
  next
    case (Nodes d)
    then show ?thesis using m(2) node_changes [of tf clock d s v t] by auto
  next
    case (Links d)
    then show ?thesis using m(2) link_changes [of tf clock d s v t] by auto
  next
    case CleanupRun
    then show ?thesis using m(2) assms(2) by (auto simp: printing_def run_cleanup_now_def split: sum.splits)
  qed (use m in simp_all)
qed

lemma block_keeps_store:
  assumes "admin_block tf env stat clock c s = Inr (v, t)" "ae_ready env" "settings_row s = Some r" "db_ok s" "routes_unique s"
  shows "db_ok t \<and> routes_unique t"
proof -
  consider "same_requests s t" | i st where "t = s\<lparr>nodes := update_where (\<lambda>n. n_node_id n = i) (\<lambda>n. n\<lparr>n_status := st\<rparr>) (nodes s)\<rparr>"
    | i where "t = revoke_link_rows i s" | x where "cleanup_expired env (clock 1) s = Inr (x, t)"
    using block_changes [OF assms(1-3)] by blast
  then show ?thesis
  proof cases
    case 1
    then show ?thesis using assms(4,5) same_requests_db_ok [OF 1] by (simp add: routes_unique_def active_pairs_def same_requests_def)
  next
    case (2 i st)
    then show ?thesis using assms(4,5) by (auto simp: routes_unique_def active_pairs_def intro: update_nodes_ok)
  next
    case (3 i)
    then show ?thesis using assms(4,5) fewer_routes_unique [OF fewer_routes_revoke] by (simp add: revoke_link_rows_ok)
  next
    case (4 x)
    have "directed_routes t = directed_routes s" using 4
      by (auto simp: cleanup_expired_def Let_def same_requests_def dest!: get_runtime_settings_same_requests split: sum.splits)
    then show ?thesis using assms(4,5) cleanup_expired_ok [OF 4] by (simp add: routes_unique_def active_pairs_def)
  qed
qed

lemma admin_cli_cases:
  assumes "admin_cli tf env stat clock c as_json s = (t, out)"
  obtains v where "admin_block tf (env\<lparr>ae_ready := True\<rparr>) stat (\<lambda>k. clock (Suc k)) c (admin_main env (clock 0) s) = Inr (v, t)"
      "out = Printed (emit v as_json)"
    | k m where "out = Failed k m" "k \<in> {1, 3, 4, 5}" "t = admin_main env (clock 0) s"
proof -
  have "\<exists>k m. cli_fail e = Failed k m \<and> k \<in> {1, 3, 4, 5}" for e by (cases e) auto
  then show ?thesis using assms that
    by (fastforce simp: admin_cli_def admin_run_def session_scope_def split: sum.splits prod.splits if_splits)
qed

text \<open>
  Every command of the operator keeps the keys and references of the store and the uniqueness of active routes.
\<close>

theorem admin_cli_keeps_store:
  assumes "admin_cli tf env stat clock c as_json s = (t, out)" "db_ok s" "routes_unique s"
  shows "db_ok t \<and> routes_unique t"
proof -
  let ?m = "admin_main env (clock 0) s"
  have "same_requests s ?m" by simp
  then have m: "db_ok ?m" "routes_unique ?m"
    using assms(2,3) same_requests_db_ok [of s ?m] by (simp_all add: routes_unique_def active_pairs_def same_requests_def)
  obtain r where r: "settings_row ?m = Some r" using main_row by blast
  from assms(1) show ?thesis
  proof (cases rule: admin_cli_cases)
    case (1 v)
    show ?thesis by (rule block_keeps_store [OF 1(1) _ r m]) simp
  next
    case (2 k m)
    then show ?thesis using m by simp
  qed
qed

text \<open>
  A command that fails ends with the exit code of its error and leaves the store as the set-up of the tables
  left it, and so does every report; on a store that is set up that is no change at all.
\<close>

theorem admin_cli_atomic:
  assumes "admin_cli tf env stat clock c as_json s = (t, out)" "is_report c \<or> (\<exists>k m. out = Failed k m)"
  shows "t = admin_main env (clock 0) s \<and> same_requests s t \<and> (\<forall>k m. out = Failed k m \<longrightarrow> k \<in> {1, 3, 4, 5})
    \<and> (settings_row s \<noteq> None \<and> ae_legacy env = None \<longrightarrow> t = s)"
proof -
  let ?m = "admin_main env (clock 0) s"
  obtain r where r: "settings_row ?m = Some r" using main_row by blast
  have set_up: "?m = s" if "settings_row s \<noteq> None" "ae_legacy env = None"
    using that by (auto simp: admin_main_def ensure_admin_tables_def insert_default_settings_def Let_def)
  from assms(1) show ?thesis
  proof (cases rule: admin_cli_cases)
    case (1 v)
    then have "is_report c" using assms(2) by auto
    from report_keeps [OF 1(1) this _ r] 1(2) set_up show ?thesis by auto
  next
    case (2 k m)
    then show ?thesis using set_up by auto
  qed
qed

section \<open>A node that is disabled, and the last allow rule\<close>

lemma status_printed:
  assumes "admin_cli tf env stat clock c as_json s = (t, Printed text)"
    "\<And>s. admin_block tf (env\<lparr>ae_ready := True\<rparr>) stat (\<lambda>k. clock (Suc k)) c s = printing f (set_node_status i st s)"
    "coerce_status_filter (Some st) node_status_values ''status'' = Inr (Some st)"
  shows "nodes t = update_where (\<lambda>n. n_node_id n = i) (\<lambda>n. n\<lparr>n_status := st\<rparr>) (nodes s)" "get_node s i \<noteq> None"
proof -
  let ?m = "admin_main env (clock 0) s"
  have m: "nodes ?m = nodes s" using main_same [of s env "clock 0"] unfolding same_requests_def by blast
  have "\<exists>x. set_node_status i st ?m = Inr (x, t)"
    using assms(1)
  proof (cases rule: admin_cli_cases)
    case (1 v)
    then show ?thesis by (auto simp: assms(2) printing_def split: sum.splits)
  next
    case (2 k m)
    then show ?thesis by auto
  qed
  then show "nodes t = update_where (\<lambda>n. n_node_id n = i) (\<lambda>n. n\<lparr>n_status := st\<rparr>) (nodes s)" "get_node s i \<noteq> None"
    using m by (auto simp: set_node_status_def assms(3) bind_admin_def get_node_def split: option.splits)
qed

lemma known_status:
  "coerce_status_filter (Some ''disabled'') node_status_values ''status'' = Inr (Some ''disabled'')"
  "coerce_status_filter (Some ''active'') node_status_values ''status'' = Inr (Some ''active'')"
  by code_simp+

lemma disabled_nodes:
  assumes "admin_cli tf env stat clock (Nodes (NodesDisable i)) as_json s = (t, Printed text)"
  shows "nodes t = update_where (\<lambda>n. n_node_id n = i) (\<lambda>n. n\<lparr>n_status := ''disabled''\<rparr>) (nodes s)" "get_node s i \<noteq> None"
  by (rule status_printed [OF assms _ known_status(1), where f = "node_status_json ''disabled''"], simp add: disable_node_def)+

lemma enabled_nodes:
  assumes "admin_cli tf env stat clock (Nodes (NodesEnable i)) as_json s = (t, Printed text)"
  shows "nodes t = update_where (\<lambda>n. n_node_id n = i) (\<lambda>n. n\<lparr>n_status := ''active''\<rparr>) (nodes s)"
  by (rule status_printed [OF assms _ known_status(2), where f = "node_status_json ''enabled''"]) (simp add: enable_node_def)

text \<open>
  C26: A node that the operator has disabled cannot authenticate with any key, and the others authenticate as before.
  Enabling it again makes it active whatever it was before it was disabled, a revoked node too, and changes nothing
  else; so the table of the nodes is restored exactly if the node was active at first.
\<close>

theorem disabled_node_locked_out:
  assumes "admin_cli tf env stat clock (Nodes (NodesDisable i)) as_json s = (t, Printed text)" "db_ok s"
  shows "(\<forall>key n. authenticate_node pbkdf2 cfg t key = Inr n \<longrightarrow> n_node_id n \<noteq> i)
    \<and> (\<forall>key n. n_node_id n \<noteq> i \<longrightarrow>
         (authenticate_node pbkdf2 cfg t key = Inr n \<longleftrightarrow> authenticate_node pbkdf2 cfg s key = Inr n))
    \<and> (\<exists>n. get_node s i = Some n
        \<and> (\<forall>clock' u text'. admin_cli tf env stat clock' (Nodes (NodesEnable i)) as_json t = (u, Printed text') \<longrightarrow>
              nodes u = update_where (\<lambda>n. n_node_id n = i) (\<lambda>n. n\<lparr>n_status := ''active''\<rparr>) (nodes s)
            \<and> (nodes u = nodes s \<longleftrightarrow> n_status n = ''active'')))"
proof -
  note t = disabled_nodes [OF assms(1)]
  have f: "fetch n_key_id k (nodes t) = map_option (\<lambda>n. if n_node_id n = i then n\<lparr>n_status := ''disabled''\<rparr> else n) (fetch n_key_id k (nodes s))" for k
    unfolding t(1) by (rule fetch_update_where) simp
  have "n_node_id n \<noteq> i" if "authenticate_node pbkdf2 cfg t key = Inr n" for key n
    using that by (auto simp: authenticate_node_def f split: option.splits sum.splits if_splits)
  moreover have "authenticate_node pbkdf2 cfg t key = Inr n \<longleftrightarrow> authenticate_node pbkdf2 cfg s key = Inr n"
    if "n_node_id n \<noteq> i" for key n
    using that by (auto simp: authenticate_node_def f split: option.splits sum.splits if_splits)
  moreover obtain n where n: "get_node s i = Some n" using t(2) by blast
  moreover have "nodes u = update_where (\<lambda>n. n_node_id n = i) (\<lambda>n. n\<lparr>n_status := ''active''\<rparr>) (nodes s)
      \<and> (nodes u = nodes s \<longleftrightarrow> n_status n = ''active'')"
    if "admin_cli tf env stat clock' (Nodes (NodesEnable i)) as_json t = (u, Printed text')" for clock' u text'
  proof -
    have u: "nodes u = update_where (\<lambda>n. n_node_id n = i) (\<lambda>n. n\<lparr>n_status := ''active''\<rparr>) (nodes s)"
      unfolding enabled_nodes [OF that] t(1) by (simp add: update_where_def)
    have "distinct (map n_node_id (nodes s))" using assms(2) by (simp add: db_ok_def keys_ok_def)
    then have inj: "inj_on n_node_id (set (nodes s))" by (simp add: distinct_map)
    have n: "n \<in> set (nodes s)" "n_node_id n = i" using n by (auto simp: get_node_def dest: fetch_SomeD)
    have only: "x = n" if "x \<in> set (nodes s)" "n_node_id x = i" for x
      by (rule inj_onD [OF inj _ that(1) n(1)]) (simp add: that(2) n(2))
    have restored: "nodes u = nodes s" if "n_status n = ''active''"
    proof -
      from only that have "x\<lparr>n_status := ''active''\<rparr> = x" if "x \<in> set (nodes s)" "n_node_id x = i" for x
        using \<open>x \<in> set (nodes s)\<close> \<open>n_node_id x = i\<close> by fastforce
      then show ?thesis unfolding u by (auto simp: update_where_def intro!: map_idI)
    qed
    have earlier: "n_status n = ''active''" if "nodes u = nodes s"
    proof -
      have "n \<in> set (nodes u)" using n(1) that by simp
      then obtain y where "n = (if n_node_id y = i then y\<lparr>n_status := ''active''\<rparr> else y)"
        unfolding u by (rule in_update_whereE)
      then show ?thesis using n(2) by (auto split: if_splits)
    qed
    show ?thesis by (intro conjI u iffI) (erule earlier, erule restored)
  qed
  ultimately show ?thesis by blast
qed

text \<open>
  C27: In the access mode \<open>dynamic\<close>, under the default policy \<open>deny\<close> and on a store without the old table of blocked
  addresses, removing the rule of the only allowed address, or the only rule left, succeeds and shuts everybody out:
  every client address is refused from then on. The guard of \<open>ip policy set\<close> has no counterpart here. (The middleware
  decides from a snapshot of the same store, with the same outcome: see \<open>AccessCache\<close>.)
\<close>

theorem last_allow_rule_removed:
  assumes "ip_access_mode (ae_cfg env) = Inr ''dynamic''" "ae_legacy env = None"
    and "settings_row s = Some r" "rs_default_ip_policy r = ''deny''"
    and "x \<in> set (ip_access_rules s)" "try_normalize_ip ip = Some (ip_ip x)"
    and "\<forall>y\<in>set (ip_access_rules s). ip_action y = ''allow'' \<longrightarrow> ip_ip y = ip_ip x"
  shows "\<exists>t text. admin_cli tf env stat clock (Ip (IpRemove ip)) as_json s = (t, Printed text)
    \<and> ip_access_rules t = delete_where (\<lambda>y. ip_ip y = ip_ip x) (ip_access_rules s)
    \<and> (\<forall>now ip'. is_ip_allowed (env\<lparr>ae_ready := True\<rparr>) now ip' t = Inr (False, t))"
proof -
  let ?env = "env\<lparr>ae_ready := True\<rparr>"
  have m: "admin_main env (clock 0) s = s"
    using assms(2,3) by (simp add: admin_main_def ensure_admin_tables_def insert_default_settings_def Let_def)
  define t where "t = s\<lparr>ip_access_rules := delete_where (\<lambda>y. ip_ip y = ip_ip x) (ip_access_rules s)\<rparr>"
  have "remove_ip_rule ?env (clock 1) ip s = Inr (ip_ip x, t)"
    using assms(5) by (auto simp: remove_ip_rule_def normalize_ip_try [OF assms(6)] Let_def t_def)
  then have "\<exists>text. admin_cli tf env stat clock (Ip (IpRemove ip)) as_json s = (t, Printed text)"
    by (simp add: admin_cli_def admin_run_def m session_scope_def printing_def)
  moreover have "is_ip_allowed ?env now ip' t = Inr (False, t)" for now ip'
  proof -
    have none: "ip_action y \<noteq> ''allow''" if "find_rule t w = Some y" for w y
    proof -
      have "y \<in> set (ip_access_rules t)" using that unfolding find_rule_def by (blast dest: fetch_SomeD)
      with assms(7) show ?thesis by (auto simp: t_def delete_where_def)
    qed
    have "get_runtime_settings ?env now t = Inr (r, t)" by (rule ready_settings) (simp_all add: t_def assms(3))
    then show ?thesis using assms(1,4) none by (auto simp: is_ip_allowed_def Let_def split: option.splits)
  qed
  ultimately show ?thesis by (auto simp: t_def)
qed

section \<open>Concrete runs\<close>

definition plain_texts :: time_texts where
  "plain_texts = \<lparr>tf_iso = (\<lambda>_. ''t''), tf_sql = (\<lambda>_. ''t'')\<rparr>"

text \<open>The demo store with a default policy \<open>deny\<close> and one allow rule.\<close>

definition guarded_db :: db where
  "guarded_db = demo_db\<lparr>settings_row := Some ((runtime_settings_defaults default_config 0)\<lparr>rs_default_ip_policy := ''deny''\<rparr>),
     ip_access_rules := [\<lparr>ip_ip = ''10.0.0.1'', ip_action = ''allow'', ip_reason = None, ip_created_at = 5\<rparr>]\<rparr>"

lemma demo_main: "admin_main default_env now demo_db = demo_db" "admin_main default_env now guarded_db = guarded_db"
  by (simp_all add: admin_main_def ensure_admin_tables_def insert_default_settings_def default_env_def demo_db_def guarded_db_def)

lemma demo_nodes [simp]: "get_node demo_db ''n1'' = Some (demo_node ''n1'')" "get_node demo_db ''n9'' = None"
  by (simp_all add: get_node_def fetch_def demo_db_def demo_node_def)

lemma demo_disabled:
  "\<exists>t text. admin_cli plain_texts default_env (\<lambda>_. None) (\<lambda>_. 0) (Nodes (NodesDisable ''n1'')) True demo_db = (t, Printed text)"
  by (simp add: admin_cli_def admin_run_def demo_main session_scope_def printing_def disable_node_def set_node_status_def known_status
      bind_admin_def)

theorem admin_cli_keeps_store_witness:
  "\<exists>t text. admin_cli plain_texts default_env (\<lambda>_. None) (\<lambda>_. 0) (Nodes (NodesDisable ''n1'')) True demo_db = (t, Printed text)
     \<and> db_ok t \<and> routes_unique t"
proof -
  obtain t u where "admin_cli plain_texts default_env (\<lambda>_. None) (\<lambda>_. 0) (Nodes (NodesDisable ''n1'')) True demo_db = (t, Printed u)"
    using demo_disabled by blast
  with admin_cli_keeps_store [OF this demo_db_ok demo_routes_unique] show ?thesis by blast
qed

theorem admin_cli_atomic_witness:
  "\<exists>m. admin_cli plain_texts default_env (\<lambda>_. None) (\<lambda>_. 0) (Nodes (NodesDisable ''n9'')) True demo_db = (demo_db, Failed 4 m)"
proof -
  obtain t m where f: "admin_cli plain_texts default_env (\<lambda>_. None) (\<lambda>_. 0) (Nodes (NodesDisable ''n9'')) True demo_db = (t, Failed 4 m)"
    by (simp add: admin_cli_def admin_run_def demo_main session_scope_def printing_def disable_node_def set_node_status_def known_status
        bind_admin_def)
  from admin_cli_atomic [OF this] have "t = demo_db" by (simp add: demo_main)
  with f show ?thesis by blast
qed

theorem disabled_node_locked_out_witness:
  "\<exists>t text. admin_cli plain_texts default_env (\<lambda>_. None) (\<lambda>_. 0) (Nodes (NodesDisable ''n1'')) True demo_db = (t, Printed text)
     \<and> (\<forall>pbkdf2 cfg key. authenticate_node pbkdf2 cfg t key \<noteq> Inr (demo_node ''n1''))"
proof -
  obtain t u where t: "admin_cli plain_texts default_env (\<lambda>_. None) (\<lambda>_. 0) (Nodes (NodesDisable ''n1'')) True demo_db = (t, Printed u)"
    using demo_disabled by blast
  have "n_node_id (demo_node ''n1'') = ''n1''" by (simp add: demo_node_def)
  then have "authenticate_node pbkdf2 cfg t key \<noteq> Inr (demo_node ''n1'')" for pbkdf2 cfg key
    using disabled_node_locked_out [OF t demo_db_ok, of pbkdf2 cfg] by metis
  with t show ?thesis by blast
qed

theorem last_allow_rule_removed_witness:
  "\<exists>t text. admin_cli plain_texts default_env (\<lambda>_. None) (\<lambda>_. 0) (Ip (IpRemove ''10.0.0.1'')) True guarded_db = (t, Printed text)
     \<and> is_ip_allowed (default_env\<lparr>ae_ready := True\<rparr>) 7 ''10.0.0.1'' t = Inr (False, t)"
proof -
  let ?rule = "\<lparr>ip_ip = ''10.0.0.1'', ip_action = ''allow'', ip_reason = None, ip_created_at = 5\<rparr>"
  let ?row = "(runtime_settings_defaults default_config 0)\<lparr>rs_default_ip_policy := ''deny''\<rparr>"
  have "\<exists>t text. admin_cli plain_texts default_env (\<lambda>_. None) (\<lambda>_. 0) (Ip (IpRemove ''10.0.0.1'')) True guarded_db = (t, Printed text)
    \<and> ip_access_rules t = delete_where (\<lambda>y. ip_ip y = ip_ip ?rule) (ip_access_rules guarded_db)
    \<and> (\<forall>now ip'. is_ip_allowed (default_env\<lparr>ae_ready := True\<rparr>) now ip' t = Inr (False, t))"
    by (rule last_allow_rule_removed [where r = ?row])
      (simp_all add: default_access_mode default_env_def guarded_db_def demo_db_def)
  then show ?thesis by blast
qed

end
