(* ===== verification/Urls.thy ===== *)
theory Urls
  imports PyValues IpAddr
begin

text \<open>
  What the client library uses of \<open>urllib.parse\<close>: \<open>urlsplit\<close>, \<open>urlunsplit\<close>, the host name of a split
  URL and \<open>urlencode\<close>; and the helpers of \<open>src/apis/arqs_api.py\<close> on URLs, down to the question the
  transport guard asks: is this URL plain HTTP, and is its host a local one?
\<close>

section \<open>Splitting\<close>

record split_url =
  su_scheme :: string
  su_netloc :: string
  su_path :: string
  su_query :: string
  su_fragment :: string

definition is_alpha :: "char \<Rightarrow> bool" where
  "is_alpha c \<longleftrightarrow> is_alnum c \<and> \<not> is_digit c"

definition scheme_char :: "char \<Rightarrow> bool" where
  "scheme_char c \<longleftrightarrow> is_alnum c \<or> c \<in> {CHR ''+'', CHR ''-'', CHR ''.''}"

text \<open>Leading control characters and spaces go, and tabs and line ends anywhere.\<close>

definition clean_url :: "string \<Rightarrow> string" where
  "clean_url s = filter (\<lambda>c. code_point c \<notin> {9, 10, 13}) (dropWhile (\<lambda>c. code_point c \<le> 32) s)"

text \<open>\<open>s.partition(c)\<close> without the separator.\<close>

definition before :: "char \<Rightarrow> string \<Rightarrow> string" where
  "before c s = takeWhile (\<lambda>d. d \<noteq> c) s"

definition after :: "char \<Rightarrow> string \<Rightarrow> string" where
  "after c s = drop 1 (dropWhile (\<lambda>d. d \<noteq> c) s)"

definition valid_scheme :: "string \<Rightarrow> bool" where
  "valid_scheme p \<longleftrightarrow> p \<noteq> [] \<and> is_alpha (hd p) \<and> list_all scheme_char p"

definition split_scheme :: "string \<Rightarrow> string \<times> string" where
  "split_scheme s =
     (if CHR '':'' \<in> set s \<and> valid_scheme (before (CHR '':'') s)
      then (lower (before (CHR '':'') s), after (CHR '':'') s) else ([], s))"

definition netloc_end :: "char \<Rightarrow> bool" where
  "netloc_end c \<longleftrightarrow> c \<in> {CHR ''/'', CHR ''?'', CHR ''#''}"

definition split_netloc :: "string \<Rightarrow> string \<times> string" where
  "split_netloc s =
     (if startswith s ''//'' then (takeWhile (\<lambda>c. \<not> netloc_end c) (drop 2 s), dropWhile (\<lambda>c. \<not> netloc_end c) (drop 2 s))
      else ([], s))"

text \<open>A bracketed host has to be an IPv6 address; unbalanced brackets are a \<open>ValueError\<close>.\<close>

definition bracketed :: "string \<Rightarrow> string" where
  "bracketed s = before (CHR '']'') (after (CHR ''['') s)"

definition netloc_ok :: "string \<Rightarrow> bool" where
  "netloc_ok n \<longleftrightarrow> (CHR ''['' \<in> set n \<longleftrightarrow> CHR '']'' \<in> set n) \<and>
     (CHR ''['' \<in> set n \<longrightarrow> (case parse_v6 (bracketed n) of None \<Rightarrow> False | Some _ \<Rightarrow> True))"

definition urlsplit :: "string \<Rightarrow> split_url option" where
  "urlsplit url =
     (let (scheme, rest) = split_scheme (clean_url url);
          (netloc, rest) = split_netloc rest
      in if \<not> netloc_ok netloc then None
         else Some \<lparr>su_scheme = scheme, su_netloc = netloc,
           su_path = before (CHR ''?'') (before (CHR ''#'') rest),
           su_query = after (CHR ''?'') (before (CHR ''#'') rest),
           su_fragment = after (CHR ''#'') rest\<rparr>)"

section \<open>Joining\<close>

text \<open>\<open>urllib.parse.uses_netloc\<close>.\<close>

definition uses_netloc :: "string list" where
  "uses_netloc = ['''', ''ftp'', ''http'', ''gopher'', ''nntp'', ''telnet'', ''imap'', ''wais'', ''file'', ''mms'',
     ''https'', ''shttp'', ''snews'', ''prospero'', ''rtsp'', ''rtsps'', ''rtspu'', ''rsync'', ''svn'',
     ''svn+ssh'', ''sftp'', ''nfs'', ''git'', ''git+ssh'', ''ws'', ''wss'', ''itms-services'']"

definition urlunsplit :: "split_url \<Rightarrow> string" where
  "urlunsplit u =
     (let url = su_path u;
          url = (if su_netloc u \<noteq> [] \<or> (su_scheme u \<noteq> [] \<and> su_scheme u \<in> set uses_netloc \<and> \<not> startswith url ''//'')
                 then ''//'' @ su_netloc u @ (if url \<noteq> [] \<and> hd url \<noteq> CHR ''/'' then CHR ''/'' # url else url)
                 else url);
          url = (if su_scheme u \<noteq> [] then su_scheme u @ '':'' @ url else url);
          url = (if su_query u \<noteq> [] then url @ ''?'' @ su_query u else url)
      in if su_fragment u \<noteq> [] then url @ ''#'' @ su_fragment u else url)"

section \<open>Host name\<close>

text \<open>\<open>s.rpartition("@")[2]\<close>.\<close>

definition after_last :: "char \<Rightarrow> string \<Rightarrow> string" where
  "after_last c s = rev (takeWhile (\<lambda>d. d \<noteq> c) (rev s))"

definition host_text :: "string \<Rightarrow> string" where
  "host_text netloc =
     (let hostinfo = after_last (CHR ''@'') netloc in
      if CHR ''['' \<in> set hostinfo then bracketed hostinfo else before (CHR '':'') hostinfo)"

text \<open>The zone of a scoped IPv6 address keeps its case.\<close>

definition hostname :: "split_url \<Rightarrow> string option" where
  "hostname u =
     (let h = host_text (su_netloc u) in
      if h = [] then None
      else Some (lower (before (CHR ''%'') h) @ dropWhile (\<lambda>c. c \<noteq> CHR ''%'') h))"

section \<open>Query strings\<close>

definition quote_safe :: "char \<Rightarrow> bool" where
  "quote_safe c \<longleftrightarrow> is_alnum c \<or> c \<in> {CHR ''_'', CHR ''.'', CHR ''-'', CHR ''~''}"

definition percent_byte :: "nat \<Rightarrow> string" where
  "percent_byte n = [CHR ''%'', upper_char (hex_digit (n div 16)), upper_char (hex_digit (n mod 16))]"

text \<open>\<open>quote_plus\<close> of the UTF-8 bytes, for code points below 256.\<close>

definition quote_char :: "char \<Rightarrow> string" where
  "quote_char c = (let n = code_point c in
     if quote_safe c then [c]
     else if c = CHR '' '' then ''+''
     else if n < 128 then percent_byte n
     else percent_byte (192 + n div 64) @ percent_byte (128 + n mod 64))"

definition quote_plus :: "string \<Rightarrow> string" where
  "quote_plus s = concat (map quote_char s)"

text \<open>\<open>urlencode(params, doseq=True)\<close>: a list gives one pair per element.\<close>

definition query_pairs :: "string \<times> json \<Rightarrow> string list" where
  "query_pairs kv =
     (let pair = (\<lambda>v. quote_plus (fst kv) @ ''='' @ quote_plus (str_value v)) in
      case snd kv of JList xs \<Rightarrow> map pair xs | v \<Rightarrow> [pair v])"

definition urlencode :: "dict \<Rightarrow> string" where
  "urlencode params = join ''&'' (concat (map query_pairs params))"

section \<open>The helpers of the client\<close>

definition rstrip_char :: "char \<Rightarrow> string \<Rightarrow> string" where
  "rstrip_char c s = rev (dropWhile (\<lambda>d. d = c) (rev s))"

text \<open>\<^term>\<open>None\<close> is the \<open>ValueError\<close> of \<open>urlsplit\<close>.\<close>

definition normalize_base_url :: "string \<Rightarrow> string option" where
  "normalize_base_url base_url =
     (let raw = strip base_url in
      if raw = [] then Some []
      else (case urlsplit raw of
         None \<Rightarrow> None
       | Some parts \<Rightarrow>
           if su_scheme parts = [] then Some (rstrip_char (CHR ''/'') raw)
           else Some (urlunsplit (parts\<lparr>su_scheme := lower (su_scheme parts),
                  su_path := rstrip_char (CHR ''/'') (su_path parts), su_query := [], su_fragment := []\<rparr>))))"

definition split_normalized :: "string \<Rightarrow> split_url option" where
  "split_normalized base_url = Option.bind (normalize_base_url base_url) urlsplit"

definition has_scheme :: "string \<Rightarrow> string \<Rightarrow> bool option" where
  "has_scheme scheme base_url = map_option (\<lambda>u. lower (su_scheme u) = scheme) (split_normalized base_url)"

definition is_https_url :: "string \<Rightarrow> bool option" where
  "is_https_url = has_scheme ''https''"

definition is_http_url :: "string \<Rightarrow> bool option" where
  "is_http_url = has_scheme ''http''"

text \<open>\<open>_swap_scheme\<close>: both a bad split and a URL without host are a \<open>ValueError\<close>.\<close>

definition swap_scheme :: "string \<Rightarrow> string \<Rightarrow> string option" where
  "swap_scheme base_url scheme =
     (case split_normalized base_url of
        None \<Rightarrow> None
      | Some parts \<Rightarrow>
          if lower (su_scheme parts) \<notin> {''http'', ''https''} \<or> su_netloc parts = [] then None
          else Some (urlunsplit (parts\<lparr>su_scheme := lower scheme, su_query := [], su_fragment := []\<rparr>)))"

definition normalize_observed_url :: "string option \<Rightarrow> string option option" where
  "normalize_observed_url value =
     (case value of None \<Rightarrow> Some None
      | Some v \<Rightarrow> if v = [] then Some None
          else map_option (\<lambda>parts. Some (urlunsplit (parts\<lparr>su_scheme := lower (su_scheme parts),
                  su_path := rstrip_char (CHR ''/'') (su_path parts)\<rparr>))) (urlsplit v))"

section \<open>Classes of addresses\<close>

text \<open>The special networks of \<open>ipaddress\<close>, as in CPython 3.12.0; a scope does not matter.\<close>

definition net4 :: "nat \<Rightarrow> nat \<Rightarrow> nat \<Rightarrow> ipnet" where
  "net4 a b p = Net4 (a * 16777216 + b * 65536) p"

definition net6 :: "nat \<Rightarrow> nat \<Rightarrow> nat \<Rightarrow> ipnet" where
  "net6 a b p = Net6 (a * 2 ^ 112 + b * 2 ^ 96) p"

definition private_networks :: "ipnet list" where
  "private_networks =
     [net4 0 0 8, net4 10 0 8, net4 127 0 8, net4 169 254 16, net4 172 16 12, net4 192 0 29,
      Net4 3221225642 31, Net4 3221225984 24, net4 192 168 16, net4 198 18 15, Net4 3325256704 24,
      Net4 3405803776 24, net4 240 0 4, Net4 4294967295 32,
      Net6 1 128, Net6 0 128, Net6 281470681743360 96, net6 256 0 64, net6 8193 0 23, net6 8193 2 48,
      net6 8193 3512 32, net6 8193 16 28, net6 64512 0 7, net6 65152 0 10]"

definition reserved_networks :: "ipnet list" where
  "reserved_networks =
     [net4 240 0 4, net6 0 0 8, net6 256 0 8, net6 512 0 7, net6 1024 0 6, net6 2048 0 5, net6 4096 0 4,
      net6 16384 0 3, net6 24576 0 3, net6 32768 0 3, net6 40960 0 3, net6 49152 0 3, net6 57344 0 4,
      net6 61440 0 5, net6 63488 0 6, net6 65024 0 9]"

definition in_any :: "ipnet list \<Rightarrow> ipaddr \<Rightarrow> bool" where
  "in_any nets a \<longleftrightarrow> list_ex (in_network a) nets"

text \<open>The IPv4 address inside \<open>::ffff:0:0/96\<close>.\<close>

definition ipv4_mapped :: "ipaddr \<Rightarrow> ipaddr option" where
  "ipv4_mapped a = (case a of V4 n \<Rightarrow> None
     | V6 n _ \<Rightarrow> if n div 2 ^ 32 = 65535 then Some (V4 (n mod 2 ^ 32)) else None)"

definition is_private :: "ipaddr \<Rightarrow> bool" where
  "is_private a = (case ipv4_mapped a of Some b \<Rightarrow> in_any private_networks b | None \<Rightarrow> in_any private_networks a)"

definition is_loopback :: "ipaddr \<Rightarrow> bool" where
  "is_loopback a = in_any [net4 127 0 8, Net6 1 128] a"

definition is_link_local :: "ipaddr \<Rightarrow> bool" where
  "is_link_local a = in_any [net4 169 254 16, net6 65152 0 10] a"

definition is_reserved :: "ipaddr \<Rightarrow> bool" where
  "is_reserved a = in_any reserved_networks a"

definition host_is_loopback_or_local :: "string \<Rightarrow> bool" where
  "host_is_loopback_or_local base_url =
     (case Option.bind (split_normalized base_url) hostname of
        None \<Rightarrow> False
      | Some host \<Rightarrow>
          let lowered = lower host in
          if lowered = ''localhost'' \<or> lowered = ''::1'' then True
          else (case ip_address lowered of None \<Rightarrow> False
             | Some a \<Rightarrow> is_loopback a \<or> is_private a \<or> is_link_local a))"

section \<open>Lemmas\<close>

text \<open>The scheme of a URL is the part before the first colon, whatever is appended later.\<close>

lemma before_append: "c \<in> set s \<Longrightarrow> before c (s @ t) = before c s"
  by (simp add: before_def takeWhile_append1)

lemma before_free [simp]: "c \<notin> set s \<Longrightarrow> before c (s @ c # t) = s"
  by (auto simp: before_def takeWhile_append2 takeWhile_tail)

end
