(* ===== verification/Outbox.thy ===== *)
theory Outbox
  imports PyValues Server
begin

text \<open>
  The durable outbox of the client library, \<open>src/apis/appkit/outbox.py\<close>: a SQLite table of
  packets to send, with retries, back-off and dead letters. A row is the record \<open>outbox_entry\<close>
  with its JSON columns as they read back. The server is reached through \<open>ARQSClient.send_packet\<close>,
  here the argument \<open>send\<close>; what the outbox relies on is the locale \<open>packet_server\<close> at the end. The
  readings of the clock are numbered in program order, one sequence per flushed entry.
\<close>

section \<open>Data\<close>

record send_args =
  sa_from_endpoint_id :: string
  sa_to_endpoint_id :: string
  sa_body :: "string option"
  sa_data :: dict
  sa_headers :: dict
  sa_meta :: dict
  sa_packet_id :: string

record packet_send_result =
  sp_result :: string
  sp_packet_id :: string
  sp_delivery_id :: "string option"
  sp_expires_at :: "time option"

record outbox_entry =
  ob_outbox_id :: string
  ob_packet_id :: string
  ob_from_endpoint_id :: string
  ob_to_endpoint_id :: string
  ob_headers :: dict
  ob_body :: "string option"
  ob_data :: dict
  ob_meta :: dict
  ob_status :: string
  ob_created_at :: time
  ob_updated_at :: time
  ob_next_attempt_at :: time
  ob_attempts :: int
  ob_max_attempts :: "int option"
  ob_expires_at :: "time option"
  ob_last_error :: "string option"

record send_result =
  sr_packet_id :: string
  sr_delivery_mode :: string
  sr_status :: string
  sr_delivery_id :: "string option"
  sr_expires_at :: "time option"
  sr_outbox_id :: "string option"
  sr_attempts :: int
  sr_error :: "string option"

type_synonym outbox = "outbox_entry list"
type_synonym 'w sender = "'w \<Rightarrow> send_args \<Rightarrow> 'w \<times> (py_exc + packet_send_result)"

section \<open>Enqueueing\<close>

record enqueue_args =
  eq_from_endpoint_id :: string
  eq_to_endpoint_id :: string
  eq_headers :: dict
  eq_body :: "string option"
  eq_data :: dict
  eq_meta :: dict
  eq_retry_policy :: string
  eq_max_attempts :: "int option"
  eq_expires_after_seconds :: "int option"
  eq_packet_id :: "string option"

definition enqueue_limits :: "enqueue_args \<Rightarrow> int option \<times> int option" where
  "enqueue_limits a =
     (if eq_retry_policy a = ''none'' then (Some 1, eq_expires_after_seconds a)
      else if eq_retry_policy a = ''forever'' then (None, None)
      else (eq_max_attempts a, eq_expires_after_seconds a))"

definition enqueued_entry :: "time \<Rightarrow> (nat \<Rightarrow> string) \<Rightarrow> enqueue_args \<Rightarrow> outbox_entry" where
  "enqueued_entry created_at uuid4 a =
     (let (max_attempts, expires_after) = enqueue_limits a in
      \<lparr>ob_outbox_id = uuid4 0,
       ob_packet_id = (case eq_packet_id a of None \<Rightarrow> uuid4 1 | Some p \<Rightarrow> if p = [] then uuid4 1 else p),
       ob_from_endpoint_id = eq_from_endpoint_id a, ob_to_endpoint_id = eq_to_endpoint_id a,
       ob_headers = eq_headers a, ob_body = eq_body a, ob_data = eq_data a, ob_meta = eq_meta a,
       ob_status = ''queued'', ob_created_at = created_at, ob_updated_at = created_at,
       ob_next_attempt_at = created_at, ob_attempts = 0, ob_max_attempts = max_attempts,
       ob_expires_at = (case expires_after of None \<Rightarrow> None
          | Some n \<Rightarrow> if n = 0 then None else Some (created_at + seconds n)),
       ob_last_error = None\<rparr>)"

text \<open>The columns of the inserted row, read back: dictionaries lose the order of their entries.\<close>

definition stored_row :: "outbox_entry \<Rightarrow> outbox_entry" where
  "stored_row e = e\<lparr>ob_headers := sort_dict (ob_headers e), ob_data := sort_dict (ob_data e),
     ob_meta := sort_dict (ob_meta e)\<rparr>"

text \<open>\<open>outbox_id\<close> is the primary key and \<open>packet_id\<close> is unique.\<close>

definition enqueue ::
  "time \<Rightarrow> (nat \<Rightarrow> string) \<Rightarrow> enqueue_args \<Rightarrow> outbox \<Rightarrow> outbox \<times> (py_exc + outbox_entry)" where
  "enqueue now uuid4 a rows =
     (let e = enqueued_entry now uuid4 a in
      if ob_outbox_id e \<in> ob_outbox_id ` set rows then
        (rows, Inl (OtherException ''UNIQUE constraint failed: outbox.outbox_id''))
      else if ob_packet_id e \<in> ob_packet_id ` set rows then
        (rows, Inl (OtherException ''UNIQUE constraint failed: outbox.packet_id''))
      else (rows @ [stored_row e], Inr e))"

section \<open>Reading\<close>

definition row_to_entry :: "outbox_entry \<Rightarrow> outbox_entry" where
  "row_to_entry r = r\<lparr>ob_last_error := (case ob_last_error r of None \<Rightarrow> None
     | Some m \<Rightarrow> if m = [] then None else Some m)\<rparr>"

text \<open>\<open>ORDER BY ... DESC\<close> leaves equal rows in their order.\<close>

definition list_dead_letters :: "int \<Rightarrow> outbox \<Rightarrow> outbox_entry list" where
  "list_dead_letters limit rows =
     map row_to_entry (sql_limit limit
       (rev (sort_key (\<lambda>e. Iso (ob_updated_at e)) (rev (filter (\<lambda>e. ob_status e = ''dead_letter'') rows)))))"

definition get_by_packet_id :: "string \<Rightarrow> outbox \<Rightarrow> outbox_entry option" where
  "get_by_packet_id packet_id rows = map_option row_to_entry (fetch ob_packet_id packet_id rows)"

definition due :: "time \<Rightarrow> outbox_entry \<Rightarrow> bool" where
  "due now e \<longleftrightarrow> ob_status e \<in> {''queued'', ''failed''} \<and> Iso (ob_next_attempt_at e) \<le> Iso now"

definition select_due :: "time \<Rightarrow> int \<Rightarrow> outbox \<Rightarrow> outbox_entry list" where
  "select_due now limit rows =
     map row_to_entry (sql_limit limit (sort_key (\<lambda>e. Iso (ob_created_at e)) (filter (due now) rows)))"

section \<open>Updates\<close>

definition set_status ::
  "time \<Rightarrow> time \<Rightarrow> string \<Rightarrow> string \<Rightarrow> int \<Rightarrow> time option \<Rightarrow> string option \<Rightarrow> outbox \<Rightarrow> outbox" where
  "set_status now now' outbox_id status attempts next_attempt_at last_error rows =
     update_where (\<lambda>e. ob_outbox_id e = outbox_id) (\<lambda>e. e\<lparr>ob_status := status, ob_updated_at := now,
       ob_next_attempt_at := (case next_attempt_at of None \<Rightarrow> now' | Some t \<Rightarrow> t),
       ob_attempts := attempts, ob_last_error := last_error\<rparr>) rows"

definition mark_dead_letter ::
  "time \<Rightarrow> time \<Rightarrow> string \<Rightarrow> string \<Rightarrow> int option \<Rightarrow> outbox \<Rightarrow> outbox" where
  "mark_dead_letter now now' outbox_id last_error attempts rows =
     update_where (\<lambda>e. ob_outbox_id e = outbox_id) (\<lambda>e. e\<lparr>ob_status := ''dead_letter'', ob_updated_at := now,
       ob_next_attempt_at := now',
       ob_attempts := (case attempts of None \<Rightarrow> ob_attempts e | Some n \<Rightarrow> n),
       ob_last_error := Some last_error\<rparr>) rows"

definition delete_entry :: "string \<Rightarrow> outbox \<Rightarrow> outbox" where
  "delete_entry outbox_id rows = delete_where (\<lambda>e. ob_outbox_id e = outbox_id) rows"

section \<open>Retries\<close>

datatype failure_class = Retryable | Permanent

definition classify_send_error :: "py_exc \<Rightarrow> failure_class \<times> string" where
  "classify_send_error exc =
     (case exc of
        ARQSHTTPError code detail \<Rightarrow>
          (if code \<in> {429, 500, 502, 503, 504} then Retryable else Permanent,
           ''http '' @ str_of_nat code @ '': '' @ detail)
      | ARQSConnectionError m \<Rightarrow> (Retryable, exc_text exc)
      | ARQSInsecureTransportError m \<Rightarrow> (Permanent, exc_text exc)
      | ValueError m \<Rightarrow> (Permanent, exc_text exc)
      | TypeError m \<Rightarrow> (Permanent, exc_text exc)
      | ARQSError m \<Rightarrow> (Permanent, exc_text exc)
      | _ \<Rightarrow> (Retryable, exc_text exc))"

text \<open>\<open>jitter\<close> is the outcome of \<open>random.randint(0, 5)\<close>.\<close>

definition backoff_seconds :: "int \<Rightarrow> int \<Rightarrow> int" where
  "backoff_seconds jitter attempts =
     (if attempts \<le> 1 then 0
      else if attempts = 2 then 10
      else if attempts = 3 then 30
      else if attempts = 4 then 60
      else min 300 (2 ^ nat (min attempts 8)) + jitter)"

definition can_retry :: "time \<Rightarrow> outbox_entry \<Rightarrow> int \<Rightarrow> bool" where
  "can_retry now e attempts =
     (if (case ob_max_attempts e of None \<Rightarrow> False | Some m \<Rightarrow> attempts \<ge> m) then False
      else if (case ob_expires_at e of None \<Rightarrow> False | Some x \<Rightarrow> x \<le> now) then False
      else True)"

definition failed_result :: "outbox_entry \<Rightarrow> string \<Rightarrow> int \<Rightarrow> string \<Rightarrow> send_result" where
  "failed_result e status attempts message =
     \<lparr>sr_packet_id = ob_packet_id e, sr_delivery_mode = ''queued'', sr_status = status,
      sr_delivery_id = None, sr_expires_at = None, sr_outbox_id = Some (ob_outbox_id e),
      sr_attempts = attempts, sr_error = Some message\<rparr>"

definition handle_send_failure ::
  "(nat \<Rightarrow> time) \<Rightarrow> int \<Rightarrow> outbox_entry \<Rightarrow> py_exc \<Rightarrow> outbox \<Rightarrow> outbox \<times> send_result" where
  "handle_send_failure clock jitter e exc rows =
     (let (classification, message) = classify_send_error exc;
          next_attempts = ob_attempts e + 1
      in if classification = Retryable \<and> can_retry (clock 3) e next_attempts then
           (set_status (clock 5) (clock 6) (ob_outbox_id e) ''queued'' next_attempts
              (Some (clock 4 + seconds (backoff_seconds jitter next_attempts))) (Some message) rows,
            failed_result e ''queued'' next_attempts message)
         else
           (mark_dead_letter (clock 4) (clock 5) (ob_outbox_id e) message (Some next_attempts) rows,
            failed_result e ''dead_letter'' next_attempts message))"

section \<open>Flushing\<close>

definition entry_args :: "outbox_entry \<Rightarrow> send_args" where
  "entry_args e =
     \<lparr>sa_from_endpoint_id = ob_from_endpoint_id e, sa_to_endpoint_id = ob_to_endpoint_id e,
      sa_body = ob_body e, sa_data = ob_data e, sa_headers = ob_headers e, sa_meta = ob_meta e,
      sa_packet_id = ob_packet_id e\<rparr>"

definition expired_message :: string where
  "expired_message = ''packet expired before delivery attempt''"

text \<open>The first half of \<open>_flush_entry\<close>: the entry is dead-lettered, or marked as being sent.\<close>

definition flush_begin :: "(nat \<Rightarrow> time) \<Rightarrow> outbox_entry \<Rightarrow> outbox \<Rightarrow> outbox \<times> send_result option" where
  "flush_begin clock e rows =
     (if (case ob_expires_at e of None \<Rightarrow> False | Some x \<Rightarrow> x \<le> clock 0) then
        (mark_dead_letter (clock 1) (clock 2) (ob_outbox_id e) expired_message None rows,
         Some (failed_result e ''dead_letter'' (ob_attempts e) expired_message))
      else (set_status (clock 1) (clock 2) (ob_outbox_id e) ''sending'' (ob_attempts e) None (ob_last_error e) rows,
            None))"

definition flush_end ::
  "(nat \<Rightarrow> time) \<Rightarrow> int \<Rightarrow> outbox_entry \<Rightarrow> py_exc + packet_send_result \<Rightarrow> outbox \<Rightarrow> outbox \<times> send_result" where
  "flush_end clock jitter e outcome rows =
     (case outcome of
        Inl exc \<Rightarrow> handle_send_failure clock jitter e exc rows
      | Inr r \<Rightarrow> (delete_entry (ob_outbox_id e) rows,
          \<lparr>sr_packet_id = sp_packet_id r, sr_delivery_mode = ''queued'', sr_status = sp_result r,
           sr_delivery_id = sp_delivery_id r, sr_expires_at = sp_expires_at r,
           sr_outbox_id = Some (ob_outbox_id e), sr_attempts = ob_attempts e + 1, sr_error = None\<rparr>))"

definition flush_entry ::
  "'w sender \<Rightarrow> (nat \<Rightarrow> time) \<Rightarrow> int \<Rightarrow> outbox_entry \<Rightarrow> 'w \<times> outbox \<Rightarrow> ('w \<times> outbox) \<times> send_result" where
  "flush_entry send clock jitter e st =
     (case flush_begin clock e (snd st) of
        (rows, Some r) \<Rightarrow> ((fst st, rows), r)
      | (rows, None) \<Rightarrow>
          (case send (fst st) (entry_args e) of (w, outcome) \<Rightarrow>
             case flush_end clock jitter e outcome rows of (rows', r) \<Rightarrow> ((w, rows'), r)))"

text \<open>\<open>clock k\<close> and \<open>jitter k\<close> are the readings of the \<open>k\<close>-th entry of the batch.\<close>

fun flush_entries ::
  "'w sender \<Rightarrow> (nat \<Rightarrow> nat \<Rightarrow> time) \<Rightarrow> (nat \<Rightarrow> int) \<Rightarrow> nat \<Rightarrow> outbox_entry list \<Rightarrow> 'w \<times> outbox
   \<Rightarrow> ('w \<times> outbox) \<times> send_result list" where
  "flush_entries send clock jitter k [] st = (st, [])"
| "flush_entries send clock jitter k (e # es) st =
     (case flush_entry send (clock k) (jitter k) e st of (st', r) \<Rightarrow>
        case flush_entries send clock jitter (Suc k) es st' of (st'', rs) \<Rightarrow> (st'', r # rs))"

definition flush_due ::
  "'w sender \<Rightarrow> time \<Rightarrow> (nat \<Rightarrow> nat \<Rightarrow> time) \<Rightarrow> (nat \<Rightarrow> int) \<Rightarrow> int \<Rightarrow> 'w \<times> outbox
   \<Rightarrow> ('w \<times> outbox) \<times> send_result list" where
  "flush_due send now clock jitter limit st =
     flush_entries send clock jitter 0 (select_due now limit (snd st)) st"

definition flush_packet ::
  "'w sender \<Rightarrow> (nat \<Rightarrow> time) \<Rightarrow> int \<Rightarrow> string \<Rightarrow> 'w \<times> outbox \<Rightarrow> ('w \<times> outbox) \<times> send_result" where
  "flush_packet send clock jitter packet_id st =
     (case get_by_packet_id packet_id (snd st) of
        None \<Rightarrow> (st, \<lparr>sr_packet_id = packet_id, sr_delivery_mode = ''queued'', sr_status = ''missing'',
           sr_delivery_id = None, sr_expires_at = None, sr_outbox_id = None, sr_attempts = 0, sr_error = None\<rparr>)
      | Some e \<Rightarrow> flush_entry send clock jitter e st)"

section \<open>Lemmas\<close>

lemma sort_dict_nil [simp]: "sort_dict [] = []"
  by (simp add: sort_dict_def)

lemma row_to_entry_fields [simp]:
  "ob_outbox_id (row_to_entry r) = ob_outbox_id r" "ob_packet_id (row_to_entry r) = ob_packet_id r"
  "ob_status (row_to_entry r) = ob_status r" "ob_attempts (row_to_entry r) = ob_attempts r"
  "ob_max_attempts (row_to_entry r) = ob_max_attempts r" "ob_expires_at (row_to_entry r) = ob_expires_at r"
  "ob_next_attempt_at (row_to_entry r) = ob_next_attempt_at r"
  "entry_args (row_to_entry r) = entry_args r"
  by (simp_all add: row_to_entry_def entry_args_def)

lemma enqueued_entry_fields [simp]:
  "ob_outbox_id (enqueued_entry now uuid4 a) = uuid4 0"
  "ob_status (enqueued_entry now uuid4 a) = ''queued''"
  "ob_attempts (enqueued_entry now uuid4 a) = 0"
  "ob_max_attempts (enqueued_entry now uuid4 a) = fst (enqueue_limits a)"
  "ob_last_error (enqueued_entry now uuid4 a) = None"
  "ob_next_attempt_at (enqueued_entry now uuid4 a) = now"
  by (simp_all add: enqueued_entry_def Let_def split: prod.splits)

lemma stored_row_fields [simp]:
  "ob_outbox_id (stored_row e) = ob_outbox_id e" "ob_packet_id (stored_row e) = ob_packet_id e"
  "ob_status (stored_row e) = ob_status e" "ob_attempts (stored_row e) = ob_attempts e"
  "ob_max_attempts (stored_row e) = ob_max_attempts e"
  "ob_next_attempt_at (stored_row e) = ob_next_attempt_at e"
  by (simp_all add: stored_row_def)

lemma enqueue_cases:
  obtains exc where "enqueue now uuid4 a rows = (rows, Inl exc)"
  | "enqueue now uuid4 a rows = (rows @ [stored_row (enqueued_entry now uuid4 a)], Inr (enqueued_entry now uuid4 a))"
    "uuid4 0 \<notin> ob_outbox_id ` set rows" "ob_packet_id (enqueued_entry now uuid4 a) \<notin> ob_packet_id ` set rows"
proof (cases "uuid4 0 \<in> ob_outbox_id ` set rows \<or> ob_packet_id (enqueued_entry now uuid4 a) \<in> ob_packet_id ` set rows")
  case True
  then have "\<exists>exc. enqueue now uuid4 a rows = (rows, Inl exc)" by (auto simp: enqueue_def Let_def)
  with that(1) show thesis by blast
next
  case False
  with that(2) show thesis by (simp add: enqueue_def Let_def)
qed

lemma select_due_rows: "e \<in> set (select_due now limit rows) \<Longrightarrow> \<exists>r\<in>set rows. due now r \<and> e = row_to_entry r"
  using set_sql_limit by (fastforce simp: select_due_def)

text \<open>The columns that no update writes, and the rows that an update leaves alone.\<close>

definition ids :: "outbox_entry \<Rightarrow> string \<times> string" where
  "ids e = (ob_outbox_id e, ob_packet_id e)"

lemma ids_row_to_entry [simp]: "ids (row_to_entry r) = ids r"
  by (simp add: ids_def)

lemma map_ids_updates [simp]:
  "map ids (set_status n n' i st k nx er rows) = map ids rows"
  "map ids (mark_dead_letter n n' i m k' rows) = map ids rows"
  by (simp_all add: set_status_def mark_dead_letter_def map_update_where ids_def)

lemma ids_eqD: "map ids rows = map ids rows' \<Longrightarrow> ids ` set rows = ids ` set rows'"
  by (metis set_map)

lemma fetch_other_updates [simp]:
  "j \<noteq> i \<Longrightarrow> fetch ob_outbox_id j (set_status n n' i st k nx er rows) = fetch ob_outbox_id j rows"
  "j \<noteq> i \<Longrightarrow> fetch ob_outbox_id j (mark_dead_letter n n' i m k' rows) = fetch ob_outbox_id j rows"
  "j \<noteq> i \<Longrightarrow> fetch ob_outbox_id j (delete_entry i rows) = fetch ob_outbox_id j rows"
proof -
  have u: "fetch ob_outbox_id j (update_where (\<lambda>e. ob_outbox_id e = i) f rows) = fetch ob_outbox_id j rows"
    if "j \<noteq> i" "\<And>e. ob_outbox_id (f e) = ob_outbox_id e" for f
    using that by (induction rows) (auto simp: fetch_def update_where_def)
  show "j \<noteq> i \<Longrightarrow> fetch ob_outbox_id j (set_status n n' i st k nx er rows) = fetch ob_outbox_id j rows"
    "j \<noteq> i \<Longrightarrow> fetch ob_outbox_id j (mark_dead_letter n n' i m k' rows) = fetch ob_outbox_id j rows"
    unfolding set_status_def mark_dead_letter_def by (auto intro!: u)
  show "j \<noteq> i \<Longrightarrow> fetch ob_outbox_id j (delete_entry i rows) = fetch ob_outbox_id j rows"
    by (induction rows) (auto simp: fetch_def delete_entry_def delete_where_def)
qed

lemma fetch_own_updates [simp]:
  "fetch ob_outbox_id i (set_status n n' i st k nx er rows) =
     map_option (\<lambda>e. e\<lparr>ob_status := st, ob_updated_at := n,
       ob_next_attempt_at := (case nx of None \<Rightarrow> n' | Some t \<Rightarrow> t), ob_attempts := k, ob_last_error := er\<rparr>)
       (fetch ob_outbox_id i rows)"
  "fetch ob_outbox_id i (mark_dead_letter n n' i m k' rows) =
     map_option (\<lambda>e. e\<lparr>ob_status := ''dead_letter'', ob_updated_at := n, ob_next_attempt_at := n',
       ob_attempts := (case k' of None \<Rightarrow> ob_attempts e | Some a \<Rightarrow> a), ob_last_error := Some m\<rparr>)
       (fetch ob_outbox_id i rows)"
  "fetch ob_outbox_id i (delete_entry i rows) = None"
proof -
  have u: "fetch ob_outbox_id i (update_where (\<lambda>e. ob_outbox_id e = i) f rows) = map_option f (fetch ob_outbox_id i rows)"
    if "\<And>e. ob_outbox_id (f e) = ob_outbox_id e" for f
    using that by (induction rows) (auto simp: fetch_def update_where_def)
  show "fetch ob_outbox_id i (set_status n n' i st k nx er rows) =
     map_option (\<lambda>e. e\<lparr>ob_status := st, ob_updated_at := n,
       ob_next_attempt_at := (case nx of None \<Rightarrow> n' | Some t \<Rightarrow> t), ob_attempts := k, ob_last_error := er\<rparr>)
       (fetch ob_outbox_id i rows)"
    "fetch ob_outbox_id i (mark_dead_letter n n' i m k' rows) =
     map_option (\<lambda>e. e\<lparr>ob_status := ''dead_letter'', ob_updated_at := n, ob_next_attempt_at := n',
       ob_attempts := (case k' of None \<Rightarrow> ob_attempts e | Some a \<Rightarrow> a), ob_last_error := Some m\<rparr>)
       (fetch ob_outbox_id i rows)"
    unfolding set_status_def mark_dead_letter_def by (auto intro!: u)
  show "fetch ob_outbox_id i (delete_entry i rows) = None"
    by (auto simp: fetch_None_iff delete_entry_def)
qed

text \<open>The back-off grows with the attempts up to its cap.\<close>

lemma backoff_bounds:
  assumes "0 \<le> j" "j \<le> 5"
  shows "0 \<le> backoff_seconds j n" "backoff_seconds j n \<le> 305"
  using assms by (auto simp: backoff_seconds_def)

end
