(* ===== verification/Client.thy ===== *)
theory Client
  imports Urls Conventions Outbox
begin

text \<open>
  The HTTP client \<open>src/apis/arqs_api.py\<close>: its checks before a request, the exchange, its trace, and
  the operations that build a body and read an answer. \<open>urlopen\<close> is an argument that maps a world
  and a request to the next world and what came back. UUIDs are their canonical texts; time-outs
  are in microseconds and left out of texts and trace events, like the time stamps of those.
\<close>

section \<open>Results that may be exceptions\<close>

definition try_then :: "py_exc + 'a \<Rightarrow> ('a \<Rightarrow> py_exc + 'b) \<Rightarrow> py_exc + 'b" where
  "try_then c k = (case c of Inl e \<Rightarrow> Inl e | Inr x \<Rightarrow> k x)"

lemma try_then_Inr [simp]: "try_then c k = Inr y \<longleftrightarrow> (\<exists>x. c = Inr x \<and> k x = Inr y)"
  by (simp add: try_then_def split: sum.split)

lemma try_then_simps [simp]: "try_then (Inl e) k = Inl e" "try_then (Inr x) k = k x"
  by (simp_all add: try_then_def)

fun map_try :: "('a \<Rightarrow> py_exc + 'b) \<Rightarrow> 'a list \<Rightarrow> py_exc + 'b list" where
  "map_try f [] = Inr []"
| "map_try f (x # xs) = try_then (f x) (\<lambda>y. try_then (map_try f xs) (\<lambda>ys. Inr (y # ys)))"

definition or_value_error :: "string \<Rightarrow> 'a option \<Rightarrow> py_exc + 'a" where
  "or_value_error m v = (case v of None \<Rightarrow> Inl (ValueError m) | Some x \<Rightarrow> Inr x)"

section \<open>Data\<close>

record node_identity =
  ni_node_id :: string
  ni_api_key :: string
  ni_default_endpoint_id :: string

record rotated_key =
  ck_node_id :: string
  ck_api_key :: string

record identity_delete_result =
  idr_deleted :: bool
  idr_node_id :: string
  idr_endpoints_deleted :: int
  idr_links_deleted :: int
  idr_routes_deleted :: int
  idr_link_codes_deleted :: int
  idr_packets_deleted :: int
  idr_deliveries_deleted :: int
  idr_send_events_deleted :: int

record client_endpoint =
  ce_endpoint_id :: string
  ce_node_id :: string
  ce_endpoint_name :: json
  ce_kind :: json
  ce_meta :: json
  ce_created_at :: time
  ce_status :: string

record client_link_code =
  cc_link_code_id :: string
  cc_code :: string
  cc_source_endpoint_id :: string
  cc_requested_mode :: json
  cc_created_at :: time
  cc_expires_at :: time
  cc_status :: string

record client_link =
  cl_link_id :: string
  cl_endpoint_a_id :: string
  cl_endpoint_b_id :: string
  cl_mode :: string
  cl_created_at :: time
  cl_status :: string

record client_packet =
  cp_packet_id :: string
  cp_version :: int
  cp_from_endpoint_id :: string
  cp_to_endpoint_id :: string
  cp_headers :: dict
  cp_body :: json
  cp_data :: dict
  cp_meta :: dict
  cp_created_at :: time
  cp_expires_at :: "time option"

record client_delivery =
  cd_delivery_id :: string
  cd_destination_endpoint_id :: string
  cd_queued_at :: time
  cd_state :: string
  cd_last_attempt_at :: "time option"
  cd_packet :: client_packet

record server_stats =
  sst_nodes_total :: int
  sst_endpoints_total :: int
  sst_active_links_total :: int
  sst_queued_packets_total :: int
  sst_queued_bytes_total :: int
  sst_link_codes_active_total :: int
  sst_time :: time

record arqs_client =
  ac_base_url :: string
  ac_api_key :: "string option"
  ac_timeout :: time
  ac_api_key_header :: string
  ac_user_agent :: string
  ac_transport_policy :: string
  ac_allow_local_http_auth :: bool
  ac_trace_hook :: bool
  ac_identity :: "node_identity option"
  ac_last_requested_url :: "string option"
  ac_last_final_url :: "string option"
  ac_last_redirected :: bool
  ac_traced :: "(string \<times> dict) list"

section \<open>Settings of a client\<close>

definition default_api_key_header :: string where
  "default_api_key_header = ''X-ARQS-API-Key''"

definition authorization_header :: string where
  "authorization_header = ''Authorization''"

text \<open>A text between single quotes.\<close>

definition quoted :: "string \<Rightarrow> string" where
  "quoted s = (let q = char_of (39::nat) in q # s @ [q])"

definition normalize_transport_policy :: "string \<Rightarrow> py_exc + string" where
  "normalize_transport_policy value =
     (let policy = lower (strip value) in
      if policy \<in> {''allow_http'', ''prefer_https'', ''require_https''} then Inr policy
      else Inl (ValueError (''transport_policy must be '' @ quoted ''allow_http'' @ '', '' @ quoted ''prefer_https''
        @ '', or '' @ quoted ''require_https'')))"

definition normalize_api_key_header :: "string \<Rightarrow> py_exc + string" where
  "normalize_api_key_header value =
     (let header = strip value; lowered = lower header in
      if lowered = lower default_api_key_header then Inr default_api_key_header
      else if lowered = lower authorization_header then Inr authorization_header
      else Inl (ValueError (''api_key_header must be '' @ quoted ''X-ARQS-API-Key'' @ '' or '' @ quoted ''Authorization'')))"

definition new_client ::
  "string \<Rightarrow> string option \<Rightarrow> time \<Rightarrow> string \<Rightarrow> string \<Rightarrow> string \<Rightarrow> bool \<Rightarrow> bool \<Rightarrow> py_exc + arqs_client" where
  "new_client base_url api_key timeout api_key_header user_agent transport_policy allow_local_http_auth trace_hook =
     try_then (or_value_error ''Invalid IPv6 URL'' (normalize_base_url base_url)) (\<lambda>base.
     try_then (normalize_api_key_header api_key_header) (\<lambda>header.
     try_then (normalize_transport_policy transport_policy) (\<lambda>policy.
       Inr \<lparr>ac_base_url = base, ac_api_key = api_key, ac_timeout = timeout, ac_api_key_header = header,
         ac_user_agent = user_agent, ac_transport_policy = policy,
         ac_allow_local_http_auth = allow_local_http_auth, ac_trace_hook = trace_hook, ac_identity = None,
         ac_last_requested_url = None, ac_last_final_url = None, ac_last_redirected = False, ac_traced = []\<rparr>)))"

definition set_api_key :: "string option \<Rightarrow> arqs_client \<Rightarrow> arqs_client" where
  "set_api_key api_key c =
     (let c = c\<lparr>ac_api_key := api_key\<rparr> in
      case ac_identity c of
        None \<Rightarrow> c
      | Some i \<Rightarrow> if api_key \<noteq> Some (ni_api_key i) then c\<lparr>ac_identity := None\<rparr> else c)"

definition adopt_identity :: "node_identity \<Rightarrow> arqs_client \<Rightarrow> arqs_client" where
  "adopt_identity i c = c\<lparr>ac_identity := Some i, ac_api_key := Some (ni_api_key i)\<rparr>"

text \<open>\<open>from_identity_file\<close> after the file is read.\<close>

definition client_of_identity :: "string \<Rightarrow> node_identity \<Rightarrow> time \<Rightarrow> string \<Rightarrow> string \<Rightarrow> string \<Rightarrow> bool \<Rightarrow> py_exc + arqs_client" where
  "client_of_identity base_url i timeout api_key_header user_agent transport_policy allow_local_http_auth =
     try_then (new_client base_url (Some (ni_api_key i)) timeout api_key_header user_agent transport_policy
        allow_local_http_auth False) (\<lambda>c. Inr (c\<lparr>ac_identity := Some i\<rparr>))"

definition identity_dict :: "node_identity \<Rightarrow> dict" where
  "identity_dict i = [(''node_id'', JStr (ni_node_id i)), (''api_key'', JStr (ni_api_key i)),
     (''default_endpoint_id'', JStr (ni_default_endpoint_id i))]"

text \<open>The text of the identity file.\<close>

definition save_identity :: "node_identity \<Rightarrow> string" where
  "save_identity i = ascii_only (dumps_indent 0 (JObj (identity_dict i))) @ [char_of (10::nat)]"

section \<open>One request\<close>

record http_request =
  hq_method :: string
  hq_url :: string
  hq_headers :: "(string \<times> string) list"
  hq_body :: "string option"
  hq_timeout :: time

text \<open>
  What \<open>urlopen\<close> does: a response or an \<open>HTTPError\<close> with its \<open>geturl()\<close>, code, headers and text (\<^term>\<open>None\<close>:
  not UTF-8), an \<open>URLError\<close>, or a \<open>TimeoutError\<close>. The body of a request stands for its UTF-8 bytes.
\<close>

datatype http_outcome =
    Response string nat dict "string option"
  | HTTPError string nat dict string
  | URLError string
  | TimeoutError string

type_synonym 'w opener = "'w \<Rightarrow> http_request \<Rightarrow> 'w \<times> http_outcome"

definition build_url :: "arqs_client \<Rightarrow> string \<Rightarrow> dict \<Rightarrow> string" where
  "build_url c path params =
     (let url = ac_base_url c @ (if startswith path ''/'' then path else CHR ''/'' # path);
          encoded = urlencode (filter (\<lambda>kv. snd kv \<noteq> JNull) params)
      in if encoded \<noteq> [] then url @ ''?'' @ encoded else url)"

definition ensure_authenticated_transport_allowed :: "arqs_client \<Rightarrow> py_exc + unit" where
  "ensure_authenticated_transport_allowed c =
     (case is_http_url (ac_base_url c) of
        None \<Rightarrow> Inl (ValueError ''Invalid IPv6 URL'')
      | Some http \<Rightarrow>
          if \<not> http then Inr ()
          else if ac_transport_policy c = ''allow_http'' then Inr ()
          else if ac_transport_policy c = ''prefer_https'' \<and> ac_allow_local_http_auth c \<and>
            host_is_loopback_or_local (ac_base_url c) then Inr ()
          else Inl (ARQSInsecureTransportError ''Authenticated ARQS request blocked because base URL uses HTTP. Use HTTPS or explicitly allow HTTP transport.''))"

definition bearer_token :: "string \<Rightarrow> string" where
  "bearer_token api_key =
     (let token = strip api_key in
      if startswith (lower token) ''bearer '' then strip (drop 7 token) else token)"

definition auth_headers :: "arqs_client \<Rightarrow> py_exc + (string \<times> string) list" where
  "auth_headers c =
     (case ac_api_key c of
        None \<Rightarrow> Inl (ARQSError ''this request requires an API key, but no API key is set'')
      | Some key \<Rightarrow>
          if key = [] then Inl (ARQSError ''this request requires an API key, but no API key is set'')
          else try_then (ensure_authenticated_transport_allowed c) (\<lambda>_.
            Inr [(ac_api_key_header c,
                  if ac_api_key_header c = authorization_header then ''Bearer '' @ bearer_token key else key)]))"

text \<open>The body of a request, the first half of \<open>_request_json\<close>: everything before the trace.\<close>

definition prepare_request ::
  "arqs_client \<Rightarrow> string \<Rightarrow> string \<Rightarrow> json option \<Rightarrow> dict \<Rightarrow> bool \<Rightarrow> time option \<Rightarrow> py_exc + http_request" where
  "prepare_request c request_method path json_body params require_auth timeout =
     (let headers = [(''Accept'', ''application/json''), (''User-Agent'', ac_user_agent c)]
          @ (if json_body = None then [] else [(''Content-Type'', ''application/json'')])
      in try_then (if require_auth then auth_headers c else Inr []) (\<lambda>auth.
        Inr \<lparr>hq_method = upper request_method, hq_url = build_url c path params, hq_headers = headers @ auth,
          hq_body = map_option dumps json_body, hq_timeout = (case timeout of None \<Rightarrow> ac_timeout c | Some t \<Rightarrow> t)\<rparr>))"

definition redact_value :: "string \<times> string \<Rightarrow> string \<times> string" where
  "redact_value kv =
     (if lower (strip (fst kv)) \<in> {lower default_api_key_header, lower authorization_header}
      then (fst kv, ''<redacted:'' @ str_of_nat (length (snd kv)) @ '' chars>'') else kv)"

definition redact_trace_headers :: "(string \<times> string) list \<Rightarrow> (string \<times> string) list" where
  "redact_trace_headers headers = map redact_value headers"

definition emit_trace :: "string \<Rightarrow> dict \<Rightarrow> arqs_client \<Rightarrow> arqs_client" where
  "emit_trace event payload c =
     (if ac_trace_hook c then c\<lparr>ac_traced := ac_traced c @ [(event, (''base_url'', JStr (ac_base_url c)) # payload)]\<rparr>
      else c)"

definition record_last_request :: "string \<Rightarrow> string option \<Rightarrow> arqs_client \<Rightarrow> arqs_client" where
  "record_last_request requested_url final_url c =
     c\<lparr>ac_last_requested_url := Some requested_url, ac_last_final_url := final_url,
       ac_last_redirected := (case final_url of None \<Rightarrow> False | Some u \<Rightarrow> u \<noteq> [] \<and> u \<noteq> requested_url)\<rparr>"


text \<open>\<open>json.dumps(v, ensure_ascii=False)\<close> with the default separators.\<close>

fun dumps_spaced :: "json \<Rightarrow> string" where
  "dumps_spaced (JList xs) = ''['' @ join '', '' (map dumps_spaced xs) @ '']''"
| "dumps_spaced (JObj kvs) =
     ''{'' @ join '', '' (map (\<lambda>kv. dumps_str (fst kv) @ '': '' @ dumps_spaced (snd kv)) kvs) @ ''}''"
| "dumps_spaced v = dumps v"

definition detail_string :: "json \<Rightarrow> string" where
  "detail_string detail = (case detail of JStr s \<Rightarrow> s | v \<Rightarrow> dumps_spaced v)"

definition error_detail :: "string \<Rightarrow> json" where
  "error_detail raw =
     (if raw = [] then JStr raw
      else (case loads raw of
         None \<Rightarrow> JStr raw
       | Some (JObj kvs) \<Rightarrow> (case map_of kvs ''detail'' of None \<Rightarrow> JObj kvs | Some d \<Rightarrow> d)
       | Some v \<Rightarrow> v))"

text \<open>\<open>_normalize_observed_url(geturl) or url\<close>.\<close>

definition observed_url :: "string \<Rightarrow> string \<Rightarrow> string option" where
  "observed_url geturl url =
     map_option (\<lambda>v. case v of None \<Rightarrow> url | Some u \<Rightarrow> if u = [] then url else u) (normalize_observed_url (Some geturl))"

definition exchange_payload :: "http_request \<Rightarrow> string \<Rightarrow> string \<Rightarrow> nat \<Rightarrow> dict \<Rightarrow> string \<Rightarrow> dict" where
  "exchange_payload rq path final_url code headers raw =
     [(''method'', JStr (hq_method rq)), (''path'', JStr path), (''url'', JStr (hq_url rq)),
      (''final_url'', JStr final_url), (''redirected'', JBool (final_url \<noteq> hq_url rq)),
      (''status_code'', JInt (int code)), (''headers'', JObj headers), (''raw_body'', JStr raw)]"

definition transport_failure :: "http_request \<Rightarrow> string \<Rightarrow> string \<Rightarrow> arqs_client \<Rightarrow> arqs_client" where
  "transport_failure rq path error c =
     emit_trace ''http_transport_error''
       [(''method'', JStr (hq_method rq)), (''path'', JStr path), (''url'', JStr (hq_url rq)), (''error'', JStr error)]
       (record_last_request (hq_url rq) None c)"

text \<open>An empty answer is \<open>None\<close>. A \<open>ValueError\<close> on the way out is not caught.\<close>

definition read_outcome :: "http_request \<Rightarrow> string \<Rightarrow> http_outcome \<Rightarrow> arqs_client \<Rightarrow> arqs_client \<times> (py_exc + json)" where
  "read_outcome rq path outcome c =
     (case outcome of
        Response geturl code headers raw_bytes \<Rightarrow>
          (case observed_url geturl (hq_url rq) of
             None \<Rightarrow> (c, Inl (ValueError ''Invalid IPv6 URL''))
           | Some final_url \<Rightarrow>
               let c = record_last_request (hq_url rq) (Some final_url) c in
               (case raw_bytes of
                  None \<Rightarrow> (c, Inl (ValueError ''invalid UTF-8''))
                | Some raw \<Rightarrow>
                    let c = emit_trace ''http_response'' (exchange_payload rq path final_url code headers raw) c in
                    if raw = [] then (c, Inr JNull)
                    else (c, or_value_error ''invalid JSON'' (loads raw))))
      | HTTPError geturl code headers raw \<Rightarrow>
          (case observed_url geturl (hq_url rq) of
             None \<Rightarrow> (c, Inl (ValueError ''Invalid IPv6 URL''))
           | Some final_url \<Rightarrow>
               (emit_trace ''http_response_error''
                  (exchange_payload rq path final_url code headers raw @ [(''detail'', error_detail raw)])
                  (record_last_request (hq_url rq) (Some final_url) c),
                Inl (ARQSHTTPError code (detail_string (error_detail raw)))))
      | URLError error \<Rightarrow>
          (transport_failure rq path error c,
           Inl (ARQSConnectionError (''failed to reach ARQS server at '' @ hq_url rq @ '': '' @ error)))
      | TimeoutError error \<Rightarrow>
          (transport_failure rq path error c, Inl (ARQSConnectionError ''request to ARQS server timed out'')))"

definition request_payload :: "http_request \<Rightarrow> string \<Rightarrow> dict \<Rightarrow> bool \<Rightarrow> dict" where
  "request_payload rq path params require_auth =
     [(''method'', JStr (hq_method rq)), (''path'', JStr path), (''url'', JStr (hq_url rq)), (''params'', JObj params),
      (''headers'', JObj (map (\<lambda>kv. (fst kv, JStr (snd kv))) (redact_trace_headers (hq_headers rq)))),
      (''body'', optional_str (hq_body rq)), (''require_auth'', JBool require_auth)]"

definition request_json ::
  "'w opener \<Rightarrow> string \<Rightarrow> string \<Rightarrow> json option \<Rightarrow> dict \<Rightarrow> bool \<Rightarrow> time option \<Rightarrow> 'w \<times> arqs_client
   \<Rightarrow> ('w \<times> arqs_client) \<times> (py_exc + json)" where
  "request_json urlopen request_method path json_body params require_auth timeout st =
     (case prepare_request (snd st) request_method path json_body params require_auth timeout of
        Inl e \<Rightarrow> (st, Inl e)
      | Inr rq \<Rightarrow>
          let c = emit_trace ''http_request'' (request_payload rq path params require_auth) (snd st) in
          case urlopen (fst st) rq of (w, outcome) \<Rightarrow>
            case read_outcome rq path outcome c of (c, r) \<Rightarrow> ((w, c), r))"

section \<open>Reading answers\<close>

text \<open>\<open>data[k]\<close>; only dictionaries have items by name.\<close>

definition item :: "json \<Rightarrow> string \<Rightarrow> py_exc + json" where
  "item data k =
     (case data of
        JObj d \<Rightarrow> (case map_of d k of None \<Rightarrow> Inl (KeyError k) | Some v \<Rightarrow> Inr v)
      | _ \<Rightarrow> Inl (TypeError ''object is not subscriptable''))"

text \<open>\<open>data.get(k)\<close> on what an earlier access showed to be a dictionary.\<close>

definition get_item :: "json \<Rightarrow> string \<Rightarrow> json" where
  "get_item data k = (case data of JObj d \<Rightarrow> dict_get d k | _ \<Rightarrow> JNull)"

definition iterate :: "json \<Rightarrow> py_exc + json list" where
  "iterate data =
     (case data of
        JList xs \<Rightarrow> Inr xs
      | JObj d \<Rightarrow> Inr (map (\<lambda>kv. JStr (fst kv)) d)
      | JStr s \<Rightarrow> Inr (map (\<lambda>c. JStr [c]) s)
      | _ \<Rightarrow> Inl (TypeError ''object is not iterable''))"

definition client_uuid :: "json \<Rightarrow> py_exc + string" where
  "client_uuid v = or_value_error ''badly formed hexadecimal UUID string'' (parse_uuid (str_value v))"

definition client_uuid_or_none :: "json \<Rightarrow> py_exc + string option" where
  "client_uuid_or_none v = (if none_or_empty v then Inr None else try_then (client_uuid v) (\<lambda>u. Inr (Some u)))"

text \<open>
  \<open>fromiso\<close> is \<open>datetime.fromisoformat\<close>: the time on the clock and the offset from UTC in seconds, if
  the text has one. A time without is taken as UTC.
\<close>

type_synonym iso_reader = "string \<Rightarrow> (time \<times> int option) option"

definition client_datetime :: "iso_reader \<Rightarrow> json \<Rightarrow> py_exc + time" where
  "client_datetime fromiso v =
     (case fromiso (str_value v) of
        None \<Rightarrow> Inl (ValueError ''Invalid isoformat string'')
      | Some (t, None) \<Rightarrow> Inr t
      | Some (t, Some offset) \<Rightarrow> Inr (t - seconds offset))"

definition client_datetime_or_none :: "iso_reader \<Rightarrow> json \<Rightarrow> py_exc + time option" where
  "client_datetime_or_none fromiso v =
     (if none_or_empty v then Inr None else try_then (client_datetime fromiso v) (\<lambda>t. Inr (Some t)))"

definition client_int :: "json \<Rightarrow> py_exc + int" where
  "client_int v =
     (case py_int v of
        Some i \<Rightarrow> Inr i
      | None \<Rightarrow> (case v of JStr s \<Rightarrow> Inl (ValueError ''invalid literal for int() with base 10'')
          | _ \<Rightarrow> Inl (TypeError ''int() argument must be a string or a number'')))"

definition int_item :: "json \<Rightarrow> string \<Rightarrow> py_exc + int" where
  "int_item data k = try_then (item data k) client_int"

definition str_item :: "json \<Rightarrow> string \<Rightarrow> py_exc + string" where
  "str_item data k = try_then (item data k) (\<lambda>v. Inr (str_value v))"

definition uuid_item :: "json \<Rightarrow> string \<Rightarrow> py_exc + string" where
  "uuid_item data k = try_then (item data k) client_uuid"

definition time_item :: "iso_reader \<Rightarrow> json \<Rightarrow> string \<Rightarrow> py_exc + time" where
  "time_item fromiso data k = try_then (item data k) (client_datetime fromiso)"

text \<open>\<open>dict(v or {})\<close> for a JSON object; a list of pairs, which the server never sends, is refused here.\<close>

definition as_dict :: "json \<Rightarrow> py_exc + dict" where
  "as_dict v =
     (if \<not> truthy v then Inr []
      else (case v of JObj d \<Rightarrow> Inr d | _ \<Rightarrow> Inl (TypeError ''object is not a dictionary'')))"

definition parse_endpoint :: "iso_reader \<Rightarrow> json \<Rightarrow> py_exc + client_endpoint" where
  "parse_endpoint fromiso data =
     try_then (uuid_item data ''endpoint_id'') (\<lambda>i.
     try_then (uuid_item data ''node_id'') (\<lambda>n.
     try_then (time_item fromiso data ''created_at'') (\<lambda>t.
     try_then (str_item data ''status'') (\<lambda>st.
       Inr \<lparr>ce_endpoint_id = i, ce_node_id = n, ce_endpoint_name = get_item data ''endpoint_name'',
         ce_kind = get_item data ''kind'', ce_meta = get_item data ''meta'', ce_created_at = t, ce_status = st\<rparr>))))"

definition parse_link_code :: "iso_reader \<Rightarrow> json \<Rightarrow> py_exc + client_link_code" where
  "parse_link_code fromiso data =
     try_then (uuid_item data ''link_code_id'') (\<lambda>i.
     try_then (str_item data ''code'') (\<lambda>code.
     try_then (uuid_item data ''source_endpoint_id'') (\<lambda>e.
     try_then (item data ''requested_mode'') (\<lambda>m.
     try_then (time_item fromiso data ''created_at'') (\<lambda>t.
     try_then (time_item fromiso data ''expires_at'') (\<lambda>x.
     try_then (str_item data ''status'') (\<lambda>st.
       Inr \<lparr>cc_link_code_id = i, cc_code = code, cc_source_endpoint_id = e, cc_requested_mode = m,
         cc_created_at = t, cc_expires_at = x, cc_status = st\<rparr>)))))))"

definition parse_link :: "iso_reader \<Rightarrow> json \<Rightarrow> py_exc + client_link" where
  "parse_link fromiso data =
     try_then (uuid_item data ''link_id'') (\<lambda>i.
     try_then (uuid_item data ''endpoint_a_id'') (\<lambda>a.
     try_then (uuid_item data ''endpoint_b_id'') (\<lambda>b.
     try_then (str_item data ''mode'') (\<lambda>m.
     try_then (time_item fromiso data ''created_at'') (\<lambda>t.
     try_then (str_item data ''status'') (\<lambda>st.
       Inr \<lparr>cl_link_id = i, cl_endpoint_a_id = a, cl_endpoint_b_id = b, cl_mode = m, cl_created_at = t,
         cl_status = st\<rparr>))))))"

definition parse_client_packet :: "iso_reader \<Rightarrow> json \<Rightarrow> py_exc + client_packet" where
  "parse_client_packet fromiso data =
     try_then (uuid_item data ''packet_id'') (\<lambda>i.
     try_then (int_item data ''version'') (\<lambda>v.
     try_then (uuid_item data ''from_endpoint_id'') (\<lambda>src.
     try_then (uuid_item data ''to_endpoint_id'') (\<lambda>dst.
     try_then (as_dict (get_item data ''headers'')) (\<lambda>h.
     try_then (as_dict (get_item data ''data'')) (\<lambda>d.
     try_then (as_dict (get_item data ''meta'')) (\<lambda>m.
     try_then (time_item fromiso data ''created_at'') (\<lambda>t.
     try_then (client_datetime_or_none fromiso (get_item data ''expires_at'')) (\<lambda>x.
       Inr \<lparr>cp_packet_id = i, cp_version = v, cp_from_endpoint_id = src, cp_to_endpoint_id = dst, cp_headers = h,
         cp_body = get_item data ''body'', cp_data = d, cp_meta = m, cp_created_at = t, cp_expires_at = x\<rparr>)))))))))"

definition parse_delivery :: "iso_reader \<Rightarrow> json \<Rightarrow> py_exc + client_delivery" where
  "parse_delivery fromiso data =
     try_then (item data ''packet'') (\<lambda>packet_data.
     try_then (parse_client_packet fromiso packet_data) (\<lambda>p.
     try_then (uuid_item data ''delivery_id'') (\<lambda>i.
     try_then (uuid_item data ''destination_endpoint_id'') (\<lambda>e.
     try_then (time_item fromiso data ''queued_at'') (\<lambda>q.
     try_then (str_item data ''state'') (\<lambda>st.
     try_then (client_datetime_or_none fromiso (get_item data ''last_attempt_at'')) (\<lambda>l.
       Inr \<lparr>cd_delivery_id = i, cd_destination_endpoint_id = e, cd_queued_at = q, cd_state = st,
         cd_last_attempt_at = l, cd_packet = p\<rparr>)))))))"


section \<open>Operations\<close>

type_synonym ('w, 'a) call_result = "('w \<times> arqs_client) \<times> (py_exc + 'a)"

definition reading :: "(json \<Rightarrow> py_exc + 'a) \<Rightarrow> ('w, json) call_result \<Rightarrow> ('w, 'a) call_result" where
  "reading k r = (fst r, try_then (snd r) k)"

text \<open>The state of the client after a successful call.\<close>

definition then_update :: "('a \<Rightarrow> arqs_client \<Rightarrow> arqs_client) \<Rightarrow> ('w, 'a) call_result \<Rightarrow> ('w, 'a) call_result" where
  "then_update f r = (case r of ((w, c), Inr x) \<Rightarrow> ((w, f x c), Inr x) | _ \<Rightarrow> r)"

definition parse_identity :: "json \<Rightarrow> py_exc + node_identity" where
  "parse_identity data =
     try_then (uuid_item data ''node_id'') (\<lambda>n.
     try_then (str_item data ''api_key'') (\<lambda>k.
     try_then (uuid_item data ''default_endpoint_id'') (\<lambda>e.
       Inr \<lparr>ni_node_id = n, ni_api_key = k, ni_default_endpoint_id = e\<rparr>)))"

text \<open>\<open>NodeIdentity.load\<close> of a text.\<close>

definition load_identity :: "string \<Rightarrow> py_exc + node_identity" where
  "load_identity raw = try_then (or_value_error ''invalid JSON'' (loads raw)) parse_identity"

definition client_register ::
  "'w opener \<Rightarrow> string option \<Rightarrow> bool \<Rightarrow> 'w \<times> arqs_client \<Rightarrow> ('w, node_identity) call_result" where
  "client_register urlopen node_name adopt st =
     then_update (\<lambda>i c. if adopt then adopt_identity i c else c)
       (reading parse_identity
         (request_json urlopen ''POST'' ''/register''
            (Some (JObj (case node_name of None \<Rightarrow> [] | Some n \<Rightarrow> [(''node_name'', JStr n)]))) [] False None st))"

definition rotated_client :: "rotated_key \<Rightarrow> arqs_client \<Rightarrow> arqs_client" where
  "rotated_client k c =
     (let c = c\<lparr>ac_api_key := Some (ck_api_key k)\<rparr> in
      case ac_identity c of
        None \<Rightarrow> c
      | Some i \<Rightarrow> if ni_node_id i = ck_node_id k then c\<lparr>ac_identity := Some (i\<lparr>ni_api_key := ck_api_key k\<rparr>)\<rparr> else c)"

definition client_rotate_key :: "'w opener \<Rightarrow> bool \<Rightarrow> 'w \<times> arqs_client \<Rightarrow> ('w, rotated_key) call_result" where
  "client_rotate_key urlopen update_client_key st =
     then_update (\<lambda>k c. if update_client_key then rotated_client k c else c)
       (reading (\<lambda>data. try_then (uuid_item data ''node_id'') (\<lambda>n.
                  try_then (str_item data ''api_key'') (\<lambda>k. Inr \<lparr>ck_node_id = n, ck_api_key = k\<rparr>)))
         (request_json urlopen ''POST'' ''/identity/rotate-key'' None [] True None st))"

definition parse_delete_result :: "json \<Rightarrow> py_exc + identity_delete_result" where
  "parse_delete_result data =
     try_then (item data ''deleted'') (\<lambda>d.
     try_then (uuid_item data ''node_id'') (\<lambda>n.
     try_then (int_item data ''endpoints_deleted'') (\<lambda>e.
     try_then (int_item data ''links_deleted'') (\<lambda>l.
     try_then (int_item data ''routes_deleted'') (\<lambda>r.
     try_then (int_item data ''link_codes_deleted'') (\<lambda>c.
     try_then (int_item data ''packets_deleted'') (\<lambda>p.
     try_then (int_item data ''deliveries_deleted'') (\<lambda>v.
     try_then (int_item data ''send_events_deleted'') (\<lambda>s.
       Inr \<lparr>idr_deleted = truthy d, idr_node_id = n, idr_endpoints_deleted = e, idr_links_deleted = l,
         idr_routes_deleted = r, idr_link_codes_deleted = c, idr_packets_deleted = p,
         idr_deliveries_deleted = v, idr_send_events_deleted = s\<rparr>)))))))))"

definition client_delete_identity ::
  "'w opener \<Rightarrow> bool \<Rightarrow> 'w \<times> arqs_client \<Rightarrow> ('w, identity_delete_result) call_result" where
  "client_delete_identity urlopen clear st =
     then_update (\<lambda>_ c. if clear then c\<lparr>ac_api_key := None, ac_identity := None\<rparr> else c)
       (reading parse_delete_result (request_json urlopen ''DELETE'' ''/identity'' None [] True None st))"

definition client_list_endpoints ::
  "'w opener \<Rightarrow> iso_reader \<Rightarrow> 'w \<times> arqs_client \<Rightarrow> ('w, client_endpoint list) call_result" where
  "client_list_endpoints urlopen fromiso st =
     reading (\<lambda>data. try_then (iterate data) (map_try (parse_endpoint fromiso)))
       (request_json urlopen ''GET'' ''/endpoints'' None [] True None st)"

definition client_create_endpoint ::
  "'w opener \<Rightarrow> iso_reader \<Rightarrow> string option \<Rightarrow> string option \<Rightarrow> json \<Rightarrow> 'w \<times> arqs_client
   \<Rightarrow> ('w, client_endpoint) call_result" where
  "client_create_endpoint urlopen fromiso endpoint_name kind meta st =
     reading (parse_endpoint fromiso)
       (request_json urlopen ''POST'' ''/endpoints''
          (Some (JObj [(''endpoint_name'', optional_str endpoint_name), (''kind'', optional_str kind), (''meta'', meta)]))
          [] True None st)"

definition client_delete_endpoint :: "'w opener \<Rightarrow> string \<Rightarrow> 'w \<times> arqs_client \<Rightarrow> ('w, json) call_result" where
  "client_delete_endpoint urlopen endpoint_id st =
     request_json urlopen ''DELETE'' (''/endpoints/'' @ endpoint_id) None [] True None st"

definition client_request_link_code ::
  "'w opener \<Rightarrow> iso_reader \<Rightarrow> string \<Rightarrow> string \<Rightarrow> 'w \<times> arqs_client \<Rightarrow> ('w, client_link_code) call_result" where
  "client_request_link_code urlopen fromiso source_endpoint_id requested_mode st =
     reading (parse_link_code fromiso)
       (request_json urlopen ''POST'' ''/links/request''
          (Some (JObj [(''source_endpoint_id'', JStr source_endpoint_id), (''requested_mode'', JStr requested_mode)]))
          [] True None st)"

definition client_redeem_link_code ::
  "'w opener \<Rightarrow> iso_reader \<Rightarrow> string \<Rightarrow> string \<Rightarrow> 'w \<times> arqs_client \<Rightarrow> ('w, client_link) call_result" where
  "client_redeem_link_code urlopen fromiso code destination_endpoint_id st =
     reading (parse_link fromiso)
       (request_json urlopen ''POST'' ''/links/redeem''
          (Some (JObj [(''code'', JStr (upper (strip code))), (''destination_endpoint_id'', JStr destination_endpoint_id)]))
          [] True None st)"

definition client_list_links ::
  "'w opener \<Rightarrow> iso_reader \<Rightarrow> 'w \<times> arqs_client \<Rightarrow> ('w, client_link list) call_result" where
  "client_list_links urlopen fromiso st =
     reading (\<lambda>data. try_then (iterate data) (map_try (parse_link fromiso)))
       (request_json urlopen ''GET'' ''/links'' None [] True None st)"

definition client_revoke_link :: "'w opener \<Rightarrow> string \<Rightarrow> 'w \<times> arqs_client \<Rightarrow> ('w, json) call_result" where
  "client_revoke_link urlopen link_id st =
     request_json urlopen ''DELETE'' (''/links/'' @ link_id) None [] True None st"

text \<open>\<open>new_id\<close> is the value of \<open>uuid.uuid4()\<close>, used when no identifier is given.\<close>

definition send_body :: "int \<Rightarrow> int option \<Rightarrow> string \<Rightarrow> send_args \<Rightarrow> dict" where
  "send_body version ttl_seconds new_id a =
     [(''version'', JInt version), (''packet_id'', JStr (if sa_packet_id a = [] then new_id else sa_packet_id a)),
      (''from_endpoint_id'', JStr (sa_from_endpoint_id a)), (''to_endpoint_id'', JStr (sa_to_endpoint_id a)),
      (''headers'', JObj (sa_headers a)), (''body'', optional_str (sa_body a)), (''data'', JObj (sa_data a)),
      (''meta'', JObj (sa_meta a))]
     @ (case ttl_seconds of None \<Rightarrow> [] | Some n \<Rightarrow> [(''ttl_seconds'', JInt n)])"

definition parse_send_result :: "iso_reader \<Rightarrow> json \<Rightarrow> py_exc + packet_send_result" where
  "parse_send_result fromiso data =
     try_then (str_item data ''result'') (\<lambda>r.
     try_then (uuid_item data ''packet_id'') (\<lambda>p.
     try_then (client_uuid_or_none (get_item data ''delivery_id'')) (\<lambda>d.
     try_then (client_datetime_or_none fromiso (get_item data ''expires_at'')) (\<lambda>x.
       Inr \<lparr>sp_result = r, sp_packet_id = p, sp_delivery_id = d, sp_expires_at = x\<rparr>))))"

definition client_send_packet ::
  "'w opener \<Rightarrow> iso_reader \<Rightarrow> int \<Rightarrow> int option \<Rightarrow> string \<Rightarrow> send_args \<Rightarrow> 'w \<times> arqs_client
   \<Rightarrow> ('w, packet_send_result) call_result" where
  "client_send_packet urlopen fromiso version ttl_seconds new_id a st =
     (if falsy_body (sa_body a) \<and> sa_data a = [] then
        (st, Inl (ValueError ''at least one of body or non-empty data must be present''))
      else reading (parse_send_result fromiso)
        (request_json urlopen ''POST'' ''/packets'' (Some (JObj (send_body version ttl_seconds new_id a))) [] True None st))"

definition client_poll_inbox ::
  "'w opener \<Rightarrow> iso_reader \<Rightarrow> int \<Rightarrow> int \<Rightarrow> time option \<Rightarrow> 'w \<times> arqs_client
   \<Rightarrow> ('w, client_delivery list) call_result" where
  "client_poll_inbox urlopen fromiso wait limit request_timeout st =
     reading (\<lambda>data. case data of
           JObj d \<Rightarrow> try_then (iterate (case map_of d ''deliveries'' of None \<Rightarrow> JList [] | Some v \<Rightarrow> v))
             (map_try (parse_delivery fromiso))
         | _ \<Rightarrow> Inl (OtherException ''object has no attribute get''))
       (request_json urlopen ''GET'' ''/inbox'' None [(''wait'', JInt wait), (''limit'', JInt limit)] True
          (Some (case request_timeout of Some t \<Rightarrow> t | None \<Rightarrow> max (ac_timeout (snd st)) (seconds wait + seconds 5))) st)"

definition client_ack_delivery :: "'w opener \<Rightarrow> string \<Rightarrow> string \<Rightarrow> 'w \<times> arqs_client \<Rightarrow> ('w, json) call_result" where
  "client_ack_delivery urlopen delivery_id ack_status st =
     request_json urlopen ''POST'' ''/packet_ack''
       (Some (JObj [(''delivery_id'', JStr delivery_id), (''status'', JStr ack_status)])) [] True None st"

definition client_ack_packet :: "'w opener \<Rightarrow> string \<Rightarrow> string \<Rightarrow> 'w \<times> arqs_client \<Rightarrow> ('w, json) call_result" where
  "client_ack_packet urlopen packet_id ack_status st =
     request_json urlopen ''POST'' ''/packet_ack''
       (Some (JObj [(''packet_id'', JStr packet_id), (''status'', JStr ack_status)])) [] True None st"

definition client_health :: "'w opener \<Rightarrow> iso_reader \<Rightarrow> 'w \<times> arqs_client \<Rightarrow> ('w, string \<times> time) call_result" where
  "client_health urlopen fromiso st =
     reading (\<lambda>data. try_then (str_item data ''status'') (\<lambda>s. try_then (time_item fromiso data ''time'') (\<lambda>t. Inr (s, t))))
       (request_json urlopen ''GET'' ''/health'' None [] False None st)"

definition client_stats :: "'w opener \<Rightarrow> iso_reader \<Rightarrow> 'w \<times> arqs_client \<Rightarrow> ('w, server_stats) call_result" where
  "client_stats urlopen fromiso st =
     reading (\<lambda>data.
         try_then (int_item data ''nodes_total'') (\<lambda>n.
         try_then (int_item data ''endpoints_total'') (\<lambda>e.
         try_then (int_item data ''active_links_total'') (\<lambda>l.
         try_then (int_item data ''queued_packets_total'') (\<lambda>p.
         try_then (int_item data ''queued_bytes_total'') (\<lambda>b.
         try_then (int_item data ''link_codes_active_total'') (\<lambda>c.
         try_then (time_item fromiso data ''time'') (\<lambda>t.
           Inr \<lparr>sst_nodes_total = n, sst_endpoints_total = e, sst_active_links_total = l, sst_queued_packets_total = p,
             sst_queued_bytes_total = b, sst_link_codes_active_total = c, sst_time = t\<rparr>))))))))
       (request_json urlopen ''GET'' ''/stats'' None [] False None st)"


section \<open>Probing both transports\<close>

record probe_attempt =
  pa_requested_url :: string
  pa_final_url :: "string option"
  pa_reachable :: bool
  pa_redirected :: bool
  pa_status_code :: "nat option"
  pa_error :: "string option"

record probe_result =
  pb_original_base_url :: string
  pb_normalized_http_base_url :: "string option"
  pb_normalized_https_base_url :: "string option"
  pb_http_attempt :: "probe_attempt option"
  pb_https_attempt :: "probe_attempt option"
  pb_recommended_base_url :: "string option"
  pb_classification :: string

definition refused_attempt :: "string \<Rightarrow> string \<Rightarrow> probe_attempt" where
  "refused_attempt url error = \<lparr>pa_requested_url = url, pa_final_url = None, pa_reachable = False,
     pa_redirected = False, pa_status_code = None, pa_error = Some error\<rparr>"

definition reached_attempt :: "string \<Rightarrow> string option \<Rightarrow> nat \<Rightarrow> probe_attempt" where
  "reached_attempt url final_url code = \<lparr>pa_requested_url = url, pa_final_url = final_url, pa_reachable = True,
     pa_redirected = (case final_url of None \<Rightarrow> False | Some u \<Rightarrow> u \<noteq> url), pa_status_code = Some code,
     pa_error = None\<rparr>"

definition probe_request :: "arqs_client \<Rightarrow> string \<Rightarrow> time \<Rightarrow> http_request" where
  "probe_request c url timeout = \<lparr>hq_method = ''GET'', hq_url = url,
     hq_headers = [(''Accept'', ''application/json''), (''User-Agent'', ac_user_agent c)], hq_body = None,
     hq_timeout = timeout\<rparr>"

text \<open>
  \<open>probe\<close> is \<open>opener.open\<close> of an opener that follows no redirect, \<open>urljoin\<close> the one of \<open>urllib.parse\<close>.
\<close>

definition location_of :: "dict \<Rightarrow> string option" where
  "location_of headers = str_or_none (dict_get headers ''Location'')"

definition probe_health ::
  "'w opener \<Rightarrow> (string \<Rightarrow> string \<Rightarrow> string) \<Rightarrow> arqs_client \<Rightarrow> string \<Rightarrow> time \<Rightarrow> 'w
   \<Rightarrow> 'w \<times> (py_exc + probe_attempt)" where
  "probe_health probe urljoin c base_url timeout w =
     (let requested_url = base_url @ ''/health'' in
      case probe w (probe_request c requested_url timeout) of
        (w, Response geturl code headers raw) \<Rightarrow>
          (w, map_sum id (\<lambda>u. reached_attempt requested_url (Some u) code)
                (or_value_error ''Invalid IPv6 URL'' (observed_url geturl requested_url)))
      | (w, HTTPError geturl code headers raw) \<Rightarrow>
          (w, if code \<in> {301, 302, 303, 307, 308}
              then map_sum id (\<lambda>u. reached_attempt requested_url u code)
                (or_value_error ''Invalid IPv6 URL''
                  (normalize_observed_url (map_option (urljoin requested_url) (location_of headers))))
              else Inr (reached_attempt requested_url (Some requested_url) code))
      | (w, URLError error) \<Rightarrow> (w, Inr (refused_attempt requested_url error))
      | (w, TimeoutError error) \<Rightarrow> (w, Inr (refused_attempt requested_url error)))"

definition probe_optional ::
  "'w opener \<Rightarrow> (string \<Rightarrow> string \<Rightarrow> string) \<Rightarrow> arqs_client \<Rightarrow> string option \<Rightarrow> time \<Rightarrow> 'w
   \<Rightarrow> 'w \<times> (py_exc + probe_attempt option)" where
  "probe_optional probe urljoin c base_url timeout w =
     (case base_url of
        None \<Rightarrow> (w, Inr None)
      | Some u \<Rightarrow> if u = [] then (w, Inr None)
          else (case probe_health probe urljoin c u timeout w of (w, r) \<Rightarrow> (w, map_sum id Some r)))"

text \<open>What the two attempts on an \<open>http\<close> URL tell: the classification and the URL to use.\<close>

definition classify_http ::
  "string option \<Rightarrow> string option \<Rightarrow> probe_attempt \<Rightarrow> probe_attempt option \<Rightarrow> string \<times> string option" where
  "classify_http http_url https_url h s =
     (let https_up = (case s of None \<Rightarrow> False | Some a \<Rightarrow> pa_reachable a);
          to_https = (case pa_final_url h of None \<Rightarrow> False | Some u \<Rightarrow> u \<noteq> [] \<and> is_https_url u = Some True)
      in if pa_redirected h \<and> to_https then (''http_redirects_to_https'', https_url)
         else if pa_reachable h \<and> https_up then (''both_http_and_https'', https_url)
         else if https_up then (''https_only'', https_url)
         else if pa_reachable h then (''http_only'', http_url)
         else (''unreachable'', None))"

definition probe_transport ::
  "'w opener \<Rightarrow> (string \<Rightarrow> string \<Rightarrow> string) \<Rightarrow> arqs_client \<Rightarrow> string \<Rightarrow> time option \<Rightarrow> 'w
   \<Rightarrow> 'w \<times> (py_exc + probe_result)" where
  "probe_transport probe urljoin c base_url timeout w =
     (case normalize_base_url (if base_url = [] then ac_base_url c else base_url) of
        None \<Rightarrow> (w, Inl (ValueError ''Invalid IPv6 URL''))
      | Some original \<Rightarrow>
          let scheme = (case urlsplit original of None \<Rightarrow> [] | Some parts \<Rightarrow> lower (su_scheme parts));
              t = (case timeout of None \<Rightarrow> ac_timeout c | Some t \<Rightarrow> t)
          in if scheme = ''https'' then
               (case probe_optional probe urljoin c (Some original) t w of
                  (w, Inl e) \<Rightarrow> (w, Inl e)
                | (w, Inr attempt) \<Rightarrow>
                    let up = (case attempt of None \<Rightarrow> False | Some a \<Rightarrow> pa_reachable a) in
                    (w, Inr \<lparr>pb_original_base_url = original,
                      pb_normalized_http_base_url = swap_scheme original ''http'',
                      pb_normalized_https_base_url = Some original, pb_http_attempt = None,
                      pb_https_attempt = attempt,
                      pb_recommended_base_url = (if up then Some original else None),
                      pb_classification = (if up then ''https_only'' else ''https_failed'')\<rparr>))
             else if scheme = ''http'' then
               (case probe_health probe urljoin c original t w of
                  (w, Inl e) \<Rightarrow> (w, Inl e)
                | (w, Inr h) \<Rightarrow>
                    let https_url = swap_scheme original ''https'' in
                    (case probe_optional probe urljoin c https_url t w of
                       (w, Inl e) \<Rightarrow> (w, Inl e)
                     | (w, Inr s) \<Rightarrow>
                         case classify_http (Some original) https_url h s of (classification, recommended) \<Rightarrow>
                         (w, Inr \<lparr>pb_original_base_url = original, pb_normalized_http_base_url = Some original,
                           pb_normalized_https_base_url = https_url, pb_http_attempt = Some h,
                           pb_https_attempt = s, pb_recommended_base_url = recommended,
                           pb_classification = classification\<rparr>)))
             else (w, Inl (ValueError ''ARQS base URL must use http:// or https:// for transport probing'')))"

end
