(* ===== verification/Transport.thy ===== *)
theory Transport
  imports Client
begin

text \<open>
  Which transport an AppKit application uses, \<open>src/apis/appkit/transport.py\<close>: the resolver probes the
  server over both schemes and settles on a base URL and a policy for the client, from the
  configured policy and the preference remembered for the host. Then what the API key may travel
  over: the guard of the client, its trace, and what the resolver lets through.
\<close>

section \<open>The resolver\<close>

record transport_resolution =
  tr_base_url :: string
  tr_transport_policy :: string
  tr_allow_local_http_auth :: bool
  tr_classification :: string
  tr_host_key :: string
  tr_preference_updates :: "(string \<times> string) list"

definition is_local_or_private_host :: "string option \<Rightarrow> bool" where
  "is_local_or_private_host host =
     (let normalized = lower (strip (case host of None \<Rightarrow> [] | Some h \<Rightarrow> h)) in
      if normalized = [] then False
      else if normalized \<in> {''localhost'', ''localhost.localdomain''} then True
      else (case ip_address normalized of
         None \<Rightarrow> endswith normalized ''.local''
       | Some a \<Rightarrow> is_loopback a \<or> is_private a \<or> is_link_local a \<or> is_reserved a))"

definition attempt_reachable :: "probe_attempt option \<Rightarrow> bool" where
  "attempt_reachable a = (case a of None \<Rightarrow> False | Some x \<Rightarrow> pa_reachable x)"

definition http_candidate :: "probe_result \<Rightarrow> string option" where
  "http_candidate p = (if attempt_reachable (pb_http_attempt p) then pb_normalized_http_base_url p else None)"

definition https_candidate :: "probe_result \<Rightarrow> string option" where
  "https_candidate p = (if attempt_reachable (pb_https_attempt p) then pb_normalized_https_base_url p else None)"

definition choose_allow_http_base_url :: "string \<Rightarrow> probe_result \<Rightarrow> py_exc + string" where
  "choose_allow_http_base_url configured_scheme p =
     (case (configured_scheme, http_candidate p, https_candidate p) of
        (scheme, http, https) \<Rightarrow>
          if scheme = ''https'' \<and> https \<noteq> None then Inr (the https)
          else if scheme = ''http'' \<and> http \<noteq> None then Inr (the http)
          else if https \<noteq> None then Inr (the https)
          else if http \<noteq> None then Inr (the http)
          else Inl (ARQSConnectionError ''failed to reach ARQS server with allow_http transport policy''))"

definition resolution :: "string \<Rightarrow> string \<Rightarrow> probe_result \<Rightarrow> string \<Rightarrow> (string \<times> string) list \<Rightarrow> transport_resolution" where
  "resolution base_url policy p host_key updates =
     \<lparr>tr_base_url = base_url, tr_transport_policy = policy,
      tr_allow_local_http_auth = (policy = ''allow_http''), tr_classification = pb_classification p,
      tr_host_key = host_key, tr_preference_updates = updates\<rparr>"

definition remember_http :: "string \<Rightarrow> (string \<times> string) list" where
  "remember_http host_key = (if host_key = [] then [] else [(host_key, ''allow_http'')])"

text \<open>\<open>str(remembered or transport_policy or "prefer_https")\<close>.\<close>

definition remembered_policy :: "(string \<times> string) list \<Rightarrow> string \<Rightarrow> string" where
  "remembered_policy preferences host_key =
     (case map_of preferences host_key of None \<Rightarrow> [] | Some v \<Rightarrow> v)"

definition effective_policy :: "string \<Rightarrow> string \<Rightarrow> string" where
  "effective_policy remembered transport_policy =
     (if remembered \<noteq> [] then remembered
      else if transport_policy \<noteq> [] then transport_policy else ''prefer_https'')"

text \<open>The decision, once the probe has answered.\<close>

definition decide_transport ::
  "split_url \<Rightarrow> string \<Rightarrow> string \<Rightarrow> probe_result \<Rightarrow> py_exc + transport_resolution" where
  "decide_transport parsed transport_policy remembered p =
     (let host_key = lower (su_netloc parsed);
          policy = effective_policy remembered transport_policy;
          is_local_http = is_local_or_private_host (hostname parsed)
      in if policy = ''require_https'' then
           (case https_candidate p of
              None \<Rightarrow> Inl (ARQSInsecureTransportError ''require_https is configured but HTTPS is not reachable'')
            | Some u \<Rightarrow> Inr (resolution u ''require_https'' p host_key []))
         else if policy = ''allow_http'' then
           try_then (choose_allow_http_base_url (lower (su_scheme parsed)) p) (\<lambda>u.
             Inr (resolution u ''allow_http'' p host_key
               (if (case urlsplit u of None \<Rightarrow> False | Some v \<Rightarrow> su_scheme v = ''http'') then remember_http host_key else [])))
         else (case (https_candidate p, http_candidate p) of
              (Some u, _) \<Rightarrow> Inr (resolution u ''prefer_https'' p host_key [])
            | (None, Some u) \<Rightarrow>
                if \<not> is_local_http \<and> remembered \<noteq> ''allow_http'' then
                  Inl (ARQSInsecureTransportError ''public HTTP-only transport is blocked under prefer_https; set allow_http explicitly for this host'')
                else Inr (resolution u ''allow_http'' p host_key (remember_http host_key))
            | (None, None) \<Rightarrow> Inl (ARQSConnectionError ''failed to reach ARQS server over either HTTP or HTTPS'')))"

definition resolve_transport ::
  "'w opener \<Rightarrow> (string \<Rightarrow> string \<Rightarrow> string) \<Rightarrow> time \<Rightarrow> string \<Rightarrow> string \<Rightarrow> (string \<times> string) list \<Rightarrow> 'w
   \<Rightarrow> 'w \<times> (py_exc + transport_resolution)" where
  "resolve_transport probe urljoin timeout base_url transport_policy preferences w =
     (let url = strip base_url in
      if url = [] then (w, Inl (ValueError ''config base_url is required''))
      else case urlsplit url of
          None \<Rightarrow> (w, Inl (ValueError ''Invalid IPv6 URL''))
        | Some parsed \<Rightarrow>
            (case new_client url None timeout default_api_key_header ''arqs_api.py/1.0'' ''allow_http'' True False of
               Inl e \<Rightarrow> (w, Inl e)
             | Inr c \<Rightarrow>
                 (case probe_transport probe urljoin c url (Some timeout) w of
                    (w, Inl e) \<Rightarrow> (w, Inl e)
                  | (w, Inr p) \<Rightarrow>
                      (w, decide_transport parsed transport_policy
                        (remembered_policy preferences (lower (su_netloc parsed))) p))))"

end
