(* ===== verification/Credentials.thy ===== *)
theory Credentials
  imports Transport
begin

text \<open>
  What the API key of a client may travel over. The guard of \<open>arqs_api.py\<close> looks at the base URL and
  the request goes to a longer URL: both have the same scheme. With the resolver in front, the key
  goes over plain HTTP only where the configuration, the remembered preference or a local host
  allows it. The preference is the weak spot: it is remembered for a host without being asked for
  and then beats a configured \<open>require_https\<close>. Redirects that \<open>urlopen\<close> follows are outside.
\<close>

section \<open>The scheme of a URL\<close>

text \<open>What \<open>urllib.request\<close> connects by: the text before the first colon.\<close>

definition url_scheme :: "string \<Rightarrow> string" where
  "url_scheme u = (if CHR '':'' \<in> set u then lower (before (CHR '':'') u) else [])"

lemma lower_char_alpha: "is_alpha (lower_char c) \<longleftrightarrow> is_alpha c"
  by (simp add: is_alpha_def is_alnum_def is_digit_def lower_char_def Let_def)

lemma lower_alpha: "list_all is_alpha (lower p) \<longleftrightarrow> list_all is_alpha p"
  by (simp add: lower_def list_all_iff lower_char_alpha)

lemma alpha_visible: "is_alpha c \<Longrightarrow> 32 < code_point c \<and> scheme_char c \<and> \<not> is_space c"
  by (auto simp: is_alpha_def is_alnum_def is_digit_def scheme_char_def is_space_def Let_def)

lemma before_prefix: "c \<in> set s \<Longrightarrow> s = before c s @ c # after c s"
  by (induction s) (auto simp: before_def after_def)

lemma after_free [simp]: "c \<notin> set s \<Longrightarrow> after c (s @ c # t) = t"
  by (induction s) (auto simp: after_def)

text \<open>A text that begins like a URL of an alphabetic scheme keeps that beginning.\<close>

lemma strip_scheme:
  assumes "list_all is_alpha p" "p \<noteq> []"
  obtains t' where "strip (p @ CHR '':'' # t) = p @ CHR '':'' # t'"
proof -
  have "\<not> is_space (hd p)" using assms alpha_visible by (cases p) auto
  then have "dropWhile is_space (p @ CHR '':'' # t) = p @ CHR '':'' # t" using assms(2) by (cases p) auto
  moreover have "\<not> is_space (CHR '':'')" by (simp add: is_space_def code_point_def)
  ultimately have "strip (p @ CHR '':'' # t) = p @ CHR '':'' # rev (dropWhile is_space (rev t))"
    by (simp add: strip_def strip_by_def dropWhile_append)
  then show ?thesis using that by blast
qed

lemma clean_scheme:
  assumes "list_all is_alpha p" "p \<noteq> []"
  obtains t' where "clean_url (p @ CHR '':'' # t) = p @ CHR '':'' # t'"
proof -
  have v: "32 < code_point c" if "c \<in> set p" for c using that assms(1) alpha_visible by (auto simp: list_all_iff)
  have "dropWhile (\<lambda>c. code_point c \<le> 32) (p @ CHR '':'' # t) = p @ CHR '':'' # t"
    using assms(2) v [of "hd p"] by (cases p) auto
  moreover have "filter (\<lambda>c. code_point c \<notin> {9, 10, 13}) p = p" using v by (fastforce intro: filter_True)
  ultimately have "clean_url (p @ CHR '':'' # t) = p @ CHR '':'' # filter (\<lambda>c. code_point c \<notin> {9, 10, 13}) t"
    by (simp add: clean_url_def code_point_def)
  then show ?thesis using that by blast
qed

lemma urlsplit_scheme:
  assumes "list_all is_alpha p" "p \<noteq> []" "urlsplit (p @ CHR '':'' # t) = Some u"
  shows "su_scheme u = lower p"
proof -
  obtain t' where c: "clean_url (p @ CHR '':'' # t) = p @ CHR '':'' # t'" using clean_scheme [OF assms(1,2)] .
  have colon: "CHR '':'' \<notin> set p"
    using assms(1) by (auto simp: list_all_iff is_alpha_def is_alnum_def is_digit_def code_point_def)
  have "valid_scheme p" using assms(1,2) alpha_visible by (auto simp: valid_scheme_def list_all_iff)
  with c colon have "split_scheme (clean_url (p @ CHR '':'' # t)) = (lower p, t')"
    by (simp add: split_scheme_def)
  with assms(3) show ?thesis by (auto simp: urlsplit_def Let_def split: prod.splits if_splits)
qed

lemma has_scheme_prefix:
  assumes "list_all is_alpha p" "p \<noteq> []" "has_scheme scheme (p @ CHR '':'' # t) = Some b"
  shows "b \<longleftrightarrow> lower p = scheme"
proof -
  obtain t' where raw: "strip (p @ CHR '':'' # t) = p @ CHR '':'' # t'" using strip_scheme [OF assms(1,2)] .
  obtain n u where n: "normalize_base_url (p @ CHR '':'' # t) = Some n" and u: "urlsplit n = Some u"
    and b: "b \<longleftrightarrow> lower (su_scheme u) = scheme"
    using assms(3) by (auto simp: has_scheme_def split_normalized_def split: Option.bind_splits)
  have low: "lower p \<noteq> []" "list_all is_alpha (lower p)"
    using assms(1,2) by (simp add: lower_def, simp only: lower_alpha)
  from n raw assms(1,2) low(1) obtain t'' where "n = lower p @ CHR '':'' # t''"
    by (auto simp: normalize_base_url_def Let_def urlunsplit_def urlsplit_scheme split: option.splits)
  with urlsplit_scheme [OF low(2,1)] u b show ?thesis by simp
qed


text \<open>The guard: an authenticated request to an \<open>http\<close> URL has passed it.\<close>

lemma auth_headers_guard:
  "auth_headers c = Inr h \<Longrightarrow> ensure_authenticated_transport_allowed c = Inr ()"
  by (auto simp: auth_headers_def split: option.splits if_splits)

lemma build_url_slash: "\<exists>q. build_url c path params = ac_base_url c @ CHR ''/'' # q"
proof -
  have "\<exists>q. (if startswith path ''/'' then path else CHR ''/'' # path) = CHR ''/'' # q"
    by (auto simp: startswith_iff)
  then obtain q where "(if startswith path ''/'' then path else CHR ''/'' # path) = CHR ''/'' # q" ..
  then show ?thesis unfolding build_url_def Let_def by (simp only: append_assoc append_Cons) auto
qed

lemma guard_http:
  assumes "ensure_authenticated_transport_allowed c = Inr ()" "url_scheme (build_url c path params) = ''http''"
  shows "ac_transport_policy c = ''allow_http'' \<or>
    ac_transport_policy c = ''prefer_https'' \<and> ac_allow_local_http_auth c \<and> host_is_loopback_or_local (ac_base_url c)"
proof -
  let ?b = "ac_base_url c" let ?u = "build_url c path params"
  obtain q where u: "?u = ?b @ CHR ''/'' # q" using build_url_slash by blast
  have colon: "CHR '':'' \<in> set ?u" and low: "lower (before (CHR '':'') ?u) = ''http''"
    using assms(2) by (auto simp: url_scheme_def split: if_splits)
  have "CHR '':'' \<in> set ?b"
  proof (rule ccontr)
    assume "CHR '':'' \<notin> set ?b"
    then have "before (CHR '':'') ?u = ?b @ before (CHR '':'') (CHR ''/'' # q)"
      unfolding u before_def by (intro takeWhile_append2) auto
    then have "CHR ''/'' \<in> set (before (CHR '':'') ?u)" by (simp add: before_def)
    then have "lower_char (CHR ''/'') \<in> set ''http''" by (metis low image_eqI list.set_map lower_def)
    then show False by (simp add: lower_char_def code_point_def)
  qed
  then obtain p t where b: "?b = p @ CHR '':'' # t" and p: "lower p = ''http''"
    using low u before_append [of "CHR '':''" ?b] before_prefix [of "CHR '':''" ?b] by metis
  have "list_all is_alpha (lower p)" by (simp add: p is_alpha_def is_alnum_def is_digit_def code_point_def)
  then have alpha: "list_all is_alpha p" by (simp only: lower_alpha)
  have "p \<noteq> []" using p by (auto simp: lower_def)
  have "is_http_url ?b = Some True \<or> is_http_url ?b = None"
    using has_scheme_prefix [OF alpha \<open>p \<noteq> []\<close>, of "''http''" t] p unfolding b is_http_url_def
    by (cases "has_scheme ''http'' (p @ CHR '':'' # t)") auto
  then show ?thesis
    using assms(1) by (auto simp: ensure_authenticated_transport_allowed_def split: option.splits if_splits)
qed


section \<open>Which requests carry the key\<close>

text \<open>An opener that records what it is asked to send.\<close>

definition recorded :: "(http_request \<Rightarrow> http_outcome) \<Rightarrow> http_request list opener" where
  "recorded answer sent rq = (sent @ [rq], answer rq)"

lemma recorded_request:
  assumes "request_json (recorded answer) m path body params auth t ([], c) = ((sent, c'), x)" "rq \<in> set sent"
  shows "prepare_request c m path body params auth t = Inr rq"
  using assms by (auto simp: request_json_def recorded_def Let_def split: sum.splits prod.splits)

lemma new_client_fields:
  assumes "new_client base key t hdr ua policy local hook = Inr c"
  shows "ac_api_key_header c \<in> {default_api_key_header, authorization_header}"
    and "normalize_transport_policy policy = Inr (ac_transport_policy c)" "ac_allow_local_http_auth c = local"
  using assms by (auto simp: new_client_def normalize_api_key_header_def Let_def split: if_splits)

lemma carried_key_guarded:
  assumes "prepare_request c m path body params auth t = Inr rq"
    and "(ac_api_key_header c, v) \<in> set (hq_headers rq)"
    and "ac_api_key_header c \<in> {default_api_key_header, authorization_header}"
  shows "ensure_authenticated_transport_allowed c = Inr ()" "hq_url rq = build_url c path params"
proof -
  have "auth" using assms
    by (cases auth) (auto simp: prepare_request_def Let_def default_api_key_header_def authorization_header_def
        split: if_splits)
  with assms(1) show "ensure_authenticated_transport_allowed c = Inr ()"
    by (auto simp: prepare_request_def Let_def dest: auth_headers_guard)
  show "hq_url rq = build_url c path params" using assms(1) by (auto simp: prepare_request_def Let_def)
qed

lemma resolution_fields [simp]:
  "tr_transport_policy (resolution u p r h up) = p" "tr_allow_local_http_auth (resolution u p r h up) = (p = ''allow_http'')"
  "tr_base_url (resolution u p r h up) = u" "tr_preference_updates (resolution u p r h up) = up"
  by (simp_all add: resolution_def)

lemma resolved_policy:
  assumes "decide_transport parsed policy remembered p = Inr r"
  shows "tr_transport_policy r \<in> {''require_https'', ''prefer_https'', ''allow_http''}"
    and "tr_allow_local_http_auth r \<longleftrightarrow> tr_transport_policy r = ''allow_http''"
    and "tr_transport_policy r = ''allow_http'' \<Longrightarrow> remembered = ''allow_http'' \<or> remembered = [] \<and> policy = ''allow_http'' \<or>
       effective_policy remembered policy \<noteq> ''require_https'' \<and> is_local_or_private_host (hostname parsed)"
  using assms by (auto simp: decide_transport_def Let_def effective_policy_def split: if_splits option.splits)

lemma policy_names:
  "p \<in> {''require_https'', ''prefer_https'', ''allow_http''} \<Longrightarrow> normalize_transport_policy p = Inr p"
  by (auto simp: normalize_transport_policy_def strip_def strip_by_def is_space_def lower_def lower_char_def code_point_def)

section \<open>What the trace shows\<close>

lemma emit_trace_simps [simp]:
  "ac_traced (emit_trace ev d c) = ac_traced c @ (if ac_trace_hook c then [(ev, (''base_url'', JStr (ac_base_url c)) # d)] else [])"
  "ac_trace_hook (emit_trace ev d c) = ac_trace_hook c" "ac_base_url (emit_trace ev d c) = ac_base_url c"
  by (simp_all add: emit_trace_def)

lemma record_last_request_simps [simp]:
  "ac_traced (record_last_request u f c) = ac_traced c" "ac_trace_hook (record_last_request u f c) = ac_trace_hook c"
  "ac_base_url (record_last_request u f c) = ac_base_url c"
  by (simp_all add: record_last_request_def)

definition request_events :: "arqs_client \<Rightarrow> (string \<times> dict) list" where
  "request_events c = filter (\<lambda>e. fst e = ''http_request'') (ac_traced c)"

lemma read_outcome_request_events:
  "read_outcome rq path out c = (c', r) \<Longrightarrow> request_events c' = request_events c"
  by (auto simp: read_outcome_def request_events_def transport_failure_def Let_def
      split: http_outcome.splits option.splits if_splits)

lemma request_json_events:
  assumes "request_json urlopen m path body params auth t (w, c) = ((w', c'), r)"
  shows "request_events c' = request_events c @
    (case prepare_request c m path body params auth t of Inl e \<Rightarrow> []
     | Inr rq \<Rightarrow> if ac_trace_hook c then [(''http_request'', (''base_url'', JStr (ac_base_url c)) # request_payload rq path params auth)] else [])"
  using assms
  by (auto simp: request_json_def Let_def request_events_def dest!: read_outcome_request_events
      split: sum.splits prod.splits if_splits)



text \<open>The request event as a function of the client, and how the key enters it.\<close>

definition prepared_payload ::
  "arqs_client \<Rightarrow> string \<Rightarrow> string \<Rightarrow> json option \<Rightarrow> dict \<Rightarrow> bool \<Rightarrow> time option \<Rightarrow> py_exc + dict" where
  "prepared_payload c m path body params auth t =
     try_then (prepare_request c m path body params auth t) (\<lambda>rq. Inr (request_payload rq path params auth))"

lemma ensure_ignores_key [simp]:
  "ensure_authenticated_transport_allowed (c\<lparr>ac_api_key := k\<rparr>) = ensure_authenticated_transport_allowed c"
  by (cases "is_http_url (ac_base_url c)") (auto simp: ensure_authenticated_transport_allowed_def)

lemma redact_key:
  assumes "h \<in> {default_api_key_header, authorization_header}"
  shows "redact_value (h, v) = (h, ''<redacted:'' @ str_of_nat (length v) @ '' chars>'')"
proof -
  have "strip default_api_key_header = default_api_key_header" "strip authorization_header = authorization_header"
    by code_simp+
  with assms show ?thesis by (auto simp: redact_value_def)
qed

text \<open>The value of the header that carries the key.\<close>

definition key_value :: "string \<Rightarrow> string \<Rightarrow> string" where
  "key_value h key = (if h = authorization_header then ''Bearer '' @ bearer_token key else key)"

lemma prepared_payload_key:
  assumes "ac_api_key_header c \<in> {default_api_key_header, authorization_header}" "k \<noteq> []"
  shows "prepared_payload (c\<lparr>ac_api_key := Some k\<rparr>) m path body params auth t =
    (let headers = [(''Accept'', ''application/json''), (''User-Agent'', ac_user_agent c)]
          @ (if body = None then [] else [(''Content-Type'', ''application/json'')])
     in try_then (if auth then ensure_authenticated_transport_allowed c else Inr ()) (\<lambda>_.
       Inr [(''method'', JStr (upper m)), (''path'', JStr path), (''url'', JStr (build_url c path params)),
         (''params'', JObj params),
         (''headers'', JObj (map (\<lambda>kv. (fst kv, JStr (snd kv))) (map redact_value headers @
            (if auth then [(ac_api_key_header c,
               ''<redacted:'' @ str_of_nat (length (key_value (ac_api_key_header c) k)) @ '' chars>'')] else [])))),
         (''body'', optional_str (map_option dumps body)), (''require_auth'', JBool auth)]))"
proof -
  have "build_url (c\<lparr>ac_api_key := Some k\<rparr>) path params = build_url c path params" by (simp add: build_url_def)
  then show ?thesis using assms(2)
    by (cases "ensure_authenticated_transport_allowed c")
      (simp_all add: prepared_payload_def prepare_request_def auth_headers_def request_payload_def
        redact_trace_headers_def Let_def key_value_def redact_key [OF assms(1)])
qed

text \<open>
  C24: A trace hook learns nothing of the API key from the request events but the length of the header that
  carries it, be that \<open>X-ARQS-API-Key\<close> or \<open>Authorization\<close>, the two that are redacted: whatever is sent and answered,
  two keys whose headers have the same length give the same events.
\<close>

theorem trace_hides_key:
  assumes "ac_api_key_header c \<in> {default_api_key_header, authorization_header}" "k \<noteq> []" "k' \<noteq> []"
    and "length (key_value (ac_api_key_header c) k) = length (key_value (ac_api_key_header c) k')"
    and "request_json u m path body params auth t (w, c\<lparr>ac_api_key := Some k\<rparr>) = ((v1, c1), r1)"
    and "request_json u' m path body params auth t (w', c\<lparr>ac_api_key := Some k'\<rparr>) = ((v2, c2), r2)"
  shows "request_events c1 = request_events c2"
proof -
  have eq: "prepared_payload (c\<lparr>ac_api_key := Some k\<rparr>) m path body params auth t =
      prepared_payload (c\<lparr>ac_api_key := Some k'\<rparr>) m path body params auth t"
    using assms(1-4) by (simp add: prepared_payload_key)
  show ?thesis
    using request_json_events [OF assms(5)] request_json_events [OF assms(6)] eq
    by (auto simp: request_events_def prepared_payload_def split: sum.splits)
qed

definition demo_client :: arqs_client where
  "demo_client = \<lparr>ac_base_url = ''https://h'', ac_api_key = None, ac_timeout = 30,
    ac_api_key_header = default_api_key_header, ac_user_agent = ''ua'', ac_transport_policy = ''prefer_https'',
    ac_allow_local_http_auth = True, ac_trace_hook = True, ac_identity = None, ac_last_requested_url = None,
    ac_last_final_url = None, ac_last_redirected = False, ac_traced = []\<rparr>"

theorem trace_hides_key_witness:
  "let sent = (\<lambda>k. request_json (\<lambda>w rq. (w, URLError ''down'')) ''GET'' ''/inbox'' None [] True None
       ((), demo_client\<lparr>ac_api_key := Some k\<rparr>));
       events = (\<lambda>k. request_events (snd (fst (sent k))))
   in events ''arqs_1'' = events ''arqs_2'' \<and> length (events ''arqs_1'') = 1"
proof -
  let ?u = "\<lambda>w (rq::http_request). (w, URLError ''down'')"
  let ?sent = "\<lambda>k. request_json ?u ''GET'' ''/inbox'' None [] True None ((), demo_client\<lparr>ac_api_key := Some k\<rparr>)"
  have e: "?sent k = (((), snd (fst (?sent k))), snd (?sent k))" for k by (simp add: prod_eq_iff)
  have "request_events (snd (fst (?sent ''arqs_1''))) = request_events (snd (fst (?sent ''arqs_2'')))"
    by (rule trace_hides_key [OF _ _ _ _ e e]) (simp_all add: demo_client_def key_value_def default_api_key_header_def
        authorization_header_def)
  moreover have "length (request_events (snd (fst (?sent ''arqs_1'')))) = 1" by code_simp
  ultimately show ?thesis by (simp add: Let_def)
qed

text \<open>The response event of a registration shows the new key: bodies are not redacted.\<close>

definition demo_registration :: string where
  "demo_registration = dumps (JObj [(''node_id'', JStr (uuid_text 1)), (''api_key'', JStr ''arqs_1''),
     (''default_endpoint_id'', JStr (uuid_text 2))])"

lemma response_event_shows_key:
  "(''raw_body'', JStr demo_registration) \<in> set (snd (last (ac_traced (snd (fst (client_register
     (\<lambda>w rq. (w, Response (hq_url rq) 200 [] (Some demo_registration))) None True ((), demo_client)))))))"
proof -
  have "observed_url ''https://h/register'' ''https://h/register'' = Some ''https://h/register''" by code_simp
  then show ?thesis
    by (simp add: client_register_def then_update_def reading_def request_json_def prepare_request_def Let_def
        build_url_def demo_client_def startswith_def urlencode_def join_def read_outcome_def exchange_payload_def
        emit_trace_def record_last_request_def adopt_identity_def split: sum.splits prod.splits)
qed

section \<open>Two hosts on plain HTTP\<close>

definition demo_probe :: "unit opener" where
  "demo_probe w rq =
     (w, if startswith (hq_url rq) ''http://'' then Response (hq_url rq) 200 [] (Some []) else URLError ''refused'')"

definition demo_join :: "string \<Rightarrow> string \<Rightarrow> string" where
  "demo_join base location = location"

definition demo_resolution :: transport_resolution where
  "demo_resolution = \<lparr>tr_base_url = ''http://localhost:8080'', tr_transport_policy = ''allow_http'',
     tr_allow_local_http_auth = True, tr_classification = ''http_only'', tr_host_key = ''localhost:8080'',
     tr_preference_updates = [(''localhost:8080'', ''allow_http'')]\<rparr>"

lemma demo_resolves:
  "resolve_transport demo_probe demo_join 5 ''http://localhost:8080/'' ''prefer_https'' [] () = ((), Inr demo_resolution)"
  by code_simp

text \<open>
  The remembered preference wins over \<open>require_https\<close>: an application that once used a host over HTTP,
  local or allowed at the time, keeps sending its key there in the clear.
\<close>

lemma remembered_beats_require_https:
  "resolve_transport demo_probe demo_join 5 ''http://arqs.example'' ''require_https'' [(''arqs.example'', ''allow_http'')] () =
     ((), Inr \<lparr>tr_base_url = ''http://arqs.example'', tr_transport_policy = ''allow_http'', tr_allow_local_http_auth = True,
       tr_classification = ''http_only'', tr_host_key = ''arqs.example'',
       tr_preference_updates = [(''arqs.example'', ''allow_http'')]\<rparr>)"
  by code_simp

text \<open>
  \<open>is_reserved\<close> holds for the whole of \<open>::/8\<close>, so a public IPv4 address written as an IPv6 one counts
  as a local host.
\<close>

lemma leading_zeros: "foldl (\<lambda>a. (+) (65536 * a)) 0 (replicate n 0) = (0::nat)"
  by (induction n) simp_all

lemma mapped_address:
  "ip_address ''::ffff:8.8.8.8'' = Some (V6 281470816487432 None)"
  by (simp add: ip_address_def parse_v4_def parse_v6_def parse_v6_int_def expand_v4_tail_def v6_parts_def
      inner_gaps_def parse_octet_def v4_of_octets_def nat_of_digits_def is_digit_def code_point_def show_hex.simps
      lower_hex_def parse_hextet_def hex_value_def v6_of_hextets_def upt_rec leading_zeros)

lemma mapped_address_is_local:
  "is_local_or_private_host (Some ''::ffff:8.8.8.8'')" "\<not> is_private (V6 281470816487432 None)"
proof -
  have "is_reserved (V6 281470816487432 None)"
    by (simp add: is_reserved_def in_any_def reserved_networks_def net4_def net6_def)
  then show "is_local_or_private_host (Some ''::ffff:8.8.8.8'')"
    using mapped_address by (simp add: is_local_or_private_host_def Let_def strip_def strip_by_def is_space_def
        code_point_def lower_def lower_char_def)
  show "\<not> is_private (V6 281470816487432 None)"
    by (simp add: is_private_def ipv4_mapped_def in_any_def private_networks_def net4_def net6_def)
qed

section \<open>The key and plain HTTP\<close>

text \<open>
  C23: A client built from the resolver's answer sends a request with its API key to an \<open>http\<close> URL only
  if that host is remembered as \<open>allow_http\<close>, or nothing is remembered and the configuration says
  \<open>allow_http\<close>, or HTTPS is not required and the host is a local or private one.
\<close>

theorem key_stays_off_http:
  assumes "resolve_transport probe urljoin t base_url policy prefs w = (w', Inr r)"
    and "urlsplit (strip base_url) = Some parsed"
    and "new_client (tr_base_url r) key t' hdr ua (tr_transport_policy r) (tr_allow_local_http_auth r) hook = Inr c"
    and "request_json (recorded answer) m path body params auth t'' ([], c) = ((sent, c'), x)"
    and "rq \<in> set sent" "(ac_api_key_header c, v) \<in> set (hq_headers rq)" "url_scheme (hq_url rq) = ''http''"
  shows "let remembered = remembered_policy prefs (lower (su_netloc parsed)) in
     remembered = ''allow_http'' \<or> remembered = [] \<and> policy = ''allow_http'' \<or>
     effective_policy remembered policy \<noteq> ''require_https'' \<and> is_local_or_private_host (hostname parsed)"
proof -
  obtain p where d: "decide_transport parsed policy (remembered_policy prefs (lower (su_netloc parsed))) p = Inr r"
    using assms(1,2) by (auto simp: resolve_transport_def Let_def split: if_splits option.splits sum.splits prod.splits)
  note f = new_client_fields [OF assms(3)]
  have pol: "ac_transport_policy c = tr_transport_policy r" using f(2) policy_names resolved_policy(1) [OF d] by simp
  note g = carried_key_guarded [OF recorded_request [OF assms(4,5)] assms(6) f(1)]
  have "ac_transport_policy c = ''allow_http'' \<or> ac_allow_local_http_auth c"
    using guard_http [OF g(1)] assms(7) g(2) by auto
  then have "tr_transport_policy r = ''allow_http''" using resolved_policy(2) [OF d] f(3) pol by auto
  then show ?thesis using resolved_policy(3) [OF d] by simp
qed


theorem key_stays_off_http_witness:
  "\<exists>c (rq::http_request). new_client (tr_base_url demo_resolution) (Some ''arqs_k'') 30 default_api_key_header ''ua''
        (tr_transport_policy demo_resolution) (tr_allow_local_http_auth demo_resolution) False = Inr c
     \<and> (ac_api_key_header c, ''arqs_k'') \<in> set (hq_headers rq) \<and> hq_url rq = ''http://localhost:8080/inbox''
     \<and> is_local_or_private_host (Some ''localhost'')"
proof -
  let ?c = "\<lparr>ac_base_url = ''http://localhost:8080'', ac_api_key = Some ''arqs_k'', ac_timeout = 30,
    ac_api_key_header = default_api_key_header, ac_user_agent = ''ua'', ac_transport_policy = ''allow_http'',
    ac_allow_local_http_auth = True, ac_trace_hook = False, ac_identity = None, ac_last_requested_url = None,
    ac_last_final_url = None, ac_last_redirected = False, ac_traced = []\<rparr>"
  let ?rq = "\<lparr>hq_method = ''GET'', hq_url = ''http://localhost:8080/inbox'',
    hq_headers = [(''Accept'', ''application/json''), (''User-Agent'', ''ua''), (default_api_key_header, ''arqs_k'')],
    hq_body = None, hq_timeout = 30\<rparr>"
  let ?parsed = "\<lparr>su_scheme = ''http'', su_netloc = ''localhost:8080'', su_path = ''/'', su_query = [], su_fragment = []\<rparr>"
  have split: "urlsplit (strip ''http://localhost:8080/'') = Some ?parsed" by code_simp
  have new: "new_client (tr_base_url demo_resolution) (Some ''arqs_k'') 30 default_api_key_header ''ua''
      (tr_transport_policy demo_resolution) (tr_allow_local_http_auth demo_resolution) False = Inr ?c" by code_simp
  have sent: "request_json (recorded (\<lambda>_. URLError ''down'')) ''GET'' ''/inbox'' None [] True None ([], ?c) =
      (([?rq], transport_failure ?rq ''/inbox'' ''down'' ?c),
       Inl (ARQSConnectionError ''failed to reach ARQS server at http://localhost:8080/inbox: down''))"
    by code_simp
  have "let remembered = remembered_policy [] (lower (su_netloc ?parsed)) in
     remembered = ''allow_http'' \<or> remembered = [] \<and> ''prefer_https'' = ''allow_http'' \<or>
     effective_policy remembered ''prefer_https'' \<noteq> ''require_https'' \<and> is_local_or_private_host (hostname ?parsed)"
    by (rule key_stays_off_http [OF demo_resolves split new sent, where v = "''arqs_k''" and rq = ?rq]) (simp, simp, code_simp)
  moreover have "hostname ?parsed = Some ''localhost''" by code_simp
  ultimately have "is_local_or_private_host (Some ''localhost'')" by (simp add: remembered_policy_def)
  then have "new_client (tr_base_url demo_resolution) (Some ''arqs_k'') 30 default_api_key_header ''ua''
        (tr_transport_policy demo_resolution) (tr_allow_local_http_auth demo_resolution) False = Inr ?c
     \<and> (ac_api_key_header ?c, ''arqs_k'') \<in> set (hq_headers ?rq) \<and> hq_url ?rq = ''http://localhost:8080/inbox''
     \<and> is_local_or_private_host (Some ''localhost'')"
    using new by simp
  then show ?thesis by blast
qed

end
