(* ===== verification/AppStore.thy ===== *)
theory AppStore
  imports Client
begin

text \<open>
  What an AppKit application keeps on disk, \<open>src/apis/appkit/store.py\<close> with the data of \<open>types.py\<close>: its
  configuration, its contacts and the packets it has received. A JSON file is the value that it
  reads back; \<open>{}\<close> stands for a missing one. Paths and directories are left out. Time stamps are
  written and read by an \<open>iso_codec\<close>, the methods of \<open>datetime\<close>.
\<close>

record iso_codec =
  ic_show :: "time \<Rightarrow> string"
  ic_read :: iso_reader

section \<open>Time stamps\<close>

definition replace_z :: "string \<Rightarrow> string" where
  "replace_z s = concat (map (\<lambda>c. if c = CHR ''Z'' then ''+00:00'' else [c]) s)"

text \<open>\<open>parse_datetime(str(v)) or utc_now()\<close>; a time without offset is taken as it is.\<close>

definition stored_time :: "iso_codec \<Rightarrow> time \<Rightarrow> json \<Rightarrow> py_exc + time" where
  "stored_time codec now v =
     (let s = str_value v in
      if s = [] then Inr now
      else (case ic_read codec (replace_z s) of
          None \<Rightarrow> Inl (ValueError ''Invalid isoformat string'')
        | Some (t, None) \<Rightarrow> Inr t
        | Some (t, Some offset) \<Rightarrow> Inr (t - seconds offset)))"

section \<open>Configuration\<close>

definition default_app_config :: "string \<Rightarrow> dict" where
  "default_app_config app_name =
     [(''ack_policy'', JStr ''after_handler_success''), (''app_name'', JStr app_name), (''base_url'', JStr ''''),
      (''default_contact'', JStr ''''), (''default_endpoint_kind'', JStr ''message''),
      (''default_endpoint_name'', JStr ''default''), (''delivery_mode'', JStr ''queued''),
      (''expires_after_seconds'', JInt 86400), (''max_attempts'', JInt 20), (''node_name'', JStr app_name),
      (''poll_limit'', JInt 100), (''poll_wait_seconds'', JInt 20), (''retry_policy'', JStr ''until_expired''),
      (''transport_policy'', JStr ''prefer_https''), (''transport_preferences'', JObj [])]"

definition load_app_config :: "string \<Rightarrow> dict \<Rightarrow> dict" where
  "load_app_config app_name file = dict_put ''app_name'' (JStr app_name) (dict_update (default_app_config app_name) file)"

text \<open>The new content of the file; what is read back has its keys sorted.\<close>

definition save_app_config :: "string \<Rightarrow> dict \<Rightarrow> dict" where
  "save_app_config app_name config =
     sort_dict (dict_put ''app_name'' (JStr app_name) (dict_update (default_app_config app_name) config))"

section \<open>Contacts\<close>

record contact =
  co_contact_id :: string
  co_label :: string
  co_local_endpoint_id :: string
  co_remote_endpoint_id :: string
  co_link_id :: "string option"
  co_status :: string
  co_created_at :: time
  co_updated_at :: time

text \<open>\<open>str(v or alternative)\<close>.\<close>

definition str_or :: "string \<Rightarrow> json \<Rightarrow> string" where
  "str_or alternative v = (if truthy v then str_value v else alternative)"

definition parse_contact :: "iso_codec \<Rightarrow> time \<Rightarrow> string \<Rightarrow> json \<Rightarrow> py_exc + contact" where
  "parse_contact codec now label payload =
     try_then (str_item payload ''contact_id'') (\<lambda>i.
     try_then (str_item payload ''local_endpoint_id'') (\<lambda>l.
     try_then (str_item payload ''remote_endpoint_id'') (\<lambda>r.
     try_then (item payload ''created_at'') (\<lambda>c.
     try_then (stored_time codec now c) (\<lambda>created.
     try_then (item payload ''updated_at'') (\<lambda>u.
     try_then (stored_time codec now u) (\<lambda>updated.
       Inr \<lparr>co_contact_id = i, co_label = str_or label (get_item payload ''label''), co_local_endpoint_id = l,
         co_remote_endpoint_id = r, co_link_id = str_or_none (get_item payload ''link_id''),
         co_status = str_or ''active'' (get_item payload ''status''), co_created_at = created,
         co_updated_at = updated\<rparr>)))))))"

definition list_contacts :: "iso_codec \<Rightarrow> time \<Rightarrow> dict \<Rightarrow> py_exc + contact list" where
  "list_contacts codec now raw = map_try (\<lambda>kv. parse_contact codec now (fst kv) (snd kv)) raw"

definition get_contact :: "iso_codec \<Rightarrow> time \<Rightarrow> string \<Rightarrow> dict \<Rightarrow> py_exc + contact option" where
  "get_contact codec now label raw =
     (if dict_get raw label = JNull then Inr None
      else try_then (parse_contact codec now label (dict_get raw label)) (\<lambda>c. Inr (Some c)))"

definition resolve_by_remote_endpoint :: "iso_codec \<Rightarrow> time \<Rightarrow> string \<Rightarrow> dict \<Rightarrow> py_exc + contact option" where
  "resolve_by_remote_endpoint codec now remote raw =
     try_then (list_contacts codec now raw) (\<lambda>cs. Inr (find (\<lambda>c. co_remote_endpoint_id c = remote) cs))"

text \<open>An entry of the file that is a dictionary with a true value for \<open>key\<close>.\<close>

definition kept_text :: "json \<Rightarrow> string \<Rightarrow> string \<Rightarrow> string" where
  "kept_text existing key alternative =
     (case existing of
        JObj d \<Rightarrow> if truthy (dict_get d key) then str_value (dict_get d key) else alternative
      | _ \<Rightarrow> alternative)"

definition contact_payload :: "iso_codec \<Rightarrow> time \<Rightarrow> string \<Rightarrow> json \<Rightarrow> string \<Rightarrow> string \<Rightarrow> string \<Rightarrow> string option \<Rightarrow> string \<Rightarrow> dict" where
  "contact_payload codec now new_id existing label local_id remote_id link_id status =
     [(''contact_id'', JStr (kept_text existing ''contact_id'' new_id)), (''label'', JStr label),
      (''local_endpoint_id'', JStr local_id), (''remote_endpoint_id'', JStr remote_id),
      (''link_id'', case link_id of None \<Rightarrow> JNull | Some l \<Rightarrow> if l = [] then JNull else JStr l),
      (''status'', JStr status), (''created_at'', JStr (kept_text existing ''created_at'' (ic_show codec now))),
      (''updated_at'', JStr (ic_show codec now))]"

definition upsert_contact ::
  "iso_codec \<Rightarrow> time \<Rightarrow> string \<Rightarrow> string \<Rightarrow> string \<Rightarrow> string \<Rightarrow> string option \<Rightarrow> string \<Rightarrow> dict
   \<Rightarrow> dict \<times> (py_exc + contact)" where
  "upsert_contact codec now new_id label local_id remote_id link_id status raw =
     (let label = strip label in
      if label = [] then (raw, Inl (ValueError ''contact label is required''))
      else let payload = contact_payload codec now new_id (dict_get raw label) label local_id remote_id link_id status
        in (sort_dict (dict_put label (JObj payload) raw), parse_contact codec now label (JObj payload)))"

section \<open>Received packets\<close>

record received_packet =
  rv_delivery_id :: string
  rv_packet_id :: string
  rv_from_endpoint_id :: string
  rv_to_endpoint_id :: string
  rv_arqs_type :: "string option"
  rv_headers :: dict
  rv_body :: "string option"
  rv_text :: "string option"
  rv_data :: dict
  rv_meta :: dict
  rv_created_at :: time
  rv_received_at :: time
  rv_decode_errors :: "string list"

text \<open>\<open>INSERT OR REPLACE\<close> by \<open>delivery_id\<close>, as the row reads back.\<close>

definition stored_packet :: "received_packet \<Rightarrow> received_packet" where
  "stored_packet p = p\<lparr>rv_arqs_type := (case rv_arqs_type p of None \<Rightarrow> None | Some t \<Rightarrow> if t = [] then None else Some t),
     rv_headers := sort_dict (rv_headers p), rv_data := sort_dict (rv_data p), rv_meta := sort_dict (rv_meta p)\<rparr>"

definition store_received :: "received_packet \<Rightarrow> received_packet list \<Rightarrow> received_packet list" where
  "store_received p rows =
     delete_where (\<lambda>r. rv_delivery_id r = rv_delivery_id p) rows @ [stored_packet p]"

definition list_recent :: "int \<Rightarrow> received_packet list \<Rightarrow> received_packet list" where
  "list_recent limit rows = sql_limit limit (rev (sort_key (\<lambda>r. Iso (rv_received_at r)) (rev rows)))"

section \<open>A contact reads back\<close>

lemma item_sorted:
  "distinct (map fst d) \<Longrightarrow> \<forall>v\<in>snd ` set d. sort_json v = v \<Longrightarrow> item (JObj (sort_dict d)) k = item (JObj d) k"
  by (cases "map_of d k") (auto simp: item_def map_of_sort_dict dest!: map_of_SomeD)

lemma get_item_sorted:
  "distinct (map fst d) \<Longrightarrow> \<forall>v\<in>snd ` set d. sort_json v = v \<Longrightarrow> get_item (JObj (sort_dict d)) k = get_item (JObj d) k"
  by (cases "map_of d k") (auto simp: get_item_def dict_get_def map_of_sort_dict dest!: map_of_SomeD)

lemma contact_payload_flat:
  "distinct (map fst (contact_payload codec now new_id e label l r link st))"
  "\<forall>v\<in>snd ` set (contact_payload codec now new_id e label l r link st). sort_json v = v"
  by (auto simp: contact_payload_def split: option.splits)

lemma parse_contact_sorted:
  assumes "distinct (map fst d)" "\<forall>v\<in>snd ` set d. sort_json v = v"
  shows "parse_contact codec t label (JObj (sort_dict d)) = parse_contact codec t label (JObj d)"
  using assms by (simp add: parse_contact_def str_item_def item_sorted get_item_sorted)

lemma truthy_text: "truthy v \<Longrightarrow> str_value v \<noteq> []"
  using str_of_nat_digits by (cases v) (auto simp: str_value_def str_of_int_def)

lemma kept_text_not_Nil: "alternative \<noteq> [] \<Longrightarrow> kept_text e k alternative \<noteq> []"
  by (auto simp: kept_text_def truthy_text split: json.splits)

lemma stored_time_now: "s \<noteq> [] \<Longrightarrow> stored_time codec t (JStr s) = stored_time codec t' (JStr s)"
  by (simp add: stored_time_def str_value_def)

lemma contact_payload_times:
  "item (JObj (contact_payload codec now new_id e label l r link st)) ''created_at'' =
     Inr (JStr (kept_text e ''created_at'' (ic_show codec now)))"
  "item (JObj (contact_payload codec now new_id e label l r link st)) ''updated_at'' = Inr (JStr (ic_show codec now))"
  by (simp_all add: item_def contact_payload_def)

lemma parse_contact_now:
  assumes "ic_show codec now \<noteq> []"
  shows "parse_contact codec t label (JObj (contact_payload codec now new_id e label l r link st)) =
   parse_contact codec t' label (JObj (contact_payload codec now new_id e label l r link st))"
  unfolding parse_contact_def contact_payload_times try_then_simps
    stored_time_now [OF kept_text_not_Nil [OF assms], of codec t _ _ t'] stored_time_now [OF assms, of codec t t'] ..

lemma upsert_reads_back:
  assumes "upsert_contact codec now new_id label l r link st raw = (raw', Inr c)" "distinct (map fst raw)"
    and "ic_show codec now \<noteq> []"
  shows "get_contact codec t (strip label) raw' = Inr (Some c)"
proof -
  let ?p = "contact_payload codec now new_id (dict_get raw (strip label)) (strip label) l r link st"
  have raw': "raw' = sort_dict (dict_put (strip label) (JObj ?p) raw)"
    and c: "parse_contact codec now (strip label) (JObj ?p) = Inr c"
    using assms(1) by (auto simp: upsert_contact_def Let_def split: if_splits)
  have g: "dict_get raw' (strip label) = JObj (sort_dict ?p)"
  proof -
    have "map_of raw' (strip label) = Some (sort_json (JObj ?p))"
      unfolding raw' using assms(2) by (subst map_of_sort_dict) simp_all
    then show ?thesis by (simp add: dict_get_def sort_dict_def)
  qed
  have "parse_contact codec t (strip label) (JObj (sort_dict ?p)) = parse_contact codec t (strip label) (JObj ?p)"
    by (rule parse_contact_sorted) (rule contact_payload_flat)+
  also have "\<dots> = parse_contact codec now (strip label) (JObj ?p)" by (rule parse_contact_now [OF assms(3)])
  also note c
  finally have "parse_contact codec t (strip label) (JObj (sort_dict ?p)) = Inr c" .
  then show ?thesis by (simp add: get_contact_def g)
qed

end
