(* ===== verification/Receiver.thy ===== *)
theory Receiver
  imports AppStore
begin

text \<open>
  The receiving side of an AppKit application, \<open>src/apis/appkit/receiver.py\<close> and \<open>commands.py\<close>:
  polled deliveries are decoded, dispatched to handlers and commands, and acknowledged as the
  policy says. Everything outside the application is a world \<open>'w\<close>; the client's requests, the user's
  handlers and the clock are functions of it in \<open>receiver_env\<close>. Threads and logging are left out.
\<close>

section \<open>State and environment\<close>

record command_response =
  cr_ok :: bool
  cr_command_id :: string
  cr_correlation_id :: string
  cr_result :: json
  cr_error_type :: "string option"
  cr_error_message :: "string option"
  cr_received_at :: time
  cr_packet :: received_packet

text \<open>
  \<open>as_pending\<close> are the waiting senders of commands by correlation identifier, with their response once it
  is there. \<open>as_acked\<close> is the flag of the delivery at hand; \<open>as_handled\<close> lists the deliveries whose
  \<open>handled_successfully\<close> was set.
\<close>

record 'w app_session =
  as_world :: 'w
  as_inbox :: "received_packet list"
  as_pending :: "(string \<times> command_response option) list"
  as_acked :: bool
  as_handled :: "string list"

type_synonym ('w, 'a) action = "'w app_session \<Rightarrow> 'w app_session \<times> (py_exc + 'a)"

record reply_args =
  ra_arqs_type :: string
  ra_body :: string
  ra_data :: dict
  ra_correlation_id :: "string option"
  ra_causation_id :: "string option"

record 'w command_context =
  cx_contact :: "contact option"
  cx_delivery :: client_delivery
  cx_packet :: received_packet
  cx_ack :: "string \<Rightarrow> ('w, unit) action"
  cx_reply :: "reply_args \<Rightarrow> ('w, unit) action"

type_synonym 'w handler = "received_packet \<Rightarrow> 'w command_context \<Rightarrow> ('w, unit) action"
type_synonym 'w command_handler = "dict \<Rightarrow> 'w command_context \<Rightarrow> ('w, json) action"

text \<open>
  \<open>re_poll\<close>, \<open>re_ack\<close>: the client's \<open>poll_inbox\<close> and \<open>ack_delivery\<close>. \<open>re_reply\<close>: \<open>send_type\<close> in direct mode,
  from the first endpoint to the second.
\<close>

record 'w receiver_env =
  re_config :: dict
  re_contacts :: "'w \<Rightarrow> dict"
  re_now :: "'w \<Rightarrow> time"
  re_codec :: iso_codec
  re_lib :: pylib
  re_class :: "py_exc \<Rightarrow> string"
  re_poll :: "'w \<Rightarrow> int \<Rightarrow> int \<Rightarrow> 'w \<times> (py_exc + client_delivery list)"
  re_ack :: "'w \<Rightarrow> string \<Rightarrow> string \<Rightarrow> 'w \<times> (py_exc + unit)"
  re_reply :: "'w \<Rightarrow> string \<Rightarrow> string \<Rightarrow> reply_args \<Rightarrow> 'w \<times> (py_exc + unit)"
  re_handlers :: "string \<Rightarrow> 'w handler list"
  re_commands :: "string \<Rightarrow> 'w command_handler option"

text \<open>Two actions on a state one after the other; an exception ends the sequence.\<close>

definition then_do ::
  "('s \<Rightarrow> 's \<times> (py_exc + 'a)) \<Rightarrow> ('a \<Rightarrow> 's \<Rightarrow> 's \<times> (py_exc + 'b)) \<Rightarrow> 's \<Rightarrow> 's \<times> (py_exc + 'b)" where
  "then_do a k st = (case a st of (st, Inl e) \<Rightarrow> (st, Inl e) | (st, Inr x) \<Rightarrow> k x st)"

section \<open>Commands\<close>

definition command_response_of :: "string \<Rightarrow> received_packet \<Rightarrow> command_response" where
  "command_response_of correlation_id p =
     \<lparr>cr_ok = truthy (dict_get (rv_data p) ''ok''), cr_command_id = str_or_empty (dict_get (rv_data p) ''command_id''),
      cr_correlation_id = correlation_id, cr_result = dict_get (rv_data p) ''result'',
      cr_error_type = str_or_none (dict_get (rv_data p) ''error_type''),
      cr_error_message = str_or_none (dict_get (rv_data p) ''error_message''),
      cr_received_at = rv_received_at p, cr_packet = p\<rparr>"

definition handle_response :: "received_packet \<Rightarrow> ('w, bool) action" where
  "handle_response p st =
     (case get_correlation_id (rv_headers p) of
        None \<Rightarrow> (st, Inr False)
      | Some c \<Rightarrow>
          if c \<notin> fst ` set (as_pending st) then (st, Inr False)
          else (st\<lparr>as_pending := map (\<lambda>w. if fst w = c then (c, Some (command_response_of c p)) else w) (as_pending st)\<rparr>,
                Inr True))"

definition respond_to ::
  "'w receiver_env \<Rightarrow> 'w command_context \<Rightarrow> received_packet \<Rightarrow> string \<Rightarrow> (string \<Rightarrow> dict) \<Rightarrow> ('w, bool) action" where
  "respond_to env ctx p body data st =
     then_do (cx_reply ctx \<lparr>ra_arqs_type = type_command_response, ra_body = body,
         ra_data = data (ic_show (re_codec env) (re_now env (as_world st))),
         ra_correlation_id = get_correlation_id (rv_headers p), ra_causation_id = Some (rv_packet_id p)\<rparr>)
       (\<lambda>_ st. (st, Inr True)) st"

definition send_error_response ::
  "'w receiver_env \<Rightarrow> 'w command_context \<Rightarrow> received_packet \<Rightarrow> string \<Rightarrow> string \<Rightarrow> string \<Rightarrow> ('w, bool) action" where
  "send_error_response env ctx p command_id error_type error_message =
     respond_to env ctx p (''command failed: '' @ error_message) (\<lambda>now.
       [(''command_id'', JStr command_id), (''ok'', JBool False), (''error_type'', JStr error_type),
        (''error_message'', JStr error_message), (''responded_at'', JStr now)])"

definition handle_command :: "'w receiver_env \<Rightarrow> received_packet \<Rightarrow> 'w command_context \<Rightarrow> ('w, bool) action" where
  "handle_command env p ctx st =
     (let command_name = strip (str_or_empty (dict_get (rv_data p) ''command''));
          command_id = str_or_empty (dict_get (rv_data p) ''command_id'');
          args = (case dict_get (rv_data p) ''args'' of JObj d \<Rightarrow> d | _ \<Rightarrow> [])
      in case re_commands env command_name of
           None \<Rightarrow> send_error_response env ctx p command_id ''LookupError''
             (''unknown command: '' @ (if command_name = [] then ''<missing>'' else command_name)) st
         | Some handler \<Rightarrow>
             (case handler args ctx st of
                (st, Inl e) \<Rightarrow> send_error_response env ctx p command_id (re_class env e) (exc_text e) st
              | (st, Inr result) \<Rightarrow>
                  respond_to env ctx p (''command '' @ command_name @ '' ok'') (\<lambda>now.
                    [(''command_id'', JStr command_id), (''ok'', JBool True), (''responded_at'', JStr now),
                     (''result'', result)]) st))"

definition maybe_handle :: "'w receiver_env \<Rightarrow> received_packet \<Rightarrow> 'w command_context \<Rightarrow> ('w, bool) action" where
  "maybe_handle env p ctx st =
     (if rv_arqs_type p = Some type_command_response then handle_response p st
      else if rv_arqs_type p \<noteq> Some type_command then (st, Inr False)
      else handle_command env p ctx st)"

section \<open>Receiving\<close>

text \<open>The body of a packet: a string or \<open>null\<close>.\<close>

definition body_text :: "json \<Rightarrow> string option" where
  "body_text v = (case v of JStr s \<Rightarrow> Some s | _ \<Rightarrow> None)"

definition to_received_packet :: "pylib \<Rightarrow> time \<Rightarrow> client_delivery \<Rightarrow> py_exc + received_packet" where
  "to_received_packet lib now d =
     (let p = cd_packet d; body = body_text (cp_body p) in
      try_then (decode_packet_view lib body (cp_headers p)) (\<lambda>decoded.
      try_then (render_packet_text lib body (cp_data p) (cp_headers p)) (\<lambda>text.
        Inr \<lparr>rv_delivery_id = cd_delivery_id d, rv_packet_id = cp_packet_id p,
          rv_from_endpoint_id = cp_from_endpoint_id p, rv_to_endpoint_id = cp_to_endpoint_id p,
          rv_arqs_type = get_packet_type (cp_headers p), rv_headers = cp_headers p, rv_body = body,
          rv_text = (if text \<noteq> [] \<and> text \<noteq> ''[empty message]'' then Some text else dv_body_text decoded),
          rv_data = cp_data p, rv_meta = cp_meta p, rv_created_at = cp_created_at p, rv_received_at = now,
          rv_decode_errors = dv_errors decoded\<rparr>)))"

fun run_handlers :: "'w handler list \<Rightarrow> received_packet \<Rightarrow> 'w command_context \<Rightarrow> ('w, unit) action" where
  "run_handlers [] p ctx st = (st, Inr ())"
| "run_handlers (h # hs) p ctx st = then_do (h p ctx) (\<lambda>_. run_handlers hs p ctx) st"

definition dispatch_handlers :: "'w receiver_env \<Rightarrow> received_packet \<Rightarrow> 'w command_context \<Rightarrow> ('w, unit) action" where
  "dispatch_handlers env p ctx =
     run_handlers (re_handlers env (case rv_arqs_type p of None \<Rightarrow> [] | Some t \<Rightarrow> t) @ re_handlers env ''*'') p ctx"

definition ack_delivery :: "'w receiver_env \<Rightarrow> string \<Rightarrow> string \<Rightarrow> ('w, unit) action" where
  "ack_delivery env delivery_id ack_status st =
     (case re_ack env (as_world st) delivery_id ack_status of
        (w, Inl e) \<Rightarrow> (st\<lparr>as_world := w\<rparr>, Inl e)
      | (w, Inr _) \<Rightarrow> (st\<lparr>as_world := w, as_acked := True\<rparr>, Inr ()))"

definition reply_to :: "'w receiver_env \<Rightarrow> received_packet \<Rightarrow> reply_args \<Rightarrow> ('w, unit) action" where
  "reply_to env p a st =
     (case re_reply env (as_world st) (rv_to_endpoint_id p) (rv_from_endpoint_id p) a of
        (w, r) \<Rightarrow> (st\<lparr>as_world := w\<rparr>, r))"

definition context_of :: "'w receiver_env \<Rightarrow> contact option \<Rightarrow> client_delivery \<Rightarrow> received_packet \<Rightarrow> 'w command_context" where
  "context_of env contact d p =
     \<lparr>cx_contact = contact, cx_delivery = d, cx_packet = p, cx_ack = ack_delivery env (cd_delivery_id d),
      cx_reply = reply_to env p\<rparr>"

text \<open>The body of the \<open>try\<close>.\<close>

definition dispatch_packet :: "'w receiver_env \<Rightarrow> contact option \<Rightarrow> client_delivery \<Rightarrow> received_packet \<Rightarrow> ('w, unit) action" where
  "dispatch_packet env contact d p =
     (let ctx = context_of env contact d p in
      then_do (maybe_handle env p ctx) (\<lambda>_. dispatch_handlers env p ctx))"

definition ack_policy :: "dict \<Rightarrow> string" where
  "ack_policy config =
     (case map_of config ''ack_policy'' of None \<Rightarrow> ''after_handler_success'' | Some v \<Rightarrow> str_value v)"

text \<open>The \<open>except\<close> and \<open>else\<close> branches.\<close>

definition after_dispatch ::
  "'w receiver_env \<Rightarrow> string \<Rightarrow> client_delivery \<Rightarrow> 'w app_session \<times> (py_exc + unit) \<Rightarrow> 'w app_session \<times> (py_exc + unit)" where
  "after_dispatch env policy d result =
     (case result of
        (st, Inl e) \<Rightarrow>
          if policy = ''always'' \<and> \<not> as_acked st
          then then_do (ack_delivery env (cd_delivery_id d) ''failed'') (\<lambda>_ st. (st, Inl e)) st
          else (st, Inl e)
      | (st, Inr _) \<Rightarrow>
          let st = st\<lparr>as_handled := cd_delivery_id d # as_handled st\<rparr> in
          if policy \<in> {''after_handler_success'', ''always''} \<and> \<not> as_acked st
          then ack_delivery env (cd_delivery_id d) ''handled'' st
          else (st, Inr ()))"

definition handle_delivery :: "'w receiver_env \<Rightarrow> client_delivery \<Rightarrow> received_packet \<Rightarrow> ('w, unit) action" where
  "handle_delivery env d p st =
     (let policy = ack_policy (re_config env);
          st = st\<lparr>as_acked := False\<rparr>
      in case resolve_by_remote_endpoint (re_codec env) (re_now env (as_world st)) (rv_from_endpoint_id p)
              (re_contacts env (as_world st)) of
           Inl e \<Rightarrow> (st, Inl e)
         | Inr contact \<Rightarrow>
             then_do (\<lambda>st. if policy = ''after_store''
                  then ack_delivery env (cd_delivery_id d) ''handled'' (st\<lparr>as_inbox := store_received p (as_inbox st)\<rparr>)
                  else (st, Inr ()))
               (\<lambda>_ st. after_dispatch env policy d (dispatch_packet env contact d p st)) st)"

fun handle_deliveries :: "'w receiver_env \<Rightarrow> client_delivery list \<Rightarrow> ('w, received_packet list) action" where
  "handle_deliveries env [] st = (st, Inr [])"
| "handle_deliveries env (d # ds) st =
     (case to_received_packet (re_lib env) (re_now env (as_world st)) d of
        Inl e \<Rightarrow> (st, Inl e)
      | Inr p \<Rightarrow>
          then_do (handle_delivery env d p) (\<lambda>_.
          then_do (handle_deliveries env ds) (\<lambda>ps st. (st, Inr (p # ps)))) st)"

definition config_number :: "dict \<Rightarrow> string \<Rightarrow> int \<Rightarrow> py_exc + int" where
  "config_number config key alternative =
     (case map_of config key of None \<Rightarrow> Inr alternative | Some v \<Rightarrow> client_int v)"

definition poll_once :: "'w receiver_env \<Rightarrow> int option \<Rightarrow> int option \<Rightarrow> ('w, received_packet list) action" where
  "poll_once env wait limit st =
     (case try_then (case wait of Some n \<Rightarrow> Inr n | None \<Rightarrow> config_number (re_config env) ''poll_wait_seconds'' 20) (\<lambda>wait.
           try_then (case limit of Some n \<Rightarrow> Inr n | None \<Rightarrow> config_number (re_config env) ''poll_limit'' 100) (\<lambda>limit.
             Inr (wait, limit))) of
        Inl e \<Rightarrow> (st, Inl e)
      | Inr (wait, limit) \<Rightarrow>
          (case re_poll env (as_world st) wait limit of
             (w, Inl e) \<Rightarrow> (st\<lparr>as_world := w\<rparr>, Inl e)
           | (w, Inr ds) \<Rightarrow> handle_deliveries env ds (st\<lparr>as_world := w\<rparr>)))"

text \<open>\<open>n\<close> is the number of turns until the stop event is seen.\<close>

fun poll_forever :: "'w receiver_env \<Rightarrow> int option \<Rightarrow> int option \<Rightarrow> nat \<Rightarrow> ('w, unit) action" where
  "poll_forever env wait limit 0 st = (st, Inr ())"
| "poll_forever env wait limit (Suc n) st =
     then_do (poll_once env wait limit) (\<lambda>_. poll_forever env wait limit n) st"

end
