(* ===== verification/App.thy ===== *)
theory App
  imports Receiver Transport
begin

text \<open>
  The application object of AppKit, \<open>src/apis/appkit/app.py\<close>, with the commands it sends
  (\<open>commands.py\<close>) and the notifications built on it (\<open>notifier.py\<close>): which endpoints a packet goes
  between, how a packet is built, and the three ways of sending it. \<open>send\<close> is the client's
  \<open>send_packet\<close>. The start of the outbox thread is the effect \<open>True\<close> in the answer of a background send.
\<close>

section \<open>Routes\<close>

record app_context =
  ax_app_name :: string
  ax_config :: dict
  ax_contacts :: dict
  ax_codec :: iso_codec
  ax_now :: time
  ax_default_endpoint :: "string option"

definition config_word :: "dict \<Rightarrow> string \<Rightarrow> string \<Rightarrow> string" where
  "config_word config key alternative = str_or alternative (dict_get config key)"

definition config_int :: "dict \<Rightarrow> string \<Rightarrow> int \<Rightarrow> py_exc + int" where
  "config_int config key alternative =
     (case map_of config key of None \<Rightarrow> Inr alternative
      | Some v \<Rightarrow> if none_or_empty v then Inr alternative else client_int v)"

text \<open>The truth of an optional string.\<close>

definition given :: "string option \<Rightarrow> bool" where
  "given v \<longleftrightarrow> v \<noteq> None \<and> v \<noteq> Some []"

definition default_endpoint_id :: "app_context \<Rightarrow> py_exc + string" where
  "default_endpoint_id ax = or_value_error ''identity is not configured'' (ax_default_endpoint ax)"

definition named_contact :: "app_context \<Rightarrow> string \<Rightarrow> string \<Rightarrow> py_exc + contact" where
  "named_contact ax label missing =
     try_then (get_contact (ax_codec ax) (ax_now ax) label (ax_contacts ax)) (\<lambda>c.
       case c of None \<Rightarrow> Inl (KeyError missing) | Some c \<Rightarrow> Inr c)"

definition from_or_default :: "app_context \<Rightarrow> string option \<Rightarrow> string \<Rightarrow> py_exc + string \<times> string" where
  "from_or_default ax source destination =
     (case source of
        Some (x # xs) \<Rightarrow> Inr (x # xs, destination)
      | _ \<Rightarrow> try_then (default_endpoint_id ax) (\<lambda>i. Inr (i, destination)))"

definition resolve_route ::
  "app_context \<Rightarrow> string option \<Rightarrow> string option \<Rightarrow> string option \<Rightarrow> py_exc + string \<times> string" where
  "resolve_route ax contact from_endpoint_id to_endpoint_id =
     (if given contact \<and> (given from_endpoint_id \<or> given to_endpoint_id) then
        Inl (ValueError ''contact cannot be combined with raw endpoint IDs'')
      else if given contact then
        try_then (named_contact ax (the contact) (''unknown contact: '' @ the contact)) (\<lambda>c.
          Inr (co_local_endpoint_id c, co_remote_endpoint_id c))
      else if given to_endpoint_id then from_or_default ax from_endpoint_id (the to_endpoint_id)
      else let label = strip (config_word (ax_config ax) ''default_contact'' []) in
        if label = [] then
          Inl (ValueError ''destination is required: set default_contact or pass contact/to_endpoint_id explicitly'')
        else try_then (named_contact ax label (''default contact '' @ repr_str label @ '' is missing from contacts.json'')) (\<lambda>c.
          from_or_default ax (if given from_endpoint_id then from_endpoint_id else Some (co_local_endpoint_id c))
            (co_remote_endpoint_id c)))"

section \<open>Sending\<close>

record type_args =
  ty_arqs_type :: string
  ty_body :: "string option"
  ty_data :: dict
  ty_contact :: "string option"
  ty_from :: "string option"
  ty_to :: "string option"
  ty_delivery_mode :: "string option"
  ty_retry_policy :: "string option"
  ty_max_attempts :: "int option"
  ty_expires_after :: "int option"
  ty_extra_headers :: dict
  ty_meta :: dict
  ty_content_type :: "string option"
  ty_correlation_id :: "string option"
  ty_causation_id :: "string option"

text \<open>The keyword defaults of \<open>send_type\<close>.\<close>

definition plain_args :: "string \<Rightarrow> string option \<Rightarrow> dict \<Rightarrow> type_args" where
  "plain_args t body data = \<lparr>ty_arqs_type = t, ty_body = body, ty_data = data, ty_contact = None, ty_from = None,
     ty_to = None, ty_delivery_mode = None, ty_retry_policy = None, ty_max_attempts = None, ty_expires_after = None,
     ty_extra_headers = [], ty_meta = [], ty_content_type = None, ty_correlation_id = None, ty_causation_id = None\<rparr>"

definition word_or :: "string option \<Rightarrow> string \<Rightarrow> string" where
  "word_or v alternative = (if given v then the v else alternative)"

text \<open>Everything before the packet is handed over: the arguments of \<open>enqueue\<close>, and the mode.\<close>

definition prepare_packet :: "app_context \<Rightarrow> type_args \<Rightarrow> py_exc + string \<times> enqueue_args" where
  "prepare_packet ax a =
     (if falsy_body (ty_body a) \<and> ty_data a = [] then
        Inl (ValueError ''at least one of body or non-empty data must be present'')
      else try_then (resolve_route ax (ty_contact a) (ty_from a) (ty_to a)) (\<lambda>(src, dst).
        try_then (case ty_max_attempts a of Some n \<Rightarrow> Inr n | None \<Rightarrow> config_int (ax_config ax) ''max_attempts'' 20) (\<lambda>attempts.
        try_then (case ty_expires_after a of Some n \<Rightarrow> Inr n
            | None \<Rightarrow> config_int (ax_config ax) ''expires_after_seconds'' 86400) (\<lambda>expires.
        try_then (build_v1_headers (ty_arqs_type a)
            ((v1_defaults (word_or (ty_content_type a)
                (if ty_data a \<noteq> [] then ''application/json'' else ''text/plain; charset=utf-8'')))
              \<lparr>vo_correlation_id := ty_correlation_id a, vo_causation_id := ty_causation_id a,
               vo_extra_headers := ty_extra_headers a\<rparr>)) (\<lambda>headers.
          Inr (word_or (ty_delivery_mode a) (config_word (ax_config ax) ''delivery_mode'' ''queued''),
            \<lparr>eq_from_endpoint_id = src, eq_to_endpoint_id = dst, eq_headers = headers, eq_body = ty_body a,
             eq_data = ty_data a, eq_meta = build_client_meta (''appkit/'' @ ax_app_name ax) None (ty_meta a),
             eq_retry_policy = word_or (ty_retry_policy a) (config_word (ax_config ax) ''retry_policy'' ''until_expired''),
             eq_max_attempts = Some attempts, eq_expires_after_seconds = Some expires, eq_packet_id = None\<rparr>))))))"

text \<open>\<open>uuid4 2\<close> is the identifier that the client draws for a direct send.\<close>

definition direct_args :: "(nat \<Rightarrow> string) \<Rightarrow> enqueue_args \<Rightarrow> send_args" where
  "direct_args uuid4 q = \<lparr>sa_from_endpoint_id = eq_from_endpoint_id q, sa_to_endpoint_id = eq_to_endpoint_id q,
     sa_body = eq_body q, sa_data = eq_data q, sa_headers = eq_headers q, sa_meta = eq_meta q, sa_packet_id = uuid4 2\<rparr>"

definition direct_result :: "packet_send_result \<Rightarrow> send_result" where
  "direct_result r = \<lparr>sr_packet_id = sp_packet_id r, sr_delivery_mode = ''direct'', sr_status = sp_result r,
     sr_delivery_id = sp_delivery_id r, sr_expires_at = sp_expires_at r, sr_outbox_id = None, sr_attempts = 1,
     sr_error = None\<rparr>"

definition waiting_result :: "string \<Rightarrow> string \<Rightarrow> outbox_entry \<Rightarrow> send_result" where
  "waiting_result mode status e = \<lparr>sr_packet_id = ob_packet_id e, sr_delivery_mode = mode, sr_status = status,
     sr_delivery_id = None, sr_expires_at = None, sr_outbox_id = Some (ob_outbox_id e), sr_attempts = 0, sr_error = None\<rparr>"

definition send_type ::
  "'w sender \<Rightarrow> (nat \<Rightarrow> time) \<Rightarrow> int \<Rightarrow> (nat \<Rightarrow> string) \<Rightarrow> app_context \<Rightarrow> type_args \<Rightarrow> 'w \<times> outbox
   \<Rightarrow> ('w \<times> outbox) \<times> bool \<times> (py_exc + send_result)" where
  "send_type send clock jitter uuid4 ax a st =
     (case prepare_packet ax a of
        Inl e \<Rightarrow> (st, False, Inl e)
      | Inr (mode, q) \<Rightarrow>
          if mode = ''direct'' then
            (case send (fst st) (direct_args uuid4 q) of (w, r) \<Rightarrow> ((w, snd st), False, map_sum id direct_result r))
          else (case enqueue (ax_now ax) uuid4 q (snd st) of
              (rows, Inl e) \<Rightarrow> ((fst st, rows), False, Inl e)
            | (rows, Inr entry) \<Rightarrow>
                if mode = ''background'' then
                  ((fst st, rows), True, Inr (waiting_result ''background'' ''background_queued'' entry))
                else (case flush_packet send clock jitter (ob_packet_id entry) (fst st, rows) of
                    (st, flushed) \<Rightarrow>
                      (st, False, Inr (if sr_status flushed = ''missing'' then waiting_result ''queued'' ''queued'' entry
                         else flushed)))))"

section \<open>Reactions\<close>

record reaction_args =
  rn_for_packet_id :: string
  rn_action :: string
  rn_emoji :: "string option"
  rn_emoji_name :: "string option"
  rn_reaction_id :: "string option"
  rn_reaction_key :: "string option"
  rn_source_platform :: string
  rn_source_user_id :: "string option"
  rn_reacted_at :: "string option"
  rn_emoji_id :: "string option"
  rn_animated :: "bool option"
  rn_source_message_id :: "string option"

text \<open>\<open>None if v in (None, "") else str(v).strip()\<close>.\<close>

definition stripped :: "string option \<Rightarrow> string option" where
  "stripped v = (if given v then Some (strip (the v)) else None)"

definition put_given :: "string \<Rightarrow> string option \<Rightarrow> dict \<Rightarrow> dict" where
  "put_given k v d = (if given v then dict_put k (JStr (the v)) d else d)"

definition uuid_text_of :: "string \<Rightarrow> py_exc + string" where
  "uuid_text_of s = or_value_error ''badly formed hexadecimal UUID string'' (parse_uuid s)"

text \<open>The data of a reaction packet, with the identifier of the packet and the action it is for.\<close>

definition reaction_data ::
  "pylib \<Rightarrow> string \<Rightarrow> (nat \<Rightarrow> string) \<Rightarrow> app_context \<Rightarrow> reaction_args \<Rightarrow> py_exc + string \<times> string \<times> dict" where
  "reaction_data lib now uuid4 ax a =
     try_then (uuid_text_of (rn_for_packet_id a)) (\<lambda>packet_id.
     let action = lower (strip (rn_action a)); emoji = stripped (rn_emoji a); emoji_name = stripped (rn_emoji_name a);
         platform = (if rn_source_platform a = [] then ''appkit'' else rn_source_platform a);
         user = word_or (rn_source_user_id a) (ax_app_name ax);
         key = strip (word_or (rn_reaction_key a) [])
     in if action \<notin> {''set'', ''remove''} then Inl (ValueError (''reaction action must be '' @ quoted ''set'' @ '' or '' @ quoted ''remove''))
        else if \<not> given emoji \<and> \<not> given emoji_name then Inl (ValueError ''one of emoji or emoji_name is required'')
        else try_then (if key \<noteq> [] then Inr key
            else build_reaction_key lib (JStr packet_id) platform user emoji emoji_name (rn_emoji_id a)) (\<lambda>key.
          try_then (if given (rn_reaction_id a) then uuid_text_of (the (rn_reaction_id a)) else Inr (uuid4 3)) (\<lambda>reaction_id.
          let data = [(''reaction_id'', JStr reaction_id), (''reaction_key'', JStr key), (''for_packet_id'', JStr packet_id),
                (''action'', JStr action), (''emoji_name'', JStr (strip (word_or emoji_name (word_or emoji [])))),
                (''source_platform'', JStr platform), (''source_user_id'', JStr user),
                (''reacted_at'', JStr (word_or (rn_reacted_at a) now))];
              data = put_given ''emoji'' emoji data;
              data = put_given ''emoji_id'' (rn_emoji_id a) data;
              data = (case rn_animated a of None \<Rightarrow> data | Some b \<Rightarrow> dict_put ''animated'' (JBool b) data)
          in Inr (packet_id, action, put_given ''source_message_id'' (rn_source_message_id a) data))))"

text \<open>\<open>send_reaction\<close>: \<open>a\<close> are the arguments of the reaction, \<open>t\<close> those it passes on to \<open>send_type\<close>.\<close>

definition reaction_type_args :: "pylib \<Rightarrow> string \<Rightarrow> (nat \<Rightarrow> string) \<Rightarrow> app_context \<Rightarrow> reaction_args \<Rightarrow> type_args \<Rightarrow> py_exc + type_args" where
  "reaction_type_args lib now uuid4 ax a t =
     try_then (reaction_data lib now uuid4 ax a) (\<lambda>(packet_id, action, data).
       Inr (t\<lparr>ty_arqs_type := type_reaction, ty_data := data,
         ty_body := Some (case render_reaction_text data of Some (x # xs) \<Rightarrow> x # xs | _ \<Rightarrow> ''reaction '' @ action),
         ty_content_type := Some ''application/json'', ty_causation_id := Some packet_id\<rparr>))"

definition send_reaction ::
  "'w sender \<Rightarrow> (nat \<Rightarrow> time) \<Rightarrow> int \<Rightarrow> (nat \<Rightarrow> string) \<Rightarrow> pylib \<Rightarrow> string \<Rightarrow> app_context \<Rightarrow> reaction_args \<Rightarrow> type_args
   \<Rightarrow> 'w \<times> outbox \<Rightarrow> ('w \<times> outbox) \<times> bool \<times> (py_exc + send_result)" where
  "send_reaction send clock jitter uuid4 lib now ax a t st =
     (case reaction_type_args lib now uuid4 ax a t of
        Inl e \<Rightarrow> (st, False, Inl e)
      | Inr t' \<Rightarrow> send_type send clock jitter uuid4 ax t' st)"

section \<open>Notifications\<close>

record notification_args =
  no_title :: string
  no_body :: string
  no_level :: string
  no_data :: dict
  no_contact :: "string option"
  no_delivery_mode :: "string option"
  no_retry_policy :: "string option"
  no_dedupe_key :: "string option"
  no_dedupe_window :: "int option"
  no_priority :: "string option"
  no_tags :: "string list"
  no_script :: "string option"

definition none_unless_given :: "string option \<Rightarrow> json" where
  "none_unless_given v = (if given v then JStr (the v) else JNull)"

definition notification_data :: "string \<Rightarrow> string \<Rightarrow> string \<Rightarrow> string \<Rightarrow> notification_args \<Rightarrow> dict" where
  "notification_data app_name host now notification_id a =
     dict_update (no_data a)
       [(''body'', JStr (no_body a)), (''created_at'', JStr now), (''dedupe_key'', none_unless_given (no_dedupe_key a)),
        (''dedupe_window_seconds'', case no_dedupe_window a of None \<Rightarrow> JNull | Some n \<Rightarrow> JInt n), (''host'', JStr host),
        (''level'', JStr (no_level a)), (''notification_id'', JStr notification_id),
        (''priority'', none_unless_given (no_priority a)), (''script'', none_unless_given (no_script a)),
        (''source'', JStr app_name), (''tags'', JList (map JStr (no_tags a))), (''title'', JStr (no_title a))]"

definition notification_type_args :: "string \<Rightarrow> string \<Rightarrow> string \<Rightarrow> string \<Rightarrow> notification_args \<Rightarrow> type_args" where
  "notification_type_args app_name host now notification_id a =
     (plain_args ''notification.v1'' (Some (no_title a @ '': '' @ no_body a))
        (notification_data app_name host now notification_id a))
       \<lparr>ty_contact := no_contact a, ty_delivery_mode := no_delivery_mode a, ty_retry_policy := no_retry_policy a,
        ty_content_type := Some ''application/json''\<rparr>"

definition script_success_args :: "string \<Rightarrow> string \<Rightarrow> dict \<Rightarrow> string option \<Rightarrow> string option \<Rightarrow> notification_args" where
  "script_success_args script summary data contact delivery_mode =
     \<lparr>no_title = script @ '' succeeded'', no_body = summary, no_level = ''success'',
      no_data = dict_put ''status'' (JStr ''success'') (dict_put ''script'' (JStr script) data), no_contact = contact,
      no_delivery_mode = delivery_mode, no_retry_policy = None, no_dedupe_key = None, no_dedupe_window = None,
      no_priority = None, no_tags = [], no_script = Some script\<rparr>"

text \<open>\<open>error\<close> and \<open>error_type\<close> are the text and the class of the exception, \<open>trace\<close> its traceback.\<close>

definition script_failure_type_args ::
  "string \<Rightarrow> string \<Rightarrow> string \<Rightarrow> string \<Rightarrow> string \<Rightarrow> string \<Rightarrow> bool \<Rightarrow> string option \<Rightarrow> string option \<Rightarrow> type_args" where
  "script_failure_type_args now failure_id script error error_type trace include_traceback contact delivery_mode =
     (let trace = (if include_traceback then trace else []) in
      (plain_args (if include_traceback then ''script.failure.traceback.v1'' else ''script.failure.v1'')
         (Some (if trace \<noteq> [] then trace else script @ '' failed: '' @ error))
         [(''created_at'', JStr now), (''error_message'', JStr error), (''error_type'', JStr error_type),
          (''failure_id'', JStr failure_id), (''script'', JStr script),
          (''traceback_encoding'', if include_traceback then JStr ''plain'' else JNull),
          (''traceback_included'', JBool include_traceback)])
        \<lparr>ty_contact := contact, ty_delivery_mode := delivery_mode, ty_content_type := Some ''application/json''\<rparr>)"

end
