(* ===== verification/AppRuntime.thy ===== *)
theory AppRuntime
  imports App Credentials
begin

text \<open>
  The life of an \<open>ARQSApp\<close> of \<open>src/apis/appkit/app.py\<close> and its senders of commands (\<open>commands.py\<close>): the
  configuration, the transport it settles on, registration, the default endpoint, link codes. Files are the
  values they hold. The world \<open>'w\<close> holds the server, and the client's requests are functions of it.
\<close>

section \<open>State\<close>

record 'w app_runtime =
  rt_world :: 'w
  rt_config :: dict
  rt_config_file :: dict
  rt_identity_file :: "string option"
  rt_contacts :: dict
  rt_client :: "arqs_client option"
  rt_identity :: "node_identity option"

type_synonym ('w, 'a) app_action = "'w app_runtime \<Rightarrow> 'w app_runtime \<times> (py_exc + 'a)"

text \<open>\<open>ah_probe\<close> is the opener of the probes, \<open>ah_urljoin\<close> \<open>urllib.parse.urljoin\<close>; the time-outs are in microseconds.\<close>

record 'w app_host =
  ah_app_name :: string
  ah_urlopen :: "'w opener"
  ah_probe :: "'w opener"
  ah_urljoin :: "string \<Rightarrow> string \<Rightarrow> string"
  ah_probe_timeout :: time
  ah_codec :: iso_codec
  ah_now :: "'w \<Rightarrow> time"
  ah_uuid4 :: "'w \<Rightarrow> string"

definition settled :: "'a \<Rightarrow> ('w, 'a) app_action" where
  "settled x rt = (rt, Inr x)"

definition raising :: "py_exc + 'a \<Rightarrow> ('w, 'a) app_action" where
  "raising r rt = (rt, r)"

definition assign :: "('w app_runtime \<Rightarrow> 'w app_runtime) \<Rightarrow> ('w, unit) app_action" where
  "assign f rt = (f rt, Inr ())"

text \<open>A request of the client, which there is.\<close>

definition client_call :: "('w \<times> arqs_client \<Rightarrow> ('w, 'a) call_result) \<Rightarrow> ('w, 'a) app_action" where
  "client_call f rt =
     (case rt_client rt of
        None \<Rightarrow> (rt, Inl (OtherException ''no client''))
      | Some c \<Rightarrow> (case f (rt_world rt, c) of ((w, c), r) \<Rightarrow> (rt\<lparr>rt_world := w, rt_client := Some c\<rparr>, r)))"

section \<open>Starting\<close>

definition missing_url :: "string \<Rightarrow> py_exc" where
  "missing_url app_name = ValueError (''AppKit app '' @ repr_str app_name
     @ '' is missing base_url; run setup or pass base_url when constructing ARQSApp'')"

text \<open>\<open>load_identity\<close> of the store.\<close>

definition stored_identity :: "string option \<Rightarrow> py_exc + node_identity option" where
  "stored_identity file =
     (case file of None \<Rightarrow> Inr None | Some raw \<Rightarrow> try_then (load_identity raw) (\<lambda>i. Inr (Some i)))"

definition keep_identity :: "node_identity \<Rightarrow> ('w, unit) app_action" where
  "keep_identity i = assign (\<lambda>rt. rt\<lparr>rt_identity := Some i, rt_identity_file := Some (save_identity i)\<rparr>)"

definition adopt :: "node_identity \<Rightarrow> ('w, unit) app_action" where
  "adopt i = assign (\<lambda>rt. rt\<lparr>rt_client := map_option (adopt_identity i) (rt_client rt)\<rparr>)"

definition find_or_create_default_endpoint ::
  "'w app_host \<Rightarrow> client_endpoint list \<Rightarrow> ('w, client_endpoint) app_action" where
  "find_or_create_default_endpoint h es rt =
     (let wanted_name = config_word (rt_config rt) ''default_endpoint_name'' ''default'';
          wanted_kind = config_word (rt_config rt) ''default_endpoint_kind'' ''message''
      in case find (\<lambda>e. ce_endpoint_name e = JStr wanted_name) es of
           Some e \<Rightarrow> (rt, Inr e)
         | None \<Rightarrow> client_call (client_create_endpoint (ah_urlopen h) (ic_read (ah_codec h)) (Some wanted_name)
             (Some wanted_kind) (JObj [(''app_name'', JStr (ah_app_name h))])) rt)"

definition replace_identity_default_endpoint :: "node_identity \<Rightarrow> string \<Rightarrow> py_exc + node_identity" where
  "replace_identity_default_endpoint i endpoint_id =
     try_then (uuid_text_of endpoint_id) (\<lambda>e. Inr (i\<lparr>ni_default_endpoint_id := e\<rparr>))"

definition ensure_default_endpoint :: "'w app_host \<Rightarrow> ('w, unit) app_action" where
  "ensure_default_endpoint h =
     then_do (client_call (client_list_endpoints (ah_urlopen h) (ic_read (ah_codec h)))) (\<lambda>es rt.
       if list_ex (\<lambda>e. map_option ni_default_endpoint_id (rt_identity rt) = Some (ce_endpoint_id e)) es then (rt, Inr ())
       else then_do (find_or_create_default_endpoint h es) (\<lambda>e rt.
         case rt_identity rt of
           None \<Rightarrow> (rt, Inl (ValueError ''identity is not configured''))
         | Some i \<Rightarrow>
             then_do (raising (replace_identity_default_endpoint i (ce_endpoint_id e))) (\<lambda>i.
             then_do (keep_identity i) (\<lambda>_. adopt i)) rt) rt)"

definition preference_texts :: "dict \<Rightarrow> (string \<times> string) list" where
  "preference_texts d = map (\<lambda>kv. (fst kv, str_or_empty (snd kv))) d"

text \<open>The transport that the resolver chooses, remembered in the configuration.\<close>

definition settle_transport :: "'w app_host \<Rightarrow> string \<Rightarrow> ('w, transport_resolution) app_action" where
  "settle_transport h base_url rt =
     then_do (raising (as_dict (dict_get (rt_config rt) ''transport_preferences''))) (\<lambda>preferences rt.
       case resolve_transport (ah_probe h) (ah_urljoin h) (ah_probe_timeout h) base_url
           (config_word (rt_config rt) ''transport_policy'' ''prefer_https'') (preference_texts preferences) (rt_world rt) of
         (w, Inl e) \<Rightarrow> (rt\<lparr>rt_world := w\<rparr>, Inl e)
       | (w, Inr found) \<Rightarrow>
           let config = dict_put ''transport_preferences''
             (JObj (dict_update preferences (map (\<lambda>kv. (fst kv, JStr (snd kv))) (tr_preference_updates found))))
             (rt_config rt)
           in (rt\<lparr>rt_world := w, rt_config := config, rt_config_file := save_app_config (ah_app_name h) config\<rparr>,
               Inr found)) rt"

definition client_for :: "transport_resolution \<Rightarrow> py_exc + arqs_client" where
  "client_for r = new_client (tr_base_url r) None (seconds 30) default_api_key_header ''arqs_api.py/1.0''
     (tr_transport_policy r) (tr_allow_local_http_auth r) False"

definition register_or_adopt :: "'w app_host \<Rightarrow> node_identity option \<Rightarrow> ('w, unit) app_action" where
  "register_or_adopt h known rt =
     (case known of
        Some i \<Rightarrow> then_do (assign (\<lambda>rt. rt\<lparr>rt_identity := Some i\<rparr>)) (\<lambda>_. adopt i) rt
      | None \<Rightarrow>
          then_do (assign (\<lambda>rt. rt\<lparr>rt_identity := None\<rparr>)) (\<lambda>_.
          then_do (client_call (client_register (ah_urlopen h)
            (Some (config_word (rt_config rt) ''node_name'' (ah_app_name h))) True)) keep_identity) rt)"

definition initialize_runtime :: "'w app_host \<Rightarrow> bool \<Rightarrow> ('w, unit) app_action" where
  "initialize_runtime h force rt =
     (let base_url = strip (config_word (rt_config rt) ''base_url'' []) in
      if rt_client rt \<noteq> None \<and> \<not> force then (rt, Inr ())
      else if base_url = [] then
        then_do (raising (stored_identity (rt_identity_file rt))) (\<lambda>i. assign (\<lambda>rt. rt\<lparr>rt_identity := i\<rparr>))
          (rt\<lparr>rt_client := None\<rparr>)
      else then_do (settle_transport h base_url) (\<lambda>r.
        then_do (raising (client_for r)) (\<lambda>c.
        then_do (assign (\<lambda>rt. rt\<lparr>rt_client := Some c\<rparr>)) (\<lambda>_ rt.
        then_do (raising (stored_identity (rt_identity_file rt))) (\<lambda>known.
        then_do (register_or_adopt h known) (\<lambda>_. ensure_default_endpoint h)) rt))) rt)"

definition require_client :: "'w app_host \<Rightarrow> ('w, unit) app_action" where
  "require_client h rt =
     (if rt_client rt \<noteq> None then (rt, Inr ())
      else then_do (initialize_runtime h False) (\<lambda>_ rt.
        if rt_client rt = None then (rt, Inl (missing_url (ah_app_name h))) else (rt, Inr ())) rt)"

text \<open>\<open>{key: value ... if value is not None}\<close>.\<close>

definition given_updates :: "dict \<Rightarrow> dict" where
  "given_updates updates = filter (\<lambda>kv. snd kv \<noteq> JNull) updates"

definition setup_app :: "'w app_host \<Rightarrow> bool \<Rightarrow> dict \<Rightarrow> ('w, unit) app_action" where
  "setup_app h save updates rt =
     (let config = dict_update (rt_config rt) (given_updates updates);
          rt = rt\<lparr>rt_config := config\<rparr>
      in initialize_runtime h True
           (if save then rt\<lparr>rt_config_file := save_app_config (ah_app_name h) config\<rparr> else rt))"

text \<open>The constructor: \<open>file\<close> is the configuration on disk, \<open>overrides\<close> are the keyword arguments.\<close>

definition new_app :: "'w app_host \<Rightarrow> dict \<Rightarrow> string option \<Rightarrow> dict \<Rightarrow> dict \<Rightarrow> 'w \<Rightarrow> 'w app_runtime \<times> (py_exc + unit)" where
  "new_app h file identity_file contacts overrides w =
     (let loaded = load_app_config (ah_app_name h) file;
          config = dict_update loaded (given_updates overrides)
      in initialize_runtime h False
           \<lparr>rt_world = w, rt_config = config,
            rt_config_file = (if overrides = [] then file else save_app_config (ah_app_name h) config),
            rt_identity_file = identity_file, rt_contacts = contacts, rt_client = None, rt_identity = None\<rparr>)"

section \<open>Endpoints and links\<close>

definition own_default_endpoint :: "'w app_host \<Rightarrow> ('w, string) app_action" where
  "own_default_endpoint h =
     then_do (\<lambda>rt. if rt_identity rt = None then initialize_runtime h False rt else (rt, Inr ())) (\<lambda>_ rt.
       (rt, or_value_error ''identity is not configured'' (map_option ni_default_endpoint_id (rt_identity rt))))"

definition endpoint_or_default :: "'w app_host \<Rightarrow> string option \<Rightarrow> ('w, string) app_action" where
  "endpoint_or_default h i = (if given i then settled (the i) else own_default_endpoint h)"

definition app_request_link_code :: "'w app_host \<Rightarrow> string option \<Rightarrow> string \<Rightarrow> ('w, client_link_code) app_action" where
  "app_request_link_code h source_endpoint_id requested_mode =
     then_do (require_client h) (\<lambda>_.
     then_do (endpoint_or_default h source_endpoint_id) (\<lambda>i.
       client_call (client_request_link_code (ah_urlopen h) (ic_read (ah_codec h)) i requested_mode)))"

definition app_redeem_link_code ::
  "'w app_host \<Rightarrow> string \<Rightarrow> string \<Rightarrow> string option \<Rightarrow> ('w, contact) app_action" where
  "app_redeem_link_code h code label destination_endpoint_id =
     then_do (require_client h) (\<lambda>_.
     then_do (endpoint_or_default h destination_endpoint_id) (\<lambda>local.
     then_do (client_call (client_redeem_link_code (ah_urlopen h) (ic_read (ah_codec h)) code local)) (\<lambda>link rt.
       let remote = (if cl_endpoint_a_id link = local then cl_endpoint_b_id link else cl_endpoint_a_id link) in
       case upsert_contact (ah_codec h) (ah_now h (rt_world rt)) (ah_uuid4 h (rt_world rt)) label local remote
           (Some (cl_link_id link)) (cl_status link) (rt_contacts rt) of
         (raw, r) \<Rightarrow> (rt\<lparr>rt_contacts := raw\<rparr>, r))))"

section \<open>Sending a command and waiting for its response\<close>

definition command_type_args ::
  "string \<Rightarrow> string \<Rightarrow> string \<Rightarrow> string \<Rightarrow> dict \<Rightarrow> string option \<Rightarrow> string option \<Rightarrow> string option \<Rightarrow> string option \<Rightarrow> type_args" where
  "command_type_args now command_id correlation_id command args contact delivery_mode from_id to_id =
     (plain_args type_command (Some (''command '' @ command))
        [(''args'', JObj args), (''command'', JStr command), (''command_id'', JStr command_id), (''created_at'', JStr now)])
       \<lparr>ty_contact := contact, ty_from := from_id, ty_to := to_id, ty_delivery_mode := delivery_mode,
        ty_correlation_id := Some correlation_id\<rparr>"

text \<open>
  \<open>send_command\<close> up to the wait, and after it: the waiter is there when the packet goes out, the response that
  the receiver has set decides the result, and the waiter is gone at the end, an exception included.
\<close>

definition await_command :: "string \<Rightarrow> (string \<times> command_response option) list \<Rightarrow> (string \<times> command_response option) list" where
  "await_command correlation_id pending = (correlation_id, None) # pending"

definition begin_command ::
  "('s \<Rightarrow> type_args \<Rightarrow> 's \<times> (py_exc + send_result)) \<Rightarrow> bool \<Rightarrow> string \<Rightarrow> type_args
   \<Rightarrow> 's \<times> (string \<times> command_response option) list
   \<Rightarrow> ('s \<times> (string \<times> command_response option) list) \<times> (py_exc + send_result)" where
  "begin_command send wait_for_response correlation_id a st =
     (case send (fst st) a of
        (s, r) \<Rightarrow> ((s, if wait_for_response \<and> (case r of Inl _ \<Rightarrow> False | Inr _ \<Rightarrow> True)
          then await_command correlation_id (snd st) else snd st), r))"

definition end_command ::
  "string \<Rightarrow> (string \<times> command_response option) list
   \<Rightarrow> (string \<times> command_response option) list \<times> (py_exc + command_response)" where
  "end_command correlation_id pending =
     (filter (\<lambda>w. fst w \<noteq> correlation_id) pending,
      case map_of pending correlation_id of
        Some (Some response) \<Rightarrow> Inr response
      | _ \<Rightarrow> Inl (OtherException (''timed out waiting for command response for correlation_id '' @ correlation_id)))"

section \<open>A started application is ready\<close>

lemma then_do_Inr: "then_do a k st = (st', Inr y) \<longleftrightarrow> (\<exists>st1 x. a st = (st1, Inr x) \<and> k x st1 = (st', Inr y))"
  by (auto simp: then_do_def split: prod.splits sum.splits)

text \<open>What a client authenticates with.\<close>

definition credentials :: "arqs_client \<Rightarrow> string option \<times> node_identity option" where
  "credentials c = (ac_api_key c, ac_identity c)"

lemma credentials_simps [simp]:
  "credentials (emit_trace ev d c) = credentials c" "credentials (record_last_request u f c) = credentials c"
  "credentials (adopt_identity i c) = (Some (ni_api_key i), Some i)"
  by (simp_all add: credentials_def emit_trace_def record_last_request_def adopt_identity_def)

lemma read_outcome_credentials: "credentials (fst (read_outcome rq path out c)) = credentials c"
  by (simp add: read_outcome_def transport_failure_def Let_def split: http_outcome.split option.split)

lemma request_json_credentials: "credentials (snd (fst (request_json urlopen m path b ps auth t st))) = credentials (snd st)"
  using read_outcome_credentials
  by (simp add: request_json_def Let_def split: sum.split prod.split) (metis credentials_simps(1) fst_conv)

lemma reading_fst [simp]: "fst (reading k r) = fst r"
  by (simp add: reading_def)

text \<open>The runtime has its client, the client its identity, and the identity is in the file.\<close>

definition app_ready :: "'w app_runtime \<Rightarrow> bool" where
  "app_ready rt \<longleftrightarrow> (\<exists>c i raw. rt_client rt = Some c \<and> rt_identity rt = Some i \<and>
     credentials c = (Some (ni_api_key i), Some i) \<and> rt_identity_file rt = Some raw \<and>
     (raw = save_identity i \<or> load_identity raw = Inr i))"

lemma client_call_ready:
  assumes "app_ready rt" "\<And>w c. credentials (snd (fst (f (w, c)))) = credentials c"
  shows "app_ready (fst (client_call f rt))"
proof -
  from assms(1) obtain c where c: "rt_client rt = Some c" by (auto simp: app_ready_def)
  obtain w c' r where f: "f (rt_world rt, c) = ((w, c'), r)" by (metis surj_pair)
  have "credentials c' = credentials c" using assms(2) [of "rt_world rt" c] f by simp
  with assms(1) c f show ?thesis by (auto simp: client_call_def app_ready_def)
qed

lemma ensure_default_ready:
  assumes "app_ready rt" "ensure_default_endpoint h rt = (rt', Inr u)"
  shows "app_ready rt'"
proof -
  from assms(2) obtain rt1 es where l: "client_call (client_list_endpoints (ah_urlopen h) (ic_read (ah_codec h))) rt = (rt1, Inr es)"
    and k: "(if list_ex (\<lambda>e. map_option ni_default_endpoint_id (rt_identity rt1) = Some (ce_endpoint_id e)) es then (rt1, Inr ())
       else then_do (find_or_create_default_endpoint h es) (\<lambda>e rt.
         case rt_identity rt of
           None \<Rightarrow> (rt, Inl (ValueError ''identity is not configured''))
         | Some i \<Rightarrow> then_do (raising (replace_identity_default_endpoint i (ce_endpoint_id e))) (\<lambda>i.
             then_do (keep_identity i) (\<lambda>_. adopt i)) rt) rt1) = (rt', Inr u)"
    by (auto simp: ensure_default_endpoint_def then_do_Inr)
  have 1: "app_ready rt1"
    using client_call_ready [OF assms(1), of "client_list_endpoints (ah_urlopen h) (ic_read (ah_codec h))"]
    by (simp add: l client_list_endpoints_def request_json_credentials)
  show ?thesis
  proof (cases "list_ex (\<lambda>e. map_option ni_default_endpoint_id (rt_identity rt1) = Some (ce_endpoint_id e)) es")
    case True
    with k 1 show ?thesis by simp
  next
    case False
    with k obtain rt2 e i where f: "find_or_create_default_endpoint h es rt1 = (rt2, Inr e)"
      and rt': "rt' = rt2\<lparr>rt_identity := Some i, rt_identity_file := Some (save_identity i),
        rt_client := map_option (adopt_identity i) (rt_client rt2)\<rparr>"
      by (auto simp: then_do_Inr raising_def keep_identity_def adopt_def assign_def split: option.splits)
    have "app_ready (fst (find_or_create_default_endpoint h es rt1))"
    proof -
      have "app_ready (fst (client_call (client_create_endpoint (ah_urlopen h) (ic_read (ah_codec h)) n k m) rt1))" for n k m
        by (rule client_call_ready [OF 1]) (simp add: client_create_endpoint_def request_json_credentials)
      with 1 show ?thesis by (simp add: find_or_create_default_endpoint_def Let_def split: option.split)
    qed
    then obtain c where "rt_client rt2 = Some c" using f by (auto simp: app_ready_def)
    then show ?thesis by (simp add: rt' app_ready_def)
  qed
qed

lemma register_or_adopt_ready:
  assumes "register_or_adopt h known rt = (rt', Inr u)" "rt_client rt = Some c"
    and "stored_identity (rt_identity_file rt) = Inr known"
  shows "app_ready rt'"
proof (cases known)
  case (Some i)
  then have "rt' = rt\<lparr>rt_identity := Some i, rt_client := Some (adopt_identity i c)\<rparr>"
    using assms(1,2) by (auto simp: register_or_adopt_def then_do_Inr assign_def adopt_def)
  moreover obtain raw where "rt_identity_file rt = Some raw" "load_identity raw = Inr i"
    using assms(3) Some by (auto simp: stored_identity_def split: option.splits)
  ultimately show ?thesis by (auto simp: app_ready_def)
next
  case None
  let ?r = "rt\<lparr>rt_identity := None\<rparr>"
    and ?f = "client_register (ah_urlopen h) (Some (config_word (rt_config rt) ''node_name'' (ah_app_name h))) True"
  from assms(1) None obtain rt1 i where c1: "client_call ?f ?r = (rt1, Inr i)" and k: "keep_identity i rt1 = (rt', Inr u)"
    by (auto simp: register_or_adopt_def then_do_Inr assign_def)
  obtain w c' r where g: "?f (rt_world rt, c) = ((w, c'), r)" by (metis surj_pair)
  then have "r = Inr i" "rt1 = ?r\<lparr>rt_world := w, rt_client := Some c'\<rparr>"
    using c1 assms(2) by (auto simp: client_call_def)
  moreover from this(1) g have "credentials c' = (Some (ni_api_key i), Some i)"
    by (auto simp: client_register_def then_update_def split: prod.splits sum.splits)
  ultimately show ?thesis using k by (auto simp: keep_identity_def assign_def app_ready_def)
qed

text \<open>
  An application that starts is ready to send: once the start has succeeded with a base URL configured, there
  is a client, it authenticates as the application's identity, with that identity's key, and the identity is
  the one in its file, whether it was loaded, newly registered, or given another default endpoint.
\<close>

theorem started_app_is_ready:
  assumes "initialize_runtime h True rt = (rt', Inr u)" "strip (config_word (rt_config rt) ''base_url'' []) \<noteq> []"
  shows "app_ready rt'"
proof -
  from assms obtain rt1 c known rt2 where s: "stored_identity (rt_identity_file rt1) = Inr known"
    and r: "register_or_adopt h known (rt1\<lparr>rt_client := Some c\<rparr>) = (rt2, Inr ())"
    and e: "ensure_default_endpoint h rt2 = (rt', Inr u)"
    by (auto simp: initialize_runtime_def Let_def then_do_Inr raising_def assign_def)
  have "app_ready rt2" by (rule register_or_adopt_ready [OF r]) (simp_all add: s)
  then show ?thesis using e by (rule ensure_default_ready)
qed

text \<open>An application with a saved identity, a server on the local host that knows its endpoint.\<close>

definition demo_identity_file :: string where
  "demo_identity_file = ''{\"node_id\":\"00000000-0000-0000-0000-000000000001\",\"api_key\":\"k\",\"default_endpoint_id\":\"00000000-0000-0000-0000-000000000002\"}''"

definition demo_endpoints :: string where
  "demo_endpoints = ''[{\"endpoint_id\":\"00000000-0000-0000-0000-000000000002\",\"node_id\":\"00000000-0000-0000-0000-000000000001\",\"status\":\"active\",\"created_at\":\"2026\"}]''"

definition demo_host :: "unit app_host" where
  "demo_host = \<lparr>ah_app_name = ''demo'', ah_urlopen = (\<lambda>w rq. (w, Response (hq_url rq) 200 [] (Some demo_endpoints))),
    ah_probe = demo_probe, ah_urljoin = demo_join, ah_probe_timeout = 5,
    ah_codec = \<lparr>ic_show = (\<lambda>_. ''t''), ic_read = (\<lambda>_. Some (0, None))\<rparr>, ah_now = (\<lambda>_. 0), ah_uuid4 = (\<lambda>_. ''u'')\<rparr>"

definition demo_runtime :: "unit app_runtime" where
  "demo_runtime = \<lparr>rt_world = (), rt_config = [(''base_url'', JStr ''http://localhost:8080/'')], rt_config_file = [],
    rt_identity_file = Some demo_identity_file, rt_contacts = [], rt_client = None, rt_identity = None\<rparr>"

lemma demo_starts: "case initialize_runtime demo_host True demo_runtime of (_, Inl _) \<Rightarrow> False | (_, Inr _) \<Rightarrow> True"
  by code_simp

theorem started_app_is_ready_witness:
  "\<exists>rt'. initialize_runtime demo_host True demo_runtime = (rt', Inr ()) \<and> app_ready rt'"
proof -
  obtain rt' where r: "initialize_runtime demo_host True demo_runtime = (rt', Inr ())"
    using demo_starts by (auto split: prod.splits sum.splits)
  have "strip (config_word (rt_config demo_runtime) ''base_url'' []) \<noteq> []" by code_simp
  from started_app_is_ready [OF r this] r show ?thesis by blast
qed

end
