(* ===== verification/AppCli.thy ===== *)
theory AppCli
  imports AppRuntime
begin

text \<open>
  The command line of AppKit, \<open>src/apis/appkit/cli.py\<close>. A command is one that \<open>argparse\<close> has parsed. It runs in a process of
  its own, which makes the application object from the files of its directory, and ends with a printed text or with an
  exception that nothing catches.
\<close>

section \<open>Commands\<close>

record setup_options =
  so_base_url :: string
  so_default_contact :: "string option"
  so_node_name :: "string option"
  so_default_endpoint_name :: "string option"
  so_default_endpoint_kind :: "string option"
  so_transport_policy :: "string option"

datatype kit_command =
    SetupCommand setup_options
  | RequestLinkCommand string
  | RedeemLinkCommand string string
  | ContactsCommand
  | TestNotification string string "string option"
  | FlushOutboxCommand
  | DeadLetterCommand int

text \<open>The directory of an application, with the server behind it.\<close>

record 'w kit_files =
  kf_world :: 'w
  kf_config :: dict
  kf_identity :: "string option"
  kf_contacts :: dict
  kf_outbox :: outbox

text \<open>
  What the process reads elsewhere: its state directory as text, the host name, the clock as a time and as a text, the random
  source, and the readings of the clock and of the jitter in a round of the outbox.
\<close>

record 'w kit_env =
  ke_host :: "'w app_host"
  ke_state_dir :: string
  ke_hostname :: string
  ke_now_text :: string
  ke_now :: time
  ke_uuid4 :: "nat \<Rightarrow> string"
  ke_clock :: "nat \<Rightarrow> nat \<Rightarrow> time"
  ke_jitter :: "nat \<Rightarrow> int"

definition setup_overrides :: "setup_options \<Rightarrow> dict" where
  "setup_overrides a =
     [(''base_url'', JStr (so_base_url a)), (''default_contact'', optional_str (so_default_contact a)),
      (''node_name'', optional_str (so_node_name a)), (''default_endpoint_name'', optional_str (so_default_endpoint_name a)),
      (''default_endpoint_kind'', optional_str (so_default_endpoint_kind a)),
      (''transport_policy'', optional_str (so_transport_policy a))]"

text \<open>The keyword arguments of \<open>_app_from_args\<close>.\<close>

definition command_overrides :: "kit_command \<Rightarrow> dict" where
  "command_overrides c = (case c of SetupCommand a \<Rightarrow> setup_overrides a | _ \<Rightarrow> [])"

section \<open>The application behind a command\<close>

text \<open>\<open>ARQSApp.for_app\<close>; the name of the host record is the stripped one.\<close>

definition for_app :: "'w app_host \<Rightarrow> dict \<Rightarrow> 'w kit_files \<Rightarrow> 'w app_runtime \<times> (py_exc + unit)" where
  "for_app h overrides fs =
     (if ah_app_name h = [] then
        (\<lparr>rt_world = kf_world fs, rt_config = [], rt_config_file = kf_config fs, rt_identity_file = kf_identity fs,
          rt_contacts = kf_contacts fs, rt_client = None, rt_identity = None\<rparr>, Inl (ValueError ''app_name is required''))
      else new_app h (kf_config fs) (kf_identity fs) (kf_contacts fs) overrides (kf_world fs))"

definition files_after :: "'w app_runtime \<Rightarrow> outbox \<Rightarrow> 'w kit_files" where
  "files_after rt rows = \<lparr>kf_world = rt_world rt, kf_config = rt_config_file rt, kf_identity = rt_identity_file rt,
     kf_contacts = rt_contacts rt, kf_outbox = rows\<rparr>"

definition kit_context :: "'w kit_env \<Rightarrow> 'w app_runtime \<Rightarrow> app_context" where
  "kit_context env rt = \<lparr>ax_app_name = ah_app_name (ke_host env), ax_config = rt_config rt, ax_contacts = rt_contacts rt,
     ax_codec = ah_codec (ke_host env), ax_now = ke_now env,
     ax_default_endpoint = map_option ni_default_endpoint_id (rt_identity rt)\<rparr>"

text \<open>The client's \<open>send_packet\<close>, as the outbox and a direct send call it.\<close>

definition runtime_sender :: "'w app_host \<Rightarrow> 'w app_runtime sender" where
  "runtime_sender h rt a =
     client_call (client_send_packet (ah_urlopen h) (ic_read (ah_codec h)) 1 None (sa_packet_id a) a) rt"

type_synonym 'w kit_state = "'w app_runtime \<times> outbox"

definition on_runtime :: "('w, 'a) app_action \<Rightarrow> 'w kit_state \<Rightarrow> 'w kit_state \<times> (py_exc + 'a)" where
  "on_runtime a st = (case a (fst st) of (rt, r) \<Rightarrow> ((rt, snd st), r))"

text \<open>\<open>send_type\<close> asks for the client after the packet is built; a background send leaves its thread to the end of the process.\<close>

definition kit_send :: "'w kit_env \<Rightarrow> type_args \<Rightarrow> 'w kit_state \<Rightarrow> 'w kit_state \<times> (py_exc + send_result)" where
  "kit_send env a st =
     (case prepare_packet (kit_context env (fst st)) a of
        Inl e \<Rightarrow> (st, Inl e)
      | Inr _ \<Rightarrow> then_do (on_runtime (require_client (ke_host env))) (\<lambda>_ st.
          case send_type (runtime_sender (ke_host env)) (ke_clock env 0) (ke_jitter env 0) (ke_uuid4 env)
              (kit_context env (fst st)) a st of
            (st, started, r) \<Rightarrow> (st, r)) st)"

definition notification_of :: "string \<Rightarrow> string \<Rightarrow> string option \<Rightarrow> notification_args" where
  "notification_of title body contact = \<lparr>no_title = title, no_body = body, no_level = ''info'', no_data = [],
     no_contact = contact, no_delivery_mode = None, no_retry_policy = None, no_dedupe_key = None, no_dedupe_window = None,
     no_priority = None, no_tags = [], no_script = None\<rparr>"

section \<open>The commands\<close>

definition printed :: "json \<Rightarrow> string" where
  "printed v = ascii_only (dumps_indent 0 v)"

definition contact_json :: "contact \<Rightarrow> json" where
  "contact_json c = JObj [(''label'', JStr (co_label c)), (''local_endpoint_id'', JStr (co_local_endpoint_id c)),
     (''remote_endpoint_id'', JStr (co_remote_endpoint_id c)), (''link_id'', optional_str (co_link_id c)),
     (''status'', JStr (co_status c))]"

definition result_json :: "send_result \<Rightarrow> json" where
  "result_json r = JObj [(''packet_id'', JStr (sr_packet_id r)), (''status'', JStr (sr_status r))]"

definition dead_letter_json :: "outbox_entry \<Rightarrow> json" where
  "dead_letter_json e = JObj [(''packet_id'', JStr (ob_packet_id e)), (''status'', JStr (ob_status e)),
     (''attempts'', JInt (ob_attempts e)), (''last_error'', optional_str (ob_last_error e))]"

definition then_print :: "('s \<Rightarrow> 's \<times> (py_exc + 'a)) \<Rightarrow> ('a \<Rightarrow> string) \<Rightarrow> 's \<Rightarrow> 's \<times> (py_exc + string)" where
  "then_print a f = then_do a (\<lambda>x st. (st, Inr (f x)))"

fun kit_body :: "'w kit_env \<Rightarrow> kit_command \<Rightarrow> 'w kit_state \<Rightarrow> 'w kit_state \<times> (py_exc + string)" where
  "kit_body env (SetupCommand a) =
     then_print (on_runtime (setup_app (ke_host env) True [])) (\<lambda>_. ke_state_dir env)"
| "kit_body env (RequestLinkCommand mode) =
     then_print (on_runtime (app_request_link_code (ke_host env) None mode)) cc_code"
| "kit_body env (RedeemLinkCommand code label) =
     then_print (on_runtime (app_redeem_link_code (ke_host env) code label None)) (\<lambda>c.
       printed (JObj [(''label'', JStr (co_label c)), (''remote_endpoint_id'', JStr (co_remote_endpoint_id c))]))"
| "kit_body env ContactsCommand =
     then_print (on_runtime (\<lambda>rt. (rt, list_contacts (ah_codec (ke_host env)) (ke_now env) (rt_contacts rt))))
       (\<lambda>cs. printed (JList (map contact_json cs)))"
| "kit_body env (TestNotification title body contact) =
     then_print (kit_send env (notification_type_args (ah_app_name (ke_host env)) (ke_hostname env) (ke_now_text env)
         (ke_uuid4 env 3) (notification_of title body contact))) (\<lambda>r. printed (result_json r))"
| "kit_body env FlushOutboxCommand =
     then_print (then_do (on_runtime (require_client (ke_host env))) (\<lambda>_ st.
       case flush_due (runtime_sender (ke_host env)) (ke_now env) (ke_clock env) (ke_jitter env) 100 st of
         (st, rs) \<Rightarrow> (st, Inr rs))) (\<lambda>rs. printed (JList (map result_json rs)))"
| "kit_body env (DeadLetterCommand limit) =
     then_print (\<lambda>st. (st, Inr (list_dead_letters limit (snd st)))) (\<lambda>es. printed (JList (map dead_letter_json es)))"

definition kit_cli :: "'w kit_env \<Rightarrow> kit_command \<Rightarrow> 'w kit_files \<Rightarrow> 'w kit_files \<times> (py_exc + string)" where
  "kit_cli env c fs =
     (case for_app (ke_host env) (command_overrides c) fs of
        (rt, Inl e) \<Rightarrow> (files_after rt (kf_outbox fs), Inl e)
      | (rt, Inr _) \<Rightarrow> (case kit_body env c (rt, kf_outbox fs) of ((rt, rows), r) \<Rightarrow> (files_after rt rows, r)))"

section \<open>The identity file reads back\<close>

lemma ascii_append [simp]: "ascii_only (s @ t) = ascii_only s @ ascii_only t" "ascii_only [] = []"
  by (simp_all add: ascii_only_def)

lemma ascii_Cons: "ascii_only (c # s) = ascii_only [c] @ ascii_only s"
  by (simp add: ascii_only_def)

lemma ascii_same: "\<forall>c\<in>set s. code_point c < 128 \<Longrightarrow> ascii_only s = s"
  by (induction s) (simp_all add: ascii_only_def Let_def)

lemma hex_digit_ascii: "d < 16 \<Longrightarrow> code_point (hex_digit d) < 128"
  by (simp add: hex_digit_def code_point_def)

lemma escape_ascii:
  assumes "code_point c < 128"
  shows "ascii_only (escape_char c) = escape_char c"
proof (rule ascii_same)
  have "code_point c < 32 \<Longrightarrow> code_point c div 16 < 16" by simp
  then show "\<forall>d\<in>set (escape_char c). code_point d < 128"
    using assms hex_digit_ascii by (auto simp: escape_char_def Let_def code_point_def)
qed

lemma read_str_ascii:
  "read_str (Suc k) (ascii_only (escape_char c) @ t) = map_option (\<lambda>(v, r). (c # v, r)) (read_str k t)"
proof (cases "code_point c < 128")
  case True
  then show ?thesis by (simp add: escape_ascii read_str_escape)
next
  case False
  define n where "n = code_point c"
  have n: "128 \<le> n" "n < 256" "c = char_of n" using False by (simp_all add: n_def code_point_def)
  then have "escape_char c = [c]" by (simp add: escape_char_def Let_def flip: n_def)
  then have "ascii_only (escape_char c) = char_of (92::nat) # ''u00'' @ [hex_digit (n div 16), hex_digit (n mod 16)]"
    using n(1) by (simp add: ascii_only_def Let_def flip: n_def)
  moreover have "hex_value CHR ''0'' = Some 0" by (simp add: hex_value_def code_point_def)
  moreover have "n div 16 < 16" using n(2) by (simp add: less_mult_imp_div_less)
  ultimately show ?thesis by (auto simp: read_str.simps hex4_def hex_value_digit n(3) code_point_def)
qed

text \<open>A string literal as \<^const>\<open>ascii_only\<close> leaves it.\<close>

definition literal :: "string \<Rightarrow> string" where
  "literal s = concat (map (\<lambda>c. ascii_only (escape_char c)) s) @ [char_of (34::nat)]"

lemma ascii_dumps_str: "ascii_only (dumps_str s) = char_of (34::nat) # literal s"
proof -
  have "ascii_only (concat (map escape_char s)) = concat (map (\<lambda>c. ascii_only (escape_char c)) s)"
    by (induction s) simp_all
  moreover have "ascii_only (char_of (34::nat) # x) = char_of (34::nat) # ascii_only x" for x
    by (simp add: ascii_only_def)
  ultimately show ?thesis by (simp add: dumps_str_shape literal_def)
qed

lemma length_literal: "length s < length (literal s)"
proof -
  have "length s \<le> length (concat (map (\<lambda>c. ascii_only (escape_char c)) s))"
  proof (induction s)
    case (Cons c s)
    obtain d t where "escape_char c = d # t" by (cases "escape_char c") (auto simp: escape_char_def Let_def split: if_splits)
    then have "ascii_only (escape_char c) \<noteq> []" by (simp add: ascii_only_def Let_def)
    then have "1 \<le> length (ascii_only (escape_char c))" by (cases "ascii_only (escape_char c)") auto
    with Cons show ?case by simp
  qed simp
  then show ?thesis by (simp add: literal_def)
qed

lemma read_literal: "length s < k \<Longrightarrow> read_str k (literal s @ r) = Some (s, r)"
proof (induction s arbitrary: k)
  case Nil
  then obtain j where "k = Suc j" by (cases k) auto
  then show ?case by (simp add: literal_def read_str.simps)
next
  case (Cons c s)
  then obtain j where k: "k = Suc j" by (cases k) auto
  with Cons have "read_str j (literal s @ r) = Some (s, r)" by simp
  then show ?case by (simp add: k literal_def read_str_ascii)
qed

text \<open>One entry with a text, in front of the rest \<open>r\<close>.\<close>

lemma read_text_entry:
  assumes "skip_ws r = d # t" "d = CHR '','' \<or> d = CHR ''}''"
  shows "read_entries (Suc (Suc k)) (char_of (34::nat) # literal key @ CHR '':'' # CHR '' '' # char_of (34::nat) # literal v @ r) =
    (if d = CHR ''}'' then Some ([(key, JStr v)], t)
     else map_option (\<lambda>(kvs, r). ((key, JStr v) # kvs, r)) (read_entries (Suc k) (skip_ws t)))"
proof -
  have "skip_ws (CHR '' '' # char_of (34::nat) # x) = char_of (34::nat) # x" for x
    by (simp add: skip_ws_def is_ws_def code_point_def)
  then show ?thesis
    using assms length_literal [of key] length_literal [of v] by (auto simp: read_literal)
qed

lemma skip_newline [simp]: "skip_ws (newline n @ r) = skip_ws r"
  by (induction n) (simp_all add: newline_def skip_ws_def is_ws_def code_point_def)

lemma ascii_layout [simp]:
  "ascii_only (newline n) = newline n" "ascii_only (CHR ''{'' # s) = CHR ''{'' # ascii_only s"
  "ascii_only (CHR ''}'' # s) = CHR ''}'' # ascii_only s" "ascii_only (CHR '','' # s) = CHR '','' # ascii_only s"
  "ascii_only (CHR '':'' # s) = CHR '':'' # ascii_only s" "ascii_only (CHR '' '' # s) = CHR '' '' # ascii_only s"
  by (rule ascii_same; simp add: newline_def code_point_def) (simp_all add: ascii_only_def code_point_def)

lemma saved_identity_shape:
  "save_identity i = CHR ''{'' # newline 2
     @ char_of (34::nat) # literal ''node_id'' @ '': '' @ char_of (34::nat) # literal (ni_node_id i) @ CHR '','' # newline 2
     @ char_of (34::nat) # literal ''api_key'' @ '': '' @ char_of (34::nat) # literal (ni_api_key i) @ CHR '','' # newline 2
     @ char_of (34::nat) # literal ''default_endpoint_id'' @ '': '' @ char_of (34::nat) # literal (ni_default_endpoint_id i) @ newline 0
     @ CHR ''}'' # [char_of (10::nat)]"
  by (simp add: save_identity_def identity_dict_def join_Cons ascii_dumps_str flip: numeral_2_eq_2)

lemma loads_saved_identity: "loads (save_identity i) = Some (JObj (dict_update [] (identity_dict i)))"
proof -
  have q: "skip_ws (char_of (34::nat) # x) = char_of (34::nat) # x" "skip_ws (CHR ''{'' # x) = CHR ''{'' # x"
    "skip_ws [char_of (10::nat)] = []" for x
    by (simp_all add: skip_ws_def is_ws_def code_point_def)
  have "5 \<le> 2 * length (save_identity i)" unfolding saved_identity_shape by simp
  then obtain m where "2 * length (save_identity i) = 5 + m" using le_Suc_ex by blast
  then have k: "2 * length (save_identity i) = Suc (Suc (Suc (Suc (Suc m))))" by simp
  show ?thesis
    unfolding loads_def k
    by (simp add: saved_identity_shape q read_text_entry identity_dict_def code_point_def [of "CHR ''{''"] char_of_eq_iff del: read_entries.simps)
qed

lemma client_uuid_again: "client_uuid v = Inr u \<Longrightarrow> client_uuid (JStr u) = Inr u"
  using parse_uuid_idem by (auto simp: client_uuid_def or_value_error_def split: option.splits)

lemma loaded_uuids:
  assumes "load_identity raw = Inr i"
  shows "client_uuid (JStr (ni_node_id i)) = Inr (ni_node_id i)"
proof -
  have "\<exists>v. client_uuid v = Inr (ni_node_id i)"
    using assms by (auto simp: load_identity_def parse_identity_def uuid_item_def try_then_def split: sum.splits)
  then show ?thesis using client_uuid_again by blast
qed

lemma identity_reads_back:
  assumes "client_uuid (JStr (ni_node_id i)) = Inr (ni_node_id i)"
    "client_uuid (JStr (ni_default_endpoint_id i)) = Inr (ni_default_endpoint_id i)"
  shows "load_identity (save_identity i) = Inr i"
  using assms
  by (simp add: load_identity_def loads_saved_identity or_value_error_def parse_identity_def uuid_item_def str_item_def item_def
      identity_dict_def)

section \<open>One node per directory\<close>

definition same_node :: "string \<Rightarrow> string \<Rightarrow> 'w app_runtime \<Rightarrow> bool" where
  "same_node n k rt \<longleftrightarrow>
     (\<exists>raw i. rt_identity_file rt = Some raw \<and> load_identity raw = Inr i \<and> ni_node_id i = n \<and> ni_api_key i = k)
     \<and> (\<forall>i. rt_identity rt = Some i \<longrightarrow> ni_node_id i = n \<and> ni_api_key i = k)"

lemma same_node_simps [simp]:
  "same_node n k (rt\<lparr>rt_world := w\<rparr>) = same_node n k rt" "same_node n k (rt\<lparr>rt_config := d\<rparr>) = same_node n k rt"
  "same_node n k (rt\<lparr>rt_config_file := d\<rparr>) = same_node n k rt" "same_node n k (rt\<lparr>rt_contacts := d\<rparr>) = same_node n k rt"
  "same_node n k (rt\<lparr>rt_client := c\<rparr>) = same_node n k rt"
  by (simp_all add: same_node_def)

lemma same_node_then_do:
  assumes "same_node n k (fst (a rt))" "\<And>x rt'. a rt = (rt', Inr x) \<Longrightarrow> same_node n k rt' \<Longrightarrow> same_node n k (fst (c x rt'))"
  shows "same_node n k (fst (then_do a c rt))"
  using assms by (cases "a rt"; cases "snd (a rt)") (auto simp: then_do_def)

lemma same_node_client_call: "same_node n k rt \<Longrightarrow> same_node n k (fst (client_call f rt))"
  by (auto simp: client_call_def split: option.split prod.split)

lemma same_node_saved:
  assumes "same_node n k rt" "rt_identity rt = Some i" "replace_identity_default_endpoint i e = Inr j"
  shows "same_node n k (fst (keep_identity j rt))"
proof -
  from assms(3) have j: "ni_node_id j = ni_node_id i" "ni_api_key j = ni_api_key i" and "uuid_text_of e = Inr (ni_default_endpoint_id j)"
    by (auto simp: replace_identity_default_endpoint_def try_then_def split: sum.splits)
  then have "client_uuid (JStr (ni_default_endpoint_id j)) = Inr (ni_default_endpoint_id j)"
    by (intro client_uuid_again [of "JStr e"]) (simp add: client_uuid_def uuid_text_of_def)
  moreover have "client_uuid (JStr (ni_node_id j)) = Inr (ni_node_id j)"
    using assms(1,2) j loaded_uuids by (fastforce simp: same_node_def)
  ultimately have "load_identity (save_identity j) = Inr j" by (rule identity_reads_back [rotated])
  then show ?thesis using assms(1,2) j by (simp add: keep_identity_def assign_def same_node_def)
qed

lemma same_node_found:
  assumes "same_node n k rt"
  shows "same_node n k (fst (case rt_identity rt of None \<Rightarrow> (rt, Inl x)
    | Some i \<Rightarrow> then_do (raising (replace_identity_default_endpoint i e)) (\<lambda>i. then_do (keep_identity i) (\<lambda>_. adopt i)) rt))"
proof (cases "rt_identity rt")
  case (Some i)
  show ?thesis
  proof (cases "replace_identity_default_endpoint i e")
    case (Inr j)
    from same_node_saved [OF assms Some Inr] Some Inr show ?thesis
      by (simp add: then_do_def raising_def keep_identity_def assign_def adopt_def)
  qed (use assms Some in \<open>simp add: then_do_def raising_def\<close>)
qed (use assms in simp)

lemma same_node_created: "same_node n k rt \<Longrightarrow> same_node n k (fst (find_or_create_default_endpoint h es rt))"
  by (auto simp: find_or_create_default_endpoint_def Let_def intro: same_node_client_call split: option.split)

lemma same_node_default_endpoint: "same_node n k rt \<Longrightarrow> same_node n k (fst (ensure_default_endpoint h rt))"
  unfolding ensure_default_endpoint_def
  by (intro same_node_then_do same_node_client_call)
    (auto intro: same_node_then_do same_node_created same_node_found)

lemma same_node_adopted:
  assumes "same_node n k rt" "ni_node_id i = n" "ni_api_key i = k"
  shows "same_node n k (fst (register_or_adopt h (Some i) rt))"
  using assms by (simp add: register_or_adopt_def then_do_def assign_def adopt_def same_node_def)

lemma same_node_stored: "same_node n k rt \<Longrightarrow> stored_identity (rt_identity_file rt) = Inr x \<Longrightarrow>
    \<exists>i. x = Some i \<and> ni_node_id i = n \<and> ni_api_key i = k"
  by (auto simp: same_node_def stored_identity_def)

lemma same_node_transport: "same_node n k rt \<Longrightarrow> same_node n k (fst (settle_transport h u rt))"
  unfolding settle_transport_def
  by (intro same_node_then_do) (auto simp: raising_def Let_def split: prod.split sum.split)

lemma same_node_initialized:
  assumes "same_node n k rt"
  shows "same_node n k (fst (initialize_runtime h force rt))"
proof -
  have set: "same_node n k (rt'\<lparr>rt_identity := x\<rparr>)" if "same_node n k rt'" "stored_identity (rt_identity_file rt') = Inr x" for rt' x
    using same_node_stored [OF that] that(1) by (auto simp: same_node_def)
  have start: "same_node n k (fst (then_do (raising (stored_identity (rt_identity_file rt')))
      (\<lambda>known. then_do (register_or_adopt h known) (\<lambda>_. ensure_default_endpoint h)) rt'))" if "same_node n k rt'" for rt'
  proof (intro same_node_then_do)
    fix x st st' assume "raising (stored_identity (rt_identity_file rt')) rt' = (st, Inr x)" "same_node n k st"
    then have "st = rt'" "stored_identity (rt_identity_file rt') = Inr x" by (auto simp: raising_def)
    then show "same_node n k (fst (register_or_adopt h x st))"
      using same_node_stored [OF that, of x] same_node_adopted [OF that] by auto
  qed (use that in \<open>auto simp: raising_def intro: same_node_default_endpoint\<close>)
  show ?thesis
    using assms unfolding initialize_runtime_def Let_def
    by (auto intro!: same_node_then_do same_node_transport start set simp: raising_def assign_def)
qed

lemma same_node_require: "same_node n k rt \<Longrightarrow> same_node n k (fst (require_client h rt))"
  by (auto simp: require_client_def intro!: same_node_then_do same_node_initialized)

lemma same_node_endpoint: "same_node n k rt \<Longrightarrow> same_node n k (fst (endpoint_or_default h i rt))"
  by (auto simp: endpoint_or_default_def settled_def own_default_endpoint_def intro!: same_node_then_do same_node_initialized)

lemma same_node_request: "same_node n k rt \<Longrightarrow> same_node n k (fst (app_request_link_code h i mode rt))"
  by (auto simp: app_request_link_code_def intro!: same_node_then_do same_node_require same_node_endpoint same_node_client_call)

lemma same_node_redeem: "same_node n k rt \<Longrightarrow> same_node n k (fst (app_redeem_link_code h code label i rt))"
  by (auto simp: app_redeem_link_code_def Let_def
      intro!: same_node_then_do same_node_require same_node_endpoint same_node_client_call split: prod.split)

lemma same_node_setup: "same_node n k rt \<Longrightarrow> same_node n k (fst (setup_app h save us rt))"
  by (simp add: setup_app_def Let_def same_node_initialized)

lemma same_node_sender: "same_node n k rt \<Longrightarrow> same_node n k (fst (runtime_sender h rt a))"
  by (simp add: runtime_sender_def same_node_client_call)

text \<open>A flush calls nothing but its sender.\<close>

lemma flush_entry_holds:
  assumes "\<And>w a. P w \<Longrightarrow> P (fst (send w a))" "P (fst st)"
  shows "P (fst (fst (flush_entry send clock jitter e st)))"
proof -
  obtain rows x where b: "flush_begin clock e (snd st) = (rows, x)" by (metis surj_pair)
  obtain w y where s: "send (fst st) (entry_args e) = (w, y)" by (metis surj_pair)
  have "P w" using assms(1) [OF assms(2), of "entry_args e"] s by simp
  then show ?thesis using assms(2) b s by (cases x) (simp_all add: flush_entry_def split: prod.split)
qed

lemma flush_entries_holds:
  assumes "\<And>w a. P w \<Longrightarrow> P (fst (send w a))"
  shows "P (fst st) \<Longrightarrow> P (fst (fst (flush_entries send clock jitter k es st)))"
proof (induction es arbitrary: k st)
  case (Cons e es)
  obtain st' r where f: "flush_entry send (clock k) (jitter k) e st = (st', r)" by (metis surj_pair)
  have "P (fst st')" using flush_entry_holds [of P send st "clock k" "jitter k" e] assms Cons.prems f by simp
  moreover obtain st'' rs where "flush_entries send clock jitter (Suc k) es st' = (st'', rs)" by (metis surj_pair)
  ultimately show ?case using Cons.IH [of st' "Suc k"] f by simp
qed simp

lemma send_type_holds:
  assumes "\<And>w a. P w \<Longrightarrow> P (fst (send w a))" "P (fst st)"
  shows "P (fst (fst (send_type send clock jitter uuid4 ax a st)))"
  using assms flush_entry_holds [of P send, OF assms(1)]
  by (auto simp: send_type_def flush_packet_def split: prod.split sum.split option.split)
    (metis fst_conv)+

lemma on_runtime_fst: "fst (fst (on_runtime a st)) = fst (a (fst st))"
  by (simp add: on_runtime_def split: prod.split)

lemma kit_then_do:
  assumes "same_node n k (fst (fst (a st)))" "\<And>x st'. same_node n k (fst st') \<Longrightarrow> same_node n k (fst (fst (c x st')))"
  shows "same_node n k (fst (fst (then_do a c st)))"
  using assms by (cases "a st"; cases "snd (a st)") (auto simp: then_do_def)

lemma same_node_body: "same_node n k (fst st) \<Longrightarrow> same_node n k (fst (fst (kit_body env c st)))"
proof (cases c)
  case (TestNotification t b d)
  assume "same_node n k (fst st)"
  then show ?thesis unfolding TestNotification
    by (auto simp: then_print_def kit_send_def on_runtime_fst
        intro!: kit_then_do same_node_require send_type_holds [where P = "same_node n k"] same_node_sender split: sum.split prod.split)
      (metis fst_conv send_type_holds [where P = "same_node n k"] same_node_sender)
next
  case FlushOutboxCommand
  assume "same_node n k (fst st)"
  then show ?thesis unfolding FlushOutboxCommand
    using flush_entries_holds [where P = "same_node n k" and send = "runtime_sender (ke_host env)", OF same_node_sender]
    by (auto simp: then_print_def on_runtime_fst flush_due_def intro!: kit_then_do same_node_require split: prod.split)
      (metis fst_conv)
qed (auto simp: then_print_def on_runtime_fst
    intro!: kit_then_do same_node_setup same_node_request same_node_redeem)

text \<open>
  C28: A directory belongs to one node for good: whatever a command is, the URL of another server given to \<open>setup\<close> included,
  and however it ends, the identity file names the same node with the same API key afterwards.
\<close>

theorem kit_node_kept:
  assumes "kit_cli env c fs = (gs, r)" "kf_identity fs = Some raw" "load_identity raw = Inr i"
  shows "\<exists>raw' j. kf_identity gs = Some raw' \<and> load_identity raw' = Inr j
    \<and> ni_node_id j = ni_node_id i \<and> ni_api_key j = ni_api_key i"
proof -
  let ?same = "same_node (ni_node_id i) (ni_api_key i)"
  obtain rt x where f: "for_app (ke_host env) (command_overrides c) fs = (rt, x)" by (metis surj_pair)
  have "?same (fst (for_app (ke_host env) (command_overrides c) fs))"
    using assms(2,3) by (auto simp: for_app_def new_app_def Let_def intro!: same_node_initialized) (simp_all add: same_node_def)
  then have rt: "?same rt" by (simp add: f)
  have "?same (fst (fst (kit_body env c (rt, kf_outbox fs))))" by (rule same_node_body) (simp add: rt)
  moreover obtain rt' rows y where "kit_body env c (rt, kf_outbox fs) = ((rt', rows), y)" by (metis surj_pair)
  ultimately have "?same rt'" "gs = files_after rt (kf_outbox fs) \<or> gs = files_after rt' rows"
    using assms(1) by (auto simp: kit_cli_def f split: sum.splits)
  with rt show ?thesis by (auto simp: same_node_def files_after_def)
qed

section \<open>Without the server\<close>

definition unreachable :: "'w opener \<Rightarrow> bool" where
  "unreachable urlopen \<longleftrightarrow> (\<forall>w rq. \<exists>m. snd (urlopen w rq) = URLError m \<or> snd (urlopen w rq) = TimeoutError m)"

lemma request_unreachable:
  assumes "unreachable urlopen"
  shows "\<exists>e. snd (request_json urlopen m path b ps auth t st) = Inl e"
proof -
  have o: "\<exists>e. snd (read_outcome rq path out c) = Inl e" if u: "urlopen w rq = (w', out)" for rq w w' out c
  proof -
    obtain m where "out = URLError m \<or> out = TimeoutError m"
      using assms [unfolded unreachable_def, rule_format, of w rq] u by auto
    then show ?thesis by (auto simp: read_outcome_def)
  qed
  show ?thesis
  proof (cases "prepare_request (snd st) m path b ps auth t")
    case (Inr rq)
    obtain w out where u: "urlopen (fst st) rq = (w, out)" by (metis surj_pair)
    show ?thesis using o [OF u] Inr u by (auto simp: request_json_def Let_def split: prod.split) (metis snd_conv)
  qed (simp add: request_json_def)
qed

text \<open>A call that fails, with the files as they were.\<close>

definition fails_cleanly :: "('w, 'a) app_action \<Rightarrow> 'w app_runtime \<Rightarrow> bool" where
  "fails_cleanly a rt \<longleftrightarrow> (\<exists>rt' e. a rt = (rt', Inl e) \<and> rt_identity_file rt' = rt_identity_file rt \<and> rt_contacts rt' = rt_contacts rt)"

lemma client_call_fails:
  assumes "\<And>st. \<exists>e. snd (f st) = Inl e"
  shows "fails_cleanly (client_call f) rt"
proof (cases "rt_client rt")
  case (Some c)
  obtain w c' e where "f (rt_world rt, c) = ((w, c'), Inl e)" using assms by (metis surj_pair snd_conv)
  with Some show ?thesis by (simp add: fails_cleanly_def client_call_def)
qed (simp add: fails_cleanly_def client_call_def)

lemma fails_then_do: "fails_cleanly a rt \<Longrightarrow> fails_cleanly (then_do a c) rt"
  by (auto simp: fails_cleanly_def then_do_def)

lemma reading_fails: "snd r = Inl e \<Longrightarrow> snd (reading f r) = Inl e"
  by (simp add: reading_def)

lemma ensure_default_fails:
  assumes "unreachable (ah_urlopen h)"
  shows "fails_cleanly (ensure_default_endpoint h) rt"
proof -
  have "fails_cleanly (client_call (client_list_endpoints (ah_urlopen h) (ic_read (ah_codec h)))) rt"
    by (rule client_call_fails) (metis client_list_endpoints_def request_unreachable [OF assms] reading_fails)
  then show ?thesis unfolding ensure_default_endpoint_def by (rule fails_then_do)
qed

lemma register_fails:
  assumes "unreachable (ah_urlopen h)"
  shows "fails_cleanly (then_do (register_or_adopt h known) (\<lambda>_. ensure_default_endpoint h)) rt"
proof (cases known)
  case None
  have "\<exists>e. snd (client_register (ah_urlopen h) name True st) = Inl e" for name st
  proof -
    obtain e where "snd (request_json (ah_urlopen h) ''POST'' ''/register''
        (Some (JObj (case name of None \<Rightarrow> [] | Some n \<Rightarrow> [(''node_name'', JStr n)]))) [] False None st) = Inl e"
      using request_unreachable [OF assms] by blast
    from reading_fails [OF this, of parse_identity] show ?thesis
      by (auto simp: client_register_def then_update_def split: prod.split sum.split dest!: arg_cong [of _ _ snd])
  qed
  then have "fails_cleanly (client_call (client_register (ah_urlopen h)
      (Some (config_word (rt_config rt) ''node_name'' (ah_app_name h))) True)) (rt\<lparr>rt_identity := None\<rparr>)"
    by (rule client_call_fails)
  with None show ?thesis by (auto simp: register_or_adopt_def fails_cleanly_def then_do_def assign_def)
next
  case (Some i)
  with ensure_default_fails [OF assms, of "rt\<lparr>rt_identity := Some i, rt_client := map_option (adopt_identity i) (rt_client rt)\<rparr>"]
  show ?thesis by (simp add: fails_cleanly_def register_or_adopt_def then_do_def assign_def adopt_def)
qed

lemma settle_transport_files:
  assumes "settle_transport h u rt = (rt', r)"
  shows "rt_identity_file rt' = rt_identity_file rt \<and> rt_contacts rt' = rt_contacts rt"
  using assms by (auto simp: settle_transport_def then_do_def raising_def Let_def split: prod.splits sum.splits)

lemma initialize_fails:
  assumes "unreachable (ah_urlopen h)" "strip (config_word (rt_config rt) ''base_url'' []) \<noteq> []" "rt_client rt = None"
  shows "fails_cleanly (initialize_runtime h force) rt"
proof -
  obtain rt1 x where t: "settle_transport h (strip (config_word (rt_config rt) ''base_url'' [])) rt = (rt1, x)"
    by (metis surj_pair)
  note files = settle_transport_files [OF t]
  show ?thesis
  proof (cases x)
    case (Inr r)
    show ?thesis
    proof (cases "client_for r")
      case (Inr c)
      show ?thesis
      proof (cases "stored_identity (rt_identity_file rt1)")
        case (Inr known)
        with register_fails [OF assms(1), of known "rt1\<lparr>rt_client := Some c\<rparr>"] \<open>x = Inr r\<close> \<open>client_for r = Inr c\<close> files t assms(2,3)
        show ?thesis by (auto simp: fails_cleanly_def initialize_runtime_def then_do_def raising_def assign_def Let_def)
      qed (use \<open>x = Inr r\<close> Inr files t assms(2,3) in
        \<open>simp add: fails_cleanly_def initialize_runtime_def then_do_def raising_def assign_def Let_def\<close>)
    qed (use Inr files t assms(2,3) in \<open>simp add: fails_cleanly_def initialize_runtime_def then_do_def raising_def Let_def\<close>)
  qed (use files t assms(2,3) in \<open>simp add: fails_cleanly_def initialize_runtime_def then_do_def Let_def\<close>)
qed

text \<open>
  C29: While its server cannot be reached, no command of a configured application does anything: each ends with an exception,
  prints nothing, and leaves the contacts, the identity and the outbox as they were. A notification is not even queued.
\<close>

theorem offline_queues_nothing:
  assumes "unreachable (ah_urlopen (ke_host env))"
    and "strip (config_word (dict_update (load_app_config (ah_app_name (ke_host env)) (kf_config fs))
           (given_updates (command_overrides c))) ''base_url'' []) \<noteq> []"
    and "kit_cli env c fs = (gs, r)"
  shows "(\<exists>e. r = Inl e) \<and> kf_outbox gs = kf_outbox fs \<and> kf_contacts gs = kf_contacts fs \<and> kf_identity gs = kf_identity fs"
proof -
  let ?h = "ke_host env"
  let ?start = "\<lparr>rt_world = kf_world fs,
    rt_config = dict_update (load_app_config (ah_app_name ?h) (kf_config fs)) (given_updates (command_overrides c)),
    rt_config_file = (if command_overrides c = [] then kf_config fs else save_app_config (ah_app_name ?h)
      (dict_update (load_app_config (ah_app_name ?h) (kf_config fs)) (given_updates (command_overrides c)))),
    rt_identity_file = kf_identity fs, rt_contacts = kf_contacts fs, rt_client = None, rt_identity = None\<rparr>"
  have "fails_cleanly (initialize_runtime ?h False) ?start"
    by (rule initialize_fails [OF assms(1)]) (use assms(2) in simp_all)
  then have "\<exists>rt e. for_app ?h (command_overrides c) fs = (rt, Inl e)
      \<and> rt_identity_file rt = kf_identity fs \<and> rt_contacts rt = kf_contacts fs"
    by (cases "ah_app_name ?h = []") (simp_all add: for_app_def new_app_def Let_def fails_cleanly_def)
  then show ?thesis using assms(3) by (auto simp: kit_cli_def files_after_def)
qed

section \<open>Concrete runs\<close>

text \<open>A directory with an identity, and another server for it.\<close>

definition demo_setup :: setup_options where
  "demo_setup = \<lparr>so_base_url = ''http://localhost:8080/'', so_default_contact = None, so_node_name = None,
     so_default_endpoint_name = None, so_default_endpoint_kind = None, so_transport_policy = None\<rparr>"

definition demo_kit :: "unit kit_env" where
  "demo_kit = \<lparr>ke_host = demo_host, ke_state_dir = ''/state'', ke_hostname = ''h'', ke_now_text = ''t'', ke_now = 0,
     ke_uuid4 = (\<lambda>_. ''u''), ke_clock = (\<lambda>_ _. 0), ke_jitter = (\<lambda>_. 0)\<rparr>"

definition demo_files :: "unit kit_files" where
  "demo_files = \<lparr>kf_world = (), kf_config = [(''base_url'', JStr ''http://localhost:9090/'')],
     kf_identity = Some demo_identity_file, kf_contacts = [], kf_outbox = []\<rparr>"

definition offline_kit :: "unit kit_env" where
  "offline_kit = demo_kit\<lparr>ke_host := demo_host\<lparr>ah_urlopen := (\<lambda>w rq. (w, URLError ''refused''))\<rparr>\<rparr>"

theorem kit_node_kept_witness:
  "\<exists>gs r raw j. kit_cli demo_kit (SetupCommand demo_setup) demo_files = (gs, r)
     \<and> kf_identity gs = Some raw \<and> load_identity raw = Inr j \<and> ni_api_key j = ''k''"
proof -
  obtain gs r where g: "kit_cli demo_kit (SetupCommand demo_setup) demo_files = (gs, r)" by (metis surj_pair)
  have f: "kf_identity demo_files = Some demo_identity_file" by (simp add: demo_files_def)
  have "load_identity demo_identity_file = Inr \<lparr>ni_node_id = ''00000000-0000-0000-0000-000000000001'', ni_api_key = ''k'',
    ni_default_endpoint_id = ''00000000-0000-0000-0000-000000000002''\<rparr>" by code_simp
  from kit_node_kept [OF g f this] g show ?thesis by auto
qed

theorem offline_queues_nothing_witness:
  "\<exists>gs e. kit_cli offline_kit (TestNotification ''t'' ''b'' None) demo_files = (gs, Inl e) \<and> kf_outbox gs = []"
proof -
  obtain gs r where g: "kit_cli offline_kit (TestNotification ''t'' ''b'' None) demo_files = (gs, r)" by (metis surj_pair)
  have u: "unreachable (ah_urlopen (ke_host offline_kit))" by (simp add: unreachable_def offline_kit_def)
  have "strip (config_word (dict_update (load_app_config (ah_app_name (ke_host offline_kit)) (kf_config demo_files))
      (given_updates (command_overrides (TestNotification ''t'' ''b'' None)))) ''base_url'' []) \<noteq> []" by code_simp
  from offline_queues_nothing [OF u this g] g show ?thesis by (auto simp: demo_files_def)
qed

end
