(* ===== verification/Bridge.thy ===== *)
theory Bridge
  imports AppStore Services "HOL-Library.AList"
begin

text \<open>
  The Discord adapter \<open>src/adapters/arqs_discord_appkit_bot.py\<close> up to its bot: the splitting of long
  messages, the directions of a link, reactions, and \<open>DiscordBridgeState\<close>, what the adapter remembers
  between runs. An index of the state is an association list in the order of the Python dictionary.
  Time stamps of the state file are read by an \<open>iso_codec\<close>; one without an offset, which the adapter never
  writes, counts as UTC.
\<close>

section \<open>Splitting a message\<close>

definition lstrip :: "string \<Rightarrow> string" where
  "lstrip s = dropWhile is_space s"

definition rstrip :: "string \<Rightarrow> string" where
  "rstrip s = rev (dropWhile is_space (rev s))"

text \<open>\<open>s.rfind(c)\<close>: the index of the last occurrence, or -1.\<close>

definition rfind :: "char \<Rightarrow> string \<Rightarrow> int" where
  "rfind c s = (if c \<in> set s then int (length s) - 1 - int (length (takeWhile (\<lambda>d. d \<noteq> c) (rev s))) else -1)"

definition newline_char :: char where
  "newline_char = char_of (10::nat)"

definition split_at :: "nat \<Rightarrow> string \<Rightarrow> nat" where
  "split_at limit remaining =
     (let window = take limit remaining in
      if 0 < rfind newline_char window then nat (rfind newline_char window)
      else if 0 < rfind (CHR '' '') window then nat (rfind (CHR '' '') window)
      else limit)"

text \<open>The first chunk, and the position after it.\<close>

definition first_chunk :: "nat \<Rightarrow> string \<Rightarrow> string \<times> nat" where
  "first_chunk limit remaining =
     (let pos = split_at limit remaining; chunk = rstrip (take pos remaining) in
      if chunk = [] then (take limit remaining, limit) else (chunk, pos))"

partial_function (option) split_loop :: "nat \<Rightarrow> string list \<Rightarrow> string \<Rightarrow> string list option" where
  "split_loop limit chunks remaining =
     (if limit < length remaining then
        (case first_chunk limit remaining of
           (chunk, pos) \<Rightarrow> split_loop limit (chunks @ [chunk]) (lstrip (drop pos remaining)))
      else Some (if remaining = [] then chunks else chunks @ [remaining]))"

definition max_discord_message_length :: nat where
  "max_discord_message_length = 1900"

definition split_discord_message :: "nat \<Rightarrow> string \<Rightarrow> string list option" where
  "split_discord_message limit content =
     (let text = strip content in if text = [] then Some [] else split_loop limit [] text)"

section \<open>Modes, directions, results\<close>

definition receipt_modes :: "string list" where
  "receipt_modes = [''off'', ''discord_delivered'', ''reaction_read'', ''discord_delivered_and_reaction_read'']"

definition normalize_mode :: "string \<Rightarrow> py_exc + string" where
  "normalize_mode mode =
     (let value = strip mode in
      if value \<notin> set receipt_modes then Inl (ValueError (''unsupported receipt mode: '' @ value)) else Inr value)"

definition user_mode_to_arqs_mode :: "string \<Rightarrow> py_exc + string" where
  "user_mode_to_arqs_mode mode =
     (if mode = ''bidirectional'' then Inr ''bidirectional''
      else if mode = ''send_only'' then Inr ''a_to_b''
      else if mode = ''receive_only'' then Inr ''b_to_a''
      else Inl (KeyError mode))"

text \<open>May the local endpoint send over the link, and may it receive?\<close>

definition calculate_direction :: "client_link \<Rightarrow> string \<Rightarrow> bool \<times> bool" where
  "calculate_direction link local =
     (if cl_mode link = ''bidirectional'' then (True, True)
      else if cl_mode link = ''a_to_b'' then (local = cl_endpoint_a_id link, local = cl_endpoint_b_id link)
      else if cl_mode link = ''b_to_a'' then (local = cl_endpoint_b_id link, local = cl_endpoint_a_id link)
      else (True, True))"

definition describe_direction :: "bool \<Rightarrow> bool \<Rightarrow> string" where
  "describe_direction can_send can_receive =
     (if can_send \<and> can_receive then ''bidirectional''
      else if can_send then ''send-only''
      else if can_receive then ''receive-only''
      else ''inactive'')"

definition resolve_remote_endpoint :: "client_link \<Rightarrow> string \<Rightarrow> string" where
  "resolve_remote_endpoint link local =
     (if cl_endpoint_a_id link = local then cl_endpoint_b_id link else cl_endpoint_a_id link)"

definition send_result_label :: "string \<Rightarrow> string" where
  "send_result_label st =
     (if st \<in> {''accepted'', ''duplicate''} then ''sent''
      else if st \<in> {''queued'', ''background_queued''} then ''queued''
      else if st = ''missing'' then ''queued''
      else st)"

definition should_send_delivered_receipt :: "string \<Rightarrow> bool" where
  "should_send_delivered_receipt mode \<longleftrightarrow> mode \<in> {''discord_delivered'', ''discord_delivered_and_reaction_read''}"

definition should_send_read_receipt :: "string \<Rightarrow> bool" where
  "should_send_read_receipt mode \<longleftrightarrow> mode \<in> {''reaction_read'', ''discord_delivered_and_reaction_read''}"

section \<open>Reactions\<close>

definition reaction_display_key :: "dict \<Rightarrow> string" where
  "reaction_display_key payload =
     (let emoji_id = strip (str_or_empty (dict_get payload ''emoji_id''));
          emoji = strip (str_or_empty (dict_get payload ''emoji''));
          emoji_name = strip (str_or_empty (dict_get payload ''emoji_name''))
      in if emoji_id \<noteq> [] then ''id:'' @ emoji_id
         else if emoji \<noteq> [] then ''emoji:'' @ emoji
         else if emoji_name \<noteq> [] then ''name:'' @ emoji_name
         else [])"

definition reaction_matches :: "dict \<Rightarrow> dict \<Rightarrow> bool" where
  "reaction_matches left right \<longleftrightarrow>
     (let l = reaction_display_key left; r = reaction_display_key right in l \<noteq> [] \<and> r \<noteq> [] \<and> l = r)"

text \<open>\<open>serialize_discord_emoji\<close> of an emoji with these attributes; \<open>text\<close> is its \<open>str()\<close>.\<close>

record discord_emoji =
  em_id :: "string option"
  em_name :: "string option"
  em_animated :: bool
  em_text :: string

definition serialize_discord_emoji :: "discord_emoji \<Rightarrow> dict" where
  "serialize_discord_emoji e =
     (let name = strip (case em_name e of Some (c # cs) \<Rightarrow> c # cs | _ \<Rightarrow> em_text e);
          payload = [(''emoji_name'', JStr name)]
      in if em_id e = None \<or> em_id e = Some [] then dict_put ''emoji'' (JStr (em_text e)) payload
         else dict_put ''animated'' (JBool (em_animated e)) (dict_put ''emoji_id'' (JStr (the (em_id e))) payload))"

section \<open>Bindings and pending links\<close>

record binding =
  bn_binding_id :: string
  bn_discord_user_id :: string
  bn_local_endpoint_id :: string
  bn_remote_endpoint_id :: string
  bn_link_id :: string
  bn_label :: string
  bn_link_mode :: string
  bn_can_send :: bool
  bn_can_receive :: bool
  bn_status :: string
  bn_created_at :: string
  bn_updated_at :: string

definition binding_direction :: "binding \<Rightarrow> string" where
  "binding_direction b = describe_direction (bn_can_send b) (bn_can_receive b)"

text \<open>\<open>bool(payload.get(k, True))\<close>.\<close>

definition flag_or_true :: "dict \<Rightarrow> string \<Rightarrow> bool" where
  "flag_or_true d k = (case map_of d k of None \<Rightarrow> True | Some v \<Rightarrow> truthy v)"

definition binding_from_dict :: "dict \<Rightarrow> py_exc + binding" where
  "binding_from_dict d =
     try_then (str_item (JObj d) ''binding_id'') (\<lambda>i.
     try_then (str_item (JObj d) ''discord_user_id'') (\<lambda>u.
     try_then (str_item (JObj d) ''local_endpoint_id'') (\<lambda>l.
     try_then (str_item (JObj d) ''remote_endpoint_id'') (\<lambda>r.
     try_then (str_item (JObj d) ''link_id'') (\<lambda>k.
     try_then (str_item (JObj d) ''label'') (\<lambda>label.
     try_then (str_item (JObj d) ''created_at'') (\<lambda>c.
     try_then (str_item (JObj d) ''updated_at'') (\<lambda>t.
       Inr \<lparr>bn_binding_id = i, bn_discord_user_id = u, bn_local_endpoint_id = l, bn_remote_endpoint_id = r,
         bn_link_id = k, bn_label = label, bn_link_mode = str_or ''bidirectional'' (dict_get d ''link_mode''),
         bn_can_send = flag_or_true d ''can_send'', bn_can_receive = flag_or_true d ''can_receive'',
         bn_status = str_or ''active'' (dict_get d ''status''), bn_created_at = c, bn_updated_at = t\<rparr>))))))))"

definition binding_to_dict :: "binding \<Rightarrow> dict" where
  "binding_to_dict b =
     [(''binding_id'', JStr (bn_binding_id b)), (''discord_user_id'', JStr (bn_discord_user_id b)),
      (''local_endpoint_id'', JStr (bn_local_endpoint_id b)), (''remote_endpoint_id'', JStr (bn_remote_endpoint_id b)),
      (''link_id'', JStr (bn_link_id b)), (''label'', JStr (bn_label b)), (''link_mode'', JStr (bn_link_mode b)),
      (''can_send'', JBool (bn_can_send b)), (''can_receive'', JBool (bn_can_receive b)),
      (''status'', JStr (bn_status b)), (''created_at'', JStr (bn_created_at b)),
      (''updated_at'', JStr (bn_updated_at b))]"

record pending_link =
  pl_pending_id :: string
  pl_discord_user_id :: string
  pl_local_endpoint_id :: string
  pl_code :: string
  pl_requested_mode :: string
  pl_label :: string
  pl_created_at :: string
  pl_expires_at :: string

definition pending_from_dict :: "dict \<Rightarrow> py_exc + pending_link" where
  "pending_from_dict d =
     try_then (str_item (JObj d) ''pending_id'') (\<lambda>i.
     try_then (str_item (JObj d) ''discord_user_id'') (\<lambda>u.
     try_then (str_item (JObj d) ''local_endpoint_id'') (\<lambda>l.
     try_then (str_item (JObj d) ''code'') (\<lambda>code.
     try_then (str_item (JObj d) ''label'') (\<lambda>label.
     try_then (str_item (JObj d) ''created_at'') (\<lambda>c.
     try_then (str_item (JObj d) ''expires_at'') (\<lambda>x.
       Inr \<lparr>pl_pending_id = i, pl_discord_user_id = u, pl_local_endpoint_id = l, pl_code = code,
         pl_requested_mode = str_or ''bidirectional'' (dict_get d ''requested_mode''), pl_label = label,
         pl_created_at = c, pl_expires_at = x\<rparr>)))))))"

definition pending_to_dict :: "pending_link \<Rightarrow> dict" where
  "pending_to_dict p =
     [(''pending_id'', JStr (pl_pending_id p)), (''discord_user_id'', JStr (pl_discord_user_id p)),
      (''local_endpoint_id'', JStr (pl_local_endpoint_id p)), (''code'', JStr (pl_code p)),
      (''requested_mode'', JStr (pl_requested_mode p)), (''label'', JStr (pl_label p)),
      (''created_at'', JStr (pl_created_at p)), (''expires_at'', JStr (pl_expires_at p))]"

section \<open>The state\<close>

record receipt_settings =
  rs_default_mode :: string
  rs_contacts :: "(string \<times> string) list"

text \<open>\<open>br_seen_ids\<close> is \<open>_seen_delivery_ids\<close>, the set beside the list \<open>br_seen\<close>.\<close>

record bridge =
  br_bindings :: "binding list"
  br_pending :: "pending_link list"
  br_active :: "(string \<times> string) list"
  br_seen :: "string list"
  br_seen_ids :: "string set"
  br_replies :: "(string \<times> dict) list"
  br_receipt_settings :: "(string \<times> receipt_settings) list"
  br_receipts :: "(string \<times> dict) list"
  br_outbound :: "(string \<times> dict) list"

definition seen_deliveries_limit :: nat where
  "seen_deliveries_limit = 10000"

definition parse_iso :: "iso_codec \<Rightarrow> string \<Rightarrow> time option" where
  "parse_iso codec s =
     (if s = [] then None
      else (case ic_read codec (replace_z s) of
          None \<Rightarrow> None
        | Some (t, None) \<Rightarrow> Some t
        | Some (t, Some offset) \<Rightarrow> Some (t - seconds offset)))"

text \<open>\<open>parse_datetime(s) or utc_now()\<close>.\<close>

definition iso_or_now :: "iso_codec \<Rightarrow> time \<Rightarrow> string \<Rightarrow> time" where
  "iso_or_now codec now s = (case parse_iso codec s of None \<Rightarrow> now | Some t \<Rightarrow> t)"

text \<open>\<open>str.casefold\<close> below code point 256, where the micro sign stays as it is.\<close>

definition casefold_char :: "char \<Rightarrow> string" where
  "casefold_char c = (let n = code_point c in
     if n = 223 then ''ss''
     else if (65 \<le> n \<and> n \<le> 90) \<or> (192 \<le> n \<and> n \<le> 222 \<and> n \<noteq> 215) then [char_of (n + 32)]
     else [c])"

definition casefold :: "string \<Rightarrow> string" where
  "casefold s = concat (map casefold_char s)"

subsection \<open>The state file\<close>

text \<open>\<open>None\<close> is a missing file. A text that is not JSON counts as an empty state.\<close>

definition load_raw :: "string option \<Rightarrow> json" where
  "load_raw file =
     (case file of None \<Rightarrow> JObj [] | Some text \<Rightarrow> (case loads text of None \<Rightarrow> JObj [] | Some v \<Rightarrow> v))"

text \<open>\<open>dict(v)\<close>: of a dictionary, or of a sequence of pairs.\<close>

definition pair_of :: "json \<Rightarrow> py_exc + string \<times> json" where
  "pair_of v =
     try_then (iterate v) (\<lambda>xs.
       case xs of
         [k, w] \<Rightarrow> (case k of
             JList _ \<Rightarrow> Inl (TypeError ''unhashable type'')
           | JObj _ \<Rightarrow> Inl (TypeError ''unhashable type'')
           | _ \<Rightarrow> Inr (str_value k, w))
       | _ \<Rightarrow> Inl (ValueError ''dictionary update sequence element has the wrong length''))"

definition dict_of :: "json \<Rightarrow> py_exc + dict" where
  "dict_of v =
     (case v of
        JObj d \<Rightarrow> Inr d
      | _ \<Rightarrow> try_then (iterate v) (\<lambda>xs. try_then (map_try pair_of xs) (\<lambda>kvs. Inr (dict_update [] kvs))))"

definition raw_field :: "dict \<Rightarrow> string \<Rightarrow> json \<Rightarrow> json" where
  "raw_field raw k alternative = (case map_of raw k of None \<Rightarrow> alternative | Some v \<Rightarrow> v)"

text \<open>The entries that are dictionaries.\<close>

fun dicts_in :: "json list \<Rightarrow> dict list" where
  "dicts_in [] = []"
| "dicts_in (v # vs) = (case v of JObj d \<Rightarrow> d # dicts_in vs | _ \<Rightarrow> dicts_in vs)"

fun dict_entries :: "dict \<Rightarrow> (string \<times> dict) list" where
  "dict_entries [] = []"
| "dict_entries ((k, v) # d) = (case v of JObj e \<Rightarrow> (k, e) # dict_entries d | _ \<Rightarrow> dict_entries d)"

definition str_values :: "dict \<Rightarrow> (string \<times> string) list" where
  "str_values d = map (\<lambda>kv. (fst kv, str_value (snd kv))) d"

definition json_values :: "(string \<times> string) list \<Rightarrow> dict" where
  "json_values d = map (\<lambda>kv. (fst kv, JStr (snd kv))) d"

definition load_settings :: "string \<times> dict \<Rightarrow> py_exc + string \<times> receipt_settings" where
  "load_settings kv =
     try_then (dict_of (raw_field (snd kv) ''contacts'' (JObj []))) (\<lambda>contacts.
       Inr (fst kv, \<lparr>rs_default_mode = str_or ''off'' (dict_get (snd kv) ''default_mode''),
         rs_contacts = str_values contacts\<rparr>))"

definition load_bridge_dict :: "dict \<Rightarrow> py_exc + bridge" where
  "load_bridge_dict raw =
     try_then (iterate (raw_field raw ''bindings'' (JList []))) (\<lambda>bs.
     try_then (map_try binding_from_dict (dicts_in bs)) (\<lambda>bindings.
     try_then (iterate (raw_field raw ''pending_links'' (JList []))) (\<lambda>ps.
     try_then (map_try pending_from_dict (dicts_in ps)) (\<lambda>pending.
     try_then (dict_of (raw_field raw ''active_contacts'' (JObj []))) (\<lambda>active.
     try_then (iterate (raw_field raw ''seen_deliveries'' (JList []))) (\<lambda>seen.
     try_then (dict_of (raw_field raw ''reply_index'' (JObj []))) (\<lambda>replies.
     try_then (dict_of (raw_field raw ''receipt_settings'' (JObj []))) (\<lambda>settings.
     try_then (map_try load_settings (dict_entries settings)) (\<lambda>settings.
     try_then (dict_of (raw_field raw ''receipt_index'' (JObj []))) (\<lambda>receipts.
     try_then (dict_of (raw_field raw ''outbound_message_index'' (JObj []))) (\<lambda>outbound.
       let seen = map str_value (filter truthy seen) in
       Inr \<lparr>br_bindings = bindings, br_pending = pending, br_active = str_values active, br_seen = seen,
         br_seen_ids = set seen,
         br_replies = map (\<lambda>kv. (fst kv, json_values (str_values (snd kv)))) (dict_entries replies),
         br_receipt_settings = settings, br_receipts = dict_entries receipts,
         br_outbound = dict_entries outbound\<rparr>)))))))))))"

definition load_bridge :: "string option \<Rightarrow> py_exc + bridge" where
  "load_bridge file =
     (case load_raw file of JObj raw \<Rightarrow> load_bridge_dict raw | _ \<Rightarrow> Inl (OtherException ''no attribute get''))"

definition settings_to_dict :: "receipt_settings \<Rightarrow> dict" where
  "settings_to_dict s =
     [(''default_mode'', JStr (rs_default_mode s)), (''contacts'', JObj (json_values (rs_contacts s)))]"

definition last_part :: "nat \<Rightarrow> 'a list \<Rightarrow> 'a list" where
  "last_part n xs = drop (length xs - n) xs"

definition index_to_json :: "(string \<times> dict) list \<Rightarrow> json" where
  "index_to_json xs = JObj (map (\<lambda>kv. (fst kv, JObj (snd kv))) xs)"

text \<open>The payload that \<open>save\<close> writes; \<open>json.dumps\<close> sorts the keys of every dictionary.\<close>

definition bridge_payload :: "bridge \<Rightarrow> dict" where
  "bridge_payload st =
     [(''bindings'', JList (map (\<lambda>b. JObj (binding_to_dict b)) (br_bindings st))),
      (''pending_links'', JList (map (\<lambda>p. JObj (pending_to_dict p)) (br_pending st))),
      (''active_contacts'', JObj (json_values (br_active st))),
      (''seen_deliveries'', JList (map JStr (last_part seen_deliveries_limit (br_seen st)))),
      (''reply_index'', index_to_json (br_replies st)),
      (''receipt_settings'', index_to_json (map (\<lambda>kv. (fst kv, settings_to_dict (snd kv))) (br_receipt_settings st))),
      (''receipt_index'', index_to_json (br_receipts st)),
      (''outbound_message_index'', index_to_json (br_outbound st))]"

definition save_bridge :: "bridge \<Rightarrow> dict" where
  "save_bridge st = sort_dict (bridge_payload st)"

subsection \<open>Bindings\<close>

definition list_user_bindings :: "iso_codec \<Rightarrow> time \<Rightarrow> bool \<Rightarrow> string \<Rightarrow> bridge \<Rightarrow> binding list" where
  "list_user_bindings codec now include_inactive user st =
     sort_key (\<lambda>b. iso_or_now codec now (bn_created_at b)) (sort_key (\<lambda>b. lower (bn_label b))
       (filter (\<lambda>b. bn_discord_user_id b = user \<and> (include_inactive \<or> bn_status b = ''active'')) (br_bindings st)))"

definition get_binding :: "string \<Rightarrow> bridge \<Rightarrow> binding option" where
  "get_binding i st = find (\<lambda>b. bn_binding_id b = i) (br_bindings st)"

definition get_binding_by_link_id :: "string \<Rightarrow> bridge \<Rightarrow> binding option" where
  "get_binding_by_link_id i st = find (\<lambda>b. bn_link_id b = i) (br_bindings st)"

definition get_binding_by_local_endpoint :: "string \<Rightarrow> bridge \<Rightarrow> binding option" where
  "get_binding_by_local_endpoint i st = find (\<lambda>b. bn_local_endpoint_id b = i) (br_bindings st)"

definition set_active_binding :: "string \<Rightarrow> string option \<Rightarrow> bridge \<Rightarrow> bridge" where
  "set_active_binding user i st =
     (if i = None \<or> i = Some [] then st\<lparr>br_active := AList.delete user (br_active st)\<rparr>
      else st\<lparr>br_active := AList.update user (the i) (br_active st)\<rparr>)"

definition get_active_binding :: "string \<Rightarrow> bridge \<Rightarrow> binding option" where
  "get_active_binding user st =
     (case map_of (br_active st) user of
        None \<Rightarrow> None
      | Some i \<Rightarrow>
          if i = [] then None
          else (case get_binding i st of None \<Rightarrow> None | Some b \<Rightarrow> if bn_status b \<noteq> ''active'' then None else Some b))"

definition ensure_valid_active_binding :: "string \<Rightarrow> bridge \<Rightarrow> bridge \<times> binding option" where
  "ensure_valid_active_binding user st =
     (case get_active_binding user st of
        None \<Rightarrow> (st\<lparr>br_active := AList.delete user (br_active st)\<rparr>, None)
      | Some b \<Rightarrow> (st, Some b))"

definition bindings_using_local_endpoint :: "string \<Rightarrow> bridge \<Rightarrow> binding list" where
  "bindings_using_local_endpoint i st = filter (\<lambda>b. bn_local_endpoint_id b = i) (br_bindings st)"

fun replace_binding :: "binding \<Rightarrow> binding list \<Rightarrow> binding list" where
  "replace_binding b [] = [b]"
| "replace_binding b (c # cs) =
     (if bn_binding_id c = bn_binding_id b then b # cs else c # replace_binding b cs)"

definition upsert_binding :: "binding \<Rightarrow> bridge \<Rightarrow> bridge" where
  "upsert_binding b st = st\<lparr>br_bindings := replace_binding b (br_bindings st)\<rparr>"

subsection \<open>Labels\<close>

definition contact_name :: "nat \<Rightarrow> string" where
  "contact_name n = ''Contact '' @ str_of_nat n"

text \<open>The loop of \<open>next_contact_label\<close>: the first number from \<open>n\<close> on whose name is free.\<close>

function free_contact :: "string list \<Rightarrow> nat \<Rightarrow> string" where
  "free_contact existing n =
     (if casefold (contact_name n) \<notin> set existing then contact_name n else free_contact existing (Suc n))"
  by pat_completeness auto

lemma casefold_append: "casefold (s @ t) = casefold s @ casefold t"
  by (simp add: casefold_def)

lemma casefold_digit:
  assumes "is_digit c"
  shows "casefold_char c = [c]"
proof -
  have "\<not> 65 \<le> code_point c" "\<not> 192 \<le> code_point c" "code_point c \<noteq> 223"
    using assms unfolding is_digit_def Let_def by linarith+
  then show ?thesis by (simp only: casefold_char_def Let_def if_False simp_thms)
qed

lemma casefold_digits: "list_all is_digit s \<Longrightarrow> casefold s = s"
  by (induction s) (simp_all add: casefold_def casefold_digit)

lemma contact_name_inj:
  assumes "casefold (contact_name m) = casefold (contact_name n)"
  shows "m = n"
proof -
  have "casefold (str_of_nat k) = str_of_nat k" for k
    using str_of_nat_digits [of k] by (intro casefold_digits) simp
  then have "str_of_nat m = str_of_nat n"
    using assms by (simp only: contact_name_def casefold_append same_append_eq)
  then have "nat_of_digits (str_of_nat m) = nat_of_digits (str_of_nat n)" by (rule arg_cong)
  then show ?thesis by (simp only: nat_of_str_of_nat)
qed

termination free_contact
proof (relation "measure (\<lambda>(existing, n). card {m. n \<le> m \<and> casefold (contact_name m) \<in> set existing})")
  fix existing :: "string list" and n :: nat
  let ?taken = "\<lambda>n. {m. n \<le> m \<and> casefold (contact_name m) \<in> set existing}"
  assume "\<not> casefold (contact_name n) \<notin> set existing"
  then have "n \<in> ?taken n" "n \<notin> ?taken (Suc n)" "?taken (Suc n) \<subseteq> ?taken n" by auto
  then have "?taken (Suc n) \<subset> ?taken n" by blast
  moreover have "finite (?taken n)"
    by (rule inj_on_finite [of "\<lambda>m. casefold (contact_name m)" _ "set existing"])
      (auto intro: inj_onI contact_name_inj)
  ultimately show "((existing, Suc n), (existing, n)) \<in>
      measure (\<lambda>(existing, n). card {m. n \<le> m \<and> casefold (contact_name m) \<in> set existing})"
    by (simp add: psubset_card_mono)
qed simp

declare free_contact.simps [simp del]

definition next_contact_label :: "string \<Rightarrow> bridge \<Rightarrow> string" where
  "next_contact_label user st =
     free_contact (map (\<lambda>b. casefold (bn_label b)) (filter (\<lambda>b. bn_discord_user_id b = user) (br_bindings st))) 1"

definition ensure_unique_label :: "string \<Rightarrow> string \<Rightarrow> string option \<Rightarrow> bool \<Rightarrow> bridge \<Rightarrow> string" where
  "ensure_unique_label user desired exclude include_inactive st =
     (let candidate = strip desired;
          taken = map (\<lambda>b. casefold (bn_label b)) (filter (\<lambda>b. bn_discord_user_id b = user
            \<and> (include_inactive \<or> bn_status b = ''active'') \<and> Some (bn_binding_id b) \<noteq> exclude) (br_bindings st))
      in if candidate = [] then next_contact_label user st
         else if casefold candidate \<notin> set taken then candidate
         else next_contact_label user st)"

subsection \<open>Pending links\<close>

definition add_pending_link :: "pending_link \<Rightarrow> bridge \<Rightarrow> bridge" where
  "add_pending_link p st =
     st\<lparr>br_pending := delete_where (\<lambda>q. pl_pending_id q = pl_pending_id p) (br_pending st) @ [p]\<rparr>"

definition remove_pending_link :: "string \<Rightarrow> bridge \<Rightarrow> bridge" where
  "remove_pending_link i st = st\<lparr>br_pending := delete_where (\<lambda>q. pl_pending_id q = i) (br_pending st)\<rparr>"

definition pending_expired :: "iso_codec \<Rightarrow> time \<Rightarrow> pending_link \<Rightarrow> bool" where
  "pending_expired codec now p = (case parse_iso codec (pl_expires_at p) of None \<Rightarrow> False | Some t \<Rightarrow> t \<le> now)"

definition prune_expired_pending_links :: "iso_codec \<Rightarrow> time \<Rightarrow> bridge \<Rightarrow> bridge \<times> pending_link list" where
  "prune_expired_pending_links codec now st =
     (st\<lparr>br_pending := delete_where (pending_expired codec now) (br_pending st)\<rparr>,
      filter (pending_expired codec now) (br_pending st))"

definition pending_for_local_endpoint :: "string \<Rightarrow> bridge \<Rightarrow> pending_link option" where
  "pending_for_local_endpoint i st = find (\<lambda>p. pl_local_endpoint_id p = i) (br_pending st)"

subsection \<open>Seen deliveries\<close>

definition has_seen_delivery :: "string \<Rightarrow> bridge \<Rightarrow> bool" where
  "has_seen_delivery i st \<longleftrightarrow> i \<in> br_seen_ids st"

definition mark_seen_delivery :: "string \<Rightarrow> bridge \<Rightarrow> bridge" where
  "mark_seen_delivery i st =
     (if i \<in> br_seen_ids st then st
      else let seen = br_seen st @ [i] in
        if seen_deliveries_limit < length seen then
          let trim = last_part seen_deliveries_limit seen in st\<lparr>br_seen := trim, br_seen_ids := set trim\<rparr>
        else st\<lparr>br_seen := seen, br_seen_ids := insert i (br_seen_ids st)\<rparr>)"

subsection \<open>The indexes of messages\<close>

definition update_all :: "string list \<Rightarrow> dict \<Rightarrow> (string \<times> dict) list \<Rightarrow> (string \<times> dict) list" where
  "update_all message_ids payload index = fold (\<lambda>i. AList.update i payload) message_ids index"

definition remember_reply_messages :: "string \<Rightarrow> string \<Rightarrow> string \<Rightarrow> string list \<Rightarrow> bridge \<Rightarrow> bridge" where
  "remember_reply_messages user binding_id packet_id message_ids st =
     st\<lparr>br_replies := update_all message_ids
       [(''discord_user_id'', JStr user), (''binding_id'', JStr binding_id), (''packet_id'', JStr packet_id)]
       (br_replies st)\<rparr>"

definition receipt_entry :: "string \<Rightarrow> string \<Rightarrow> string \<Rightarrow> string \<Rightarrow> string \<Rightarrow> string \<Rightarrow> string option \<Rightarrow> dict" where
  "receipt_entry now user binding_id packet_id from_id to_id correlation_id =
     [(''discord_user_id'', JStr user), (''binding_id'', JStr binding_id), (''original_packet_id'', JStr packet_id),
      (''original_from_endpoint_id'', JStr from_id), (''original_to_endpoint_id'', JStr to_id),
      (''original_correlation_id'',
       if correlation_id = None \<or> correlation_id = Some [] then JNull else JStr (the correlation_id)),
      (''read_receipt_sent'', JBool False), (''delivered_receipt_sent'', JBool False), (''created_at'', JStr now)]"

definition remember_receipt_messages ::
  "string \<Rightarrow> string \<Rightarrow> string \<Rightarrow> string \<Rightarrow> string \<Rightarrow> string \<Rightarrow> string option \<Rightarrow> string list \<Rightarrow> bridge \<Rightarrow> bridge" where
  "remember_receipt_messages now user binding_id packet_id from_id to_id correlation_id message_ids st =
     st\<lparr>br_receipts := update_all message_ids
       (receipt_entry now user binding_id packet_id from_id to_id correlation_id) (br_receipts st)\<rparr>"

definition outbound_entry :: "string \<Rightarrow> string \<Rightarrow> string \<Rightarrow> string \<Rightarrow> string \<Rightarrow> string \<Rightarrow> dict" where
  "outbound_entry now packet_id user message_id channel_id binding_id =
     [(''packet_id'', JStr packet_id), (''discord_user_id'', JStr user), (''discord_message_id'', JStr message_id),
      (''discord_channel_id'', JStr channel_id), (''binding_id'', JStr binding_id), (''created_at'', JStr now),
      (''delivered_receipt_received'', JBool False), (''read_receipt_received'', JBool False),
      (''has_read_receipt'', JBool False), (''active_reactions'', JObj [])]"

definition remember_outbound_message ::
  "string \<Rightarrow> string \<Rightarrow> string \<Rightarrow> string \<Rightarrow> string \<Rightarrow> string \<Rightarrow> bridge \<Rightarrow> bridge" where
  "remember_outbound_message now packet_id user message_id channel_id binding_id st =
     st\<lparr>br_outbound := AList.update packet_id
       (outbound_entry now packet_id user message_id channel_id binding_id) (br_outbound st)\<rparr>"

definition get_outbound_message :: "string \<Rightarrow> bridge \<Rightarrow> dict option" where
  "get_outbound_message packet_id st = map_of (br_outbound st) packet_id"

definition last_option :: "'a list \<Rightarrow> 'a option" where
  "last_option xs = (if xs = [] then None else Some (last xs))"

definition find_latest_outbound_message ::
  "iso_codec \<Rightarrow> time \<Rightarrow> string \<Rightarrow> string option \<Rightarrow> bridge \<Rightarrow> dict option" where
  "find_latest_outbound_message codec now user binding_id st =
     last_option (sort_key (\<lambda>e. iso_or_now codec now (str_or_empty (dict_get e ''created_at'')))
       (sort_key (\<lambda>e. str_or_empty (dict_get e ''packet_id''))
         (filter (\<lambda>e. dict_get e ''discord_user_id'' = JStr user
             \<and> (binding_id = None \<or> dict_get e ''binding_id'' = JStr (the binding_id)))
           (map snd (br_outbound st)))))"

definition change_outbound :: "string \<Rightarrow> (dict \<Rightarrow> dict) \<Rightarrow> bridge \<Rightarrow> bridge" where
  "change_outbound packet_id f st =
     (case map_of (br_outbound st) packet_id of
        None \<Rightarrow> st
      | Some e \<Rightarrow> st\<lparr>br_outbound := AList.update packet_id (f e) (br_outbound st)\<rparr>)"

definition mark_outbound_receipt :: "string \<Rightarrow> string \<Rightarrow> bridge \<Rightarrow> bridge" where
  "mark_outbound_receipt packet_id kind =
     change_outbound packet_id (\<lambda>e.
       if kind = ''read'' then
         dict_put ''has_read_receipt'' (JBool True) (dict_put ''read_receipt_received'' (JBool True) e)
       else if kind = ''delivered'' then dict_put ''delivered_receipt_received'' (JBool True) e
       else e)"

text \<open>\<open>dict(payload.get("active_reactions") or {})\<close>; the adapter only ever puts a dictionary there.\<close>

definition active_reactions_of :: "dict \<Rightarrow> dict" where
  "active_reactions_of e = (case dict_get e ''active_reactions'' of JObj d \<Rightarrow> d | _ \<Rightarrow> [])"

definition set_outbound_reaction :: "string \<Rightarrow> string \<Rightarrow> dict \<Rightarrow> bridge \<Rightarrow> bridge" where
  "set_outbound_reaction packet_id reaction_key reaction =
     change_outbound packet_id (\<lambda>e.
       dict_put ''active_reactions'' (JObj (dict_put reaction_key (JObj reaction) (active_reactions_of e))) e)"

definition remove_outbound_reaction :: "string \<Rightarrow> string \<Rightarrow> bridge \<Rightarrow> bridge" where
  "remove_outbound_reaction packet_id reaction_key =
     change_outbound packet_id (\<lambda>e.
       dict_put ''active_reactions'' (JObj (AList.delete reaction_key (active_reactions_of e))) e)"

definition mark_receipt_sent :: "string \<Rightarrow> string \<Rightarrow> string \<Rightarrow> bridge \<Rightarrow> bridge" where
  "mark_receipt_sent binding_id packet_id kind st =
     (let key_name = (if kind = ''read'' then ''read_receipt_sent'' else ''delivered_receipt_sent'') in
      st\<lparr>br_receipts := map (\<lambda>(i, e).
        if dict_get e ''binding_id'' = JStr binding_id \<and> dict_get e ''original_packet_id'' = JStr packet_id
        then (i, dict_put key_name (JBool True) e) else (i, e)) (br_receipts st)\<rparr>)"

definition not_of_binding :: "string \<Rightarrow> string \<times> dict \<Rightarrow> bool" where
  "not_of_binding binding_id kv \<longleftrightarrow> dict_get (snd kv) ''binding_id'' \<noteq> JStr binding_id"

definition remove_binding_indexes :: "string \<Rightarrow> bridge \<Rightarrow> bridge" where
  "remove_binding_indexes binding_id st =
     st\<lparr>br_replies := filter (not_of_binding binding_id) (br_replies st),
       br_receipts := filter (not_of_binding binding_id) (br_receipts st),
       br_outbound := filter (not_of_binding binding_id) (br_outbound st),
       br_active := filter (\<lambda>kv. snd kv \<noteq> binding_id) (br_active st),
       br_receipt_settings := map (\<lambda>(u, s). (u, s\<lparr>rs_contacts := AList.delete binding_id (rs_contacts s)\<rparr>))
         (br_receipt_settings st)\<rparr>"

definition delete_binding :: "string \<Rightarrow> bridge \<Rightarrow> bridge \<times> binding option" where
  "delete_binding binding_id st =
     (case get_binding binding_id st of
        None \<Rightarrow> (st, None)
      | Some target \<Rightarrow>
          (remove_binding_indexes binding_id
             (st\<lparr>br_bindings := delete_where (\<lambda>b. bn_binding_id b = binding_id) (br_bindings st)\<rparr>), Some target))"

subsection \<open>Receipt modes\<close>

definition new_settings :: "string \<Rightarrow> receipt_settings" where
  "new_settings mode = \<lparr>rs_default_mode = mode, rs_contacts = []\<rparr>"

definition set_receipt_mode :: "string \<Rightarrow> string \<Rightarrow> string option \<Rightarrow> bridge \<Rightarrow> py_exc + bridge" where
  "set_receipt_mode user mode binding_id st =
     try_then (normalize_mode mode) (\<lambda>mode.
       let settings = (case map_of (br_receipt_settings st) user of None \<Rightarrow> new_settings ''off'' | Some s \<Rightarrow> s) in
       Inr (st\<lparr>br_receipt_settings := AList.update user
         (case binding_id of
            None \<Rightarrow> settings\<lparr>rs_default_mode := mode\<rparr>
          | Some i \<Rightarrow> settings\<lparr>rs_contacts := AList.update i mode (rs_contacts settings)\<rparr>)
         (br_receipt_settings st)\<rparr>))"

definition get_receipt_mode :: "string \<Rightarrow> string \<Rightarrow> string \<Rightarrow> bridge \<Rightarrow> py_exc + string" where
  "get_receipt_mode user binding_id default_mode st =
     (let settings = (case map_of (br_receipt_settings st) user of None \<Rightarrow> new_settings default_mode | Some s \<Rightarrow> s) in
      case map_of (rs_contacts settings) binding_id of
        Some mode \<Rightarrow> normalize_mode mode
      | None \<Rightarrow> normalize_mode (if rs_default_mode settings \<noteq> [] then rs_default_mode settings else default_mode))"

end
