(* ===== verification/Bot.thy ===== *)
theory Bot
  imports Bridge App
begin

text \<open>
  The bot of the Discord adapter \<open>src/adapters/arqs_discord_appkit_bot.py\<close>: packets from the inbox on
  their way to Discord. The world \<open>'w\<close> holds the ARQS server and Discord; the requests that the bot makes
  of either are functions of it in \<open>bot_env\<close>. A coroutine runs to its end before another starts.
  Logging is left out, except for the deliveries that are acknowledged without a recipient.
\<close>

section \<open>State and environment\<close>

text \<open>
  \<open>bo_files\<close> lists what \<open>save\<close> has written in full, the latest first, and \<open>bo_unwritten\<close> what it failed to
  write; \<open>bo_unclaimed\<close> the deliveries logged as acknowledged for an unknown local endpoint. \<open>bo_disk\<close> holds the
  outcomes of the coming writes: an \<open>OSError\<close> of \<open>mkdir\<close> or \<open>write_text\<close> or none; the writes after these succeed.
\<close>

record 'w bot =
  bo_world :: 'w
  bo_state :: bridge
  bo_files :: "dict list"
  bo_unwritten :: "dict list"
  bo_disk :: "py_exc option list"
  bo_unclaimed :: "string list"

type_synonym ('w, 'a) bot_action = "'w bot \<Rightarrow> 'w bot \<times> (py_exc + 'a)"

text \<open>An emoji to put on a message: its characters, or a custom emoji's name, identifier and animation.\<close>

datatype bot_emoji = Unicode string | Custom string int bool

text \<open>
  \<open>bv_find_user\<close> is \<open>get_user\<close> or \<open>fetch_user\<close>, \<open>bv_dm\<close> sends one chunk and gives the message's identifier,
  \<open>bv_fetch_message\<close> finds a message of the direct channel with a user. \<open>bv_http\<close>: is it a
  \<open>discord.HTTPException\<close>? \<open>bv_check\<close>, \<open>bv_bell\<close> and \<open>bv_dash\<close> are the three characters above code point 255
  in the texts of the bot. \<open>bv_ready\<close>: \<open>self.user\<close> is set. \<open>bv_respond\<close> answers an interaction or a message in its
  channel, \<open>bv_defer\<close> is \<open>response.defer\<close>, \<open>bv_clock\<close> the local clock time as text. The rest are calls of the
  application and of its client.
\<close>

record 'w bot_env =
  bv_config :: dict
  bv_codec :: iso_codec
  bv_lib :: pylib
  bv_check :: string
  bv_bell :: string
  bv_dash :: string
  bv_ready :: bool
  bv_http :: "py_exc \<Rightarrow> bool"
  bv_now :: "'w \<Rightarrow> time"
  bv_uuid4 :: "'w \<Rightarrow> 'w \<times> string"
  bv_find_user :: "'w \<Rightarrow> string \<Rightarrow> 'w \<times> (py_exc + unit)"
  bv_dm :: "'w \<Rightarrow> string \<Rightarrow> string \<Rightarrow> 'w \<times> (py_exc + string)"
  bv_fetch_message :: "'w \<Rightarrow> string \<Rightarrow> string \<Rightarrow> 'w \<times> (py_exc + unit)"
  bv_add_reaction :: "'w \<Rightarrow> string \<Rightarrow> bot_emoji \<Rightarrow> 'w \<times> (py_exc + unit)"
  bv_remove_reaction :: "'w \<Rightarrow> string \<Rightarrow> bot_emoji \<Rightarrow> 'w \<times> (py_exc + unit)"
  bv_send :: "'w \<Rightarrow> type_args \<Rightarrow> 'w \<times> (py_exc + send_result)"
  bv_send_reaction :: "'w \<Rightarrow> reaction_args \<Rightarrow> type_args \<Rightarrow> 'w \<times> (py_exc + send_result)"
  bv_poll :: "'w \<Rightarrow> int \<Rightarrow> int \<Rightarrow> 'w \<times> (py_exc + client_delivery list)"
  bv_ack :: "'w \<Rightarrow> string \<Rightarrow> string \<Rightarrow> 'w \<times> (py_exc + unit)"
  bv_list_links :: "'w \<Rightarrow> 'w \<times> (py_exc + client_link list)"
  bv_respond :: "'w \<Rightarrow> string \<Rightarrow> 'w \<times> (py_exc + unit)"
  bv_defer :: "'w \<Rightarrow> 'w \<times> (py_exc + unit)"
  bv_create_endpoint :: "'w \<Rightarrow> string \<Rightarrow> string \<Rightarrow> dict \<Rightarrow> 'w \<times> (py_exc + string)"
  bv_delete_endpoint :: "'w \<Rightarrow> string \<Rightarrow> 'w \<times> (py_exc + unit)"
  bv_request_code :: "'w \<Rightarrow> string \<Rightarrow> string \<Rightarrow> 'w \<times> (py_exc + client_link_code)"
  bv_redeem_code :: "'w \<Rightarrow> string \<Rightarrow> string \<Rightarrow> 'w \<times> (py_exc + client_link)"
  bv_revoke_link :: "'w \<Rightarrow> string \<Rightarrow> 'w \<times> (py_exc + unit)"
  bv_flush :: "'w \<Rightarrow> 'w \<times> (py_exc + send_result list)"
  bv_base_url :: "'w \<Rightarrow> py_exc + string"
  bv_has_identity :: bool
  bv_clock :: "time \<Rightarrow> string"

definition world_call :: "('w \<Rightarrow> 'w \<times> (py_exc + 'a)) \<Rightarrow> ('w, 'a) bot_action" where
  "world_call f st = (case f (bo_world st) of (w, r) \<Rightarrow> (st\<lparr>bo_world := w\<rparr>, r))"

definition draw_uuid :: "'w bot_env \<Rightarrow> ('w, string) bot_action" where
  "draw_uuid env = world_call (\<lambda>w. case bv_uuid4 env w of (w, u) \<Rightarrow> (w, Inr u))"

definition pass :: "'a \<Rightarrow> ('w, 'a) bot_action" where
  "pass x st = (st, Inr x)"

definition give_up :: "py_exc \<Rightarrow> ('w, 'a) bot_action" where
  "give_up e st = (st, Inl e)"

definition change_state :: "(bridge \<Rightarrow> bridge) \<Rightarrow> ('w, unit) bot_action" where
  "change_state f st = (st\<lparr>bo_state := f (bo_state st)\<rparr>, Inr ())"

text \<open>A failing write leaves the state in memory as it is, ahead of the file.\<close>

definition save_state :: "('w, unit) bot_action" where
  "save_state st =
     (let payload = save_bridge (bo_state st); st' = st\<lparr>bo_disk := tl (bo_disk st)\<rparr> in
      case bo_disk st of
        Some e # _ \<Rightarrow> (st'\<lparr>bo_unwritten := payload # bo_unwritten st\<rparr>, Inl e)
      | _ \<Rightarrow> (st'\<lparr>bo_files := payload # bo_files st\<rparr>, Inr ()))"

text \<open>\<open>try: ... except Exception\<close>, with the value of the handler.\<close>

definition or_else :: "('w, 'a) bot_action \<Rightarrow> (py_exc \<Rightarrow> 'a) \<Rightarrow> ('w, 'a) bot_action" where
  "or_else a h st = (case a st of (st, Inl e) \<Rightarrow> (st, Inr (h e)) | (st, Inr x) \<Rightarrow> (st, Inr x))"

text \<open>\<open>to_iso(utc_now())\<close>.\<close>

definition now_text :: "'w bot_env \<Rightarrow> 'w bot \<Rightarrow> string" where
  "now_text env st = ic_show (bv_codec env) (bv_now env (bo_world st))"

definition bot_ack :: "'w bot_env \<Rightarrow> string \<Rightarrow> ('w, unit) bot_action" where
  "bot_ack env i = world_call (\<lambda>w. bv_ack env w i ''handled'')"

section \<open>Messages to a user\<close>

fun send_chunks :: "'w bot_env \<Rightarrow> string \<Rightarrow> string list \<Rightarrow> ('w, string list) bot_action" where
  "send_chunks env user [] = pass []"
| "send_chunks env user (c # cs) =
     then_do (world_call (\<lambda>w. bv_dm env w user c)) (\<lambda>i.
     then_do (send_chunks env user cs) (\<lambda>is. pass (i # is)))"

definition send_user_dm :: "'w bot_env \<Rightarrow> string \<Rightarrow> string \<Rightarrow> ('w, string list) bot_action" where
  "send_user_dm env user content =
     then_do (world_call (\<lambda>w. bv_find_user env w user)) (\<lambda>_.
       case split_discord_message max_discord_message_length content of
         None \<Rightarrow> pass []
       | Some chunks \<Rightarrow> send_chunks env user chunks)"

section \<open>Reactions on a message\<close>

text \<open>\<open>c.isalnum()\<close> below code point 256.\<close>

definition alnum_char :: "char \<Rightarrow> bool" where
  "alnum_char c \<longleftrightarrow> is_alnum c \<or> (let n = code_point c in
     n \<in> {170, 178, 179, 181, 185, 186, 188, 189, 190} \<or> (192 \<le> n \<and> n \<noteq> 215 \<and> n \<noteq> 247))"

definition discord_emoji_from_reaction :: "dict \<Rightarrow> bot_emoji option" where
  "discord_emoji_from_reaction payload =
     (let emoji = strip (str_or_empty (dict_get payload ''emoji''));
          emoji_id = strip (str_or_empty (dict_get payload ''emoji_id''));
          emoji_name = strip_by (\<lambda>c. c = CHR '':'') (strip (str_or_empty (dict_get payload ''emoji_name'')))
      in if emoji \<noteq> [] then Some (Unicode emoji)
         else if emoji_id \<noteq> [] then
           (case client_int (JStr emoji_id) of
              Inl _ \<Rightarrow> None
            | Inr i \<Rightarrow> Some (Custom (if emoji_name = [] then ''reaction'' else emoji_name) i
                (truthy (dict_get payload ''animated''))))
         else if emoji_name \<noteq> [] \<and> (let bare = filter (\<lambda>c. c \<noteq> CHR ''_'') emoji_name in
             bare = [] \<or> \<not> list_all alnum_char bare) then Some (Unicode emoji_name)
         else None)"

definition active_reactions_for_target :: "dict \<Rightarrow> (string \<times> dict) list" where
  "active_reactions_for_target target = dict_entries (active_reactions_of target)"

definition target_has_read_receipt :: "dict \<Rightarrow> bool" where
  "target_has_read_receipt target \<longleftrightarrow>
     truthy (dict_get target ''has_read_receipt'') \<or> truthy (dict_get target ''read_receipt_received'')"

text \<open>The message that a packet was, by its identifier; \<open>None\<close> when the entry does not name one.\<close>

definition fetch_target_discord_message :: "'w bot_env \<Rightarrow> dict \<Rightarrow> ('w, string option) bot_action" where
  "fetch_target_discord_message env target =
     (let user = str_or_empty (dict_get target ''discord_user_id'');
          message = str_or_empty (dict_get target ''discord_message_id'')
      in if user = [] \<or> message = [] then pass None
         else then_do (world_call (\<lambda>w. bv_fetch_message env w user message)) (\<lambda>_. pass (Some message)))"

text \<open>Without \<open>message\<close> the message is fetched first.\<close>

definition try_remove_display_reaction ::
  "'w bot_env \<Rightarrow> dict \<Rightarrow> dict \<Rightarrow> string option \<Rightarrow> ('w, bool) bot_action" where
  "try_remove_display_reaction env target reaction message =
     (if \<not> bv_ready env then pass False
      else (case discord_emoji_from_reaction reaction of
          None \<Rightarrow> pass False
        | Some emoji \<Rightarrow>
            or_else (then_do (case message of None \<Rightarrow> fetch_target_discord_message env target | Some m \<Rightarrow> pass (Some m)) (\<lambda>m.
                case m of None \<Rightarrow> pass False
                | Some m \<Rightarrow> then_do (world_call (\<lambda>w. bv_remove_reaction env w m emoji)) (\<lambda>_. pass True)))
              (bv_http env)))"

definition try_set_explicit_reaction ::
  "'w bot_env \<Rightarrow> dict \<Rightarrow> dict \<Rightarrow> dict option \<Rightarrow> bool \<Rightarrow> ('w, bool) bot_action" where
  "try_set_explicit_reaction env target reaction previous suppress_read_marker =
     (case discord_emoji_from_reaction reaction of
        None \<Rightarrow> pass False
      | Some emoji \<Rightarrow>
          or_else (then_do (fetch_target_discord_message env target) (\<lambda>m.
              case m of None \<Rightarrow> pass False
              | Some m \<Rightarrow>
                  then_do (case previous of
                      Some p \<Rightarrow> if \<not> reaction_matches p reaction
                        then try_remove_display_reaction env target p (Some m) else pass False
                    | None \<Rightarrow> pass False) (\<lambda>_.
                  then_do (if suppress_read_marker \<and> target_has_read_receipt target \<and> emoji \<noteq> Unicode (bv_check env)
                      then try_remove_display_reaction env target
                        [(''emoji'', JStr (bv_check env)), (''emoji_name'', JStr (bv_check env))] (Some m)
                      else pass False) (\<lambda>_.
                  then_do (world_call (\<lambda>w. bv_add_reaction env w m emoji)) (\<lambda>_. pass True)))))
            (\<lambda>_. False))"

definition try_add_receipt_reaction :: "'w bot_env \<Rightarrow> dict \<Rightarrow> ('w, bool) bot_action" where
  "try_add_receipt_reaction env target =
     (if active_reactions_for_target target \<noteq> [] then pass True
      else or_else (then_do (fetch_target_discord_message env target) (\<lambda>m.
          case m of None \<Rightarrow> pass False
          | Some m \<Rightarrow> then_do (world_call (\<lambda>w. bv_add_reaction env w m (Unicode (bv_check env)))) (\<lambda>_. pass True)))
        (\<lambda>_. False))"

section \<open>Reactions and receipts from the other side\<close>

definition packet_type_for_delivery :: "client_delivery \<Rightarrow> string option" where
  "packet_type_for_delivery d =
     (let t = str_or_empty (dict_get (cp_headers (cd_packet d)) ''arqs_type'') in if t = [] then None else Some t)"

definition reaction_state_from_packet :: "dict \<Rightarrow> dict" where
  "reaction_state_from_packet data =
     (let e = dict_get data ''emoji''; i = dict_get data ''emoji_id''; a = dict_get data ''animated'';
          name = (if truthy (dict_get data ''emoji_name'') then str_value (dict_get data ''emoji_name'') else str_or_empty e);
          payload = [(''emoji_name'', JStr (strip name))];
          payload = (if none_or_empty e then payload else dict_put ''emoji'' (JStr (str_value e)) payload);
          payload = (if none_or_empty i then payload else dict_put ''emoji_id'' (JStr (str_value i)) payload)
      in if a = JNull then payload else dict_put ''animated'' (JBool (truthy a)) payload)"

definition find_outbound_message_target :: "iso_codec \<Rightarrow> time \<Rightarrow> binding \<Rightarrow> string \<Rightarrow> bridge \<Rightarrow> dict option" where
  "find_outbound_message_target codec now b for_packet_id st =
     (case (if for_packet_id = [] then None else get_outbound_message for_packet_id st) of
        Some e \<Rightarrow> Some e
      | None \<Rightarrow>
          (case find_latest_outbound_message codec now (bn_discord_user_id b) (Some (bn_binding_id b)) st of
             Some e \<Rightarrow> if e = [] then find_latest_outbound_message codec now (bn_discord_user_id b) None st else Some e
           | None \<Rightarrow> find_latest_outbound_message codec now (bn_discord_user_id b) None st))"

text \<open>\<open>str(target["packet_id"])\<close>.\<close>

definition target_packet_id :: "dict \<Rightarrow> py_exc + string" where
  "target_packet_id target = str_item (JObj target) ''packet_id''"

definition lift_result :: "py_exc + 'a \<Rightarrow> ('w, 'a) bot_action" where
  "lift_result r st = (st, r)"

text \<open>\<open>str(v or get_causation_id(headers) or "").strip()\<close>.\<close>

definition referred_packet :: "json \<Rightarrow> dict \<Rightarrow> string" where
  "referred_packet v headers =
     strip (if truthy v then str_value v else (case get_causation_id headers of None \<Rightarrow> [] | Some c \<Rightarrow> c))"

definition reaction_set ::
  "'w bot_env \<Rightarrow> dict \<Rightarrow> string \<Rightarrow> dict \<Rightarrow> ('w, bool) bot_action" where
  "reaction_set env target key reaction =
     (let active = active_reactions_for_target target in
      then_do (lift_result (target_packet_id target)) (\<lambda>i.
      then_do (change_state (set_outbound_reaction i key reaction)) (\<lambda>_.
      then_do (try_set_explicit_reaction env
          (dict_put ''active_reactions''
            (JObj (map (\<lambda>kv. (fst kv, JObj (snd kv))) (AList.update key reaction active))) target)
          reaction (map_of active key) (active = [])) (\<lambda>_.
        pass True))))"

definition reaction_removed ::
  "'w bot_env \<Rightarrow> dict \<Rightarrow> string \<Rightarrow> dict \<Rightarrow> ('w, bool) bot_action" where
  "reaction_removed env target key reaction =
     (let active = active_reactions_for_target target;
          removed = (case map_of active key of None \<Rightarrow> reaction | Some r \<Rightarrow> if r = [] then reaction else r);
          remaining = AList.delete key active
      in then_do (if list_ex (\<lambda>kv. reaction_matches (snd kv) removed) remaining then pass False
           else try_remove_display_reaction env target removed None) (\<lambda>_.
         then_do (lift_result (target_packet_id target)) (\<lambda>i.
         then_do (change_state (remove_outbound_reaction i key)) (\<lambda>_.
         then_do (if remaining = [] \<and> target_has_read_receipt target
             then try_add_receipt_reaction env (dict_put ''active_reactions'' (JObj []) target) else pass False) (\<lambda>_.
           pass True)))))"

definition handle_reaction_delivery :: "'w bot_env \<Rightarrow> binding \<Rightarrow> client_delivery \<Rightarrow> ('w, bool) bot_action" where
  "handle_reaction_delivery env b d st =
     (let p = cd_packet d; data = cp_data p; action = lower (strip (str_or_empty (dict_get data ''action'')));
          now = bv_now env (bo_world st)
      in if packet_type_for_delivery d \<noteq> Some type_reaction then pass False st
         else if action \<notin> {''set'', ''remove''} then pass False st
         else (case find_outbound_message_target (bv_codec env) now b
               (referred_packet (dict_get data ''for_packet_id'') (cp_headers p)) (bo_state st) of
             None \<Rightarrow> pass False st
           | Some target \<Rightarrow>
               (case get_reaction_key (bv_lib env) data of
                  None \<Rightarrow> pass False st
                | Some key \<Rightarrow>
                    let reaction = reaction_state_from_packet data in
                    if reaction_display_key reaction = [] then pass False st
                    else let reaction = dict_put ''reaction_key'' (JStr key) reaction in
                      if action = ''set'' then reaction_set env target key reaction st
                      else reaction_removed env target key reaction st)))"

definition handle_receipt_delivery :: "'w bot_env \<Rightarrow> binding \<Rightarrow> client_delivery \<Rightarrow> ('w, bool) bot_action" where
  "handle_receipt_delivery env b d st =
     (let p = cd_packet d; t = packet_type_for_delivery d; now = bv_now env (bo_world st);
          named = strip (str_or_empty (dict_get (cp_data p) ''for_packet_id''));
          for_packet_id = (if named = [] then referred_packet JNull (cp_headers p) else named);
          exact = (if for_packet_id = [] then None else get_outbound_message for_packet_id (bo_state st))
      in if t \<noteq> Some ''receipt.read.v1'' \<and> t \<noteq> Some ''receipt.received.v1'' then pass False st
         else if t = Some ''receipt.received.v1'' \<and> exact \<noteq> None then
           then_do (lift_result (target_packet_id (the exact))) (\<lambda>i.
           then_do (change_state (mark_outbound_receipt i ''delivered'')) (\<lambda>_. pass True)) st
         else if t \<noteq> Some ''receipt.read.v1'' then pass True st
         else (case exact of
             Some target \<Rightarrow>
               then_do (lift_result (target_packet_id target)) (\<lambda>i.
               then_do (change_state (mark_outbound_receipt i ''read'')) (\<lambda>_.
               then_do (try_add_receipt_reaction env target) (\<lambda>_. pass True))) st
           | None \<Rightarrow>
               (case find_outbound_message_target (bv_codec env) now b [] (bo_state st) of
                  None \<Rightarrow> pass True st
                | Some target \<Rightarrow>
                    then_do (try_add_receipt_reaction env target) (\<lambda>added.
                      if added then
                        then_do (lift_result (target_packet_id target)) (\<lambda>i.
                        then_do (change_state (mark_outbound_receipt i ''read'')) (\<lambda>_. pass True))
                      else pass True) st)))"

section \<open>What a packet looks like\<close>

definition line_break :: string where
  "line_break = [newline_char]"

definition tag_texts :: "json list \<Rightarrow> string list" where
  "tag_texts vs = map str_value (filter (\<lambda>v. \<not> none_or_empty v) vs)"

definition render_notification :: "string \<Rightarrow> string \<Rightarrow> string \<Rightarrow> dict \<Rightarrow> string" where
  "render_notification bell who fallback data =
     (let level = str_or ''info'' (dict_get data ''level'');
          title = strip (str_or ''notification'' (dict_get data ''title''));
          body = strip (str_or_empty (dict_get data ''body''));
          headline = strip (who @ '' '' @ bell @ '' '' @ level @ '': '' @ title);
          details = (if body = [] then fallback else body);
          extras = concat (map (\<lambda>key. let v = strip (str_or_empty (dict_get data key)) in
            if v = [] then [] else [key @ '': '' @ v]) [''source'', ''host'', ''script'']);
          tags = (case dict_get data ''tags'' of
             JList (v # vs) \<Rightarrow> [''tags: '' @ join '', '' (tag_texts (v # vs))] | _ \<Rightarrow> [])
      in strip (join line_break ([headline, details] @ extras @ tags)))"

definition response_detail :: "string \<Rightarrow> dict \<Rightarrow> string" where
  "response_detail fallback data =
     (if dict_get data ''ok'' = JBool False then
        (if truthy (dict_get data ''error_message'') then str_value (dict_get data ''error_message'') else fallback)
      else (case dict_get data ''result'' of
          JNull \<Rightarrow> fallback
        | JStr s \<Rightarrow> s
        | v \<Rightarrow> dumps_indent 0 v))"

definition render_inbound_packet :: "'w bot_env \<Rightarrow> binding \<Rightarrow> client_delivery \<Rightarrow> py_exc + string" where
  "render_inbound_packet env b d =
     (let p = cd_packet d; data = cp_data p; t = packet_type_for_delivery d; body = body_text (cp_body p);
          who = ''['' @ bn_label b @ '']''
      in try_then (render_packet_text (bv_lib env) body data (cp_headers p)) (\<lambda>fallback.
        Inr (if t = Some type_message then who @ '' '' @ fallback
          else if t = Some ''notification.v1'' then render_notification (bv_bell env) who fallback data
          else if t = Some type_command then
            who @ '' command.v1'' @ line_break @ word_or body fallback
          else if t = Some type_command_response then
            who @ '' command.response.v1'' @ line_break @ response_detail fallback data
          else who @ '' '' @ (case t of None \<Rightarrow> ''packet'' | Some l \<Rightarrow> l) @ line_break @ fallback)))"

section \<open>Receipts\<close>

definition delivered_receipt_args :: "string \<Rightarrow> string \<Rightarrow> binding \<Rightarrow> client_packet \<Rightarrow> type_args" where
  "delivered_receipt_args now receipt_id b p =
     (plain_args ''receipt.received.v1'' None
        [(''receipt_id'', JStr receipt_id), (''for_packet_id'', JStr (cp_packet_id p)),
         (''receipt_type'', JStr ''discord_delivered''), (''status'', JStr ''ok''),
         (''delivered_to_discord_at'', JStr now), (''discord_user_id'', JStr (bn_discord_user_id b))])
       \<lparr>ty_from := Some (cp_to_endpoint_id p), ty_to := Some (cp_from_endpoint_id p),
        ty_correlation_id := get_correlation_id (cp_headers p), ty_causation_id := Some (cp_packet_id p),
        ty_meta := [(''adapter'', JStr ''discord_dm''), (''discord_user_id'', JStr (bn_discord_user_id b))]\<rparr>"

definition send_delivered_receipt :: "'w bot_env \<Rightarrow> binding \<Rightarrow> client_delivery \<Rightarrow> ('w, unit) bot_action" where
  "send_delivered_receipt env b d =
     (if \<not> bn_can_send b then pass ()
      else then_do (draw_uuid env) (\<lambda>i st.
        then_do (world_call (\<lambda>w. bv_send env w (delivered_receipt_args (now_text env st) i b (cd_packet d)))) (\<lambda>_. pass ()) st))"

section \<open>Links that have become active\<close>

definition link_status :: "client_link \<Rightarrow> string" where
  "link_status l = (if cl_status l = [] then ''active'' else cl_status l)"

definition link_active :: "client_link \<Rightarrow> bool" where
  "link_active l \<longleftrightarrow> link_status l = ''active''"

definition yes_no :: "bool \<Rightarrow> string" where
  "yes_no b = (if b then ''yes'' else ''no'')"

definition direction_lines :: "binding \<Rightarrow> string" where
  "direction_lines b = ''Direction: '' @ binding_direction b @ line_break @ ''Can send: '' @ yes_no (bn_can_send b)
     @ line_break @ ''Can receive: '' @ yes_no (bn_can_receive b)"

definition two_contacts_text :: string where
  "two_contacts_text = join line_break
     [''You now have more than one linked contact.'', [], ''How sending works:'',
      ''- Reply to one of my forwarded messages to answer that contact directly.'',
      ''- Or use /use_contact to choose the active contact for normal messages.'', [], ''Useful commands:'',
      ''- /links'', ''- /use_contact'', ''- /current_contact'']"

definition materialized_binding ::
  "string \<Rightarrow> string \<Rightarrow> pending_link \<Rightarrow> client_link \<Rightarrow> bridge \<Rightarrow> binding" where
  "materialized_binding now new_id p link st =
     (let existing = get_binding_by_local_endpoint (pl_local_endpoint_id p) st;
          label = ensure_unique_label (pl_discord_user_id p) (pl_label p) (map_option bn_binding_id existing) False st;
          direction = calculate_direction link (pl_local_endpoint_id p)
      in \<lparr>bn_binding_id = (case existing of None \<Rightarrow> new_id | Some e \<Rightarrow> bn_binding_id e),
          bn_discord_user_id = pl_discord_user_id p, bn_local_endpoint_id = pl_local_endpoint_id p,
          bn_remote_endpoint_id = resolve_remote_endpoint link (pl_local_endpoint_id p), bn_link_id = cl_link_id link,
          bn_label = (case existing of None \<Rightarrow> label | Some e \<Rightarrow> bn_label e), bn_link_mode = cl_mode link,
          bn_can_send = fst direction, bn_can_receive = snd direction, bn_status = link_status link,
          bn_created_at = (case existing of None \<Rightarrow> now | Some e \<Rightarrow> bn_created_at e), bn_updated_at = now\<rparr>)"

definition activate_if_none :: "string \<Rightarrow> string \<Rightarrow> bridge \<Rightarrow> bridge" where
  "activate_if_none user i st =
     (if get_active_binding user st = None then set_active_binding user (Some i) st else st)"

definition announce_binding :: "'w bot_env \<Rightarrow> binding \<Rightarrow> ('w, unit) bot_action" where
  "announce_binding env b =
     or_else (then_do (send_user_dm env (bn_discord_user_id b)
         (''A new ARQS link is now active as '' @ bn_label b @ ''.'' @ line_break @ direction_lines b)) (\<lambda>_ st.
       if length (list_user_bindings (bv_codec env) (bv_now env (bo_world st)) False (bn_discord_user_id b) (bo_state st)) = 2
       then then_do (send_user_dm env (bn_discord_user_id b) two_contacts_text) (\<lambda>_. pass ()) st
       else pass () st)) (\<lambda>_. ())"

text \<open>\<open>links\<close> are the active ones where the caller has them, \<^term>\<open>None\<close> asks the server.\<close>

definition materialize_pending_binding ::
  "'w bot_env \<Rightarrow> string \<Rightarrow> client_link list option \<Rightarrow> ('w, binding option) bot_action" where
  "materialize_pending_binding env local active_links st =
     (case pending_for_local_endpoint local (bo_state st) of
        None \<Rightarrow> pass None st
      | Some p \<Rightarrow>
          then_do (case active_links of Some ls \<Rightarrow> pass ls
              | None \<Rightarrow> then_do (world_call (bv_list_links env)) (\<lambda>ls. pass (filter link_active ls))) (\<lambda>ls.
            case find (\<lambda>l. cl_endpoint_a_id l = pl_local_endpoint_id p \<or> cl_endpoint_b_id l = pl_local_endpoint_id p) ls of
              None \<Rightarrow> pass None
            | Some link \<Rightarrow>
                then_do (draw_uuid env) (\<lambda>i st.
                let b = materialized_binding (now_text env st) i p link (bo_state st) in
                then_do (change_state (\<lambda>s. activate_if_none (bn_discord_user_id b) (bn_binding_id b)
                    (remove_pending_link (pl_pending_id p) (upsert_binding b s)))) (\<lambda>_.
                then_do save_state (\<lambda>_.
                then_do (announce_binding env b) (\<lambda>_. pass (Some b)))) st)) st)"

section \<open>Deliveries\<close>

text \<open>The contact becomes the active one, its time stamp is renewed, and the delivery is seen, saved, acknowledged.\<close>

definition finish_delivery :: "'w bot_env \<Rightarrow> binding \<Rightarrow> string \<Rightarrow> ('w, unit) bot_action" where
  "finish_delivery env b i st =
     then_do (change_state (\<lambda>s. mark_seen_delivery i (upsert_binding (b\<lparr>bn_updated_at := now_text env st\<rparr>)
         (set_active_binding (bn_discord_user_id b) (Some (bn_binding_id b)) s)))) (\<lambda>_.
     then_do save_state (\<lambda>_. bot_ack env i)) st"

definition default_receipt_mode :: "dict \<Rightarrow> string" where
  "default_receipt_mode config = str_or ''off'' (dict_get config ''receipt_default_mode'')"

definition receipt_eligible :: "binding \<Rightarrow> client_delivery \<Rightarrow> bool" where
  "receipt_eligible b d \<longleftrightarrow> \<not> is_receipt_type (packet_type_for_delivery d)
     \<and> packet_type_for_delivery d \<noteq> Some type_reaction \<and> bn_can_send b"

text \<open>What is remembered of the messages, and the receipt for their delivery.\<close>

definition after_forwarding :: "'w bot_env \<Rightarrow> binding \<Rightarrow> client_delivery \<Rightarrow> string list \<Rightarrow> ('w, unit) bot_action" where
  "after_forwarding env b d message_ids =
     (let p = cd_packet d; user = bn_discord_user_id b; bid = bn_binding_id b in
      then_do (change_state (remember_reply_messages user bid (cp_packet_id p) message_ids)) (\<lambda>_ st.
      then_do (lift_result (get_receipt_mode user bid (default_receipt_mode (bv_config env)) (bo_state st))) (\<lambda>mode.
      then_do (if receipt_eligible b d
          then change_state (remember_receipt_messages (now_text env st) user bid (cp_packet_id p) (cp_from_endpoint_id p)
            (cp_to_endpoint_id p) (get_correlation_id (cp_headers p)) message_ids)
          else pass ()) (\<lambda>_.
        if receipt_eligible b d \<and> mode \<noteq> ''off'' \<and> should_send_delivered_receipt mode then
          then_do (or_else (then_do (send_delivered_receipt env b d) (\<lambda>_. pass True)) (\<lambda>_. False)) (\<lambda>sent.
            if sent then change_state (mark_receipt_sent bid (cp_packet_id p) ''delivered'') else pass ())
        else pass ())) st))"

definition forward_delivery :: "'w bot_env \<Rightarrow> binding \<Rightarrow> client_delivery \<Rightarrow> ('w, unit) bot_action" where
  "forward_delivery env b d =
     then_do (lift_result (render_inbound_packet env b d)) (\<lambda>text.
     then_do (send_user_dm env (bn_discord_user_id b) text) (\<lambda>message_ids.
     then_do (after_forwarding env b d message_ids) (\<lambda>_. finish_delivery env b (cd_delivery_id d))))"

definition handle_bound_delivery :: "'w bot_env \<Rightarrow> binding \<Rightarrow> client_delivery \<Rightarrow> ('w, unit) bot_action" where
  "handle_bound_delivery env b d =
     then_do (handle_reaction_delivery env b d) (\<lambda>was_reaction.
     if was_reaction then finish_delivery env b (cd_delivery_id d)
     else then_do (handle_receipt_delivery env b d) (\<lambda>was_receipt.
       if was_receipt then finish_delivery env b (cd_delivery_id d)
       else forward_delivery env b d))"

definition ack_unclaimed :: "'w bot_env \<Rightarrow> string \<Rightarrow> ('w, unit) bot_action" where
  "ack_unclaimed env i st = bot_ack env i (st\<lparr>bo_unclaimed := i # bo_unclaimed st\<rparr>)"

definition bot_handle_delivery :: "'w bot_env \<Rightarrow> client_delivery \<Rightarrow> ('w, unit) bot_action" where
  "bot_handle_delivery env d st =
     (let i = cd_delivery_id d; local = cp_to_endpoint_id (cd_packet d) in
      if has_seen_delivery i (bo_state st) then bot_ack env i st
      else then_do (case get_binding_by_local_endpoint local (bo_state st) of
          Some b \<Rightarrow> pass (Some b)
        | None \<Rightarrow> materialize_pending_binding env local None) (\<lambda>b st.
          case b of
            Some b \<Rightarrow> handle_bound_delivery env b d st
          | None \<Rightarrow>
              if pending_for_local_endpoint local (bo_state st) \<noteq> None then pass () st
              else ack_unclaimed env i st) st)"

fun bot_handle_deliveries :: "'w bot_env \<Rightarrow> client_delivery list \<Rightarrow> ('w, unit) bot_action" where
  "bot_handle_deliveries env [] = pass ()"
| "bot_handle_deliveries env (d # ds) =
     then_do (bot_handle_delivery env d) (\<lambda>_. bot_handle_deliveries env ds)"

definition poll_inbox_once :: "'w bot_env \<Rightarrow> ('w, unit) bot_action" where
  "poll_inbox_once env =
     then_do (lift_result (config_number (bv_config env) ''poll_wait_seconds'' 20)) (\<lambda>wait.
     then_do (lift_result (config_number (bv_config env) ''poll_limit'' 100)) (\<lambda>limit.
     then_do (world_call (\<lambda>w. bv_poll env w wait limit)) (\<lambda>ds. bot_handle_deliveries env ds)))"

text \<open>\<open>poll_inbox_loop\<close>, \<open>n\<close> turns of it: an exception is logged and the next turn follows.\<close>

fun poll_inbox_loop :: "'w bot_env \<Rightarrow> nat \<Rightarrow> 'w bot \<Rightarrow> 'w bot" where
  "poll_inbox_loop env 0 st = st"
| "poll_inbox_loop env (Suc n) st = poll_inbox_loop env n (fst (poll_inbox_once env st))"

end
