(* ===== verification/BotCommands.thy ===== *)
theory BotCommands
  imports Bot
begin

text \<open>
  The other handlers of the bot of \<open>src/adapters/arqs_discord_appkit_bot.py\<close>: messages and reactions of
  Discord users on their way to ARQS, the slash commands, and the reconciliation of links with the server.
\<close>

section \<open>Choosing a contact\<close>

record interaction =
  ia_user_id :: string
  ia_user_name :: string
  ia_id :: string
  ia_in_guild :: bool

definition respond :: "'w bot_env \<Rightarrow> string \<Rightarrow> ('w, unit) bot_action" where
  "respond env text = world_call (\<lambda>w. bv_respond env w text)"

definition defer_reply :: "'w bot_env \<Rightarrow> ('w, unit) bot_action" where
  "defer_reply env = world_call (bv_defer env)"

definition only_in_dm :: "'w bot_env \<Rightarrow> interaction \<Rightarrow> ('w, unit) bot_action \<Rightarrow> ('w, unit) bot_action" where
  "only_in_dm env ia action =
     (if ia_in_guild ia then respond env ''This command only works in direct messages.'' else action)"

text \<open>\<open>raw.isdigit()\<close> below code point 256: superscript digits count, and \<open>int()\<close> refuses them.\<close>

definition all_digits :: "string \<Rightarrow> bool" where
  "all_digits s \<longleftrightarrow> s \<noteq> [] \<and> list_all (\<lambda>c. is_digit c \<or> code_point c \<in> {178, 179, 185}) s"

text \<open>The only element.\<close>

definition only_one :: "'a list \<Rightarrow> 'a option" where
  "only_one xs = (case xs of [x] \<Rightarrow> Some x | _ \<Rightarrow> None)"

definition by_label :: "binding list \<Rightarrow> string \<Rightarrow> binding option" where
  "by_label bs raw =
     (let lowered = casefold raw in
      case only_one (filter (\<lambda>b. casefold (bn_label b) = lowered) bs) of
        Some b \<Rightarrow> Some b
      | None \<Rightarrow> only_one (filter (\<lambda>b. startswith (casefold (bn_label b)) lowered) bs))"

definition resolve_binding_selector ::
  "iso_codec \<Rightarrow> time \<Rightarrow> string \<Rightarrow> string \<Rightarrow> bridge \<Rightarrow> py_exc + binding option" where
  "resolve_binding_selector codec now user selector st =
     (let bs = list_user_bindings codec now False user st; raw = strip selector in
      if bs = [] \<or> raw = [] then Inr None
      else if all_digits raw then
        try_then (client_int (JStr raw)) (\<lambda>n.
          if 1 \<le> n \<and> n \<le> int (length bs) then Inr (Some (bs ! nat (n - 1))) else Inr (by_label bs raw))
      else Inr (by_label bs raw))"

definition resolve_default_binding ::
  "iso_codec \<Rightarrow> time \<Rightarrow> string \<Rightarrow> bridge \<Rightarrow> bridge \<times> (py_exc + binding)" where
  "resolve_default_binding codec now user st =
     (let bs = list_user_bindings codec now False user st in
      if bs = [] then (st, Inl (ValueError ''You do not have any linked ARQS contacts yet.''))
      else (case ensure_valid_active_binding user st of
          (st, active) \<Rightarrow>
            if length bs = 1 then (st, Inr (hd bs))
            else (case active of
                Some b \<Rightarrow> (st, Inr b)
              | None \<Rightarrow> (st, Inl (ValueError (''You have multiple linked contacts. Use /use_contact first, ''
                  @ ''or reply directly to one of my forwarded messages.''))))))"

definition on_bridge :: "(bridge \<Rightarrow> bridge \<times> (py_exc + 'a)) \<Rightarrow> ('w, 'a) bot_action" where
  "on_bridge f st = (case f (bo_state st) of (s, r) \<Rightarrow> (st\<lparr>bo_state := s\<rparr>, r))"

definition select_binding :: "'w bot_env \<Rightarrow> string \<Rightarrow> string \<Rightarrow> ('w, binding option) bot_action" where
  "select_binding env user selector st =
     (st, resolve_binding_selector (bv_codec env) (bv_now env (bo_world st)) user selector (bo_state st))"

definition default_binding :: "'w bot_env \<Rightarrow> string \<Rightarrow> ('w, binding) bot_action" where
  "default_binding env user st =
     on_bridge (resolve_default_binding (bv_codec env) (bv_now env (bo_world st)) user) st"

text \<open>\<open>ensure_valid_active_binding\<close> as a step.\<close>

definition valid_active :: "string \<Rightarrow> ('w, binding option) bot_action" where
  "valid_active user = on_bridge (\<lambda>s. case ensure_valid_active_binding user s of (s, b) \<Rightarrow> (s, Inr b))"

text \<open>The exception as a value, for an \<open>except\<close> that goes on.\<close>

definition attempt :: "('w, 'a) bot_action \<Rightarrow> ('w, py_exc + 'a) bot_action" where
  "attempt a st = (case a st of (st, r) \<Rightarrow> (st, Inr r))"

section \<open>Messages of users\<close>

record discord_message =
  ms_author_id :: string
  ms_author_name :: string
  ms_from_bot :: bool
  ms_in_guild :: bool
  ms_content :: string
  ms_id :: string
  ms_channel_id :: string
  ms_reference :: "string option"

definition resolve_reply_binding :: "discord_message \<Rightarrow> bridge \<Rightarrow> binding option" where
  "resolve_reply_binding m st =
     (case ms_reference m of None \<Rightarrow> None
      | Some i \<Rightarrow>
          (case map_of (br_replies st) i of None \<Rightarrow> None
           | Some e \<Rightarrow>
               if dict_get e ''discord_user_id'' \<noteq> JStr (ms_author_id m) then None
               else (case get_binding (str_or_empty (dict_get e ''binding_id'')) st of None \<Rightarrow> None
                 | Some b \<Rightarrow> if bn_status b \<noteq> ''active'' then None else Some b)))"

definition receive_only_text :: string where
  "receive_only_text = ''This contact is receive-only from Discord. You can receive messages from it, ''
     @ ''but you cannot send messages back over this ARQS link.''"

definition message_args :: "discord_message \<Rightarrow> binding \<Rightarrow> string \<Rightarrow> type_args" where
  "message_args m b content =
     (plain_args type_message (Some content) [])
       \<lparr>ty_from := Some (bn_local_endpoint_id b), ty_to := Some (bn_remote_endpoint_id b),
        ty_content_type := Some ''text/plain; charset=utf-8'',
        ty_meta := [(''adapter'', JStr ''discord_dm''), (''discord_user_id'', JStr (ms_author_id m)),
          (''discord_user'', JStr (ms_author_name m)), (''discord_message_id'', JStr (ms_id m)),
          (''discord_reply_to_message_id'', optional_str (ms_reference m))]\<rparr>"

text \<open>What is remembered of a message that has been sent or queued.\<close>

definition remember_sent :: "string \<Rightarrow> discord_message \<Rightarrow> binding \<Rightarrow> string \<Rightarrow> bridge \<Rightarrow> bridge" where
  "remember_sent now m b packet_id s =
     remember_outbound_message now packet_id (ms_author_id m) (ms_id m) (ms_channel_id m) (bn_binding_id b)
       (set_active_binding (ms_author_id m) (Some (bn_binding_id b)) (upsert_binding (b\<lparr>bn_updated_at := now\<rparr>) s))"

definition send_message_over :: "'w bot_env \<Rightarrow> discord_message \<Rightarrow> string \<Rightarrow> binding \<Rightarrow> ('w, unit) bot_action" where
  "send_message_over env m content b =
     (if \<not> bn_can_send b then respond env receive_only_text
      else then_do (attempt (world_call (\<lambda>w. bv_send env w (message_args m b content)))) (\<lambda>sent.
        case sent of
          Inl e \<Rightarrow> respond env (''Message send failed: '' @ exc_text e)
        | Inr r \<Rightarrow>
            if send_result_label (sr_status r) \<notin> {''sent'', ''queued''} then
              respond env (''Message send failed: '' @ sr_status r)
            else (\<lambda>st. then_do (change_state (remember_sent (now_text env st) m b (sr_packet_id r))) (\<lambda>_. save_state) st)))"

definition on_message :: "'w bot_env \<Rightarrow> discord_message \<Rightarrow> ('w, unit) bot_action" where
  "on_message env m st =
     (let content = strip (ms_content m) in
      if ms_from_bot m \<or> ms_in_guild m \<or> content = [] then pass () st
      else then_do (case resolve_reply_binding m (bo_state st) of
            Some b \<Rightarrow> pass (Inr b)
          | None \<Rightarrow> attempt (default_binding env (ms_author_id m))) (\<lambda>chosen.
        case chosen of
          Inl e \<Rightarrow> respond env (exc_text e)
        | Inr b \<Rightarrow> send_message_over env m content b) st)"

section \<open>Reactions of users\<close>

record reaction_event =
  rx_user_id :: string
  rx_message_id :: string
  rx_channel_id :: string
  rx_emoji :: discord_emoji
  rx_own :: bool

text \<open>The remembered message and its contact, where the reaction concerns one that can be sent to.\<close>

definition reaction_target :: "reaction_event \<Rightarrow> bridge \<Rightarrow> (dict \<times> binding) option" where
  "reaction_target ev st =
     (if rx_own ev then None
      else (case map_of (br_receipts st) (rx_message_id ev) of None \<Rightarrow> None
        | Some e \<Rightarrow>
            if str_value (dict_get e ''discord_user_id'') \<noteq> rx_user_id ev then None
            else (case get_binding (str_or_empty (dict_get e ''binding_id'')) st of None \<Rightarrow> None
              | Some b \<Rightarrow> if bn_status b \<noteq> ''active'' \<or> \<not> bn_can_send b then None else Some (e, b))))"

text \<open>\<open>emoji_payload.get(k)\<close> as an argument of \<open>send_reaction\<close>.\<close>

definition text_of :: "json \<Rightarrow> string option" where
  "text_of v = (case v of JStr s \<Rightarrow> Some s | _ \<Rightarrow> None)"

definition entry_correlation :: "dict \<Rightarrow> string option" where
  "entry_correlation e = str_or_none (dict_get e ''original_correlation_id'')"

definition reaction_args_of :: "reaction_event \<Rightarrow> string \<Rightarrow> string \<Rightarrow> reaction_args" where
  "reaction_args_of ev action packet_id =
     (let emoji = serialize_discord_emoji (rx_emoji ev) in
      \<lparr>rn_for_packet_id = packet_id, rn_action = action, rn_emoji = text_of (dict_get emoji ''emoji''),
       rn_emoji_name = text_of (dict_get emoji ''emoji_name''), rn_reaction_id = None, rn_reaction_key = None,
       rn_source_platform = ''discord'', rn_source_user_id = Some (rx_user_id ev), rn_reacted_at = None,
       rn_emoji_id = text_of (dict_get emoji ''emoji_id''),
       rn_animated = (case dict_get emoji ''animated'' of JBool b \<Rightarrow> Some b | _ \<Rightarrow> None),
       rn_source_message_id = Some (rx_message_id ev)\<rparr>)"

text \<open>The three items of the entry that say where the message came from.\<close>

definition entry_origin :: "dict \<Rightarrow> py_exc + string \<times> string \<times> string" where
  "entry_origin e =
     try_then (str_item (JObj e) ''original_packet_id'') (\<lambda>p.
     try_then (str_item (JObj e) ''original_to_endpoint_id'') (\<lambda>local.
     try_then (str_item (JObj e) ''original_from_endpoint_id'') (\<lambda>remote. Inr (p, local, remote))))"

definition send_reaction_from_discord_event ::
  "'w bot_env \<Rightarrow> binding \<Rightarrow> dict \<Rightarrow> reaction_event \<Rightarrow> string \<Rightarrow> ('w, unit) bot_action" where
  "send_reaction_from_discord_event env b e ev action =
     then_do (lift_result (entry_origin e)) (\<lambda>(packet_id, local, remote).
     then_do (world_call (\<lambda>w. bv_send_reaction env w (reaction_args_of ev action packet_id)
       ((plain_args type_reaction None [])
         \<lparr>ty_from := Some local, ty_to := Some remote, ty_correlation_id := entry_correlation e,
          ty_meta := [(''adapter'', JStr ''discord_dm''), (''discord_user_id'', JStr (rx_user_id ev)),
            (''discord_message_id'', JStr (rx_message_id ev)), (''discord_channel_id'', JStr (rx_channel_id ev)),
            (''binding_id'', JStr (bn_binding_id b))]\<rparr>))) (\<lambda>_. pass ()))"

definition read_receipt_args ::
  "string \<Rightarrow> string \<Rightarrow> dict \<Rightarrow> string \<times> string \<times> string \<Rightarrow> string \<Rightarrow> string \<Rightarrow> type_args" where
  "read_receipt_args now receipt_id e origin user message =
     (case origin of (packet_id, local, remote) \<Rightarrow>
       (plain_args ''receipt.read.v1'' None
          [(''receipt_id'', JStr receipt_id), (''for_packet_id'', JStr packet_id), (''receipt_type'', JStr ''reaction_read''),
           (''read_at'', JStr now), (''discord_user_id'', JStr user), (''discord_message_id'', JStr message)])
         \<lparr>ty_from := Some local, ty_to := Some remote, ty_correlation_id := entry_correlation e,
          ty_causation_id := Some packet_id,
          ty_meta := [(''adapter'', JStr ''discord_dm''), (''discord_user_id'', JStr user),
            (''discord_message_id'', JStr message)]\<rparr>)"

definition send_read_receipt :: "'w bot_env \<Rightarrow> dict \<Rightarrow> string \<Rightarrow> string \<Rightarrow> ('w, unit) bot_action" where
  "send_read_receipt env e user message =
     then_do (draw_uuid env) (\<lambda>i.
     then_do (lift_result (entry_origin e)) (\<lambda>origin st.
       then_do (world_call (\<lambda>w. bv_send env w (read_receipt_args (now_text env st) i e origin user message)))
         (\<lambda>_. pass ()) st))"

definition on_raw_reaction_add :: "'w bot_env \<Rightarrow> reaction_event \<Rightarrow> ('w, unit) bot_action" where
  "on_raw_reaction_add env ev st =
     (case reaction_target ev (bo_state st) of
        None \<Rightarrow> pass () st
      | Some (e, b) \<Rightarrow>
          then_do (attempt (send_reaction_from_discord_event env b e ev ''set'')) (\<lambda>sent.
            case sent of
              Inl _ \<Rightarrow> pass ()
            | Inr _ \<Rightarrow>
                if truthy (dict_get e ''read_receipt_sent'') then save_state
                else then_do (attempt (send_read_receipt env e (rx_user_id ev) (rx_message_id ev))) (\<lambda>receipt.
                  case receipt of
                    Inl _ \<Rightarrow> pass ()
                  | Inr _ \<Rightarrow>
                      then_do (lift_result (str_item (JObj e) ''original_packet_id'')) (\<lambda>p.
                      then_do (change_state (mark_receipt_sent (bn_binding_id b) p ''read'')) (\<lambda>_. save_state)))) st)"

definition on_raw_reaction_remove :: "'w bot_env \<Rightarrow> reaction_event \<Rightarrow> ('w, unit) bot_action" where
  "on_raw_reaction_remove env ev st =
     (case reaction_target ev (bo_state st) of
        None \<Rightarrow> pass () st
      | Some (e, b) \<Rightarrow>
          then_do (attempt (send_reaction_from_discord_event env b e ev ''remove'')) (\<lambda>sent.
            case sent of Inl _ \<Rightarrow> pass () | Inr _ \<Rightarrow> save_state) st)"

section \<open>Linking\<close>

definition hidden_endpoint_name :: "string \<Rightarrow> string \<Rightarrow> string" where
  "hidden_endpoint_name user uuid = ''discord:dm:'' @ user @ '':'' @ take 8 (filter (\<lambda>c. c \<noteq> CHR ''-'') uuid)"

text \<open>A new endpoint for the user, then \<open>k\<close>; when \<open>k\<close> fails the endpoint is deleted again.\<close>

definition with_new_endpoint ::
  "'w bot_env \<Rightarrow> string \<Rightarrow> (string \<Rightarrow> ('w, 'a) bot_action) \<Rightarrow> ('w, py_exc + string \<times> 'a) bot_action" where
  "with_new_endpoint env user k =
     then_do (draw_uuid env) (\<lambda>u.
     then_do (attempt (world_call (\<lambda>w. bv_create_endpoint env w (hidden_endpoint_name user u) ''discord_dm''
         [(''discord_user_id'', JStr user), (''scope'', JStr ''dm'')]))) (\<lambda>created.
       case created of
         Inl e \<Rightarrow> pass (Inl e)
       | Inr i \<Rightarrow>
           then_do (attempt (k i)) (\<lambda>r.
             case r of
               Inr x \<Rightarrow> pass (Inr (i, x))
             | Inl e \<Rightarrow> then_do (or_else (world_call (\<lambda>w. bv_delete_endpoint env w i)) (\<lambda>_. ())) (\<lambda>_. pass (Inl e)))))"

definition remaining_minutes :: "time \<Rightarrow> time \<Rightarrow> int" where
  "remaining_minutes expires now = max 1 ((max 0 ((expires - now) div 1000000) + 59) div 60)"

definition code_text :: "'w bot_env \<Rightarrow> string \<Rightarrow> string \<Rightarrow> client_link_code \<Rightarrow> time \<Rightarrow> string" where
  "code_text env label mode code now =
     (let n = remaining_minutes (cc_expires_at code) now in
      ''Link code created for '' @ label @ ''.'' @ line_break @ line_break
      @ ''Code: '' @ cc_code code @ line_break @ ''Mode: '' @ mode @ line_break
      @ ''Expires in '' @ str_of_int n @ '' minute'' @ (if n \<noteq> 1 then ''s'' else []) @ '' at ''
      @ bv_clock env (cc_expires_at code) @ line_break @ line_break
      @ ''Share this code with the other ARQS user. When the link becomes active, I will DM you.'')"

definition cmd_request_link_code :: "'w bot_env \<Rightarrow> interaction \<Rightarrow> string \<Rightarrow> ('w, unit) bot_action" where
  "cmd_request_link_code env ia mode =
     only_in_dm env ia (then_do (defer_reply env) (\<lambda>_ st.
       let user = ia_user_id ia; label = next_contact_label user (bo_state st) in
       then_do (with_new_endpoint env user (\<lambda>i.
           then_do (lift_result (user_mode_to_arqs_mode mode)) (\<lambda>m. world_call (\<lambda>w. bv_request_code env w i m)))) (\<lambda>r.
         case r of
           Inl e \<Rightarrow> respond env (''Request link code failed: '' @ exc_text e)
         | Inr (i, code) \<Rightarrow>
             then_do (draw_uuid env) (\<lambda>pending_id st.
             then_do (change_state (add_pending_link \<lparr>pl_pending_id = pending_id, pl_discord_user_id = user,
                 pl_local_endpoint_id = i, pl_code = cc_code code, pl_requested_mode = mode, pl_label = label,
                 pl_created_at = now_text env st, pl_expires_at = ic_show (bv_codec env) (cc_expires_at code)\<rparr>)) (\<lambda>_.
             then_do save_state (\<lambda>_ st.
               respond env (code_text env label mode code (bv_now env (bo_world st))) st)) st)) st))"

definition redeemed_binding :: "string \<Rightarrow> string \<Rightarrow> string \<Rightarrow> string \<Rightarrow> string \<Rightarrow> client_link \<Rightarrow> binding" where
  "redeemed_binding now new_id user label local link =
     (let direction = calculate_direction link local in
      \<lparr>bn_binding_id = new_id, bn_discord_user_id = user, bn_local_endpoint_id = local,
       bn_remote_endpoint_id = resolve_remote_endpoint link local, bn_link_id = cl_link_id link, bn_label = label,
       bn_link_mode = cl_mode link, bn_can_send = fst direction, bn_can_receive = snd direction,
       bn_status = link_status link, bn_created_at = now, bn_updated_at = now\<rparr>)"

definition cmd_redeem_link_code :: "'w bot_env \<Rightarrow> interaction \<Rightarrow> string \<Rightarrow> ('w, unit) bot_action" where
  "cmd_redeem_link_code env ia code =
     only_in_dm env ia (then_do (defer_reply env) (\<lambda>_ st.
       let user = ia_user_id ia; label = next_contact_label user (bo_state st) in
       then_do (with_new_endpoint env user (\<lambda>i. world_call (\<lambda>w. bv_redeem_code env w code i))) (\<lambda>r.
         case r of
           Inl e \<Rightarrow> respond env (''Link code redeem failed: '' @ exc_text e)
         | Inr (i, link) \<Rightarrow>
             then_do (draw_uuid env) (\<lambda>new_id st.
             let b = redeemed_binding (now_text env st) new_id user label i link in
             then_do (change_state (\<lambda>s. activate_if_none user (bn_binding_id b) (upsert_binding b s))) (\<lambda>_.
             then_do save_state (\<lambda>_.
               respond env (''Link redeemed successfully as '' @ bn_label b @ ''.'' @ line_break @ direction_lines b))) st)) st))"

section \<open>Contacts\<close>

definition contact_line :: "'w bot_env \<Rightarrow> binding option \<Rightarrow> nat \<times> binding \<Rightarrow> string" where
  "contact_line env active nb =
     (case nb of (n, b) \<Rightarrow>
       (if map_option bn_binding_id active = Some (bn_binding_id b) then ''*'' else ''-'') @ '' ['' @ str_of_nat n @ ''] ''
       @ bn_label b @ '' '' @ bv_dash env @ '' '' @ binding_direction b
       @ (if bn_status b = ''active'' then [] else '' ('' @ bn_status b @ '')''))"

definition fence :: string where
  "fence = replicate 3 (char_of (96::nat))"

definition cmd_links :: "'w bot_env \<Rightarrow> interaction \<Rightarrow> ('w, unit) bot_action" where
  "cmd_links env ia =
     only_in_dm env ia (\<lambda>st.
       let bs = list_user_bindings (bv_codec env) (bv_now env (bo_world st)) False (ia_user_id ia) (bo_state st) in
       if bs = [] then respond env ''You do not have any linked ARQS contacts yet.'' st
       else then_do (valid_active (ia_user_id ia)) (\<lambda>active.
         respond env (fence @ ''text'' @ line_break
           @ join line_break (''Linked contacts:'' # map (contact_line env active) (enumerate 1 bs))
           @ line_break @ fence)) st)"

definition cmd_use_contact :: "'w bot_env \<Rightarrow> interaction \<Rightarrow> string \<Rightarrow> ('w, unit) bot_action" where
  "cmd_use_contact env ia contact =
     only_in_dm env ia (then_do (select_binding env (ia_user_id ia) contact) (\<lambda>chosen.
       case chosen of
         None \<Rightarrow> respond env ''Contact not found.''
       | Some b \<Rightarrow>
           then_do (change_state (set_active_binding (ia_user_id ia) (Some (bn_binding_id b)))) (\<lambda>_.
           then_do save_state (\<lambda>_. respond env (''Active contact set to '' @ bn_label b @ ''.'')))))"

definition no_route_text :: string where
  "no_route_text = ''Receipts are configured, but this contact has no reverse send route. ''
     @ ''Receipts will not be sent unless the link direction changes.''"

definition cmd_current_contact :: "'w bot_env \<Rightarrow> interaction \<Rightarrow> ('w, unit) bot_action" where
  "cmd_current_contact env ia =
     only_in_dm env ia (then_do (attempt (default_binding env (ia_user_id ia))) (\<lambda>chosen.
       case chosen of
         Inl _ \<Rightarrow> respond env ''No active contact is selected.''
       | Inr b \<Rightarrow> (\<lambda>st.
           then_do (lift_result (get_receipt_mode (ia_user_id ia) (bn_binding_id b)
               (default_receipt_mode (bv_config env)) (bo_state st))) (\<lambda>mode.
             respond env (join line_break ([''Current active contact: '' @ bn_label b,
               ''Direction: '' @ binding_direction b, ''Can send: '' @ yes_no (bn_can_send b),
               ''Can receive: '' @ yes_no (bn_can_receive b), ''Receipts: '' @ mode]
               @ (if mode \<noteq> ''off'' \<and> \<not> bn_can_send b then [no_route_text] else [])))) st)))"

definition cmd_rename_contact :: "'w bot_env \<Rightarrow> interaction \<Rightarrow> string \<Rightarrow> ('w, unit) bot_action" where
  "cmd_rename_contact env ia new_name =
     only_in_dm env ia (then_do (valid_active (ia_user_id ia)) (\<lambda>active.
       case active of
         None \<Rightarrow> respond env ''No active contact is selected.''
       | Some b \<Rightarrow>
           let candidate = strip new_name in
           if candidate = [] then respond env ''Contact name cannot be empty.''
           else (\<lambda>st.
             if ensure_unique_label (ia_user_id ia) candidate (Some (bn_binding_id b)) False (bo_state st) \<noteq> candidate
             then respond env ''That contact name is already in use.'' st
             else then_do (change_state (upsert_binding (b\<lparr>bn_label := candidate, bn_updated_at := now_text env st\<rparr>))) (\<lambda>_.
               then_do save_state (\<lambda>_. respond env (''Active contact renamed to '' @ candidate @ ''.''))) st)))"

subsection \<open>Deleting a link\<close>

text \<open>The state of a \<open>DeleteLinkView\<close>.\<close>

record delete_view =
  vw_binding_id :: string
  vw_binding_label :: string
  vw_discord_user_id :: string
  vw_require_current :: bool

definition cmd_delete_link :: "'w bot_env \<Rightarrow> interaction \<Rightarrow> string option \<Rightarrow> ('w, delete_view option) bot_action" where
  "cmd_delete_link env ia contact =
     (if ia_in_guild ia then then_do (respond env ''This command only works in direct messages.'') (\<lambda>_. pass None)
      else then_do (if given contact then select_binding env (ia_user_id ia) (the contact)
          else valid_active (ia_user_id ia)) (\<lambda>chosen.
        case chosen of
          None \<Rightarrow> then_do (respond env (if given contact then ''Contact not found.'' else ''No active contact is selected.''))
            (\<lambda>_. pass None)
        | Some b \<Rightarrow>
            then_do (respond env (''This will delete the ARQS link for contact '' @ bn_label b
              @ ''. This cannot be undone. Messages will stop until you create a new link.'')) (\<lambda>_.
            pass (Some \<lparr>vw_binding_id = bn_binding_id b, vw_binding_label = bn_label b,
              vw_discord_user_id = ia_user_id ia, vw_require_current = (\<not> given contact)\<rparr>))))"

text \<open>\<open>interaction_check\<close> of the view.\<close>

definition may_confirm :: "'w bot_env \<Rightarrow> interaction \<Rightarrow> delete_view \<Rightarrow> ('w, bool) bot_action" where
  "may_confirm env ia view =
     (if ia_user_id ia \<noteq> vw_discord_user_id view then
        then_do (respond env ''Only the requesting user can confirm this deletion.'') (\<lambda>_. pass False)
      else pass True)"

text \<open>A request of the server whose outcome becomes a line of the summary.\<close>

definition noted :: "('w, unit) bot_action \<Rightarrow> string \<Rightarrow> string \<Rightarrow> ('w, string list) bot_action" where
  "noted a done_text failed_text =
     then_do (attempt a) (\<lambda>r. pass [case r of Inl e \<Rightarrow> failed_text @ exc_text e | Inr _ \<Rightarrow> done_text])"

text \<open>The contact that is left alone becomes the active one.\<close>

definition settle_active :: "'w bot_env \<Rightarrow> string \<Rightarrow> ('w, unit) bot_action" where
  "settle_active env user st =
     (let bs = list_user_bindings (bv_codec env) (bv_now env (bo_world st)) False user (bo_state st) in
      change_state (\<lambda>s.
        if length bs = 1 then set_active_binding user (Some (bn_binding_id (hd bs))) s
        else if bs = [] then set_active_binding user None s
        else s) st)"

definition delete_confirmed :: "'w bot_env \<Rightarrow> delete_view \<Rightarrow> binding \<Rightarrow> ('w, unit) bot_action" where
  "delete_confirmed env view b =
     then_do (if bn_link_id b \<noteq> [] then noted (world_call (\<lambda>w. bv_revoke_link env w (bn_link_id b)))
         ''Server-side link revoked.'' ''Server-side revoke failed: '' else pass []) (\<lambda>revoked st.
     then_do (if length (bindings_using_local_endpoint (bn_local_endpoint_id b) (bo_state st)) = 1
           \<and> pending_for_local_endpoint (bn_local_endpoint_id b) (bo_state st) = None
         then noted (world_call (\<lambda>w. bv_delete_endpoint env w (bn_local_endpoint_id b)))
           ''Hidden local endpoint deleted.'' ''Local endpoint delete failed: '' else pass []) (\<lambda>deleted.
     then_do (change_state (\<lambda>s. fst (delete_binding (vw_binding_id view) s))) (\<lambda>_.
     then_do (settle_active env (vw_discord_user_id view)) (\<lambda>_.
     then_do save_state (\<lambda>_.
       respond env (join line_break ((''Link deleted for '' @ vw_binding_label view @ ''.'') # revoked @ deleted)))))) st)"

definition confirm_delete_link :: "'w bot_env \<Rightarrow> delete_view \<Rightarrow> ('w, unit) bot_action" where
  "confirm_delete_link env view st =
     (let found = get_binding (vw_binding_id view) (bo_state st) in
      then_do (valid_active (vw_discord_user_id view)) (\<lambda>active.
        case found of
          None \<Rightarrow> respond env ''The link is no longer available.''
        | Some b \<Rightarrow>
            if bn_discord_user_id b \<noteq> vw_discord_user_id view then respond env ''The link is no longer available.''
            else if vw_require_current view \<and> map_option bn_binding_id active \<noteq> Some (vw_binding_id view) then
              respond env ''The active contact changed before deletion was confirmed.''
            else delete_confirmed env view b) st)"

section \<open>Commands, receipts, status\<close>

definition command_args :: "interaction \<Rightarrow> binding \<Rightarrow> string \<Rightarrow> string \<Rightarrow> string \<Rightarrow> string \<Rightarrow> type_args" where
  "command_args ia b raw command_id correlation_id now =
     (plain_args type_command (Some raw)
        [(''command_id'', JStr command_id), (''command'', JStr raw), (''args'', JObj [(''raw'', JStr raw)]),
         (''created_at'', JStr now)])
       \<lparr>ty_from := Some (bn_local_endpoint_id b), ty_to := Some (bn_remote_endpoint_id b),
        ty_correlation_id := Some correlation_id,
        ty_meta := [(''adapter'', JStr ''discord_dm''), (''discord_user_id'', JStr (ia_user_id ia)),
          (''discord_user'', JStr (ia_user_name ia)), (''discord_interaction_id'', JStr (ia_id ia))]\<rparr>"

definition contact_or_default :: "'w bot_env \<Rightarrow> string \<Rightarrow> string option \<Rightarrow> ('w, binding) bot_action" where
  "contact_or_default env user contact =
     (if given contact then
        then_do (select_binding env user (the contact)) (\<lambda>b.
          case b of None \<Rightarrow> give_up (ValueError ''Contact not found.'') | Some b \<Rightarrow> pass b)
      else default_binding env user)"

definition command_over :: "'w bot_env \<Rightarrow> interaction \<Rightarrow> string \<Rightarrow> binding \<Rightarrow> ('w, unit) bot_action" where
  "command_over env ia raw b =
     then_do (defer_reply env) (\<lambda>_.
     then_do (draw_uuid env) (\<lambda>command_id.
     then_do (draw_uuid env) (\<lambda>correlation_id st.
     then_do (attempt (world_call (\<lambda>w.
         bv_send env w (command_args ia b raw command_id correlation_id (now_text env st))))) (\<lambda>sent.
       case sent of
         Inl e \<Rightarrow> respond env (''Command send failed: '' @ exc_text e)
       | Inr r \<Rightarrow> (\<lambda>st.
           then_do (change_state (\<lambda>s. upsert_binding (b\<lparr>bn_updated_at := now_text env st\<rparr>)
               (set_active_binding (ia_user_id ia) (Some (bn_binding_id b)) s))) (\<lambda>_.
           then_do save_state (\<lambda>_.
             respond env (''Command '' @ send_result_label (sr_status r) @ '' for '' @ bn_label b @ ''.''))) st)) st)))"

definition cmd_command :: "'w bot_env \<Rightarrow> interaction \<Rightarrow> string \<Rightarrow> string option \<Rightarrow> ('w, unit) bot_action" where
  "cmd_command env ia text contact =
     only_in_dm env ia (let raw = strip text in
       if raw = [] then respond env ''Command text cannot be empty.''
       else then_do (attempt (contact_or_default env (ia_user_id ia) contact)) (\<lambda>chosen.
         case chosen of
           Inl (ValueError m) \<Rightarrow> respond env m
         | Inl e \<Rightarrow> give_up e
         | Inr b \<Rightarrow> if \<not> bn_can_send b then respond env receive_only_text else command_over env ia raw b))"

text \<open>The overrides that belong to a contact of the user, numbered.\<close>

definition override_lines :: "string \<Rightarrow> (string \<times> string) list \<Rightarrow> binding list \<Rightarrow> string list" where
  "override_lines dash contacts bs =
     map (\<lambda>(n, b). str_of_nat n @ ''. '' @ bn_label b @ '' '' @ dash @ '' '' @ the (map_of contacts (bn_binding_id b)))
       (enumerate 1 (filter (\<lambda>b. map_of contacts (bn_binding_id b) \<noteq> None) bs))"

definition cmd_receipts_status :: "'w bot_env \<Rightarrow> interaction \<Rightarrow> ('w, unit) bot_action" where
  "cmd_receipts_status env ia =
     only_in_dm env ia (\<lambda>st.
       let s = (case map_of (br_receipt_settings (bo_state st)) (ia_user_id ia) of
             None \<Rightarrow> new_settings (default_receipt_mode (bv_config env)) | Some s \<Rightarrow> s);
           bs = list_user_bindings (bv_codec env) (bv_now env (bo_world st)) True (ia_user_id ia) (bo_state st)
       in respond env (join line_break
         ((''Receipt settings:'' @ line_break @ ''Default: '' @ rs_default_mode s)
          # (if rs_contacts s = [] then []
             else (line_break @ ''Contact overrides:'') # override_lines (bv_dash env) (rs_contacts s) bs))) st)"

definition change_receipt_mode :: "string \<Rightarrow> string \<Rightarrow> string option \<Rightarrow> ('w, unit) bot_action" where
  "change_receipt_mode user mode i st =
     (case set_receipt_mode user mode i (bo_state st) of
        Inl e \<Rightarrow> (st, Inl e)
      | Inr s \<Rightarrow> save_state (st\<lparr>bo_state := s\<rparr>))"

definition cmd_set_receipts :: "'w bot_env \<Rightarrow> interaction \<Rightarrow> string \<Rightarrow> string option \<Rightarrow> ('w, unit) bot_action" where
  "cmd_set_receipts env ia mode contact =
     only_in_dm env ia
       (if given contact then
          then_do (select_binding env (ia_user_id ia) (the contact)) (\<lambda>chosen.
            case chosen of
              None \<Rightarrow> respond env ''Contact not found.''
            | Some b \<Rightarrow>
                then_do (change_receipt_mode (ia_user_id ia) mode (Some (bn_binding_id b))) (\<lambda>_.
                  respond env (''Receipt mode for '' @ bn_label b @ '' set to '' @ mode @ ''.''
                    @ (if mode \<noteq> ''off'' \<and> \<not> bn_can_send b then line_break @ no_route_text else []))))
        else then_do (change_receipt_mode (ia_user_id ia) mode None) (\<lambda>_.
          respond env (''Default receipt mode set to '' @ mode @ ''.'')))"

definition cmd_status :: "'w bot_env \<Rightarrow> interaction \<Rightarrow> ('w, unit) bot_action" where
  "cmd_status env ia =
     only_in_dm env ia (\<lambda>st.
       then_do (lift_result (bv_base_url env (bo_world st))) (\<lambda>base_url.
       then_do (lift_result (config_number (bv_config env) ''poll_wait_seconds'' 20)) (\<lambda>wait.
         respond env (join line_break
           [''ARQS Discord Bot Status'', ''App: discord-adapter'', ''ARQS base URL: '' @ base_url,
            ''Node loaded: '' @ yes_no (bv_has_identity env),
            ''Bindings: '' @ str_of_nat (length (filter (\<lambda>b. bn_status b = ''active'') (br_bindings (bo_state st)))),
            ''Pending links: '' @ str_of_nat (length (br_pending (bo_state st))),
            ''Poll wait: '' @ str_of_int wait @ '' seconds'',
            ''Outbox: '' @ str_value (raw_field (bv_config env) ''delivery_mode'' (JStr ''queued''))]))) st)"

definition flush_lines :: "send_result list \<Rightarrow> string list" where
  "flush_lines results =
     map (\<lambda>t. ''- '' @ t @ '': '' @ str_of_nat (length (filter (\<lambda>r. sr_status r = t) results)))
       (sort (remdups (map sr_status results)))"

definition cmd_flush_outbox :: "'w bot_env \<Rightarrow> interaction \<Rightarrow> ('w, unit) bot_action" where
  "cmd_flush_outbox env ia =
     only_in_dm env ia (then_do (defer_reply env) (\<lambda>_.
       then_do (attempt (world_call (bv_flush env))) (\<lambda>flushed.
         case flushed of
           Inl e \<Rightarrow> respond env (''Outbox flush failed: '' @ exc_text e)
         | Inr rs \<Rightarrow>
             if rs = [] then respond env ''No queued outbox packets were due for flushing.''
             else respond env (join line_break (''Outbox flush complete:'' # flush_lines rs)))))"

section \<open>Reconciliation\<close>

text \<open>The endpoint of a pending link that has expired goes, unless a contact uses it.\<close>

fun drop_expired :: "'w bot_env \<Rightarrow> pending_link list \<Rightarrow> ('w, unit) bot_action" where
  "drop_expired env [] = pass ()"
| "drop_expired env (p # ps) =
     then_do (\<lambda>st. or_else (if bindings_using_local_endpoint (pl_local_endpoint_id p) (bo_state st) = []
         then world_call (\<lambda>w. bv_delete_endpoint env w (pl_local_endpoint_id p)) else pass ()) (\<lambda>_. ()) st) (\<lambda>_.
       drop_expired env ps)"

text \<open>Did any pending link become active?\<close>

fun materialize_all :: "'w bot_env \<Rightarrow> client_link list \<Rightarrow> pending_link list \<Rightarrow> ('w, bool) bot_action" where
  "materialize_all env ls [] = pass False"
| "materialize_all env ls (p # ps) =
     then_do (materialize_pending_binding env (pl_local_endpoint_id p) (Some ls)) (\<lambda>b.
     then_do (materialize_all env ls ps) (\<lambda>more. pass (b \<noteq> None \<or> more)))"

definition severed_text :: "binding \<Rightarrow> string" where
  "severed_text b = ''Your ARQS link '' @ bn_label b
     @ '' was severed. Messages will not deliver for that contact until you create a new link.''"

definition sever_binding :: "'w bot_env \<Rightarrow> binding \<Rightarrow> ('w, unit) bot_action" where
  "sever_binding env b st =
     then_do (change_state (\<lambda>s. remove_binding_indexes (bn_binding_id b)
         (upsert_binding (b\<lparr>bn_status := ''severed'', bn_updated_at := now_text env st\<rparr>) s))) (\<lambda>_.
       or_else (then_do (send_user_dm env (bn_discord_user_id b) (severed_text b)) (\<lambda>_. pass ())) (\<lambda>_. ())) st"

text \<open>The contact as the link on the server has it.\<close>

definition refreshed :: "client_link \<Rightarrow> binding \<Rightarrow> binding" where
  "refreshed link b =
     (let direction = calculate_direction link (bn_local_endpoint_id b) in
      b\<lparr>bn_remote_endpoint_id := resolve_remote_endpoint link (bn_local_endpoint_id b), bn_link_mode := cl_mode link,
        bn_can_send := fst direction, bn_can_receive := snd direction, bn_status := link_status link\<rparr>)"

definition reconcile_binding :: "'w bot_env \<Rightarrow> client_link list \<Rightarrow> binding \<Rightarrow> ('w, bool) bot_action" where
  "reconcile_binding env ls b st =
     (if bn_status b \<noteq> ''active'' then pass False st
      else (case find (\<lambda>l. cl_link_id l = bn_link_id b) (rev ls) of
          None \<Rightarrow> then_do (sever_binding env b) (\<lambda>_. pass True) st
        | Some link \<Rightarrow>
            if refreshed link b \<noteq> b then
              then_do (change_state (upsert_binding ((refreshed link b)\<lparr>bn_updated_at := now_text env st\<rparr>)))
                (\<lambda>_. pass True) st
            else pass False st))"

fun reconcile_all :: "'w bot_env \<Rightarrow> client_link list \<Rightarrow> binding list \<Rightarrow> ('w, bool) bot_action" where
  "reconcile_all env ls [] = pass False"
| "reconcile_all env ls (b # bs) =
     then_do (reconcile_binding env ls b) (\<lambda>changed.
     then_do (reconcile_all env ls bs) (\<lambda>more. pass (changed \<or> more)))"

definition validate_active :: "string list \<Rightarrow> bridge \<Rightarrow> bridge" where
  "validate_active users s = fold (\<lambda>u s. fst (ensure_valid_active_binding u s)) users s"

definition reconcile_links_once :: "'w bot_env \<Rightarrow> ('w, unit) bot_action" where
  "reconcile_links_once env =
     then_do (world_call (bv_list_links env)) (\<lambda>ls st.
       let active = filter link_active ls;
           pruned = prune_expired_pending_links (bv_codec env) (bv_now env (bo_world st)) (bo_state st)
       in then_do (change_state (\<lambda>_. fst pruned)) (\<lambda>_.
          then_do (drop_expired env (snd pruned)) (\<lambda>_ st.
          then_do (materialize_all env active (br_pending (bo_state st))) (\<lambda>new st.
          then_do (reconcile_all env active (br_bindings (bo_state st))) (\<lambda>changed.
            if snd pruned \<noteq> [] \<or> new \<or> changed then
              then_do (change_state (\<lambda>s. validate_active (map fst (br_active s)) s)) (\<lambda>_. save_state)
            else pass ()) st) st)) st)"

fun reconcile_loop :: "'w bot_env \<Rightarrow> nat \<Rightarrow> 'w bot \<Rightarrow> 'w bot" where
  "reconcile_loop env 0 st = st"
| "reconcile_loop env (Suc n) st = reconcile_loop env n (fst (reconcile_links_once env st))"

end
