(* ===== verification/BridgeProps.thy ===== *)
theory BridgeProps
  imports Bridge
begin

text \<open>
  Properties of the Discord adapter's helpers and state: messages are split without loss, directions agree
  with the routes that the server opens, the state file reads back, and a deleted contact is forgotten.
\<close>

section \<open>Splitting\<close>

lemma strip_iff: "strip s = s \<longleftrightarrow> s = [] \<or> (\<not> is_space (hd s) \<and> \<not> is_space (last s))"
proof (cases "s = []")
  case False
  then show ?thesis using strip_by_ends [of is_space s] strip_by_free [of s is_space] by (auto simp: strip_def)
qed simp

lemma solid_rstrip: "filter (\<lambda>c. \<not> is_space c) (rstrip s) = filter (\<lambda>c. \<not> is_space c) s"
proof -
  have "filter (\<lambda>c. \<not> is_space c) (dropWhile is_space t) = filter (\<lambda>c. \<not> is_space c) t" for t
    by (induction t) auto
  then show ?thesis by (simp add: rstrip_def flip: rev_filter)
qed

lemma solid_lstrip: "filter (\<lambda>c. \<not> is_space c) (lstrip s) = filter (\<lambda>c. \<not> is_space c) s"
  unfolding lstrip_def by (induction s) auto

lemma rfind_less: "rfind c s < int (length s) \<or> s = []"
  by (auto simp: rfind_def)

lemma split_at_bounds:
  assumes "0 < limit"
  shows "0 < split_at limit r" "split_at limit r \<le> limit"
proof -
  have "rfind c (take limit r) < int limit" for c
  proof (cases "take limit r = []")
    case True
    then show ?thesis using assms by (simp add: rfind_def)
  next
    case False
    then show ?thesis using rfind_less [of c "take limit r"] by simp
  qed
  note * = this [of newline_char] this [of "CHR '' ''"]
  show "0 < split_at limit r" using assms by (simp add: split_at_def Let_def)
  show "split_at limit r \<le> limit" using * by (simp add: split_at_def Let_def nat_le_iff)
qed

lemma rstrip_ends: "rstrip s \<noteq> [] \<Longrightarrow> \<not> is_space (last (rstrip s))"
  using hd_dropWhile [of is_space "rev s"] by (auto simp: rstrip_def last_rev)

lemma rstrip_prefix: "\<exists>t. s = rstrip s @ t"
proof -
  have "rev s = takeWhile is_space (rev s) @ dropWhile is_space (rev s)" by simp
  then have "s = rev (dropWhile is_space (rev s)) @ rev (takeWhile is_space (rev s))"
    by (metis rev_append rev_rev_ident)
  then show ?thesis unfolding rstrip_def by blast
qed

lemma first_chunk_solid:
  assumes "0 < limit" "r \<noteq> []" "\<not> is_space (hd r)" "first_chunk limit r = (c, n)"
  shows "0 < n" "n \<le> limit" "c \<noteq> []" "length c \<le> limit" "strip c = c"
    "filter (\<lambda>c. \<not> is_space c) c = filter (\<lambda>c. \<not> is_space c) (take n r)"
proof -
  let ?n = "split_at limit r"
  note b = split_at_bounds [OF assms(1), of r]
  obtain t where t: "take ?n r = rstrip (take ?n r) @ t" using rstrip_prefix by blast
  have "take ?n r \<noteq> []" "hd (take ?n r) = hd r" using b(1) assms(2) by (auto simp: hd_take)
  then have ne: "rstrip (take ?n r) \<noteq> []"
    using assms(3) solid_rstrip [of "take ?n r"] by (cases "take ?n r") auto
  then have "hd (rstrip (take ?n r)) = hd r"
    using t \<open>hd (take ?n r) = hd r\<close> by (metis hd_append2)
  with ne rstrip_ends assms(3) have s: "strip (rstrip (take ?n r)) = rstrip (take ?n r)"
    by (simp add: strip_iff)
  have "c = rstrip (take ?n r)" "n = ?n" using assms(4) ne by (auto simp: first_chunk_def Let_def)
  moreover have "length (rstrip (take ?n r)) \<le> limit" using t b(2)
    by (metis add_leD1 length_append length_take min.bounded_iff order.trans min.cobounded2)
  ultimately show "0 < n" "n \<le> limit" "c \<noteq> []" "length c \<le> limit" "strip c = c"
    "filter (\<lambda>c. \<not> is_space c) c = filter (\<lambda>c. \<not> is_space c) (take n r)"
    using b ne s solid_rstrip by auto
qed

lemma lstrip_suffix: "\<exists>t. s = t @ lstrip s"
  by (metis lstrip_def takeWhile_dropWhile_id)

lemma strip_rest:
  assumes "strip r = r"
  shows "strip (lstrip (drop n r)) = lstrip (drop n r)"
proof (cases "lstrip (drop n r) = []")
  case False
  obtain t where "r = t @ lstrip (drop n r)" using lstrip_suffix append_take_drop_id append.assoc by metis
  then have "last (lstrip (drop n r)) = last r" using False by (metis last_appendR)
  moreover have "\<not> is_space (hd (lstrip (drop n r)))" using False hd_dropWhile unfolding lstrip_def by blast
  moreover have "\<not> is_space (last r)" using assms False strip_iff [of r] by (auto simp: lstrip_def)
  ultimately show ?thesis by (simp add: strip_iff)
qed simp

lemma split_loop_chunks:
  assumes "0 < limit" "strip r = r"
  shows "\<exists>cs. split_loop limit acc r = Some (acc @ cs) \<and>
    (\<forall>c\<in>set cs. c \<noteq> [] \<and> length c \<le> limit \<and> strip c = c) \<and>
    filter (\<lambda>c. \<not> is_space c) (concat cs) = filter (\<lambda>c. \<not> is_space c) r"
  using assms(2)
proof (induction "length r" arbitrary: r acc rule: less_induct)
  case less
  show ?case
  proof (cases "limit < length r")
    case False
    let ?cs = "if r = [] then [] else [r]"
    have "split_loop limit acc r = Some (acc @ ?cs)" using False by (simp add: split_loop.simps)
    then show ?thesis using False less.prems by (intro exI [of _ ?cs]) auto
  next
    case True
    obtain c n where f: "first_chunk limit r = (c, n)" by fastforce
    have r: "r \<noteq> []" "\<not> is_space (hd r)" using True less.prems strip_iff [of r] by auto
    note c = first_chunk_solid [OF assms(1) r f]
    let ?rest = "lstrip (drop n r)"
    have "length ?rest \<le> length (drop n r)" unfolding lstrip_def by (rule length_dropWhile_le)
    then have "length ?rest < length r" using c(1) r(1) by (cases r) auto
    from less.hyps [OF this strip_rest [OF less.prems], of "acc @ [c]"] obtain cs where
      cs: "split_loop limit (acc @ [c]) ?rest = Some ((acc @ [c]) @ cs)"
      "\<forall>c\<in>set cs. c \<noteq> [] \<and> length c \<le> limit \<and> strip c = c"
      "filter (\<lambda>c. \<not> is_space c) (concat cs) = filter (\<lambda>c. \<not> is_space c) ?rest" by blast
    have "split_loop limit acc r = Some (acc @ (c # cs))" using True f cs(1) by (simp add: split_loop.simps)
    moreover have "filter (\<lambda>c. \<not> is_space c) (concat (c # cs)) = filter (\<lambda>c. \<not> is_space c) (take n r @ drop n r)"
      unfolding filter_append by (simp add: cs(3) c(6) solid_lstrip)
    ultimately show ?thesis using c cs(2) by (intro exI [of _ "c # cs"]) auto
  qed
qed

section \<open>The state file\<close>

lemma map_try_all: "(\<And>x. x \<in> set xs \<Longrightarrow> f x = Inr (g x)) \<Longrightarrow> map_try f xs = Inr (map g xs)"
  by (induction xs) auto

lemma dicts_in_map: "dicts_in (map (\<lambda>x. JObj (f x)) xs) = map f xs"
  by (induction xs) auto

lemma dict_entries_map: "dict_entries (map (\<lambda>x. (f x, JObj (g x))) xs) = map (\<lambda>x. (f x, g x)) xs"
  by (induction xs) auto

lemma sort_dict_map: "sort_dict (map (\<lambda>x. (f x, g x)) xs) = map (\<lambda>x. (f x, sort_json (g x))) (sort_key f xs)"
  by (simp add: sort_dict_def comp_def sort_key_map)

lemma sort_json_obj: "sort_json (JObj d) = JObj (sort_dict d)"
  by (simp add: sort_dict_def)

lemma str_values_json_values: "str_values (sort_dict (json_values d)) = sort_key fst d"
  by (simp add: json_values_def sort_dict_map str_values_def comp_def str_value_JStr)

text \<open>The entries of a contact are true, so none of its defaults applies.\<close>

definition binding_wf :: "binding \<Rightarrow> bool" where
  "binding_wf b \<longleftrightarrow> bn_link_mode b \<noteq> [] \<and> bn_status b \<noteq> []"

lemma map_of_sort_flat:
  assumes "distinct (map fst d)" "\<forall>v\<in>snd ` set d. sort_json v = v"
  shows "map_of (sort_dict d) = map_of d"
proof
  fix k
  show "map_of (sort_dict d) k = map_of d k"
    using assms by (cases "map_of d k") (auto simp: map_of_sort_dict dest!: map_of_SomeD)
qed

lemma binding_from_sorted:
  "distinct (map fst d) \<Longrightarrow> \<forall>v\<in>snd ` set d. sort_json v = v \<Longrightarrow> binding_from_dict (sort_dict d) = binding_from_dict d"
  by (simp add: binding_from_dict_def str_item_def item_def dict_get_def flag_or_true_def map_of_sort_flat)

lemma pending_from_sorted:
  "distinct (map fst d) \<Longrightarrow> \<forall>v\<in>snd ` set d. sort_json v = v \<Longrightarrow> pending_from_dict (sort_dict d) = pending_from_dict d"
  by (simp add: pending_from_dict_def str_item_def item_def dict_get_def map_of_sort_flat)

lemma binding_reads_back:
  assumes "binding_wf b"
  shows "binding_from_dict (sort_dict (binding_to_dict b)) = Inr b"
proof -
  have "binding_from_dict (binding_to_dict b) = Inr b"
    using assms by (cases b) (simp add: binding_from_dict_def binding_to_dict_def str_item_def item_def dict_get_def
      str_or_def flag_or_true_def binding_wf_def)
  moreover have "binding_from_dict (sort_dict (binding_to_dict b)) = binding_from_dict (binding_to_dict b)"
    by (rule binding_from_sorted) (simp_all add: binding_to_dict_def)
  ultimately show ?thesis by simp
qed

definition pending_wf :: "pending_link \<Rightarrow> bool" where
  "pending_wf p \<longleftrightarrow> pl_requested_mode p \<noteq> []"

lemma pending_reads_back:
  assumes "pending_wf p"
  shows "pending_from_dict (sort_dict (pending_to_dict p)) = Inr p"
proof -
  have "pending_from_dict (pending_to_dict p) = Inr p"
    using assms by (cases p) (simp add: pending_from_dict_def pending_to_dict_def str_item_def item_def dict_get_def
      str_or_def pending_wf_def)
  moreover have "pending_from_dict (sort_dict (pending_to_dict p)) = pending_from_dict (pending_to_dict p)"
    by (rule pending_from_sorted) (simp_all add: pending_to_dict_def)
  ultimately show ?thesis by simp
qed

lemma settings_read_back:
  assumes "rs_default_mode s \<noteq> []"
  shows "load_settings (u, sort_dict (settings_to_dict s)) = Inr (u, s\<lparr>rs_contacts := sort_key fst (rs_contacts s)\<rparr>)"
proof -
  have d: "distinct (map fst (settings_to_dict s))" by (simp add: settings_to_dict_def)
  have m: "map_of (sort_dict (settings_to_dict s)) ''default_mode'' = Some (JStr (rs_default_mode s))"
    "map_of (sort_dict (settings_to_dict s)) ''contacts'' = Some (JObj (sort_dict (json_values (rs_contacts s))))"
    unfolding map_of_sort_dict [OF d] by (simp_all add: settings_to_dict_def sort_json_obj del: sort_json.simps(2))
  have "s\<lparr>rs_contacts := c\<rparr> = \<lparr>rs_default_mode = rs_default_mode s, rs_contacts = c\<rparr>" for c by (cases s) simp
  then show ?thesis using assms
    by (simp add: load_settings_def raw_field_def m dict_get_def str_or_def dict_of_def str_values_json_values)
qed

definition all_strings :: "dict \<Rightarrow> bool" where
  "all_strings d \<longleftrightarrow> (\<forall>v\<in>snd ` set d. \<exists>s. v = JStr s)"

lemma strings_read_back: "all_strings d \<Longrightarrow> json_values (str_values (sort_dict d)) = sort_dict d"
  unfolding all_strings_def sort_dict_def json_values_def str_values_def map_map
  by (intro map_idI) (auto simp: str_value_JStr)

text \<open>A state whose entries all have their values.\<close>

definition bridge_wf :: "bridge \<Rightarrow> bool" where
  "bridge_wf st \<longleftrightarrow> (\<forall>b\<in>set (br_bindings st). binding_wf b) \<and> (\<forall>p\<in>set (br_pending st). pending_wf p)
     \<and> (\<forall>i\<in>set (br_seen st). i \<noteq> []) \<and> (\<forall>e\<in>snd ` set (br_replies st). all_strings e)
     \<and> (\<forall>s\<in>snd ` set (br_receipt_settings st). rs_default_mode s \<noteq> [])"

text \<open>The state after a restart: the same, in the order of the keys, with the youngest deliveries.\<close>

definition sort_index :: "(string \<times> dict) list \<Rightarrow> (string \<times> dict) list" where
  "sort_index xs = map (\<lambda>kv. (fst kv, sort_dict (snd kv))) (sort_key fst xs)"

definition restarted :: "bridge \<Rightarrow> bridge" where
  "restarted st = \<lparr>br_bindings = br_bindings st, br_pending = br_pending st, br_active = sort_key fst (br_active st),
     br_seen = last_part seen_deliveries_limit (br_seen st),
     br_seen_ids = set (last_part seen_deliveries_limit (br_seen st)), br_replies = sort_index (br_replies st),
     br_receipt_settings = map (\<lambda>kv. (fst kv, (snd kv)\<lparr>rs_contacts := sort_key fst (rs_contacts (snd kv))\<rparr>))
       (sort_key fst (br_receipt_settings st)),
     br_receipts = sort_index (br_receipts st), br_outbound = sort_index (br_outbound st)\<rparr>"

lemma dict_of_obj: "dict_of (JObj d) = Inr d"
  by (simp add: dict_of_def)

lemma index_reads_back: "dict_of (sort_json (index_to_json xs)) = Inr (map (\<lambda>kv. (fst kv, JObj (snd kv))) (sort_index xs))"
  by (simp add: index_to_json_def dict_of_def sort_json_obj sort_dict_map sort_index_def comp_def del: sort_json.simps(2))

lemma bridge_payload_field:
  "raw_field (save_bridge st) k alternative =
     (case map_of (bridge_payload st) k of None \<Rightarrow> alternative | Some v \<Rightarrow> sort_json v)"
proof -
  have "distinct (map fst (bridge_payload st))" by (simp add: bridge_payload_def)
  from map_of_sort_dict [OF this, of k] show ?thesis
    by (simp add: raw_field_def save_bridge_def split: option.split)
qed

lemma set_sort_index: "snd ` set (sort_index xs) = sort_dict ` snd ` set xs"
  by (force simp: sort_index_def)

lemma bindings_read_back:
  "\<forall>b\<in>set bs. binding_wf b \<Longrightarrow>
    map_try binding_from_dict (map (\<lambda>b. sort_dict (binding_to_dict b)) bs) = Inr bs"
  by (induction bs) (simp_all add: binding_reads_back)

lemma all_pending_read_back:
  "\<forall>p\<in>set ps. pending_wf p \<Longrightarrow>
    map_try pending_from_dict (map (\<lambda>p. sort_dict (pending_to_dict p)) ps) = Inr ps"
  by (induction ps) (simp_all add: pending_reads_back)

lemma all_settings_read_back:
  "\<forall>s\<in>snd ` set xs. rs_default_mode s \<noteq> [] \<Longrightarrow>
    map_try load_settings (map (\<lambda>kv. (fst kv, sort_dict (settings_to_dict (snd kv)))) xs) =
    Inr (map (\<lambda>kv. (fst kv, (snd kv)\<lparr>rs_contacts := sort_key fst (rs_contacts (snd kv))\<rparr>)) xs)"
  by (induction xs) (simp_all add: settings_read_back)

lemma index_entries: "dict_entries (map (\<lambda>kv. (fst kv, JObj (snd kv))) xs) = xs"
  by (induction xs) auto

lemma all_replies_read_back:
  "\<forall>e\<in>snd ` set xs. all_strings e \<Longrightarrow>
    map (\<lambda>kv. (fst kv, json_values (str_values (snd kv)))) (sort_index xs) = sort_index xs"
  by (force simp: sort_index_def strings_read_back)

lemma seen_read_back: "\<forall>i\<in>set xs. i \<noteq> [] \<Longrightarrow> map str_value (filter truthy (map JStr xs)) = xs"
  by (induction xs) (auto simp: str_value_JStr)

lemma iterate_objs: "iterate (sort_json (JList (map (\<lambda>x. JObj (f x)) xs))) = Inr (map (\<lambda>x. JObj (sort_dict (f x))) xs)"
  by (simp add: iterate_def sort_dict_def comp_def)

lemma iterate_strs: "iterate (sort_json (JList (map JStr xs))) = Inr (map JStr xs)"
  by (simp add: iterate_def comp_def)

lemma last_part_subset: "set (last_part n xs) \<subseteq> set xs"
  by (simp add: last_part_def set_drop_subset)

lemma state_reads_back:
  assumes "bridge_wf st"
  shows "load_bridge_dict (save_bridge st) = Inr (restarted st)"
proof -
  let ?f = "\<lambda>k alternative. raw_field (save_bridge st) k alternative"
  have "?f ''bindings'' (JList []) = sort_json (JList (map (\<lambda>b. JObj (binding_to_dict b)) (br_bindings st)))"
    "?f ''pending_links'' (JList []) = sort_json (JList (map (\<lambda>p. JObj (pending_to_dict p)) (br_pending st)))"
    "?f ''active_contacts'' (JObj []) = JObj (sort_dict (json_values (br_active st)))"
    "?f ''seen_deliveries'' (JList []) = sort_json (JList (map JStr (last_part seen_deliveries_limit (br_seen st))))"
    "?f ''reply_index'' (JObj []) = sort_json (index_to_json (br_replies st))"
    "?f ''receipt_settings'' (JObj []) =
      sort_json (index_to_json (map (\<lambda>kv. (fst kv, settings_to_dict (snd kv))) (br_receipt_settings st)))"
    "?f ''receipt_index'' (JObj []) = sort_json (index_to_json (br_receipts st))"
    "?f ''outbound_message_index'' (JObj []) = sort_json (index_to_json (br_outbound st))"
    unfolding bridge_payload_field by (simp_all add: bridge_payload_def sort_json_obj del: sort_json.simps)
  note fields = this
  have settings: "sort_index (map (\<lambda>kv. (fst kv, settings_to_dict (snd kv))) (br_receipt_settings st)) =
      map (\<lambda>kv. (fst kv, sort_dict (settings_to_dict (snd kv)))) (sort_key fst (br_receipt_settings st))"
    by (simp add: sort_index_def sort_key_map comp_def)
  have wf: "\<forall>b\<in>set (br_bindings st). binding_wf b" "\<forall>p\<in>set (br_pending st). pending_wf p"
    "\<forall>i\<in>set (last_part seen_deliveries_limit (br_seen st)). i \<noteq> []" "\<forall>e\<in>snd ` set (br_replies st). all_strings e"
    "\<forall>s\<in>snd ` set (sort_key fst (br_receipt_settings st)). rs_default_mode s \<noteq> []"
    using assms last_part_subset [of seen_deliveries_limit "br_seen st"] by (auto simp: bridge_wf_def)
  show ?thesis
    unfolding load_bridge_dict_def fields iterate_objs iterate_strs index_reads_back try_then_simps dicts_in_map
      bindings_read_back [OF wf(1)] all_pending_read_back [OF wf(2)] settings all_settings_read_back [OF wf(5)]
      index_entries all_replies_read_back [OF wf(4)] seen_read_back [OF wf(3)] dict_of_obj
      str_values_json_values Let_def restarted_def ..
qed

lemma map_of_values: "map_of (map (\<lambda>kv. (fst kv, f (snd kv))) xs) k = map_option f (map_of xs k)"
  by (induction xs) auto

lemma map_of_sort_index: "distinct (map fst xs) \<Longrightarrow> map_of (sort_index xs) k = map_option sort_dict (map_of xs k)"
  by (simp add: sort_index_def map_of_values map_of_sort_key)

section \<open>A contact that is deleted\<close>

text \<open>The contact is nowhere in the state.\<close>

definition forgotten :: "string \<Rightarrow> bridge \<Rightarrow> bool" where
  "forgotten i st \<longleftrightarrow> i \<notin> bn_binding_id ` set (br_bindings st) \<and> i \<notin> snd ` set (br_active st)
     \<and> (\<forall>e\<in>snd ` set (br_replies st @ br_receipts st @ br_outbound st). dict_get e ''binding_id'' \<noteq> JStr i)
     \<and> (\<forall>s\<in>snd ` set (br_receipt_settings st). i \<notin> fst ` set (rs_contacts s))"

lemma get_binding_None: "get_binding i st = None \<longleftrightarrow> i \<notin> bn_binding_id ` set (br_bindings st)"
  by (auto simp: get_binding_def find_None_iff)

lemma get_binding_Some:
  assumes "get_binding i st = Some b"
  shows "b \<in> set (br_bindings st) \<and> bn_binding_id b = i"
proof -
  from assms obtain k where "k < length (br_bindings st)" "bn_binding_id (br_bindings st ! k) = i" "b = br_bindings st ! k"
    unfolding get_binding_def find_Some_iff by blast
  then show ?thesis by auto
qed

lemma removed_indexes:
  "forgotten i (remove_binding_indexes i st) \<longleftrightarrow> i \<notin> bn_binding_id ` set (br_bindings st)"
proof -
  have "(i, v) \<notin> set (AList.delete i c)" for c :: "(string \<times> string) list" and v
    using AList.delete_notin_dom [of i c] by (metis fst_conv image_eqI)
  then show ?thesis by (auto simp: forgotten_def remove_binding_indexes_def not_of_binding_def)
qed

text \<open>
  Deleting a contact of the Discord adapter leaves no trace of it: neither an active contact, nor an index
  of messages, nor a receipt override names it, and the other contacts are as they were.
\<close>

theorem deleted_contact_forgotten:
  assumes "delete_binding i st = (st', Some b)"
  shows "forgotten i st' \<and> bn_binding_id b = i \<and>
    br_bindings st' = filter (\<lambda>c. bn_binding_id c \<noteq> i) (br_bindings st) \<and>
    br_seen st' = br_seen st \<and> br_pending st' = br_pending st"
proof -
  let ?s = "st\<lparr>br_bindings := delete_where (\<lambda>b. bn_binding_id b = i) (br_bindings st)\<rparr>"
  have b: "get_binding i st = Some b" and st': "st' = remove_binding_indexes i ?s"
    using assms by (auto simp: delete_binding_def split: option.splits)
  have "forgotten i st'" unfolding st' removed_indexes by (auto simp: delete_where_def)
  then show ?thesis using get_binding_Some [OF b] by (simp add: st' remove_binding_indexes_def delete_where_def)
qed

definition demo_binding :: binding where
  "demo_binding = \<lparr>bn_binding_id = ''b1'', bn_discord_user_id = ''u1'', bn_local_endpoint_id = ''e1'',
     bn_remote_endpoint_id = ''e2'', bn_link_id = ''l1'', bn_label = ''Ada'', bn_link_mode = ''bidirectional'',
     bn_can_send = True, bn_can_receive = True, bn_status = ''active'', bn_created_at = ''t'', bn_updated_at = ''t''\<rparr>"

definition empty_bridge :: bridge where
  "empty_bridge = \<lparr>br_bindings = [], br_pending = [], br_active = [], br_seen = [], br_seen_ids = {}, br_replies = [],
     br_receipt_settings = [], br_receipts = [], br_outbound = []\<rparr>"

definition demo_bridge :: bridge where
  "demo_bridge = empty_bridge\<lparr>br_bindings := [demo_binding], br_active := [(''u1'', ''b1'')], br_seen := [''d1''],
     br_seen_ids := {''d1''},
     br_replies := [(''m1'', [(''discord_user_id'', JStr ''u1''), (''binding_id'', JStr ''b1''), (''packet_id'', JStr ''p1'')])],
     br_receipt_settings := [(''u1'', \<lparr>rs_default_mode = ''off'', rs_contacts = [(''b1'', ''reaction_read'')]\<rparr>)]\<rparr>"

theorem deleted_contact_forgotten_witness:
  "forgotten ''b1'' (fst (delete_binding ''b1'' demo_bridge))"
proof -
  have "delete_binding ''b1'' demo_bridge = (fst (delete_binding ''b1'' demo_bridge), Some demo_binding)"
    by (simp add: delete_binding_def get_binding_def demo_bridge_def demo_binding_def)
  from deleted_contact_forgotten [OF this] show ?thesis by blast
qed

section \<open>Directions\<close>

text \<open>
  The direction that the adapter reads off a link is the server's: of a link with the mode of a redeemed
  code, a contact can send exactly when the server opens the route from its endpoint to the other one, and
  can receive exactly when it opens the route back.
\<close>

theorem direction_is_servers:
  assumes "resolve_redeem_routes (cl_endpoint_a_id link) (cl_endpoint_b_id link) (cl_mode link) = Inr routes"
    and "cl_endpoint_a_id link \<noteq> cl_endpoint_b_id link" "local \<in> {cl_endpoint_a_id link, cl_endpoint_b_id link}"
  shows "calculate_direction link local =
    ((local, resolve_remote_endpoint link local) \<in> set routes, (resolve_remote_endpoint link local, local) \<in> set routes)"
  using assms
  by (auto simp: resolve_redeem_routes_def calculate_direction_def resolve_remote_endpoint_def split: if_splits)

theorem direction_is_servers_witness:
  "let link = \<lparr>cl_link_id = ''l'', cl_endpoint_a_id = ''a'', cl_endpoint_b_id = ''b'', cl_mode = ''a_to_b'',
     cl_created_at = 0, cl_status = ''active''\<rparr>
   in calculate_direction link ''b'' = ((''b'', ''a'') \<in> {(''a'', ''b'')}, (''a'', ''b'') \<in> {(''a'', ''b'')})"
  using direction_is_servers [of "\<lparr>cl_link_id = ''l'', cl_endpoint_a_id = ''a'', cl_endpoint_b_id = ''b'', cl_mode = ''a_to_b'',
     cl_created_at = 0, cl_status = ''active''\<rparr>" "[(''a'', ''b'')]" "''b''"]
  by (simp add: resolve_redeem_routes_def resolve_remote_endpoint_def Let_def)

section \<open>The properties of splitting and saving\<close>

text \<open>
  A message of any length is split for Discord: the loop ends, every chunk is within the limit, is not
  empty and has no white space at its ends, and the characters other than white space are all there, in
  their order.
\<close>

theorem message_is_split:
  assumes "0 < limit"
  shows "\<exists>cs. split_discord_message limit content = Some cs \<and>
    (\<forall>c\<in>set cs. c \<noteq> [] \<and> length c \<le> limit \<and> strip c = c) \<and>
    filter (\<lambda>c. \<not> is_space c) (concat cs) = filter (\<lambda>c. \<not> is_space c) content"
proof -
  have content: "filter (\<lambda>c. \<not> is_space c) (strip content) = filter (\<lambda>c. \<not> is_space c) content"
    using solid_rstrip [of "lstrip content"] solid_lstrip [of content]
    by (simp add: strip_def strip_by_def rstrip_def lstrip_def)
  show ?thesis
  proof (cases "strip content = []")
    case True
    then show ?thesis using content by (intro exI [of _ "[]"]) (simp add: split_discord_message_def)
  next
    case False
    then show ?thesis using split_loop_chunks [OF assms, of "strip content" "[]"] content
      by (simp add: split_discord_message_def Let_def)
  qed
qed

theorem message_is_split_witness:
  "\<exists>cs. split_discord_message 6 ''hello big world'' = Some cs \<and>
    (\<forall>c\<in>set cs. c \<noteq> [] \<and> length c \<le> 6 \<and> strip c = c) \<and>
    filter (\<lambda>c. \<not> is_space c) (concat cs) = filter (\<lambda>c. \<not> is_space c) ''hello big world''"
  by (rule message_is_split) simp

text \<open>
  C31: The state file of the adapter reads back: after a restart the contacts, pending links and seen deliveries
  are the same, every user has the same active contact and the same receipt mode for every contact, and every
  message leads to the same entry, with the keys of the entry sorted.
\<close>

theorem state_file_reads_back:
  assumes "bridge_wf st" "length (br_seen st) \<le> seen_deliveries_limit"
    and "distinct (map fst (br_active st))" "distinct (map fst (br_replies st))" "distinct (map fst (br_receipts st))"
    and "distinct (map fst (br_outbound st))" "distinct (map fst (br_receipt_settings st))"
    and "\<forall>s\<in>snd ` set (br_receipt_settings st). distinct (map fst (rs_contacts s))"
  shows "\<exists>st'. load_bridge_dict (save_bridge st) = Inr st' \<and>
    br_bindings st' = br_bindings st \<and> br_pending st' = br_pending st \<and> br_seen st' = br_seen st \<and>
    (\<forall>i. has_seen_delivery i st' \<longleftrightarrow> i \<in> set (br_seen st)) \<and>
    (\<forall>u. get_active_binding u st' = get_active_binding u st) \<and>
    (\<forall>u i m. get_receipt_mode u i m st' = get_receipt_mode u i m st) \<and>
    (\<forall>m. map_of (br_replies st') m = map_option sort_dict (map_of (br_replies st) m)) \<and>
    (\<forall>m. map_of (br_receipts st') m = map_option sort_dict (map_of (br_receipts st) m)) \<and>
    (\<forall>p. get_outbound_message p st' = map_option sort_dict (get_outbound_message p st))"
proof (intro exI conjI allI)
  show "load_bridge_dict (save_bridge st) = Inr (restarted st)" by (rule state_reads_back [OF assms(1)])
  show "br_seen (restarted st) = br_seen st" using assms(2) by (simp add: restarted_def last_part_def)
  show "has_seen_delivery i (restarted st) \<longleftrightarrow> i \<in> set (br_seen st)" for i
    using assms(2) by (simp add: restarted_def last_part_def has_seen_delivery_def)
  have "get_binding i (restarted st) = get_binding i st" "map_of (br_active (restarted st)) u = map_of (br_active st) u" for i u
    using assms(3) by (simp_all add: get_binding_def restarted_def map_of_sort_key)
  then show "get_active_binding u (restarted st) = get_active_binding u st" for u
    by (simp only: get_active_binding_def)
  have r: "map_of (br_receipt_settings (restarted st)) u =
      map_option (\<lambda>s. s\<lparr>rs_contacts := sort_key fst (rs_contacts s)\<rparr>) (map_of (br_receipt_settings st) u)" for u
    using map_of_values [where f = "\<lambda>s::receipt_settings. s\<lparr>rs_contacts := sort_key fst (rs_contacts s)\<rparr>"
        and xs = "sort_key fst (br_receipt_settings st)"] assms(7)
    by (simp add: restarted_def map_of_sort_key)
  show "get_receipt_mode u i m (restarted st) = get_receipt_mode u i m st" for u i m
  proof (cases "map_of (br_receipt_settings st) u")
    case (Some s)
    then have "distinct (map fst (rs_contacts s))" using assms(8) map_of_SomeD by force
    then show ?thesis by (simp add: get_receipt_mode_def r Some map_of_sort_key Let_def split: option.split)
  qed (simp add: get_receipt_mode_def r)
  show "get_outbound_message p (restarted st) = map_option sort_dict (get_outbound_message p st)" for p
    using assms(6) by (simp add: get_outbound_message_def restarted_def map_of_sort_index)
qed (simp_all add: restarted_def map_of_sort_index assms(4,5))

theorem state_file_reads_back_witness:
  "\<exists>st'. load_bridge_dict (save_bridge demo_bridge) = Inr st' \<and> br_bindings st' = [demo_binding] \<and>
    get_active_binding ''u1'' st' = Some demo_binding \<and> has_seen_delivery ''d1'' st'"
proof -
  have "\<exists>st'. load_bridge_dict (save_bridge demo_bridge) = Inr st' \<and>
    br_bindings st' = br_bindings demo_bridge \<and> br_pending st' = br_pending demo_bridge \<and> br_seen st' = br_seen demo_bridge \<and>
    (\<forall>i. has_seen_delivery i st' \<longleftrightarrow> i \<in> set (br_seen demo_bridge)) \<and>
    (\<forall>u. get_active_binding u st' = get_active_binding u demo_bridge) \<and>
    (\<forall>u i m. get_receipt_mode u i m st' = get_receipt_mode u i m demo_bridge) \<and>
    (\<forall>m. map_of (br_replies st') m = map_option sort_dict (map_of (br_replies demo_bridge) m)) \<and>
    (\<forall>m. map_of (br_receipts st') m = map_option sort_dict (map_of (br_receipts demo_bridge) m)) \<and>
    (\<forall>p. get_outbound_message p st' = map_option sort_dict (get_outbound_message p demo_bridge))"
    by (rule state_file_reads_back)
      (simp_all add: demo_bridge_def empty_bridge_def bridge_wf_def binding_wf_def demo_binding_def all_strings_def
        seen_deliveries_limit_def)
  moreover have "get_active_binding ''u1'' demo_bridge = Some demo_binding"
    by (simp add: get_active_binding_def get_binding_def demo_bridge_def demo_binding_def)
  moreover have "br_bindings demo_bridge = [demo_binding]" "''d1'' \<in> set (br_seen demo_bridge)"
    by (simp_all add: demo_bridge_def)
  ultimately show ?thesis by metis
qed

section \<open>Setting one contact's receipts changes the others'\<close>

text \<open>
  A user without settings has the mode of the configuration for every contact. The first override for one
  contact also fixes the default of the user, at \<open>off\<close>: the other contacts lose the configured mode.
\<close>

lemma override_turns_others_off:
  assumes "map_of (br_receipt_settings st) user = None" "set_receipt_mode user mode (Some i) st = Inr st'" "j \<noteq> i"
  shows "get_receipt_mode user j configured st = normalize_mode configured"
    "get_receipt_mode user j configured st' = Inr ''off''"
proof -
  show "get_receipt_mode user j configured st = normalize_mode configured"
    using assms(1) by (simp add: get_receipt_mode_def new_settings_def)
  have "\<exists>m. map_of (br_receipt_settings st') user = Some \<lparr>rs_default_mode = ''off'', rs_contacts = [(i, m)]\<rparr>"
    using assms(1,2) by (auto simp: set_receipt_mode_def new_settings_def AList.update_conv')
  moreover have "normalize_mode ''off'' = Inr ''off''" by code_simp
  ultimately show "get_receipt_mode user j configured st' = Inr ''off''"
    using assms(3) by (auto simp: get_receipt_mode_def)
qed

end
