(* ===== verification/Flusher.thy ===== *)
theory Flusher
  imports Outbox
begin

text \<open>
  The outbox at work: the foreground \<open>flush_packet\<close>, the worker thread's \<open>flush_due\<close>, new
  packets and crashes interleave, each flush working on the row as it was when it read it. The
  relation \<open>outbox_step\<close> has one step per statement on the table and one per request. The locale
  \<open>packet_server\<close> is what the outbox relies on; \<open>Delivery\<close> interprets it on the server of
  \<open>src/arqs-server/\<close> behind a lossy network.
\<close>

section \<open>Steps\<close>

text \<open>
  \<open>fl_selected\<close>, \<open>fl_sending\<close> and \<open>fl_answered\<close> are the flushes that have read their row, written
  the status \<open>sending\<close>, got an outcome. \<open>fl_ids\<close> records the identifiers of every row ever inserted.
\<close>

record 'w flusher =
  fl_world :: 'w
  fl_rows :: outbox
  fl_selected :: "outbox_entry list"
  fl_sending :: "outbox_entry list"
  fl_answered :: "(outbox_entry \<times> (py_exc + packet_send_result)) list"
  fl_ids :: "(string \<times> string) list"

definition empty_outbox :: "'w \<Rightarrow> 'w flusher" where
  "empty_outbox w = \<lparr>fl_world = w, fl_rows = [], fl_selected = [], fl_sending = [], fl_answered = [], fl_ids = []\<rparr>"

text \<open>\<open>uuid.uuid4()\<close> does not repeat an outbox identifier; everything else is up to the schedule.\<close>

inductive outbox_step :: "'w sender \<Rightarrow> ('w \<Rightarrow> 'w \<Rightarrow> bool) \<Rightarrow> 'w flusher \<Rightarrow> 'w flusher \<Rightarrow> bool"
  for send evolve where
  Enqueue: "enqueue now uuid4 a (fl_rows s) = (rows, Inr e) \<Longrightarrow> uuid4 0 \<notin> fst ` set (fl_ids s) \<Longrightarrow>
    outbox_step send evolve s (s\<lparr>fl_rows := rows, fl_ids := ids e # fl_ids s\<rparr>)"
| Select: "e \<in> set (select_due now limit (fl_rows s)) \<or> get_by_packet_id i (fl_rows s) = Some e \<Longrightarrow>
    outbox_step send evolve s (s\<lparr>fl_selected := e # fl_selected s\<rparr>)"
| Expire: "e \<in> set (fl_selected s) \<Longrightarrow> flush_begin clock e (fl_rows s) = (rows, Some r) \<Longrightarrow>
    outbox_step send evolve s (s\<lparr>fl_rows := rows, fl_selected := remove1 e (fl_selected s)\<rparr>)"
| Begin: "e \<in> set (fl_selected s) \<Longrightarrow> flush_begin clock e (fl_rows s) = (rows, None) \<Longrightarrow>
    outbox_step send evolve s (s\<lparr>fl_rows := rows, fl_selected := remove1 e (fl_selected s),
      fl_sending := e # fl_sending s\<rparr>)"
| Request: "e \<in> set (fl_sending s) \<Longrightarrow> send (fl_world s) (entry_args e) = (w, outcome) \<Longrightarrow>
    outbox_step send evolve s (s\<lparr>fl_world := w, fl_sending := remove1 e (fl_sending s),
      fl_answered := (e, outcome) # fl_answered s\<rparr>)"
| Finish: "(e, outcome) \<in> set (fl_answered s) \<Longrightarrow> flush_end clock jitter e outcome (fl_rows s) = (rows, r) \<Longrightarrow>
    outbox_step send evolve s (s\<lparr>fl_rows := rows, fl_answered := remove1 (e, outcome) (fl_answered s)\<rparr>)"
| Crash: "outbox_step send evolve s (s\<lparr>fl_selected := [], fl_sending := [], fl_answered := []\<rparr>)"
| World: "evolve (fl_world s) w \<Longrightarrow> outbox_step send evolve s (s\<lparr>fl_world := w\<rparr>)"

inductive_cases outbox_stepE: "outbox_step send evolve s t"

abbreviation outbox_run :: "'w sender \<Rightarrow> ('w \<Rightarrow> 'w \<Rightarrow> bool) \<Rightarrow> 'w flusher \<Rightarrow> 'w flusher \<Rightarrow> bool" where
  "outbox_run send evolve \<equiv> (outbox_step send evolve)\<^sup>*\<^sup>*"

section \<open>One flush as steps\<close>

text \<open>\<open>flush_entry\<close> on a row that is selected runs through the steps, whatever else is under way.\<close>

lemma flush_entry_steps:
  assumes "e \<in> set (fl_selected s)"
    and "flush_entry send clock jitter e (fl_world s, fl_rows s) = ((w, rows), r)"
  shows "outbox_run send evolve s
    (s\<lparr>fl_world := w, fl_rows := rows, fl_selected := remove1 e (fl_selected s)\<rparr>)"
proof (cases "flush_begin clock e (fl_rows s)")
  case (Pair rows1 r1)
  show ?thesis
  proof (cases r1)
    case (Some x)
    with assms(2) Pair have "w = fl_world s" "rows = rows1" by (auto simp: flush_entry_def)
    with outbox_step.Expire [OF assms(1) Pair [unfolded Some], of send evolve] show ?thesis by simp
  next
    case None
    obtain w1 out where o: "send (fl_world s) (entry_args e) = (w1, out)" by fastforce
    obtain rows2 r2 where f: "flush_end clock jitter e out rows1 = (rows2, r2)" by fastforce
    from assms(2) Pair None o f have w: "w = w1" "rows = rows2" by (auto simp: flush_entry_def)
    define s1 where "s1 = s\<lparr>fl_rows := rows1, fl_selected := remove1 e (fl_selected s), fl_sending := e # fl_sending s\<rparr>"
    define s2 where "s2 = s1\<lparr>fl_world := w1, fl_sending := fl_sending s, fl_answered := (e, out) # fl_answered s\<rparr>"
    have "outbox_step send evolve s s1"
      using outbox_step.Begin [OF assms(1) Pair [unfolded None]] by (simp add: s1_def)
    moreover have "outbox_step send evolve s1 s2"
      using outbox_step.Request [of e s1 send w1 out evolve] o by (simp add: s1_def s2_def)
    moreover have "s2\<lparr>fl_rows := rows2, fl_answered := fl_answered s\<rparr> =
        s\<lparr>fl_world := w, fl_rows := rows, fl_selected := remove1 e (fl_selected s)\<rparr>"
      by (simp add: s1_def s2_def w)
    with outbox_step.Finish [of e out s2 clock jitter rows2 r2 send evolve] f
    have "outbox_step send evolve s2 (s\<lparr>fl_world := w, fl_rows := rows, fl_selected := remove1 e (fl_selected s)\<rparr>)"
      by (simp add: s1_def s2_def)
    ultimately show ?thesis by (meson converse_rtranclp_into_rtranclp r_into_rtranclp)
  qed
qed

section \<open>The interface\<close>

text \<open>
  \<open>stored w\<close> is the set of the packet identifiers that the server has ever held. A server that
  answers without an error holds the packet by then; nothing is forgotten, whatever the rest
  of the world does.
\<close>

locale packet_server =
  fixes send :: "'w sender"
    and evolve :: "'w \<Rightarrow> 'w \<Rightarrow> bool"
    and good :: "'w \<Rightarrow> bool"
    and stored :: "'w \<Rightarrow> string set"
  assumes good_send: "good w \<Longrightarrow> good (fst (send w a))"
    and good_evolve: "good w \<Longrightarrow> evolve w w' \<Longrightarrow> good w'"
    and stored_send: "good w \<Longrightarrow> stored w \<subseteq> stored (fst (send w a))"
    and stored_evolve: "good w \<Longrightarrow> evolve w w' \<Longrightarrow> stored w \<subseteq> stored w'"
    and answered: "good w \<Longrightarrow> send w a = (w', Inr r) \<Longrightarrow> sa_packet_id a \<in> stored w'"

text \<open>The rows that some flush works on.\<close>

definition under_way :: "'w flusher \<Rightarrow> outbox_entry set" where
  "under_way s = set (fl_selected s) \<union> set (fl_sending s) \<union> fst ` set (fl_answered s)"

text \<open>What the interleaving keeps, for a given reading of the world.\<close>

definition outbox_inv :: "('w \<Rightarrow> string set) \<Rightarrow> 'w flusher \<Rightarrow> bool" where
  "outbox_inv stored s \<longleftrightarrow>
     distinct (map fst (fl_ids s))
   \<and> distinct (map ob_outbox_id (fl_rows s))
   \<and> distinct (map ob_packet_id (fl_rows s))
   \<and> ids ` set (fl_rows s) \<subseteq> set (fl_ids s)
   \<and> (\<forall>e\<in>under_way s. ids e \<in> set (fl_ids s))
   \<and> (\<forall>e r. (e, Inr r) \<in> set (fl_answered s) \<longrightarrow> ob_packet_id e \<in> stored (fl_world s))
   \<and> (\<forall>(i, p)\<in>set (fl_ids s). (i, p) \<in> ids ` set (fl_rows s) \<or> p \<in> stored (fl_world s))"

lemma outbox_invD:
  assumes "outbox_inv stored s"
  shows "distinct (map fst (fl_ids s))" "distinct (map ob_outbox_id (fl_rows s))"
    "distinct (map ob_packet_id (fl_rows s))" "ids ` set (fl_rows s) \<subseteq> set (fl_ids s)"
    "e \<in> under_way s \<Longrightarrow> ids e \<in> set (fl_ids s)"
    "(e, Inr r) \<in> set (fl_answered s) \<Longrightarrow> ob_packet_id e \<in> stored (fl_world s)"
    "(i, p) \<in> set (fl_ids s) \<Longrightarrow> (i, p) \<in> ids ` set (fl_rows s) \<or> p \<in> stored (fl_world s)"
  using assms by (auto simp: outbox_inv_def)

lemma outbox_inv_empty: "outbox_inv stored (empty_outbox w)"
  by (simp add: outbox_inv_def empty_outbox_def under_way_def)

text \<open>Rewriting rows without touching their identifiers, and dropping a flush, keep it.\<close>

lemma map_ids_keys:
  assumes "map ids rows = map ids rows'"
  shows "map ob_outbox_id rows = map ob_outbox_id rows'" "map ob_packet_id rows = map ob_packet_id rows'"
proof -
  have "map fst (map ids rows) = map fst (map ids rows')" "map snd (map ids rows) = map snd (map ids rows')"
    using assms by simp_all
  then show "map ob_outbox_id rows = map ob_outbox_id rows'" "map ob_packet_id rows = map ob_packet_id rows'"
    by (simp_all add: ids_def comp_def)
qed

lemma outbox_inv_move:
  assumes "outbox_inv stored s" "fl_ids t = fl_ids s" "stored (fl_world s) \<subseteq> stored (fl_world t)"
    and "map ids (fl_rows t) = map ids (fl_rows s)"
    and "under_way t \<subseteq> under_way s"
    and "\<And>e r. (e, Inr r) \<in> set (fl_answered t) \<Longrightarrow>
      (e, Inr r) \<in> set (fl_answered s) \<or> ob_packet_id e \<in> stored (fl_world t)"
  shows "outbox_inv stored t"
  unfolding outbox_inv_def
proof (intro conjI allI ballI impI, goal_cases)
  case (5 e)
  then show ?case using assms(2,5) outbox_invD(5) [OF assms(1)] by auto
next
  case (6 e r)
  then show ?case using assms(3,6) outbox_invD(6) [OF assms(1)] by blast
next
  case (7 x)
  obtain i p where x: "x = (i, p)" by (cases x)
  with 7 assms(2) have "(i, p) \<in> ids ` set (fl_rows s) \<or> p \<in> stored (fl_world s)"
    using outbox_invD(7) [OF assms(1)] by simp
  with assms(3) show ?case unfolding x ids_eqD [OF assms(4)] by blast
qed (use assms(2) outbox_invD(1-4) [OF assms(1)] map_ids_keys [OF assms(4)] ids_eqD [OF assms(4)] in simp_all)

lemma flush_begin_ids: "flush_begin clock e rows = (rows', r) \<Longrightarrow> map ids rows' = map ids rows"
  by (auto simp: flush_begin_def split: if_splits)

lemma handle_send_failure_ids:
  "handle_send_failure clock jitter e exc rows = (rows', r) \<Longrightarrow> map ids rows' = map ids rows"
  by (auto simp: handle_send_failure_def Let_def split: prod.splits if_splits)

text \<open>Deleting the row of a packet that the server holds.\<close>

lemma outbox_inv_delete:
  assumes "outbox_inv stored s" "ids e \<in> set (fl_ids s)" "ob_packet_id e \<in> stored (fl_world s)"
  shows "outbox_inv stored (s\<lparr>fl_rows := delete_entry (ob_outbox_id e) (fl_rows s)\<rparr>)"
proof -
  have d: "distinct (map fst (fl_ids s))" and r: "ids ` set (fl_rows s) \<subseteq> set (fl_ids s)"
    using assms(1) by (simp_all add: outbox_inv_def)
  have "(i, p) \<in> ids ` set (delete_entry (ob_outbox_id e) (fl_rows s)) \<or> p \<in> stored (fl_world s)"
    if ip: "(i, p) \<in> set (fl_ids s)" for i p
  proof (cases "i = ob_outbox_id e")
    case True
    with ip assms(2) d have "p = ob_packet_id e"
      by (metis eq_key_imp_eq_value ids_def)
    with assms(3) show ?thesis by simp
  next
    case False
    moreover have "(i, p) \<in> ids ` set (fl_rows s) \<or> p \<in> stored (fl_world s)"
      using assms(1) ip by (auto simp: outbox_inv_def)
    ultimately show ?thesis by (auto simp: delete_entry_def ids_def image_iff)
  qed
  moreover have "ids ` set (delete_entry (ob_outbox_id e) (fl_rows s)) \<subseteq> set (fl_ids s)"
    using r by (auto simp: delete_entry_def)
  ultimately show ?thesis
    using assms(1) by (auto simp: outbox_inv_def under_way_def delete_entry_def distinct_delete_where)
qed

lemma ids_enqueued: "ids (stored_row e) = ids e"
  by (simp add: ids_def)

lemma outbox_inv_enqueue:
  assumes "outbox_inv stored s" "enqueue now uuid4 a (fl_rows s) = (rows, Inr e)" "uuid4 0 \<notin> fst ` set (fl_ids s)"
  shows "outbox_inv stored (s\<lparr>fl_rows := rows, fl_ids := ids e # fl_ids s\<rparr>)"
proof (rule enqueue_cases [of now uuid4 a "fl_rows s"])
  assume "enqueue now uuid4 a (fl_rows s) =
      (fl_rows s @ [stored_row (enqueued_entry now uuid4 a)], Inr (enqueued_entry now uuid4 a))"
    and n: "uuid4 0 \<notin> ob_outbox_id ` set (fl_rows s)"
      "ob_packet_id (enqueued_entry now uuid4 a) \<notin> ob_packet_id ` set (fl_rows s)"
  with assms(2) have e: "e = enqueued_entry now uuid4 a" "rows = fl_rows s @ [stored_row e]" by auto
  have "fst (ids e) = uuid4 0" by (simp add: ids_def e)
  moreover have "ob_outbox_id e = uuid4 0" by (simp add: e(1))
  ultimately show ?thesis
    using assms(1,3) n e(1) by (auto simp: outbox_inv_def under_way_def e(2) ids_enqueued)
qed (use assms(2) in simp)

context packet_server
begin

text \<open>Every step keeps the invariant, and a good world good.\<close>

lemma good_step: "outbox_step send evolve s t \<Longrightarrow> good (fl_world s) \<Longrightarrow> good (fl_world t)"
  by (elim outbox_stepE) (auto intro: good_evolve dest: good_send [of _ "entry_args _"] simp: prod_eq_iff)

lemma select_ids:
  assumes "e \<in> set (select_due now limit rows) \<or> get_by_packet_id i rows = Some e"
  shows "ids e \<in> ids ` set rows"
  using assms by (auto simp: get_by_packet_id_def dest!: select_due_rows fetch_SomeD)

lemma inv_step:
  assumes "outbox_step send evolve s t" "outbox_inv stored s" "good (fl_world s)"
  shows "outbox_inv stored t"
  using assms(1)
proof cases
  case (Enqueue now uuid4 a rows e)
  then show ?thesis using outbox_inv_enqueue [OF assms(2)] by simp
next
  case (Select e now limit i)
  with select_ids have "ids e \<in> ids ` set (fl_rows s)" by blast
  with assms(2) Select(1) show ?thesis by (auto simp: outbox_inv_def under_way_def)
next
  case (Expire e clock rows r)
  then show ?thesis
    by (intro outbox_inv_move [OF assms(2)]) (auto simp: flush_begin_ids under_way_def dest: notin_set_remove1)
next
  case (Begin e clock rows)
  then show ?thesis
    by (intro outbox_inv_move [OF assms(2)]) (auto simp: flush_begin_ids under_way_def dest: notin_set_remove1)
next
  case (Request e w outcome)
  then have w: "stored (fl_world s) \<subseteq> stored w" using stored_send [OF assms(3), of "entry_args e"] by simp
  have a: "ob_packet_id e \<in> stored w" if "outcome = Inr r" for r
    using answered [OF assms(3)] Request(3) that by (fastforce simp: entry_args_def)
  have t: "fl_world t = w" "fl_rows t = fl_rows s" "fl_selected t = fl_selected s" "fl_ids t = fl_ids s"
    "fl_sending t = remove1 e (fl_sending s)" "fl_answered t = (e, outcome) # fl_answered s"
    using Request(1) by simp_all
  show ?thesis
  proof (rule outbox_inv_move [OF assms(2)])
    show "under_way t \<subseteq> under_way s"
      using Request(2) set_remove1_subset [of e "fl_sending s"] by (auto simp: under_way_def t)
    show "(e', Inr r) \<in> set (fl_answered s) \<or> ob_packet_id e' \<in> stored (fl_world t)"
      if "(e', Inr r) \<in> set (fl_answered t)" for e' r
      using that a [of r] by (auto simp: t)
  qed (use w in \<open>simp_all add: t\<close>)
next
  case (Finish e outcome clock jitter rows r)
  let ?s = "s\<lparr>fl_rows := rows\<rparr>"
  have e: "ids e \<in> set (fl_ids s)" 
    using Finish(2) by (intro outbox_invD(5) [OF assms(2)]) (simp add: under_way_def rev_image_eqI)
  have "outbox_inv stored ?s"
  proof (cases outcome)
    case (Inl exc)
    with Finish(3) have "map ids rows = map ids (fl_rows s)"
      by (auto simp: flush_end_def intro: handle_send_failure_ids)
    then show ?thesis by (intro outbox_inv_move [OF assms(2)]) (auto simp: under_way_def)
  next
    case (Inr x)
    then have "ob_packet_id e \<in> stored (fl_world s)" 
      using Finish(2) outbox_invD(6) [OF assms(2)] by simp
    with outbox_inv_delete [OF assms(2) e] Finish(3) Inr show ?thesis by (auto simp: flush_end_def)
  qed
  then show ?thesis
    using set_remove1_subset [of "(e, outcome)" "fl_answered s"]
    unfolding Finish(1) by (elim outbox_inv_move) (auto simp: under_way_def)
next
  case Crash
  then show ?thesis by (intro outbox_inv_move [OF assms(2)]) (auto simp: under_way_def)
next
  case (World w)
  then show ?thesis using stored_evolve [OF assms(3)] by (intro outbox_inv_move [OF assms(2)]) (auto simp: under_way_def)
qed

lemma run_inv:
  assumes "outbox_run send evolve s t" "outbox_inv stored s" "good (fl_world s)"
  shows "outbox_inv stored t \<and> good (fl_world t)"
  using assms by (induction rule: rtranclp_induct) (auto intro: inv_step good_step)

text \<open>No packet is lost: it is in the table until the server has held it.\<close>

lemma never_lost:
  assumes "outbox_run send evolve (empty_outbox w) s" "good w" "(i, p) \<in> set (fl_ids s)"
  shows "(\<exists>r\<in>set (fl_rows s). ob_outbox_id r = i \<and> ob_packet_id r = p) \<or> p \<in> stored (fl_world s)"
proof -
  have "outbox_inv stored s"
    using run_inv [OF assms(1) outbox_inv_empty] assms(2) by (simp add: empty_outbox_def)
  with assms(3) show ?thesis by (fastforce simp: outbox_inv_def ids_def)
qed

end

end
