(* ===== verification/Retries.thy ===== *)
theory Retries
  imports Outbox
begin

text \<open>
  How long a packet stays in the outbox: what one flush does to its row, what it leaves alone,
  and how many rounds of \<open>flush_due\<close> a limited number of attempts lasts. The back-off and the
  time stamps give the instant of the next attempt.
\<close>

section \<open>One flush, row by row\<close>

lemma flush_begin_other:
  "flush_begin clock e rows = (rows', r) \<Longrightarrow> j \<noteq> ob_outbox_id e \<Longrightarrow>
   fetch ob_outbox_id j rows' = fetch ob_outbox_id j rows"
  by (auto simp: flush_begin_def split: if_splits)

lemma flush_end_other:
  "flush_end clock jitter e out rows = (rows', r) \<Longrightarrow> j \<noteq> ob_outbox_id e \<Longrightarrow>
   fetch ob_outbox_id j rows' = fetch ob_outbox_id j rows"
  by (auto simp: flush_end_def handle_send_failure_def Let_def split: sum.splits prod.splits if_splits)

lemma flush_entry_other:
  assumes "flush_entry send clock jitter e st = (st', r)" "j \<noteq> ob_outbox_id e"
  shows "fetch ob_outbox_id j (snd st') = fetch ob_outbox_id j (snd st)"
  using assms flush_begin_other flush_end_other
  by (fastforce simp: flush_entry_def split: prod.splits option.splits)

text \<open>The row that is flushed leaves the table, is dead, or waits for its next attempt.\<close>

definition retried :: "time \<Rightarrow> outbox_entry \<Rightarrow> outbox_entry \<Rightarrow> bool" where
  "retried now r r' \<longleftrightarrow> ob_status r' = ''queued'' \<and> ob_attempts r' = ob_attempts r + 1
     \<and> ob_max_attempts r' = ob_max_attempts r \<and> ob_next_attempt_at r' \<le> now + seconds 305
     \<and> (\<forall>m. ob_max_attempts r = Some m \<longrightarrow> ob_attempts r + 1 < m)"

definition settled :: "outbox_entry option \<Rightarrow> bool" where
  "settled x \<longleftrightarrow> (case x of None \<Rightarrow> True | Some r \<Rightarrow> ob_status r = ''dead_letter'')"

lemma flush_entry_own:
  assumes "flush_entry send clock jitter (row_to_entry r) st = (st', x)" "0 \<le> jitter" "jitter \<le> 5"
    and "fetch ob_outbox_id (ob_outbox_id r) (snd st) = Some r"
  shows "settled (fetch ob_outbox_id (ob_outbox_id r) (snd st'))
    \<or> (\<exists>r'. fetch ob_outbox_id (ob_outbox_id r) (snd st') = Some r' \<and> retried (clock 4) r r')"
proof (cases "flush_begin clock (row_to_entry r) (snd st)")
  case (Pair rows1 res)
  show ?thesis
  proof (cases res)
    case (Some y)
    with Pair assms show ?thesis
      by (auto simp: flush_entry_def flush_begin_def settled_def split: if_splits)
  next
    case None
    with Pair assms(4) obtain r1 where r1: "fetch ob_outbox_id (ob_outbox_id r) rows1 = Some r1"
      "ob_max_attempts r1 = ob_max_attempts r"
      by (auto simp: flush_begin_def split: if_splits)
    obtain w out where o: "send (fst st) (entry_args (row_to_entry r)) = (w, out)" by fastforce
    with assms(1) Pair None have e: "flush_end clock jitter (row_to_entry r) out rows1 = (snd st', x)"
      by (auto simp: flush_entry_def split: prod.splits)
    have b: "seconds (backoff_seconds jitter n) \<le> seconds 305" for n
      using backoff_bounds(2) [OF assms(2,3), of n] by (simp add: seconds_def)
    show ?thesis
    proof (cases out)
      case (Inl exc)
      obtain c msg where cm: "classify_send_error exc = (c, msg)" by fastforce
      let ?n = "ob_attempts r + 1"
      from e have "snd st' = mark_dead_letter (clock 4) (clock 5) (ob_outbox_id r) msg (Some ?n) rows1
        \<or> snd st' = set_status (clock 5) (clock 6) (ob_outbox_id r) ''queued'' ?n
              (Some (clock 4 + seconds (backoff_seconds jitter ?n))) (Some msg) rows1
          \<and> (\<forall>m. ob_max_attempts r = Some m \<longrightarrow> ?n < m)"
        by (auto simp: flush_end_def Inl handle_send_failure_def cm can_retry_def Let_def split: if_splits option.splits)
      then show ?thesis
        using r1 b [of ?n] by (elim disjE) (auto simp: settled_def retried_def)
    next
      case (Inr y)
      with e have "snd st' = delete_entry (ob_outbox_id r) rows1" by (auto simp: flush_end_def)
      then show ?thesis by (simp add: settled_def)
    qed
  qed
qed

lemma flush_entries_Cons:
  "fst (flush_entries send clock jitter k (e # es) st) =
   fst (flush_entries send clock jitter (Suc k) es (fst (flush_entry send (clock k) (jitter k) e st)))"
  by (simp add: case_prod_unfold)

lemma flush_entries_other:
  "j \<notin> ob_outbox_id ` set es \<Longrightarrow>
   fetch ob_outbox_id j (snd (fst (flush_entries send clock jitter k es st))) = fetch ob_outbox_id j (snd st)"
proof (induction es arbitrary: k st)
  case (Cons e es)
  obtain st1 x where e: "flush_entry send (clock k) (jitter k) e st = (st1, x)" by fastforce
  have "fetch ob_outbox_id j (snd st1) = fetch ob_outbox_id j (snd st)"
    using flush_entry_other [OF e] Cons.prems by simp
  moreover have "fetch ob_outbox_id j (snd (fst (flush_entries send clock jitter (Suc k) es st1))) =
      fetch ob_outbox_id j (snd st1)"
    using Cons by simp
  ultimately show ?case by (simp add: e flush_entries_Cons del: flush_entries.simps)
qed simp

lemma flush_entries_own:
  assumes "distinct (map ob_outbox_id es)" "row_to_entry r \<in> set es"
    and "fetch ob_outbox_id (ob_outbox_id r) (snd st) = Some r" "\<And>k. 0 \<le> jitter k \<and> jitter k \<le> 5"
    and "\<And>k. clock k 4 \<le> t"
  shows "settled (fetch ob_outbox_id (ob_outbox_id r) (snd (fst (flush_entries send clock jitter k es st))))
    \<or> (\<exists>r'. fetch ob_outbox_id (ob_outbox_id r) (snd (fst (flush_entries send clock jitter k es st))) = Some r'
         \<and> retried t r r')"
  using assms(1-3)
proof (induction es arbitrary: k st)
  case (Cons e es)
  obtain st1 x where e: "flush_entry send (clock k) (jitter k) e st = (st1, x)" by fastforce
  let ?rest = "flush_entries send clock jitter (Suc k) es st1"
  have step: "fst (flush_entries send clock jitter k (e # es) st) = fst ?rest"
    by (simp add: e flush_entries_Cons del: flush_entries.simps)
  show ?case
  proof (cases "e = row_to_entry r")
    case True
    then have "ob_outbox_id r \<notin> ob_outbox_id ` set es" using Cons.prems(1) by auto
    from flush_entries_other [OF this]
    have rest: "fetch ob_outbox_id (ob_outbox_id r) (snd (fst ?rest)) = fetch ob_outbox_id (ob_outbox_id r) (snd st1)" .
    have "retried t r r'" if "retried (clock k 4) r r'" for r'
      using that assms(5) [of k] by (auto simp: retried_def)
    with flush_entry_own [OF e [unfolded True]] Cons.prems(3) assms(4) [of k] show ?thesis
      unfolding step rest by blast
  next
    case False
    with Cons.prems(1,2) have "ob_outbox_id r \<noteq> ob_outbox_id e" "row_to_entry r \<in> set es" by (auto simp: image_iff)
    with Cons.IH [of st1 "Suc k"] flush_entry_other [OF e] Cons.prems(1,3) show ?thesis
      unfolding step by simp
  qed
qed simp

section \<open>Rounds of the worker\<close>

text \<open>\<open>now k\<close> is the reading with which the \<open>k\<close>-th round of \<open>flush_due\<close> selects.\<close>

fun flush_rounds ::
  "'w sender \<Rightarrow> (nat \<Rightarrow> time) \<Rightarrow> (nat \<Rightarrow> nat \<Rightarrow> nat \<Rightarrow> time) \<Rightarrow> (nat \<Rightarrow> nat \<Rightarrow> int) \<Rightarrow> int \<Rightarrow> nat \<Rightarrow> 'w \<times> outbox
   \<Rightarrow> 'w \<times> outbox" where
  "flush_rounds send now clock jitter limit 0 st = st"
| "flush_rounds send now clock jitter limit (Suc k) st =
     fst (flush_due send (now k) (clock k) (jitter k) limit (flush_rounds send now clock jitter limit k st))"

lemma length_updates:
  "length (set_status n n' i st k nx er rows) = length rows"
  "length (mark_dead_letter n n' i m k' rows) = length rows"
  "length (delete_entry i rows) \<le> length rows"
  by (simp_all add: set_status_def mark_dead_letter_def delete_entry_def delete_where_def)

lemma distinct_updates:
  assumes "distinct (map ob_outbox_id rows)"
  shows "distinct (map ob_outbox_id (set_status n n' i st k nx er rows))"
    "distinct (map ob_outbox_id (mark_dead_letter n n' i m k' rows))"
    "distinct (map ob_outbox_id (delete_entry i rows))"
  using assms by (simp_all add: set_status_def mark_dead_letter_def delete_entry_def map_update_where
      distinct_delete_where)

lemma flush_entry_shape:
  assumes "flush_entry send clock jitter e st = (st', x)" "distinct (map ob_outbox_id (snd st))"
  shows "distinct (map ob_outbox_id (snd st')) \<and> length (snd st') \<le> length (snd st)"
proof (cases "flush_begin clock e (snd st)")
  case (Pair rows1 res)
  then have 1: "distinct (map ob_outbox_id rows1) \<and> length rows1 = length (snd st)"
    using assms(2) by (auto simp: flush_begin_def length_updates distinct_updates split: if_splits)
  note del = length_updates(3) [of "ob_outbox_id e" rows1]
  have 2: "distinct (map ob_outbox_id rows2) \<and> length rows2 \<le> length rows1"
    if "flush_end clock jitter e out rows1 = (rows2, y)" for out rows2 y
    using that 1 del by (auto simp: flush_end_def handle_send_failure_def Let_def length_updates distinct_updates
        split: sum.splits prod.splits if_splits)
  show ?thesis
  proof (cases res)
    case None
    then show ?thesis using assms(1) 1 2 Pair by (fastforce simp: flush_entry_def split: prod.splits)
  qed (use assms(1) 1 Pair in \<open>auto simp: flush_entry_def\<close>)
qed

lemma flush_entries_shape:
  "distinct (map ob_outbox_id (snd st)) \<Longrightarrow>
   distinct (map ob_outbox_id (snd (fst (flush_entries send clock jitter k es st))))
   \<and> length (snd (fst (flush_entries send clock jitter k es st))) \<le> length (snd st)"
proof (induction es arbitrary: k st)
  case (Cons e es)
  obtain st1 x where e: "flush_entry send (clock k) (jitter k) e st = (st1, x)" by fastforce
  from flush_entry_shape [OF e Cons.prems] Cons.IH [of st1 "Suc k"] show ?case
    by (auto simp: e flush_entries_Cons simp del: flush_entries.simps)
qed simp

lemma distinct_select_due:
  assumes "distinct (map ob_outbox_id rows)"
  shows "distinct (map ob_outbox_id (select_due now limit rows))"
proof -
  have "distinct (map ob_outbox_id (sort_key (\<lambda>e. Iso (ob_created_at e)) (filter (due now) rows)))"
    using assms by (auto simp: distinct_map intro: inj_on_subset)
  then have "distinct (map ob_outbox_id (sql_limit limit (sort_key (\<lambda>e. Iso (ob_created_at e)) (filter (due now) rows))))"
    by (simp add: sql_limit_def flip: take_map)
  then show ?thesis by (simp add: select_due_def comp_def)
qed

lemma in_select_due:
  assumes "r \<in> set rows" "due now r" "limit < 0 \<or> int (length rows) \<le> limit"
  shows "row_to_entry r \<in> set (select_due now limit rows)"
proof -
  have "length (filter (due now) rows) \<le> nat limit" if "int (length rows) \<le> limit"
    using that length_filter_le [of "due now" rows] by linarith
  then have "sql_limit limit (sort_key (\<lambda>e. Iso (ob_created_at e)) (filter (due now) rows)) =
      sort_key (\<lambda>e. Iso (ob_created_at e)) (filter (due now) rows)"
    using assms(3) by (auto simp: sql_limit_def)
  with assms(1,2) show ?thesis by (simp add: select_due_def)
qed

text \<open>A dead letter, or a row that is gone, stays so.\<close>

lemma flush_due_settled:
  assumes "settled (fetch ob_outbox_id i (snd st))" "distinct (map ob_outbox_id (snd st))"
  shows "settled (fetch ob_outbox_id i (snd (fst (flush_due send now clock jitter limit st))))"
proof -
  have "i \<notin> ob_outbox_id ` set (select_due now limit (snd st))"
  proof
    assume "i \<in> ob_outbox_id ` set (select_due now limit (snd st))"
    then obtain r where "r \<in> set (snd st)" "due now r" "ob_outbox_id r = i"
      using select_due_rows by fastforce
    then have "fetch ob_outbox_id i (snd st) = Some r" "ob_status r \<noteq> ''dead_letter''"
      by (auto simp: fetch_Some_iff [OF assms(2)] due_def)
    with assms(1) show False by (simp add: settled_def)
  qed
  with assms(1) show ?thesis by (simp add: flush_due_def flush_entries_other)
qed

text \<open>After \<open>k\<close> rounds that come late enough, a row is settled or has had \<open>k\<close> more attempts.\<close>

lemma flush_rounds_progress:
  assumes "distinct (map ob_outbox_id (snd st))" "fetch ob_outbox_id i (snd st) = Some r" "due (now 0) r"
    and "limit < 0 \<or> int (length (snd st)) \<le> limit" "\<And>k j. 0 \<le> jitter k j \<and> jitter k j \<le> 5"
    and "\<And>k j. clock k j 4 + seconds 306 \<le> now (Suc k)"
  shows "distinct (map ob_outbox_id (snd (flush_rounds send now clock jitter limit k st)))
    \<and> length (snd (flush_rounds send now clock jitter limit k st)) \<le> length (snd st)
    \<and> (settled (fetch ob_outbox_id i (snd (flush_rounds send now clock jitter limit k st)))
       \<or> (\<exists>r'. fetch ob_outbox_id i (snd (flush_rounds send now clock jitter limit k st)) = Some r'
            \<and> due (now k) r' \<and> ob_attempts r' = ob_attempts r + int k \<and> ob_max_attempts r' = ob_max_attempts r
            \<and> (k > 0 \<longrightarrow> (\<forall>m. ob_max_attempts r = Some m \<longrightarrow> ob_attempts r' < m))))"
proof (induction k)
  case 0
  with assms show ?case by simp
next
  case (Suc k)
  let ?st = "flush_rounds send now clock jitter limit k st"
  let ?st' = "flush_rounds send now clock jitter limit (Suc k) st"
  have shape: "distinct (map ob_outbox_id (snd ?st'))" "length (snd ?st') \<le> length (snd st)"
    using Suc flush_entries_shape [of ?st send "clock k" "jitter k" 0 "select_due (now k) limit (snd ?st)"]
    by (auto simp: flush_due_def)
  have d: "distinct (map ob_outbox_id (snd ?st))" and len: "length (snd ?st) \<le> length (snd st)" using Suc by auto
  consider "settled (fetch ob_outbox_id i (snd ?st))"
    | r' where "fetch ob_outbox_id i (snd ?st) = Some r'" "due (now k) r'"
      "ob_attempts r' = ob_attempts r + int k" "ob_max_attempts r' = ob_max_attempts r"
    using Suc by blast
  then show ?case
  proof cases
    case 1
    with flush_due_settled [OF 1 d] shape show ?thesis by simp
  next
    case 2
    have r': "r' \<in> set (snd ?st)" "ob_outbox_id r' = i" using fetch_SomeD [OF 2(1)] by simp_all
    have "row_to_entry r' \<in> set (select_due (now k) limit (snd ?st))"
      using r'(1) 2(2) assms(4) len by (intro in_select_due) auto
    from flush_entries_own [OF distinct_select_due [OF d] this, of ?st "jitter k" "clock k" "now (Suc k) - seconds 306" send 0]
    have "settled (fetch ob_outbox_id i (snd ?st')) \<or>
        (\<exists>r''. fetch ob_outbox_id i (snd ?st') = Some r'' \<and> retried (now (Suc k) - seconds 306) r' r'')"
      using 2(1) assms(5,6) [of k] by (simp add: flush_due_def r'(2) le_diff_eq)
    moreover have "due (now (Suc k)) r''" if "retried (now (Suc k) - seconds 306) r' r''" for r''
      using that by (auto simp: retried_def due_def seconds_def intro!: iso_le_later)
    ultimately show ?thesis using shape 2 by (auto simp: retried_def)
  qed
qed

section \<open>Properties\<close>

text \<open>
  C19: A limited number of attempts ends: whatever the server answers, a queued packet that is due
  has left the table or is a dead letter after as many rounds of the worker as attempts are left,
  if each round starts 306 seconds after the round before and takes the whole table. The cap of
  the back-off is 305 seconds, the order of the time stamps costs up to one more.
\<close>

theorem retries_end:
  assumes "distinct (map ob_outbox_id (snd st))" "r \<in> set (snd st)" "due (now 0) r"
    and "ob_max_attempts r = Some m" "0 < n" "m - ob_attempts r \<le> int n"
    and "limit < 0 \<or> int (length (snd st)) \<le> limit" "\<And>k j. 0 \<le> jitter k j \<and> jitter k j \<le> 5"
    and "\<And>k j. clock k j 4 + seconds 306 \<le> now (Suc k)"
  shows "case fetch ob_outbox_id (ob_outbox_id r) (snd (flush_rounds send now clock jitter limit n st)) of
      None \<Rightarrow> True | Some r' \<Rightarrow> ob_status r' = ''dead_letter''"
proof -
  have "fetch ob_outbox_id (ob_outbox_id r) (snd st) = Some r" using assms(1,2) by (simp add: fetch_Some_iff)
  note progress = flush_rounds_progress [where k = n and now = now and st = st and jitter = jitter and clock = clock and send = send,
      OF assms(1) this assms(3,7)]
  have "settled (fetch ob_outbox_id (ob_outbox_id r) (snd (flush_rounds send now clock jitter limit n st)))"
    using progress assms(4-6,8,9) by force
  then show ?thesis by (simp add: settled_def)
qed

text \<open>A packet of the policy \<open>none\<close> while the network is down: one round makes it a dead letter.\<close>

definition demo_enqueue :: "string \<Rightarrow> enqueue_args" where
  "demo_enqueue policy =
     \<lparr>eq_from_endpoint_id = ''e1'', eq_to_endpoint_id = ''e2'', eq_headers = [(''z'', JInt 1), (''a'', JNull)],
      eq_body = Some ''hello'', eq_data = [], eq_meta = [], eq_retry_policy = policy,
      eq_max_attempts = Some 20, eq_expires_after_seconds = Some 86400, eq_packet_id = Some ''p''\<rparr>"

definition network_down :: "unit sender" where
  "network_down w a = (w, Inl (ARQSConnectionError ''down''))"

theorem retries_end_witness:
  "\<exists>e. enqueue 0 (\<lambda>_. ''i'') (demo_enqueue ''none'') [] = ([e], Inr (enqueued_entry 0 (\<lambda>_. ''i'') (demo_enqueue ''none'')))
    \<and> (case fetch ob_outbox_id ''i'' (snd (flush_rounds network_down (\<lambda>k. seconds 306 * int k) (\<lambda>k _ _. seconds 306 * int k)
          (\<lambda>_ _. 0) 100 1 ((), [e]))) of None \<Rightarrow> True | Some r' \<Rightarrow> ob_status r' = ''dead_letter'')"
proof -
  let ?e = "stored_row (enqueued_entry 0 (\<lambda>_. ''i'') (demo_enqueue ''none''))"
  have "due 0 ?e" by (simp add: due_def)
  then show ?thesis
    using retries_end [of "((), [?e])" ?e "\<lambda>k. seconds 306 * int k" 1 1 100 "\<lambda>_ _. 0" "\<lambda>k _ _. seconds 306 * int k" network_down]
    by (simp add: enqueue_def Let_def enqueue_limits_def demo_enqueue_def algebra_simps)
qed

text \<open>
  A row reads back as the packet that was enqueued: \<open>get_by_packet_id\<close> returns the entry that
  \<open>enqueue\<close> returned, with headers, data and meta equal as Python dictionaries; the entries of a
  dictionary come back sorted by key.
\<close>

theorem outbox_roundtrip:
  assumes "enqueue now uuid4 a rows = (rows', Inr e)"
    and "wf_dict (eq_headers a)" "wf_dict (eq_data a)" "wf_dict (eq_meta a)"
  shows "\<exists>r. get_by_packet_id (ob_packet_id e) rows' = Some r
    \<and> r\<lparr>ob_headers := ob_headers e, ob_data := ob_data e, ob_meta := ob_meta e\<rparr> = e
    \<and> dict_eq (ob_headers e) (ob_headers r) \<and> dict_eq (ob_data e) (ob_data r) \<and> dict_eq (ob_meta e) (ob_meta r)
    \<and> ob_headers r = sort_dict (eq_headers a)"
proof (rule enqueue_cases [of now uuid4 a rows])
  assume "enqueue now uuid4 a rows = (rows @ [stored_row (enqueued_entry now uuid4 a)], Inr (enqueued_entry now uuid4 a))"
    and "ob_packet_id (enqueued_entry now uuid4 a) \<notin> ob_packet_id ` set rows"
  with assms(1) have e: "e = enqueued_entry now uuid4 a" "rows' = rows @ [stored_row e]"
    and "fetch ob_packet_id (ob_packet_id e) rows = None"
    by (auto simp: fetch_None_iff)
  then have "get_by_packet_id (ob_packet_id e) rows' = Some (row_to_entry (stored_row e))"
    by (simp add: get_by_packet_id_def fetch_snoc)
  moreover have "ob_headers e = eq_headers a" "ob_data e = eq_data a" "ob_meta e = eq_meta a" "ob_last_error e = None"
    by (simp_all add: e enqueued_entry_def Let_def split: prod.splits)
  ultimately show ?thesis
    using assms(2-4) dict_eq_sort_dict by (simp add: row_to_entry_def stored_row_def)
qed (use assms(1) in simp)

theorem outbox_roundtrip_witness:
  "\<exists>r. get_by_packet_id ''p'' (fst (enqueue 0 (\<lambda>_. ''i'') (demo_enqueue ''bounded'') [])) = Some r
     \<and> ob_headers r = sort_dict [(''z'', JInt 1), (''a'', JNull)]
     \<and> dict_eq [(''z'', JInt 1), (''a'', JNull)] (ob_headers r)"
proof -
  let ?a = "demo_enqueue ''bounded''"
  let ?e = "enqueued_entry 0 (\<lambda>_. ''i'') ?a"
  have e: "enqueue 0 (\<lambda>_. ''i'') ?a [] = ([stored_row ?e], Inr ?e)" by (simp add: enqueue_def Let_def)
  have f: "ob_packet_id ?e = ''p''" "ob_headers ?e = eq_headers ?a"
    by (simp_all add: enqueued_entry_def Let_def demo_enqueue_def enqueue_limits_def)
  have w: "wf_dict (eq_headers ?a)" "wf_dict (eq_data ?a)" "wf_dict (eq_meta ?a)"
    by (simp_all add: demo_enqueue_def wf_dict_def)
  from outbox_roundtrip [OF e w] show ?thesis unfolding f e fst_conv by (auto simp: demo_enqueue_def)
qed

text \<open>
  The worker picks a packet up within a second of its time: from one second after
  \<open>next_attempt_at\<close> on it is due, and it is due no earlier than one second before. The second is
  lost to the text comparison of time stamps with and without a fraction: a packet that is due on a
  full second is not due at any fraction of that second.
\<close>

theorem due_within_a_second:
  "(ob_status e = ''queued'' \<and> ob_next_attempt_at e + seconds 1 \<le> now \<longrightarrow> due now e) \<and>
   (due now e \<longrightarrow> ob_next_attempt_at e \<le> now + seconds 1) \<and>
   (ob_next_attempt_at e mod seconds 1 = 0 \<and> ob_next_attempt_at e < now \<and>
      now < ob_next_attempt_at e + seconds 1 \<longrightarrow> \<not> due now e)"
proof (intro conjI impI)
  show "\<not> due now e" if "ob_next_attempt_at e mod seconds 1 = 0 \<and> ob_next_attempt_at e < now \<and>
      now < ob_next_attempt_at e + seconds 1"
    using iso_second_late that unfolding seconds_def by (simp only: due_def) simp
qed (auto simp: due_def seconds_def intro: iso_le_later dest: iso_le_imp)

theorem due_within_a_second_witness:
  "let e = enqueued_entry 0 (\<lambda>_. ''i'') (demo_enqueue ''bounded'') in
   due (seconds 1) e \<and> \<not> due 500000 e \<and> ob_next_attempt_at e \<le> seconds 1 + seconds 1"
proof -
  let ?e = "enqueued_entry 0 (\<lambda>_. ''i'') (demo_enqueue ''bounded'')"
  have d: "due (seconds 1) ?e" using due_within_a_second [of ?e "seconds 1"] by simp
  moreover have "\<not> due 500000 ?e" using due_within_a_second [of ?e 500000] by (simp add: seconds_def)
  ultimately show ?thesis using due_within_a_second [of ?e "seconds 1"] by (simp add: Let_def)
qed

end
