(* ===== verification/Delivery.thy ===== *)
theory Delivery
  imports Flusher Retries Api
begin

text \<open>
  The outbox and the server together. A \<open>site\<close> is the server's store behind a network that may
  lose the request, lose the answer, or answer by itself; \<open>post\<close> is \<open>ARQSClient.send_packet\<close>
  across it. The JSON body and answer are carried over as records, which is what FastAPI and
  pydantic do between the two. \<open>post\<close> satisfies the contract \<open>packet_server\<close> of the outbox.
\<close>

section \<open>The server across a network\<close>

datatype link_event = Passed | RequestLost | ReplyLost | Gateway nat string

text \<open>
  What the schedule decides for each request: the fate on the network and the draws of the handler.
  \<open>nw_node\<close> is the node that the API key authenticates.
\<close>

record network =
  nw_link :: "nat \<Rightarrow> link_event"
  nw_draws :: "nat \<Rightarrow> draws"
  nw_node :: string

text \<open>\<open>st_seen\<close> records the identifiers of all packets the store has held.\<close>

record site =
  st_db :: db
  st_seen :: "string list"
  st_turn :: nat

definition request_of :: "send_args \<Rightarrow> packet_send_request" where
  "request_of a = \<lparr>ps_version = 1, ps_packet_id = sa_packet_id a, ps_from_endpoint_id = sa_from_endpoint_id a,
     ps_to_endpoint_id = sa_to_endpoint_id a, ps_headers = sa_headers a, ps_body = sa_body a,
     ps_data = sa_data a, ps_meta = sa_meta a, ps_ttl_seconds = None\<rparr>"

definition now_holding :: "db \<Rightarrow> site \<Rightarrow> site" where
  "now_holding t w = w\<lparr>st_db := t, st_seen := st_seen w @ map p_packet_id (packets t)\<rparr>"

definition client_outcome :: "http_error + answer \<Rightarrow> py_exc + packet_send_result" where
  "client_outcome r =
     (case r of
        Inl (HTTPException code detail) \<Rightarrow> Inl (ARQSHTTPError code detail)
      | Inr (Sent x) \<Rightarrow> Inr \<lparr>sp_result = pr_result x, sp_packet_id = pr_packet_id x,
          sp_delivery_id = pr_delivery_id x, sp_expires_at = pr_expires_at x\<rparr>
      | Inr _ \<Rightarrow> Inl (KeyError ''result''))"

definition serve :: "admin_env \<Rightarrow> file_sizes \<Rightarrow> network \<Rightarrow> nat \<Rightarrow> send_args \<Rightarrow> db \<Rightarrow> db \<times> (http_error + answer)" where
  "serve env stat net k a s =
     (case get_node s (nw_node net) of
        None \<Rightarrow> (s, Inl (HTTPException 401 ''invalid api key''))
      | Some node \<Rightarrow> (case handle_send env stat (nw_draws net k) (request_of a) node s of (t, _, r) \<Rightarrow> (t, r)))"

definition post :: "admin_env \<Rightarrow> file_sizes \<Rightarrow> network \<Rightarrow> site sender" where
  "post env stat net w a =
     (let k = st_turn w; w' = w\<lparr>st_turn := Suc k\<rparr> in
      if falsy_body (sa_body a) \<and> sa_data a = [] then
        (w, Inl (ValueError ''at least one of body or non-empty data must be present''))
      else case nw_link net k of
          RequestLost \<Rightarrow> (w', Inl (ARQSConnectionError ''failed to reach ARQS server''))
        | Gateway code detail \<Rightarrow> (w', Inl (ARQSHTTPError code detail))
        | ReplyLost \<Rightarrow> (now_holding (fst (serve env stat net k a (st_db w))) w',
            Inl (ARQSConnectionError ''request to ARQS server timed out''))
        | Passed \<Rightarrow> (case serve env stat net k a (st_db w) of (t, r) \<Rightarrow> (now_holding t w', client_outcome r)))"

text \<open>Between two requests of this outbox the rest of the world may do anything to the store.\<close>

definition site_evolve :: "site \<Rightarrow> site \<Rightarrow> bool" where
  "site_evolve w w' \<longleftrightarrow> (\<exists>t. w' = now_holding t w)"

section \<open>What an answer tells\<close>

text \<open>Only a store that holds the packet answers a send without an error.\<close>

lemma existing_packet_Some: "existing_packet now i s = (Some p, t) \<Longrightarrow> p \<in> set (packets s) \<and> p_packet_id p = i"
  by (auto simp: existing_packet_def get_packet_def dest: fetch_SomeD split: option.splits if_splits)

lemma send_check_Answer_id:
  "send_check env stat dr rq node s = Inr (Answer r, t) \<Longrightarrow> ps_packet_id rq \<in> packet_ids s"
  unfolding image_iff
  by (auto simp: send_check_def and_then_Inr Let_def same_requests_def
      dest!: existing_packet_Some settings_or_500_Inr split: if_splits option.splits prod.splits) metis

lemma send_check_Store_id:
  "send_check env stat dr rq node s = Inr (Store v p d, t) \<Longrightarrow> p_packet_id p = ps_packet_id rq"
  by (auto simp: send_check_def and_then_Inr Let_def new_packet_def split: if_splits option.splits prod.splits)

lemma competing_packet_id:
  "competing_packet views i = Some (p, v) \<Longrightarrow> p \<in> set (packets v) \<and> p_packet_id p = i \<and> v \<in> snd ` set views"
  by (induction views i rule: competing_packet.induct)
    (auto simp: get_packet_def dest: fetch_SomeD split: option.splits if_splits)

lemma send_fallback_id:
  "send_fallback views node rq = Inr r \<Longrightarrow> \<exists>v\<in>snd ` set views. ps_packet_id rq \<in> packet_ids v"
  by (auto simp: send_fallback_def split: option.splits if_splits dest!: competing_packet_id in_set_takeD)
    force

lemma store_packet_holds: "store_packet v p d s = Some t \<Longrightarrow> p_packet_id p \<in> packet_ids t"
  by (auto simp: store_packet_def insert_packet_def insert_delivery_def split: option.splits if_splits)

lemma send_packet_holds:
  assumes "send_packet env stat dr rq node s = (t, n, Inr r)"
  shows "ps_packet_id rq \<in> packet_ids t"
proof (cases "send_check env stat dr rq node s")
  case (Inr x)
  obtain plan sess where c: "send_check env stat dr rq node s = Inr (plan, sess)" using Inr by (cases x) simp
  show ?thesis
  proof (cases plan)
    case (Answer y)
    with c assms send_check_Answer_id [of env stat dr rq node s] show ?thesis by (simp add: send_packet_def)
  next
    case (Store v p d)
    note c' = c [unfolded Store]
    show ?thesis
    proof (cases "store_packet v p d sess")
      case None
      with assms have "t = s"
        and "send_fallback (map (\<lambda>k. (dr_now dr (5 + k), s)) [0..<5]) node rq = Inr r"
        by (auto simp: send_packet_def c' send_commit_def)
      with send_fallback_id show ?thesis by fastforce
    next
      case (Some u)
      with assms have "t = u" by (simp add: send_packet_def c' send_commit_def)
      with store_packet_holds [OF Some] send_check_Store_id [OF c'] show ?thesis by simp
    qed
  qed
qed (use assms in \<open>simp add: send_packet_def\<close>)

lemma map_sum_Inr: "map_sum f g x = Inr y \<longleftrightarrow> (\<exists>z. x = Inr z \<and> y = g z)"
  by (cases x) auto

lemma validate_payload_Inr: "validate_payload r = Inr p \<Longrightarrow> p = r"
  by (simp add: validate_payload_def split: if_splits)

lemma serve_holds:
  assumes "serve env stat net k a s = (t, r)" "client_outcome r = Inr x"
  shows "sa_packet_id a \<in> packet_ids t"
proof -
  from assms(2) obtain y where "r = Inr (Sent y)"
    by (auto simp: client_outcome_def split: sum.splits http_error.splits answer.splits)
  with assms(1) obtain node n where "send_packet env stat (nw_draws net k) (request_of a) node s = (t, n, Inr y)"
    by (auto simp: serve_def handle_send_def invalid_def map_sum_Inr dest!: validate_payload_Inr
        split: option.splits sum.splits prod.splits)
  from send_packet_holds [OF this] show ?thesis by (simp add: request_of_def)
qed

text \<open>The contract of the outbox, for every network and every schedule of the server.\<close>

interpretation relay: packet_server "post env stat net" site_evolve "\<lambda>_. True" "\<lambda>w. set (st_seen w)"
  for env stat net
proof unfold_locales
  fix w a w' r
  show "set (st_seen w) \<subseteq> set (st_seen (fst (post env stat net w a)))"
    by (auto simp: post_def Let_def now_holding_def split: link_event.splits prod.splits)
  show "set (st_seen w) \<subseteq> set (st_seen w')" if "site_evolve w w'"
    using that by (auto simp: site_evolve_def now_holding_def)
  show "sa_packet_id a \<in> set (st_seen w')" if "post env stat net w a = (w', Inr r)"
    using that serve_holds [of env stat net "st_turn w" a "st_db w"]
    by (fastforce simp: post_def Let_def now_holding_def split: link_event.splits prod.splits if_splits)
qed simp_all

section \<open>Properties\<close>

text \<open>
  C18: No packet is lost in the outbox: however enqueueing, worker and foreground flushes, crashes at
  any statement and network failures interleave, and whatever else happens to the store of the
  server, every packet ever enqueued is still a row of the table (queued, being sent, or a dead
  letter) unless the server has held it.
\<close>

theorem outbox_never_loses:
  assumes "outbox_run (post env stat net) site_evolve (empty_outbox w) s" "(i, p) \<in> set (fl_ids s)"
  shows "(\<exists>r\<in>set (fl_rows s). ob_outbox_id r = i \<and> ob_packet_id r = p) \<or> p \<in> set (st_seen (fl_world s))"
  by (rule relay.never_lost [OF assms(1) _ assms(2)]) simp

text \<open>A packet of the demonstration store; the first answer is lost, the second arrives.\<close>

definition demo_letter :: enqueue_args where
  "demo_letter = (demo_enqueue ''bounded'')\<lparr>eq_headers := [], eq_body := Some ''hi''\<rparr>"

definition demo_row :: outbox_entry where
  "demo_row = stored_row (enqueued_entry 0 (\<lambda>_. ''i'') demo_letter)"

definition demo_net :: network where
  "demo_net = \<lparr>nw_link = (\<lambda>k. if k = 0 then ReplyLost else Passed),
     nw_draws = (\<lambda>k. if k = 0 then demo_draws 10 ''x'' else demo_draws 20 ''y''), nw_node = ''n1''\<rparr>"

definition demo_site :: site where
  "demo_site = \<lparr>st_db = demo_db, st_seen = [], st_turn = 0\<rparr>"

lemma demo_row_fields [simp]:
  "ob_outbox_id demo_row = ''i''" "ob_packet_id demo_row = ''p''" "ob_attempts demo_row = 0"
  "ob_headers demo_row = []" "ob_data demo_row = []" "ob_meta demo_row = []" "ob_body demo_row = Some ''hi''"
  "ob_max_attempts demo_row = Some 20" "ob_expires_at demo_row = Some (seconds 86400)"
  "ob_status demo_row = ''queued''" "ob_next_attempt_at demo_row = 0" "ob_last_error demo_row = None"
  "request_of (entry_args demo_row) = demo_send ''p''"
  by (simp_all add: demo_row_def stored_row_def enqueued_entry_def Let_def demo_letter_def demo_enqueue_def
      enqueue_limits_def request_of_def entry_args_def demo_send_def)

lemma demo_enqueued:
  "enqueue 0 (\<lambda>_. ''i'') demo_letter [] = ([demo_row], Inr (enqueued_entry 0 (\<lambda>_. ''i'') demo_letter))"
  by (simp add: enqueue_def Let_def demo_row_def)

theorem outbox_never_loses_witness:
  "\<exists>s. outbox_run (post default_env (\<lambda>_. None) demo_net) site_evolve (empty_outbox demo_site) s
     \<and> fl_ids s = [(''i'', ''p'')]
     \<and> ((\<exists>r\<in>set (fl_rows s). ob_outbox_id r = ''i'' \<and> ob_packet_id r = ''p'') \<or> ''p'' \<in> set (st_seen (fl_world s)))"
proof -
  let ?send = "post default_env (\<lambda>_. None) demo_net"
  let ?e = "enqueued_entry 0 (\<lambda>_. ''i'') demo_letter"
  let ?s = "empty_outbox demo_site"
  let ?t = "?s\<lparr>fl_rows := [demo_row], fl_ids := ids ?e # fl_ids ?s\<rparr>"
  let ?u = "?t\<lparr>fl_selected := [], fl_sending := [], fl_answered := []\<rparr>"
  have "outbox_step ?send site_evolve ?s ?t"
    using outbox_step.Enqueue [of 0 "\<lambda>_. ''i''" demo_letter ?s "[demo_row]" ?e ?send site_evolve] demo_enqueued
    by (simp add: empty_outbox_def)
  moreover have "outbox_step ?send site_evolve ?t ?u" by (rule outbox_step.Crash)
  ultimately have run: "outbox_run ?send site_evolve ?s ?u" by (meson converse_rtranclp_into_rtranclp r_into_rtranclp)
  have i: "fl_ids ?u = [(''i'', ''p'')]"
    using ids_enqueued [of ?e] by (simp add: empty_outbox_def ids_def flip: demo_row_def)
  show ?thesis using outbox_never_loses [OF run, of "''i''" "''p''"] run i by auto
qed



end
