(* ===== verification/Reception.thy ===== *)
theory Reception
  imports Receiver Delivery
begin

text \<open>
  The receiver and the server together: whatever the policy and however requests fail, a delivery
  leaves the server's queue only after its handlers have succeeded, or after it was stored, or under
  the policy that acknowledges failures as well. The contract of the receiver is the locale
  \<open>inbox_server\<close>; the server's handlers behind the network of \<open>Delivery\<close> satisfy it.
\<close>

section \<open>What may leave the queue\<close>

text \<open>A delivery that may be gone: handled, stored by \<open>after_store\<close>, or the policy acknowledges failures.\<close>

definition accounted :: "'w receiver_env \<Rightarrow> 'w app_session \<Rightarrow> string \<Rightarrow> bool" where
  "accounted env st i \<longleftrightarrow> i \<in> set (as_handled st)
     \<or> ack_policy (re_config env) = ''after_store'' \<and> i \<in> rv_delivery_id ` set (as_inbox st)
     \<or> ack_policy (re_config env) = ''always''"

text \<open>A stretch of the receiver's work in a world where \<open>holds\<close> says what the server still queues.\<close>

definition only_accounted ::
  "'w receiver_env \<Rightarrow> ('w \<Rightarrow> bool) \<Rightarrow> ('w \<Rightarrow> string \<Rightarrow> bool) \<Rightarrow> 'w app_session \<Rightarrow> 'w app_session \<Rightarrow> bool" where
  "only_accounted env ok holds st st' \<longleftrightarrow> ok (as_world st) \<longrightarrow>
     ok (as_world st') \<and> (\<forall>i. accounted env st i \<longrightarrow> accounted env st' i) \<and>
     set (as_handled st) \<subseteq> set (as_handled st') \<and>
     (\<forall>i. holds (as_world st) i \<longrightarrow> holds (as_world st') i \<or> accounted env st' i)"

lemma only_accounted_refl: "only_accounted env ok holds st st"
  by (simp add: only_accounted_def)

lemma only_accounted_trans:
  "only_accounted env ok holds st st' \<Longrightarrow> only_accounted env ok holds st' st'' \<Longrightarrow> only_accounted env ok holds st st''"
  unfolding only_accounted_def by blast

text \<open>Handlers and commands that leave the acknowledging to the receiver.\<close>

definition leaves_acks :: "'w receiver_env \<Rightarrow> ('w \<Rightarrow> bool) \<Rightarrow> ('w \<Rightarrow> string \<Rightarrow> bool) \<Rightarrow> bool" where
  "leaves_acks env ok holds \<longleftrightarrow> (\<forall>c d p st. let st' = fst (dispatch_packet env c d p st) in
     ok (as_world st) \<longrightarrow> ok (as_world st') \<and> as_acked st' = as_acked st \<and> as_handled st' = as_handled st
       \<and> as_inbox st' = as_inbox st \<and> (\<forall>i. holds (as_world st) i \<longrightarrow> holds (as_world st') i))"

lemma ack_delivery_fields [simp]:
  "as_world (fst (ack_delivery env i a st)) = fst (re_ack env (as_world st) i a)"
  "as_handled (fst (ack_delivery env i a st)) = as_handled st" "as_inbox (fst (ack_delivery env i a st)) = as_inbox st"
proof -
  obtain w x where "re_ack env (as_world st) i a = (w, x)" by fastforce
  then show "as_world (fst (ack_delivery env i a st)) = fst (re_ack env (as_world st) i a)"
    "as_handled (fst (ack_delivery env i a st)) = as_handled st" "as_inbox (fst (ack_delivery env i a st)) = as_inbox st"
    by (cases x, simp_all add: ack_delivery_def)+
qed

lemma accounted_cong:
  "as_handled st' = as_handled st \<Longrightarrow> as_inbox st' = as_inbox st \<Longrightarrow> accounted env st' i = accounted env st i"
  by (simp add: accounted_def)

lemma store_received_ids:
  "rv_delivery_id ` set (store_received p rows) = insert (rv_delivery_id p) (rv_delivery_id ` set rows)"
  by (auto simp: store_received_def stored_packet_def)

locale inbox_server =
  fixes poll :: "'w \<Rightarrow> int \<Rightarrow> int \<Rightarrow> 'w \<times> (py_exc + client_delivery list)"
    and ack :: "'w \<Rightarrow> string \<Rightarrow> string \<Rightarrow> 'w \<times> (py_exc + unit)"
    and ok :: "'w \<Rightarrow> bool"
    and holds :: "'w \<Rightarrow> string \<Rightarrow> bool"
  assumes ok_poll: "ok w \<Longrightarrow> ok (fst (poll w n k))"
    and holds_poll: "ok w \<Longrightarrow> holds w i \<Longrightarrow> holds (fst (poll w n k)) i"
    and ok_ack: "ok w \<Longrightarrow> ok (fst (ack w i a))"
    and holds_ack: "ok w \<Longrightarrow> holds w j \<Longrightarrow> j \<noteq> i \<Longrightarrow> holds (fst (ack w i a)) j"
begin

lemma ack_accounts:
  assumes "re_ack env = ack" "accounted env st i"
  shows "only_accounted env ok holds st (fst (ack_delivery env i a st))"
proof -
  have "accounted env (fst (ack_delivery env i a st)) j = accounted env st j" for j by (rule accounted_cong) simp_all
  moreover have "holds (fst (ack (as_world st) i a)) j \<or> accounted env st j" if "ok (as_world st)" "holds (as_world st) j" for j
    using holds_ack [OF that] assms(2) by (cases "j = i") auto
  ultimately show ?thesis using ok_ack by (simp add: only_accounted_def assms(1))
qed

lemma after_dispatch_accounts:
  assumes "re_ack env = ack" "after_dispatch env (ack_policy (re_config env)) d (st, x) = (st', r)"
  shows "only_accounted env ok holds st st' \<and> (r = Inr () \<longrightarrow> cd_delivery_id d \<in> set (as_handled st'))"
proof (cases x)
  case (Inl e)
  have *: "only_accounted env ok holds st (fst (ack_delivery env (cd_delivery_id d) ''failed'' st))"
    if "ack_policy (re_config env) = ''always''"
    using that by (intro ack_accounts assms) (simp add: accounted_def)
  obtain s1 y where a: "ack_delivery env (cd_delivery_id d) ''failed'' st = (s1, y)" by fastforce
  show ?thesis
  proof (cases "ack_policy (re_config env) = ''always'' \<and> \<not> as_acked st")
    case True
    then have "st' = s1" "r \<noteq> Inr ()" using assms(2) Inl a by (auto simp: after_dispatch_def then_do_def split: sum.splits)
    with * True a show ?thesis by simp
  next
    case False
    then have "st' = st" "r = Inl e" using assms(2) by (auto simp: after_dispatch_def Inl)
    then show ?thesis by (simp add: only_accounted_refl)
  qed
next
  case (Inr u)
  let ?s = "st\<lparr>as_handled := cd_delivery_id d # as_handled st\<rparr>"
  have s: "only_accounted env ok holds st ?s" by (auto simp: only_accounted_def accounted_def)
  have "only_accounted env ok holds ?s (fst (ack_delivery env (cd_delivery_id d) ''handled'' ?s))"
    by (intro ack_accounts assms) (simp add: accounted_def)
  from only_accounted_trans [OF s this]
  have *: "only_accounted env ok holds st (fst (ack_delivery env (cd_delivery_id d) ''handled'' ?s))" .
  show ?thesis
  proof (cases "ack_policy (re_config env) \<in> {''after_handler_success'', ''always''} \<and> \<not> as_acked st")
    case True
    then have "ack_delivery env (cd_delivery_id d) ''handled'' ?s = (st', r)"
      using assms(2) by (simp add: after_dispatch_def Inr Let_def)
    then have "st' = fst (ack_delivery env (cd_delivery_id d) ''handled'' ?s)" by simp
    with * show ?thesis by simp
  next
    case False
    then have "st' = ?s" using assms(2) by (auto simp: after_dispatch_def Inr Let_def)
    with s show ?thesis by simp
  qed
qed

lemma dispatch_accounts:
  assumes "leaves_acks env ok holds" "dispatch_packet env c d p st = (st', r)"
  shows "only_accounted env ok holds st st'"
proof -
  have "ok (as_world st) \<Longrightarrow> ok (as_world st') \<and> as_handled st' = as_handled st \<and> as_inbox st' = as_inbox st
      \<and> (\<forall>i. holds (as_world st) i \<longrightarrow> holds (as_world st') i)"
    using assms unfolding leaves_acks_def Let_def by (metis fst_conv)
  moreover from this have "ok (as_world st) \<Longrightarrow> accounted env st' i = accounted env st i" for i
    using accounted_cong by blast
  ultimately show ?thesis by (simp add: only_accounted_def)
qed

text \<open>The step before the handlers: only \<open>after_store\<close> has one.\<close>

lemma store_accounts:
  assumes "re_ack env = ack" "rv_delivery_id p = i" "ack_policy (re_config env) = ''after_store''"
  shows "only_accounted env ok holds st (fst (ack_delivery env i a (st\<lparr>as_inbox := store_received p (as_inbox st)\<rparr>)))"
proof (rule only_accounted_trans)
  show "only_accounted env ok holds st (st\<lparr>as_inbox := store_received p (as_inbox st)\<rparr>)"
    by (auto simp: only_accounted_def accounted_def store_received_ids)
  show "only_accounted env ok holds (st\<lparr>as_inbox := store_received p (as_inbox st)\<rparr>)
      (fst (ack_delivery env i a (st\<lparr>as_inbox := store_received p (as_inbox st)\<rparr>)))"
    by (rule ack_accounts) (auto simp: assms accounted_def store_received_ids)
qed

lemma handle_delivery_accounts:
  assumes "re_ack env = ack" "leaves_acks env ok holds" "handle_delivery env d p st = (st', r)"
    "rv_delivery_id p = cd_delivery_id d"
  shows "only_accounted env ok holds st st' \<and> (r = Inr () \<longrightarrow> cd_delivery_id d \<in> set (as_handled st'))"
proof -
  let ?s = "st\<lparr>as_acked := False\<rparr>" let ?i = "cd_delivery_id d" let ?policy = "ack_policy (re_config env)"
  have s: "only_accounted env ok holds st ?s" by (auto simp: only_accounted_def accounted_def)
  have rest: "only_accounted env ok holds s1 st' \<and> (r = Inr () \<longrightarrow> ?i \<in> set (as_handled st'))"
    if "after_dispatch env ?policy d (dispatch_packet env c d p s1) = (st', r)" for c s1
  proof -
    obtain s2 x where d: "dispatch_packet env c d p s1 = (s2, x)" by fastforce
    with after_dispatch_accounts [OF assms(1)] that show ?thesis
      using only_accounted_trans [OF dispatch_accounts [OF assms(2) d]] by metis
  qed
  show ?thesis
  proof (cases "resolve_by_remote_endpoint (re_codec env) (re_now env (as_world ?s)) (rv_from_endpoint_id p)
      (re_contacts env (as_world ?s))")
    case (Inl e)
    then have "st' = ?s" "r = Inl e" using assms(3) by (simp_all add: handle_delivery_def Let_def)
    with s show ?thesis by simp
  next
    case c: (Inr c)
    show ?thesis
    proof (cases "?policy = ''after_store''")
      case False
      then have "after_dispatch env ?policy d (dispatch_packet env c d p ?s) = (st', r)"
        using assms(3) c by (simp add: handle_delivery_def Let_def then_do_def)
      from rest [OF this] only_accounted_trans [OF s] show ?thesis by blast
    next
      case True
      let ?t = "?s\<lparr>as_inbox := store_received p (as_inbox ?s)\<rparr>"
      obtain s1 x where a: "ack_delivery env ?i ''handled'' ?t = (s1, x)" by fastforce
      have "only_accounted env ok holds ?s s1" using store_accounts [OF assms(1,4) True, of ?s "''handled''"] a by simp
      then have s1: "only_accounted env ok holds st s1" by (rule only_accounted_trans [OF s])
      show ?thesis
      proof (cases x)
        case (Inl e)
        then have "st' = s1" "r = Inl e" using assms(3) c True a by (simp_all add: handle_delivery_def Let_def then_do_def)
        with s1 show ?thesis by simp
      next
        case (Inr u)
        then have "after_dispatch env ?policy d (dispatch_packet env c d p s1) = (st', r)"
          using assms(3) c True a by (simp add: handle_delivery_def Let_def then_do_def)
        from rest [OF this] only_accounted_trans [OF s1] show ?thesis by blast
      qed
    qed
  qed
qed

lemma handle_deliveries_accounts:
  assumes "re_ack env = ack" "leaves_acks env ok holds" "handle_deliveries env ds st = (st', r)" "ok (as_world st)"
  shows "only_accounted env ok holds st st' \<and> (\<forall>ps. r = Inr ps \<longrightarrow> cd_delivery_id ` set ds \<subseteq> set (as_handled st'))"
  using assms(3,4)
proof (induction ds arbitrary: st r)
  case Nil
  then show ?case by (simp add: only_accounted_refl)
next
  case (Cons d ds)
  show ?case
  proof (cases "to_received_packet (re_lib env) (re_now env (as_world st)) d")
    case (Inl e)
    with Cons.prems show ?thesis by (auto simp: only_accounted_refl)
  next
    case (Inr p)
    then have i: "rv_delivery_id p = cd_delivery_id d" by (auto simp: to_received_packet_def Let_def)
    obtain s1 x where h: "handle_delivery env d p st = (s1, x)" by fastforce
    note one = handle_delivery_accounts [OF assms(1,2) h i]
    show ?thesis
    proof (cases x)
      case (Inl e)
      then have "st' = s1" "r = Inl e" using Cons.prems(1) Inr h by (simp_all add: then_do_def)
      with one show ?thesis by simp
    next
      case x: (Inr u)
      obtain s2 y where t: "handle_deliveries env ds s1 = (s2, y)" by fastforce
      have st': "st' = s2" and r: "\<forall>ps. r = Inr ps \<longrightarrow> (\<exists>qs. y = Inr qs)"
        using Cons.prems(1) Inr h x t by (auto simp: then_do_def split: sum.splits)
      have "ok (as_world s1)" using one Cons.prems(2) by (auto simp: only_accounted_def)
      from Cons.IH [OF _ this, of y] t st' have two: "only_accounted env ok holds s1 s2 \<and>
        (\<forall>ps. y = Inr ps \<longrightarrow> cd_delivery_id ` set ds \<subseteq> set (as_handled s2))" by simp
      then have "set (as_handled s1) \<subseteq> set (as_handled s2)" using \<open>ok (as_world s1)\<close> by (simp add: only_accounted_def)
      with one two x st' r show ?thesis using only_accounted_trans by (auto 0 3)
    qed
  qed
qed

lemma poll_once_accounts:
  assumes "re_poll env = poll" "re_ack env = ack" "leaves_acks env ok holds" "poll_once env wait limit st = (st', r)"
  shows "only_accounted env ok holds st st'"
proof -
  have polled: "only_accounted env ok holds st (st\<lparr>as_world := w\<rparr>)" if "poll (as_world st) n k = (w, x)" for w x n k
    using that ok_poll [of "as_world st" n k] holds_poll [of "as_world st" _ n k]
    by (auto simp: only_accounted_def accounted_def)
  show ?thesis
  proof (cases "st' = st")
    case True
    then show ?thesis by (simp add: only_accounted_refl)
  next
    case False
    then obtain n k where "(case poll (as_world st) n k of (w, Inl e) \<Rightarrow> (st\<lparr>as_world := w\<rparr>, Inl e)
        | (w, Inr ds) \<Rightarrow> handle_deliveries env ds (st\<lparr>as_world := w\<rparr>)) = (st', r)"
      using assms(4) by (auto simp: poll_once_def assms(1) split: sum.splits)
    then consider w e where "poll (as_world st) n k = (w, Inl e)" "st' = st\<lparr>as_world := w\<rparr>"
      | w ds where "poll (as_world st) n k = (w, Inr ds)" "handle_deliveries env ds (st\<lparr>as_world := w\<rparr>) = (st', r)"
      by (cases "poll (as_world st) n k"; cases "snd (poll (as_world st) n k)") auto
    then show ?thesis
    proof cases
      case 1
      with polled show ?thesis by blast
    next
      case 2
      show ?thesis
      proof (cases "ok (as_world st)")
        case True
        then have "ok (as_world (st\<lparr>as_world := w\<rparr>))" using polled [OF 2(1)] by (simp add: only_accounted_def)
        from handle_deliveries_accounts [OF assms(2,3) 2(2) this] show ?thesis
          using only_accounted_trans [OF polled [OF 2(1)]] by blast
      qed (simp add: only_accounted_def)
    qed
  qed
qed

lemma poll_forever_accounts:
  assumes "re_poll env = poll" "re_ack env = ack" "leaves_acks env ok holds" "poll_forever env wait limit n st = (st', r)"
  shows "only_accounted env ok holds st st'"
  using assms(4)
proof (induction n arbitrary: st)
  case 0
  then show ?case by (simp add: only_accounted_refl)
next
  case (Suc n)
  obtain s1 x where p: "poll_once env wait limit st = (s1, x)" by fastforce
  note one = poll_once_accounts [OF assms(1-3) p]
  show ?case
  proof (cases x)
    case (Inl e)
    with Suc.prems p one show ?thesis by (simp add: then_do_def)
  next
    case (Inr ps)
    then have "poll_forever env wait limit n s1 = (st', r)" using Suc.prems p by (simp add: then_do_def)
    from only_accounted_trans [OF one Suc.IH [OF this]] show ?thesis .
  qed
qed

end

section \<open>The server behind the network\<close>

definition serve_call ::
  "network \<Rightarrow> (node \<Rightarrow> draws \<Rightarrow> db \<Rightarrow> answer reply) \<Rightarrow> site \<Rightarrow> site \<times> (py_exc + answer)" where
  "serve_call net f w =
     (let k = st_turn w; w' = w\<lparr>st_turn := Suc k\<rparr>;
          served = (case get_node (st_db w) (nw_node net) of
             None \<Rightarrow> (st_db w, Inl (HTTPException 401 ''invalid api key''))
           | Some node \<Rightarrow> (case f node (nw_draws net k) (st_db w) of (t, _, r) \<Rightarrow> (t, r)))
      in case nw_link net k of
           RequestLost \<Rightarrow> (w', Inl (ARQSConnectionError ''failed to reach ARQS server''))
         | Gateway code detail \<Rightarrow> (w', Inl (ARQSHTTPError code detail))
         | ReplyLost \<Rightarrow> (now_holding (fst served) w', Inl (ARQSConnectionError ''request to ARQS server timed out''))
         | Passed \<Rightarrow> (now_holding (fst served) w',
             case snd served of Inl (HTTPException code detail) \<Rightarrow> Inl (ARQSHTTPError code detail) | Inr a \<Rightarrow> Inr a))"

definition received_delivery :: "delivery_out \<Rightarrow> client_delivery" where
  "received_delivery d = (let p = do_packet d in
     \<lparr>cd_delivery_id = do_delivery_id d, cd_destination_endpoint_id = do_destination_endpoint_id d,
      cd_queued_at = do_queued_at d, cd_state = do_state d, cd_last_attempt_at = do_last_attempt_at d,
      cd_packet = \<lparr>cp_packet_id = dp_packet_id p, cp_version = dp_version p, cp_from_endpoint_id = dp_from_endpoint_id p,
        cp_to_endpoint_id = dp_to_endpoint_id p, cp_headers = dp_headers p, cp_body = optional_str (dp_body p),
        cp_data = dp_data p, cp_meta = dp_meta p, cp_created_at = dp_created_at p, cp_expires_at = dp_expires_at p\<rparr>\<rparr>)"

definition site_poll ::
  "app_config \<Rightarrow> access_snapshot option \<Rightarrow> network \<Rightarrow> site \<Rightarrow> int \<Rightarrow> int \<Rightarrow> site \<times> (py_exc + client_delivery list)" where
  "site_poll cfg snapshot net w wait limit =
     (case serve_call net (\<lambda>node dr s. handle_inbox cfg snapshot dr limit node s) w of
        (w, Inl e) \<Rightarrow> (w, Inl e)
      | (w, Inr (Deliveries ds)) \<Rightarrow> (w, Inr (map received_delivery ds))
      | (w, Inr _) \<Rightarrow> (w, Inl (KeyError ''deliveries'')))"

definition site_ack :: "network \<Rightarrow> site \<Rightarrow> string \<Rightarrow> string \<Rightarrow> site \<times> (py_exc + unit)" where
  "site_ack net w i a =
     (case serve_call net (\<lambda>node dr s.
          handle_ack dr \<lparr>ak_delivery_id = Some i, ak_packet_id = None, ak_status = a\<rparr> node s) w of
        (w, r) \<Rightarrow> (w, map_sum id (\<lambda>_. ()) r))"

text \<open>The delivery is there, and so is its packet.\<close>

definition queued_at_server :: "site \<Rightarrow> string \<Rightarrow> bool" where
  "queued_at_server w i \<longleftrightarrow> (\<exists>(d, p)\<in>set (joined (st_db w)). d_delivery_id d = i)"

lemma st_db_serve_call:
  "st_db (fst (serve_call net f w)) = st_db w \<or>
   (\<exists>node. st_db (fst (serve_call net f w)) = fst (f node (nw_draws net (st_turn w)) (st_db w)))"
  by (auto simp: serve_call_def Let_def now_holding_def split: link_event.split option.split prod.splits)
    (metis fst_conv)+

lemma site_db:
  "st_db (fst (site_poll cfg snapshot net w wait limit)) =
     st_db (fst (serve_call net (\<lambda>node dr s. handle_inbox cfg snapshot dr limit node s) w))"
  "st_db (fst (site_ack net w i a)) = st_db (fst (serve_call net (\<lambda>node dr s.
     handle_ack dr \<lparr>ak_delivery_id = Some i, ak_packet_id = None, ak_status = a\<rparr> node s) w))"
  by (simp_all add: site_poll_def site_ack_def split: prod.split sum.split answer.split)

lemma handle_inbox_reads: "fst (handle_inbox cfg snapshot dr limit node s) = s"
  by (simp add: handle_inbox_def invalid_def answer_with_def check_def reject_def split: sum.split)

lemma ack_keeps_others:
  assumes "db_ok s" "(d, p) \<in> set (joined s)" "ak_delivery_id rq = Some i" "d_delivery_id d \<noteq> i"
  shows "(d, p) \<in> set (joined (fst (ack_packet dr rq node s)))"
proof (cases "snd (ack_packet dr rq node s)")
  case (Inl e)
  then have "fst (ack_packet dr rq node s) = s"
    by (auto simp: ack_packet_def check_def reject_def split: sum.splits option.splits if_splits)
  with assms show ?thesis by simp
next
  case (Inr a)
  then have "ack_packet dr rq node s = (fst (ack_packet dr rq node s), Inr a)" by (simp add: prod_eq_iff)
  then show ?thesis
  proof (rule ack_packet_acked)
    fix e q assume row: "ack_row (dr_now dr 0) rq s = Some (e, q)"
      and t: "fst (ack_packet dr rq node s) = delete_packets (\<lambda>x. p_packet_id x = p_packet_id q)
        (delete_deliveries (\<lambda>x. d_delivery_id x = d_delivery_id e) s)"
    note r = ack_row_Some [OF row]
    have "joined (fst (ack_packet dr rq node s)) = filter (\<lambda>(x, y). d_delivery_id x \<noteq> d_delivery_id e) (joined s)"
      using joined_remove [OF assms(1) r(1)] by (simp add: t r(3))
    with assms(2-4) r(5) show ?thesis by auto
  qed
qed

lemma handle_ack_keeps:
  assumes "db_ok s" "(d, p) \<in> set (joined s)" "d_delivery_id d \<noteq> i"
  shows "(d, p) \<in> set (joined (fst (handle_ack dr \<lparr>ak_delivery_id = Some i, ak_packet_id = None, ak_status = a\<rparr> node s)))"
  using assms ack_keeps_others [OF assms(1,2)]
  by (auto simp: handle_ack_def invalid_def answer_with_def validate_reference_def split: sum.split if_splits)

interpretation inbox: inbox_server "site_poll cfg snapshot net" "site_ack net" "\<lambda>w. db_ok (st_db w)" queued_at_server
  for cfg snapshot net
proof unfold_locales
  fix w :: site and n k i j a
  assume ok: "db_ok (st_db w)"
  show "db_ok (st_db (fst (site_poll cfg snapshot net w n k)))"
    using ok st_db_serve_call [of net _ w] handle_inbox_reads unfolding site_db by metis
  show "queued_at_server (fst (site_poll cfg snapshot net w n k)) i" if "queued_at_server w i"
    using that st_db_serve_call [of net _ w] handle_inbox_reads unfolding queued_at_server_def site_db by metis
  have "db_ok (fst (handle_ack dr rq node (st_db w)))" for dr rq node
    using ok by (auto simp: handle_ack_def invalid_def answer_with_def intro: db_intro split: sum.split)
  then show "db_ok (st_db (fst (site_ack net w i a)))"
    using ok st_db_serve_call [of net _ w] unfolding site_db by metis
  show "queued_at_server (fst (site_ack net w i a)) j" if q: "queued_at_server w j" and "j \<noteq> i"
  proof -
    obtain d p where d: "(d, p) \<in> set (joined (st_db w))" "d_delivery_id d = j" using q by (auto simp: queued_at_server_def)
    have "(d, p) \<in> set (joined (st_db (fst (site_ack net w i a))))"
      using d \<open>j \<noteq> i\<close> handle_ack_keeps [OF ok d(1), of i] st_db_serve_call [of net _ w] unfolding site_db by metis
    with d(2) show ?thesis by (auto simp: queued_at_server_def)
  qed
qed

section \<open>Properties\<close>

text \<open>
  C25: Nothing leaves the queue unhandled: over any number of polls, with any failures of the network, of
  handlers and of the server, a delivery that was queued at the server is still queued there, or its
  handlers have all succeeded, or the policy \<open>after_store\<close> has stored it first, or the policy is
  \<open>always\<close>. The handlers and commands are arbitrary, as long as they leave the acknowledging to the
  receiver.
\<close>

theorem unhandled_stays_queued:
  assumes "re_poll env = site_poll cfg snapshot net" "re_ack env = site_ack net"
    and "leaves_acks env (\<lambda>w. db_ok (st_db w)) queued_at_server"
    and "poll_forever env wait limit n st = (st', r)" "db_ok (st_db (as_world st))"
    and "queued_at_server (as_world st) i"
  shows "queued_at_server (as_world st') i \<or> i \<in> set (as_handled st')
     \<or> ack_policy (re_config env) = ''after_store'' \<and> i \<in> rv_delivery_id ` set (as_inbox st')
     \<or> ack_policy (re_config env) = ''always''"
  using inbox.poll_forever_accounts [OF assms(1-4)] assms(5,6)
  by (auto simp: only_accounted_def accounted_def)

section \<open>A handler that fails\<close>

definition demo_lib :: pylib where
  "demo_lib = \<lparr>py_gunzip = Inr, py_sha256 = id, py_codec = (\<lambda>c. if c = ''utf-8'' then Some Inr else None),
     py_b64_error = (\<lambda>_. ''b64'')\<rparr>"

definition inbox_net :: network where
  "inbox_net = \<lparr>nw_link = (\<lambda>_. Passed), nw_draws = (\<lambda>_. demo_draws 20 ''y''), nw_node = ''n2''\<rparr>"

definition failing_env :: "site receiver_env" where
  "failing_env = \<lparr>re_config = [], re_contacts = (\<lambda>_. []), re_now = (\<lambda>_. 20),
     re_codec = \<lparr>ic_show = (\<lambda>_. ''t''), ic_read = (\<lambda>_. None)\<rparr>, re_lib = demo_lib, re_class = (\<lambda>_. ''ValueError''),
     re_poll = site_poll default_config None inbox_net, re_ack = site_ack inbox_net,
     re_reply = (\<lambda>w _ _ _. (w, Inr ())),
     re_handlers = (\<lambda>t. if t = ''*'' then [\<lambda>p ctx st. (st, Inl (ValueError ''no''))] else []),
     re_commands = (\<lambda>_. None)\<rparr>"

definition inbox_session :: "site app_session" where
  "inbox_session = \<lparr>as_world = \<lparr>st_db = demo_sent, st_seen = [], st_turn = 0\<rparr>, as_inbox = [], as_pending = [],
     as_acked = False, as_handled = []\<rparr>"

lemma failing_dispatch:
  "let st' = fst (dispatch_packet failing_env c d p st) in
   as_world st' = as_world st \<and> as_acked st' = as_acked st \<and> as_handled st' = as_handled st \<and> as_inbox st' = as_inbox st"
  by (auto simp: dispatch_packet_def then_do_def maybe_handle_def handle_response_def handle_command_def
      send_error_response_def respond_to_def context_of_def reply_to_def dispatch_handlers_def failing_env_def Let_def
      split: option.split)

lemma demo_sent_queued: "queued_at_server (as_world inbox_session) ''x1''"
  by (simp add: queued_at_server_def inbox_session_def joined_demo_sent new_delivery_def)

theorem unhandled_stays_queued_witness:
  "let st = fst (poll_forever failing_env None None 3 inbox_session) in
   queued_at_server (as_world st) ''x1'' \<or> ''x1'' \<in> set (as_handled st)"
proof -
  have "queued_at_server (as_world (fst (poll_forever failing_env None None 3 inbox_session))) ''x1''
      \<or> ''x1'' \<in> set (as_handled (fst (poll_forever failing_env None None 3 inbox_session)))
      \<or> ack_policy (re_config failing_env) = ''after_store''
        \<and> ''x1'' \<in> rv_delivery_id ` set (as_inbox (fst (poll_forever failing_env None None 3 inbox_session)))
      \<or> ack_policy (re_config failing_env) = ''always''"
  proof (rule unhandled_stays_queued)
    show "leaves_acks failing_env (\<lambda>w. db_ok (st_db w)) queued_at_server"
      using failing_dispatch by (simp add: leaves_acks_def Let_def)
    show "db_ok (st_db (as_world inbox_session))" by (simp add: inbox_session_def)
    show "poll_forever failing_env None None 3 inbox_session = (fst (poll_forever failing_env None None 3 inbox_session),
      snd (poll_forever failing_env None None 3 inbox_session))" by simp
  qed (simp_all add: failing_env_def demo_sent_queued)
  then show ?thesis by (simp add: Let_def ack_policy_def failing_env_def)
qed

section \<open>A packet that stops the receiver\<close>

text \<open>
  A delivery that cannot be decoded raises before any acknowledgement, whatever the policy: it and all
  later ones stay where they are, and so does every later poll, since the server sends it first again.
  A sender needs no more than a content type with an unknown charset.
\<close>

lemma undecodable_stops:
  assumes "re_poll env (as_world st) n k = (w, Inr (d # ds))" "to_received_packet (re_lib env) (re_now env w) d = Inl e"
  shows "poll_once env (Some n) (Some k) st = (st\<lparr>as_world := w\<rparr>, Inl e)"
  using assms by (simp add: poll_once_def)

definition poison_headers :: dict where
  "poison_headers = [(header_envelope, JStr ''v1''), (header_type, JStr ''message.v1''),
     (header_content_type, JStr ''text/plain; charset=utf-9''), (header_transfer_encoding, JStr ''utf-8''),
     (header_content_encoding, JStr ''identity''), (header_encryption, JStr ''none'')]"

lemma poison_packet:
  "to_received_packet demo_lib now
     \<lparr>cd_delivery_id = i, cd_destination_endpoint_id = e, cd_queued_at = q, cd_state = s, cd_last_attempt_at = None,
      cd_packet = \<lparr>cp_packet_id = p, cp_version = 1, cp_from_endpoint_id = f, cp_to_endpoint_id = e,
        cp_headers = poison_headers, cp_body = JStr ''hi'', cp_data = [], cp_meta = [], cp_created_at = c,
        cp_expires_at = None\<rparr>\<rparr> = Inl (OtherException ''unknown encoding: utf-9'')"
proof -
  have "decode_packet_view demo_lib (Some ''hi'') poison_headers = Inl (OtherException ''unknown encoding: utf-9'')"
    by code_simp
  then show ?thesis by (simp add: to_received_packet_def body_text_def)
qed

end
