(* ===== verification/BotProps.thy ===== *)
theory BotProps
  imports Bot BridgeProps Reception
begin

text \<open>
  The Discord bot and the server together: a delivery leaves the server's queue only once the state file holds
  it as seen, or the log names it as unclaimed; and what stops the bot. The client's contract is the locale
  \<open>inbox_server\<close> of \<open>Reception\<close>.
\<close>

section \<open>What may leave the queue\<close>

definition seen_in :: "dict \<Rightarrow> string set" where
  "seen_in file = (case dict_get file ''seen_deliveries'' of JList vs \<Rightarrow> str_value ` set vs | _ \<Rightarrow> {})"

text \<open>
  The delivery has been in the state file as seen, or was logged as unclaimed, or the write that was to put it
  into the file has failed.
\<close>

definition bot_accounted :: "'w bot \<Rightarrow> string \<Rightarrow> bool" where
  "bot_accounted st i \<longleftrightarrow> (\<exists>f\<in>set (bo_files st). i \<in> seen_in f) \<or> i \<in> set (bo_unclaimed st)
     \<or> (\<exists>f\<in>set (bo_unwritten st). i \<in> seen_in f)"

text \<open>Whatever the bot takes for seen is accounted for; the set beside the list of the seen agrees with it.\<close>

definition seen_saved :: "'w bot \<Rightarrow> bool" where
  "seen_saved st \<longleftrightarrow> br_seen_ids (bo_state st) = set (br_seen (bo_state st)) \<and>
     (\<forall>i\<in>set (br_seen (bo_state st)). bot_accounted st i)"

definition bot_moves :: "('w \<Rightarrow> bool) \<Rightarrow> ('w \<Rightarrow> string \<Rightarrow> bool) \<Rightarrow> 'w bot \<Rightarrow> 'w bot \<Rightarrow> bool" where
  "bot_moves ok holds st st' \<longleftrightarrow> ok (bo_world st) \<and> seen_saved st \<longrightarrow>
     ok (bo_world st') \<and> seen_saved st' \<and> (\<forall>i. bot_accounted st i \<longrightarrow> bot_accounted st' i) \<and>
     (bo_disk st = [] \<longrightarrow> bo_disk st' = [] \<and> bo_unwritten st' = bo_unwritten st) \<and>
     (\<forall>i. holds (bo_world st) i \<longrightarrow> holds (bo_world st') i \<or> bot_accounted st' i)"

definition quiet :: "('w \<Rightarrow> bool) \<Rightarrow> ('w \<Rightarrow> string \<Rightarrow> bool) \<Rightarrow> ('w, 'a) bot_action \<Rightarrow> bool" where
  "quiet ok holds a \<longleftrightarrow> (\<forall>st. bot_moves ok holds st (fst (a st)))"

definition keeps_queue :: "('w \<Rightarrow> bool) \<Rightarrow> ('w \<Rightarrow> string \<Rightarrow> bool) \<Rightarrow> ('w \<Rightarrow> 'w \<times> 'a) \<Rightarrow> bool" where
  "keeps_queue ok holds f \<longleftrightarrow>
     (\<forall>w. ok w \<longrightarrow> ok (fst (f w)) \<and> (\<forall>i. holds w i \<longrightarrow> holds (fst (f w)) i))"

text \<open>Only acknowledging takes deliveries out of the queue.\<close>

definition leaves_queue :: "('w \<Rightarrow> bool) \<Rightarrow> ('w \<Rightarrow> string \<Rightarrow> bool) \<Rightarrow> 'w bot_env \<Rightarrow> bool" where
  "leaves_queue ok holds env \<longleftrightarrow> keeps_queue ok holds (bv_uuid4 env) \<and> keeps_queue ok holds (bv_list_links env) \<and>
     (\<forall>u. keeps_queue ok holds (\<lambda>w. bv_find_user env w u)) \<and> (\<forall>u t. keeps_queue ok holds (\<lambda>w. bv_dm env w u t)) \<and>
     (\<forall>u m. keeps_queue ok holds (\<lambda>w. bv_fetch_message env w u m)) \<and>
     (\<forall>m e. keeps_queue ok holds (\<lambda>w. bv_add_reaction env w m e)) \<and>
     (\<forall>m e. keeps_queue ok holds (\<lambda>w. bv_remove_reaction env w m e)) \<and>
     (\<forall>a. keeps_queue ok holds (\<lambda>w. bv_send env w a))"

named_theorems quiet_intros \<open>actions that leave the queue as it is\<close>

lemma bot_moves_refl [simp]: "bot_moves ok holds st st"
  by (simp add: bot_moves_def)

lemma bot_moves_trans:
  assumes "bot_moves ok holds st st'" "bot_moves ok holds st' st''"
  shows "bot_moves ok holds st st''"
proof (cases "ok (bo_world st) \<and> seen_saved st")
  case True
  with assms(1) have "ok (bo_world st') \<and> seen_saved st'" by (simp add: bot_moves_def)
  with True assms show ?thesis unfolding bot_moves_def by metis
qed (auto simp: bot_moves_def)

lemma quietD: "quiet ok holds a \<Longrightarrow> bot_moves ok holds st (fst (a st))"
  by (simp add: quiet_def)

lemma quietI: "(\<And>st. bot_moves ok holds st (fst (a st))) \<Longrightarrow> quiet ok holds a"
  by (simp add: quiet_def)

lemma quiet_pass [quiet_intros]: "quiet ok holds (pass x)"
  by (simp add: quiet_def pass_def)

lemma quiet_lift [quiet_intros]: "quiet ok holds (lift_result r)"
  by (simp add: quiet_def lift_result_def)

lemma quiet_then_do [quiet_intros]:
  assumes "quiet ok holds a" "\<And>x. quiet ok holds (k x)"
  shows "quiet ok holds (then_do a k)"
proof (rule quietI)
  fix st
  obtain st1 r where a: "a st = (st1, r)" by fastforce
  have 1: "bot_moves ok holds st st1" using quietD [OF assms(1), of st] a by simp
  show "bot_moves ok holds st (fst (then_do a k st))"
  proof (cases r)
    case (Inl e)
    then show ?thesis using a 1 by (simp add: then_do_def)
  next
    case (Inr x)
    then show ?thesis using a bot_moves_trans [OF 1 quietD [OF assms(2)]] by (simp add: then_do_def)
  qed
qed

lemma quiet_or_else [quiet_intros]: "quiet ok holds a \<Longrightarrow> quiet ok holds (or_else a h)"
  by (simp add: quiet_def or_else_def split: prod.split sum.split) (metis fst_conv)

text \<open>The same where the action looks at the state first.\<close>

lemma quiet_then_do_at: "(\<And>s. quiet ok holds (then_do (a s) (k s))) \<Longrightarrow> quiet ok holds (\<lambda>st. then_do (a st) (k st) st)"
  by (simp add: quiet_def)

lemma quiet_if_at: "quiet ok holds a \<Longrightarrow> quiet ok holds b \<Longrightarrow> quiet ok holds (\<lambda>st. if c st then a st else b st)"
  by (simp add: quiet_def)

lemma quiet_option_at:
  "quiet ok holds a \<Longrightarrow> (\<And>x. quiet ok holds (f x)) \<Longrightarrow> quiet ok holds (\<lambda>st. case v st of None \<Rightarrow> a st | Some x \<Rightarrow> f x st)"
  by (simp add: quiet_def split: option.split)

lemmas quiet_at = quiet_if_at quiet_option_at quiet_then_do_at

lemma quiet_world_call: "keeps_queue ok holds f \<Longrightarrow> quiet ok holds (world_call f)"
  by (auto simp: quiet_def world_call_def bot_moves_def keeps_queue_def seen_saved_def bot_accounted_def
      split: prod.splits)

lemma quiet_draw [quiet_intros]: "leaves_queue ok holds env \<Longrightarrow> quiet ok holds (draw_uuid env)"
  unfolding draw_uuid_def by (rule quiet_world_call) (auto simp: leaves_queue_def keeps_queue_def split: prod.split)

lemma quiet_calls [quiet_intros]:
  assumes "leaves_queue ok holds env"
  shows "quiet ok holds (world_call (bv_list_links env))" "quiet ok holds (world_call (\<lambda>w. bv_find_user env w u))"
    "quiet ok holds (world_call (\<lambda>w. bv_dm env w u t))" "quiet ok holds (world_call (\<lambda>w. bv_fetch_message env w u t))"
    "quiet ok holds (world_call (\<lambda>w. bv_add_reaction env w m e))"
    "quiet ok holds (world_call (\<lambda>w. bv_remove_reaction env w m e))" "quiet ok holds (world_call (\<lambda>w. bv_send env w a))"
  using assms by (auto simp: leaves_queue_def intro!: quiet_world_call)

lemma quiet_change:
  "(\<And>s. br_seen_ids (f s) = br_seen_ids s \<and> br_seen (f s) = br_seen s) \<Longrightarrow> quiet ok holds (change_state f)"
  by (simp add: quiet_def change_state_def bot_moves_def seen_saved_def bot_accounted_def)

lemma quiet_save [quiet_intros]: "quiet ok holds save_state"
  by (auto simp: quiet_def save_state_def Let_def bot_moves_def seen_saved_def bot_accounted_def
      split: list.split option.split)

lemma quiet_if [quiet_intros]: "quiet ok holds a \<Longrightarrow> quiet ok holds b \<Longrightarrow> quiet ok holds (if c then a else b)"
  by simp

lemma quiet_option [quiet_intros]:
  "quiet ok holds a \<Longrightarrow> (\<And>x. quiet ok holds (f x)) \<Longrightarrow> quiet ok holds (case v of None \<Rightarrow> a | Some x \<Rightarrow> f x)"
  by (simp split: option.split)

lemma quiet_let [quiet_intros]: "(\<And>x. quiet ok holds (f x)) \<Longrightarrow> quiet ok holds (let x = v in f x)"
  by (simp add: Let_def)

section \<open>The handlers are quiet\<close>

lemma quiet_send_chunks: "leaves_queue ok holds env \<Longrightarrow> quiet ok holds (send_chunks env u cs)"
  by (induction cs) (auto intro!: quiet_intros)

lemma quiet_send_user_dm [quiet_intros]: "leaves_queue ok holds env \<Longrightarrow> quiet ok holds (send_user_dm env u t)"
  unfolding send_user_dm_def by (intro quiet_intros quiet_send_chunks)

lemma quiet_fetch [quiet_intros]:
  "leaves_queue ok holds env \<Longrightarrow> quiet ok holds (fetch_target_discord_message env target)"
  unfolding fetch_target_discord_message_def by (intro quiet_intros)

lemma quiet_try_remove [quiet_intros]:
  "leaves_queue ok holds env \<Longrightarrow> quiet ok holds (try_remove_display_reaction env target r m)"
  unfolding try_remove_display_reaction_def by (intro quiet_intros)

lemma quiet_try_set [quiet_intros]:
  "leaves_queue ok holds env \<Longrightarrow> quiet ok holds (try_set_explicit_reaction env target r p s)"
  unfolding try_set_explicit_reaction_def by (intro quiet_intros)

lemma quiet_try_add [quiet_intros]: "leaves_queue ok holds env \<Longrightarrow> quiet ok holds (try_add_receipt_reaction env target)"
  unfolding try_add_receipt_reaction_def by (intro quiet_intros)

lemma change_outbound_seen [simp]:
  "br_seen_ids (change_outbound i f s) = br_seen_ids s" "br_seen (change_outbound i f s) = br_seen s"
  by (simp_all add: change_outbound_def split: option.split)

lemma quiet_outbound [quiet_intros]:
  "quiet ok holds (change_state (set_outbound_reaction i k r))" "quiet ok holds (change_state (remove_outbound_reaction i k))"
  "quiet ok holds (change_state (mark_outbound_receipt i k))"
  by (auto intro!: quiet_change simp: set_outbound_reaction_def remove_outbound_reaction_def mark_outbound_receipt_def)

lemma quiet_reaction_set [quiet_intros]: "leaves_queue ok holds env \<Longrightarrow> quiet ok holds (reaction_set env t k r)"
  unfolding reaction_set_def Let_def by (intro quiet_intros)

lemma quiet_reaction_removed [quiet_intros]: "leaves_queue ok holds env \<Longrightarrow> quiet ok holds (reaction_removed env t k r)"
  unfolding reaction_removed_def Let_def by (intro quiet_intros)

lemma quiet_handle_reaction [quiet_intros]:
  assumes "leaves_queue ok holds env"
  shows "quiet ok holds (handle_reaction_delivery env b d)"
proof (rule quietI)
  fix st
  show "bot_moves ok holds st (fst (handle_reaction_delivery env b d st))"
    using quietD [OF quiet_reaction_set [OF assms]] quietD [OF quiet_reaction_removed [OF assms]]
    by (simp add: handle_reaction_delivery_def Let_def pass_def split: option.split)
qed

lemma quiet_handle_receipt [quiet_intros]:
  assumes "leaves_queue ok holds env"
  shows "quiet ok holds (handle_receipt_delivery env b d)"
proof (rule quietI)
  fix st
  have "quiet ok holds (then_do (lift_result r) (\<lambda>i. then_do (change_state (mark_outbound_receipt i k)) (\<lambda>_. pass True)))"
    "quiet ok holds (then_do (lift_result r) (\<lambda>i. then_do (change_state (mark_outbound_receipt i k)) (\<lambda>_.
       then_do (try_add_receipt_reaction env t) (\<lambda>_. pass True))))"
    "quiet ok holds (then_do (try_add_receipt_reaction env t) (\<lambda>added. if added then
       then_do (lift_result r) (\<lambda>i. then_do (change_state (mark_outbound_receipt i k)) (\<lambda>_. pass True)) else pass True))"
    for r k t by (intro quiet_intros assms)+
  note q = this [THEN quietD]
  show "bot_moves ok holds st (fst (handle_receipt_delivery env b d st))"
    by (simp add: handle_receipt_delivery_def Let_def pass_def [of "_ :: bool" st] q split: option.split)
qed

lemma quiet_send_delivered [quiet_intros]:
  "leaves_queue ok holds env \<Longrightarrow> quiet ok holds (send_delivered_receipt env b d)"
  unfolding send_delivered_receipt_def by (assumption | intro quiet_intros | rule quiet_at)+

lemma quiet_remember [quiet_intros]:
  "quiet ok holds (change_state (remember_reply_messages u i p ms))"
  "quiet ok holds (change_state (remember_receipt_messages t u i p f e c ms))"
  "quiet ok holds (change_state (mark_receipt_sent i p k))"
  by (rule quiet_change; simp add: remember_reply_messages_def remember_receipt_messages_def mark_receipt_sent_def)+

lemma quiet_after_forwarding [quiet_intros]:
  "leaves_queue ok holds env \<Longrightarrow> quiet ok holds (after_forwarding env b d is)"
  unfolding after_forwarding_def Let_def by (assumption | intro quiet_intros | rule quiet_at)+

lemma quiet_announce [quiet_intros]: "leaves_queue ok holds env \<Longrightarrow> quiet ok holds (announce_binding env b)"
  unfolding announce_binding_def Let_def by (assumption | intro quiet_intros | rule quiet_at)+

lemma quiet_materialized [quiet_intros]:
  "quiet ok holds (change_state (\<lambda>s. activate_if_none u i (remove_pending_link j (upsert_binding b s))))"
  by (rule quiet_change) (simp add: activate_if_none_def remove_pending_link_def upsert_binding_def set_active_binding_def)

lemma quiet_materialize [quiet_intros]:
  "leaves_queue ok holds env \<Longrightarrow> quiet ok holds (materialize_pending_binding env l ls)"
  unfolding materialize_pending_binding_def [abs_def] Let_def by (assumption | intro quiet_intros | rule quiet_at)+

section \<open>Marking, saving, acknowledging\<close>

lemma seen_in_saved: "seen_in (save_bridge s) = set (last_part seen_deliveries_limit (br_seen s))"
proof -
  have "dict_get (save_bridge s) ''seen_deliveries'' = JList (map JStr (last_part seen_deliveries_limit (br_seen s)))"
    using bridge_payload_field [of s "''seen_deliveries''" JNull]
    by (simp add: raw_field_def dict_get_def bridge_payload_def comp_def)
  then show ?thesis by (simp add: seen_in_def image_image str_value_JStr)
qed

lemma last_part_snoc: "0 < n \<Longrightarrow> x \<in> set (last_part n (xs @ [x]))"
  by (cases "length xs < n") (auto simp: last_part_def Suc_diff_le)

lemma mark_seen_fields:
  assumes "br_seen_ids s = set (br_seen s)"
  shows "br_seen_ids (mark_seen_delivery i s) = set (br_seen (mark_seen_delivery i s))"
    "set (br_seen (mark_seen_delivery i s)) \<subseteq> insert i (set (br_seen s))"
    "i \<notin> set (br_seen s) \<Longrightarrow> i \<in> set (last_part seen_deliveries_limit (br_seen (mark_seen_delivery i s)))"
proof -
  have sub: "set (last_part seen_deliveries_limit (br_seen s @ [i])) \<subseteq> insert i (set (br_seen s))"
    using last_part_subset [of seen_deliveries_limit "br_seen s @ [i]"] by simp
  have "last_part n (last_part n xs) = last_part n xs" for n and xs :: "string list"
    by (cases "n \<le> length xs") (simp_all add: last_part_def)
  moreover have "i \<in> set (last_part seen_deliveries_limit (br_seen s @ [i]))"
    by (rule last_part_snoc) (simp add: seen_deliveries_limit_def)
  ultimately show "br_seen_ids (mark_seen_delivery i s) = set (br_seen (mark_seen_delivery i s))"
    "set (br_seen (mark_seen_delivery i s)) \<subseteq> insert i (set (br_seen s))"
    "i \<notin> set (br_seen s) \<Longrightarrow> i \<in> set (last_part seen_deliveries_limit (br_seen (mark_seen_delivery i s)))"
    using assms sub by (auto simp: mark_seen_delivery_def Let_def)
qed

lemma saved_moves:
  assumes "\<And>s. br_seen (f s) = br_seen s" "\<And>s. br_seen_ids (f s) = br_seen_ids s"
    and "st1 = st\<lparr>bo_state := mark_seen_delivery i (f (bo_state st))\<rparr>"
    and "save_state st1 = (st2, r)" "seen_saved st"
  shows "bot_moves ok holds st st2" "bot_accounted st2 i"
proof -
  have st2: "bo_state st2 = bo_state st1" "bo_world st2 = bo_world st1" "bo_unclaimed st2 = bo_unclaimed st1"
    "set (bo_files st1) \<subseteq> set (bo_files st2)" "set (bo_unwritten st1) \<subseteq> set (bo_unwritten st2)"
    "save_bridge (bo_state st1) \<in> set (bo_files st2) \<union> set (bo_unwritten st2)"
    "bo_disk st1 = [] \<Longrightarrow> bo_disk st2 = [] \<and> bo_unwritten st2 = bo_unwritten st1"
    using assms(4) by (auto simp: save_state_def Let_def split: list.splits option.splits)
  have acc: "bot_accounted st2 j" if "bot_accounted st j" for j
    using that st2(3-5) by (fastforce simp: assms(3) bot_accounted_def)
  have old: "br_seen_ids (f (bo_state st)) = set (br_seen (f (bo_state st)))" using assms(1,2,5) by (simp add: seen_saved_def)
  note m = mark_seen_fields [OF old, of i]
  show i: "bot_accounted st2 i"
  proof (cases "i \<in> set (br_seen (bo_state st))")
    case True
    then show ?thesis using assms(5) acc by (auto simp: seen_saved_def)
  next
    case False
    then have "i \<in> seen_in (save_bridge (bo_state st1))" using m(3) assms(1) by (simp add: assms(3) seen_in_saved)
    with st2(6) show ?thesis unfolding bot_accounted_def by blast
  qed
  have "bot_accounted st2 j" if "j \<in> set (br_seen (bo_state st2))" for j
    using that m(2) i acc assms(1,5) by (auto simp: st2(1) assms(3) seen_saved_def)
  then have "seen_saved st2" using m(1) by (simp add: seen_saved_def st2(1) assms(3))
  then show "bot_moves ok holds st st2" using acc st2(2,7) by (simp add: bot_moves_def assms(3))
qed

context inbox_server
begin

lemma bot_ack_moves:
  assumes "bv_ack env = ack" "bot_accounted st i"
  shows "bot_moves ok holds st (fst (bot_ack env i st))"
proof -
  obtain w r where a: "ack (bo_world st) i ''handled'' = (w, r)" by fastforce
  have "ok w" if "ok (bo_world st)" using ok_ack [OF that, of i "''handled''"] a by simp
  moreover have "holds w j \<or> bot_accounted st j" if "ok (bo_world st)" "holds (bo_world st) j" for j
    using holds_ack [OF that, of i "''handled''"] a assms(2) by (cases "j = i") auto
  ultimately show ?thesis using a
    by (simp add: bot_ack_def world_call_def assms(1) bot_moves_def seen_saved_def bot_accounted_def)
qed

lemma finish_moves:
  assumes "bv_ack env = ack" "seen_saved st"
  shows "bot_moves ok holds st (fst (finish_delivery env b i st))"
proof -
  define f where "f = (\<lambda>s. upsert_binding (b\<lparr>bn_updated_at := now_text env st\<rparr>)
    (set_active_binding (bn_discord_user_id b) (Some (bn_binding_id b)) s))"
  define st1 where "st1 = st\<lparr>bo_state := mark_seen_delivery i (f (bo_state st))\<rparr>"
  obtain st2 r where saved: "save_state st1 = (st2, r)" by fastforce
  have f: "br_seen (f s) = br_seen s" "br_seen_ids (f s) = br_seen_ids s" for s
    by (simp_all add: f_def upsert_binding_def set_active_binding_def)
  note m = saved_moves [OF f st1_def saved assms(2)]
  have "finish_delivery env b i st = (case r of Inl e \<Rightarrow> (st2, Inl e) | Inr _ \<Rightarrow> bot_ack env i st2)"
    using saved by (simp add: finish_delivery_def change_state_def then_do_def st1_def f_def split: sum.split)
  then show ?thesis using m(1) bot_moves_trans [OF m(1) bot_ack_moves [OF assms(1) m(2)]] by (simp split: sum.split)
qed

lemma finish_quiet: "bv_ack env = ack \<Longrightarrow> quiet ok holds (finish_delivery env b i)"
  unfolding quiet_def using finish_moves by (metis bot_moves_def)

lemma handle_bound_quiet:
  "bv_ack env = ack \<Longrightarrow> leaves_queue ok holds env \<Longrightarrow> quiet ok holds (handle_bound_delivery env b d)"
  unfolding handle_bound_delivery_def forward_delivery_def by (intro quiet_intros finish_quiet)

lemma bot_handle_quiet:
  assumes "bv_ack env = ack" "leaves_queue ok holds env"
  shows "quiet ok holds (bot_handle_delivery env d)"
proof (rule quietI)
  fix st
  let ?i = "cd_delivery_id d"
  have unclaimed: "quiet ok holds (ack_unclaimed env ?i)"
  proof (rule quietI)
    fix st :: "'w bot"
    let ?s = "st\<lparr>bo_unclaimed := ?i # bo_unclaimed st\<rparr>"
    have "bot_moves ok holds st ?s" by (auto simp: bot_moves_def seen_saved_def bot_accounted_def)
    moreover have "bot_moves ok holds ?s (fst (bot_ack env ?i ?s))"
      by (rule bot_ack_moves [OF assms(1)]) (simp add: bot_accounted_def)
    ultimately show "bot_moves ok holds st (fst (ack_unclaimed env ?i st))"
      unfolding ack_unclaimed_def by (rule bot_moves_trans)
  qed
  show "bot_moves ok holds st (fst (bot_handle_delivery env d st))"
  proof (cases "has_seen_delivery ?i (bo_state st)")
    case True
    then have "bot_moves ok holds st (fst (bot_ack env ?i st))"
      using bot_ack_moves [OF assms(1), of st ?i] by (auto simp: bot_moves_def seen_saved_def has_seen_delivery_def)
    with True show ?thesis by (simp add: bot_handle_delivery_def)
  next
    case False
    let ?k = "\<lambda>b st. case b of Some b \<Rightarrow> handle_bound_delivery env b d st
      | None \<Rightarrow> if pending_for_local_endpoint (cp_to_endpoint_id (cd_packet d)) (bo_state st) \<noteq> None then pass () st
          else ack_unclaimed env ?i st"
    have "quiet ok holds (?k b)" for b
      using unclaimed handle_bound_quiet [OF assms] by (cases b) (auto simp: quiet_def pass_def)
    then have "quiet ok holds (then_do (case get_binding_by_local_endpoint (cp_to_endpoint_id (cd_packet d)) (bo_state st) of
        Some b \<Rightarrow> pass (Some b) | None \<Rightarrow> materialize_pending_binding env (cp_to_endpoint_id (cd_packet d)) None) ?k)"
      by (intro quiet_intros assms)
    from quietD [OF this] show ?thesis by (simp only: bot_handle_delivery_def Let_def False if_False)
  qed
qed

lemma bot_deliveries_quiet:
  assumes "bv_ack env = ack" "leaves_queue ok holds env"
  shows "quiet ok holds (bot_handle_deliveries env ds)"
  by (induction ds) (auto intro!: quiet_intros bot_handle_quiet assms)

lemma bot_poll_quiet:
  assumes "bv_poll env = poll" "bv_ack env = ack" "leaves_queue ok holds env"
  shows "quiet ok holds (poll_inbox_once env)"
proof -
  have "quiet ok holds (world_call (\<lambda>w. bv_poll env w n k))" for n k
    using ok_poll holds_poll by (intro quiet_world_call) (simp add: keeps_queue_def assms(1))
  then show ?thesis unfolding poll_inbox_once_def by (intro quiet_intros bot_deliveries_quiet assms)
qed

lemma bot_loop_moves:
  assumes "bv_poll env = poll" "bv_ack env = ack" "leaves_queue ok holds env"
  shows "bot_moves ok holds st (poll_inbox_loop env n st)"
proof (induction n arbitrary: st)
  case (Suc n)
  from bot_moves_trans [OF quietD [OF bot_poll_quiet [OF assms]] Suc.IH] show ?case by simp
qed simp

end

section \<open>The server, and Discord beside it\<close>

definition on_site :: "(site \<Rightarrow> site \<times> 'a) \<Rightarrow> site \<times> 'd \<Rightarrow> (site \<times> 'd) \<times> 'a" where
  "on_site f w = (case f (fst w) of (s, r) \<Rightarrow> ((s, snd w), r))"

definition on_discord :: "('d \<Rightarrow> 'd \<times> 'a) \<Rightarrow> site \<times> 'd \<Rightarrow> (site \<times> 'd) \<times> 'a" where
  "on_discord f w = (case f (snd w) of (d, r) \<Rightarrow> ((fst w, d), r))"

definition site_ok :: "site \<times> 'd \<Rightarrow> bool" where
  "site_ok w \<longleftrightarrow> db_ok (st_db (fst w))"

definition site_queues :: "site \<times> 'd \<Rightarrow> string \<Rightarrow> bool" where
  "site_queues w = queued_at_server (fst w)"

lemma fst_on_site [simp]: "fst (fst (on_site f w)) = fst (f (fst w))"
  by (simp add: on_site_def split: prod.split)

lemma fst_on_discord [simp]: "fst (fst (on_discord f w)) = fst w"
  by (simp add: on_discord_def split: prod.split)

interpretation bot_inbox: inbox_server "\<lambda>w n k. on_site (\<lambda>s. site_poll cfg snapshot net s n k) w"
    "\<lambda>w i a. on_site (\<lambda>s. site_ack net s i a) w" site_ok site_queues
  for cfg snapshot net
  by unfold_locales (auto simp: site_ok_def site_queues_def intro: inbox.ok_poll inbox.holds_poll inbox.ok_ack inbox.holds_ack)

text \<open>
  C30: The Discord bot loses a delivery only with its disk: over any number of turns of its inbox loop, with
  any failures of the network, the server, Discord and the state file, a delivery that was queued at the server
  is still queued there, or a state file that was written holds it as seen, or the log names it as acknowledged
  for an unknown endpoint, or the write of a state that holds it as seen has failed; and when every write
  succeeds, no state is left unwritten. The calls of Discord and the packets that the bot sends are arbitrary,
  as long as they leave the queue as it is.
\<close>

theorem bot_keeps_deliveries:
  assumes "bv_poll env = (\<lambda>w n k. on_site (\<lambda>s. site_poll cfg snapshot net s n k) w)"
    and "bv_ack env = (\<lambda>w i a. on_site (\<lambda>s. site_ack net s i a) w)" "leaves_queue site_ok site_queues env"
    and "site_ok (bo_world st)" "seen_saved st" "site_queues (bo_world st) i" "st' = poll_inbox_loop env n st"
  shows "(site_queues (bo_world st') i \<or> (\<exists>f\<in>set (bo_files st'). i \<in> seen_in f) \<or> i \<in> set (bo_unclaimed st')
      \<or> (\<exists>f\<in>set (bo_unwritten st'). i \<in> seen_in f))
    \<and> (bo_disk st = [] \<longrightarrow> bo_unwritten st' = bo_unwritten st)"
  using bot_inbox.bot_loop_moves [OF assms(1-3), of st n] assms(4-7) by (auto simp: bot_moves_def bot_accounted_def)

text \<open>A bot that talks to the server of \<open>Reception\<close>, and a Discord that logs the direct messages.\<close>

definition demo_bot_env :: "(site \<times> (string \<times> string) list) bot_env" where
  "demo_bot_env = \<lparr>bv_config = [], bv_codec = \<lparr>ic_show = (\<lambda>_. ''t''), ic_read = (\<lambda>_. None)\<rparr>, bv_lib = demo_lib,
     bv_check = ''v'', bv_bell = ''!'', bv_dash = ''-'', bv_ready = True, bv_http = (\<lambda>_. False), bv_now = (\<lambda>_. 20),
     bv_uuid4 = (\<lambda>w. (w, ''u'')), bv_find_user = (\<lambda>w _. (w, Inr ())),
     bv_dm = (\<lambda>w u t. on_discord (\<lambda>log. ((u, t) # log, Inr (str_of_nat (length log)))) w),
     bv_fetch_message = (\<lambda>w _ _. (w, Inr ())), bv_add_reaction = (\<lambda>w _ _. (w, Inr ())),
     bv_remove_reaction = (\<lambda>w _ _. (w, Inr ())), bv_send = (\<lambda>w _. (w, Inl (ARQSConnectionError ''down''))),
     bv_send_reaction = (\<lambda>w _ _. (w, Inl (ARQSConnectionError ''down''))),
     bv_poll = (\<lambda>w n k. on_site (\<lambda>s. site_poll default_config None inbox_net s n k) w),
     bv_ack = (\<lambda>w i a. on_site (\<lambda>s. site_ack inbox_net s i a) w), bv_list_links = (\<lambda>w. (w, Inr [])),
     bv_respond = (\<lambda>w _. (w, Inr ())), bv_defer = (\<lambda>w. (w, Inr ())),
     bv_create_endpoint = (\<lambda>w _ _ _. (w, Inr ''e9'')), bv_delete_endpoint = (\<lambda>w _. (w, Inr ())),
     bv_request_code = (\<lambda>w _ _. (w, Inl (ARQSConnectionError ''down''))),
     bv_redeem_code = (\<lambda>w _ _. (w, Inl (ARQSConnectionError ''down''))), bv_revoke_link = (\<lambda>w _. (w, Inr ())),
     bv_flush = (\<lambda>w. (w, Inr [])), bv_base_url = (\<lambda>_. Inr ''u''), bv_has_identity = True, bv_clock = (\<lambda>_. ''noon'')\<rparr>"

definition demo_bot :: "(site \<times> (string \<times> string) list) bot" where
  "demo_bot = \<lparr>bo_world = (as_world inbox_session, []), bo_state = empty_bridge, bo_files = [], bo_unwritten = [],
     bo_disk = [], bo_unclaimed = []\<rparr>"

lemma demo_leaves_queue: "leaves_queue site_ok site_queues demo_bot_env"
  by (simp add: leaves_queue_def keeps_queue_def demo_bot_env_def site_ok_def site_queues_def)

theorem bot_keeps_deliveries_witness:
  "let st = poll_inbox_loop demo_bot_env 3 demo_bot in
   site_queues (bo_world st) ''x1'' \<or> (\<exists>f\<in>set (bo_files st). ''x1'' \<in> seen_in f) \<or> ''x1'' \<in> set (bo_unclaimed st)"
proof -
  let ?st = "poll_inbox_loop demo_bot_env 3 demo_bot"
  have "(site_queues (bo_world ?st) ''x1'' \<or> (\<exists>f\<in>set (bo_files ?st). ''x1'' \<in> seen_in f) \<or> ''x1'' \<in> set (bo_unclaimed ?st)
      \<or> (\<exists>f\<in>set (bo_unwritten ?st). ''x1'' \<in> seen_in f))
    \<and> (bo_disk demo_bot = [] \<longrightarrow> bo_unwritten ?st = bo_unwritten demo_bot)"
  proof (rule bot_keeps_deliveries)
    show "bv_poll demo_bot_env = (\<lambda>w n k. on_site (\<lambda>s. site_poll default_config None inbox_net s n k) w)"
      "bv_ack demo_bot_env = (\<lambda>w i a. on_site (\<lambda>s. site_ack inbox_net s i a) w)"
      by (simp_all add: demo_bot_env_def)
    show "leaves_queue site_ok site_queues demo_bot_env" by (rule demo_leaves_queue)
    show "site_ok (bo_world demo_bot)" by (simp add: site_ok_def demo_bot_def inbox_session_def)
    show "seen_saved demo_bot" by (simp add: seen_saved_def demo_bot_def empty_bridge_def)
    show "site_queues (bo_world demo_bot) ''x1''" using demo_sent_queued by (simp add: site_queues_def demo_bot_def)
  qed (rule refl)
  moreover have "bo_disk demo_bot = []" "bo_unwritten demo_bot = []" by (simp_all add: demo_bot_def)
  ultimately show ?thesis by (auto simp: Let_def)
qed

section \<open>What stops the bot\<close>

text \<open>
  The receipt mode of the configuration is not checked before it is needed: a mode that is not one of the
  four makes every message of a user without own settings fail after it has been shown on Discord and before
  it is marked as seen or acknowledged, so each turn of the inbox loop shows it again.
\<close>

theorem bad_receipt_mode_repeats:
  assumes "render_inbound_packet env b d = Inr text" "send_user_dm env (bn_discord_user_id b) text st = (st1, Inr ms)"
    and "map_of (br_receipt_settings (bo_state st1)) (bn_discord_user_id b) = None"
    and "strip (default_receipt_mode (bv_config env)) \<notin> set receipt_modes" "default_receipt_mode (bv_config env) \<noteq> []"
    and "forward_delivery env b d st = (st', r)"
  shows "(\<exists>e. r = Inl (ValueError e)) \<and> bo_world st' = bo_world st1 \<and> bo_files st' = bo_files st1 \<and>
    br_seen (bo_state st') = br_seen (bo_state st1) \<and> br_seen_ids (bo_state st') = br_seen_ids (bo_state st1)"
proof -
  have "after_forwarding env b d ms st1 =
      (st1\<lparr>bo_state := remember_reply_messages (bn_discord_user_id b) (bn_binding_id b) (cp_packet_id (cd_packet d)) ms (bo_state st1)\<rparr>,
       Inl (ValueError (''unsupported receipt mode: '' @ strip (default_receipt_mode (bv_config env)))))"
    using assms(3-5)
    by (simp add: after_forwarding_def then_do_def change_state_def lift_result_def get_receipt_mode_def new_settings_def
        remember_reply_messages_def normalize_mode_def Let_def)
  then have "forward_delivery env b d st =
      (st1\<lparr>bo_state := remember_reply_messages (bn_discord_user_id b) (bn_binding_id b) (cp_packet_id (cd_packet d)) ms (bo_state st1)\<rparr>,
       Inl (ValueError (''unsupported receipt mode: '' @ strip (default_receipt_mode (bv_config env)))))"
    using assms(1,2) by (simp add: forward_delivery_def then_do_def lift_result_def)
  with assms(6) show ?thesis by (auto simp: remember_reply_messages_def)
qed

definition shown_delivery :: client_delivery where
  "shown_delivery = \<lparr>cd_delivery_id = ''x1'', cd_destination_endpoint_id = ''e1'', cd_queued_at = 0, cd_state = ''queued'',
     cd_last_attempt_at = None,
     cd_packet = \<lparr>cp_packet_id = ''p1'', cp_version = 1, cp_from_endpoint_id = ''e2'', cp_to_endpoint_id = ''e1'',
       cp_headers = [], cp_body = JStr ''hi'', cp_data = [], cp_meta = [], cp_created_at = 0, cp_expires_at = None\<rparr>\<rparr>"

definition mistaken_env :: "(site \<times> (string \<times> string) list) bot_env" where
  "mistaken_env = demo_bot_env\<lparr>bv_config := [(''receipt_default_mode'', JStr ''on'')]\<rparr>"

definition shown_text :: string where
  "shown_text = ''[Ada] packet'' @ line_break @ ''hi''"

lemma demo_rendered: "render_inbound_packet mistaken_env demo_binding shown_delivery = Inr shown_text"
proof -
  have "render_packet_text demo_lib (Some ''hi'') [] [] = Inr ''hi''" by code_simp
  then show ?thesis
    by (simp add: render_inbound_packet_def mistaken_env_def demo_bot_env_def shown_delivery_def demo_binding_def
        packet_type_for_delivery_def dict_get_def str_or_empty_def body_text_def shown_text_def)
qed

lemma demo_shown:
  "send_user_dm mistaken_env ''u1'' shown_text demo_bot =
    (demo_bot\<lparr>bo_world := (as_world inbox_session, [(''u1'', shown_text)])\<rparr>, Inr [''0''])"
proof -
  have "split_discord_message max_discord_message_length shown_text = Some [shown_text]"
  proof -
    have "strip shown_text = shown_text" "shown_text \<noteq> []" by code_simp+
    moreover have "length shown_text \<le> max_discord_message_length"
      by (simp add: shown_text_def line_break_def max_discord_message_length_def)
    ultimately show ?thesis by (simp add: split_discord_message_def split_loop.simps)
  qed
  moreover have "str_of_nat 0 = ''0''" by code_simp
  ultimately show ?thesis
    by (simp add: send_user_dm_def then_do_def world_call_def mistaken_env_def demo_bot_env_def demo_bot_def
        on_discord_def pass_def)
qed

theorem bad_receipt_mode_repeats_witness:
  "let st = fst (forward_delivery mistaken_env demo_binding shown_delivery demo_bot) in
   snd (bo_world st) = [(''u1'', shown_text)] \<and> br_seen (bo_state st) = [] \<and> bo_files st = []"
proof -
  obtain st' r where f: "forward_delivery mistaken_env demo_binding shown_delivery demo_bot = (st', r)" by fastforce
  have m: "default_receipt_mode (bv_config mistaken_env) = ''on''"
    by (simp add: default_receipt_mode_def mistaken_env_def dict_get_def str_or_def str_value_JStr)
  have u: "bn_discord_user_id demo_binding = ''u1''" by (simp add: demo_binding_def)
  have "strip ''on'' \<notin> set receipt_modes" by code_simp
  with bad_receipt_mode_repeats [OF demo_rendered demo_shown [folded u] _ _ _ f] m
  have "snd (bo_world st') = [(''u1'', shown_text)] \<and> br_seen (bo_state st') = [] \<and> bo_files st' = []"
    by (simp add: demo_bot_def empty_bridge_def u)
  then show ?thesis by (simp add: f)
qed

text \<open>
  A write of the state file that fails after a delivery was marked as seen loses it on the next restart: the next
  turn finds it in memory and acknowledges it, although no file holds it.
\<close>

lemma unsaved_delivery_acked:
  assumes "bo_disk st = Some e # es" "finish_delivery env b i st = (st', r)"
    and "br_seen_ids (bo_state st) = set (br_seen (bo_state st))"
  shows "r = Inl e \<and> bo_world st' = bo_world st \<and> bo_files st' = bo_files st"
    and "cd_delivery_id d = i \<Longrightarrow> bot_handle_delivery env d st' = bot_ack env i st'"
proof -
  define f where "f = (\<lambda>s. upsert_binding (b\<lparr>bn_updated_at := now_text env st\<rparr>)
    (set_active_binding (bn_discord_user_id b) (Some (bn_binding_id b)) s))"
  let ?s = "mark_seen_delivery i (f (bo_state st))"
  have st': "r = Inl e" "bo_world st' = bo_world st" "bo_files st' = bo_files st" "bo_state st' = ?s"
    using assms(1,2) by (auto simp: finish_delivery_def then_do_def change_state_def save_state_def Let_def f_def)
  then show "r = Inl e \<and> bo_world st' = bo_world st \<and> bo_files st' = bo_files st" by simp
  have f: "br_seen (f s) = br_seen s" "br_seen_ids (f s) = br_seen_ids s" for s
    by (simp_all add: f_def upsert_binding_def set_active_binding_def)
  then have old: "br_seen_ids (f (bo_state st)) = set (br_seen (f (bo_state st)))" using assms(3) by simp
  have "i \<in> br_seen_ids ?s"
  proof (cases "i \<in> set (br_seen (f (bo_state st)))")
    case True
    then show ?thesis by (simp add: mark_seen_delivery_def old)
  next
    case False
    then show ?thesis using mark_seen_fields [OF old, of i] last_part_subset by fastforce
  qed
  then show "bot_handle_delivery env d st' = bot_ack env i st'" if "cd_delivery_id d = i"
    using that by (simp add: bot_handle_delivery_def has_seen_delivery_def st'(4) Let_def)
qed

text \<open>
  The first delivery whose user cannot be written to ends the turn: the later ones are not even looked at, and
  the next turn begins with the same delivery.
\<close>

lemma failed_delivery_blocks:
  assumes "bot_handle_delivery env d st = (st', Inl e)"
  shows "bot_handle_deliveries env (d # ds) st = (st', Inl e)"
  using assms by (simp add: then_do_def)

text \<open>
  A state file that is not JSON counts as empty: the bot then knows no contact, and acknowledges every delivery
  as one for an unknown endpoint.
\<close>

lemma broken_file_is_empty: "loads text = None \<Longrightarrow> load_bridge (Some text) = Inr empty_bridge"
  by (simp add: load_bridge_def load_raw_def load_bridge_dict_def raw_field_def iterate_def dict_of_def str_values_def
      empty_bridge_def)

lemma empty_state_drops:
  assumes "bo_state st = empty_bridge"
  shows "bot_handle_delivery env d st =
    bot_ack env (cd_delivery_id d) (st\<lparr>bo_unclaimed := cd_delivery_id d # bo_unclaimed st\<rparr>)"
  using assms by (simp add: bot_handle_delivery_def empty_bridge_def has_seen_delivery_def get_binding_by_local_endpoint_def
    materialize_pending_binding_def pending_for_local_endpoint_def pass_def then_do_def ack_unclaimed_def Let_def)

end
