(* ===== verification/BotLinks.thy ===== *)
theory BotLinks
  imports BotCommands BotProps
begin

text \<open>
  The reconciliation of the Discord adapter with the server: once the links have been listed it always comes
  to its end, and afterwards every active contact is backed by an active link, with the direction and the remote
  endpoint of that link. The contacts without one are severed and forgotten.
\<close>

section \<open>Actions that cannot fail\<close>

text \<open>As long as the state file can be written, the action ends without an exception, and its value and the state it
  leaves satisfy \<open>Q\<close>.\<close>

definition ends_with :: "('w, 'a) bot_action \<Rightarrow> 'w bot \<Rightarrow> ('a \<Rightarrow> bridge \<Rightarrow> bool) \<Rightarrow> bool" where
  "ends_with a st Q \<longleftrightarrow> (bo_disk st = [] \<longrightarrow> (\<exists>st' x. a st = (st', Inr x) \<and> bo_disk st' = [] \<and> Q x (bo_state st')))"

named_theorems ends_intros \<open>endings of actions\<close>

lemma ends_with_then_do [ends_intros]:
  assumes "ends_with a st Q" "\<And>st' x. Q x (bo_state st') \<Longrightarrow> ends_with (k x) st' R"
  shows "ends_with (then_do a k) st R"
proof (cases "bo_disk st = []")
  case True
  then obtain st' x where a: "a st = (st', Inr x)" "bo_disk st' = []" "Q x (bo_state st')"
    using assms(1) by (auto simp: ends_with_def)
  with assms(2) show ?thesis by (simp add: ends_with_def then_do_def)
qed (simp add: ends_with_def)

lemma ends_with_weaken: "ends_with a st Q \<Longrightarrow> (\<And>x s. Q x s \<Longrightarrow> R x s) \<Longrightarrow> ends_with a st R"
  by (auto simp: ends_with_def)

lemma ends_with_basic [ends_intros]:
  "Q x (bo_state st) \<Longrightarrow> ends_with (pass x) st Q"
  "Q () (f (bo_state st)) \<Longrightarrow> ends_with (change_state f) st Q"
  "Q () (bo_state st) \<Longrightarrow> ends_with save_state st Q"
  by (simp_all add: ends_with_def pass_def change_state_def save_state_def Let_def)

lemma then_do_pass: "then_do (pass x) k st = k x st"
  by (simp add: then_do_def pass_def)

lemma ends_with_next [simp]:
  "ends_with (then_do (change_state f) k) st R \<longleftrightarrow> ends_with (k ()) (st\<lparr>bo_state := f (bo_state st)\<rparr>) R"
  "ends_with (then_do save_state k) st R \<longleftrightarrow>
     ends_with (k ()) (st\<lparr>bo_files := save_bridge (bo_state st) # bo_files st\<rparr>) R"
  "ends_with (then_do (pass x) k') st R' \<longleftrightarrow> ends_with (k' x) st R'"
  "ends_with (pass y) st R'' \<longleftrightarrow> (bo_disk st = [] \<longrightarrow> R'' y (bo_state st))"
  by (cases st; auto simp: ends_with_def then_do_def change_state_def save_state_def pass_def Let_def)+

text \<open>Requests of the world and messages leave the state and the disk as they are, whether they fail or not.\<close>

definition keeps_state :: "('w, 'a) bot_action \<Rightarrow> bool" where
  "keeps_state a \<longleftrightarrow> (\<forall>st. bo_state (fst (a st)) = bo_state st \<and> bo_disk (fst (a st)) = bo_disk st)"

lemma keeps_world_call: "keeps_state (world_call f)"
  by (simp add: keeps_state_def world_call_def split: prod.split)

lemma keeps_pass: "keeps_state (pass x)"
  by (simp add: keeps_state_def pass_def)

lemma keeps_then_do: "keeps_state a \<Longrightarrow> (\<And>x. keeps_state (k x)) \<Longrightarrow> keeps_state (then_do a k)"
  by (auto simp: keeps_state_def then_do_def split: prod.splits sum.splits) (metis fst_conv)+

lemma keeps_send_chunks: "keeps_state (send_chunks env user cs)"
  by (induction cs) (simp_all add: keeps_pass keeps_then_do keeps_world_call)

lemma keeps_send_user_dm: "keeps_state (send_user_dm env user text)"
  unfolding send_user_dm_def
  by (rule keeps_then_do) (auto simp: keeps_world_call keeps_pass keeps_send_chunks split: option.split)

lemma ends_with_or_else: "keeps_state a \<Longrightarrow> (\<And>x. Q x (bo_state st)) \<Longrightarrow> ends_with (or_else a h) st Q"
  by (auto simp: keeps_state_def ends_with_def or_else_def split: prod.split sum.split) (metis fst_conv)+

lemma ends_with_announce: "Q () (bo_state st) \<Longrightarrow> ends_with (announce_binding env b) st Q"
proof -
  have "keeps_state (\<lambda>st. if c st then then_do (send_user_dm env u t) (\<lambda>_. pass ()) st else pass () st)" for c u t
    using keeps_then_do [OF keeps_send_user_dm keeps_pass, of env u t "\<lambda>_. ()"]
    by (auto simp: keeps_state_def pass_def)
  then have "keeps_state (then_do (send_user_dm env v s) (\<lambda>_ st. if c st then then_do (send_user_dm env u t) (\<lambda>_. pass ()) st else pass () st))"
    for v s c u t by (intro keeps_then_do keeps_send_user_dm)
  then show "Q () (bo_state st) \<Longrightarrow> ends_with (announce_binding env b) st Q"
    unfolding announce_binding_def by (intro ends_with_or_else) auto
qed

lemma ends_with_then_announce:
  "(\<And>st'. bo_state st' = bo_state st \<Longrightarrow> ends_with (k ()) st' R) \<Longrightarrow> ends_with (then_do (announce_binding env b) k) st R"
  by (rule ends_with_then_do [where Q = "\<lambda>_ s. s = bo_state st"]) (simp_all add: ends_with_announce)

lemma ends_with_then_draw:
  "(\<And>i st'. bo_state st' = bo_state st \<Longrightarrow> ends_with (k i) st' R) \<Longrightarrow> ends_with (then_do (draw_uuid env) k) st R"
  by (rule ends_with_then_do [where Q = "\<lambda>_ s. s = bo_state st"])
    (simp_all add: ends_with_def draw_uuid_def world_call_def split: prod.split)

section \<open>Contacts that follow their links\<close>

definition follows :: "client_link list \<Rightarrow> binding \<Rightarrow> bool" where
  "follows ls b \<longleftrightarrow> (bn_status b = ''active'' \<longrightarrow>
     (\<exists>l\<in>set ls. cl_link_id l = bn_link_id b \<and> link_active l \<and> refreshed l b = b))"

definition binding_ids :: "bridge \<Rightarrow> string list" where
  "binding_ids s = map bn_binding_id (br_bindings s)"

lemma refreshed_same:
  "refreshed l b = b \<longleftrightarrow> bn_remote_endpoint_id b = resolve_remote_endpoint l (bn_local_endpoint_id b)
     \<and> bn_link_mode b = cl_mode l \<and> (bn_can_send b, bn_can_receive b) = calculate_direction l (bn_local_endpoint_id b)
     \<and> bn_status b = link_status l"
  by (cases b) (auto simp: refreshed_def Let_def prod_eq_iff)

lemma follows_updated [simp]: "follows ls (b\<lparr>bn_updated_at := t\<rparr>) \<longleftrightarrow> follows ls b"
  by (simp add: follows_def refreshed_same)

lemma follows_refreshed:
  assumes "l \<in> set ls" "link_active l" "cl_link_id l = bn_link_id b"
  shows "follows ls (refreshed l b)"
  using assms by (auto simp: follows_def refreshed_def Let_def)

lemma follows_severed [simp]: "follows ls (b\<lparr>bn_status := ''severed''\<rparr>)"
  by (simp add: follows_def)

lemma replace_binding_ids:
  "map bn_binding_id (replace_binding b bs) =
     map bn_binding_id bs @ (if bn_binding_id b \<in> bn_binding_id ` set bs then [] else [bn_binding_id b])"
  by (induction bs) auto

lemma set_replace_binding: "set (replace_binding b bs) \<subseteq> insert b (set bs)"
  by (induction bs) auto

lemma replace_binding_map:
  assumes "distinct (map bn_binding_id bs)" "bn_binding_id b \<in> bn_binding_id ` set bs"
  shows "replace_binding b bs = map (\<lambda>c. if bn_binding_id c = bn_binding_id b then b else c) bs"
  using assms
proof (induction bs)
  case (Cons c cs)
  show ?case
  proof (cases "bn_binding_id c = bn_binding_id b")
    case True
    then have "map (\<lambda>d. if bn_binding_id d = bn_binding_id b then b else d) cs = cs"
      using Cons.prems(1) by (intro map_idI) (metis distinct.simps(2) image_eqI list.set_map list.simps(9))
    with True show ?thesis by simp
  qed (use Cons in auto)
qed simp

lemma distinct_replace_binding:
  "distinct (map bn_binding_id bs) \<Longrightarrow> distinct (map bn_binding_id (replace_binding b bs))"
  unfolding replace_binding_ids by auto

text \<open>No pending link takes the identifiers of the contacts apart.\<close>

lemma activate_if_none_bindings [simp]: "br_bindings (activate_if_none u i s) = br_bindings s"
  by (simp add: activate_if_none_def set_active_binding_def)

lemma materialize_ends:
  fixes env :: "'w bot_env" and st :: "'w bot"
  assumes "distinct (binding_ids (bo_state st))"
  shows "ends_with (materialize_pending_binding env local (Some ls)) st (\<lambda>_ s. distinct (binding_ids s))"
proof (cases "pending_for_local_endpoint local (bo_state st)")
  case None
  then show ?thesis using assms by (simp add: ends_with_def materialize_pending_binding_def pass_def)
next
  case (Some p)
  let ?found = "find (\<lambda>l. cl_endpoint_a_id l = pl_local_endpoint_id p \<or> cl_endpoint_b_id l = pl_local_endpoint_id p) ls"
  show ?thesis
  proof (cases ?found)
    case None
    then show ?thesis using Some assms
      by (simp add: ends_with_def materialize_pending_binding_def then_do_def pass_def)
  next
    case found: (Some link)
    have added: "distinct (binding_ids (activate_if_none u k (remove_pending_link j (upsert_binding b (bo_state st)))))" for u k j b
      using assms by (simp add: binding_ids_def remove_pending_link_def upsert_binding_def distinct_replace_binding)
    let ?A = "\<lambda>b. then_do (change_state (\<lambda>s. activate_if_none (bn_discord_user_id b) (bn_binding_id b)
        (remove_pending_link (pl_pending_id p) (upsert_binding b s)))) (\<lambda>_.
      then_do save_state (\<lambda>_. then_do (announce_binding env b) (\<lambda>_. pass (Some b))))"
    let ?M = "\<lambda>i st. materialized_binding (now_text env st) i p link (bo_state st)"
    have A: "ends_with (?A b) st' (\<lambda>_ s. distinct (binding_ids s))" if "bo_state st' = bo_state st" for b st'
      by (simp add: that added ends_with_then_announce)
    have "ends_with (then_do (draw_uuid env) (\<lambda>i st. let b = ?M i st in ?A b st)) st (\<lambda>_ s. distinct (binding_ids s))"
    proof (rule ends_with_then_draw)
      fix i and st' :: "'w bot"
      assume "bo_state st' = bo_state st"
      from A [OF this, of "?M i st'"] show "ends_with (\<lambda>st. let b = ?M i st in ?A b st) st' (\<lambda>_ s. distinct (binding_ids s))"
        by (simp only: ends_with_def Let_def)
    qed
    moreover have "materialize_pending_binding env local (Some ls) st =
        then_do (draw_uuid env) (\<lambda>i st. let b = ?M i st in ?A b st) st"
      by (simp add: materialize_pending_binding_def Some found then_do_pass)
    ultimately show ?thesis by (simp only: ends_with_def)
  qed
qed

lemma materialize_all_ends:
  "distinct (binding_ids (bo_state st)) \<Longrightarrow>
   ends_with (materialize_all env ls ps) st (\<lambda>_ s. distinct (binding_ids s))"
proof (induction ps arbitrary: st)
  case (Cons p ps)
  show ?case unfolding materialize_all.simps
    by (rule ends_with_then_do [OF materialize_ends [OF Cons.prems]],
        rule ends_with_then_do [OF Cons.IH]) simp_all
qed simp

section \<open>Bringing the contacts up to date\<close>

lemma ends_with_at: "ends_with (\<lambda>st. f st st) st R \<longleftrightarrow> ends_with (f st) st R"
  by (simp add: ends_with_def)

lemma drop_expired_ends: "Q () (bo_state st) \<Longrightarrow> ends_with (drop_expired env ps) st Q"
proof (induction ps arbitrary: st)
  case (Cons p ps)
  have "ends_with (\<lambda>st. or_else (if bindings_using_local_endpoint (pl_local_endpoint_id p) (bo_state st) = []
      then world_call (\<lambda>w. bv_delete_endpoint env w (pl_local_endpoint_id p)) else pass ()) (\<lambda>_. ()) st) st Q"
    unfolding ends_with_at [where f = "\<lambda>st. or_else (if bindings_using_local_endpoint (pl_local_endpoint_id p) (bo_state st) = []
      then world_call (\<lambda>w. bv_delete_endpoint env w (pl_local_endpoint_id p)) else pass ()) (\<lambda>_. ())"]
    by (rule ends_with_or_else) (simp_all add: Cons.prems keeps_world_call keeps_pass)
  then show ?case unfolding drop_expired.simps by (rule ends_with_then_do) (use Cons.IH in simp)
qed simp

lemma sever_ends:
  assumes "\<And>t. Q () (remove_binding_indexes (bn_binding_id b)
    (upsert_binding (b\<lparr>bn_status := ''severed'', bn_updated_at := t\<rparr>) (bo_state st)))"
  shows "ends_with (sever_binding env b) st Q"
proof -
  let ?st = "st\<lparr>bo_state := remove_binding_indexes (bn_binding_id b)
    (upsert_binding (b\<lparr>bn_status := ''severed'', bn_updated_at := now_text env st\<rparr>) (bo_state st))\<rparr>"
  have "ends_with (or_else (then_do (send_user_dm env (bn_discord_user_id b) (severed_text b)) (\<lambda>_. pass ())) (\<lambda>_. ())) ?st Q"
    by (rule ends_with_or_else) (simp_all add: assms keeps_then_do keeps_send_user_dm keeps_pass)
  then show ?thesis by (simp add: ends_with_def sever_binding_def then_do_def change_state_def)
qed

text \<open>One contact: its entry in the list is replaced by one that follows its link.\<close>

definition put_binding :: "binding \<Rightarrow> binding \<Rightarrow> binding" where
  "put_binding b c = (if bn_binding_id c = bn_binding_id b then b else c)"

lemma put_binding_id [simp]: "bn_binding_id (put_binding b c) = bn_binding_id c"
  by (simp add: put_binding_def)

lemma put_binding_same:
  assumes "distinct (map bn_binding_id bs)" "b \<in> set bs"
  shows "map (put_binding b) bs = bs"
  using assms by (intro map_idI) (auto simp: put_binding_def distinct_map inj_on_def)

lemma upsert_put:
  assumes "distinct (binding_ids s)" "b \<in> set (br_bindings s)" "bn_binding_id c = bn_binding_id b"
  shows "br_bindings (upsert_binding c s) = map (put_binding c) (br_bindings s)"
  using assms replace_binding_map [of "br_bindings s" c]
  by (auto simp: upsert_binding_def binding_ids_def put_binding_def [abs_def])

lemma reconcile_binding_ends:
  assumes "distinct (binding_ids (bo_state st))" "b \<in> set (br_bindings (bo_state st))" "\<forall>l\<in>set ls. link_active l"
  shows "ends_with (reconcile_binding env ls b) st (\<lambda>_ s. \<exists>c. bn_binding_id c = bn_binding_id b \<and> follows ls c
    \<and> br_bindings s = map (put_binding c) (br_bindings (bo_state st)))"
proof -
  let ?Q = "\<lambda>_ s. \<exists>c. bn_binding_id c = bn_binding_id b \<and> follows ls c
    \<and> br_bindings s = map (put_binding c) (br_bindings (bo_state st))"
  have same: "map (put_binding b) (br_bindings (bo_state st)) = br_bindings (bo_state st)"
    using assms(1,2) by (simp add: put_binding_same binding_ids_def)
  show ?thesis
  proof (cases "bn_status b = ''active''")
    case False
    then have "follows ls b" by (simp add: follows_def)
    then have "?Q False (bo_state st)" using same by (intro exI [of _ b]) simp
    with False show ?thesis by (auto simp: ends_with_def reconcile_binding_def pass_def)
  next
    case active: True
    show ?thesis
    proof (cases "find (\<lambda>l. cl_link_id l = bn_link_id b) (rev ls)")
      case None
      have "ends_with (then_do (sever_binding env b) (\<lambda>_. pass True)) st ?Q"
      proof (rule ends_with_then_do [where Q = ?Q], rule sever_ends)
        fix t
        let ?c = "b\<lparr>bn_status := ''severed'', bn_updated_at := t\<rparr>"
        show "?Q () (remove_binding_indexes (bn_binding_id b) (upsert_binding ?c (bo_state st)))"
          by (rule exI [of _ ?c])
            (simp add: remove_binding_indexes_def upsert_put [OF assms(1,2)])
      qed simp
      with active None show ?thesis by (simp add: ends_with_def reconcile_binding_def)
    next
      case (Some l)
      then have l: "l \<in> set ls" "cl_link_id l = bn_link_id b" by (auto dest!: find_SomeD)
      have f: "follows ls (refreshed l b)" by (rule follows_refreshed) (use l assms(3) in auto)
      show ?thesis
      proof (cases "refreshed l b = b")
        case True
        then have "?Q False (bo_state st)" using f same by (intro exI [of _ b]) simp
        with True active Some show ?thesis by (auto simp: ends_with_def reconcile_binding_def pass_def)
      next
        case False
        let ?c = "(refreshed l b)\<lparr>bn_updated_at := now_text env st\<rparr>"
        have i: "bn_binding_id ?c = bn_binding_id b" by (simp add: refreshed_def Let_def)
        have "?Q True (upsert_binding ?c (bo_state st))"
          by (rule exI [of _ ?c]) (use i f upsert_put [OF assms(1,2) i] in simp)
        with False active Some show ?thesis
          by (auto simp: ends_with_def reconcile_binding_def then_do_def change_state_def pass_def)
      qed
    qed
  qed
qed

lemma reconcile_all_ends:
  assumes "distinct (binding_ids (bo_state st))" "set bs \<subseteq> set (br_bindings (bo_state st))"
    and "distinct (map bn_binding_id bs)" "\<forall>l\<in>set ls. link_active l"
  shows "ends_with (reconcile_all env ls bs) st (\<lambda>_ s. \<exists>f. br_bindings s = map f (br_bindings (bo_state st))
    \<and> (\<forall>c. bn_binding_id (f c) = bn_binding_id c)
    \<and> (\<forall>c. if bn_binding_id c \<in> bn_binding_id ` set bs then follows ls (f c) else f c = c))"
  using assms(1-3)
proof (induction bs arbitrary: st)
  case Nil
  show ?case by (simp add: exI [of _ "\<lambda>c. c"])
next
  case (Cons b bs)
  let ?s = "br_bindings (bo_state st)"
  have "ends_with (reconcile_binding env ls b) st (\<lambda>_ s. \<exists>c. bn_binding_id c = bn_binding_id b \<and> follows ls c
      \<and> br_bindings s = map (put_binding c) ?s)"
    by (rule reconcile_binding_ends) (use Cons.prems assms(4) in auto)
  then show ?case unfolding reconcile_all.simps
  proof (rule ends_with_then_do)
    fix st' :: "'a bot" and changed
    assume "\<exists>c. bn_binding_id c = bn_binding_id b \<and> follows ls c \<and> br_bindings (bo_state st') = map (put_binding c) ?s"
    then obtain c where c: "bn_binding_id c = bn_binding_id b" "follows ls c" "br_bindings (bo_state st') = map (put_binding c) ?s"
      by blast
    have "distinct (binding_ids (bo_state st'))" using Cons.prems(1) by (simp add: binding_ids_def c(3) comp_def)
    moreover have "set bs \<subseteq> set (br_bindings (bo_state st'))"
    proof
      fix x assume x: "x \<in> set bs"
      then have "bn_binding_id x \<in> bn_binding_id ` set bs" by (rule imageI)
      then have "bn_binding_id x \<noteq> bn_binding_id b" using Cons.prems(3) by (metis distinct.simps(2) list.set_map list.simps(9))
      then have "put_binding c x = x" using c(1) by (simp add: put_binding_def)
      with x Cons.prems(2) show "x \<in> set (br_bindings (bo_state st'))" unfolding c(3) by (force simp: image_iff)
    qed
    ultimately have "ends_with (reconcile_all env ls bs) st' (\<lambda>_ s. \<exists>f. br_bindings s = map f (br_bindings (bo_state st'))
        \<and> (\<forall>c. bn_binding_id (f c) = bn_binding_id c)
        \<and> (\<forall>c. if bn_binding_id c \<in> bn_binding_id ` set bs then follows ls (f c) else f c = c))"
      using Cons.prems(3) by (intro Cons.IH) simp_all
    then show "ends_with (then_do (reconcile_all env ls bs) (\<lambda>more. pass (changed \<or> more))) st'
        (\<lambda>_ s. \<exists>f. br_bindings s = map f ?s \<and> (\<forall>c. bn_binding_id (f c) = bn_binding_id c)
          \<and> (\<forall>c. if bn_binding_id c \<in> bn_binding_id ` set (b # bs) then follows ls (f c) else f c = c))"
    proof (rule ends_with_then_do, goal_cases)
      case (1 st'' more)
      then obtain f where f: "br_bindings (bo_state st'') = map f (map (put_binding c) ?s)"
        "\<And>d. bn_binding_id (f d) = bn_binding_id d"
        "\<And>d. if bn_binding_id d \<in> bn_binding_id ` set bs then follows ls (f d) else f d = d"
        unfolding c(3) by blast
      have b: "bn_binding_id b \<notin> bn_binding_id ` set bs" using Cons.prems(3) by simp
      have "if bn_binding_id d \<in> bn_binding_id ` set (b # bs) then follows ls (f (put_binding c d)) else f (put_binding c d) = d" for d
        using f(3) [of "put_binding c d"] b c(1,2) by (auto simp: put_binding_def split: if_splits)
      then have "\<forall>d. if bn_binding_id d \<in> bn_binding_id ` set (b # bs) then follows ls ((f \<circ> put_binding c) d)
          else (f \<circ> put_binding c) d = d" unfolding comp_def by blast
      moreover have "br_bindings (bo_state st'') = map (f \<circ> put_binding c) ?s"
        "\<forall>d. bn_binding_id ((f \<circ> put_binding c) d) = bn_binding_id d" using f(1,2) by simp_all
      ultimately show ?case unfolding ends_with_next by blast
    qed
  qed
qed

lemma validate_active_bindings: "br_bindings (validate_active users s) = br_bindings s"
proof -
  have "br_bindings (fold (\<lambda>u s. fst (ensure_valid_active_binding u s)) users s) = br_bindings s"
    by (induction users arbitrary: s) (simp_all add: ensure_valid_active_binding_def split: option.split)
  then show ?thesis by (simp add: validate_active_def)
qed

text \<open>
  C34: A round of reconciliation always comes to its end once the server has listed its links and as long as the
  state file can be written, whatever Discord and the server answer after that, and then every active contact is backed by an active link of the server and
  has its remote endpoint, mode and direction; identifiers of contacts stay distinct.
\<close>

theorem contacts_follow_links:
  assumes "bv_list_links env (bo_world st) = (w, Inr ls)" "distinct (map bn_binding_id (br_bindings (bo_state st)))"
    and "bo_disk st = []"
  shows "\<exists>st'. reconcile_links_once env st = (st', Inr ())
    \<and> distinct (map bn_binding_id (br_bindings (bo_state st')))
    \<and> (\<forall>b\<in>set (br_bindings (bo_state st')). bn_status b = ''active'' \<longrightarrow>
        (\<exists>l\<in>set ls. cl_link_id l = bn_link_id b \<and> link_active l
          \<and> bn_remote_endpoint_id b = resolve_remote_endpoint l (bn_local_endpoint_id b) \<and> bn_link_mode b = cl_mode l
          \<and> (bn_can_send b, bn_can_receive b) = calculate_direction l (bn_local_endpoint_id b)))"
proof -
  let ?active = "filter link_active ls"
  let ?st = "st\<lparr>bo_world := w\<rparr>"
  let ?pruned = "prune_expired_pending_links (bv_codec env) (bv_now env w) (bo_state st)"
  let ?Q = "\<lambda>_ s. distinct (binding_ids s) \<and> (\<forall>b\<in>set (br_bindings s). follows ?active b)"
  have pruned: "br_bindings (fst ?pruned) = br_bindings (bo_state st)" by (simp add: prune_expired_pending_links_def)
  let ?done = "\<lambda>c. if c then then_do (change_state (\<lambda>s. validate_active (map fst (br_active s)) s)) (\<lambda>_. save_state) else pass ()"
  let ?contacts = "\<lambda>new st. then_do (reconcile_all env ?active (br_bindings (bo_state st))) (\<lambda>changed.
    ?done (snd ?pruned \<noteq> [] \<or> new \<or> changed)) st"
  let ?pending = "\<lambda>st. then_do (materialize_all env ?active (br_pending (bo_state st))) ?contacts st"
  have finish: "ends_with (?done c) st' ?Q" if "?Q () (bo_state st')" for c and st' :: "'a bot"
    using that by (auto simp: binding_ids_def validate_active_bindings ends_with_basic)
  have contacts: "ends_with (?contacts new) st' ?Q" if d: "distinct (binding_ids (bo_state st'))" for new and st' :: "'a bot"
  proof -
    let ?bs = "br_bindings (bo_state st')"
    have "ends_with (reconcile_all env ?active ?bs) st' (\<lambda>_ s. \<exists>f. br_bindings s = map f ?bs
        \<and> (\<forall>c. bn_binding_id (f c) = bn_binding_id c)
        \<and> (\<forall>c. if bn_binding_id c \<in> bn_binding_id ` set ?bs then follows ?active (f c) else f c = c))"
      by (rule reconcile_all_ends) (use d in \<open>simp_all add: binding_ids_def\<close>)
    then have "ends_with (reconcile_all env ?active ?bs) st' ?Q"
    proof (rule ends_with_weaken)
      fix x and s :: bridge
      assume "\<exists>f. br_bindings s = map f ?bs \<and> (\<forall>c. bn_binding_id (f c) = bn_binding_id c)
        \<and> (\<forall>c. if bn_binding_id c \<in> bn_binding_id ` set ?bs then follows ?active (f c) else f c = c)"
      then obtain f where f: "br_bindings s = map f ?bs" "\<And>c. bn_binding_id (f c) = bn_binding_id c"
        "\<And>c. c \<in> set ?bs \<Longrightarrow> follows ?active (f c)"
        by (metis imageI)
      then show "?Q x s" using d by (auto simp: binding_ids_def comp_def)
    qed
    then have "ends_with (then_do (reconcile_all env ?active ?bs) (\<lambda>changed. ?done (snd ?pruned \<noteq> [] \<or> new \<or> changed))) st' ?Q"
      by (rule ends_with_then_do) (rule finish)
    then show ?thesis by (simp only: ends_with_def)
  qed
  have pending: "ends_with ?pending st' ?Q" if "distinct (binding_ids (bo_state st'))" for st' :: "'a bot"
  proof -
    have "ends_with (then_do (materialize_all env ?active (br_pending (bo_state st'))) ?contacts) st' ?Q"
      by (rule ends_with_then_do [OF materialize_all_ends [OF that]]) (rule contacts)
    then show ?thesis by (simp only: ends_with_def)
  qed
  have "ends_with (then_do (drop_expired env (snd ?pruned)) (\<lambda>_. ?pending)) (?st\<lparr>bo_state := fst ?pruned\<rparr>) ?Q"
  proof (rule ends_with_then_do [where Q = "\<lambda>_ s. distinct (binding_ids s)"])
    show "ends_with (drop_expired env (snd ?pruned)) (?st\<lparr>bo_state := fst ?pruned\<rparr>) (\<lambda>_ s. distinct (binding_ids s))"
      by (rule drop_expired_ends) (simp add: binding_ids_def pruned assms(2))
  qed (rule pending)
  then have "ends_with (reconcile_links_once env) st ?Q"
    using assms(1) by (simp add: ends_with_def reconcile_links_once_def then_do_def world_call_def change_state_def Let_def)
  with assms(3) show ?thesis by (fastforce simp: ends_with_def binding_ids_def follows_def refreshed_same)
qed

text \<open>The small state has one active contact; the server knows no link any more, so the contact is severed.\<close>

theorem contacts_follow_links_witness:
  "\<exists>st'. reconcile_links_once demo_bot_env \<lparr>bo_world = bo_world demo_bot, bo_state = demo_bridge, bo_files = [],
      bo_unwritten = [], bo_disk = [], bo_unclaimed = []\<rparr>
      = (st', Inr ()) \<and> br_bindings demo_bridge = [demo_binding] \<and> (\<forall>b\<in>set (br_bindings (bo_state st')). bn_status b \<noteq> ''active'')"
proof -
  let ?st = "\<lparr>bo_world = bo_world demo_bot, bo_state = demo_bridge, bo_files = [],
      bo_unwritten = [], bo_disk = [], bo_unclaimed = []\<rparr>"
  have l: "bv_list_links demo_bot_env (bo_world ?st) = (bo_world demo_bot, Inr [])" by (simp add: demo_bot_env_def)
  have d: "distinct (map bn_binding_id (br_bindings (bo_state ?st)))" by (simp add: demo_bridge_def)
  from contacts_follow_links [OF l d] show ?thesis by (auto simp: demo_bridge_def)
qed

end
