(* ===== verification/Desktop.thy ===== *)
theory Desktop
  imports Bridge App "HOL-Library.Product_Lexorder"
begin

text \<open>
  The desktop client \<open>src/clients/arqs_messages_gui.py\<close>: what it keeps about links, messages and link codes, its
  files, and the conversations it shows. A file is the JSON value in it, \<^term>\<open>None\<close> where there is none or where
  the text is not JSON. Widgets are the values of their variables; the session log, the terminal and the layout of
  the window are left out.
\<close>

section \<open>State\<close>

record conversation =
  cv_key :: string
  cv_local_endpoint_id :: string
  cv_remote_endpoint_id :: string
  cv_title :: string
  cv_subtitle :: string
  cv_last_timestamp :: string

text \<open>An incoming packet on its way from the poll to the list of messages.\<close>

record inbox_item =
  ii_delivery_id :: string
  ii_packet_id :: string
  ii_from_endpoint_id :: string
  ii_to_endpoint_id :: string
  ii_body :: string
  ii_data :: dict
  ii_headers :: dict
  ii_meta :: dict
  ii_created_at :: string
  ii_received_at :: string

text \<open>The packet that a job sends, and what is done with the answer.\<close>

record outgoing =
  og_local_endpoint_id :: string
  og_remote_endpoint_id :: string
  og_body :: string
  og_data :: dict
  og_headers :: dict
  og_meta :: dict
  og_source :: string
  og_clear_entry :: bool
  og_before :: string
  og_after :: string

record sent_result =
  se_packet_id :: string
  se_delivery_id :: "string option"
  se_result :: string
  se_sent_at :: string

text \<open>The \<open>done\<close> callbacks with the result that their job hands them.\<close>

datatype completion =
    DoneRegister string string
  | DoneDelete identity_delete_result
  | DoneEndpoint string client_endpoint
  | DoneLinkCode client_link_code
  | DoneRedeem string string string client_link "client_endpoint option"
  | DoneSever string string "string option"
  | DoneSend outgoing sent_result
  | DonePoll "inbox_item list"
  | DoneRefresh "client_endpoint list" "client_link list"

text \<open>The entries of \<open>ui_queue\<close>.\<close>

datatype ui_item =
    UiBusy string
  | UiIdle string
  | UiError py_exc
  | UiSuccess completion
  | UiQuietError py_exc
  | UiPollResult "inbox_item list"
  | UiPollError py_exc
  | UiStatus string

text \<open>The \<open>job\<close> functions with the variables they capture; the first component is the client.\<close>

datatype job =
    JobRegister nat "string option"
  | JobDelete nat
  | JobEndpoint nat string "string option" string
  | JobLinkCode nat string string
  | JobRedeem nat string string string string string
  | JobSever nat string string string
  | JobSend nat outgoing
  | JobPoll nat int
  | JobRefresh nat

text \<open>
  \<open>dt_clients\<close> are the client objects that exist, and \<open>dt_client\<close> is the one in use. \<open>dt_jobs\<close> are the threads of
  \<open>run_bg\<close> (with their label) and of \<open>run_bg_quiet\<close> (without one) that have not ended, with a flag for those that
  have announced themselves. \<open>dt_pollers\<close> counts the poll threads that are alive and \<open>dt_poll_stop\<close> is the
  event that ends them. \<open>dt_pings\<close> are the pings that wait for an answer (\<open>pending_ping_measurements\<close>).
  \<open>dt_boxes\<close> are the message boxes shown, the latest first.
\<close>

record 'w desktop =
  dt_world :: 'w
  dt_config :: dict
  dt_links :: "dict list"
  dt_pending_codes :: "dict list"
  dt_seen :: "string set"
  dt_message_index :: "string set"
  dt_messages :: "dict list"
  dt_clients :: "arqs_client list"
  dt_client :: "nat option"
  dt_endpoints :: "client_endpoint list"
  dt_conversations :: "conversation list"
  dt_selected :: json
  dt_queue :: "ui_item list"
  dt_jobs :: "(string option \<times> bool \<times> job) list"
  dt_pollers :: nat
  dt_poll_stop :: bool
  dt_busy :: nat
  dt_probe_cache :: "(string \<times> probe_result) list"
  dt_pings :: "((string \<times> int \<times> string \<times> string) \<times> dict) list"
  dt_base_url :: string
  dt_node_name :: string
  dt_active_poll :: bool
  dt_poll_wait :: string
  dt_enable_pingback :: bool
  dt_pingback_delay :: string
  dt_message_entry :: string
  dt_status :: string
  dt_clipboard :: string
  dt_header :: string
  dt_history :: string
  dt_boxes :: "string list"
  df_config :: "json option"
  df_links :: "json option"
  df_pending_codes :: "json option"
  df_seen :: "json option"
  df_messages :: "json option list option"
  df_identity :: "string option"

type_synonym ('w, 'a) desktop_action = "'w desktop \<Rightarrow> 'w desktop \<times> (py_exc + 'a)"

text \<open>
  \<open>dk_now\<close> is \<open>_now_iso\<close>, \<open>dk_utc\<close> the clock, \<open>dk_fromiso\<close> and \<open>dk_isoformat\<close> those of \<open>datetime\<close>,
  \<open>dk_shown\<close> the text of a time in the history, \<open>dk_dash\<close> the dash in the headings. \<open>dk_delay\<close> is the number that
  the text of the pingback delay stands for (at least 0, and 0 if it is none) as it goes into a packet, and \<open>dk_rtt\<close>
  the text about a round trip, from the times of sending and receiving and the delay of the other side; both are
  floating point numbers in the code. \<open>dk_confirm\<close> and \<open>dk_decide\<close> are the dialogs that ask to continue and for a
  transport, \<open>dk_ask\<close> asks for a text. The rest are calls of the client \<open>arqs_api.py\<close> on a client object, and the
  probe of a server.
\<close>

record 'w desktop_env =
  dk_lib :: pylib
  dk_now :: "'w \<Rightarrow> string"
  dk_utc :: "'w \<Rightarrow> time"
  dk_future :: "'w \<Rightarrow> int \<Rightarrow> string"
  dk_fromiso :: iso_reader
  dk_isoformat :: "time \<Rightarrow> string"
  dk_shown :: "time \<Rightarrow> string"
  dk_dash :: string
  dk_geometry :: "'w \<Rightarrow> string"
  dk_class :: "py_exc \<Rightarrow> string"
  dk_uuid4 :: "'w \<Rightarrow> string"
  dk_delay :: "string \<Rightarrow> json"
  dk_rtt :: "json \<Rightarrow> string \<Rightarrow> json \<Rightarrow> string"
  dk_confirm :: "'w \<Rightarrow> string \<Rightarrow> 'w \<times> bool"
  dk_decide :: "'w \<Rightarrow> string \<Rightarrow> 'w \<times> (string option \<times> bool)"
  dk_ask :: "'w \<Rightarrow> string \<Rightarrow> 'w \<times> string option"
  dk_probe :: "'w \<Rightarrow> arqs_client \<Rightarrow> 'w \<times> (py_exc + probe_result)"
  dk_register :: "'w \<times> arqs_client \<Rightarrow> string option \<Rightarrow> ('w, node_identity) call_result"
  dk_delete_identity :: "'w \<times> arqs_client \<Rightarrow> ('w, identity_delete_result) call_result"
  dk_create_endpoint :: "'w \<times> arqs_client \<Rightarrow> string \<Rightarrow> string option \<Rightarrow> ('w, client_endpoint) call_result"
  dk_request_code :: "'w \<times> arqs_client \<Rightarrow> string \<Rightarrow> string \<Rightarrow> ('w, client_link_code) call_result"
  dk_redeem_code :: "'w \<times> arqs_client \<Rightarrow> string \<Rightarrow> string \<Rightarrow> ('w, client_link) call_result"
  dk_revoke_link :: "'w \<times> arqs_client \<Rightarrow> string \<Rightarrow> ('w, unit) call_result"
  dk_list_endpoints :: "'w \<times> arqs_client \<Rightarrow> ('w, client_endpoint list) call_result"
  dk_list_links :: "'w \<times> arqs_client \<Rightarrow> ('w, client_link list) call_result"
  dk_send :: "'w \<times> arqs_client \<Rightarrow> outgoing \<Rightarrow> ('w, packet_send_result) call_result"
  dk_poll :: "'w \<times> arqs_client \<Rightarrow> int \<Rightarrow> ('w, client_delivery list) call_result"
  dk_ack :: "'w \<times> arqs_client \<Rightarrow> string \<Rightarrow> ('w, unit) call_result"

section \<open>Actions\<close>

definition yield :: "'a \<Rightarrow> ('w, 'a) desktop_action" where
  "yield x st = (st, Inr x)"

definition raised :: "py_exc + 'a \<Rightarrow> ('w, 'a) desktop_action" where
  "raised r st = (st, r)"

definition modify :: "('w desktop \<Rightarrow> 'w desktop) \<Rightarrow> ('w, unit) desktop_action" where
  "modify f st = (f st, Inr ())"

definition show_box :: "string \<Rightarrow> ('w, unit) desktop_action" where
  "show_box text = modify (\<lambda>st. st\<lparr>dt_boxes := text # dt_boxes st\<rparr>)"

text \<open>A question to the user.\<close>

definition asked :: "('w \<Rightarrow> 'w \<times> 'a) \<Rightarrow> ('w, 'a) desktop_action" where
  "asked f st = (case f (dt_world st) of (w, x) \<Rightarrow> (st\<lparr>dt_world := w\<rparr>, Inr x))"

section \<open>Configuration\<close>

definition default_base_url :: string where
  "default_base_url = ''http://127.0.0.1:8000''"

definition DEFAULT_CONFIG :: dict where
  "DEFAULT_CONFIG = [(''base_url'', JStr default_base_url), (''node_name'', JStr ''''), (''active_polling'', JBool False),
     (''poll_wait_seconds'', JInt 20), (''poll_limit'', JInt 100), (''local_endpoint_aliases'', JObj []),
     (''window_geometry'', JStr ''1180x760''), (''last_selected_conversation'', JNull), (''enable_pingback'', JBool False),
     (''pingback_delay_seconds'', JStr ''0''), (''transport_preferences'', JObj [])]"

text \<open>\<open>load_json\<close>.\<close>

definition load_json :: "json option \<Rightarrow> json \<Rightarrow> json" where
  "load_json file d = (case file of None \<Rightarrow> d | Some v \<Rightarrow> v)"

definition save_config :: "'w desktop_env \<Rightarrow> 'w desktop \<Rightarrow> 'w desktop" where
  "save_config env st =
     (let config = dict_update (dt_config st)
            [(''base_url'', JStr (strip (dt_base_url st))), (''node_name'', JStr (strip (dt_node_name st))),
             (''active_polling'', JBool (dt_active_poll st)), (''enable_pingback'', JBool (dt_enable_pingback st)),
             (''pingback_delay_seconds'', JStr (strip (dt_pingback_delay st))),
             (''last_selected_conversation'', dt_selected st), (''window_geometry'', JStr (dk_geometry env (dt_world st)))]
      in st\<lparr>dt_config := config, df_config := Some (JObj config)\<rparr>)"

definition set_status_text :: "'w desktop_env \<Rightarrow> string \<Rightarrow> 'w desktop \<Rightarrow> 'w desktop" where
  "set_status_text env text st = save_config env (st\<lparr>dt_status := text\<rparr>)"

definition say :: "'w desktop_env \<Rightarrow> string \<Rightarrow> ('w, unit) desktop_action" where
  "say env text = modify (set_status_text env text)"

definition save_links :: "'w desktop \<Rightarrow> 'w desktop" where
  "save_links st = st\<lparr>df_links := Some (JList (map JObj (dt_links st)))\<rparr>"

definition save_pending_codes :: "'w desktop \<Rightarrow> 'w desktop" where
  "save_pending_codes st = st\<lparr>df_pending_codes := Some (JList (map JObj (dt_pending_codes st)))\<rparr>"

definition save_seen_deliveries :: "'w desktop \<Rightarrow> 'w desktop" where
  "save_seen_deliveries st = st\<lparr>df_seen := Some (JList (map JStr (sorted_list_of_set (dt_seen st))))\<rparr>"

section \<open>Link codes\<close>

text \<open>The time that a stored text stands for; a time without an offset counts as UTC.\<close>

definition stored_dt :: "'w desktop_env \<Rightarrow> json \<Rightarrow> time option" where
  "stored_dt env v = (case client_datetime (dk_fromiso env) v of Inl _ \<Rightarrow> None | Inr t \<Rightarrow> Some t)"

definition pending_code_is_expired :: "'w desktop_env \<Rightarrow> time \<Rightarrow> dict \<Rightarrow> bool" where
  "pending_code_is_expired env now code =
     (let expires_at = dict_get code ''local_expires_at'' in
      if \<not> truthy expires_at then True
      else (case stored_dt env expires_at of None \<Rightarrow> True | Some t \<Rightarrow> t \<le> now))"

definition prune_pending_codes :: "'w desktop_env \<Rightarrow> 'w desktop \<Rightarrow> 'w desktop" where
  "prune_pending_codes env st =
     (let kept = filter (\<lambda>c. \<not> pending_code_is_expired env (dk_utc env (dt_world st)) c) (dt_pending_codes st);
          st' = st\<lparr>dt_pending_codes := kept\<rparr> in
      if length kept \<noteq> length (dt_pending_codes st) then save_pending_codes st' else st')"

section \<open>Messages\<close>

text \<open>The identifier that a message is known by, and whether it has one.\<close>

definition dedupe_key :: "dict \<Rightarrow> string option" where
  "dedupe_key m =
     (if truthy (dict_get m ''packet_id'') then Some (str_value (dict_get m ''packet_id''))
      else if truthy (dict_get m ''delivery_id'') then Some (str_value (dict_get m ''delivery_id''))
      else None)"

text \<open>One line of the file: a text that is not JSON is skipped, and one that is not an object ends the program.\<close>

fun load_lines :: "json option list \<Rightarrow> py_exc + dict list" where
  "load_lines [] = Inr []"
| "load_lines (None # ls) = load_lines ls"
| "load_lines (Some v # ls) =
     (case v of JObj m \<Rightarrow> try_then (load_lines ls) (\<lambda>ms. Inr (m # ms))
      | _ \<Rightarrow> Inl (OtherException ''object has no attribute get''))"

definition index_of :: "dict list \<Rightarrow> string set" where
  "index_of ms = set (List.map_filter dedupe_key ms)"

definition load_messages :: "('w, unit) desktop_action" where
  "load_messages st =
     (case df_messages st of
        None \<Rightarrow> (st\<lparr>dt_messages := [], dt_message_index := {}\<rparr>, Inr ())
      | Some ls \<Rightarrow>
          (case load_lines ls of
             Inl e \<Rightarrow> (st, Inl e)
           | Inr ms \<Rightarrow> (st\<lparr>dt_messages := ms, dt_message_index := index_of ms\<rparr>, Inr ())))"

definition append_message :: "dict \<Rightarrow> 'w desktop \<Rightarrow> 'w desktop" where
  "append_message m st =
     (let key = dedupe_key m in
      if (case key of None \<Rightarrow> False | Some k \<Rightarrow> k \<in> dt_message_index st) then st
      else st\<lparr>dt_message_index := (case key of None \<Rightarrow> dt_message_index st | Some k \<Rightarrow> insert k (dt_message_index st)),
          dt_messages := dt_messages st @ [m],
          df_messages := Some ((case df_messages st of None \<Rightarrow> [] | Some ls \<Rightarrow> ls) @ [Some (JObj m)])\<rparr>)"

definition rewrite_messages_file :: "'w desktop \<Rightarrow> 'w desktop" where
  "rewrite_messages_file st = st\<lparr>df_messages := Some (map (\<lambda>m. Some (JObj m)) (dt_messages st))\<rparr>"

definition rebuild_message_index :: "'w desktop \<Rightarrow> 'w desktop" where
  "rebuild_message_index st = st\<lparr>dt_message_index := index_of (dt_messages st)\<rparr>"

section \<open>Link records\<close>

definition of_pair :: "string \<Rightarrow> string \<Rightarrow> dict \<Rightarrow> bool" where
  "of_pair l r d \<longleftrightarrow> str_value (dict_get d ''local_endpoint_id'') = l \<and> str_value (dict_get d ''remote_endpoint_id'') = r"

definition get_link_record :: "string \<Rightarrow> string \<Rightarrow> 'w desktop \<Rightarrow> dict option" where
  "get_link_record l r st = find (of_pair l r) (dt_links st)"

text \<open>\<open>record.update(...)\<close> of the record found: the first one of the pair.\<close>

fun update_first :: "('a \<Rightarrow> bool) \<Rightarrow> ('a \<Rightarrow> 'a) \<Rightarrow> 'a list \<Rightarrow> 'a list" where
  "update_first P f [] = []"
| "update_first P f (x # xs) = (if P x then f x # xs else x # update_first P f xs)"

definition update_record :: "string \<Rightarrow> string \<Rightarrow> dict \<Rightarrow> 'w desktop \<Rightarrow> 'w desktop" where
  "update_record l r changes st = st\<lparr>dt_links := update_first (of_pair l r) (\<lambda>d. dict_update d changes) (dt_links st)\<rparr>"

definition local_link_id :: "string \<Rightarrow> string \<Rightarrow> string" where
  "local_link_id l r = ''local-'' @ l @ ''-'' @ r"

definition endpoint_label :: "string \<Rightarrow> string" where
  "endpoint_label r = ''Endpoint '' @ take 8 r"

definition link_record :: "string \<Rightarrow> string \<Rightarrow> string \<Rightarrow> string \<Rightarrow> string \<Rightarrow> string \<Rightarrow> string \<Rightarrow> string \<Rightarrow> dict" where
  "link_record link_id mode l r label created updated status =
     [(''link_id'', JStr link_id), (''mode'', JStr mode), (''local_endpoint_id'', JStr l), (''remote_endpoint_id'', JStr r),
      (''remote_label'', JStr label), (''created_at'', JStr created), (''updated_at'', JStr updated), (''status'', JStr status)]"

definition ensure_message_link_stub :: "'w desktop_env \<Rightarrow> string \<Rightarrow> string \<Rightarrow> 'w desktop \<Rightarrow> 'w desktop" where
  "ensure_message_link_stub env l r st =
     (if get_link_record l r st \<noteq> None then st
      else (let now = dk_now env (dt_world st) in
        save_links (st\<lparr>dt_links := dt_links st
          @ [link_record (local_link_id l r) ''unknown'' l r (endpoint_label r) now now ''unknown'']\<rparr>)))"

definition resolve_link_endpoints :: "client_link \<Rightarrow> 'w desktop \<Rightarrow> (string \<times> string) option" where
  "resolve_link_endpoints link st =
     (let own = ce_endpoint_id ` set (dt_endpoints st); a = cl_endpoint_a_id link; b = cl_endpoint_b_id link in
      if a \<in> own \<and> b \<notin> own then Some (a, b)
      else if b \<in> own \<and> a \<notin> own then Some (b, a)
      else if a \<in> own \<and> b \<in> own then Some (a, b)
      else None)"

text \<open>\<open>existing_labels\<close>: the last record of a pair decides.\<close>

definition existing_label :: "dict list \<Rightarrow> string \<times> string \<Rightarrow> string" where
  "existing_label records lr =
     (case find (of_pair (fst lr) (snd lr)) (rev records) of
        None \<Rightarrow> [] | Some d \<Rightarrow> str_or_empty (dict_get d ''remote_label''))"

definition is_local_stub :: "dict \<Rightarrow> bool" where
  "is_local_stub d \<longleftrightarrow>
     startswith (case map_of d ''link_id'' of None \<Rightarrow> [] | Some v \<Rightarrow> str_value v) ''local-''"

definition rebuilt_record :: "'w desktop_env \<Rightarrow> 'w desktop \<Rightarrow> client_link \<Rightarrow> dict option" where
  "rebuilt_record env st link =
     (if cl_status link \<noteq> ''active'' then None
      else (case resolve_link_endpoints link st of
         None \<Rightarrow> None
       | Some (l, r) \<Rightarrow>
           let label = existing_label (dt_links st) (l, r) in
           Some (link_record (cl_link_id link) (cl_mode link) l r (if label = [] then endpoint_label r else label)
             (dk_isoformat env (cl_created_at link)) (dk_now env (dt_world st)) (cl_status link))))"

definition record_pair :: "dict \<Rightarrow> string \<times> string" where
  "record_pair d = (str_value (dict_get d ''local_endpoint_id''), str_value (dict_get d ''remote_endpoint_id''))"

definition rebuild_server_link_records :: "'w desktop_env \<Rightarrow> client_link list \<Rightarrow> 'w desktop \<Rightarrow> 'w desktop" where
  "rebuild_server_link_records env server_links st =
     (let rebuilt = List.map_filter (rebuilt_record env st) server_links;
          active_pairs = record_pair ` set rebuilt;
          preserved = filter (\<lambda>d. record_pair d \<notin> active_pairs) (filter is_local_stub (dt_links st))
      in save_links (st\<lparr>dt_links := rebuilt @ preserved\<rparr>))"

definition upsert_link_record :: "'w desktop_env \<Rightarrow> client_link \<Rightarrow> string \<Rightarrow> 'w desktop \<Rightarrow> 'w desktop" where
  "upsert_link_record env link explicit st =
     (case resolve_link_endpoints link st of
        None \<Rightarrow> st
      | Some (l, r) \<Rightarrow>
          let found = get_link_record l r st;
              stored = (case found of None \<Rightarrow> JNull | Some d \<Rightarrow> dict_get d ''remote_label'');
              label = (if explicit \<noteq> [] then JStr explicit else if truthy stored then stored else JStr (endpoint_label r));
              payload = dict_put ''remote_label'' label
                (link_record (cl_link_id link) (cl_mode link) l r [] (dk_isoformat env (cl_created_at link))
                  (dk_now env (dt_world st)) (cl_status link))
          in save_links (case found of
               None \<Rightarrow> st\<lparr>dt_links := dt_links st @ [payload]\<rparr>
             | Some _ \<Rightarrow> update_record l r payload st))"

section \<open>Conversations\<close>

definition conversation_key :: "string \<Rightarrow> string \<Rightarrow> string" where
  "conversation_key l r = l @ ''|'' @ r"

text \<open>\<open>str(d[k])\<close>.\<close>

definition text_at :: "dict \<Rightarrow> string \<Rightarrow> py_exc + string" where
  "text_at d k = str_item (JObj d) k"

definition key_at :: "dict \<Rightarrow> py_exc + string \<times> string" where
  "key_at d = try_then (text_at d ''local_endpoint_id'') (\<lambda>l. try_then (text_at d ''remote_endpoint_id'') (\<lambda>r. Inr (l, r)))"

definition conversation_title :: "dict \<Rightarrow> py_exc + string" where
  "conversation_title d =
     (if truthy (dict_get d ''remote_label'') then Inr (str_value (dict_get d ''remote_label''))
      else try_then (text_at d ''remote_endpoint_id'') (\<lambda>r. Inr (endpoint_label r)))"

definition alias_of :: "'w desktop \<Rightarrow> string \<Rightarrow> string" where
  "alias_of st i = str_or_empty (get_item (dict_get (dt_config st) ''local_endpoint_aliases'') i)"

text \<open>\<open>endpoint_map\<close>: the last endpoint of an identifier.\<close>

definition endpoint_name_of :: "'w desktop \<Rightarrow> string \<Rightarrow> string" where
  "endpoint_name_of st i =
     (case find (\<lambda>e. ce_endpoint_id e = i) (rev (dt_endpoints st)) of
        None \<Rightarrow> [] | Some e \<Rightarrow> str_or_empty (ce_endpoint_name e))"

definition conversation_subtitle :: "'w desktop \<Rightarrow> dict \<Rightarrow> py_exc + string" where
  "conversation_subtitle st d =
     try_then (text_at d ''local_endpoint_id'') (\<lambda>l. Inr (''via '' @
       (if alias_of st l \<noteq> [] then alias_of st l
        else if endpoint_name_of st l \<noteq> [] then endpoint_name_of st l else ''Local '' @ take 8 l)))"

definition fallback_title :: "'w desktop \<Rightarrow> string \<times> string \<Rightarrow> py_exc + string" where
  "fallback_title st lr =
     (case get_link_record (fst lr) (snd lr) st of
        Some d \<Rightarrow> conversation_title d | None \<Rightarrow> Inr (endpoint_label (snd lr)))"

definition fallback_subtitle :: "'w desktop \<Rightarrow> string \<Rightarrow> string" where
  "fallback_subtitle st l =
     ''via '' @ (if endpoint_name_of st l \<noteq> [] then endpoint_name_of st l
       else if alias_of st l \<noteq> [] then alias_of st l else take 8 l)"

definition timestamp_of :: "dict \<Rightarrow> string \<Rightarrow> string \<Rightarrow> string" where
  "timestamp_of d k k' = (if truthy (dict_get d k) then str_value (dict_get d k) else str_or_empty (dict_get d k'))"

type_synonym conversation_map = "(string \<times> conversation) list"

fun conversations_of_links :: "'w desktop \<Rightarrow> dict list \<Rightarrow> conversation_map \<Rightarrow> py_exc + conversation_map" where
  "conversations_of_links st [] m = Inr m"
| "conversations_of_links st (d # ds) m =
     try_then (key_at d) (\<lambda>(l, r).
     try_then (conversation_title d) (\<lambda>title.
     try_then (conversation_subtitle st d) (\<lambda>subtitle.
       conversations_of_links st ds (AList.update (conversation_key l r)
         \<lparr>cv_key = conversation_key l r, cv_local_endpoint_id = l, cv_remote_endpoint_id = r, cv_title = title,
          cv_subtitle = subtitle, cv_last_timestamp = timestamp_of d ''updated_at'' ''created_at''\<rparr> m))))"

definition with_message :: "'w desktop \<Rightarrow> dict \<Rightarrow> conversation_map \<Rightarrow> py_exc + conversation_map" where
  "with_message st d m =
     try_then (key_at d) (\<lambda>(l, r).
       let key = conversation_key l r; existing = map_of m key in
       try_then (case existing of Some c \<Rightarrow> Inr (cv_title c) | None \<Rightarrow> fallback_title st (l, r)) (\<lambda>title.
         let subtitle = (case existing of Some c \<Rightarrow> cv_subtitle c | None \<Rightarrow> fallback_subtitle st l);
             timestamp = timestamp_of d ''created_at'' ''received_at''
         in if (case existing of None \<Rightarrow> True | Some c \<Rightarrow> cv_last_timestamp c < timestamp) then
              Inr (AList.update key \<lparr>cv_key = key, cv_local_endpoint_id = l, cv_remote_endpoint_id = r, cv_title = title,
                cv_subtitle = subtitle, cv_last_timestamp = timestamp\<rparr> m)
            else Inr m))"

fun conversations_of_messages :: "'w desktop \<Rightarrow> dict list \<Rightarrow> conversation_map \<Rightarrow> py_exc + conversation_map" where
  "conversations_of_messages st [] m = Inr m"
| "conversations_of_messages st (d # ds) m = try_then (with_message st d m) (conversations_of_messages st ds)"

text \<open>\<open>sorted(..., key=..., reverse=True)\<close> keeps the order of equal keys.\<close>

definition sort_latest :: "conversation list \<Rightarrow> conversation list" where
  "sort_latest cs = rev (sort_key cv_last_timestamp (rev cs))"

definition get_selected_conversation :: "'w desktop \<Rightarrow> conversation option" where
  "get_selected_conversation st =
     (if \<not> truthy (dt_selected st) then None else find (\<lambda>c. JStr (cv_key c) = dt_selected st) (dt_conversations st))"

definition heading :: "'w desktop_env \<Rightarrow> conversation \<Rightarrow> string" where
  "heading env c = (if cv_subtitle c = [] then cv_title c else cv_title c @ '' '' @ dk_dash env @ '' '' @ cv_subtitle c)"

definition datetime_min :: time where
  "datetime_min = - seconds 62135596800"

definition parse_message_dt :: "'w desktop_env \<Rightarrow> json \<Rightarrow> time" where
  "parse_message_dt env v =
     (if \<not> truthy v then datetime_min else (case stored_dt env v of None \<Rightarrow> datetime_min | Some t \<Rightarrow> t))"

definition message_sort_key :: "'w desktop_env \<Rightarrow> dict \<Rightarrow> time \<times> time \<times> string" where
  "message_sort_key env m =
     (parse_message_dt env (dict_get m ''created_at''), parse_message_dt env (dict_get m ''received_at''),
      case dedupe_key m of None \<Rightarrow> [] | Some k \<Rightarrow> k)"

definition format_dt :: "'w desktop_env \<Rightarrow> json \<Rightarrow> string" where
  "format_dt env v =
     (if \<not> truthy v then ''unknown time''
      else (case stored_dt env v of None \<Rightarrow> str_value v | Some t \<Rightarrow> dk_shown env t))"

definition dict_of :: "json \<Rightarrow> dict" where
  "dict_of v = (case v of JObj d \<Rightarrow> d | _ \<Rightarrow> [])"

definition body_string :: "json \<Rightarrow> string option" where
  "body_string v = (case v of JNull \<Rightarrow> None | _ \<Rightarrow> Some (str_value v))"

definition message_line :: "'w desktop_env \<Rightarrow> string \<Rightarrow> dict \<Rightarrow> py_exc + string" where
  "message_line env contact m =
     try_then (render_packet_text (dk_lib env) (body_string (dict_get m ''body'')) (dict_of (dict_get m ''data''))
         (dict_of (dict_get m ''headers''))) (\<lambda>text.
       let who = (if dict_get m ''direction'' = JStr ''outgoing'' then ''You'' else contact);
           stamp = format_dt env (if truthy (dict_get m ''created_at'') then dict_get m ''created_at''
             else dict_get m ''received_at'')
       in Inr (''['' @ stamp @ ''] '' @ who @ '':'' @ [newline_char] @ text @ [newline_char]))"

text \<open>The messages of a conversation; every message must have its two endpoints.\<close>

fun messages_of :: "string \<Rightarrow> dict list \<Rightarrow> py_exc + dict list" where
  "messages_of key [] = Inr []"
| "messages_of key (m # ms) =
     try_then (key_at m) (\<lambda>(l, r). try_then (messages_of key ms) (\<lambda>rest.
       Inr (if conversation_key l r = key then m # rest else rest)))"

definition history_text :: "'w desktop_env \<Rightarrow> conversation \<Rightarrow> dict list \<Rightarrow> py_exc + string" where
  "history_text env c ms =
     try_then (messages_of (cv_key c) ms) (\<lambda>relevant.
     try_then (map_try (message_line env (cv_title c)) (sort_key (message_sort_key env) relevant)) (\<lambda>lines.
       Inr (strip (join [newline_char] lines))))"

definition render_selected_conversation :: "'w desktop_env \<Rightarrow> ('w, unit) desktop_action" where
  "render_selected_conversation env st =
     (case get_selected_conversation st of
        None \<Rightarrow> (st\<lparr>dt_header := ''No conversation selected'', dt_history := ''''\<rparr>, Inr ())
      | Some c \<Rightarrow>
          let st' = st\<lparr>dt_header := heading env c\<rparr> in
          (case history_text env c (dt_messages st) of
             Inl e \<Rightarrow> (st', Inl e) | Inr text \<Rightarrow> (st'\<lparr>dt_history := text\<rparr>, Inr ())))"

text \<open>Without a selection the first conversation is selected.\<close>

definition restore_last_selection :: "'w desktop_env \<Rightarrow> ('w, unit) desktop_action" where
  "restore_last_selection env st =
     (case dt_conversations st of
        [] \<Rightarrow> (st, Inr ())
      | c # _ \<Rightarrow> render_selected_conversation env
          (if dt_selected st = JNull then st\<lparr>dt_selected := JStr (cv_key c)\<rparr> else st))"

definition collect_conversations :: "'w desktop \<Rightarrow> py_exc + conversation list" where
  "collect_conversations st =
     try_then (conversations_of_links st (dt_links st) []) (\<lambda>m.
     try_then (conversations_of_messages st (dt_messages st) m) (\<lambda>m. Inr (sort_latest (map snd m))))"

text \<open>The conversations are rendered once with the restored selection and once more.\<close>

definition refresh_conversations :: "'w desktop_env \<Rightarrow> ('w, unit) desktop_action" where
  "refresh_conversations env st =
     (case collect_conversations st of
        Inl e \<Rightarrow> (st, Inl e)
      | Inr cs \<Rightarrow> then_do (restore_last_selection env) (\<lambda>_. render_selected_conversation env)
          (st\<lparr>dt_conversations := cs\<rparr>))"

definition on_conversation_selected :: "'w desktop_env \<Rightarrow> nat option \<Rightarrow> ('w, unit) desktop_action" where
  "on_conversation_selected env selection st =
     (case selection of
        None \<Rightarrow> (st, Inr ())
      | Some n \<Rightarrow>
          if n < length (dt_conversations st) then
            render_selected_conversation env
              (save_config env (st\<lparr>dt_selected := JStr (cv_key (dt_conversations st ! n))\<rparr>))
          else (st, Inl (OtherException ''list index out of range'')))"

section \<open>Changes without the server\<close>

definition selected_or_complain :: "('w, conversation option) desktop_action" where
  "selected_or_complain st =
     (case get_selected_conversation st of
        None \<Rightarrow> then_do (show_box ''Select a conversation first.'') (\<lambda>_. yield None) st
      | Some c \<Rightarrow> (st, Inr (Some c)))"

definition no_link_record :: string where
  "no_link_record = ''This conversation has no saved link record yet.''"

definition rename_contact :: "'w desktop_env \<Rightarrow> ('w, unit) desktop_action" where
  "rename_contact env =
     then_do selected_or_complain (\<lambda>c st.
       case c of
         None \<Rightarrow> (st, Inr ())
       | Some c \<Rightarrow>
           let l = cv_local_endpoint_id c; r = cv_remote_endpoint_id c in
           (case get_link_record l r st of
              None \<Rightarrow> show_box no_link_record st
            | Some d \<Rightarrow>
                then_do (asked (\<lambda>w. dk_ask env w (str_or_empty (dict_get d ''remote_label'')))) (\<lambda>new_value st.
                  case new_value of
                    None \<Rightarrow> (st, Inr ())
                  | Some v \<Rightarrow>
                      if v = [] then (st, Inr ())
                      else then_do (modify (\<lambda>st. save_links (update_record l r
                               [(''remote_label'', JStr (strip v)), (''updated_at'', JStr (dk_now env (dt_world st)))] st)))
                             (\<lambda>_. then_do (refresh_conversations env) (\<lambda>_. say env ''Contact label updated.'')) st) st))"

definition mark_link_severed_local :: "'w desktop_env \<Rightarrow> string \<Rightarrow> string \<Rightarrow> ('w, unit) desktop_action" where
  "mark_link_severed_local env l r st =
     (case get_link_record l r st of
        None \<Rightarrow> (st, Inr ())
      | Some _ \<Rightarrow> refresh_conversations env (save_links (update_record l r
          [(''link_id'', JStr (local_link_id l r)), (''status'', JStr ''severed''),
           (''updated_at'', JStr (dk_now env (dt_world st)))] st)))"

definition drop_severed :: "'w desktop_env \<Rightarrow> string \<Rightarrow> string \<Rightarrow> 'w desktop \<Rightarrow> 'w desktop" where
  "drop_severed env l r st =
     (case get_link_record l r st of
        None \<Rightarrow> st
      | Some d \<Rightarrow>
          if is_local_stub d then
            let st' = save_links (st\<lparr>dt_links := delete_where (of_pair l r) (dt_links st)\<rparr>) in
            if dt_selected st = JStr (conversation_key l r) then save_config env (st'\<lparr>dt_selected := JNull\<rparr>) else st'
          else st)"

definition delete_message_history_local :: "'w desktop_env \<Rightarrow> string \<Rightarrow> string \<Rightarrow> ('w, nat) desktop_action" where
  "delete_message_history_local env l r st =
     (let kept = delete_where (of_pair l r) (dt_messages st);
          deleted = length (dt_messages st) - length kept
      in then_do (refresh_conversations env) (\<lambda>_. yield deleted)
           (rewrite_messages_file (rebuild_message_index (drop_severed env l r (st\<lparr>dt_messages := kept\<rparr>)))))"

definition delete_message_history :: "'w desktop_env \<Rightarrow> ('w, unit) desktop_action" where
  "delete_message_history env =
     then_do selected_or_complain (\<lambda>c st.
       case c of
         None \<Rightarrow> (st, Inr ())
       | Some c \<Rightarrow>
           then_do (asked (\<lambda>w. dk_confirm env w ''Delete Message History'')) (\<lambda>confirmed.
             if \<not> confirmed then say env ''Delete message history cancelled.''
             else then_do (delete_message_history_local env (cv_local_endpoint_id c) (cv_remote_endpoint_id c)) (\<lambda>n.
               say env (''Deleted '' @ str_of_nat n @ '' message(s) from local history.''))) st)"

definition copy_selected_pending_code :: "'w desktop_env \<Rightarrow> ('w, unit) desktop_action" where
  "copy_selected_pending_code env =
     then_do (modify (prune_pending_codes env)) (\<lambda>_ st.
       case dt_pending_codes st of
         [] \<Rightarrow> show_box ''No unexpired link code is saved locally.'' st
       | code # _ \<Rightarrow>
           then_do (raised (text_at code ''code'')) (\<lambda>c.
           then_do (modify (\<lambda>st. st\<lparr>dt_clipboard := c\<rparr>)) (\<lambda>_.
             say env (''Copied current link code '' @ c @ ''.''))) st)"

definition clear_local_identity_state :: "'w desktop_env \<Rightarrow> ('w, unit) desktop_action" where
  "clear_local_identity_state env st =
     refresh_conversations env (save_config env ((save_seen_deliveries (save_pending_codes (save_links
       (st\<lparr>dt_client := None, dt_links := [], dt_pending_codes := [], dt_seen := {}, dt_messages := [],
          dt_message_index := {}, dt_endpoints := [], dt_conversations := [], dt_selected := JNull,
          dt_config := dict_put ''local_endpoint_aliases'' (JObj []) (dt_config st)\<rparr>))))
       \<lparr>df_messages := Some []\<rparr>))"

text \<open>\<open>_get_poll_wait_seconds\<close>.\<close>

definition poll_wait_of :: "int \<Rightarrow> string \<Rightarrow> int" where
  "poll_wait_of d raw = max 0 (min 60 (case parse_py_int (strip raw) of None \<Rightarrow> d | Some v \<Rightarrow> v))"

definition get_poll_wait_seconds :: "int \<Rightarrow> ('w, int) desktop_action" where
  "get_poll_wait_seconds d st =
     (let value = poll_wait_of d (dt_poll_wait st) in
      (st\<lparr>dt_poll_wait := str_of_int value, dt_config := dict_put ''poll_wait_seconds'' (JInt value) (dt_config st)\<rparr>, Inr value))"

end
