(* ===== verification/DesktopNet.thy ===== *)
theory DesktopNet
  imports Desktop
begin

text \<open>
  How the desktop client chooses its transport: the normal form of the server URL, the preferences it remembers,
  the probe and the dialogs that follow it, and the client object for the result.
\<close>

section \<open>Server URLs and preferences\<close>

definition normalize_server_url :: "string \<Rightarrow> py_exc + string" where
  "normalize_server_url base_url =
     (let raw = strip base_url in
      if raw = [] then Inr []
      else try_then (or_value_error ''Invalid IPv6 URL''
             (urlsplit (if contains raw ''://'' then raw else ''http://'' @ raw))) (\<lambda>parts.
           Inr (urlunsplit (parts\<lparr>su_scheme := lower (su_scheme parts), su_path := rstrip_char (CHR ''/'') (su_path parts),
                  su_query := [], su_fragment := []\<rparr>))))"

definition split_server_url :: "string \<Rightarrow> py_exc + string \<times> split_url" where
  "split_server_url base_url =
     try_then (normalize_server_url base_url) (\<lambda>normalized.
     try_then (or_value_error ''Invalid IPv6 URL'' (urlsplit normalized)) (\<lambda>parts. Inr (normalized, parts)))"

definition transport_preference_key :: "string \<Rightarrow> py_exc + string" where
  "transport_preference_key base_url =
     try_then (split_server_url base_url) (\<lambda>(normalized, parts).
       Inr (if su_netloc parts \<noteq> [] then lower (su_netloc parts) else lower normalized))"

definition known_preferences :: "string list" where
  "known_preferences = [''allow_http'', ''prefer_https'', ''require_https'']"

definition get_saved_transport_preference :: "dict \<Rightarrow> string \<Rightarrow> py_exc + string option" where
  "get_saved_transport_preference config base_url =
     try_then (transport_preference_key base_url) (\<lambda>key.
       Inr (case dict_get (dict_of (dict_get config ''transport_preferences'')) key of
              JStr v \<Rightarrow> if v \<in> set known_preferences then Some v else None
            | _ \<Rightarrow> None))"

definition set_saved_transport_preference :: "'w desktop_env \<Rightarrow> string \<Rightarrow> string option \<Rightarrow> ('w, unit) desktop_action" where
  "set_saved_transport_preference env base_url preference =
     then_do (raised (transport_preference_key base_url)) (\<lambda>key. modify (\<lambda>st.
       let prefs = dict_of (dict_get (dt_config st) ''transport_preferences'');
           prefs = (case preference of None \<Rightarrow> AList.delete key prefs | Some p \<Rightarrow> dict_put key (JStr p) prefs)
       in save_config env (st\<lparr>dt_config := dict_put ''transport_preferences'' (JObj prefs) (dt_config st)\<rparr>)))"

definition is_local_server_url :: "string \<Rightarrow> py_exc + bool" where
  "is_local_server_url base_url =
     try_then (split_server_url base_url) (\<lambda>(_, parts).
       Inr (case hostname parts of
              None \<Rightarrow> False
            | Some host \<Rightarrow>
                let lowered = lower host in
                if lowered \<in> {''localhost'', ''::1''} then True
                else (case ip_address lowered of
                   None \<Rightarrow> False | Some a \<Rightarrow> is_loopback a \<or> is_private a \<or> is_link_local a)))"

text \<open>The argument is empty where the code passes \<open>None\<close>: then the widget is read.\<close>

definition current_transport_policy :: "'w desktop \<Rightarrow> string \<Rightarrow> py_exc + string" where
  "current_transport_policy st base_url =
     try_then (normalize_server_url (if base_url \<noteq> [] then base_url else strip (dt_base_url st))) (\<lambda>normalized.
       if startswith normalized ''https://'' then Inr ''prefer_https''
       else try_then (get_saved_transport_preference (dt_config st) normalized) (\<lambda>saved.
         Inr (if saved = Some ''allow_http'' then ''allow_http'' else ''prefer_https'')))"

section \<open>Client objects\<close>

definition plain_client :: "string \<Rightarrow> string \<Rightarrow> py_exc + arqs_client" where
  "plain_client base_url policy =
     new_client base_url None (seconds 30) default_api_key_header ''arqs_api.py/1.0'' policy True False"

definition saved_client :: "string \<Rightarrow> string \<Rightarrow> string \<Rightarrow> py_exc + arqs_client" where
  "saved_client base_url policy file =
     try_then (load_identity file) (\<lambda>i.
       client_of_identity base_url i (seconds 30) default_api_key_header ''arqs_api.py/1.0'' policy True)"

text \<open>\<open>self.client = c\<close> for a new object; the trace hook that prints to the terminal is attached.\<close>

definition use_client :: "arqs_client \<Rightarrow> 'w desktop \<Rightarrow> 'w desktop" where
  "use_client c st = st\<lparr>dt_client := Some (length (dt_clients st)), dt_clients := dt_clients st @ [c\<lparr>ac_trace_hook := True\<rparr>]\<rparr>"

definition client_in_use :: "'w desktop \<Rightarrow> arqs_client option" where
  "client_in_use st = (case dt_client st of None \<Rightarrow> None | Some n \<Rightarrow> Some (dt_clients st ! n))"

text \<open>A call on a client object, which keeps what the call changed of it.\<close>

definition on_client :: "nat \<Rightarrow> ('w \<times> arqs_client \<Rightarrow> ('w, 'a) call_result) \<Rightarrow> ('w, 'a) desktop_action" where
  "on_client n f st =
     (case f (dt_world st, dt_clients st ! n) of
        ((w, c), r) \<Rightarrow> (st\<lparr>dt_world := w, dt_clients := (dt_clients st)[n := c]\<rparr>, r))"

definition announce :: "'w desktop_env \<Rightarrow> bool \<Rightarrow> string \<Rightarrow> ('w, unit) desktop_action" where
  "announce env update_status text = (if update_status then say env text else yield ())"

text \<open>Without an identity file the identity of the client before stays in use.\<close>

definition client_without_file :: "'w desktop_env \<Rightarrow> string \<Rightarrow> string \<Rightarrow> bool \<Rightarrow> ('w, unit) desktop_action" where
  "client_without_file env base_url policy update_status st =
     then_do (raised (plain_client base_url policy)) (\<lambda>c.
     then_do (modify (use_client (case Option.bind (client_in_use st) ac_identity of
         None \<Rightarrow> c | Some i \<Rightarrow> adopt_identity i c))) (\<lambda>_.
       announce env update_status ''No saved identity loaded yet.'')) st"

definition client_from_file :: "'w desktop_env \<Rightarrow> string \<Rightarrow> string \<Rightarrow> bool \<Rightarrow> string \<Rightarrow> ('w, unit) desktop_action" where
  "client_from_file env base_url policy update_status file st =
     (case saved_client base_url policy file of
        Inr c \<Rightarrow>
          then_do (modify (use_client c)) (\<lambda>_.
            announce env update_status (''Loaded identity for node ''
              @ (case ac_identity c of None \<Rightarrow> [] | Some i \<Rightarrow> ni_node_id i) @ ''.'')) st
      | Inl e \<Rightarrow>
          then_do (raised (plain_client base_url policy)) (\<lambda>c.
          then_do (modify (use_client c)) (\<lambda>_.
            announce env update_status (''Identity file exists but failed to load: '' @ exc_text e))) st)"

definition rebuild_client_for_current_url :: "'w desktop_env \<Rightarrow> string option \<Rightarrow> bool \<Rightarrow> ('w, unit) desktop_action" where
  "rebuild_client_for_current_url env policy update_status st =
     then_do (raised (normalize_server_url (strip (dt_base_url st)))) (\<lambda>base_url.
     then_do (modify (\<lambda>st. if strip (dt_base_url st) \<noteq> base_url then st\<lparr>dt_base_url := base_url\<rparr> else st)) (\<lambda>_ st.
       if base_url = [] then (st\<lparr>dt_client := None\<rparr>, Inr ())
       else then_do (raised (case policy of Some p \<Rightarrow> Inr p | None \<Rightarrow> current_transport_policy st base_url)) (\<lambda>effective st.
         case df_identity st of
           None \<Rightarrow> client_without_file env base_url effective update_status st
         | Some file \<Rightarrow> client_from_file env base_url effective update_status file st) st)) st"

section \<open>The probe\<close>

definition get_transport_probe_result :: "'w desktop_env \<Rightarrow> string \<Rightarrow> ('w, probe_result) desktop_action" where
  "get_transport_probe_result env base_url =
     then_do (raised (normalize_server_url base_url)) (\<lambda>normalized st.
       case map_of (dt_probe_cache st) normalized of
         Some found \<Rightarrow> (st, Inr found)
       | None \<Rightarrow>
           then_do (raised (plain_client normalized ''prefer_https'')) (\<lambda>c.
           then_do (\<lambda>st. case dk_probe env (dt_world st) (c\<lparr>ac_trace_hook := True\<rparr>) of (w, r) \<Rightarrow> (st\<lparr>dt_world := w\<rparr>, r)) (\<lambda>found.
           then_do (modify (\<lambda>st. st\<lparr>dt_probe_cache := AList.update normalized found (dt_probe_cache st)\<rparr>)) (\<lambda>_.
             yield found))) st)"

definition attempt_error :: "string \<Rightarrow> probe_attempt option \<Rightarrow> string list" where
  "attempt_error label attempt =
     (case Option.bind attempt pa_error of
        None \<Rightarrow> [] | Some m \<Rightarrow> if m = [] then [] else [label @ '' probe failed: '' @ m])"

definition transport_failure_message :: "probe_result \<Rightarrow> string" where
  "transport_failure_message p =
     (let details = attempt_error ''HTTP'' (pb_http_attempt p) @ attempt_error ''HTTPS'' (pb_https_attempt p) in
      if details = [] then [] else [newline_char, newline_char] @ join [newline_char] details)"

text \<open>
  The steps at the end of a decision: the URL in the widget, the preference to remember for the URL that was probed, the
  client, the status.
\<close>

definition settle :: "'w desktop_env \<Rightarrow> string \<Rightarrow> (string \<times> string) option \<Rightarrow> string option \<Rightarrow> string \<Rightarrow> ('w, bool) desktop_action" where
  "settle env url remembered policy status =
     then_do (modify (\<lambda>st. st\<lparr>dt_base_url := url\<rparr>)) (\<lambda>_.
     then_do (case remembered of None \<Rightarrow> yield ()
        | Some (probed, p) \<Rightarrow> set_saved_transport_preference env probed (Some p)) (\<lambda>_.
     then_do (rebuild_client_for_current_url env policy False) (\<lambda>_.
     then_do (announce env (status \<noteq> []) status) (\<lambda>_. yield True))))"

definition refuse_transport :: "'w desktop_env \<Rightarrow> string \<Rightarrow> string \<Rightarrow> ('w, bool) desktop_action" where
  "refuse_transport env status box =
     then_do (announce env (status \<noteq> []) status) (\<lambda>_.
     then_do (if box = [] then yield () else show_box box) (\<lambda>_. yield False))"

definition upgraded_url :: "probe_result \<Rightarrow> string option" where
  "upgraded_url p =
     (case pb_normalized_https_base_url p of
        Some u \<Rightarrow> if u = [] then pb_recommended_base_url p else Some u
      | None \<Rightarrow> pb_recommended_base_url p)"

text \<open>The switch to HTTPS; \<open>box\<close> tells that the URL is not known.\<close>

definition upgrade :: "'w desktop_env \<Rightarrow> probe_result \<Rightarrow> bool \<Rightarrow> string \<Rightarrow> string \<Rightarrow> ('w, bool) desktop_action" where
  "upgrade env p remember status box =
     (case upgraded_url p of
        None \<Rightarrow> refuse_transport env [] box
      | Some u \<Rightarrow>
          if u = [] then refuse_transport env [] box
          else settle env u (if remember then Some (pb_original_base_url p, ''prefer_https'') else None) None status)"

definition ask_both :: "'w desktop_env \<Rightarrow> probe_result \<Rightarrow> ('w, bool) desktop_action" where
  "ask_both env p =
     then_do (asked (\<lambda>w. dk_decide env w ''HTTPS Available'')) (\<lambda>(choice, remember).
       if choice = None \<or> choice = Some ''cancel'' then refuse_transport env ''Transport selection cancelled.'' []
       else if choice = Some ''https'' then
         upgrade env p remember ''Using HTTPS for this server.''
           ''HTTPS is available, but the upgraded server URL could not be determined.''
       else settle env (pb_original_base_url p) (if remember then Some (pb_original_base_url p, ''allow_http'') else None)
         (Some ''allow_http'') ''Using HTTP for this server.'')"

definition ask_http_only :: "'w desktop_env \<Rightarrow> probe_result \<Rightarrow> ('w, bool) desktop_action" where
  "ask_http_only env p =
     then_do (asked (\<lambda>w. dk_decide env w ''HTTP Only Warning'')) (\<lambda>(choice, remember).
       if choice \<noteq> Some ''http'' then refuse_transport env ''Transport selection cancelled.'' []
       else settle env (pb_original_base_url p) (if remember then Some (pb_original_base_url p, ''allow_http'') else None)
         (Some ''allow_http'') ''Continuing with HTTP for this server.'')"

definition remembered_http :: string where
  "remembered_http = ''Using remembered HTTP transport preference for this server.''"

definition apply_http_result :: "'w desktop_env \<Rightarrow> probe_result \<Rightarrow> bool \<Rightarrow> string option \<Rightarrow> ('w, bool) desktop_action" where
  "apply_http_result env p is_local saved =
     (let url = pb_original_base_url p; kind = pb_classification p;
          failed = transport_failure_message p
      in if kind = ''http_redirects_to_https'' then
           then_do (upgrade env p True ''Server redirects HTTP to HTTPS. Updated server URL to HTTPS.''
             ''Server redirected to HTTPS, but the upgraded URL could not be determined.'') (\<lambda>ok.
           then_do (if ok then show_box ''Server redirects HTTP to HTTPS. Updated server URL to HTTPS.'' else yield ()) (\<lambda>_. yield ok))
         else if kind = ''https_only'' then
           then_do (upgrade env p True ''Server is reachable over HTTPS. Updated server URL to HTTPS.''
             ''HTTPS is reachable, but the upgraded server URL could not be determined.'') (\<lambda>ok.
           then_do (if ok then show_box ''Server is reachable over HTTPS. Updated server URL to HTTPS.'' else yield ()) (\<lambda>_. yield ok))
         else if kind = ''both_http_and_https'' then
           (if is_local then settle env url None None ''Local server supports HTTPS. Keeping the current HTTP URL.''
            else if saved = Some ''allow_http'' then settle env url None (Some ''allow_http'') remembered_http
            else if saved = Some ''prefer_https'' \<or> saved = Some ''require_https'' then
              upgrade env p False ''Using remembered HTTPS transport preference for this server.''
                ''HTTPS is available, but the upgraded server URL could not be determined.''
            else ask_both env p)
         else if kind = ''http_only'' then
           (if is_local then settle env url None None ''Using local HTTP transport for this server.''
            else if saved = Some ''allow_http'' then settle env url None (Some ''allow_http'') remembered_http
            else ask_http_only env p)
         else if kind = ''unreachable'' then
           refuse_transport env ''Server transport probe failed.''
             (''Could not reach this server over HTTP or HTTPS.'' @ failed)
         else refuse_transport env ''Transport probing failed.'' (''Transport probing failed for this server.'' @ failed))"

definition https_failed_box :: "probe_result \<Rightarrow> string" where
  "https_failed_box p =
     ''HTTPS connection failed.'' @ [newline_char, newline_char]
     @ ''The server may not support HTTPS or there may be a certificate or tunnel problem.'' @ [newline_char, newline_char]
     @ ''To use HTTP instead, choose an HTTP server URL explicitly later.'' @ transport_failure_message p"

definition apply_transport_result :: "'w desktop_env \<Rightarrow> probe_result \<Rightarrow> ('w, bool) desktop_action" where
  "apply_transport_result env p st =
     (let url = pb_original_base_url p in
      then_do (raised (is_local_server_url url)) (\<lambda>is_local.
      then_do (raised (get_saved_transport_preference (dt_config st) url)) (\<lambda>saved.
        if startswith url ''https://'' then
          (if pb_classification p = ''https_failed'' then
             refuse_transport env ''HTTPS connection failed.'' (https_failed_box p)
           else settle env url None None [])
        else apply_http_result env p is_local saved)) st)"

definition ensure_transport_ready_for_auth :: "'w desktop_env \<Rightarrow> ('w, bool) desktop_action" where
  "ensure_transport_ready_for_auth env st =
     then_do (raised (normalize_server_url (strip (dt_base_url st)))) (\<lambda>normalized st.
       if normalized = [] then refuse_transport env [] ''Server URL is required.'' st
       else (case get_transport_probe_result env normalized (st\<lparr>dt_base_url := normalized\<rparr>) of
          (st, Inl e) \<Rightarrow> refuse_transport env (exc_text e) (exc_text e) st
        | (st, Inr found) \<Rightarrow> apply_transport_result env found st)) st"

definition on_server_url_focus_out :: "'w desktop_env \<Rightarrow> ('w, unit) desktop_action" where
  "on_server_url_focus_out env st =
     then_do (raised (normalize_server_url (strip (dt_base_url st)))) (\<lambda>normalized.
       modify (\<lambda>st. if normalized \<noteq> [] \<and> normalized \<noteq> strip (dt_base_url st) then
           save_config env (st\<lparr>dt_base_url := normalized\<rparr>) else st)) st"

text \<open>The number of the client object in use, \<^term>\<open>None\<close> when there is none to use.\<close>

definition require_desktop_client :: "'w desktop_env \<Rightarrow> bool \<Rightarrow> ('w, nat option) desktop_action" where
  "require_desktop_client env silent =
     then_do (ensure_transport_ready_for_auth env) (\<lambda>ready.
       if \<not> ready then yield None
       else then_do (\<lambda>st. if dt_client st = None then rebuild_client_for_current_url env None False st else (st, Inr ())) (\<lambda>_ st.
         case client_in_use st of
           None \<Rightarrow> then_do (if silent then yield () else show_box ''No client is loaded.'') (\<lambda>_. yield None) st
         | Some c \<Rightarrow>
             then_do (raised (normalize_server_url (strip (dt_base_url st)))) (\<lambda>url st.
             then_do (raised (current_transport_policy st url)) (\<lambda>policy st.
             then_do (if ac_base_url c \<noteq> url \<or> ac_transport_policy c \<noteq> policy
                then rebuild_client_for_current_url env None False else yield ()) (\<lambda>_ st. (st, Inr (dt_client st))) st) st) st))"

end
