(* ===== verification/DesktopOps.thy ===== *)
theory DesktopOps
  imports DesktopNet
begin

text \<open>
  The commands of the desktop client, the jobs that they start in threads, the queue through which the jobs report
  back, and the polling of the inbox. A thread is a \<open>job\<close>, its callback a \<open>completion\<close>; both carry the variables
  that the Python closure captures. \<open>desktop_step\<close> interleaves commands, threads and the queue.
\<close>

section \<open>Threads\<close>

definition run_bg :: "job \<Rightarrow> string \<Rightarrow> ('w, unit) desktop_action" where
  "run_bg j label = modify (\<lambda>st. st\<lparr>dt_jobs := dt_jobs st @ [(Some label, False, j)]\<rparr>)"

definition run_bg_quiet :: "job \<Rightarrow> ('w, unit) desktop_action" where
  "run_bg_quiet j = modify (\<lambda>st. st\<lparr>dt_jobs := dt_jobs st @ [(None, False, j)]\<rparr>)"

definition refresh_everything :: "'w desktop_env \<Rightarrow> ('w, unit) desktop_action" where
  "refresh_everything env =
     then_do (\<lambda>st. if dt_client st = None then rebuild_client_for_current_url env None True st else (st, Inr ())) (\<lambda>_.
     then_do (require_desktop_client env True) (\<lambda>c.
       case c of None \<Rightarrow> yield () | Some n \<Rightarrow> run_bg (JobRefresh n) ''Refreshing endpoints and links''))"

text \<open>What starts with \<open>client = self.require_client()\<close>.\<close>

definition with_client :: "'w desktop_env \<Rightarrow> (nat \<Rightarrow> ('w, unit) desktop_action) \<Rightarrow> ('w, unit) desktop_action" where
  "with_client env k =
     then_do (require_desktop_client env False) (\<lambda>c. case c of None \<Rightarrow> yield () | Some n \<Rightarrow> k n)"

section \<open>The dialogs\<close>

text \<open>A dialog gives what its \<open>apply\<close> makes of the widgets, \<^term>\<open>None\<close> when it is cancelled or \<open>validate\<close> never accepts.\<close>

definition endpoint_dialog :: "string \<Rightarrow> string \<Rightarrow> string \<Rightarrow> (string \<times> string \<times> string) option" where
  "endpoint_dialog name kind alias =
     (if strip name = [] then None else Some (strip name, strip kind, strip alias))"

definition endpoint_display :: "'w desktop \<Rightarrow> client_endpoint \<Rightarrow> string" where
  "endpoint_display st e =
     (let i = ce_endpoint_id e;
          name = (if alias_of st i \<noteq> [] then alias_of st i
            else if truthy (ce_endpoint_name e) then str_value (ce_endpoint_name e) else endpoint_label i)
      in name @ '' ['' @ i @ '']'')"

text \<open>\<open>selected.rsplit("[", 1)[1].rstrip("]")\<close> of a text that \<open>endpoint_display\<close> made.\<close>

definition selected_endpoint :: "string \<Rightarrow> string" where
  "selected_endpoint selected = rstrip_char (CHR '']'') (after_last (CHR ''['') (strip selected))"

definition request_link_dialog :: "string \<Rightarrow> string \<Rightarrow> (string \<times> string) option" where
  "request_link_dialog endpoint mode =
     (if strip endpoint = [] then None else Some (selected_endpoint endpoint, strip mode))"

record redeem_widgets =
  rw_code :: string
  rw_use_existing :: bool
  rw_endpoint :: string
  rw_create_name :: string
  rw_remote_label :: string
  rw_endpoint_alias :: string

record redeem_choice =
  rc_code :: string
  rc_destination_endpoint_id :: string
  rc_create_endpoint_name :: string
  rc_remote_label :: string
  rc_endpoint_alias :: string

definition redeem_valid :: "bool \<Rightarrow> redeem_widgets \<Rightarrow> bool" where
  "redeem_valid have_endpoints w \<longleftrightarrow> strip (rw_code w) \<noteq> []
     \<and> (if rw_use_existing w \<and> have_endpoints then strip (rw_endpoint w) \<noteq> [] else strip (rw_create_name w) \<noteq> [])"

definition redeem_link_dialog :: "bool \<Rightarrow> redeem_widgets \<Rightarrow> redeem_choice option" where
  "redeem_link_dialog have_endpoints w =
     (if \<not> redeem_valid have_endpoints w then None
      else Some \<lparr>rc_code = upper (strip (rw_code w)),
        rc_destination_endpoint_id =
          (if rw_use_existing w \<and> have_endpoints \<and> strip (rw_endpoint w) \<noteq> [] then selected_endpoint (rw_endpoint w) else []),
        rc_create_endpoint_name = strip (rw_create_name w), rc_remote_label = strip (rw_remote_label w),
        rc_endpoint_alias = strip (rw_endpoint_alias w)\<rparr>)"

section \<open>Identity and links\<close>

definition gui_load_identity :: "'w desktop_env \<Rightarrow> ('w, unit) desktop_action" where
  "gui_load_identity env = then_do (rebuild_client_for_current_url env None True) (\<lambda>_. refresh_everything env)"

definition gui_register_node :: "'w desktop_env \<Rightarrow> ('w, unit) desktop_action" where
  "gui_register_node env st =
     (if strip (dt_base_url st) = [] then show_box ''Server URL is required.'' st
      else then_do (ensure_transport_ready_for_auth env) (\<lambda>ready st.
        if \<not> ready then (st, Inr ())
        else then_do (raised (normalize_server_url (strip (dt_base_url st)))) (\<lambda>url.
             then_do (raised (current_transport_policy st url)) (\<lambda>policy.
             then_do (raised (plain_client url policy)) (\<lambda>c.
             then_do (modify (use_client c)) (\<lambda>_ st.
               run_bg (JobRegister (length (dt_clients st) - 1)
                 (if strip (dt_node_name st) = [] then None else Some (strip (dt_node_name st)))) ''Registering node'' st)))) st) st)"

definition gui_delete_node :: "'w desktop_env \<Rightarrow> ('w, unit) desktop_action" where
  "gui_delete_node env =
     with_client env (\<lambda>n.
       then_do (asked (\<lambda>w. dk_confirm env w ''Delete Node'')) (\<lambda>confirmed.
         if \<not> confirmed then say env ''Delete node cancelled.'' else run_bg (JobDelete n) ''Deleting node''))"

text \<open>The argument of a command with a dialog is what the user enters there, \<^term>\<open>None\<close> for Cancel.\<close>

definition gui_create_endpoint :: "'w desktop_env \<Rightarrow> (string \<times> string \<times> string) option \<Rightarrow> ('w, unit) desktop_action" where
  "gui_create_endpoint env entered =
     with_client env (\<lambda>n.
       case Option.bind entered (\<lambda>(name, kind, alias). endpoint_dialog name kind alias) of
         None \<Rightarrow> yield ()
       | Some (name, kind, alias) \<Rightarrow>
           run_bg (JobEndpoint n name (if kind = [] then None else Some kind) (if alias = [] then name else alias))
             ''Creating endpoint'')"

definition gui_request_link_code :: "'w desktop_env \<Rightarrow> (string \<times> string) option \<Rightarrow> ('w, unit) desktop_action" where
  "gui_request_link_code env entered =
     with_client env (\<lambda>n st.
       if dt_endpoints st = [] then show_box ''You need at least one endpoint before requesting a link code.'' st
       else (case Option.bind entered (\<lambda>(endpoint, mode). request_link_dialog endpoint mode) of
          None \<Rightarrow> (st, Inr ())
        | Some (source, mode) \<Rightarrow> run_bg (JobLinkCode n source mode) ''Requesting link code'' st))"

definition gui_redeem_link_code :: "'w desktop_env \<Rightarrow> redeem_widgets option \<Rightarrow> ('w, unit) desktop_action" where
  "gui_redeem_link_code env entered =
     with_client env (\<lambda>n.
       then_do (modify (prune_pending_codes env)) (\<lambda>_ st.
         case Option.bind entered (redeem_link_dialog (dt_endpoints st \<noteq> [])) of
           None \<Rightarrow> (st, Inr ())
         | Some c \<Rightarrow> run_bg (JobRedeem n (rc_code c) (rc_destination_endpoint_id c) (rc_create_endpoint_name c)
               (rc_remote_label c) (rc_endpoint_alias c)) ''Redeeming link code'' st))"

definition gui_sever_link :: "'w desktop_env \<Rightarrow> ('w, unit) desktop_action" where
  "gui_sever_link env =
     with_client env (\<lambda>n.
       then_do selected_or_complain (\<lambda>c st.
         case c of
           None \<Rightarrow> (st, Inr ())
         | Some c \<Rightarrow>
             let l = cv_local_endpoint_id c; r = cv_remote_endpoint_id c in
             (case get_link_record l r st of
                None \<Rightarrow> show_box no_link_record st
              | Some d \<Rightarrow>
                  let i = str_or_empty (dict_get d ''link_id'') in
                  if i = [] \<or> startswith i ''local-'' then
                    show_box ''This conversation has no server-side link to sever.'' st
                  else then_do (asked (\<lambda>w. dk_confirm env w ''Sever Link'')) (\<lambda>confirmed.
                    if \<not> confirmed then say env ''Sever link cancelled.''
                    else run_bg (JobSever n i l r) ''Severing link'') st)))"

section \<open>Sending\<close>

definition desktop_meta :: "dict \<Rightarrow> dict" where
  "desktop_meta extra = build_client_meta ''arqs_messages_gui'' None extra"

definition plain_text :: string where
  "plain_text = ''text/plain; charset=utf-8''"

definition gui_send_message :: "'w desktop_env \<Rightarrow> ('w, unit) desktop_action" where
  "gui_send_message env =
     with_client env (\<lambda>n.
       then_do selected_or_complain (\<lambda>c st.
         case c of
           None \<Rightarrow> (st, Inr ())
         | Some c \<Rightarrow>
             let body = strip (dt_message_entry st) in
             if body = [] then (st, Inr ())
             else then_do (raised (build_v1_headers ''message.v1'' (v1_defaults plain_text))) (\<lambda>headers.
               run_bg (JobSend n \<lparr>og_local_endpoint_id = cv_local_endpoint_id c,
                 og_remote_endpoint_id = cv_remote_endpoint_id c, og_body = body, og_data = [], og_headers = headers,
                 og_meta = desktop_meta [], og_source = ''manual_message'', og_clear_entry = True,
                 og_before = ''Message sent ('', og_after = '').''\<rparr>) ''Sending message'') st))"

text \<open>\<open>PING_MESSAGE_PATTERN\<close>; \<open>int()\<close> refuses more than 4300 digits.\<close>

definition parse_ping_number :: "string \<Rightarrow> int option" where
  "parse_ping_number body =
     (let t = strip body; rest = drop 4 t; digits = lstrip rest in
      if lower (take 4 t) = ''ping'' \<and> rest \<noteq> [] \<and> is_space (hd rest) \<and> digits \<noteq> [] \<and> list_all is_digit digits
         \<and> length digits \<le> 4300
      then Some (int (nat_of_digits digits)) else None)"

definition ping_header :: string where
  "ping_header = ''x-arqs-ping''"

definition is_ping_marker :: "dict \<Rightarrow> bool" where
  "is_ping_marker headers \<longleftrightarrow> list_ex (\<lambda>kv. lower (strip (fst kv)) = ping_header
     \<and> lower (strip (str_value (snd kv))) \<in> {''1'', ''true'', ''yes'', ''ping''}) headers"

definition is_ping_packet :: "dict \<Rightarrow> string \<Rightarrow> bool" where
  "is_ping_packet headers body \<longleftrightarrow>
     (get_packet_type headers = Some ''ping.v1'' \<or> is_ping_marker headers) \<and> parse_ping_number body \<noteq> None"

text \<open>An empty identifier is one that is not given. The chain gets a new identifier without one.\<close>

definition ping_packet ::
  "'w desktop_env \<Rightarrow> 'w desktop \<Rightarrow> string \<Rightarrow> string \<Rightarrow> int \<Rightarrow> string \<Rightarrow> string \<Rightarrow> py_exc + outgoing" where
  "ping_packet env st l r number chain_id answered =
     try_then (build_v1_headers ''ping.v1'' ((v1_defaults plain_text)\<lparr>vo_extra_headers := [(ping_header, JStr ''1'')]\<rparr>)) (\<lambda>headers.
       Inr \<lparr>og_local_endpoint_id = l, og_remote_endpoint_id = r, og_body = ''ping '' @ str_of_int number,
         og_data = [(''message_kind'', JStr ''gui_ping''), (''ping_number'', JInt number),
             (''ping_chain_id'', JStr (if chain_id = [] then dk_uuid4 env (dt_world st) else chain_id)),
             (''local_pingback_delay_seconds'', dk_delay env (strip (dt_pingback_delay st))),
             (''ping_sent_at_utc'', JStr (dk_now env (dt_world st)))]
           @ (if answered = [] then [] else [(''reply_to_packet_id'', JStr answered)]),
         og_headers = headers, og_meta = desktop_meta [(''message_kind'', JStr ''gui_ping'')], og_source = ''manual_ping'',
         og_clear_entry = False, og_before = ''Ping sent ('', og_after = '').''\<rparr>)"

definition gui_send_ping :: "'w desktop_env \<Rightarrow> ('w, unit) desktop_action" where
  "gui_send_ping env =
     with_client env (\<lambda>n.
       then_do selected_or_complain (\<lambda>c st.
         case c of
           None \<Rightarrow> (st, Inr ())
         | Some c \<Rightarrow>
             then_do (raised (ping_packet env st (cv_local_endpoint_id c) (cv_remote_endpoint_id c) 1 [] [])) (\<lambda>og.
               run_bg (JobSend n og) ''Sending ping'') st))"

definition sent_message :: "outgoing \<Rightarrow> sent_result \<Rightarrow> dict" where
  "sent_message og s =
     [(''packet_id'', JStr (se_packet_id s)), (''delivery_id'', optional_str (se_delivery_id s)),
      (''direction'', JStr ''outgoing''), (''local_endpoint_id'', JStr (og_local_endpoint_id og)),
      (''remote_endpoint_id'', JStr (og_remote_endpoint_id og)), (''body'', JStr (og_body og)),
      (''data'', JObj (og_data og)), (''headers'', JObj (og_headers og)), (''meta'', JObj (og_meta og)),
      (''created_at'', JStr (se_sent_at s)), (''received_at'', JNull), (''delivery_state'', JStr (se_result s)),
      (''source'', JStr (og_source og))]"

text \<open>An outgoing ping waits for the next number of its chain.\<close>

definition remember_outgoing_ping :: "outgoing \<Rightarrow> sent_result \<Rightarrow> 'w desktop \<Rightarrow> 'w desktop" where
  "remember_outgoing_ping og s st =
     (let chain_id = str_or_empty (dict_get (og_data og) ''ping_chain_id'');
          l = og_local_endpoint_id og; r = og_remote_endpoint_id og in
      case parse_ping_number (og_body og) of
        None \<Rightarrow> st
      | Some number \<Rightarrow>
          if chain_id = [] then st
          else st\<lparr>dt_pings := AList.update (chain_id, number + 1, l, r)
            [(''packet_id'', JStr (se_packet_id s)), (''sent_at'', JStr (se_sent_at s)), (''local_endpoint_id'', JStr l),
             (''remote_endpoint_id'', JStr r), (''outgoing_ping_number'', JInt number), (''source'', JStr (og_source og)),
             (''local_pingback_delay_seconds'', dict_get (og_data og) ''local_pingback_delay_seconds'')] (dt_pings st)\<rparr>)"

definition finalize_sent_packet :: "'w desktop_env \<Rightarrow> outgoing \<Rightarrow> sent_result \<Rightarrow> ('w, unit) desktop_action" where
  "finalize_sent_packet env og s =
     (let l = og_local_endpoint_id og; r = og_remote_endpoint_id og in
      then_do (modify (append_message (sent_message og s))) (\<lambda>_.
      then_do (modify (\<lambda>st. if get_link_record l r st = None then st
          else save_links (update_record l r [(''updated_at'', JStr (se_sent_at s))] st))) (\<lambda>_.
      then_do (refresh_conversations env) (\<lambda>_.
      then_do (modify (\<lambda>st. if og_clear_entry og then st\<lparr>dt_message_entry := ''''\<rparr> else st)) (\<lambda>_.
      then_do (modify (\<lambda>st. if is_ping_packet (og_headers og) (og_body og) then remember_outgoing_ping og s st else st)) (\<lambda>_.
        say env (og_before og @ se_result s @ og_after og)))))))"

section \<open>Incoming packets\<close>

definition pingback :: "'w desktop_env \<Rightarrow> inbox_item \<Rightarrow> int \<Rightarrow> nat \<Rightarrow> ('w, unit) desktop_action" where
  "pingback env m number n st =
     (let chain = dict_get (ii_data m) ''ping_chain_id'';
          chain_id = (if truthy chain then str_value chain else ii_packet_id m) in
      then_do (raised (ping_packet env st (ii_to_endpoint_id m) (ii_from_endpoint_id m) (number + 1) chain_id (ii_packet_id m))) (\<lambda>og.
        run_bg_quiet (JobSend n (og\<lparr>og_source := ''auto_pingback'', og_before := ''Auto pingback sent ('',
          og_after := '') as ping '' @ str_of_int (number + 1) @ ''.''\<rparr>))) st)"

definition schedule_pingback_if_needed :: "'w desktop_env \<Rightarrow> inbox_item \<Rightarrow> ('w, unit) desktop_action" where
  "schedule_pingback_if_needed env m st =
     (if \<not> dt_enable_pingback st \<or> \<not> is_ping_packet (ii_headers m) (ii_body m) then (st, Inr ())
      else (case parse_ping_number (ii_body m) of
         None \<Rightarrow> (st, Inr ())
       | Some number \<Rightarrow>
           then_do (require_desktop_client env True) (\<lambda>c. case c of None \<Rightarrow> yield () | Some n \<Rightarrow> pingback env m number n) st))"

definition received_message :: "inbox_item \<Rightarrow> dict" where
  "received_message m =
     [(''delivery_id'', JStr (ii_delivery_id m)), (''packet_id'', JStr (ii_packet_id m)), (''direction'', JStr ''incoming''),
      (''local_endpoint_id'', JStr (ii_to_endpoint_id m)), (''remote_endpoint_id'', JStr (ii_from_endpoint_id m)),
      (''body'', JStr (ii_body m)), (''data'', JObj (ii_data m)), (''headers'', JObj (ii_headers m)),
      (''meta'', JObj (ii_meta m)), (''created_at'', JStr (ii_created_at m)), (''received_at'', JStr (ii_received_at m))]"

text \<open>The answer to a ping that waits: the text about the round trip goes through the queue.\<close>

definition log_ping_measurement :: "'w desktop_env \<Rightarrow> inbox_item \<Rightarrow> 'w desktop \<Rightarrow> 'w desktop" where
  "log_ping_measurement env m st =
     (let chain_id = str_or_empty (dict_get (ii_data m) ''ping_chain_id'') in
      case parse_ping_number (ii_body m) of
        None \<Rightarrow> st
      | Some number \<Rightarrow>
          if chain_id = [] then st
          else (let key = (chain_id, number, ii_to_endpoint_id m, ii_from_endpoint_id m) in
            case map_of (dt_pings st) key of
              None \<Rightarrow> st
            | Some pending \<Rightarrow>
                st\<lparr>dt_pings := AList.delete key (dt_pings st),
                  dt_queue := dt_queue st @ [UiStatus (dk_rtt env (dict_get pending ''sent_at'') (ii_received_at m)
                    (dict_get (ii_data m) ''local_pingback_delay_seconds''))]\<rparr>))"

definition handle_incoming_message_item :: "'w desktop_env \<Rightarrow> inbox_item \<Rightarrow> ('w, bool) desktop_action" where
  "handle_incoming_message_item env m st =
     (if ii_delivery_id m \<in> dt_seen st then (st, Inr False)
      else then_do (modify (\<lambda>st. ensure_message_link_stub env (ii_to_endpoint_id m) (ii_from_endpoint_id m)
             (append_message (received_message m) (st\<lparr>dt_seen := insert (ii_delivery_id m) (dt_seen st)\<rparr>)))) (\<lambda>_.
           then_do (modify (log_ping_measurement env m)) (\<lambda>_.
           then_do (schedule_pingback_if_needed env m) (\<lambda>_. yield True))) st)"

fun handle_items :: "'w desktop_env \<Rightarrow> inbox_item list \<Rightarrow> ('w, nat) desktop_action" where
  "handle_items env [] = yield 0"
| "handle_items env (m # ms) =
     then_do (handle_incoming_message_item env m) (\<lambda>is_new.
     then_do (handle_items env ms) (\<lambda>n. yield (if is_new then Suc n else n)))"

definition report_received :: "'w desktop_env \<Rightarrow> nat \<Rightarrow> ('w, unit) desktop_action" where
  "report_received env n =
     then_do (modify save_seen_deliveries) (\<lambda>_.
     then_do (refresh_conversations env) (\<lambda>_. say env (''Received '' @ str_of_nat n @ '' message(s).'')))"

definition handle_poll_deliveries :: "'w desktop_env \<Rightarrow> inbox_item list \<Rightarrow> ('w, unit) desktop_action" where
  "handle_poll_deliveries env items =
     then_do (handle_items env items) (\<lambda>n.
       if n = 0 then yield () else then_do (report_received env n) (\<lambda>_. refresh_everything env))"

definition done_poll :: "'w desktop_env \<Rightarrow> inbox_item list \<Rightarrow> ('w, unit) desktop_action" where
  "done_poll env items =
     then_do (handle_items env items) (\<lambda>n.
     then_do (if n = 0 then say env ''Poll complete. No new messages.'' else report_received env n) (\<lambda>_. refresh_everything env))"

definition item_of :: "'w desktop_env \<Rightarrow> 'w \<Rightarrow> client_delivery \<Rightarrow> inbox_item" where
  "item_of env w d =
     (let p = cd_packet d in
      \<lparr>ii_delivery_id = cd_delivery_id d, ii_packet_id = cp_packet_id p, ii_from_endpoint_id = cp_from_endpoint_id p,
       ii_to_endpoint_id = cp_to_endpoint_id p, ii_body = str_or_empty (cp_body p), ii_data = cp_data p,
       ii_headers = cp_headers p, ii_meta = cp_meta p, ii_created_at = dk_isoformat env (cp_created_at p),
       ii_received_at = dk_now env w\<rparr>)"

text \<open>\<open>_ack_delivery_now\<close>: a failure is logged and the item is used all the same.\<close>

definition ack_delivery_now :: "'w desktop_env \<Rightarrow> nat \<Rightarrow> string \<Rightarrow> ('w, unit) desktop_action" where
  "ack_delivery_now env n i st =
     (case on_client n (\<lambda>wc. dk_ack env wc i) st of (st, _) \<Rightarrow> (st, Inr ()))"

fun ack_items :: "'w desktop_env \<Rightarrow> nat \<Rightarrow> client_delivery list \<Rightarrow> ('w, inbox_item list) desktop_action" where
  "ack_items env n [] = yield []"
| "ack_items env n (d # ds) =
     (\<lambda>st. let m = item_of env (dt_world st) d in
       then_do (ack_delivery_now env n (cd_delivery_id d)) (\<lambda>_.
       then_do (ack_items env n ds) (\<lambda>ms. yield (m # ms))) st)"

definition fetch_inbox_items_with_ack :: "'w desktop_env \<Rightarrow> nat \<Rightarrow> int \<Rightarrow> ('w, inbox_item list) desktop_action" where
  "fetch_inbox_items_with_ack env n wait =
     then_do (on_client n (\<lambda>wc. dk_poll env wc wait)) (ack_items env n)"

definition gui_poll_inbox :: "'w desktop_env \<Rightarrow> int option \<Rightarrow> ('w, unit) desktop_action" where
  "gui_poll_inbox env wait =
     with_client env (\<lambda>n.
       then_do (case wait of None \<Rightarrow> get_poll_wait_seconds 20 | Some w \<Rightarrow> yield (max 0 w)) (\<lambda>s.
         run_bg (JobPoll n s) ''Polling inbox''))"

section \<open>The poll thread\<close>

definition stop_poll_thread :: "'w desktop \<Rightarrow> 'w desktop" where
  "stop_poll_thread st = st\<lparr>dt_poll_stop := True\<rparr>"

text \<open>The event is set and cleared at once: a thread that does not look at it in between goes on.\<close>

definition start_poll_thread :: "'w desktop_env \<Rightarrow> ('w, unit) desktop_action" where
  "start_poll_thread env =
     then_do (modify (\<lambda>st. (stop_poll_thread st)\<lparr>dt_poll_stop := False, dt_pollers := Suc (dt_pollers st)\<rparr>)) (\<lambda>_.
       say env ''Automatically fetching inbox enabled.'')"

text \<open>The argument is the state of the check box after the click.\<close>

definition toggle_active_polling :: "'w desktop_env \<Rightarrow> bool \<Rightarrow> ('w, unit) desktop_action" where
  "toggle_active_polling env enabled =
     then_do (modify (\<lambda>st. st\<lparr>dt_active_poll := enabled\<rparr>)) (\<lambda>_.
     then_do (if enabled then ensure_transport_ready_for_auth env else yield True) (\<lambda>ready.
       if \<not> ready then modify (\<lambda>st. save_config env (st\<lparr>dt_active_poll := False,
           dt_config := dict_put ''active_polling'' (JBool False) (dt_config st)\<rparr>))
       else then_do (modify (save_config env)) (\<lambda>_.
         if enabled then start_poll_thread env else modify stop_poll_thread)))"

text \<open>One turn of the loop of a poll thread.\<close>

definition poll_turn :: "'w desktop_env \<Rightarrow> 'w desktop \<Rightarrow> 'w desktop" where
  "poll_turn env st =
     (if dt_poll_stop st then st\<lparr>dt_pollers := dt_pollers st - 1\<rparr>
      else if 0 < dt_busy st then st
      else (case dt_client st of
         None \<Rightarrow> st
       | Some n \<Rightarrow>
           (case then_do (get_poll_wait_seconds 20) (fetch_inbox_items_with_ack env n) st of
              (st, Inr items) \<Rightarrow> st\<lparr>dt_queue := dt_queue st @ [UiPollResult items]\<rparr>
            | (st, Inl e) \<Rightarrow> st\<lparr>dt_queue := dt_queue st @ [UiPollError e]\<rparr>)))"

section \<open>Jobs\<close>

definition job_redeem ::
  "'w desktop_env \<Rightarrow> nat \<Rightarrow> string \<Rightarrow> string \<Rightarrow> string \<Rightarrow> ('w, client_link \<times> client_endpoint option) desktop_action" where
  "job_redeem env n code destination create_name =
     then_do (if create_name = [] then yield None
        else then_do (on_client n (\<lambda>wc. dk_create_endpoint env wc create_name (Some ''message''))) (\<lambda>e. yield (Some e))) (\<lambda>created.
     then_do (on_client n (\<lambda>wc. dk_redeem_code env wc code
        (case created of None \<Rightarrow> destination | Some e \<Rightarrow> ce_endpoint_id e))) (\<lambda>link. yield (link, created)))"

definition job_send :: "'w desktop_env \<Rightarrow> nat \<Rightarrow> outgoing \<Rightarrow> ('w, sent_result) desktop_action" where
  "job_send env n og st =
     (let sent_at = dk_now env (dt_world st) in
      then_do (on_client n (\<lambda>wc. dk_send env wc og)) (\<lambda>r.
        yield \<lparr>se_packet_id = sp_packet_id r, se_delivery_id = sp_delivery_id r, se_result = sp_result r, se_sent_at = sent_at\<rparr>) st)"

definition job_register :: "'w desktop_env \<Rightarrow> nat \<Rightarrow> string option \<Rightarrow> ('w, completion) desktop_action" where
  "job_register env n name =
     then_do (on_client n (\<lambda>wc. dk_register env wc name)) (\<lambda>i.
     then_do (modify (\<lambda>st. st\<lparr>df_identity := Some (save_identity i)\<rparr>)) (\<lambda>_.
       yield (DoneRegister (ni_node_id i) (ni_default_endpoint_id i))))"

definition job_sever :: "'w desktop_env \<Rightarrow> nat \<Rightarrow> string \<Rightarrow> string \<Rightarrow> string \<Rightarrow> ('w, completion) desktop_action" where
  "job_sever env n i l r st =
     (case on_client n (\<lambda>wc. dk_revoke_link env wc i) st of
        (st, Inl e) \<Rightarrow> (st, Inr (DoneSever l r (Some (exc_text e))))
      | (st, Inr _) \<Rightarrow> (st, Inr (DoneSever l r None)))"

fun run_job :: "'w desktop_env \<Rightarrow> job \<Rightarrow> ('w, completion) desktop_action" where
  "run_job env (JobRegister n name) = job_register env n name"
| "run_job env (JobDelete n) = then_do (on_client n (dk_delete_identity env)) (\<lambda>r. yield (DoneDelete r))"
| "run_job env (JobEndpoint n name kind alias) =
     then_do (on_client n (\<lambda>wc. dk_create_endpoint env wc name kind)) (\<lambda>e. yield (DoneEndpoint alias e))"
| "run_job env (JobLinkCode n source mode) =
     then_do (on_client n (\<lambda>wc. dk_request_code env wc source mode)) (\<lambda>c. yield (DoneLinkCode c))"
| "run_job env (JobRedeem n code destination create_name remote_label alias) =
     then_do (job_redeem env n code destination create_name) (\<lambda>(link, created).
       yield (DoneRedeem code remote_label alias link created))"
| "run_job env (JobSever n i l r) = job_sever env n i l r"
| "run_job env (JobSend n og) = then_do (job_send env n og) (\<lambda>s. yield (DoneSend og s))"
| "run_job env (JobPoll n wait) = then_do (fetch_inbox_items_with_ack env n wait) (\<lambda>ms. yield (DonePoll ms))"
| "run_job env (JobRefresh n) =
     then_do (on_client n (dk_list_endpoints env)) (\<lambda>es.
     then_do (on_client n (dk_list_links env)) (\<lambda>ls. yield (DoneRefresh es ls)))"

text \<open>A thread of \<open>run_bg\<close> announces itself first, and reports that it is idle at its end.\<close>

definition begin_job :: "nat \<Rightarrow> 'w desktop \<Rightarrow> 'w desktop" where
  "begin_job i st =
     (case dt_jobs st ! i of
        (Some label, False, j) \<Rightarrow>
          st\<lparr>dt_jobs := (dt_jobs st)[i := (Some label, True, j)], dt_queue := dt_queue st @ [UiBusy label]\<rparr>
      | _ \<Rightarrow> st)"

definition end_job :: "'w desktop_env \<Rightarrow> nat \<Rightarrow> 'w desktop \<Rightarrow> 'w desktop" where
  "end_job env i st =
     (case dt_jobs st ! i of (label, _, j) \<Rightarrow>
      case run_job env j (st\<lparr>dt_jobs := take i (dt_jobs st) @ drop (Suc i) (dt_jobs st)\<rparr>) of (st, r) \<Rightarrow>
        st\<lparr>dt_queue := dt_queue st
          @ [case r of Inr c \<Rightarrow> UiSuccess c | Inl e \<Rightarrow> if label = None then UiQuietError e else UiError e]
          @ (case label of None \<Rightarrow> [] | Some t \<Rightarrow> [UiIdle t])\<rparr>)"

section \<open>Completions\<close>

definition put_alias :: "'w desktop_env \<Rightarrow> string \<Rightarrow> string \<Rightarrow> 'w desktop \<Rightarrow> 'w desktop" where
  "put_alias env i alias st =
     save_config env (st\<lparr>dt_config := dict_put ''local_endpoint_aliases''
       (JObj (dict_put i (JStr alias) (dict_of (dict_get (dt_config st) ''local_endpoint_aliases'')))) (dt_config st)\<rparr>)"

definition deleted_summary :: "identity_delete_result \<Rightarrow> string" where
  "deleted_summary r =
     ''Deleted node '' @ idr_node_id r @ '' (endpoints='' @ str_of_int (idr_endpoints_deleted r)
     @ '', links='' @ str_of_int (idr_links_deleted r) @ '', routes='' @ str_of_int (idr_routes_deleted r)
     @ '', link_codes='' @ str_of_int (idr_link_codes_deleted r) @ '', packets='' @ str_of_int (idr_packets_deleted r)
     @ '', deliveries='' @ str_of_int (idr_deliveries_deleted r)
     @ '', send_events='' @ str_of_int (idr_send_events_deleted r) @ '').''"

definition done_delete :: "'w desktop_env \<Rightarrow> identity_delete_result \<Rightarrow> ('w, unit) desktop_action" where
  "done_delete env r =
     then_do (modify (\<lambda>st. (stop_poll_thread st)\<lparr>dt_active_poll := False,
        dt_config := dict_put ''active_polling'' (JBool False) (dt_config st), df_identity := None\<rparr>)) (\<lambda>_.
     then_do (clear_local_identity_state env) (\<lambda>_.
     then_do (rebuild_client_for_current_url env None False) (\<lambda>_.
     then_do (say env (deleted_summary r)) (\<lambda>_. show_box (deleted_summary r)))))"

definition LOCAL_LINK_CODE_TTL_SECONDS :: int where
  "LOCAL_LINK_CODE_TTL_SECONDS = 15 * 60"

definition pending_code :: "'w desktop_env \<Rightarrow> 'w \<Rightarrow> client_link_code \<Rightarrow> dict" where
  "pending_code env w c =
     [(''code'', JStr (cc_code c)), (''link_code_id'', JStr (cc_link_code_id c)),
      (''source_endpoint_id'', JStr (cc_source_endpoint_id c)), (''requested_mode'', cc_requested_mode c),
      (''created_at'', JStr (dk_isoformat env (cc_created_at c))), (''expires_at'', JStr (dk_isoformat env (cc_expires_at c))),
      (''local_expires_at'', JStr (dk_future env w LOCAL_LINK_CODE_TTL_SECONDS)), (''status'', JStr (cc_status c))]"

definition done_link_code :: "'w desktop_env \<Rightarrow> client_link_code \<Rightarrow> ('w, unit) desktop_action" where
  "done_link_code env c =
     then_do (modify (\<lambda>st. (save_pending_codes (st\<lparr>dt_pending_codes := [pending_code env (dt_world st) c]\<rparr>))
        \<lparr>dt_clipboard := cc_code c\<rparr>)) (\<lambda>_.
     then_do (say env (''Link code '' @ cc_code c @ '' created and copied to clipboard.'')) (\<lambda>_.
     then_do (show_box (''Link code:'' @ [newline_char, newline_char] @ cc_code c @ [newline_char, newline_char]
        @ ''Copied to clipboard.'')) (\<lambda>_. refresh_everything env)))"

definition done_redeem ::
  "'w desktop_env \<Rightarrow> string \<Rightarrow> string \<Rightarrow> string \<Rightarrow> client_link \<Rightarrow> client_endpoint option \<Rightarrow> ('w, unit) desktop_action" where
  "done_redeem env code remote_label alias link created =
     then_do (modify (\<lambda>st. case created of
          None \<Rightarrow> st
        | Some e \<Rightarrow> put_alias env (ce_endpoint_id e)
            (if alias \<noteq> [] then alias
             else if truthy (ce_endpoint_name e) then str_value (ce_endpoint_name e) else ce_endpoint_id e) st)) (\<lambda>_.
     then_do (modify (upsert_link_record env link remote_label)) (\<lambda>_.
     then_do (modify (\<lambda>st. save_pending_codes (st\<lparr>dt_pending_codes :=
        filter (\<lambda>c. dict_get c ''code'' \<noteq> JStr (upper (strip code))) (dt_pending_codes st)\<rparr>))) (\<lambda>_.
     then_do (say env (''Redeemed link code and saved link '' @ cl_link_id link @ ''.'')) (\<lambda>_. refresh_everything env))))"

definition done_sever :: "'w desktop_env \<Rightarrow> string \<Rightarrow> string \<Rightarrow> string option \<Rightarrow> ('w, unit) desktop_action" where
  "done_sever env l r revoke_error =
     (case revoke_error of
        Some (c # t) \<Rightarrow>
          then_do (say env (''Server-side link revoke failed: '' @ c # t)) (\<lambda>_.
            show_box (''Server-side revoke failed. Local history and contact nickname were kept:''
              @ [newline_char, newline_char] @ c # t))
      | _ \<Rightarrow>
          then_do (mark_link_severed_local env l r) (\<lambda>_.
            say env ''Link severed. Local message history and contact nickname were kept.''))"

definition done_refresh :: "'w desktop_env \<Rightarrow> client_endpoint list \<Rightarrow> client_link list \<Rightarrow> ('w, unit) desktop_action" where
  "done_refresh env es ls =
     then_do (modify (\<lambda>st. rebuild_server_link_records env ls (st\<lparr>dt_endpoints := es\<rparr>))) (\<lambda>_.
     then_do (refresh_conversations env) (\<lambda>_ st.
       say env (''Loaded '' @ str_of_nat (length (dt_endpoints st)) @ '' endpoints and ''
         @ str_of_nat (length (dt_links st)) @ '' local link records.'') st))"

definition done_endpoint :: "'w desktop_env \<Rightarrow> string \<Rightarrow> client_endpoint \<Rightarrow> ('w, unit) desktop_action" where
  "done_endpoint env alias e =
     then_do (modify (put_alias env (ce_endpoint_id e) alias)) (\<lambda>_.
     then_do (say env (''Created endpoint '' @ (if truthy (ce_endpoint_name e) then str_value (ce_endpoint_name e)
        else ce_endpoint_id e) @ ''.'')) (\<lambda>_. refresh_everything env))"

definition done_register :: "'w desktop_env \<Rightarrow> string \<Rightarrow> string \<Rightarrow> ('w, unit) desktop_action" where
  "done_register env node endpoint =
     then_do (rebuild_client_for_current_url env None True) (\<lambda>_.
     then_do (say env (''Registered node '' @ node @ ''. Default endpoint '' @ endpoint @ '' saved to disk.'')) (\<lambda>_.
       refresh_everything env))"

fun complete :: "'w desktop_env \<Rightarrow> completion \<Rightarrow> ('w, unit) desktop_action" where
  "complete env (DoneRegister node endpoint) = done_register env node endpoint"
| "complete env (DoneDelete r) = done_delete env r"
| "complete env (DoneEndpoint alias e) = done_endpoint env alias e"
| "complete env (DoneLinkCode c) = done_link_code env c"
| "complete env (DoneRedeem code remote_label alias link created) = done_redeem env code remote_label alias link created"
| "complete env (DoneSever l r revoke_error) = done_sever env l r revoke_error"
| "complete env (DoneSend og s) = finalize_sent_packet env og s"
| "complete env (DonePoll items) = done_poll env items"
| "complete env (DoneRefresh es ls) = done_refresh env es ls"

section \<open>The queue\<close>

definition desktop_error :: "'w desktop_env \<Rightarrow> bool \<Rightarrow> py_exc \<Rightarrow> ('w, unit) desktop_action" where
  "desktop_error env popup e =
     (let text = (case e of ARQSHTTPError code detail \<Rightarrow> ''HTTP '' @ str_of_nat code @ '': '' @ detail | _ \<Rightarrow> exc_text e) in
      then_do (say env text) (\<lambda>_. if popup then show_box text else yield ()))"

fun process_item :: "'w desktop_env \<Rightarrow> ui_item \<Rightarrow> ('w, unit) desktop_action" where
  "process_item env (UiBusy label) =
     then_do (modify (\<lambda>st. st\<lparr>dt_busy := Suc (dt_busy st)\<rparr>)) (\<lambda>_. say env (label @ ''...''))"
| "process_item env (UiIdle label) = modify (\<lambda>st. st\<lparr>dt_busy := dt_busy st - 1\<rparr>)"
| "process_item env (UiError e) = desktop_error env True e"
| "process_item env (UiSuccess c) = complete env c"
| "process_item env (UiQuietError e) = desktop_error env False e"
| "process_item env (UiPollResult items) = handle_poll_deliveries env items"
| "process_item env (UiPollError e) = desktop_error env False e"
| "process_item env (UiStatus t) = say env t"

text \<open>One round of the loop of \<open>_process_ui_queue\<close>: an exception ends the entry and goes into the status line.\<close>

definition queue_turn :: "'w desktop_env \<Rightarrow> 'w desktop \<Rightarrow> 'w desktop" where
  "queue_turn env st =
     (case dt_queue st of
        [] \<Rightarrow> st
      | q # qs \<Rightarrow>
          (case process_item env q (st\<lparr>dt_queue := qs\<rparr>) of
             (st, Inr _) \<Rightarrow> st
           | (st, Inl e) \<Rightarrow> st\<lparr>dt_status := ''UI queue error: '' @ dk_class env e @ '': '' @ exc_text e\<rparr>))"
end
