(* ===== verification/DesktopRun.thy ===== *)
theory DesktopRun
  imports DesktopOps
begin

text \<open>
  The life of the desktop client: its start from the files, the commands of its widgets, its end, and \<open>desktop_step\<close>,
  which interleaves commands, threads and the queue in any order.
\<close>

section \<open>Start and end\<close>

definition dicts_of :: "json \<Rightarrow> py_exc + dict list" where
  "dicts_of v =
     try_then (iterate v) (map_try (\<lambda>x. case x of JObj d \<Rightarrow> Inr d
       | _ \<Rightarrow> Inl (OtherException ''object has no attribute get'')))"

definition strings_of :: "json \<Rightarrow> py_exc + string set" where
  "strings_of v = try_then (iterate v) (\<lambda>xs. Inr (set (List.map_filter (\<lambda>x. case x of JStr s \<Rightarrow> Some s | _ \<Rightarrow> None) xs)))"

definition merged_config :: "json option \<Rightarrow> py_exc + dict" where
  "merged_config file =
     (case load_json file (JObj DEFAULT_CONFIG) of
        JObj d \<Rightarrow> Inr (dict_update DEFAULT_CONFIG d)
      | _ \<Rightarrow> Inl (TypeError ''object is not a dictionary''))"

definition config_text :: "dict \<Rightarrow> string \<Rightarrow> string" where
  "config_text config k = str_value (dict_get config k)"

text \<open>A new process: nothing but the world and the files is left of the state before.\<close>

definition fresh_desktop :: "dict \<Rightarrow> 'w desktop \<Rightarrow> 'w desktop" where
  "fresh_desktop config st =
     \<lparr>dt_world = dt_world st, dt_config = config, dt_links = [], dt_pending_codes = [], dt_seen = {},
      dt_message_index = {}, dt_messages = [], dt_clients = [], dt_client = None, dt_endpoints = [],
      dt_conversations = [], dt_selected = dict_get config ''last_selected_conversation'', dt_queue = [], dt_jobs = [],
      dt_pollers = 0, dt_poll_stop = False, dt_busy = 0, dt_probe_cache = [], dt_pings = [],
      dt_base_url = config_text config ''base_url'', dt_node_name = config_text config ''node_name'',
      dt_active_poll = truthy (dict_get config ''active_polling''),
      dt_poll_wait = config_text config ''poll_wait_seconds'',
      dt_enable_pingback = truthy (dict_get config ''enable_pingback''),
      dt_pingback_delay = config_text config ''pingback_delay_seconds'', dt_message_entry = '''', dt_status = ''Ready.'',
      dt_clipboard = dt_clipboard st, dt_header = ''No conversation selected'', dt_history = '''', dt_boxes = [],
      df_config = df_config st, df_links = df_links st, df_pending_codes = df_pending_codes st, df_seen = df_seen st,
      df_messages = df_messages st, df_identity = df_identity st\<rparr>"

definition load_lists :: "'w desktop_env \<Rightarrow> ('w, unit) desktop_action" where
  "load_lists env st =
     then_do (raised (dicts_of (load_json (df_links st) (JList [])))) (\<lambda>ls.
     then_do (modify (\<lambda>st. st\<lparr>dt_links := ls\<rparr>)) (\<lambda>_ st.
     then_do (raised (dicts_of (load_json (df_pending_codes st) (JList [])))) (\<lambda>cs.
     then_do (modify (\<lambda>st. prune_pending_codes env (st\<lparr>dt_pending_codes := cs\<rparr>))) (\<lambda>_ st.
     then_do (raised (strings_of (load_json (df_seen st) (JList [])))) (\<lambda>seen.
     then_do (modify (\<lambda>st. st\<lparr>dt_seen := seen\<rparr>)) (\<lambda>_. load_messages)) st)) st)) st"

text \<open>The end of \<open>App.__init__\<close>, once the conversations are there.\<close>

definition finish_start :: "'w desktop_env \<Rightarrow> ('w, unit) desktop_action" where
  "finish_start env =
     then_do (restore_last_selection env) (\<lambda>_.
     then_do (modify (\<lambda>st. st\<lparr>dt_active_poll := truthy (dict_get (dt_config st) ''active_polling'')\<rparr>)) (\<lambda>_.
     then_do (\<lambda>st. if dt_client st = None then (st, Inr ()) else refresh_everything env st) (\<lambda>_ st.
       if truthy (dict_get (dt_config st) ''active_polling'') then start_poll_thread env st else (st, Inr ()))))"

text \<open>\<open>App.__init__\<close>; an exception in it ends the program.\<close>

definition start_desktop :: "'w desktop_env \<Rightarrow> ('w, unit) desktop_action" where
  "start_desktop env st =
     then_do (raised (merged_config (df_config st))) (\<lambda>config.
     then_do (modify (fresh_desktop config)) (\<lambda>_.
     then_do (load_lists env) (\<lambda>_.
     then_do (rebuild_client_for_current_url env None True) (\<lambda>_.
     then_do (refresh_conversations env) (\<lambda>_. finish_start env))))) st"

text \<open>\<open>on_close\<close>; the threads and the queue end with the process.\<close>

definition close_desktop :: "'w desktop_env \<Rightarrow> 'w desktop \<Rightarrow> 'w desktop" where
  "close_desktop env st = save_config env (stop_poll_thread st)"

section \<open>Commands\<close>

text \<open>What the user does; typing into a widget and the check box of the pingback included.\<close>

datatype desktop_command =
    TypeUrl string
  | LeaveUrl
  | TypeNodeName string
  | TypePollWait string
  | TypeMessage string
  | SetPingback bool string
  | LoadIdentity
  | RegisterNode
  | DeleteNode
  | CreateEndpoint "(string \<times> string \<times> string) option"
  | RequestLinkCode "(string \<times> string) option"
  | RedeemLinkCode "redeem_widgets option"
  | Refresh
  | RefreshInbox
  | TogglePolling bool
  | SelectConversation "nat option"
  | RenameContact
  | SeverLink
  | DeleteHistory
  | CopyCode
  | SendMessage
  | SendPing

fun run_command :: "'w desktop_env \<Rightarrow> desktop_command \<Rightarrow> ('w, unit) desktop_action" where
  "run_command env (TypeUrl t) = modify (\<lambda>st. st\<lparr>dt_base_url := t\<rparr>)"
| "run_command env LeaveUrl = on_server_url_focus_out env"
| "run_command env (TypeNodeName t) = modify (\<lambda>st. st\<lparr>dt_node_name := t\<rparr>)"
| "run_command env (TypePollWait t) = modify (\<lambda>st. st\<lparr>dt_poll_wait := t\<rparr>)"
| "run_command env (TypeMessage t) = modify (\<lambda>st. st\<lparr>dt_message_entry := t\<rparr>)"
| "run_command env (SetPingback b delay) =
     modify (\<lambda>st. save_config env (st\<lparr>dt_enable_pingback := b, dt_pingback_delay := delay\<rparr>))"
| "run_command env LoadIdentity = gui_load_identity env"
| "run_command env RegisterNode = gui_register_node env"
| "run_command env DeleteNode = gui_delete_node env"
| "run_command env (CreateEndpoint entered) = gui_create_endpoint env entered"
| "run_command env (RequestLinkCode entered) = gui_request_link_code env entered"
| "run_command env (RedeemLinkCode entered) = gui_redeem_link_code env entered"
| "run_command env Refresh = refresh_everything env"
| "run_command env RefreshInbox = gui_poll_inbox env (Some 0)"
| "run_command env (TogglePolling b) = toggle_active_polling env b"
| "run_command env (SelectConversation n) = on_conversation_selected env n"
| "run_command env RenameContact = rename_contact env"
| "run_command env SeverLink = gui_sever_link env"
| "run_command env DeleteHistory = delete_message_history env"
| "run_command env CopyCode = copy_selected_pending_code env"
| "run_command env SendMessage = gui_send_message env"
| "run_command env SendPing = gui_send_ping env"

section \<open>Interleaving\<close>

text \<open>The steps of one process. An exception of a command ends the command only.\<close>

datatype desktop_event = Command desktop_command | BeginJob nat | EndJob nat | PollTurn | QueueTurn

definition may_end :: "'w desktop \<Rightarrow> nat \<Rightarrow> bool" where
  "may_end st i \<longleftrightarrow> i < length (dt_jobs st) \<and> (case dt_jobs st ! i of (label, begun, _) \<Rightarrow> label = None \<or> begun)"

inductive desktop_step :: "'w desktop_env \<Rightarrow> desktop_event \<Rightarrow> 'w desktop \<Rightarrow> 'w desktop \<Rightarrow> bool" for env where
  command: "run_command env c st = (st', r) \<Longrightarrow> desktop_step env (Command c) st st'"
| job_begins: "i < length (dt_jobs st) \<Longrightarrow> desktop_step env (BeginJob i) st (begin_job i st)"
| job_ends: "may_end st i \<Longrightarrow> desktop_step env (EndJob i) st (end_job env i st)"
| polls: "0 < dt_pollers st \<Longrightarrow> desktop_step env PollTurn st (poll_turn env st)"
| queue: "desktop_step env QueueTurn st (queue_turn env st)"

inductive desktop_run :: "'w desktop_env \<Rightarrow> desktop_event list \<Rightarrow> 'w desktop \<Rightarrow> 'w desktop \<Rightarrow> bool" for env where
  stop: "desktop_run env [] st st"
| move: "desktop_step env e st st' \<Longrightarrow> desktop_run env es st' st'' \<Longrightarrow> desktop_run env (e # es) st st''"

inductive_cases desktop_stepE: "desktop_step env e st st'"

end
