(* ===== verification/DesktopProps.thy ===== *)
theory DesktopProps
  imports DesktopRun BotProps
begin

text \<open>
  The desktop client and the server together: which actions leave messages and deliveries alone (\<open>inert\<close>), what a
  round of the queue, a turn of the poll thread and the end of a thread do to a delivery, and that none
  vanishes without being noted while the client runs.
\<close>

section \<open>What leaves messages and deliveries alone\<close>

definition steady :: "('w \<Rightarrow> bool) \<Rightarrow> ('w \<Rightarrow> string \<Rightarrow> bool) \<Rightarrow> 'w \<Rightarrow> 'w \<Rightarrow> bool" where
  "steady ok holds w w' \<longleftrightarrow> (ok w \<longrightarrow> ok w' \<and> (\<forall>i. holds w i \<longrightarrow> holds w' i))"

definition steady_call ::
  "('w \<Rightarrow> bool) \<Rightarrow> ('w \<Rightarrow> string \<Rightarrow> bool) \<Rightarrow> ('w \<times> arqs_client \<Rightarrow> ('w, 'a) call_result) \<Rightarrow> bool" where
  "steady_call ok holds f \<longleftrightarrow> (\<forall>w c. steady ok holds w (fst (fst (f (w, c)))))"

text \<open>Only acknowledgements and the deletion of the node take deliveries off the server.\<close>

definition leaves_inbox :: "('w \<Rightarrow> bool) \<Rightarrow> ('w \<Rightarrow> string \<Rightarrow> bool) \<Rightarrow> 'w desktop_env \<Rightarrow> bool" where
  "leaves_inbox ok holds env \<longleftrightarrow>
     (\<forall>w t. steady ok holds w (fst (dk_confirm env w t))) \<and> (\<forall>w t. steady ok holds w (fst (dk_decide env w t))) \<and>
     (\<forall>w t. steady ok holds w (fst (dk_ask env w t))) \<and> (\<forall>w c. steady ok holds w (fst (dk_probe env w c))) \<and>
     (\<forall>n. steady_call ok holds (\<lambda>wc. dk_register env wc n)) \<and>
     (\<forall>n k. steady_call ok holds (\<lambda>wc. dk_create_endpoint env wc n k)) \<and>
     (\<forall>i m. steady_call ok holds (\<lambda>wc. dk_request_code env wc i m)) \<and>
     (\<forall>c i. steady_call ok holds (\<lambda>wc. dk_redeem_code env wc c i)) \<and>
     (\<forall>i. steady_call ok holds (\<lambda>wc. dk_revoke_link env wc i)) \<and>
     steady_call ok holds (dk_list_endpoints env) \<and> steady_call ok holds (dk_list_links env) \<and>
     (\<forall>og. steady_call ok holds (\<lambda>wc. dk_send env wc og))"

fun is_delete :: "job \<Rightarrow> bool" where
  "is_delete (JobDelete n) = True"
| "is_delete _ = False"

definition deletions :: "'w desktop \<Rightarrow> (string option \<times> bool \<times> job) list" where
  "deletions st = filter (\<lambda>(_, _, j). is_delete j) (dt_jobs st)"

definition message_state :: "'w desktop \<Rightarrow> dict list \<times> string set \<times> json option list option" where
  "message_state st = (dt_messages st, dt_message_index st, df_messages st)"

text \<open>What waits in the queue, the texts for the status line left out.\<close>

fun is_status :: "ui_item \<Rightarrow> bool" where
  "is_status (UiStatus t) = True"
| "is_status _ = False"

definition carried :: "'w desktop \<Rightarrow> ui_item list" where
  "carried st = filter (\<lambda>q. \<not> is_status q) (dt_queue st)"

text \<open>
  The state changes, but not the messages (\<^term>\<open>m\<close>) or not what is known of deliveries (\<^term>\<open>\<not> m\<close>), and the server
  keeps its deliveries.
\<close>

definition inert :: "bool \<Rightarrow> ('w \<Rightarrow> bool) \<Rightarrow> ('w \<Rightarrow> string \<Rightarrow> bool) \<Rightarrow> 'w desktop \<Rightarrow> 'w desktop \<Rightarrow> bool" where
  "inert m ok holds st st' \<longleftrightarrow> steady ok holds (dt_world st) (dt_world st') \<and>
     (if m then message_state st' = message_state st
      else dt_seen st' = dt_seen st \<and> carried st' = carried st \<and> deletions st' = deletions st
        \<and> dt_enable_pingback st' = dt_enable_pingback st)"

named_theorems inert_intros \<open>actions that leave deliveries alone\<close>

lemma steady_refl [simp]: "steady ok holds w w"
  by (simp add: steady_def)

lemma steady_trans: "steady ok holds w w' \<Longrightarrow> steady ok holds w' w'' \<Longrightarrow> steady ok holds w w''"
  by (auto simp: steady_def)

lemma inert_refl [simp, inert_intros]: "inert m ok holds st st"
  by (simp add: inert_def)

lemma inert_trans: "inert m ok holds st st' \<Longrightarrow> inert m ok holds st' st'' \<Longrightarrow> inert m ok holds st st''"
  by (auto simp: inert_def intro: steady_trans)

lemma inert_then_do [inert_intros]:
  assumes "inert m ok holds st (fst (a st))" "\<And>x st'. a st = (st', Inr x) \<Longrightarrow> inert m ok holds st' (fst (k x st'))"
  shows "inert m ok holds st (fst (then_do a k st))"
  using assms by (fastforce simp: then_do_def split: prod.split sum.split intro: inert_trans)

lemma inert_plain [simp]:
  "fst (yield x st) = st" "fst (raised r st) = st" "fst (modify f st) = f st"
  by (simp_all add: yield_def raised_def modify_def)

lemma inert_yield [inert_intros]: "inert m ok holds st (fst (yield x st))" "inert m ok holds st (fst (raised r st))"
  by simp_all

lemma inert_if [inert_intros]:
  assumes "b \<Longrightarrow> inert m ok holds st (fst (f st))" "\<not> b \<Longrightarrow> inert m ok holds st (fst (g st))"
  shows "inert m ok holds st (fst ((if b then f else g) st))"
  using assms by simp

lemma inert_option [inert_intros]:
  assumes "c = None \<Longrightarrow> inert m ok holds st (fst (f st))" "\<And>x. c = Some x \<Longrightarrow> inert m ok holds st (fst (g x st))"
  shows "inert m ok holds st (fst ((case c of None \<Rightarrow> f | Some x \<Rightarrow> g x) st))"
  using assms by (cases c) simp_all

lemma inert_if_result [inert_intros]:
  assumes "b \<Longrightarrow> inert m ok holds st (fst x)" "\<not> b \<Longrightarrow> inert m ok holds st (fst y)"
  shows "inert m ok holds st (fst (if b then x else y))"
  using assms by simp

lemma inert_option_result [inert_intros]:
  assumes "c = None \<Longrightarrow> inert m ok holds st (fst y)" "\<And>x. c = Some x \<Longrightarrow> inert m ok holds st (fst (g x))"
  shows "inert m ok holds st (fst (case c of None \<Rightarrow> y | Some x \<Rightarrow> g x))"
  using assms by (cases c) simp_all

lemma inert_pair [inert_intros]: "inert m ok holds st s \<Longrightarrow> inert m ok holds st (fst (s, r))"
  by simp

text \<open>Functions of the state that leave deliveries alone.\<close>

lemma inert_functions [simp]:
  "inert m ok holds s (save_config env st) = inert m ok holds s st"
  "inert m ok holds s (save_links st) = inert m ok holds s st"
  "inert m ok holds s (save_pending_codes st) = inert m ok holds s st"
  "inert m ok holds s (save_seen_deliveries st) = inert m ok holds s st"
  "inert m ok holds s (set_status_text env t st) = inert m ok holds s st"
  "inert False ok holds s (append_message d st) = inert False ok holds s st"
  "inert False ok holds s (rewrite_messages_file st) = inert False ok holds s st"
  "inert False ok holds s (rebuild_message_index st) = inert False ok holds s st"
  "inert m ok holds s (update_record l r d st) = inert m ok holds s st"
  "inert m ok holds s (use_client c st) = inert m ok holds s st"
  "inert m ok holds s (stop_poll_thread st) = inert m ok holds s st"
  by (simp_all add: inert_def message_state_def deletions_def carried_def save_config_def save_links_def save_pending_codes_def save_seen_deliveries_def
      set_status_text_def append_message_def rewrite_messages_file_def rebuild_message_index_def update_record_def
      use_client_def stop_poll_thread_def Let_def split: option.split)

lemma inert_updates [simp]:
  "inert m ok holds s (st\<lparr>dt_config := v1\<rparr>) = inert m ok holds s st"
  "inert m ok holds s (st\<lparr>dt_links := v2\<rparr>) = inert m ok holds s st"
  "inert m ok holds s (st\<lparr>dt_pending_codes := v3\<rparr>) = inert m ok holds s st"
  "inert False ok holds s (st\<lparr>dt_messages := v4\<rparr>) = inert False ok holds s st"
  "inert m ok holds s (st\<lparr>dt_client := v5\<rparr>) = inert m ok holds s st"
  "inert m ok holds s (st\<lparr>dt_endpoints := v6\<rparr>) = inert m ok holds s st"
  "inert m ok holds s (st\<lparr>dt_conversations := v7\<rparr>) = inert m ok holds s st"
  "inert m ok holds s (st\<lparr>dt_selected := v8\<rparr>) = inert m ok holds s st"
  "inert m ok holds s (st\<lparr>dt_pollers := v9\<rparr>) = inert m ok holds s st"
  "inert m ok holds s (st\<lparr>dt_poll_stop := b1\<rparr>) = inert m ok holds s st"
  "inert m ok holds s (st\<lparr>dt_busy := v10\<rparr>) = inert m ok holds s st"
  "inert m ok holds s (st\<lparr>dt_probe_cache := v11\<rparr>) = inert m ok holds s st"
  "inert m ok holds s (st\<lparr>dt_pings := v14\<rparr>) = inert m ok holds s st"
  "inert m ok holds s (st\<lparr>dt_base_url := t1\<rparr>) = inert m ok holds s st"
  "inert m ok holds s (st\<lparr>dt_node_name := t2\<rparr>) = inert m ok holds s st"
  "inert m ok holds s (st\<lparr>dt_active_poll := b2\<rparr>) = inert m ok holds s st"
  "inert m ok holds s (st\<lparr>dt_poll_wait := t3\<rparr>) = inert m ok holds s st"
  "inert m ok holds s (st\<lparr>dt_message_entry := t4\<rparr>) = inert m ok holds s st"
  "inert m ok holds s (st\<lparr>dt_status := t5\<rparr>) = inert m ok holds s st"
  "inert m ok holds s (st\<lparr>dt_clipboard := t6\<rparr>) = inert m ok holds s st"
  "inert m ok holds s (st\<lparr>dt_header := t7\<rparr>) = inert m ok holds s st"
  "inert m ok holds s (st\<lparr>dt_history := t8\<rparr>) = inert m ok holds s st"
  "inert m ok holds s (st\<lparr>dt_boxes := v12\<rparr>) = inert m ok holds s st"
  "inert m ok holds s (st\<lparr>df_identity := v13\<rparr>) = inert m ok holds s st"
  by (simp_all add: inert_def message_state_def deletions_def carried_def)

lemma inert_show_box [inert_intros]: "inert m ok holds st (fst (show_box t st))"
  by (simp add: show_box_def)

lemma inert_say [inert_intros]: "inert m ok holds st (fst (say env t st))"
  by (simp add: say_def)

lemma inert_announce [inert_intros]: "inert m ok holds st (fst (announce env b t st))"
  by (simp add: announce_def inert_say)

lemma inert_asked:
  "steady ok holds (dt_world st) (fst (f (dt_world st))) \<Longrightarrow> inert m ok holds st (fst (asked f st))"
  by (cases "f (dt_world st)") (simp add: asked_def inert_def message_state_def deletions_def carried_def)

lemma inert_on_client:
  "steady_call ok holds f \<Longrightarrow> inert m ok holds st (fst (on_client n f st))"
  by (auto simp: on_client_def inert_def message_state_def deletions_def carried_def steady_call_def split: prod.split) (metis fst_conv)

lemma inert_run_bg [inert_intros]: "m \<or> \<not> is_delete j \<Longrightarrow> inert m ok holds st (fst (run_bg j t st))"
  "m \<or> \<not> is_delete j \<Longrightarrow> inert m ok holds st (fst (run_bg_quiet j st))"
  by (auto simp: run_bg_def run_bg_quiet_def inert_def message_state_def deletions_def carried_def)

subsection \<open>The parts of the client\<close>

lemma inert_render [inert_intros]: "inert m ok holds st (fst (render_selected_conversation env st))"
  by (simp add: render_selected_conversation_def Let_def split: option.split sum.split)

lemma inert_restore [inert_intros]: "inert m ok holds st (fst (restore_last_selection env st))"
  using inert_trans [OF _ inert_render, of m ok holds st "st\<lparr>dt_selected := t\<rparr>" env for t]
  by (auto simp: restore_last_selection_def intro: inert_render split: list.split)

lemma inert_refresh_conversations [inert_intros]: "inert m ok holds st (fst (refresh_conversations env st))"
proof -
  have "inert m ok holds s (fst (then_do (restore_last_selection env) (\<lambda>_. render_selected_conversation env) s))" for s
    by (intro inert_intros)
  from inert_trans [OF _ this] show ?thesis by (simp add: refresh_conversations_def split: sum.split)
qed

lemma inert_rebuild_client [inert_intros]: "inert m ok holds st (fst (rebuild_client_for_current_url env p b st))"
  unfolding rebuild_client_for_current_url_def client_without_file_def client_from_file_def
  by (intro inert_intros) (auto split: option.split sum.split intro!: inert_intros)


lemma inert_questions [inert_intros]:
  assumes "leaves_inbox ok holds env"
  shows "inert m ok holds st (fst (asked (\<lambda>w. dk_confirm env w t) st))"
    "inert m ok holds st (fst (asked (\<lambda>w. dk_decide env w t) st))"
    "inert m ok holds st (fst (asked (\<lambda>w. dk_ask env w t) st))"
  using assms by (auto simp: leaves_inbox_def intro: inert_asked)

lemma inert_calls [inert_intros]:
  assumes "leaves_inbox ok holds env"
  shows "inert m ok holds st (fst (on_client n (\<lambda>wc. dk_register env wc name) st))"
    "inert m ok holds st (fst (on_client n (\<lambda>wc. dk_create_endpoint env wc e k) st))"
    "inert m ok holds st (fst (on_client n (\<lambda>wc. dk_request_code env wc i md) st))"
    "inert m ok holds st (fst (on_client n (\<lambda>wc. dk_redeem_code env wc c i) st))"
    "inert m ok holds st (fst (on_client n (\<lambda>wc. dk_revoke_link env wc i) st))"
    "inert m ok holds st (fst (on_client n (dk_list_endpoints env) st))"
    "inert m ok holds st (fst (on_client n (dk_list_links env) st))"
    "inert m ok holds st (fst (on_client n (\<lambda>wc. dk_send env wc og) st))"
  using assms by (auto simp: leaves_inbox_def intro: inert_on_client)

lemma leaves_probe: "leaves_inbox ok holds env \<Longrightarrow> steady ok holds w (fst (dk_probe env w c))"
  by (simp add: leaves_inbox_def)

lemma inert_probe [inert_intros]:
  assumes "leaves_inbox ok holds env"
  shows "inert m ok holds st (fst (get_transport_probe_result env url st))"
proof -
  have "inert m ok holds s (fst (case dk_probe env (dt_world s) c of (w, r) \<Rightarrow> (s\<lparr>dt_world := w\<rparr>, r)))" for s c
    using leaves_probe [OF assms, of "dt_world s" c] by (cases "dk_probe env (dt_world s) c") (simp add: inert_def message_state_def deletions_def carried_def)
  then show ?thesis unfolding get_transport_probe_result_def
    by (intro inert_intros) (auto split: option.split intro!: inert_intros)
qed

lemma inert_set_preference [inert_intros]: "inert m ok holds st (fst (set_saved_transport_preference env u p st))"
  unfolding set_saved_transport_preference_def by (intro inert_intros) (auto simp: Let_def)

lemma inert_settle [inert_intros]:
  "inert m ok holds st (fst (settle env u r p s st))" "inert m ok holds st (fst (refuse_transport env s b st))"
  unfolding settle_def refuse_transport_def by (auto split: option.split intro!: inert_intros)

lemma inert_upgrade [inert_intros]: "inert m ok holds st (fst (upgrade env p b s t st))"
  unfolding upgrade_def by (auto split: option.split intro!: inert_intros)

lemma inert_apply_transport [inert_intros]:
  assumes "leaves_inbox ok holds env"
  shows "inert m ok holds st (fst (apply_transport_result env p st))"
proof -
  have "inert m ok holds s (fst (ask_both env p s))" "inert m ok holds s (fst (ask_http_only env p s))" for s
    unfolding ask_both_def ask_http_only_def
    by (intro inert_intros assms; simp add: split_def inert_settle inert_upgrade)+
  then have "inert m ok holds s (fst (apply_http_result env p b r s))" for b r s
    unfolding apply_http_result_def Let_def by (intro inert_intros)
  then show ?thesis unfolding apply_transport_result_def Let_def by (intro inert_intros)
qed

lemma inert_ensure_transport [inert_intros]:
  assumes "leaves_inbox ok holds env"
  shows "inert m ok holds st (fst (ensure_transport_ready_for_auth env st))"
proof -
  have "inert m ok holds s (fst (case get_transport_probe_result env u (s\<lparr>dt_base_url := u\<rparr>) of
      (st, Inl e) \<Rightarrow> refuse_transport env (exc_text e) (exc_text e) st
    | (st, Inr found) \<Rightarrow> apply_transport_result env found st))" for s u
  proof -
    obtain s1 r where g: "get_transport_probe_result env u (s\<lparr>dt_base_url := u\<rparr>) = (s1, r)" by fastforce
    have "inert m ok holds (s\<lparr>dt_base_url := u\<rparr>) s1" using inert_probe [OF assms, of m "s\<lparr>dt_base_url := u\<rparr>" u] g by simp
    with inert_trans [of m ok holds s "s\<lparr>dt_base_url := u\<rparr>"] have "inert m ok holds s s1" by simp
    then show ?thesis using inert_trans assms by (fastforce simp: g split: sum.split intro: inert_intros)
  qed
  then show ?thesis unfolding ensure_transport_ready_for_auth_def by (auto intro!: inert_intros)
qed

lemma inert_require_client [inert_intros]:
  assumes "leaves_inbox ok holds env"
  shows "inert m ok holds st (fst (require_desktop_client env b st))"
  unfolding require_desktop_client_def by (intro inert_intros assms)

lemma inert_refresh_everything [inert_intros]:
  assumes "leaves_inbox ok holds env"
  shows "inert m ok holds st (fst (refresh_everything env st))"
  unfolding refresh_everything_def by (auto split: option.split intro!: inert_intros assms)

lemma inert_with_client [inert_intros]:
  assumes "leaves_inbox ok holds env" "\<And>n st. inert m ok holds st (fst (k n st))"
  shows "inert m ok holds st (fst (with_client env k st))"
  unfolding with_client_def by (intro inert_intros assms)

lemma inert_selected [inert_intros]: "inert m ok holds st (fst (selected_or_complain st))"
  unfolding selected_or_complain_def by (auto split: option.split intro!: inert_intros)

lemma inert_more [simp]:
  "inert m ok holds s (prune_pending_codes env st) = inert m ok holds s st"
  "inert m ok holds s (ensure_message_link_stub env l r st) = inert m ok holds s st"
  "inert m ok holds s (rebuild_server_link_records env ls st) = inert m ok holds s st"
  "inert m ok holds s (upsert_link_record env link t st) = inert m ok holds s st"
  "inert m ok holds s (put_alias env i a st) = inert m ok holds s st"
  "inert m ok holds s (drop_severed env l r st) = inert m ok holds s st"
  by (auto simp: prune_pending_codes_def ensure_message_link_stub_def rebuild_server_link_records_def
      upsert_link_record_def put_alias_def drop_severed_def Let_def split: option.split)

lemma inert_modify [inert_intros]: "inert m ok holds st (f st) \<Longrightarrow> inert m ok holds st (fst (modify f st))"
  by simp

lemma inert_poll_wait [inert_intros]: "inert m ok holds st (fst (get_poll_wait_seconds d st))"
  by (simp add: get_poll_wait_seconds_def Let_def)

lemma inert_start_poll [inert_intros]: "inert m ok holds st (fst (start_poll_thread env st))"
  unfolding start_poll_thread_def by (intro inert_intros) simp

lemma inert_after_refresh:
  "inert m ok holds st s \<Longrightarrow> inert m ok holds st (fst (refresh_conversations env s))"
  by (erule inert_trans) (rule inert_refresh_conversations)

lemma inert_sever [inert_intros]: "inert m ok holds st (fst (mark_link_severed_local env l r st))"
  by (simp add: mark_link_severed_local_def inert_after_refresh split: option.split)

lemma inert_delete_history [inert_intros]: "inert False ok holds st (fst (delete_message_history_local env l r st))"
proof -
  let ?s = "rewrite_messages_file (rebuild_message_index (drop_severed env l r
    (st\<lparr>dt_messages := delete_where (of_pair l r) (dt_messages st)\<rparr>)))"
  have "inert False ok holds st ?s" by simp
  moreover have "inert False ok holds ?s (fst (then_do (refresh_conversations env) (\<lambda>_. yield n) ?s))" for n :: nat
    by (intro inert_intros)
  ultimately show ?thesis unfolding delete_message_history_local_def Let_def by (rule inert_trans)
qed

lemma inert_selection [inert_intros]: "inert m ok holds st (fst (on_conversation_selected env n st))"
  using inert_trans [OF _ inert_render, of m ok holds st "save_config env (st\<lparr>dt_selected := v\<rparr>)" env for v]
  by (simp add: on_conversation_selected_def split: option.split)


definition harmless :: "desktop_command \<Rightarrow> bool" where
  "harmless c \<longleftrightarrow> c \<noteq> DeleteNode \<and> (\<forall>b t. c \<noteq> SetPingback b t)"

lemma inert_commands [inert_intros]:
  assumes "leaves_inbox ok holds env"
  shows "inert m ok holds st (fst (gui_load_identity env st))" "inert m ok holds st (fst (gui_register_node env st))"
    "inert m ok holds st (fst (gui_create_endpoint env ce st))" "inert m ok holds st (fst (gui_request_link_code env lc st))"
    "inert m ok holds st (fst (gui_redeem_link_code env rw st))" "inert m ok holds st (fst (gui_sever_link env st))"
    "inert m ok holds st (fst (gui_send_message env st))" "inert m ok holds st (fst (gui_send_ping env st))"
    "inert m ok holds st (fst (gui_poll_inbox env w st))" "inert m ok holds st (fst (toggle_active_polling env b st))"
    "inert m ok holds st (fst (rename_contact env st))"
    "inert m ok holds st (fst (copy_selected_pending_code env st))" "inert m ok holds st (fst (on_server_url_focus_out env st))"
  unfolding gui_load_identity_def gui_register_node_def gui_create_endpoint_def gui_request_link_code_def
    gui_redeem_link_code_def gui_sever_link_def gui_send_message_def gui_send_ping_def gui_poll_inbox_def
    toggle_active_polling_def rename_contact_def delete_message_history_def copy_selected_pending_code_def
    on_server_url_focus_out_def Let_def
  by (intro inert_intros assms; auto intro!: inert_intros assms split: list.split)+

lemma inert_delete_command: "leaves_inbox ok holds env \<Longrightarrow> inert False ok holds st (fst (delete_message_history env st))"
  unfolding delete_message_history_def Let_def by (intro inert_intros)

lemma inert_command:
  assumes "leaves_inbox ok holds env" "if m then c \<noteq> DeleteHistory else harmless c"
  shows "inert m ok holds st (fst (run_command env c st))"
proof (cases c)
  case DeleteHistory
  then show ?thesis using assms inert_delete_command by (cases m) simp_all
next
  case DeleteNode
  then show ?thesis using assms(2) unfolding DeleteNode run_command.simps gui_delete_node_def
    by (intro inert_intros assms) (simp add: harmless_def split: if_splits)
next
  case (SetPingback b d)
  then show ?thesis using assms(2) by (auto simp: harmless_def inert_def message_state_def save_config_def Let_def split: if_splits)
qed (use assms in \<open>auto intro!: inert_intros\<close>)

lemma inert_pings [simp]:
  "inert m ok holds s (remember_outgoing_ping og r st) = inert m ok holds s st"
  "inert m ok holds s (log_ping_measurement env i st) = inert m ok holds s st"
  by (auto simp: remember_outgoing_ping_def log_ping_measurement_def inert_def message_state_def deletions_def carried_def
      Let_def split: option.split)

lemma inert_finalize [inert_intros]: "inert False ok holds st (fst (finalize_sent_packet env og s st))"
  unfolding finalize_sent_packet_def Let_def by (intro inert_intros) (auto intro: inert_refl)

fun deletes_or_polls :: "completion \<Rightarrow> bool" where
  "deletes_or_polls (DoneDelete r) = True"
| "deletes_or_polls (DonePoll items) = True"
| "deletes_or_polls _ = False"

lemma inert_complete:
  assumes "leaves_inbox ok holds env" "\<not> deletes_or_polls c"
  shows "inert False ok holds st (fst (complete env c st))"
  using assms by (cases c)
    (auto simp: done_register_def done_endpoint_def done_link_code_def done_redeem_def done_sever_def done_refresh_def
      split: option.split list.split intro!: inert_intros)

section \<open>Incoming packets\<close>

text \<open>The deliveries that wait in the queue of the client.\<close>

fun waiting_in :: "ui_item \<Rightarrow> string set" where
  "waiting_in (UiPollResult ms) = ii_delivery_id ` set ms"
| "waiting_in (UiSuccess (DonePoll ms)) = ii_delivery_id ` set ms"
| "waiting_in _ = {}"

definition waiting :: "'w desktop \<Rightarrow> string set" where
  "waiting st = \<Union> (waiting_in ` set (dt_queue st))"

lemma status_carries_nothing: "is_status q \<Longrightarrow> waiting_in q = {}"
  by (cases q) simp_all

lemma waiting_carried: "waiting st = \<Union> (waiting_in ` set (carried st))"
  using status_carries_nothing by (fastforce simp: waiting_def carried_def)

text \<open>The client has taken note of the delivery, and its message is stored or one of the same packet is.\<close>

definition known :: "('w \<Rightarrow> string \<Rightarrow> bool) \<Rightarrow> 'w desktop \<Rightarrow> string \<Rightarrow> bool" where
  "known holds st i \<longleftrightarrow> holds (dt_world st) i \<or> i \<in> waiting st \<or> i \<in> dt_seen st"

fun is_done_delete :: "ui_item \<Rightarrow> bool" where
  "is_done_delete (UiSuccess (DoneDelete r)) = True"
| "is_done_delete _ = False"

lemma done_delete_carried: "list_ex is_done_delete (dt_queue st) = list_ex is_done_delete (carried st)"
proof -
  have "\<not> is_status q" if "is_done_delete q" for q using that by (cases q) simp_all
  then show ?thesis by (auto simp: list_ex_iff carried_def)
qed

text \<open>No pingback, and no deletion of the node is under way.\<close>

definition settled_use :: "'w desktop \<Rightarrow> bool" where
  "settled_use st \<longleftrightarrow> \<not> dt_enable_pingback st \<and> deletions st = [] \<and> \<not> list_ex is_done_delete (dt_queue st)"

definition loses_nothing :: "('w \<Rightarrow> bool) \<Rightarrow> ('w \<Rightarrow> string \<Rightarrow> bool) \<Rightarrow> 'w desktop \<Rightarrow> 'w desktop \<Rightarrow> bool" where
  "loses_nothing ok holds st st' \<longleftrightarrow> (ok (dt_world st) \<and> settled_use st \<longrightarrow>
     ok (dt_world st') \<and> settled_use st' \<and> (\<forall>i. known holds st i \<longrightarrow> known holds st' i))"

lemma loses_nothing_trans:
  "loses_nothing ok holds st st' \<Longrightarrow> loses_nothing ok holds st' st'' \<Longrightarrow> loses_nothing ok holds st st''"
  by (auto simp: loses_nothing_def)

lemma inert_loses_nothing: "inert False ok holds st st' \<Longrightarrow> loses_nothing ok holds st st'"
  by (auto simp: inert_def loses_nothing_def steady_def settled_use_def known_def waiting_carried done_delete_carried)

abbreviation also_seen :: "string set \<Rightarrow> 'w desktop \<Rightarrow> 'w desktop" where
  "also_seen X st \<equiv> st\<lparr>dt_seen := dt_seen st \<union> X\<rparr>"

lemma inert_also_seen: "inert False ok holds st st' \<Longrightarrow> inert False ok holds (also_seen X st) (also_seen X st')"
  by (auto simp: inert_def message_state_def deletions_def carried_def)

lemma incoming_item:
  assumes "\<not> dt_enable_pingback st"
  shows "\<exists>st' b. handle_incoming_message_item env m st = (st', Inr b) \<and> inert False ok holds (also_seen {ii_delivery_id m} st) st'"
proof (cases "ii_delivery_id m \<in> dt_seen st")
  case True
  then have "also_seen {ii_delivery_id m} st = st" by (simp add: insert_absorb)
  with True show ?thesis by (intro exI [of _ st] exI [of _ False]) (simp add: handle_incoming_message_item_def)
next
  case False
  let ?s = "log_ping_measurement env m (ensure_message_link_stub env (ii_to_endpoint_id m) (ii_from_endpoint_id m)
    (append_message (received_message m) (also_seen {ii_delivery_id m} st)))"
  have s: "inert False ok holds (also_seen {ii_delivery_id m} st) ?s" by simp
  then have "\<not> dt_enable_pingback ?s" using assms by (simp add: inert_def)
  with False s show ?thesis
    by (intro exI [of _ ?s] exI [of _ True])
      (simp add: handle_incoming_message_item_def then_do_def modify_def schedule_pingback_if_needed_def yield_def)
qed

lemma incoming_items:
  assumes "\<not> dt_enable_pingback st"
  shows "\<exists>st' n. handle_items env ms st = (st', Inr n) \<and> inert False ok holds (also_seen (ii_delivery_id ` set ms) st) st'"
  using assms
proof (induction ms arbitrary: st)
  case (Cons m ms)
  obtain s b where s: "handle_incoming_message_item env m st = (s, Inr b)" "inert False ok holds (also_seen {ii_delivery_id m} st) s"
    using incoming_item [OF Cons.prems] by blast
  then have "\<not> dt_enable_pingback s" using Cons.prems by (simp add: inert_def)
  from Cons.IH [OF this] obtain s' n where s': "handle_items env ms s = (s', Inr n)"
      "inert False ok holds (also_seen (ii_delivery_id ` set ms) s) s'" by blast
  have "inert False ok holds (also_seen (ii_delivery_id ` set ms) (also_seen {ii_delivery_id m} st)) s'"
    by (rule inert_trans [OF inert_also_seen [OF s(2)] s'(2)])
  moreover have "also_seen (ii_delivery_id ` set ms) (also_seen {ii_delivery_id m} st) = also_seen (ii_delivery_id ` set (m # ms)) st"
    by simp
  ultimately have "inert False ok holds (also_seen (ii_delivery_id ` set (m # ms)) st) s'" by (simp only:)
  with s(1) s'(1) show ?case by (simp add: then_do_def yield_def)
qed (simp add: yield_def)

lemma inert_report [inert_intros]: "inert False ok holds st (fst (report_received env n st))"
  unfolding report_received_def by (intro inert_intros) (simp add: inert_refl)

lemma after_items:
  assumes "\<not> dt_enable_pingback st" "\<And>n s. inert False ok holds s (fst (k n s))"
  shows "inert False ok holds (also_seen (ii_delivery_id ` set ms) st) (fst (then_do (handle_items env ms) k st))"
proof -
  obtain s n where "handle_items env ms st = (s, Inr n)" "inert False ok holds (also_seen (ii_delivery_id ` set ms) st) s"
    using incoming_items [OF assms(1)] by blast
  with assms(2) [of s n] show ?thesis by (simp add: then_do_def) (rule inert_trans)
qed

lemma batch_handled:
  assumes "leaves_inbox ok holds env" "\<not> dt_enable_pingback st"
  shows "inert False ok holds (also_seen (ii_delivery_id ` set ms) st) (fst (handle_poll_deliveries env ms st))"
    "inert False ok holds (also_seen (ii_delivery_id ` set ms) st) (fst (done_poll env ms st))"
  unfolding handle_poll_deliveries_def done_poll_def
  by (intro after_items assms inert_intros)+

section \<open>The queue and the threads\<close>

lemma queue_turn_loses_nothing:
  assumes "leaves_inbox ok holds env"
  shows "loses_nothing ok holds st (queue_turn env st)"
proof (cases "dt_queue st")
  case Nil
  then show ?thesis by (simp add: queue_turn_def loses_nothing_def)
next
  case (Cons q qs)
  let ?s = "st\<lparr>dt_queue := qs\<rparr>"
  obtain s r where p: "process_item env q ?s = (s, r)" by fastforce
  have "loses_nothing ok holds st s" if "settled_use st"
  proof -
    from that have on: "\<not> dt_enable_pingback ?s" and d: "\<not> is_done_delete q" by (simp_all add: settled_use_def Cons)
    have "inert False ok holds (also_seen (waiting_in q) ?s) (fst (process_item env q ?s))"
    proof (cases q)
      case (UiSuccess c)
      then show ?thesis
        using d batch_handled(2) [OF assms on] inert_complete [OF assms, of c ?s] by (cases c) simp_all
    next
      case (UiPollResult ms)
      then show ?thesis using batch_handled(1) [OF assms on] by simp
    qed (auto simp: desktop_error_def Let_def intro!: inert_intros)
    then have "inert False ok holds (also_seen (waiting_in q) ?s) s" by (simp add: p)
    then have "loses_nothing ok holds (also_seen (waiting_in q) ?s) s" by (rule inert_loses_nothing)
    moreover have "loses_nothing ok holds st (also_seen (waiting_in q) ?s)"
      by (auto simp: loses_nothing_def settled_use_def deletions_def known_def waiting_def Cons)
    ultimately show ?thesis by (rule loses_nothing_trans [rotated])
  qed
  then have s: "loses_nothing ok holds st s" by (auto simp: loses_nothing_def)
  have "loses_nothing ok holds s (s\<lparr>dt_status := t\<rparr>)" for t by (rule inert_loses_nothing) simp
  with s show ?thesis by (auto simp: queue_turn_def Cons p intro: loses_nothing_trans split: sum.split)
qed

text \<open>What is put at the end of the queue only adds to what waits.\<close>

lemma append_queue:
  assumes "\<not> list_ex is_done_delete qs"
  shows "loses_nothing ok holds st (st\<lparr>dt_queue := dt_queue st @ qs\<rparr>)"
  using assms by (auto simp: loses_nothing_def settled_use_def deletions_def known_def waiting_def)

lemma inert_job:
  assumes "leaves_inbox ok holds env" "\<not> is_delete j" "\<And>n w. j \<noteq> JobPoll n w"
  shows "inert False ok holds st (fst (run_job env j st))"
proof (cases j)
  case (JobSever n i l r)
  show ?thesis using inert_calls(5) [OF assms(1), of False st n i]
    by (auto simp: JobSever job_sever_def split: prod.split sum.split)
next
  case (JobSend n og)
  show ?thesis unfolding JobSend run_job.simps job_send_def Let_def by (intro inert_intros assms)
qed (use assms in \<open>auto simp: job_register_def job_redeem_def split_def intro!: inert_intros\<close>)

lemma run_job_result:
  assumes "run_job env j st = (s, r)" "\<not> is_delete j"
  shows "\<not> is_done_delete (case r of Inr c \<Rightarrow> UiSuccess c | Inl e \<Rightarrow> if label = None then UiQuietError e else UiError e)"
  using assms by (cases j) (auto simp: then_do_def yield_def job_register_def job_sever_def modify_def split: prod.splits sum.splits)

section \<open>Fetching\<close>

text \<open>The client polls and acknowledges at a server with the operations \<open>poll\<close> and \<open>ack\<close>.\<close>

definition polls_by ::
  "('w \<Rightarrow> int \<Rightarrow> int \<Rightarrow> 'w \<times> (py_exc + client_delivery list)) \<Rightarrow> ('w \<Rightarrow> string \<Rightarrow> string \<Rightarrow> 'w \<times> (py_exc + unit))
   \<Rightarrow> 'w desktop_env \<Rightarrow> bool" where
  "polls_by poll ack env \<longleftrightarrow>
     dk_poll env = (\<lambda>(w, c) n. case poll w n 100 of (w, r) \<Rightarrow> ((w, c), r)) \<and>
     dk_ack env = (\<lambda>(w, c) i. case ack w i ''handled'' of (w, r) \<Rightarrow> ((w, c), r))"

definition but :: "string set \<Rightarrow> ('w \<Rightarrow> string \<Rightarrow> bool) \<Rightarrow> 'w \<Rightarrow> string \<Rightarrow> bool" where
  "but X holds w i \<longleftrightarrow> i \<in> X \<or> holds w i"

lemma inert_but: "inert False ok holds st st' \<Longrightarrow> inert False ok (but X holds) st st'"
  by (auto simp: inert_def steady_def but_def)

lemma ack_items_names:
  "ack_items env n ds st = (st', r) \<Longrightarrow> \<exists>ms. r = Inr ms \<and> ii_delivery_id ` set ms = cd_delivery_id ` set ds"
proof (induction ds arbitrary: st st' r)
  case (Cons d ds)
  obtain s x where a: "ack_delivery_now env n (cd_delivery_id d) st = (s, x)" by fastforce
  then have x: "x = Inr ()" by (auto simp: ack_delivery_now_def split: prod.splits)
  obtain s' y where y: "ack_items env n ds s = (s', y)" by fastforce
  from Cons.IH [OF this] obtain ms where "y = Inr ms" "ii_delivery_id ` set ms = cd_delivery_id ` set ds" by blast
  with Cons.prems a x y show ?case by (auto simp: then_do_def yield_def Let_def item_of_def)
qed (simp add: yield_def)

context inbox_server
begin

lemma inert_ack_now:
  assumes "polls_by poll ack env" "i \<in> X"
  shows "inert False ok (but X holds) st (fst (ack_delivery_now env n i st))"
proof -
  have "steady_call ok (but X holds) (\<lambda>wc. dk_ack env wc i)"
    using assms ok_ack by (auto simp: steady_call_def steady_def polls_by_def but_def split_def) (metis holds_ack)
  from inert_on_client [OF this, of False st n] show ?thesis by (auto simp: ack_delivery_now_def split: prod.split)
qed

lemma inert_ack_items:
  assumes "polls_by poll ack env" "cd_delivery_id ` set ds \<subseteq> X"
  shows "inert False ok (but X holds) st (fst (ack_items env n ds st))"
  using assms(2) by (induction ds arbitrary: st) (auto simp: Let_def intro!: inert_intros inert_ack_now [OF assms(1)])

lemma fetch_moves:
  assumes "polls_by poll ack env" "fetch_inbox_items_with_ack env n wait st = (st', r)"
  shows "inert False ok (but (case r of Inl _ \<Rightarrow> {} | Inr ms \<Rightarrow> ii_delivery_id ` set ms) holds) st st'"
proof -
  have "steady_call ok holds (\<lambda>wc. dk_poll env wc wait)"
    using assms(1) ok_poll holds_poll by (auto simp: steady_call_def steady_def polls_by_def split_def)
  note poll = inert_on_client [OF this, of False st n]
  obtain s x where s: "on_client n (\<lambda>wc. dk_poll env wc wait) st = (s, x)" by fastforce
  show ?thesis
  proof (cases x)
    case (Inl e)
    with s poll assms(2) show ?thesis by (auto simp: fetch_inbox_items_with_ack_def then_do_def intro: inert_but)
  next
    case (Inr ds)
    with s assms(2) have a: "ack_items env n ds s = (st', r)" by (simp add: fetch_inbox_items_with_ack_def then_do_def)
    from ack_items_names [OF this] obtain ms where ms: "r = Inr ms" "ii_delivery_id ` set ms = cd_delivery_id ` set ds" by blast
    have "inert False ok (but (cd_delivery_id ` set ds) holds) s st'"
      using inert_ack_items [OF assms(1) order_refl, of ds s n] a by simp
    with poll s show ?thesis by (auto simp: ms intro: inert_trans inert_but)
  qed
qed

lemma reported:
  assumes "inert False ok (but X holds) st s" "X \<subseteq> \<Union> (waiting_in ` set qs)" "\<not> list_ex is_done_delete qs"
  shows "loses_nothing ok holds st (s\<lparr>dt_queue := dt_queue s @ qs\<rparr>)"
proof -
  have "waiting (s\<lparr>dt_queue := dt_queue s @ qs\<rparr>) = waiting s \<union> \<Union> (waiting_in ` set qs)"
    by (auto simp: waiting_def)
  moreover have "waiting s = waiting st" "list_ex is_done_delete (dt_queue s) = list_ex is_done_delete (dt_queue st)"
    using assms(1) by (simp_all add: waiting_carried done_delete_carried inert_def)
  ultimately show ?thesis
    using assms by (auto simp: loses_nothing_def inert_def steady_def but_def settled_use_def deletions_def known_def)
qed

lemma poll_turn_loses_nothing:
  assumes "polls_by poll ack env"
  shows "loses_nothing ok holds st (poll_turn env st)"
proof -
  have "loses_nothing ok holds st (case then_do (get_poll_wait_seconds 20) (fetch_inbox_items_with_ack env n) st of
      (st, Inr items) \<Rightarrow> st\<lparr>dt_queue := dt_queue st @ [UiPollResult items]\<rparr>
    | (st, Inl e) \<Rightarrow> st\<lparr>dt_queue := dt_queue st @ [UiPollError e]\<rparr>)" for n
  proof -
    obtain s k where w: "get_poll_wait_seconds 20 st = (s, Inr k)"
      by (simp add: get_poll_wait_seconds_def Let_def)
    then have i: "inert False ok holds st s" using inert_poll_wait [of False ok holds st 20] by simp
    obtain s' r where f: "fetch_inbox_items_with_ack env n k s = (s', r)" by fastforce
    note m = inert_trans [OF inert_but [OF i] fetch_moves [OF assms f]]
    show ?thesis using w f reported [OF m] by (cases r) (simp_all add: then_do_def)
  qed
  then have *: "loses_nothing ok holds st (case then_do (get_poll_wait_seconds 20) (fetch_inbox_items_with_ack env n) st of
      (st, Inr items) \<Rightarrow> st\<lparr>dt_queue := dt_queue st @ [UiPollResult items]\<rparr>
    | (st, Inl e) \<Rightarrow> st\<lparr>dt_queue := dt_queue st @ [UiPollError e]\<rparr>)" if "dt_client st = Some n" for n .
  show ?thesis
    using * by (auto simp: poll_turn_def intro: inert_loses_nothing split: option.split)
qed

lemma end_job_loses_nothing:
  assumes "polls_by poll ack env" "leaves_inbox ok holds env" "may_end st i"
  shows "loses_nothing ok holds st (end_job env i st)"
proof (cases "settled_use st")
  case True
  obtain label b j where j: "dt_jobs st ! i = (label, b, j)" by (cases "dt_jobs st ! i")
  let ?st = "st\<lparr>dt_jobs := take i (dt_jobs st) @ drop (Suc i) (dt_jobs st)\<rparr>"
  have i: "i < length (dt_jobs st)" using assms(3) by (simp add: may_end_def)
  then have "(label, b, j) \<in> set (dt_jobs st)" using j nth_mem by fastforce
  then have d: "\<not> is_delete j" using True by (auto simp: settled_use_def deletions_def filter_empty_conv)
  have rest: "loses_nothing ok holds st ?st"
    by (auto simp: loses_nothing_def settled_use_def deletions_def filter_empty_conv known_def waiting_def
        dest: in_set_takeD in_set_dropD)
  obtain s r where run: "run_job env j ?st = (s, r)" by fastforce
  let ?q = "[case r of Inr c \<Rightarrow> UiSuccess c | Inl e \<Rightarrow> if label = None then UiQuietError e else UiError e]
    @ (case label of None \<Rightarrow> [] | Some t \<Rightarrow> [UiIdle t])"
  have "\<exists>X. inert False ok (but X holds) ?st s \<and> X \<subseteq> \<Union> (waiting_in ` set ?q) \<and> \<not> list_ex is_done_delete ?q"
  proof (cases "\<exists>n w. j = JobPoll n w")
    case True
    then obtain n w where "j = JobPoll n w" by blast
    moreover obtain s' r' where f: "fetch_inbox_items_with_ack env n w ?st = (s', r')" by fastforce
    ultimately show ?thesis using fetch_moves [OF assms(1) f] run
      by (cases r') (fastforce simp: then_do_def yield_def split: option.split)+
  next
    case False
    then have "inert False ok (but {} holds) ?st s" using inert_job [OF assms(2) d, of ?st] run by (auto intro: inert_but)
    moreover have "\<not> list_ex is_done_delete ?q" using run_job_result [OF run d] by (auto split: sum.split option.split)
    ultimately show ?thesis by blast
  qed
  then have "loses_nothing ok holds ?st (s\<lparr>dt_queue := dt_queue s @ ?q\<rparr>)" using reported by blast
  with rest show ?thesis unfolding end_job_def j using run by (simp add: loses_nothing_trans)
qed (simp add: loses_nothing_def)

end

section \<open>A whole run\<close>

text \<open>What the user may do: the node is not deleted, and the pingback stays off.\<close>

fun everyday :: "desktop_event \<Rightarrow> bool" where
  "everyday (Command c) \<longleftrightarrow> c \<noteq> DeleteNode \<and> (\<forall>t. c \<noteq> SetPingback True t)"
| "everyday _ \<longleftrightarrow> True"

lemma everyday_command:
  assumes "leaves_inbox ok holds env" "everyday (Command c)"
  shows "loses_nothing ok holds st (fst (run_command env c st))"
proof (cases "harmless c")
  case True
  then show ?thesis using inert_command [OF assms(1), of False] by (simp add: inert_loses_nothing)
next
  case False
  with assms(2) obtain t where "c = SetPingback False t" by (auto simp: harmless_def)
  then show ?thesis
    by (simp add: loses_nothing_def save_config_def Let_def settled_use_def deletions_def known_def waiting_def)
qed

lemma begin_job_loses_nothing:
  assumes "i < length (dt_jobs st)"
  shows "loses_nothing ok holds st (begin_job i st)"
proof -
  have "filter (\<lambda>(_, _, j). is_delete j) (js[i := (l, True, j)]) = []"
    if "filter (\<lambda>(_, _, j). is_delete j) js = []" "js ! i = (l, False, j)" "i < length js" for js :: "(string option \<times> bool \<times> job) list" and l j
    using that nth_mem [OF that(3)] by (fastforce simp: filter_empty_conv dest: set_update_subset_insert [THEN subsetD])
  then show ?thesis
    using assms by (auto simp: begin_job_def loses_nothing_def settled_use_def deletions_def known_def waiting_def
        split: prod.split option.split bool.split)
qed

context inbox_server
begin

lemma desktop_step_loses_nothing:
  assumes "desktop_step env e st st'" "everyday e" "polls_by poll ack env" "leaves_inbox ok holds env"
  shows "loses_nothing ok holds st st'"
  using assms
proof (induction rule: desktop_step.induct)
  case (command c st st' r)
  then show ?case using everyday_command [of ok holds env c st] by simp
qed (simp_all add: begin_job_loses_nothing end_job_loses_nothing poll_turn_loses_nothing queue_turn_loses_nothing)

lemma desktop_run_loses_nothing:
  assumes "desktop_run env es st st'" "list_all everyday es" "polls_by poll ack env" "leaves_inbox ok holds env"
  shows "loses_nothing ok holds st st'"
  using assms
proof (induction rule: desktop_run.induct)
  case (move e st st' es st'')
  then have "loses_nothing ok holds st st'" by (intro desktop_step_loses_nothing) auto
  with move show ?case by (auto intro: loses_nothing_trans)
qed (simp add: loses_nothing_def)

end

section \<open>A client for concrete runs\<close>

definition down :: "py_exc" where
  "down = ARQSConnectionError ''down''"

definition demo_desk_env :: "(site \<times> string list) desktop_env" where
  "demo_desk_env = \<lparr>dk_lib = demo_lib, dk_now = (\<lambda>_. ''noon''), dk_utc = (\<lambda>_. 20), dk_future = (\<lambda>_ _. ''later''),
     dk_fromiso = (\<lambda>_. None), dk_isoformat = (\<lambda>_. ''then''), dk_shown = (\<lambda>_. ''t''), dk_dash = ''-'',
     dk_geometry = (\<lambda>_. ''1x1''), dk_class = (\<lambda>_. ''E''), dk_uuid4 = (\<lambda>_. ''u''), dk_delay = (\<lambda>_. JInt 0), dk_rtt = (\<lambda>_ _ _. ''rtt''),
     dk_confirm = (\<lambda>w _. (w, True)), dk_decide = (\<lambda>w _. (w, Some ''http'', False)), dk_ask = (\<lambda>w _. (w, Some ''Bob'')),
     dk_probe = (\<lambda>w _. (w, Inl down)), dk_register = (\<lambda>wc _. (wc, Inl down)), dk_delete_identity = (\<lambda>wc. (wc, Inl down)),
     dk_create_endpoint = (\<lambda>wc _ _. (wc, Inl down)), dk_request_code = (\<lambda>wc _ _. (wc, Inl down)),
     dk_redeem_code = (\<lambda>wc _ _. (wc, Inl down)), dk_revoke_link = (\<lambda>wc _. (wc, Inr ())),
     dk_list_endpoints = (\<lambda>wc. (wc, Inr [])), dk_list_links = (\<lambda>wc. (wc, Inr [])), dk_send = (\<lambda>wc _. (wc, Inl down)),
     dk_poll = (\<lambda>(w, c) n. case on_site (\<lambda>s. site_poll default_config None inbox_net s n 100) w of (w, r) \<Rightarrow> ((w, c), r)),
     dk_ack = (\<lambda>(w, c) i. case on_site (\<lambda>s. site_ack inbox_net s i ''handled'') w of (w, r) \<Rightarrow> ((w, c), r))\<rparr>"

definition demo_desk_client :: arqs_client where
  "demo_desk_client = \<lparr>ac_base_url = ''https://r'', ac_api_key = Some ''k'', ac_timeout = 30, ac_api_key_header = default_api_key_header,
     ac_user_agent = ''u'', ac_transport_policy = ''prefer_https'', ac_allow_local_http_auth = True, ac_trace_hook = False,
     ac_identity = None, ac_last_requested_url = None, ac_last_final_url = None, ac_last_redirected = False, ac_traced = []\<rparr>"

text \<open>A client with a poll thread and nothing received so far; its URL is empty.\<close>

definition demo_desk :: "(site \<times> string list) desktop" where
  "demo_desk =
     \<lparr>dt_world = (as_world inbox_session, []), dt_config = DEFAULT_CONFIG, dt_links = [], dt_pending_codes = [], dt_seen = {},
      dt_message_index = {}, dt_messages = [], dt_clients = [demo_desk_client], dt_client = Some 0, dt_endpoints = [],
      dt_conversations = [], dt_selected = JNull, dt_queue = [], dt_jobs = [], dt_pollers = 1, dt_poll_stop = False,
      dt_busy = 0, dt_probe_cache = [], dt_pings = [], dt_base_url = [], dt_node_name = [], dt_active_poll = False, dt_poll_wait = ''0'',
      dt_enable_pingback = False, dt_pingback_delay = ''0'', dt_message_entry = [], dt_status = [], dt_clipboard = [],
      dt_header = [], dt_history = [], dt_boxes = [], df_config = None, df_links = None, df_pending_codes = None,
      df_seen = None, df_messages = None, df_identity = None\<rparr>"

lemma demo_leaves_inbox: "leaves_inbox site_ok site_queues demo_desk_env"
  by (simp add: leaves_inbox_def steady_call_def demo_desk_env_def)

text \<open>A turn of the poll thread and a round of the queue.\<close>

lemma demo_desk_run:
  "desktop_run demo_desk_env [PollTurn, QueueTurn] demo_desk (queue_turn demo_desk_env (poll_turn demo_desk_env demo_desk))"
  by (rule desktop_run.move [OF desktop_step.polls desktop_run.move [OF desktop_step.queue desktop_run.stop]])
    (simp add: demo_desk_def)

end
