(* ===== verification/DesktopConsent.thy ===== *)
theory DesktopConsent
  imports DesktopProps Credentials
begin

text \<open>
  The API key of the desktop client and plain HTTP: what \<open>require_client\<close> hands out for authenticated calls, and
  what becomes of the answer that the user gives in the transport dialog.
\<close>

section \<open>The policy of the client in use\<close>

lemma ran_then_do: "then_do a k st = (st', Inr y) \<longleftrightarrow> (\<exists>s x. a st = (s, Inr x) \<and> k x s = (st', Inr y))"
  by (auto simp: then_do_def split: prod.splits sum.splits)

lemma ran_simps:
  "raised r st = (s, Inr x) \<longleftrightarrow> s = st \<and> r = Inr x" "modify f st = (s, Inr u) \<longleftrightarrow> s = f st"
  "yield x st = (s, Inr y) \<longleftrightarrow> s = st \<and> y = x"
  by (auto simp: raised_def modify_def yield_def)

definition policies :: "string set" where
  "policies = {''allow_http'', ''prefer_https''}"

lemma current_policy_known: "current_transport_policy st url = Inr p \<Longrightarrow> p \<in> policies"
  by (auto simp: current_transport_policy_def try_then_def policies_def split: sum.splits if_splits)

lemma current_policy_frame:
  assumes "url \<noteq> []" "dt_config s = dt_config s'"
  shows "current_transport_policy s url = current_transport_policy s' url"
  unfolding current_transport_policy_def assms(2) using assms(1) by simp

text \<open>A client object for the URL with the policy.\<close>

definition built_for :: "string \<Rightarrow> string \<Rightarrow> arqs_client \<Rightarrow> bool" where
  "built_for url p c \<longleftrightarrow> normalize_base_url url = Some (ac_base_url c) \<and> ac_transport_policy c = p
     \<and> ac_api_key_header c \<in> {default_api_key_header, authorization_header}"

lemma new_client_built:
  assumes "new_client url key t hdr ua p b False = Inr c" "p \<in> policies"
  shows "built_for url p c"
proof -
  have "normalize_transport_policy p = Inr p" using assms(2) policy_names by (auto simp: policies_def)
  with assms(1) new_client_fields(1) [OF assms(1)] show ?thesis
    by (auto simp: built_for_def new_client_def try_then_def or_value_error_def split: sum.splits option.splits)
qed

lemma clients_built:
  assumes "p \<in> policies"
  shows "plain_client url p = Inr c \<Longrightarrow> built_for url p c" "saved_client url p file = Inr c \<Longrightarrow> built_for url p c"
proof -
  show "plain_client url p = Inr c \<Longrightarrow> built_for url p c"
    using new_client_built [OF _ assms] unfolding plain_client_def by blast
  assume "saved_client url p file = Inr c"
  then obtain i d where d: "new_client url (Some (ni_api_key i)) (seconds 30) default_api_key_header
      ''arqs_api.py/1.0'' p True False = Inr d" "c = d\<lparr>ac_identity := Some i\<rparr>"
    by (auto simp: saved_client_def client_of_identity_def try_then_def split: sum.splits)
  with new_client_built [OF d(1) assms] show "built_for url p c" by (simp add: built_for_def)
qed

lemma built_for_updates [simp]:
  "built_for url p (adopt_identity i c) = built_for url p c" "built_for url p (c\<lparr>ac_trace_hook := b\<rparr>) = built_for url p c"
  by (simp_all add: built_for_def adopt_identity_def)

lemma used_client [simp]:
  "client_in_use (use_client c st) = Some (c\<lparr>ac_trace_hook := True\<rparr>)" "dt_config (use_client c st) = dt_config st"
  by (simp_all add: client_in_use_def use_client_def)

lemma announce_off [simp]: "announce env False t st = (st, Inr ())"
  by (simp add: announce_def yield_def)

lemma rebuilt_client:
  assumes "rebuild_client_for_current_url env None False st = (st', Inr x)"
    "normalize_server_url (strip (dt_base_url st)) = Inr url" "client_in_use st' \<noteq> None"
  shows "\<exists>c. client_in_use st' = Some c \<and> built_for url (ac_transport_policy c) c \<and> url \<noteq> []
    \<and> current_transport_policy st' url = Inr (ac_transport_policy c)"
proof -
  let ?s = "if strip (dt_base_url st) \<noteq> url then st\<lparr>dt_base_url := url\<rparr> else st"
  have url: "url \<noteq> []"
    using assms by (auto simp: rebuild_client_for_current_url_def ran_then_do ran_simps client_in_use_def)
  obtain p where p: "current_transport_policy ?s url = Inr p"
      "(case df_identity ?s of None \<Rightarrow> client_without_file env url p False ?s
        | Some file \<Rightarrow> client_from_file env url p False file ?s) = (st', Inr x)"
    using assms(1,2) url by (auto simp: rebuild_client_for_current_url_def ran_then_do ran_simps)
  note built = clients_built [OF current_policy_known [OF p(1)], of url]
  have "\<exists>d. st' = use_client d ?s \<and> built_for url p d"
  proof (cases "df_identity ?s")
    case None
    with p(2) obtain e where "plain_client url p = Inr e"
        "st' = use_client (case Option.bind (client_in_use ?s) ac_identity of None \<Rightarrow> e | Some i \<Rightarrow> adopt_identity i e) ?s"
      by (auto simp: client_without_file_def ran_then_do ran_simps simp del: if_split_asm)
    with built(1) show ?thesis by (auto split: option.split)
  next
    case (Some f)
    with p(2) show ?thesis
      by (cases "saved_client url p f") (auto simp: client_from_file_def ran_then_do ran_simps dest!: built simp del: if_split_asm)
  qed
  then obtain d where d: "st' = use_client d ?s" "built_for url p d" by blast
  have "current_transport_policy st' url = current_transport_policy ?s url"
    by (rule current_policy_frame [OF url]) (simp add: d(1))
  with p(1) d url show ?thesis by (simp add: built_for_def)
qed

lemma policy_is_saved:
  assumes "current_transport_policy st url = Inr ''allow_http''" "url \<noteq> [] \<or> normalize_server_url (strip (dt_base_url st)) = Inr []"
  shows "\<exists>u. normalize_server_url url = Inr u \<and> get_saved_transport_preference (dt_config st) u = Inr (Some ''allow_http'')"
proof -
  have "normalize_server_url [] = Inr []" by (simp add: normalize_server_url_def strip_def strip_by_def)
  with assms show ?thesis
    by (auto simp: current_transport_policy_def try_then_def split: sum.splits if_splits)
qed

text \<open>
  What \<open>require_client\<close> hands out: a client for the URL in the widget, with the policy that the saved preferences give.
\<close>

definition saved_as_http :: "'w desktop \<Rightarrow> arqs_client \<Rightarrow> bool" where
  "saved_as_http st c \<longleftrightarrow> (\<exists>url u. (ac_base_url c = url \<or> normalize_base_url url = Some (ac_base_url c)) \<and>
     normalize_server_url url = Inr u \<and> get_saved_transport_preference (dt_config st) u = Inr (Some ''allow_http''))"

lemma handed_client:
  assumes "require_desktop_client env b st = (st', Inr (Some n))"
  shows "ac_transport_policy (dt_clients st' ! n) = ''prefer_https''
    \<or> ac_transport_policy (dt_clients st' ! n) = ''allow_http'' \<and> saved_as_http st' (dt_clients st' ! n)"
proof -
  obtain s c url p where s: "client_in_use s = Some c" "normalize_server_url (strip (dt_base_url s)) = Inr url"
      "current_transport_policy s url = Inr p"
      "(if ac_base_url c \<noteq> url \<or> ac_transport_policy c \<noteq> p then rebuild_client_for_current_url env None False else yield ()) s
        = (st', Inr ())" "dt_client st' = Some n"
    using assms by (auto simp: require_desktop_client_def ran_then_do ran_simps split: option.splits if_splits)
  let ?c = "dt_clients st' ! n"
  have c: "client_in_use st' = Some ?c" using s(5) by (simp add: client_in_use_def)
  obtain url where "current_transport_policy st' url = Inr (ac_transport_policy ?c)"
    "ac_base_url ?c = url \<or> normalize_base_url url = Some (ac_base_url ?c)"
    "url \<noteq> [] \<or> normalize_server_url (strip (dt_base_url st')) = Inr []"
  proof (cases "ac_base_url c \<noteq> url \<or> ac_transport_policy c \<noteq> p")
    case True
    then have "rebuild_client_for_current_url env None False s = (st', Inr ())" using s(4) by simp
    from rebuilt_client [OF this s(2)] c that show thesis by (auto simp: built_for_def)
  next
    case False
    then have "st' = s" using s(4) by (simp add: yield_def)
    with False s c that [of url] show thesis by auto
  qed
  with policy_is_saved [of st' url] current_policy_known [of st' url] show ?thesis
    by (auto simp: policies_def saved_as_http_def)
qed

text \<open>
  C37: Whatever the user answers and the probe finds, a client that \<open>require_client\<close> hands out sends its API key to an
  \<open>http\<close> URL only if the host is a local one, or if the preference that is saved for the server says \<open>allow_http\<close>.
\<close>

theorem desktop_key_stays_off_http:
  assumes "require_desktop_client env b st = (st', Inr (Some n))"
    and "ac_api_key_header (dt_clients st' ! n) \<in> {default_api_key_header, authorization_header}"
    and "request_json (recorded answer) m path body params auth t ([], dt_clients st' ! n) = ((sent, c'), x)" "rq \<in> set sent"
    and "(ac_api_key_header (dt_clients st' ! n), v) \<in> set (hq_headers rq)" "url_scheme (hq_url rq) = ''http''"
  shows "host_is_loopback_or_local (ac_base_url (dt_clients st' ! n)) \<or> saved_as_http st' (dt_clients st' ! n)"
proof -
  note g = carried_key_guarded [OF recorded_request [OF assms(3,4)] assms(5,2)]
  show ?thesis using guard_http [OF g(1)] g(2) assms(6) handed_client [OF assms(1)] by auto
qed

text \<open>
  A consent to HTTP that the user does not ask to remember has no effect: the client that the dialog makes may send its
  key, but \<open>require_client\<close> at once makes another one from the saved preferences, and that one refuses every
  authenticated request to a host that is not local.
\<close>

theorem consent_not_remembered_is_lost:
  assumes "ensure_transport_ready_for_auth env st = (s1, Inr True)" "client_in_use s1 = Some c1"
    and "ac_transport_policy c1 = ''allow_http''" "is_http_url (ac_base_url c1) = Some True"
    and "require_desktop_client env b st = (st', Inr (Some n))" "\<not> saved_as_http st' (dt_clients st' ! n)"
    and "is_http_url (ac_base_url (dt_clients st' ! n)) = Some True"
    and "\<not> host_is_loopback_or_local (ac_base_url (dt_clients st' ! n))"
  shows "ensure_authenticated_transport_allowed c1 = Inr () \<and>
    (\<exists>why. ensure_authenticated_transport_allowed (dt_clients st' ! n) = Inl (ARQSInsecureTransportError why))"
  using assms(3,4,6,7,8) handed_client [OF assms(5)] by (auto simp: ensure_authenticated_transport_allowed_def)

text \<open>A server without HTTPS; the user continues with HTTP and does not tick the box.\<close>

definition plain_probe :: probe_result where
  "plain_probe = \<lparr>pb_original_base_url = ''http://r'', pb_normalized_http_base_url = Some ''http://r'',
     pb_normalized_https_base_url = None, pb_http_attempt = None, pb_https_attempt = None,
     pb_recommended_base_url = Some ''http://r'', pb_classification = ''http_only''\<rparr>"

definition plain_env :: "(site \<times> string list) desktop_env" where
  "plain_env = demo_desk_env\<lparr>dk_probe := (\<lambda>w _. (w, Inr plain_probe))\<rparr>"

definition plain_desk :: "dict \<Rightarrow> (site \<times> string list) desktop" where
  "plain_desk prefs = demo_desk\<lparr>dt_world := (\<lparr>st_db = empty_db, st_seen = [], st_turn = 0\<rparr>, []), dt_base_url := ''http://r'',
     dt_clients := [demo_desk_client\<lparr>ac_identity := Some \<lparr>ni_node_id = ''n'', ni_api_key = ''k'', ni_default_endpoint_id = ''e''\<rparr>\<rparr>],
     dt_config := dict_put ''transport_preferences'' (JObj prefs) DEFAULT_CONFIG\<rparr>"

definition plain_client_of :: "string \<Rightarrow> arqs_client" where
  "plain_client_of policy = demo_desk_client\<lparr>ac_base_url := ''http://r'', ac_user_agent := ''arqs_api.py/1.0'', ac_timeout := seconds 30,
     ac_transport_policy := policy, ac_trace_hook := True,
     ac_identity := Some \<lparr>ni_node_id = ''n'', ni_api_key = ''k'', ni_default_endpoint_id = ''e''\<rparr>\<rparr>"

lemma plain_url:
  "normalize_server_url ''http://r'' = Inr ''http://r''" "strip ''http://r'' = ''http://r''"
  "transport_preference_key ''http://r'' = Inr ''r''" "is_local_server_url ''http://r'' = Inr False"
  "startswith ''http://r'' ''https://'' = False"
  by code_simp+

lemma plain_clients:
  "plain_client ''http://r'' ''allow_http'' = Inr ((plain_client_of ''allow_http'')\<lparr>ac_api_key := None, ac_trace_hook := False, ac_identity := None\<rparr>)"
  "plain_client ''http://r'' ''prefer_https'' = Inr ((plain_client_of ''prefer_https'')\<lparr>ac_api_key := None, ac_trace_hook := False, ac_identity := None\<rparr>)"
  by code_simp+

lemma plain_preference:
  "get_saved_transport_preference config ''http://r'' =
     Inr (case dict_get (dict_of (dict_get config ''transport_preferences'')) ''r'' of
            JStr v \<Rightarrow> if v \<in> set known_preferences then Some v else None
          | _ \<Rightarrow> None)"
  by (simp add: get_saved_transport_preference_def plain_url)

lemma plain_policy:
  "current_transport_policy st ''http://r'' =
     Inr (if dict_get (dict_of (dict_get (dt_config st) ''transport_preferences'')) ''r'' = JStr ''allow_http'' then ''allow_http''
          else ''prefer_https'')"
  by (simp add: current_transport_policy_def plain_preference plain_url known_preferences_def split: json.split)

lemmas plain_steps = require_desktop_client_def ensure_transport_ready_for_auth_def get_transport_probe_result_def
  apply_transport_result_def apply_http_result_def ask_http_only_def settle_def rebuild_client_for_current_url_def
  client_without_file_def client_in_use_def use_client_def then_do_def raised_def modify_def yield_def asked_def announce_def
  say_def set_status_text_def save_config_def adopt_identity_def Let_def dict_get_def dict_of_def known_preferences_def plain_url plain_clients plain_preference plain_policy

lemma plain_handed:
  "case require_desktop_client plain_env False (plain_desk []) of (st, r) \<Rightarrow>
     r = Inr (Some 2) \<and> dt_clients st ! 2 = plain_client_of ''prefer_https'' \<and>
     dict_get (dt_config st) ''transport_preferences'' = JObj [] \<and> dt_status st = ''Continuing with HTTP for this server.''"
  by (simp add: plain_steps plain_env_def plain_desk_def plain_probe_def demo_desk_def demo_desk_env_def
      plain_client_of_def demo_desk_client_def DEFAULT_CONFIG_def dict_of_def)

lemma plain_consented:
  "case ensure_transport_ready_for_auth plain_env (plain_desk []) of (st, r) \<Rightarrow>
     r = Inr True \<and> client_in_use st = Some (plain_client_of ''allow_http'')"
  by (simp add: plain_steps plain_env_def plain_desk_def plain_probe_def demo_desk_def demo_desk_env_def
      plain_client_of_def demo_desk_client_def DEFAULT_CONFIG_def dict_of_def)

lemma remembered_handed:
  "case require_desktop_client plain_env False (plain_desk [(''r'', JStr ''allow_http'')]) of (st, r) \<Rightarrow>
     r = Inr (Some 1) \<and> dt_clients st ! 1 = plain_client_of ''allow_http''"
  by (simp add: plain_steps plain_env_def plain_desk_def plain_probe_def demo_desk_def demo_desk_env_def
      plain_client_of_def demo_desk_client_def DEFAULT_CONFIG_def dict_of_def)

text \<open>What the client sends of a poll.\<close>

definition plain_request :: http_request where
  "plain_request = \<lparr>hq_method = ''GET'', hq_url = ''http://r/inbox'', hq_headers = [(''Accept'', ''application/json''),
     (''User-Agent'', ''arqs_api.py/1.0''), (default_api_key_header, ''k'')], hq_body = None, hq_timeout = seconds 30\<rparr>"

lemma plain_sent:
  "fst (fst (request_json (recorded (\<lambda>_. URLError ''down'')) ''GET'' ''/inbox'' None [] True None
     ([], plain_client_of ''allow_http''))) = [plain_request]"
  by code_simp

theorem desktop_key_stays_off_http_witness:
  "\<exists>st n. require_desktop_client plain_env False (plain_desk [(''r'', JStr ''allow_http'')]) = (st, Inr (Some n))
     \<and> (default_api_key_header, ''k'') \<in> set (hq_headers plain_request) \<and> url_scheme (hq_url plain_request) = ''http''
     \<and> \<not> host_is_loopback_or_local ''http://r'' \<and> saved_as_http st (plain_client_of ''allow_http'')"
proof -
  obtain st where st: "require_desktop_client plain_env False (plain_desk [(''r'', JStr ''allow_http'')]) = (st, Inr (Some 1))"
      "dt_clients st ! 1 = plain_client_of ''allow_http''"
    using remembered_handed by (auto split: prod.splits)
  have fields: "ac_api_key_header (plain_client_of p) = default_api_key_header" "ac_base_url (plain_client_of p) = ''http://r''" for p
    by (simp_all add: plain_client_of_def demo_desk_client_def)
  obtain c' x where sent: "request_json (recorded (\<lambda>_. URLError ''down'')) ''GET'' ''/inbox'' None [] True None
      ([], dt_clients st ! 1) = (([plain_request], c'), x)"
    using plain_sent st(2) by (metis prod.collapse)
  have http: "url_scheme (hq_url plain_request) = ''http''" and far: "\<not> host_is_loopback_or_local ''http://r''" by code_simp+
  have key: "(default_api_key_header, ''k'') \<in> set (hq_headers plain_request)" by (simp add: plain_request_def)
  have "host_is_loopback_or_local (ac_base_url (dt_clients st ! 1)) \<or> saved_as_http st (dt_clients st ! 1)"
    by (rule desktop_key_stays_off_http [OF st(1) _ sent _ _ http, where v = "''k''"]) (simp_all add: st(2) fields key del: One_nat_def)
  then have "saved_as_http st (plain_client_of ''allow_http'')" using far by (simp add: st(2) fields del: One_nat_def)
  with st(1) key http far show ?thesis by blast
qed

lemma nothing_saved:
  assumes "dict_get (dt_config st) ''transport_preferences'' = JObj []"
  shows "\<not> saved_as_http st c"
proof -
  have "get_saved_transport_preference (dt_config st) u \<noteq> Inr (Some p)" for u p
    using assms by (auto simp: get_saved_transport_preference_def try_then_def dict_of_def dict_get_def split: sum.splits)
  then show ?thesis by (simp add: saved_as_http_def)
qed

theorem consent_not_remembered_is_lost_witness:
  "\<exists>st n why. require_desktop_client plain_env False (plain_desk []) = (st, Inr (Some n))
     \<and> dt_status st = ''Continuing with HTTP for this server.''
     \<and> ensure_authenticated_transport_allowed (dt_clients st ! n) = Inl (ARQSInsecureTransportError why)"
proof -
  obtain st where st: "require_desktop_client plain_env False (plain_desk []) = (st, Inr (Some 2))"
      "dt_clients st ! 2 = plain_client_of ''prefer_https''" "dict_get (dt_config st) ''transport_preferences'' = JObj []"
      "dt_status st = ''Continuing with HTTP for this server.''"
    using plain_handed by (auto split: prod.splits)
  obtain s1 where s1: "ensure_transport_ready_for_auth plain_env (plain_desk []) = (s1, Inr True)"
      "client_in_use s1 = Some (plain_client_of ''allow_http'')"
    using plain_consented by (auto split: prod.splits)
  have fields: "ac_base_url (plain_client_of p) = ''http://r''" "ac_transport_policy (plain_client_of p) = p" for p
    by (simp_all add: plain_client_of_def)
  have http: "is_http_url ''http://r'' = Some True" and far: "\<not> host_is_loopback_or_local ''http://r''"
    by code_simp+
  have "\<exists>why. ensure_authenticated_transport_allowed (dt_clients st ! 2) = Inl (ARQSInsecureTransportError why)"
    using consent_not_remembered_is_lost [OF s1 _ _ st(1) nothing_saved [OF st(3)]] http far by (simp add: st(2) fields)
  with st(1,4) show ?thesis by blast
qed

end
