(* ===== verification/DesktopLog.thy ===== *)
theory DesktopLog
  imports DesktopProps
begin

text \<open>
  The messages of the desktop client and their file: whatever the user, the threads and the server do, reading
  the file gives the messages in memory. With it, no delivery is lost while the client runs. Then the restart: what
  it brings back, and what it cannot.
\<close>

section \<open>The file and the memory\<close>

definition log_read :: "'w desktop \<Rightarrow> bool" where
  "log_read st \<longleftrightarrow> load_messages st = (st, Inr ())"

definition log_moves :: "'w desktop \<Rightarrow> 'w desktop \<Rightarrow> bool" where
  "log_moves st st' \<longleftrightarrow> (log_read st \<longrightarrow> log_read st' \<and>
     (distinct (List.map_filter dedupe_key (dt_messages st)) \<longrightarrow> distinct (List.map_filter dedupe_key (dt_messages st'))))"

lemma load_lines_append: "load_lines ls = Inr ms \<Longrightarrow> load_lines (ls @ [Some (JObj m)]) = Inr (ms @ [m])"
  by (induction ls arbitrary: ms rule: load_lines.induct)
    (auto simp: try_then_def split: json.splits sum.splits)

lemma load_lines_written: "load_lines (map (\<lambda>m. Some (JObj m)) ms) = Inr ms"
  by (induction ms) (simp_all add: try_then_def)

lemma log_read_iff:
  "log_read st \<longleftrightarrow> load_lines (case df_messages st of None \<Rightarrow> [] | Some ls \<Rightarrow> ls) = Inr (dt_messages st)
     \<and> dt_message_index st = index_of (dt_messages st)"
proof -
  have "(st\<lparr>dt_messages := ms, dt_message_index := x\<rparr> = st) \<longleftrightarrow> dt_messages st = ms \<and> dt_message_index st = x" for ms x
    by (cases st) auto
  then show ?thesis
    by (auto simp: log_read_def load_messages_def index_of_def split: option.splits sum.splits)
qed

lemma map_filter_append [simp]: "List.map_filter f (xs @ ys) = List.map_filter f xs @ List.map_filter f ys"
  by (simp add: List.map_filter_def)

lemma map_filter_one [simp]: "List.map_filter f [x] = (case f x of None \<Rightarrow> [] | Some y \<Rightarrow> [y])"
  by (simp add: List.map_filter_def split: option.split)

lemma index_of_append [simp]:
  "index_of (ms @ [m]) = (case dedupe_key m of None \<Rightarrow> index_of ms | Some k \<Rightarrow> insert k (index_of ms))"
  by (simp add: index_of_def split: option.split)

lemma log_moves_refl [simp]: "log_moves st st"
  by (simp add: log_moves_def)

lemma log_moves_trans: "log_moves st st' \<Longrightarrow> log_moves st' st'' \<Longrightarrow> log_moves st st''"
  by (auto simp: log_moves_def)

lemma same_messages: "message_state st' = message_state st \<Longrightarrow> log_moves st st'"
  by (simp add: log_moves_def log_read_iff message_state_def)

lemma log_append: "log_moves st (append_message m st)"
proof (cases "dedupe_key m")
  case None
  then show ?thesis by (auto simp: log_moves_def log_read_iff append_message_def load_lines_append)
next
  case (Some k)
  then show ?thesis
    by (auto simp: log_moves_def log_read_iff append_message_def load_lines_append) (auto simp: index_of_def)
qed

text \<open>Here the server does not matter.\<close>

abbreviation idle :: "bool \<Rightarrow> 'w desktop \<Rightarrow> 'w desktop \<Rightarrow> bool" where
  "idle m \<equiv> inert m (\<lambda>_. False) (\<lambda>_ _. True)"

abbreviation at_rest :: "'w desktop \<Rightarrow> 'w desktop \<Rightarrow> bool" where
  "at_rest \<equiv> idle True"

abbreviation at_ease :: "'w desktop \<Rightarrow> 'w desktop \<Rightarrow> bool" where
  "at_ease \<equiv> idle False"

lemma steady_nothing [simp]: "steady (\<lambda>_. False) holds w w'" "steady_call (\<lambda>_. False) holds f"
  by (simp_all add: steady_def steady_call_def)

lemma leaves_nothing [simp]: "leaves_inbox (\<lambda>_. False) holds env"
  by (simp add: leaves_inbox_def)

lemma at_rest_moves: "at_rest st st' \<Longrightarrow> log_moves st st'"
  by (rule same_messages) (simp add: inert_def)

named_theorems log_intros \<open>actions that keep the file of the messages true\<close>

lemma log_then_do [log_intros]:
  assumes "log_moves st (fst (a st))" "\<And>x st'. log_moves st' (fst (k x st'))"
  shows "log_moves st (fst (then_do a k st))"
  using assms by (fastforce simp: then_do_def split: prod.split sum.split intro: log_moves_trans)

lemma log_at_rest [log_intros]: "at_rest st (fst (a st)) \<Longrightarrow> log_moves st (fst (a st))"
  by (rule at_rest_moves)

section \<open>Every step keeps it\<close>

lemma log_finalize: "log_moves st (fst (finalize_sent_packet env og s st))"
proof -
  have "log_moves st (fst (modify (append_message (sent_message og s)) st))" by (simp add: log_append)
  then show ?thesis unfolding finalize_sent_packet_def Let_def
    by (rule log_then_do) (rule at_rest_moves, intro inert_intros, auto)
qed

lemma idle_pingback [inert_intros]: "idle b st (fst (schedule_pingback_if_needed env m st))"
  unfolding schedule_pingback_if_needed_def pingback_def Let_def by (intro inert_intros) simp_all

lemma log_incoming: "log_moves st (fst (handle_incoming_message_item env m st))"
proof -
  let ?s = "st\<lparr>dt_seen := insert (ii_delivery_id m) (dt_seen st)\<rparr>"
  have "log_moves st ?s" by (rule same_messages) (simp add: message_state_def)
  then have "log_moves st (append_message (received_message m) ?s)" by (rule log_moves_trans) (rule log_append)
  moreover have "log_moves s (ensure_message_link_stub env l r s)" for l r s by (rule at_rest_moves) simp
  ultimately have "log_moves st (ensure_message_link_stub env (ii_to_endpoint_id m) (ii_from_endpoint_id m)
      (append_message (received_message m) ?s))"
    by (rule log_moves_trans)
  then have "log_moves st (fst (then_do (modify (\<lambda>st. ensure_message_link_stub env (ii_to_endpoint_id m)
      (ii_from_endpoint_id m) (append_message (received_message m) (st\<lparr>dt_seen := insert (ii_delivery_id m) (dt_seen st)\<rparr>))))
      (\<lambda>_. then_do (modify (log_ping_measurement env m)) (\<lambda>_. then_do (schedule_pingback_if_needed env m) (\<lambda>_. yield True))) st))"
    by (intro log_then_do) (simp, (rule at_rest_moves, intro inert_intros, simp?)+)
  then show ?thesis by (simp add: handle_incoming_message_item_def)
qed

lemma log_items: "log_moves st (fst (handle_items env ms st))"
  by (induction ms arbitrary: st) (auto intro!: log_then_do log_incoming)

lemma idle_report [inert_intros]: "idle b st (fst (report_received env n st))"
  unfolding report_received_def by (intro inert_intros) simp

lemma log_batches: "log_moves st (fst (handle_poll_deliveries env ms st))" "log_moves st (fst (done_poll env ms st))"
  unfolding handle_poll_deliveries_def done_poll_def
  by (rule log_then_do [OF log_items]; rule at_rest_moves; intro inert_intros leaves_nothing)+

lemma log_clear: "log_moves st (fst (clear_local_identity_state env st))"
proof -
  have "log_moves st (save_config env ((save_seen_deliveries (save_pending_codes (save_links
       (st\<lparr>dt_client := None, dt_links := [], dt_pending_codes := [], dt_seen := {}, dt_messages := [],
          dt_message_index := {}, dt_endpoints := [], dt_conversations := [], dt_selected := JNull,
          dt_config := dict_put ''local_endpoint_aliases'' (JObj []) (dt_config st)\<rparr>))))
       \<lparr>df_messages := Some []\<rparr>))"
    by (simp add: log_moves_def log_read_iff save_config_def save_seen_deliveries_def save_pending_codes_def
        save_links_def Let_def index_of_def List.map_filter_def)
  then show ?thesis unfolding clear_local_identity_state_def
    by (rule log_moves_trans) (intro log_intros inert_intros)
qed

lemma log_done_delete: "log_moves st (fst (done_delete env r st))"
proof -
  have "at_rest st (fst (modify (\<lambda>st. (stop_poll_thread st)\<lparr>dt_active_poll := False,
      dt_config := dict_put ''active_polling'' (JBool False) (dt_config st), df_identity := None\<rparr>) st))" by simp
  then show ?thesis unfolding done_delete_def
    by (rule log_then_do [OF at_rest_moves]) (rule log_then_do [OF log_clear], rule at_rest_moves, intro inert_intros)
qed

lemma log_complete: "log_moves st (fst (complete env c st))"
proof (cases c)
  case (DoneSend og s)
  then show ?thesis by (simp add: log_finalize)
next
  case (DoneDelete r)
  then show ?thesis by (simp add: log_done_delete)
next
  case (DonePoll ms)
  then show ?thesis by (simp add: log_batches)
qed (auto simp: done_register_def done_endpoint_def done_link_code_def done_redeem_def done_sever_def done_refresh_def
      split: option.split list.split intro!: at_rest_moves inert_intros)

lemma set_map_filter: "set (List.map_filter f xs) = {y. \<exists>x\<in>set xs. f x = Some y}"
  by (force simp: List.map_filter_def)

lemma distinct_keys_filter: "distinct (List.map_filter f xs) \<Longrightarrow> distinct (List.map_filter f (filter P xs))"
proof (induction xs)
  case (Cons x xs)
  then show ?case by (auto simp: List.map_filter_simps set_map_filter split: option.splits)
qed simp

lemma log_drop: "log_read st \<Longrightarrow> log_moves st (rewrite_messages_file (rebuild_message_index (drop_severed env l r
    (st\<lparr>dt_messages := delete_where P (dt_messages st)\<rparr>))))"
  by (auto simp: log_moves_def log_read_iff rewrite_messages_file_def rebuild_message_index_def drop_severed_def
      save_links_def save_config_def Let_def load_lines_written delete_where_def distinct_keys_filter
      split: option.split)

lemma log_delete_history: "log_moves st (fst (delete_message_history_local env l r st))"
proof -
  let ?s = "rewrite_messages_file (rebuild_message_index (drop_severed env l r
    (st\<lparr>dt_messages := delete_where (of_pair l r) (dt_messages st)\<rparr>)))"
  have "log_moves st ?s" using log_drop [of st] by (auto simp: log_moves_def)
  moreover have "at_rest ?s (fst (then_do (refresh_conversations env) (\<lambda>_. yield n) ?s))" for n :: nat
    by (intro inert_intros)
  ultimately show ?thesis unfolding delete_message_history_local_def Let_def
    by (rule log_moves_trans [OF _ at_rest_moves])
qed

lemma log_delete_command: "log_moves st (fst (delete_message_history env st))"
proof -
  have "log_moves s (fst (then_do (asked (\<lambda>w. dk_confirm env w t)) (\<lambda>confirmed.
      if \<not> confirmed then say env u
      else then_do (delete_message_history_local env l r) (\<lambda>n. say env (v n))) s))" for s t u l r v
  proof (rule log_then_do)
    show "log_moves s (fst (asked (\<lambda>w. dk_confirm env w t) s))" by (intro at_rest_moves inert_asked) simp
    have "log_moves s (fst (then_do (delete_message_history_local env l r) (\<lambda>n. say env (v n)) s))" for s
      by (rule log_then_do [OF log_delete_history]) (rule at_rest_moves, rule inert_say)
    then show "log_moves st' (fst ((if \<not> x then say env u
        else then_do (delete_message_history_local env l r) (\<lambda>n. say env (v n))) st'))" for x st'
      by (simp add: at_rest_moves inert_say)
  qed
  note ask = this
  show ?thesis unfolding delete_message_history_def Let_def
  proof (rule log_then_do)
    show "log_moves st (fst (selected_or_complain st))" by (intro at_rest_moves inert_intros)
  qed (simp only: ask log_moves_refl fst_conv split: option.split, simp)
qed

lemma log_command: "log_moves st (fst (run_command env c st))"
  using at_rest_moves [OF inert_command [where m = True, OF leaves_nothing], of c st env] log_delete_command
  by (cases "c = DeleteHistory") auto

lemma idle_ack_items: "idle b st (fst (ack_items env n ds st))"
proof (induction ds arbitrary: st)
  case (Cons d ds)
  have "idle b s (fst (ack_delivery_now env n i s))" for s i
    using inert_on_client [of "\<lambda>_. False" "\<lambda>_ _. True" "\<lambda>wc. dk_ack env wc i" b s n]
    by (auto simp: ack_delivery_now_def split: prod.split)
  with Cons.IH show ?case by (auto simp: Let_def intro!: inert_intros)
qed (simp add: yield_def)

lemma idle_fetch [inert_intros]: "idle b st (fst (fetch_inbox_items_with_ack env n wait st))"
  unfolding fetch_inbox_items_with_ack_def by (intro inert_intros inert_on_client idle_ack_items) simp

lemma idle_job: "idle b st (fst (run_job env j st))"
proof (cases j)
  case (JobSever n i l r)
  have "idle b st (fst (on_client n (\<lambda>wc. dk_revoke_link env wc i) st))" by (rule inert_on_client) simp
  then show ?thesis by (auto simp: JobSever job_sever_def split: prod.split sum.split)
next
  case (JobSend n og)
  show ?thesis unfolding JobSend run_job.simps job_send_def Let_def by (intro inert_intros leaves_nothing)
qed (auto simp: job_register_def job_redeem_def split_def intro!: inert_intros inert_on_client)

lemma log_end_job: "log_moves st (end_job env i st)"
proof -
  obtain label b j where j: "dt_jobs st ! i = (label, b, j)" by (cases "dt_jobs st ! i")
  let ?st = "st\<lparr>dt_jobs := take i (dt_jobs st) @ drop (Suc i) (dt_jobs st)\<rparr>"
  obtain s r where run: "run_job env j ?st = (s, r)" by fastforce
  have "at_rest ?st s" using idle_job [of True ?st env j] run by simp
  then show ?thesis unfolding end_job_def j using run
    by (intro same_messages) (simp add: inert_def message_state_def)
qed

lemma log_poll_turn: "log_moves st (poll_turn env st)"
proof (cases "dt_poll_stop st \<or> 0 < dt_busy st \<or> dt_client st = None")
  case False
  then obtain n where n: "dt_client st = Some n" by blast
  obtain s r where f: "then_do (get_poll_wait_seconds 20) (fetch_inbox_items_with_ack env n) st = (s, r)" by fastforce
  have "at_rest st (fst (then_do (get_poll_wait_seconds 20) (fetch_inbox_items_with_ack env n) st))" by (intro inert_intros)
  with False n f show ?thesis
    by (intro same_messages) (auto simp: poll_turn_def inert_def message_state_def split: sum.split)
qed (auto simp: poll_turn_def intro!: same_messages simp: message_state_def)

lemma log_queue_turn: "log_moves st (queue_turn env st)"
proof (cases "dt_queue st")
  case (Cons q qs)
  obtain s r where p: "process_item env q (st\<lparr>dt_queue := qs\<rparr>) = (s, r)" by fastforce
  have "log_moves st (st\<lparr>dt_queue := qs\<rparr>)" by (rule same_messages) (simp add: message_state_def)
  moreover have "log_moves (st\<lparr>dt_queue := qs\<rparr>) (fst (process_item env q (st\<lparr>dt_queue := qs\<rparr>)))"
    by (cases q) (auto simp: log_complete log_batches desktop_error_def Let_def intro!: at_rest_moves inert_intros)
  moreover have "log_moves s (s\<lparr>dt_status := t\<rparr>)" for t by (rule same_messages) (simp add: message_state_def)
  ultimately show ?thesis using p by (auto simp: queue_turn_def Cons intro: log_moves_trans split: sum.split)
qed (simp add: queue_turn_def)

lemma log_step: "desktop_step env e st st' \<Longrightarrow> log_moves st st'"
proof (induction rule: desktop_step.induct)
  case (command c st st' r)
  then show ?case using log_command [of st env c] by simp
next
  case (job_begins i st)
  show ?case by (rule same_messages) (auto simp: begin_job_def message_state_def split: prod.split option.split bool.split)
qed (simp_all add: log_end_job log_poll_turn log_queue_turn)

lemma log_run: "desktop_run env es st st' \<Longrightarrow> log_moves st st'"
  by (induction rule: desktop_run.induct) (auto intro: log_moves_trans log_step)

text \<open>
  C36: Whatever the user does, in whatever order the threads run and whatever the server answers, reading the file
  of the messages gives just the messages and the index that the desktop client has in memory, and no packet or
  delivery is stored twice.
\<close>

theorem message_file_agrees:
  assumes "desktop_run env es st st'" "load_messages st = (st, Inr ())"
    "distinct (List.map_filter dedupe_key (dt_messages st))"
  shows "load_messages st' = (st', Inr ()) \<and> distinct (List.map_filter dedupe_key (dt_messages st'))"
  using log_run [OF assms(1)] assms(2,3) by (simp_all add: log_moves_def log_read_def)

section \<open>No delivery is lost\<close>

text \<open>The items that the head of the queue brings, and a stored message of the packet or delivery of an item.\<close>

fun items_of :: "ui_item \<Rightarrow> inbox_item list" where
  "items_of (UiPollResult ms) = ms"
| "items_of (UiSuccess (DonePoll ms)) = ms"
| "items_of _ = []"

definition stored :: "'w desktop \<Rightarrow> inbox_item \<Rightarrow> bool" where
  "stored st m \<longleftrightarrow> (\<exists>d\<in>set (dt_messages st). d = received_message m
     \<or> (dedupe_key d \<noteq> None \<and> dedupe_key d = dedupe_key (received_message m)))"

lemma stored_mono: "stored st m \<Longrightarrow> set (dt_messages st) \<subseteq> set (dt_messages st') \<Longrightarrow> stored st' m"
  unfolding stored_def by blast

text \<open>The index leads to a message, so an item that is not appended is there.\<close>

lemma append_stored:
  assumes "log_read st"
  shows "stored (append_message (received_message m) st) m"
    "set (dt_messages st) \<subseteq> set (dt_messages (append_message (received_message m) st))"
proof -
  have i: "dt_message_index st = index_of (dt_messages st)" using assms by (simp add: log_read_iff)
  show "stored (append_message (received_message m) st) m"
  proof (cases "dedupe_key (received_message m)")
    case None
    then show ?thesis by (simp add: append_message_def stored_def)
  next
    case (Some k)
    show ?thesis
    proof (cases "k \<in> dt_message_index st")
      case True
      then obtain d where "d \<in> set (dt_messages st)" "dedupe_key d = Some k"
        unfolding i index_of_def by (auto simp: set_map_filter)
      with Some True show ?thesis by (auto simp: append_message_def stored_def)
    qed (simp add: append_message_def stored_def Some)
  qed
  show "set (dt_messages st) \<subseteq> set (dt_messages (append_message (received_message m) st))"
    by (auto simp: append_message_def Let_def)
qed

lemma idle_same:
  assumes "\<And>b. idle b s st'"
  shows "dt_messages st' = dt_messages s" "dt_seen st' = dt_seen s"
  using assms [of True] assms [of False] by (simp_all add: inert_def message_state_def)

lemma item_noted:
  assumes "log_read st" "handle_incoming_message_item env m st = (st', r)"
  shows "log_read st' \<and> set (dt_messages st) \<subseteq> set (dt_messages st')
    \<and> (\<forall>i\<in>dt_seen st'. i \<in> dt_seen st \<or> (i = ii_delivery_id m \<and> stored st' m))"
proof (cases "ii_delivery_id m \<in> dt_seen st")
  case True
  with assms show ?thesis by (simp add: handle_incoming_message_item_def)
next
  case False
  let ?s = "st\<lparr>dt_seen := insert (ii_delivery_id m) (dt_seen st)\<rparr>"
  let ?a = "append_message (received_message m) ?s"
  let ?b = "ensure_message_link_stub env (ii_to_endpoint_id m) (ii_from_endpoint_id m) ?a"
  have s: "log_read ?s" "dt_messages ?s = dt_messages st" using assms(1) by (simp_all add: log_read_iff)
  note a = append_stored [OF s(1), of m]
  have "idle b ?a (fst (then_do (modify (log_ping_measurement env m)) (\<lambda>_. then_do (schedule_pingback_if_needed env m)
      (\<lambda>_. yield True)) ?b))" for b
    by (rule inert_trans [of b _ _ _ ?b], simp) (intro inert_intros, simp)
  then have i: "idle b ?a st'" for b
    using assms(2) False by (simp add: handle_incoming_message_item_def then_do_def [of "modify f" for f] modify_def)
  note idle_same [OF i]
  moreover have "dt_seen ?a = insert (ii_delivery_id m) (dt_seen st)" by (simp add: append_message_def Let_def)
  moreover have "log_read st'" using log_incoming [of st env m] assms by (simp add: log_moves_def)
  ultimately show ?thesis using a s(2) by (auto simp: stored_def)
qed

lemma items_noted:
  assumes "log_read st" "handle_items env ms st = (st', r)"
  shows "log_read st' \<and> set (dt_messages st) \<subseteq> set (dt_messages st')
    \<and> (\<forall>i\<in>dt_seen st'. i \<in> dt_seen st \<or> (\<exists>m\<in>set ms. i = ii_delivery_id m \<and> stored st' m))"
  using assms
proof (induction ms arbitrary: st st' r)
  case (Cons m ms)
  obtain s x where s: "handle_incoming_message_item env m st = (s, x)" by fastforce
  note one = item_noted [OF Cons.prems(1) s]
  show ?case
  proof (cases x)
    case (Inl e)
    with Cons.prems(2) s one show ?thesis by (auto simp: then_do_def)
  next
    case (Inr b)
    obtain s' y where s': "handle_items env ms s = (s', y)" by fastforce
    with Cons.prems(2) s Inr have "st' = s'" by (auto simp: then_do_def yield_def split: sum.splits)
    then have rest: "log_read st' \<and> set (dt_messages s) \<subseteq> set (dt_messages st')
        \<and> (\<forall>i\<in>dt_seen st'. i \<in> dt_seen s \<or> (\<exists>m\<in>set ms. i = ii_delivery_id m \<and> stored st' m))"
      using Cons.IH [OF _ s'] one by simp
    with one stored_mono [of s m st'] show ?thesis by fastforce
  qed
qed (simp add: yield_def)

lemma batch_noted:
  assumes "log_read st" "\<And>b n s. idle b s (fst (k n s))" "then_do (handle_items env ms) k st = (st', r)"
    "i \<in> dt_seen st'" "i \<notin> dt_seen st"
  shows "\<exists>m\<in>set ms. i = ii_delivery_id m \<and> stored st' m"
proof -
  obtain s x where s: "handle_items env ms st = (s, x)" by fastforce
  have "idle b s st'" for b
  proof (cases x)
    case (Inr n)
    then have "k n s = (st', r)" using assms(3) s by (simp add: then_do_def)
    then show ?thesis using assms(2) [of b s n] by simp
  qed (use assms(3) s in \<open>simp add: then_do_def\<close>)
  note idle_same [OF this]
  with items_noted [OF assms(1) s] assms(4,5) show ?thesis by (auto simp: stored_def)
qed

lemma queue_turn_noted:
  assumes "log_read st" "settled_use st" "i \<in> dt_seen (queue_turn env st)" "i \<notin> dt_seen st"
  shows "\<exists>m\<in>set (items_of (hd (dt_queue st))). i = ii_delivery_id m \<and> stored (queue_turn env st) m"
proof (cases "dt_queue st")
  case Nil
  with assms(3,4) show ?thesis by (simp add: queue_turn_def)
next
  case (Cons q qs)
  let ?s = "st\<lparr>dt_queue := qs\<rparr>"
  obtain s r where p: "process_item env q ?s = (s, r)" by fastforce
  have t: "dt_messages (queue_turn env st) = dt_messages s" "dt_seen (queue_turn env st) = dt_seen s"
    by (auto simp: queue_turn_def Cons p split: sum.split)
  have read: "log_read ?s" using assms(1) by (simp add: log_read_iff)
  have new: "i \<in> dt_seen s" "i \<notin> dt_seen ?s" using assms(3,4) t by simp_all
  have "\<exists>m\<in>set (items_of q). i = ii_delivery_id m \<and> stored s m"
  proof (cases "items_of q = [] \<and> (\<forall>ms. q \<noteq> UiPollResult ms) \<and> (\<forall>ms. q \<noteq> UiSuccess (DonePoll ms))")
    case True
    have "\<not> is_done_delete q" using assms(2) by (simp add: settled_use_def Cons)
    then have "at_ease ?s (fst (process_item env q ?s))"
    proof (cases q)
      case (UiSuccess c)
      then have "\<not> deletes_or_polls c" using True \<open>\<not> is_done_delete q\<close> by (cases c) simp_all
      then show ?thesis using inert_complete [OF leaves_nothing] by (simp add: UiSuccess)
    qed (use True in \<open>auto simp: desktop_error_def Let_def intro!: inert_intros\<close>)
    with new p show ?thesis by (simp add: inert_def)
  next
    case False
    then consider ms where "q = UiPollResult ms" | ms where "q = UiSuccess (DonePoll ms)"
      by (cases q rule: items_of.cases) auto
    then show ?thesis
    proof cases
      case (1 ms)
      with p have b: "handle_poll_deliveries env ms ?s = (s, r)" by simp
      show ?thesis unfolding 1 items_of.simps
        by (rule batch_noted [OF read _ b [unfolded handle_poll_deliveries_def] new]) (intro inert_intros leaves_nothing)
    next
      case (2 ms)
      with p have b: "done_poll env ms ?s = (s, r)" by simp
      show ?thesis unfolding 2 items_of.simps
        by (rule batch_noted [OF read _ b [unfolded done_poll_def] new]) (intro inert_intros leaves_nothing)
    qed
  qed
  with t show ?thesis by (simp add: stored_def Cons)
qed

text \<open>The other steps take note of nothing.\<close>

lemma step_seen:
  assumes "desktop_step env e st st'" "everyday e" "e \<noteq> QueueTurn"
  shows "dt_seen st' = dt_seen st"
  using assms
proof (induction rule: desktop_step.induct)
  case (command c st st' r)
  show ?case
  proof (cases "harmless c")
    case True
    then show ?thesis using inert_command [where m = False and c = c and st = st and env = env, OF leaves_nothing] command(1) by (simp add: inert_def)
  next
    case False
    with command(2) obtain t where "c = SetPingback False t" by (auto simp: harmless_def)
    with command(1) show ?thesis by (auto simp: modify_def save_config_def Let_def)
  qed
next
  case (job_begins i st)
  show ?case by (auto simp: begin_job_def split: prod.split option.split bool.split)
next
  case (job_ends st i)
  obtain label b j where j: "dt_jobs st ! i = (label, b, j)" by (cases "dt_jobs st ! i")
  let ?st = "st\<lparr>dt_jobs := take i (dt_jobs st) @ drop (Suc i) (dt_jobs st)\<rparr>"
  obtain s r where run: "run_job env j ?st = (s, r)" by fastforce
  have "at_ease ?st s" using idle_job [of False ?st env j] run by simp
  then show ?case unfolding end_job_def j using run by (simp add: inert_def)
next
  case (polls st)
  show ?case
  proof (cases "dt_poll_stop st \<or> 0 < dt_busy st \<or> dt_client st = None")
    case False
    then obtain n where n: "dt_client st = Some n" by blast
    obtain s r where f: "then_do (get_poll_wait_seconds 20) (fetch_inbox_items_with_ack env n) st = (s, r)" by fastforce
    have "at_ease st (fst (then_do (get_poll_wait_seconds 20) (fetch_inbox_items_with_ack env n) st))" by (intro inert_intros)
    with False n f show ?thesis by (auto simp: poll_turn_def inert_def split: sum.split)
  qed (auto simp: poll_turn_def)
qed simp

lemma step_noted:
  assumes "desktop_step env e st st'" "everyday e" "log_read st" "settled_use st" "i \<in> dt_seen st'" "i \<notin> dt_seen st"
  shows "e = QueueTurn \<and> (\<exists>m\<in>set (items_of (hd (dt_queue st))). ii_delivery_id m = i \<and> stored st' m)"
proof -
  have e: "e = QueueTurn" using step_seen [OF assms(1,2)] assms(5,6) by blast
  with assms(1) have "st' = queue_turn env st" by (auto elim: desktop_stepE)
  with queue_turn_noted [OF assms(3,4)] assms(5,6) e show ?thesis by auto
qed

context inbox_server
begin

lemma run_noted:
  assumes "desktop_run env es st st'" "list_all everyday es" "polls_by poll ack env" "leaves_inbox ok holds env"
    and "ok (dt_world st)" "settled_use st" "log_read st" "i \<in> dt_seen st'" "i \<notin> dt_seen st"
  shows "\<exists>es1 es2 s1 s2. es = es1 @ QueueTurn # es2 \<and> desktop_run env es1 st s1 \<and> desktop_step env QueueTurn s1 s2
    \<and> desktop_run env es2 s2 st' \<and> i \<notin> dt_seen s1
    \<and> (\<exists>m\<in>set (items_of (hd (dt_queue s1))). ii_delivery_id m = i \<and> stored s2 m)"
  using assms
proof (induction rule: desktop_run.induct)
  case (move e st st' es st'')
  have e: "everyday e" "list_all everyday es" using move.prems(1) by simp_all
  show ?case
  proof (cases "i \<in> dt_seen st'")
    case True
    from step_noted [OF move.hyps(1) e(1) move.prems(6,5) True move.prems(8)] have q: "e = QueueTurn"
      "\<exists>m\<in>set (items_of (hd (dt_queue st))). ii_delivery_id m = i \<and> stored st' m" by blast+
    show ?thesis
      by (rule exI [of _ "[]"], rule exI [of _ es], rule exI [of _ st], rule exI [of _ st'])
        (use q move.hyps move.prems(8) in \<open>simp add: desktop_run.stop\<close>)
  next
    case False
    have "ok (dt_world st') \<and> settled_use st'"
      using desktop_step_loses_nothing [OF move.hyps(1) e(1) move.prems(2,3)] move.prems(4,5) by (simp add: loses_nothing_def)
    moreover have "log_read st'" using log_step [OF move.hyps(1)] move.prems(6) by (simp add: log_moves_def)
    ultimately obtain es1 es2 s1 s2 where r: "es = es1 @ QueueTurn # es2" "desktop_run env es1 st' s1"
        "desktop_step env QueueTurn s1 s2" "desktop_run env es2 s2 st''" "i \<notin> dt_seen s1"
        "\<exists>m\<in>set (items_of (hd (dt_queue s1))). ii_delivery_id m = i \<and> stored s2 m"
      using move.IH [OF e(2) move.prems(2,3) _ _ _ move.prems(7) False] by blast
    show ?thesis
      by (rule exI [of _ "e # es1"], rule exI [of _ es2], rule exI [of _ s1], rule exI [of _ s2])
        (use r desktop_run.move [OF move.hyps(1) r(2)] in simp)
  qed
qed simp

end

text \<open>
  C35: While the desktop client runs, no delivery is lost: over any sequence of commands, threads and rounds of the
  queue in which the user neither deletes the node nor turns the pingback on (\<open>everyday\<close>, from a state in which
  neither is under way, \<open>settled_use\<close>, and in which the file of the messages has been read), with any failures of the
  network and any answers of the user, a delivery that was queued at the server is still queued there, or waits in
  the queue of the client, or the client had taken note of it before, or it takes note of it in one round of the queue
  that handles an item of the delivery and leaves a message of the same packet in the list of the messages.
\<close>

theorem desktop_loses_nothing:
  assumes "desktop_run env es st st'" "list_all everyday es"
    and "polls_by (\<lambda>w n k. on_site (\<lambda>s. site_poll cfg snapshot net s n k) w) (\<lambda>w i a. on_site (\<lambda>s. site_ack net s i a) w) env"
    and "leaves_inbox site_ok site_queues env" "site_ok (dt_world st)" "settled_use st" "site_queues (dt_world st) i"
    and "load_messages st = (st, Inr ())"
  shows "site_queues (dt_world st') i \<or> i \<in> waiting st' \<or> i \<in> dt_seen st
    \<or> (\<exists>es1 es2 s1 s2. es = es1 @ QueueTurn # es2 \<and> desktop_run env es1 st s1 \<and> desktop_step env QueueTurn s1 s2
        \<and> desktop_run env es2 s2 st' \<and> i \<notin> dt_seen s1 \<and> i \<in> dt_seen st'
        \<and> (\<exists>m\<in>set (items_of (hd (dt_queue s1))). ii_delivery_id m = i
            \<and> (\<exists>d\<in>set (dt_messages s2). d = received_message m
                 \<or> (dedupe_key d \<noteq> None \<and> dedupe_key d = dedupe_key (received_message m)))))"
proof (cases "i \<in> dt_seen st' \<and> i \<notin> dt_seen st")
  case True
  with bot_inbox.run_noted [OF assms(1-6) assms(8) [folded log_read_def], of i] show ?thesis
    unfolding stored_def by blast
next
  case False
  then show ?thesis
    using bot_inbox.desktop_run_loses_nothing [OF assms(1-4)] assms(5-7) by (auto simp: loses_nothing_def known_def)
qed

text \<open>One turn of the poll thread and one round of the queue: the delivery has left the server and is a message.\<close>

theorem desktop_loses_nothing_witness:
  "let st = queue_turn demo_desk_env (poll_turn demo_desk_env demo_desk) in
   \<not> site_queues (dt_world st) ''x1'' \<and> waiting st = {} \<and>
   (\<exists>s1 s2 m. m \<in> set (items_of (hd (dt_queue s1))) \<and> ii_delivery_id m = ''x1'' \<and> desktop_step demo_desk_env QueueTurn s1 s2
     \<and> (\<exists>d\<in>set (dt_messages s2). d = received_message m
          \<or> (dedupe_key d \<noteq> None \<and> dedupe_key d = dedupe_key (received_message m))))"
proof -
  let ?st = "queue_turn demo_desk_env (poll_turn demo_desk_env demo_desk)"
  have gone: "\<not> site_queues (dt_world ?st) ''x1''" "waiting ?st = {}" "dt_seen demo_desk = {}" by code_simp+
  have "list_all everyday [PollTurn, QueueTurn]" by simp
  moreover have "polls_by (\<lambda>w n k. on_site (\<lambda>s. site_poll default_config None inbox_net s n k) w)
      (\<lambda>w i a. on_site (\<lambda>s. site_ack inbox_net s i a) w) demo_desk_env"
    by (simp add: polls_by_def demo_desk_env_def)
  moreover have "site_ok (dt_world demo_desk)" by (simp add: site_ok_def demo_desk_def inbox_session_def)
  moreover have "settled_use demo_desk" by (simp add: settled_use_def deletions_def demo_desk_def)
  moreover have "site_queues (dt_world demo_desk) ''x1''" using demo_sent_queued by (simp add: site_queues_def demo_desk_def)
  moreover have "load_messages demo_desk = (demo_desk, Inr ())" by (simp add: load_messages_def demo_desk_def)
  ultimately show ?thesis
    using desktop_loses_nothing [OF demo_desk_run _ _ demo_leaves_inbox, of default_config None inbox_net "''x1''"] gone
    unfolding Let_def by (metis (no_types, lifting) empty_iff)
qed

section \<open>The restart\<close>

lemma after_then_do:
  "then_do a k st = (st', Inr y) \<Longrightarrow> \<exists>s x. a st = (s, Inr x) \<and> k x s = (st', Inr y)"
  by (auto simp: then_do_def split: prod.splits sum.splits)

lemma raised_iff: "raised r st = (s, Inr x) \<longleftrightarrow> s = st \<and> r = Inr x"
  by (auto simp: raised_def)

lemma modify_iff: "modify f st = (s, Inr x) \<longleftrightarrow> s = f st"
  by (auto simp: modify_def)

lemma prune_frame [simp]:
  "dt_queue (prune_pending_codes env st) = dt_queue st" "df_messages (prune_pending_codes env st) = df_messages st"
  "dt_selected (prune_pending_codes env st) = dt_selected st" "df_seen (prune_pending_codes env st) = df_seen st"
  "dt_links (prune_pending_codes env st) = dt_links st" "dt_messages (prune_pending_codes env st) = dt_messages st"
  by (simp_all add: prune_pending_codes_def save_pending_codes_def Let_def)

lemma load_lists_reads:
  assumes "load_lists env st = (s, Inr ())"
  shows "dt_queue s = dt_queue st" "df_messages s = df_messages st" "dt_selected s = dt_selected st"
    "load_lines (case df_messages st of None \<Rightarrow> [] | Some ls \<Rightarrow> ls) = Inr (dt_messages s)"
    "strings_of (load_json (df_seen st) (JList [])) = Inr (dt_seen s)"
    "dicts_of (load_json (df_links st) (JList [])) = Inr (dt_links s)"
proof -
  obtain ls cs seen where l: "dicts_of (load_json (df_links st) (JList [])) = Inr ls"
      "strings_of (load_json (df_seen st) (JList [])) = Inr seen"
      "load_messages ((prune_pending_codes env (st\<lparr>dt_links := ls, dt_pending_codes := cs\<rparr>))\<lparr>dt_seen := seen\<rparr>) = (s, Inr ())"
    using assms unfolding load_lists_def by (auto simp: raised_iff modify_iff dest!: after_then_do)
  show "dt_queue s = dt_queue st" "df_messages s = df_messages st" "dt_selected s = dt_selected st"
    "load_lines (case df_messages st of None \<Rightarrow> [] | Some ls \<Rightarrow> ls) = Inr (dt_messages s)"
    "strings_of (load_json (df_seen st) (JList [])) = Inr (dt_seen s)"
    "dicts_of (load_json (df_links st) (JList [])) = Inr (dt_links s)"
    using l by (auto simp: load_messages_def split: option.splits sum.splits)
qed

text \<open>A start that succeeds reads the files, and shows the conversations.\<close>

lemma start_reads:
  assumes "start_desktop env st = (st', Inr ())"
  obtains config s1 s2 where "merged_config (df_config st) = Inr config"
    "load_lists env (fresh_desktop config st) = (s1, Inr ())"
    "rebuild_client_for_current_url env None True s1 = (s2, Inr ())"
    "\<exists>s3. refresh_conversations env s2 = (s3, Inr ())" "at_ease s2 st'" "at_rest s2 st'"
proof -
  have *: "inert m (\<lambda>_. False) (\<lambda>_ _. True) s (fst (finish_start env s))" for m s
    unfolding finish_start_def by (intro inert_intros leaves_nothing) simp
  obtain config s1 s2 s3 where s: "merged_config (df_config st) = Inr config"
      "load_lists env (fresh_desktop config st) = (s1, Inr ())"
      "rebuild_client_for_current_url env None True s1 = (s2, Inr ())" "refresh_conversations env s2 = (s3, Inr ())"
      "finish_start env s3 = (st', Inr ())"
    using assms unfolding start_desktop_def by (auto simp: raised_iff modify_iff dest!: after_then_do)
  have "inert m (\<lambda>_. False) (\<lambda>_ _. True) s2 st'" for m
    using inert_trans [OF inert_refresh_conversations [of m _ _ s2 env] *] s(4,5) by simp
  with s that show ?thesis by blast
qed

lemma restart_state:
  assumes "start_desktop env st = (st', Inr ())"
  shows "waiting st' = {}" "load_lines (case df_messages st of None \<Rightarrow> [] | Some ls \<Rightarrow> ls) = Inr (dt_messages st')"
    "strings_of (load_json (df_seen st) (JList [])) = Inr (dt_seen st')"
proof -
  from start_reads [OF assms] obtain config s1 s2 where s: "load_lists env (fresh_desktop config st) = (s1, Inr ())"
      "rebuild_client_for_current_url env None True s1 = (s2, Inr ())" "at_ease s2 st'" "at_rest s2 st'"
    by metis
  have "inert m (\<lambda>_. False) (\<lambda>_ _. True) s1 s2" for m using inert_rebuild_client [of m _ _ s1 env None True] s(2) by simp
  from inert_trans [OF this [of False] s(3)] inert_trans [OF this [of True] s(4)] load_lists_reads [OF s(1)]
  show "waiting st' = {}" "load_lines (case df_messages st of None \<Rightarrow> [] | Some ls \<Rightarrow> ls) = Inr (dt_messages st')"
    "strings_of (load_json (df_seen st) (JList [])) = Inr (dt_seen st')"
    by (simp_all add: inert_def message_state_def fresh_desktop_def waiting_carried) (simp_all add: carried_def)
qed

text \<open>Fetching changes the world and the client objects only.\<close>

definition outside_only :: "'w desktop \<Rightarrow> 'w desktop \<Rightarrow> bool" where
  "outside_only st st' \<longleftrightarrow> (\<exists>w cs. st' = st\<lparr>dt_world := w, dt_clients := cs\<rparr>)"

lemma outside_only_refl [simp]: "outside_only st st"
  by (auto simp: outside_only_def intro!: exI [of _ "dt_world st"] exI [of _ "dt_clients st"])

lemma outside_only_trans: "outside_only st st' \<Longrightarrow> outside_only st' st'' \<Longrightarrow> outside_only st st''"
  by (auto simp: outside_only_def) blast

lemma outside_on_client: "outside_only st (fst (on_client n f st))"
  by (auto simp: outside_only_def on_client_def split: prod.split)

lemma outside_then_do:
  assumes "outside_only st (fst (a st))" "\<And>x s. outside_only s (fst (k x s))"
  shows "outside_only st (fst (then_do a k st))"
  using assms by (fastforce simp: then_do_def split: prod.split sum.split intro: outside_only_trans)

lemma outside_ack: "outside_only st (fst (ack_delivery_now env n i st))"
  using outside_on_client [of st n "\<lambda>wc. dk_ack env wc i"] by (auto simp: ack_delivery_now_def split: prod.split)

lemma outside_ack_items: "outside_only st (fst (ack_items env n ds st))"
  by (induction ds arbitrary: st) (auto simp: Let_def intro!: outside_then_do outside_ack)

lemma outside_fetch: "outside_only st (fst (fetch_inbox_items_with_ack env n wait st))"
  unfolding fetch_inbox_items_with_ack_def by (intro outside_then_do outside_on_client outside_ack_items)

definition poll_kept :: "'w desktop \<Rightarrow> (json option list option \<times> json option \<times> json option \<times> json option)
    \<times> string \<times> json \<times> bool \<times> string \<times> bool \<times> string" where
  "poll_kept st = ((df_messages st, df_seen st, df_links st, df_pending_codes st), dt_base_url st, dt_selected st,
     dt_active_poll st, dt_node_name st, dt_enable_pingback st, dt_pingback_delay st)"

lemma outside_kept: "outside_only st st' \<Longrightarrow> poll_kept st' = poll_kept st \<and> dt_config st' = dt_config st"
  by (auto simp: outside_only_def poll_kept_def)

lemma poll_turn_frame:
  "df_messages (poll_turn env st) = df_messages st" "df_seen (poll_turn env st) = df_seen st"
  "df_links (poll_turn env st) = df_links st" "df_pending_codes (poll_turn env st) = df_pending_codes st"
  "dt_base_url (poll_turn env st) = dt_base_url st" "dt_selected (poll_turn env st) = dt_selected st"
  "dt_active_poll (poll_turn env st) = dt_active_poll st" "dt_node_name (poll_turn env st) = dt_node_name st"
  "dt_enable_pingback (poll_turn env st) = dt_enable_pingback st" "dt_pingback_delay (poll_turn env st) = dt_pingback_delay st"
  "dt_config (poll_turn env st) = dt_config st
     \<or> dt_config (poll_turn env st) = dict_put ''poll_wait_seconds'' (JInt (poll_wait_of 20 (dt_poll_wait st))) (dt_config st)"
proof -
  have "\<exists>s s' q. outside_only s s' \<and> poll_turn env st = s'\<lparr>dt_queue := q\<rparr> \<and> s = fst (get_poll_wait_seconds 20 st)"
    if n: "\<not> dt_poll_stop st" "dt_busy st = 0" "dt_client st = Some n" for n
  proof -
    obtain s k where s: "get_poll_wait_seconds 20 st = (s, Inr k)" by (simp add: get_poll_wait_seconds_def Let_def)
    obtain s' r where f: "fetch_inbox_items_with_ack env n k s = (s', r)" by fastforce
    then have "outside_only s s'" using outside_fetch [of s env n k] by simp
    moreover have "poll_turn env st = s'\<lparr>dt_queue := dt_queue s' @ [case r of Inr items \<Rightarrow> UiPollResult items | Inl e \<Rightarrow> UiPollError e]\<rparr>"
      using n s f by (cases r) (simp_all add: poll_turn_def then_do_def)
    ultimately show ?thesis using s by (metis fst_conv)
  qed
  moreover have "\<exists>n. poll_turn env st = st\<lparr>dt_pollers := n\<rparr>" if "dt_poll_stop st \<or> 0 < dt_busy st \<or> dt_client st = None"
    using that by (intro exI [of _ "if dt_poll_stop st then dt_pollers st - 1 else dt_pollers st"])
      (cases "dt_poll_stop st"; cases "0 < dt_busy st"; cases "dt_client st"; simp add: poll_turn_def)
  ultimately consider s s' q where "outside_only s s'" "poll_turn env st = s'\<lparr>dt_queue := q\<rparr>" "s = fst (get_poll_wait_seconds 20 st)"
    | n where "poll_turn env st = st\<lparr>dt_pollers := n\<rparr>"
    by (metis gr0I option.exhaust)
  then have "poll_kept (poll_turn env st) = poll_kept st \<and> (dt_config (poll_turn env st) = dt_config st
      \<or> dt_config (poll_turn env st) = dict_put ''poll_wait_seconds'' (JInt (poll_wait_of 20 (dt_poll_wait st))) (dt_config st))"
  proof cases
    case (1 s s' q)
    from outside_kept [OF 1(1)] 1(2,3) show ?thesis by (simp add: poll_kept_def get_poll_wait_seconds_def Let_def)
  next
    case (2 n)
    then show ?thesis by (simp add: poll_kept_def)
  qed
  then show "df_messages (poll_turn env st) = df_messages st" "df_seen (poll_turn env st) = df_seen st"
    "df_links (poll_turn env st) = df_links st" "df_pending_codes (poll_turn env st) = df_pending_codes st"
    "dt_base_url (poll_turn env st) = dt_base_url st" "dt_selected (poll_turn env st) = dt_selected st"
    "dt_active_poll (poll_turn env st) = dt_active_poll st" "dt_node_name (poll_turn env st) = dt_node_name st"
    "dt_enable_pingback (poll_turn env st) = dt_enable_pingback st" "dt_pingback_delay (poll_turn env st) = dt_pingback_delay st"
    "dt_config (poll_turn env st) = dt_config st
       \<or> dt_config (poll_turn env st) = dict_put ''poll_wait_seconds'' (JInt (poll_wait_of 20 (dt_poll_wait st))) (dt_config st)"
    by (simp_all add: poll_kept_def)
qed

text \<open>
  C38: A desktop client that is closed between a turn of its poll thread and the next round of the queue restarts
  with the messages and the notes of deliveries that its files had before the turn. What the turn fetched, and has
  acknowledged to the server, is gone.
\<close>

theorem closing_loses_fetched:
  assumes "start_desktop env (close_desktop env (poll_turn env st)) = (st', Inr ())"
  shows "waiting st' = {} \<and> strings_of (load_json (df_seen st) (JList [])) = Inr (dt_seen st') \<and>
    load_lines (case df_messages st of None \<Rightarrow> [] | Some ls \<Rightarrow> ls) = Inr (dt_messages st')"
proof -
  have "df_messages (close_desktop env s) = df_messages s" "df_seen (close_desktop env s) = df_seen s" for s
    by (simp_all add: close_desktop_def save_config_def stop_poll_thread_def Let_def)
  with restart_state [OF assms] show ?thesis by (simp add: poll_turn_frame)
qed


text \<open>A start on empty files, with no server URL and without polling, succeeds.\<close>

lemma blank_start:
  assumes "merged_config (df_config st) = Inr config" "dict_get config ''base_url'' = JStr []"
    "dict_get config ''last_selected_conversation'' = JNull" "dict_get config ''active_polling'' = JBool False"
    "df_links st = None" "df_pending_codes st = None" "df_seen st = None" "df_messages st = None"
  shows "\<exists>st'. start_desktop env st = (st', Inr ())"
proof -
  have url: "normalize_server_url [] = Inr []" by (simp add: normalize_server_url_def strip_def strip_by_def)
  let ?s = "(fresh_desktop config st)\<lparr>dt_links := [], dt_pending_codes := [], dt_seen := {}, dt_messages := [], dt_message_index := {}\<rparr>"
  have "load_lists env (fresh_desktop config st) = (?s, Inr ())"
    using assms by (simp add: load_lists_def then_do_def raised_def modify_def dicts_of_def strings_of_def load_json_def
        iterate_def try_then_def load_messages_def prune_pending_codes_def Let_def fresh_desktop_def List.map_filter_def)
  moreover have "rebuild_client_for_current_url env None True ?s = (?s\<lparr>dt_client := None\<rparr>, Inr ())"
    using assms url by (simp add: rebuild_client_for_current_url_def then_do_def raised_def modify_def fresh_desktop_def
        config_text_def str_value_def strip_def strip_by_def)
  moreover have "refresh_conversations env (?s\<lparr>dt_client := None\<rparr>) = (?s\<lparr>dt_client := None, dt_conversations := []\<rparr>, Inr ())"
    using assms by (simp add: refresh_conversations_def collect_conversations_def try_then_def sort_latest_def
        then_do_def restore_last_selection_def render_selected_conversation_def get_selected_conversation_def fresh_desktop_def)
  ultimately show ?thesis
    using assms by (simp add: start_desktop_def then_do_def raised_def modify_def finish_start_def restore_last_selection_def
        fresh_desktop_def)
qed

text \<open>The delivery \<open>x1\<close> has left the server and waits in the queue of the client; after the restart it is nowhere.\<close>

lemma demo_fetched:
  "waiting (poll_turn demo_desk_env demo_desk) = {''x1''} \<and> \<not> site_queues (dt_world (poll_turn demo_desk_env demo_desk)) ''x1''"
  by code_simp

theorem closing_loses_fetched_witness:
  "waiting (poll_turn demo_desk_env demo_desk) = {''x1''} \<and> \<not> site_queues (dt_world (poll_turn demo_desk_env demo_desk)) ''x1'' \<and>
   (\<exists>st'. start_desktop demo_desk_env (close_desktop demo_desk_env (poll_turn demo_desk_env demo_desk)) = (st', Inr ())
     \<and> waiting st' = {} \<and> dt_messages st' = [] \<and> dt_seen st' = {})"
proof (intro conjI demo_fetched [THEN conjunct1] demo_fetched [THEN conjunct2])
  let ?s = "close_desktop demo_desk_env (poll_turn demo_desk_env demo_desk)"
  let ?saved = "\<lambda>config. dict_update config [(''base_url'', JStr []), (''node_name'', JStr []), (''active_polling'', JBool False),
    (''enable_pingback'', JBool False), (''pingback_delay_seconds'', JStr ''0''), (''last_selected_conversation'', JNull),
    (''window_geometry'', JStr ''1x1'')]"
  obtain config where c: "df_config ?s = Some (JObj (?saved config))"
      "config = DEFAULT_CONFIG \<or> config = dict_put ''poll_wait_seconds'' (JInt (poll_wait_of 20 ''0'')) DEFAULT_CONFIG"
  proof
    let ?p = "poll_turn demo_desk_env demo_desk"
    have d: "dt_base_url demo_desk = []" "dt_node_name demo_desk = []" "dt_pingback_delay demo_desk = ''0''"
      "dt_active_poll demo_desk = False" "dt_enable_pingback demo_desk = False" "dt_selected demo_desk = JNull"
      "dk_geometry demo_desk_env w = ''1x1''" for w
      by (simp_all add: demo_desk_def demo_desk_env_def)
    show "df_config ?s = Some (JObj (?saved (dt_config ?p)))"
      by (simp add: close_desktop_def save_config_def stop_poll_thread_def Let_def poll_turn_frame)
        (simp add: d strip_def strip_by_def is_space_def code_point_def)
    show "dt_config ?p = DEFAULT_CONFIG \<or> dt_config ?p = dict_put ''poll_wait_seconds'' (JInt (poll_wait_of 20 ''0'')) DEFAULT_CONFIG"
      using poll_turn_frame(11) [of demo_desk_env demo_desk] by (simp add: demo_desk_def)
  qed
  have "dict_get (dict_update DEFAULT_CONFIG (?saved DEFAULT_CONFIG)) ''base_url'' = JStr []"
    "dict_get (dict_update DEFAULT_CONFIG (?saved DEFAULT_CONFIG)) ''last_selected_conversation'' = JNull"
    "dict_get (dict_update DEFAULT_CONFIG (?saved DEFAULT_CONFIG)) ''active_polling'' = JBool False"
    "dict_get (dict_update DEFAULT_CONFIG (?saved (dict_put ''poll_wait_seconds'' (JInt (poll_wait_of 20 ''0'')) DEFAULT_CONFIG))) ''base_url'' = JStr []"
    "dict_get (dict_update DEFAULT_CONFIG (?saved (dict_put ''poll_wait_seconds'' (JInt (poll_wait_of 20 ''0'')) DEFAULT_CONFIG))) ''last_selected_conversation'' = JNull"
    "dict_get (dict_update DEFAULT_CONFIG (?saved (dict_put ''poll_wait_seconds'' (JInt (poll_wait_of 20 ''0'')) DEFAULT_CONFIG))) ''active_polling'' = JBool False"
    by code_simp+
  with c have "\<exists>st'. start_desktop demo_desk_env ?s = (st', Inr ())"
    by (intro blank_start [where config = "dict_update DEFAULT_CONFIG (?saved config)"])
      (auto simp: merged_config_def load_json_def close_desktop_def save_config_def stop_poll_thread_def Let_def poll_turn_frame demo_desk_def)
  then obtain st' where st': "start_desktop demo_desk_env ?s = (st', Inr ())" by blast
  have "df_seen demo_desk = None" "df_messages demo_desk = None" by (simp_all add: demo_desk_def)
  with closing_loses_fetched [OF st'] show "\<exists>st'. start_desktop demo_desk_env ?s = (st', Inr ())
     \<and> waiting st' = {} \<and> dt_messages st' = [] \<and> dt_seen st' = {}"
    by (intro exI [of _ st'] conjI st')
      (simp_all add: load_json_def strings_of_def iterate_def try_then_def List.map_filter_def)
qed

theorem message_file_agrees_witness:
  "let st = queue_turn demo_desk_env (poll_turn demo_desk_env demo_desk) in
   load_messages st = (st, Inr ()) \<and> distinct (List.map_filter dedupe_key (dt_messages st))"
proof -
  note demo_desk_run
  moreover have "load_messages demo_desk = (demo_desk, Inr ())" by (simp add: load_messages_def demo_desk_def)
  moreover have "distinct (List.map_filter dedupe_key (dt_messages demo_desk))"
    by (simp add: demo_desk_def List.map_filter_def)
  ultimately show ?thesis unfolding Let_def using message_file_agrees by blast
qed

end
