(* ===== verification/DesktopViews.thy ===== *)
theory DesktopViews
  imports DesktopLog
begin

text \<open>
  What the desktop client shows: the list of conversations, the records of links behind it, and the history of a
  conversation, on which the start of the program depends.
\<close>

section \<open>The list of conversations\<close>

text \<open>The conversations that records or messages belong to.\<close>

definition keys_of :: "dict list \<Rightarrow> string set" where
  "keys_of ds = {k. \<exists>d\<in>set ds. \<exists>l r. key_at d = Inr (l, r) \<and> k = conversation_key l r}"

definition message_time :: "dict \<Rightarrow> string" where
  "message_time m = timestamp_of m ''created_at'' ''received_at''"

text \<open>The entries are found under their keys.\<close>

definition keyed :: "conversation_map \<Rightarrow> bool" where
  "keyed m \<longleftrightarrow> distinct (map fst m) \<and> (\<forall>k c. map_of m k = Some c \<longrightarrow> cv_key c = k)"

definition not_before :: "string \<Rightarrow> conversation_map \<Rightarrow> string \<Rightarrow> bool" where
  "not_before t m k \<longleftrightarrow> (\<exists>c. map_of m k = Some c \<and> t \<le> cv_last_timestamp c)"

lemma keys_of_simps [simp]:
  "keys_of [] = {}" "key_at d = Inr (l, r) \<Longrightarrow> keys_of (d # ds) = insert (conversation_key l r) (keys_of ds)"
  by (auto simp: keys_of_def)

lemma keyed_update: "keyed m \<Longrightarrow> cv_key c = k \<Longrightarrow> keyed (AList.update k c m)"
  by (auto simp: keyed_def distinct_update update_conv)

lemma keys_update [simp]: "fst ` set (AList.update k c m) = insert k (fst ` set m)"
  by (simp add: dom_update)

lemma links_listed:
  assumes "conversations_of_links st ds m = Inr m'" "keyed m"
  shows "keyed m' \<and> fst ` set m' = fst ` set m \<union> keys_of ds"
  using assms
proof (induction ds arbitrary: m)
  case (Cons d ds)
  then obtain l r where k: "key_at d = Inr (l, r)"
    by (auto simp: try_then_def split: sum.splits prod.splits)
  with Cons.prems obtain c where "conversations_of_links st ds (AList.update (conversation_key l r) c m) = Inr m'"
      "cv_key c = conversation_key l r"
    by (auto simp: try_then_def split: sum.splits)
  from Cons.IH [OF this(1) keyed_update [OF Cons.prems(2) this(2)]] k show ?case by auto
qed simp

lemma message_listed:
  assumes "with_message st d m = Inr m'" "keyed m" "key_at d = Inr (l, r)"
  shows "keyed m'" "fst ` set m' = insert (conversation_key l r) (fst ` set m)"
    "not_before (message_time d) m' (conversation_key l r)" "not_before t m k \<Longrightarrow> not_before t m' k"
proof -
  let ?k = "conversation_key l r" let ?t = "timestamp_of d ''created_at'' ''received_at''"
  have time: "message_time d = ?t" by (simp add: message_time_def)
  let ?entry = "\<lambda>title. \<lparr>cv_key = ?k, cv_local_endpoint_id = l, cv_remote_endpoint_id = r, cv_title = title,
    cv_subtitle = case map_of m ?k of None \<Rightarrow> fallback_subtitle st l | Some c \<Rightarrow> cv_subtitle c, cv_last_timestamp = ?t\<rparr>"
  obtain title where "(if case map_of m ?k of None \<Rightarrow> True | Some c \<Rightarrow> cv_last_timestamp c < ?t
      then Inr (AList.update ?k (?entry title) m) else Inr m) = (Inr m' :: py_exc + _)"
    using assms(1,3) that
    by (cases "case map_of m ?k of None \<Rightarrow> fallback_title st (l, r) | Some c \<Rightarrow> Inr (cv_title c)")
      (auto simp: with_message_def try_then_def Let_def)
  then have m': "m' = (if case map_of m ?k of None \<Rightarrow> True | Some c \<Rightarrow> cv_last_timestamp c < ?t
      then AList.update ?k (?entry title) m else m)"
    by (simp split: if_splits)
  show "keyed m'" using assms(2) by (simp add: m' keyed_update)
  show "fst ` set m' = insert ?k (fst ` set m)"
    by (auto simp: m' split: option.split dest!: map_of_SomeD intro: rev_image_eqI)
  show "not_before (message_time d) m' ?k" unfolding time by (auto simp: m' not_before_def update_conv not_less split: option.splits)
  show "not_before t m k \<Longrightarrow> not_before t m' k" by (auto simp: m' not_before_def update_conv split: option.splits)
qed

lemma messages_listed:
  assumes "conversations_of_messages st ds m = Inr m'" "keyed m"
  shows "keyed m' \<and> fst ` set m' = fst ` set m \<union> keys_of ds \<and> (\<forall>t k. not_before t m k \<longrightarrow> not_before t m' k)
    \<and> (\<forall>d\<in>set ds. \<forall>l r. key_at d = Inr (l, r) \<longrightarrow> not_before (message_time d) m' (conversation_key l r))"
  using assms
proof (induction ds arbitrary: m)
  case (Cons d ds)
  then obtain m1 where m1: "with_message st d m = Inr m1" "conversations_of_messages st ds m1 = Inr m'"
    by (auto simp: try_then_def split: sum.splits)
  then obtain l r where k: "key_at d = Inr (l, r)"
    by (auto simp: with_message_def try_then_def split: sum.splits prod.splits)
  note one = message_listed [OF m1(1) Cons.prems(2) k]
  from Cons.IH [OF m1(2) one(1)] one k show ?case by auto
qed simp

lemma sort_latest_props:
  "set (sort_latest cs) = set cs" "distinct (map cv_key cs) \<Longrightarrow> distinct (map cv_key (sort_latest cs))"
  "sorted (rev (map cv_last_timestamp (sort_latest cs)))"
proof -
  show "set (sort_latest cs) = set cs" by (simp add: sort_latest_def)
  show "sorted (rev (map cv_last_timestamp (sort_latest cs)))" by (simp add: sort_latest_def rev_map)
  show "distinct (map cv_key cs) \<Longrightarrow> distinct (map cv_key (sort_latest cs))"
    by (simp add: sort_latest_def distinct_map)
qed

lemma collected:
  assumes "collect_conversations st = Inr cs"
  shows "distinct (map cv_key cs) \<and> cv_key ` set cs = keys_of (dt_links st) \<union> keys_of (dt_messages st) \<and>
    sorted (rev (map cv_last_timestamp cs)) \<and>
    (\<forall>c\<in>set cs. \<forall>d\<in>set (dt_messages st). \<forall>l r.
       key_at d = Inr (l, r) \<and> conversation_key l r = cv_key c \<longrightarrow> message_time d \<le> cv_last_timestamp c)"
proof -
  obtain m m' where m: "conversations_of_links st (dt_links st) [] = Inr m" "conversations_of_messages st (dt_messages st) m = Inr m'"
      "cs = sort_latest (map snd m')"
    using assms by (auto simp: collect_conversations_def try_then_def split: sum.splits)
  have l: "keyed m" "fst ` set m = keys_of (dt_links st)" using links_listed [OF m(1)] by (simp_all add: keyed_def)
  note ms = messages_listed [OF m(2) l(1)]
  then have d: "distinct (map fst m')" and k: "\<And>k c. (k, c) \<in> set m' \<Longrightarrow> cv_key c = k" by (auto simp: keyed_def)
  have keys: "map cv_key (map snd m') = map fst m'" using k by auto
  then have "distinct (map cv_key cs)" unfolding m(3) by (intro sort_latest_props(2)) (simp only: keys d)
  moreover have "cv_key ` set cs = fst ` set m'"
    using arg_cong [OF keys, of set] by (simp add: m(3) sort_latest_props(1) image_image)
  moreover have "message_time d \<le> cv_last_timestamp c"
    if "c \<in> set cs" "d \<in> set (dt_messages st)" "key_at d = Inr (l, r)" "conversation_key l r = cv_key c" for c d l r
  proof -
    from that(1) k have "(cv_key c, c) \<in> set m'" by (auto simp: m(3) sort_latest_props(1))
    then have "map_of m' (cv_key c) = Some c" using d by simp
    with ms that(2-4) show ?thesis by (auto simp: not_before_def)
  qed
  ultimately show ?thesis using ms l(2) sort_latest_props(3) [of "map snd m'"] by (auto simp: m(3))
qed

text \<open>
  C39: The list of conversations has exactly one entry for every pair of endpoints that a link record or a stored
  message is about, the latest first, and none of its messages is later than the time it is sorted by.
\<close>

theorem conversations_complete:
  assumes "collect_conversations st = Inr cs"
  shows "distinct (map cv_key cs) \<and> cv_key ` set cs = keys_of (dt_links st) \<union> keys_of (dt_messages st) \<and>
    sorted (rev (map cv_last_timestamp cs)) \<and>
    (\<forall>c\<in>set cs. \<forall>d\<in>set (dt_messages st). \<forall>l r.
       key_at d = Inr (l, r) \<and> conversation_key l r = cv_key c \<longrightarrow> message_time d \<le> cv_last_timestamp c)"
  by (rule collected [OF assms])

section \<open>The records of the links\<close>

lemma of_pair_record [simp]: "of_pair l r (link_record i md l' r' label c u s) \<longleftrightarrow> l' = l \<and> r' = r"
  by (auto simp: of_pair_def link_record_def dict_get_def str_value_def)

lemma find_filter: "find P (filter Q xs) = find (\<lambda>x. Q x \<and> P x) xs"
  by (induction xs) auto

lemma find_append: "find P (xs @ ys) = (case find P xs of None \<Rightarrow> find P ys | Some x \<Rightarrow> Some x)"
  by (induction xs) auto

definition listed_for :: "string \<Rightarrow> string \<Rightarrow> 'w desktop \<Rightarrow> client_link \<Rightarrow> bool" where
  "listed_for l r st link \<longleftrightarrow> cl_status link = ''active'' \<and> resolve_link_endpoints link st = Some (l, r)"

lemma rebuilt_of_pair: "rebuilt_record env st link = Some d \<Longrightarrow> of_pair l r d \<longleftrightarrow> listed_for l r st link"
  by (auto simp: rebuilt_record_def listed_for_def Let_def split: if_splits option.splits prod.splits)

lemma listed_rebuilt: "listed_for l r st link \<Longrightarrow> \<exists>d. rebuilt_record env st link = Some d"
  by (auto simp: rebuilt_record_def listed_for_def Let_def)

lemma find_rebuilt:
  "find (of_pair l r) (List.map_filter (rebuilt_record env st) ls) =
     Option.bind (find (listed_for l r st) ls) (rebuilt_record env st)"
proof (induction ls)
  case (Cons link ls)
  then show ?case using rebuilt_of_pair [of env st link _ l r] listed_rebuilt [of l r st link env]
    by (cases "rebuilt_record env st link") (auto simp: List.map_filter_simps)
qed (simp add: List.map_filter_simps)

text \<open>
  A refresh makes the server decide: an active link of an own endpoint gets its record, with the label the pair had, and a pair
  without one keeps a record that is not of the server.
\<close>

lemma record_after_refresh:
  "get_link_record l r (rebuild_server_link_records env ls st) =
     (case find (listed_for l r st) ls of
        Some link \<Rightarrow> rebuilt_record env st link
      | None \<Rightarrow> find (\<lambda>d. is_local_stub d \<and> of_pair l r d) (dt_links st))"
proof -
  let ?rebuilt = "List.map_filter (rebuilt_record env st) ls"
  have pair: "of_pair l r d \<longleftrightarrow> record_pair d = (l, r)" for d by (auto simp: of_pair_def record_pair_def)
  have listed: "(l, r) \<in> record_pair ` set ?rebuilt \<longleftrightarrow> find (of_pair l r) ?rebuilt \<noteq> None"
    by (force simp: find_None_iff pair)
  have "get_link_record l r (rebuild_server_link_records env ls st) =
      find (of_pair l r) (?rebuilt @ filter (\<lambda>d. record_pair d \<notin> record_pair ` set ?rebuilt) (filter is_local_stub (dt_links st)))"
    by (simp add: get_link_record_def rebuild_server_link_records_def save_links_def Let_def)
  also have "\<dots> = (case find (of_pair l r) ?rebuilt of Some d \<Rightarrow> Some d
      | None \<Rightarrow> find (\<lambda>d. is_local_stub d \<and> record_pair d \<notin> record_pair ` set ?rebuilt \<and> of_pair l r d) (dt_links st))"
    by (simp add: find_append find_filter conj_commute conj_left_commute split: option.split)
  also have "\<dots> = (case find (listed_for l r st) ls of
        Some link \<Rightarrow> rebuilt_record env st link
      | None \<Rightarrow> find (\<lambda>d. is_local_stub d \<and> of_pair l r d) (dt_links st))"
  proof (cases "find (listed_for l r st) ls")
    case None
    then have "(\<lambda>d. is_local_stub d \<and> record_pair d \<notin> record_pair ` set ?rebuilt \<and> of_pair l r d) = (\<lambda>d. is_local_stub d \<and> of_pair l r d)"
      using listed find_rebuilt [of l r env st ls] by (intro ext) (metis bind.simps(1) pair)
    with None find_rebuilt [of l r env st ls] show ?thesis by simp
  next
    case (Some link)
    then have "listed_for l r st link" by (auto simp: find_Some_iff)
    with listed_rebuilt [OF this, of env] Some find_rebuilt [of l r env st ls] show ?thesis by auto
  qed
  finally show ?thesis .
qed

section \<open>A message that cannot be shown\<close>

lemma lines_hold: "load_lines ls = Inr ms \<Longrightarrow> Some (JObj m) \<in> set ls \<Longrightarrow> m \<in> set ms"
  by (induction ls arbitrary: ms rule: load_lines.induct) (auto simp: try_then_def split: json.splits sum.splits)

lemma map_try_fails: "x \<in> set xs \<Longrightarrow> f x = Inl e \<Longrightarrow> \<exists>e'. map_try f xs = Inl e'"
  by (induction xs) (auto simp: try_then_def split: sum.splits)

lemma messages_of_hold:
  "messages_of (conversation_key l r) ms = Inr ks \<Longrightarrow> m \<in> set ms \<Longrightarrow> key_at m = Inr (l, r) \<Longrightarrow> m \<in> set ks"
  by (induction ms arbitrary: ks) (auto simp: try_then_def split: sum.splits prod.splits if_splits)

text \<open>\<open>render_packet_text\<close> raises an exception for the message.\<close>

definition unreadable :: "'w desktop_env \<Rightarrow> dict \<Rightarrow> bool" where
  "unreadable env m \<longleftrightarrow> (\<exists>e. render_packet_text (dk_lib env) (body_string (dict_get m ''body'')) (dict_of (dict_get m ''data''))
     (dict_of (dict_get m ''headers'')) = Inl e)"

lemma history_fails:
  assumes "m \<in> set ms" "key_at m = Inr (l, r)" "unreadable env m" "cv_key c = conversation_key l r"
  shows "\<exists>e. history_text env c ms = Inl e"
proof (cases "messages_of (cv_key c) ms")
  case (Inr ks)
  then have "m \<in> set (sort_key (message_sort_key env) ks)" using messages_of_hold assms(1,2,4) by auto
  moreover obtain e where "message_line env (cv_title c) m = Inl e"
    using assms(3) by (auto simp: unreadable_def message_line_def try_then_def)
  ultimately obtain e where "map_try (message_line env (cv_title c)) (sort_key (message_sort_key env) ks) = Inl e"
    using map_try_fails by metis
  with Inr show ?thesis by (simp add: history_text_def try_then_def)
qed (simp add: history_text_def try_then_def)

lemma rebuild_keeps_selection:
  "dt_selected (fst (rebuild_client_for_current_url env p b st)) = dt_selected st"
proof -
  have "dt_selected (fst (client_without_file env u q b s)) = dt_selected s"
    "dt_selected (fst (client_from_file env u q b f s)) = dt_selected s" for u q f s
    by (auto simp: client_without_file_def client_from_file_def then_do_def raised_def modify_def announce_def yield_def say_def
        use_client_def set_status_text_def save_config_def Let_def split: sum.split option.split)
  then show ?thesis
    by (auto simp: rebuild_client_for_current_url_def then_do_def raised_def modify_def split: sum.split option.split)
qed

text \<open>The conversation that is selected is in the list as soon as it has a message, and its history is rendered.\<close>

lemma refresh_needs_history:
  assumes "refresh_conversations env st = (st', Inr u)" "m \<in> set (dt_messages st)" "key_at m = Inr (l, r)"
    "dt_selected st = JStr (conversation_key l r)"
  shows "\<not> unreadable env m"
proof
  assume bad: "unreadable env m"
  obtain cs where cs: "collect_conversations st = Inr cs" using assms(1) by (auto simp: refresh_conversations_def split: sum.splits)
  have "conversation_key l r \<in> keys_of (dt_messages st)" using assms(2,3) unfolding keys_of_def by blast
  then have "conversation_key l r \<in> cv_key ` set cs" using collected [OF cs] by blast
  then obtain c where c: "find (\<lambda>c. JStr (cv_key c) = dt_selected st) cs = Some c"
    by (cases "find (\<lambda>c. JStr (cv_key c) = dt_selected st) cs") (auto simp: find_None_iff assms(4))
  then have key: "cv_key c = conversation_key l r" and ne: "cs \<noteq> []" by (auto simp: find_Some_iff assms(4))
  have "truthy (dt_selected st)" by (simp add: assms(4) conversation_key_def)
  then have "get_selected_conversation (st\<lparr>dt_conversations := cs\<rparr>) = Some c" using c by (simp add: get_selected_conversation_def)
  moreover obtain e where "history_text env c (dt_messages st) = Inl e" using history_fails [OF assms(2,3) bad key] by blast
  ultimately have "snd (render_selected_conversation env (st\<lparr>dt_conversations := cs\<rparr>)) = Inl e"
    by (simp add: render_selected_conversation_def Let_def)
  moreover have "restore_last_selection env (st\<lparr>dt_conversations := cs\<rparr>) = render_selected_conversation env (st\<lparr>dt_conversations := cs\<rparr>)"
    using ne by (simp add: restore_last_selection_def assms(4) split: list.split)
  ultimately show False using assms(1) cs by (simp add: refresh_conversations_def then_do_def split: prod.splits)
qed

text \<open>
  C40: One stored message that cannot be rendered, in the conversation that was selected last, keeps the desktop client
  from starting: the constructor of the application raises its exception, every time.
\<close>

theorem unreadable_message_blocks_start:
  assumes "merged_config (df_config st) = Inr config" "dict_get config ''last_selected_conversation'' = JStr (conversation_key l r)"
    and "df_messages st = Some lines" "Some (JObj m) \<in> set lines" "key_at m = Inr (l, r)" "unreadable env m"
  shows "\<exists>st' e. start_desktop env st = (st', Inl e)"
proof (rule ccontr)
  assume "\<not> ?thesis"
  then obtain st' where "start_desktop env st = (st', Inr ())" by (metis (full_types) old.sum.exhaust old.unit.exhaust surj_pair)
  from start_reads [OF this] obtain config' s1 s2 s3 where s: "merged_config (df_config st) = Inr config'"
      "load_lists env (fresh_desktop config' st) = (s1, Inr ())" "rebuild_client_for_current_url env None True s1 = (s2, Inr ())"
      "refresh_conversations env s2 = (s3, Inr ())"
    by metis
  note read = load_lists_reads [OF s(2)]
  have "load_lines lines = Inr (dt_messages s1)" using read(4) assms(3) by (simp add: fresh_desktop_def)
  moreover have "dt_messages s2 = dt_messages s1"
    using inert_rebuild_client [of True "\<lambda>_. False" "\<lambda>_ _. True" s1 env None True] s(3) by (simp add: inert_def message_state_def)
  ultimately have m: "m \<in> set (dt_messages s2)" using lines_hold assms(4) by metis
  have "dt_selected s2 = JStr (conversation_key l r)"
    using rebuild_keeps_selection [of env None True s1] read(3) s(1,3) assms(1,2) by (simp add: fresh_desktop_def)
  from refresh_needs_history [OF s(4) m assms(5) this] assms(6) show False by contradiction
qed

section \<open>Three smaller effects\<close>

text \<open>
  A packet between two endpoints of the same node is stored when it is sent; the copy that arrives has the same
  identifier and is dropped, so the conversation of the receiving endpoint stays empty.
\<close>

lemma own_packet_not_shown:
  assumes "ii_packet_id m \<noteq> []" "ii_packet_id m = se_packet_id s"
  shows "append_message (received_message m) (append_message (sent_message og s) st) = append_message (sent_message og s) st"
proof -
  have "dedupe_key (received_message m) = Some (se_packet_id s)" "dedupe_key (sent_message og s) = Some (se_packet_id s)"
    using assms by (simp_all add: dedupe_key_def received_message_def sent_message_def dict_get_def str_value_def)
  then show ?thesis by (simp add: append_message_def)
qed

text \<open>Polling that is switched off and on again before its thread has looked at the event leaves two threads.\<close>

lemma second_poll_thread:
  "dt_pollers (fst (start_poll_thread env (stop_poll_thread st))) = Suc (dt_pollers st)"
  "\<not> dt_poll_stop (fst (start_poll_thread env (stop_poll_thread st)))"
  by (simp_all add: start_poll_thread_def stop_poll_thread_def then_do_def modify_def say_def set_status_text_def save_config_def Let_def)

text \<open>A name left in the field of the dialog creates an endpoint, also when an existing one is chosen.\<close>

lemma typed_name_creates_endpoint:
  assumes "redeem_link_dialog b w = Some c" "rw_use_existing w" "strip (rw_create_name w) \<noteq> []"
  shows "rc_create_endpoint_name c = strip (rw_create_name w) \<and>
    job_redeem env n code destination (rc_create_endpoint_name c) st =
      then_do (on_client n (\<lambda>wc. dk_create_endpoint env wc (rc_create_endpoint_name c) (Some ''message''))) (\<lambda>e.
      then_do (on_client n (\<lambda>wc. dk_redeem_code env wc code (ce_endpoint_id e))) (\<lambda>link. yield (link, Some e))) st"
  using assms by (auto simp: redeem_link_dialog_def job_redeem_def then_do_def yield_def split: if_splits prod.split sum.split)

section \<open>One message with an unknown charset\<close>

definition poison_message :: dict where
  "poison_message = [(''packet_id'', JStr ''p''), (''direction'', JStr ''incoming''), (''local_endpoint_id'', JStr ''a''),
     (''remote_endpoint_id'', JStr ''b''), (''body'', JStr ''hi''), (''data'', JObj []), (''headers'', JObj poison_headers),
     (''created_at'', JStr ''noon'')]"

definition poisoned_desk :: "(site \<times> string list) desktop" where
  "poisoned_desk = demo_desk\<lparr>df_config := Some (JObj [(''last_selected_conversation'', JStr (conversation_key ''a'' ''b''))]),
     df_messages := Some [None, Some (JObj poison_message)]\<rparr>"

lemma poison_key: "key_at poison_message = Inr (''a'', ''b'')"
  by code_simp

lemma poison_unreadable: "unreadable demo_desk_env poison_message"
proof -
  have "render_packet_text demo_lib (Some ''hi'') [] poison_headers = Inl (OtherException ''unknown encoding: utf-9'')" by code_simp
  then show ?thesis
    by (simp add: unreadable_def poison_message_def demo_desk_env_def dict_get_def body_string_def dict_of_def str_value_def)
qed

theorem unreadable_message_blocks_start_witness:
  "\<exists>st e. start_desktop demo_desk_env poisoned_desk = (st, Inl e)"
proof (rule unreadable_message_blocks_start)
  show "merged_config (df_config poisoned_desk) =
      Inr (dict_update DEFAULT_CONFIG [(''last_selected_conversation'', JStr (conversation_key ''a'' ''b''))])"
    by (simp add: merged_config_def load_json_def poisoned_desk_def)
  show "dict_get (dict_update DEFAULT_CONFIG [(''last_selected_conversation'', JStr (conversation_key ''a'' ''b''))])
      ''last_selected_conversation'' = JStr (conversation_key ''a'' ''b'')"
    by simp
  show "df_messages poisoned_desk = Some [None, Some (JObj poison_message)]" by (simp add: poisoned_desk_def)
  show "Some (JObj poison_message) \<in> set [None, Some (JObj poison_message)]" by simp
qed (rule poison_key, rule poison_unreadable)

theorem conversations_complete_witness:
  "\<exists>cs. collect_conversations (demo_desk\<lparr>dt_messages := [poison_message]\<rparr>) = Inr cs \<and> cv_key ` set cs = {''a|b''}"
proof -
  have collected: "collect_conversations (demo_desk\<lparr>dt_messages := [poison_message]\<rparr>) =
      Inr [\<lparr>cv_key = ''a|b'', cv_local_endpoint_id = ''a'', cv_remote_endpoint_id = ''b'', cv_title = ''Endpoint b'',
        cv_subtitle = ''via a'', cv_last_timestamp = ''noon''\<rparr>]"
    by code_simp
  from conversations_complete [OF this] have "cv_key ` set [\<lparr>cv_key = ''a|b'', cv_local_endpoint_id = ''a'',
      cv_remote_endpoint_id = ''b'', cv_title = ''Endpoint b'', cv_subtitle = ''via a'', cv_last_timestamp = ''noon''\<rparr>] =
      keys_of [] \<union> keys_of [poison_message]"
    by (simp add: demo_desk_def)
  also have "\<dots> = {''a|b''}" using poison_key by (simp add: conversation_key_def)
  finally show ?thesis using collected by blast
qed

end
