(* ===== verification/Spec2Isabelle.thy ===== *)
theory Spec2Isabelle
  imports Mailbox Typing Conventions AdminCli Credentials AppCli BotLinks
    DesktopConsent DesktopViews
begin

text \<open>
  ARQS is a store-and-forward relay for packets. Nodes register at a server, create endpoints, link
  them by short codes, and send packets along the directed routes that a link opens. The server
  queues one delivery per packet, the destination polls its inbox and acknowledges, and both rows
  go. This development models the server (\<open>src/arqs-server/app/\<close>), the client library and the
  application framework on it (\<open>src/apis/\<close>), the Discord adapter (\<open>src/adapters/\<close>) and the desktop client
  (\<open>src/clients/\<close>), and proves what they promise, alone and together.

  \<^bold>\<open>The server.\<close>

  \<^item> \<open>Config\<close> (\<open>config.py\<close>): the configuration dataclasses, the overlay of the parsed TOML file, the
    validation.
  \<^item> \<open>Models\<close> (\<open>models.py\<close>, \<open>db.py\<close>): the store is the record \<open>db\<close>, a list of rows per table.
    Primary keys, foreign keys and \<open>ON DELETE CASCADE\<close> are its operations; \<open>db_ok\<close> is the invariant.
  \<^item> \<open>Settings\<close>, \<open>IpAddr\<close> (\<open>admin_services.py\<close> to line 637): runtime settings, IP rules, the set-up of
    the admin tables, and the part of the standard library's \<open>ipaddress\<close> that decides them.
  \<^item> \<open>AdminOps\<close>, \<open>AdminProps\<close> (\<open>admin_services.py\<close> from line 640): the operator's reports and operations.
    \<open>AdminCli\<close> (\<open>admin_cli.py\<close>): the commands around them, from the parsed options to the text that is printed, the
    exit code and the store; what a disabled node can no longer do.
  \<^item> \<open>AccessCache\<close> (\<open>runtime_access_cache.py\<close>): the per-process snapshot and its watcher.
  \<^item> \<open>Auth\<close>, \<open>Uuid\<close>, \<open>Schemas\<close>, \<open>Services\<close> (\<open>auth.py\<close>, \<open>schemas.py\<close>, \<open>services.py\<close>).
  \<^item> \<open>Notifier\<close> (\<open>inbox_notifier.py\<close>): versions, waiting futures, wake-ups.
  \<^item> \<open>Server\<close> (\<open>main.py\<close>, the handlers), \<open>Api\<close> (\<open>main.py\<close>, routing, middleware, the long poll,
    start-up, maintenance). A handler takes the committed store and returns the store of its last
    commit with the answer or the \<open>HTTPException\<close>. \<open>draws\<close> numbers its readings of the clock and of
    the random source in program order; \<open>env\<close> holds what the process cannot see in the store.
  \<^item> \<open>Machine\<close>: the running server as the relation \<open>step\<close> on worlds (store, notifier, polls, pending
    sends and redemptions). Requests interleave; a send and a redemption may split into check and
    commit; a poll moves only by the clock and its future; maintenance and the operator's changes of settings,
    rules, node statuses and links come in between. \<open>reachable\<close> is its closure. \<open>Typing\<close>: the values
    that the statuses, modes and states in the store may have.
  \<^item> \<open>Mailbox\<close>: the abstract specification. A letter is in the mailbox from its posting until it is signed for,
    its endpoint closes or its node leaves; the handlers refine these events.

  \<^bold>\<open>The client library.\<close>

  \<^item> \<open>PyValues\<close>, \<open>Json\<close>, \<open>Loads\<close>, \<open>Base64\<close>: Python values, the JSON writer and reader, the codec.
  \<^item> \<open>Conventions\<close> (\<open>arqs_conventions.py\<close>): headers, decoding, receipts, reactions.
  \<^item> \<open>Urls\<close>, \<open>Client\<close> (\<open>arqs_api.py\<close>), \<open>Transport\<close> (\<open>appkit/transport.py\<close>): the HTTP client over an
    \<open>urlopen\<close>, its operations, its trace, and the choice of the transport. \<open>Credentials\<close>: what the API
    key may travel over.
  \<^item> \<open>AppStore\<close> (\<open>appkit/store.py\<close>), \<open>Receiver\<close> (\<open>appkit/receiver.py\<close>, \<open>commands.py\<close>): files, contacts, polling,
    dispatch to handlers and commands, the acknowledgement policies. \<open>Reception\<close>: the receiver and the
    server together.
  \<^item> \<open>Outbox\<close>, \<open>Flusher\<close>, \<open>Retries\<close> (\<open>appkit/outbox.py\<close>): the durable queue of packets to send, its
    users as the relation \<open>outbox_step\<close> with crashes between any two effects, its retries.
  \<^item> \<open>App\<close> (\<open>appkit/app.py\<close>, \<open>appkit/notifier.py\<close>): identity, endpoints, links, contacts and notifications of an
    application; \<open>AppRuntime\<close>: its start and its background threads, and the sender of \<open>commands.py\<close>.
    \<open>AppCli\<close> (\<open>appkit/cli.py\<close>): the commands of a shell on the files of an application; its identity is kept for good, and
    without the server nothing is done.
  \<^item> \<open>Delivery\<close>: the outbox and the server's \<open>send_packet\<close> behind a network that may lose the request
    or the answer.

  \<^bold>\<open>The Discord adapter\<close> (\<open>arqs_discord_appkit_bot.py\<close>).

  \<^item> \<open>Bridge\<close>: \<open>DiscordBridgeState\<close> and its file, the splitting of messages, labels, receipt modes.
    \<open>BridgeProps\<close>: what the state promises.
  \<^item> \<open>Bot\<close>: the way of a delivery to Discord and of a message or reaction to ARQS, as functions of a world with
    both; the writes of the state file may fail, as \<open>bo_disk\<close> says; \<open>BotProps\<close>: what happens to a delivery. \<open>BotCommands\<close>: the slash commands and the reconciliation with
    the links of the server; \<open>BotLinks\<close>: what it leaves behind.

  \<^bold>\<open>The desktop client\<close> (\<open>arqs_messages_gui.py\<close>).

  \<^item> \<open>Desktop\<close>: the record \<open>desktop\<close> holds the attributes of \<open>App\<close>, the values of its widgets (\<open>dt_\<close>) and its
    files (\<open>df_\<close>); here are the configuration, link codes, messages, link records and conversations. A method is a
    function from the state to the state and a result or exception; the record \<open>desktop_env\<close> is what it calls.
  \<^item> \<open>DesktopNet\<close>: server URLs, the saved preferences, the probe and its dialogs, the client object in use.
  \<^item> \<open>DesktopOps\<close>: the commands of the buttons, the jobs they start in threads with their callbacks, the queue
    through which threads report, the poll thread, pings and pingbacks.
  \<^item> \<open>DesktopRun\<close>: start, end and commands of the process, and \<open>desktop_step\<close>, in which commands, threads and
    rounds of the queue interleave freely.
  \<^item> \<open>DesktopProps\<close>: which actions leave deliveries alone, and what becomes of a fetched one. \<open>DesktopLog\<close>: the message
    file agrees with the memory, no delivery is lost while the client runs, and what a restart brings back. \<open>DesktopConsent\<close>: the API key and plain HTTP. \<open>DesktopViews\<close>: the
    conversations shown, the link records behind them, and the message that blocks the start.

  \<^bold>\<open>What the lemmas show.\<close> \<open>Models\<close>, \<open>Services\<close> and \<open>Machine\<close>: every operation keeps \<open>db_ok\<close>, and no
  interleaving opens a second active route. \<open>Relay\<close>: an accepted packet is in the inbox of its
  destination, a repeated one is a duplicate, an acknowledgement removes one delivery, the inbox is
  sorted, sound and complete up to its limit, caps and rate limits hold, the clean-up removes only what is dead.
  \<open>Links\<close>: redemption, revocation, deletion of an endpoint. \<open>Machine\<close>: no lost wake-up, one success per
  code. \<open>AccessCache\<close>: when the cached decision is that of the store, and the race in which it is
  not. \<open>Flusher\<close>, \<open>Delivery\<close>: no packet of the outbox is lost, and a retry after a lost answer changes
  nothing. \<open>Retries\<close>: limited attempts end. \<open>Conventions\<close>: what is built is read back. \<open>BotProps\<close>: the adapter
  acknowledges only what it has saved as seen, has failed to save, or has logged as unclaimed, and where it gets stuck.
  \<open>BridgeProps\<close>: the state file reads back, a deleted contact is forgotten, chunks keep the message.

  \<^bold>\<open>Interfaces.\<close> The locale \<open>packet_server\<close> (in \<open>Flusher\<close>) is what the outbox needs of a server: an
  answer without error means that the packet is known there, and what is known stays known. The
  outbox theorems are proved in it; \<open>Delivery\<close> interprets it by the server's handler behind the
  network and discharges both laws from the model of the server. The locale \<open>inbox_server\<close> (in
  \<open>Reception\<close>) is what the receiver needs: polling removes nothing, and an acknowledgement removes
  no other delivery. It is interpreted by the handlers of the inbox and the acknowledgement, in
  \<open>Reception\<close> for the receiver and in \<open>BotProps\<close> for the world of the adapter; the theorem on the desktop client
  rests on the second one too.

  \<^bold>\<open>Bounds and fuel.\<close> Loops run over lists. The allocation of a link code tries twenty draws, as the
  code does; \<open>Loads\<close> reads with fuel, twice the length of the text, and \<open>loads_dumps\<close> shows that it is
  enough for every text the writer produces; a long poll is a machine without a bound, and
  \<open>poll_ends\<close> shows that three moves past its deadline end it.

  \<^bold>\<open>What stays a parameter.\<close> PBKDF2, SHA-256, gzip, the codecs, the clock, the random source, file
  sizes and the network. Text is 8-bit; case mapping is the one of ASCII. Time is in microseconds. Of the desktop
  client also the floating point numbers of the pingback delay and of round trips, the texts of times, and the
  answers in dialogs, which are functions of the world.

  \<^bold>\<open>Not modelled.\<close> The parsing of the command lines by \<open>typer\<close> and
  \<open>argparse\<close>; \<open>arqs-server/app/cli.py\<close>, which only runs \<open>admin_cli.py\<close>;
  the buttons, the registration of the commands and the logging of the adapter; the layout of the window, the
  session log and the terminal trace of the desktop client. The sleep before a pingback is the time until its
  job ends. pydantic's type checks are the types of the requests. SQLite's locking is the atomicity of a commit.
  An \<open>OSError\<close> of a write is modelled for the state file of the adapter only: a full disk under the files of the
  desktop client, those of an application or SQLite is not considered. The migration of tables created by an older release (\<open>ALTER TABLE\<close>) is left out.
\<close>

end
